(* ===== verification/Prelude.thy ===== *)
theory Prelude
  imports Main "HOL-Library.AList" "HOL-Library.List_Lexorder" "HOL-Library.Char_ord"
    "HOL-Library.Product_Lexorder" "HOL-Library.Sublist"
begin

text \<open>
  What the component theories share: the exceptions the Python code raises and catches, the
  dynamically typed values it keeps in \<open>Dict[str, Any]\<close> fields, dictionaries in insertion order,
  the string methods it calls, and computations that thread a state and may raise.

  Strings are lists of 8-bit characters. \<open>lower\<close> maps the ASCII capitals only, which is what
  \<open>str.lower\<close> does on the ASCII names (OUs, group and file names) the program compares.
\<close>

section \<open>Collections of rewrite rules\<close>

named_theorems dict_simps \<open>lookup, update and deletion in association lists\<close>
named_theorems st_simps \<open>computations with a state and exceptions\<close>
named_theorems py_simps \<open>Python values and strings\<close>

section \<open>Exceptions\<close>

text \<open>
  One constructor per exception class that the code raises, or that it catches by name. The
  arguments are the data the handlers look at (an HTTP status, a key), not the messages.
\<close>

datatype exn =
    KeyErr string
  | ValueErr
  | TypeErr
  | AttributeErr
  | IndexErr
  | RuntimeErr
  | NotImplementedErr
  | OSErr
  | FileNotFoundErr
  | ValidationErr
  | InvalidListenerFile
  | ListenerLoadingError
  | ListenerSavingError
  | SchoolMappingLoadingError
  | SchoolAuthorityConfigurationLoadingError
  | ConfigurationError
  | MissingData
  | SkipAttribute
  | UniquenessError
  | UnknownSchool string
  | UnknownSchoolUserRole
  | ObjectNotFoundError
  | UserNotFoundError
  | GroupNotFoundError
  | NoObjectError string string
  | ObjectExistsError string string
  | MissingArgumentError string
  | UnknownRPCCommand
  | APICommunicationError
  | APIRequestError nat
  | ServerError nat
  | InvalidRequest string
  | NoObject
  | LDAPBindErr
  | LDAPExceptionErr
  | PyJWTErr
  | ZMQErr
  | HTTPException nat
  | OtherExn string

text \<open>The subclass tests of the \<open>except\<close> clauses.\<close>

fun is_ObjectNotFoundError :: "exn \<Rightarrow> bool" where
  "is_ObjectNotFoundError ObjectNotFoundError = True"
| "is_ObjectNotFoundError UserNotFoundError = True"
| "is_ObjectNotFoundError GroupNotFoundError = True"
| "is_ObjectNotFoundError _ = False"

fun is_APICommunicationError :: "exn \<Rightarrow> bool" where
  "is_APICommunicationError APICommunicationError = True"
| "is_APICommunicationError (APIRequestError _) = True"
| "is_APICommunicationError (ServerError _) = True"
| "is_APICommunicationError _ = False"

fun is_ServerError :: "exn \<Rightarrow> bool" where
  "is_ServerError (ServerError _) = True"
| "is_ServerError _ = False"

fun is_OSError :: "exn \<Rightarrow> bool" where
  "is_OSError OSErr = True"
| "is_OSError FileNotFoundErr = True"
| "is_OSError _ = False"

text \<open>pydantic's \<open>ValidationError\<close> and its value errors are subclasses of \<open>ValueError\<close>.\<close>

fun is_ValueError :: "exn \<Rightarrow> bool" where
  "is_ValueError ValueErr = True"
| "is_ValueError ValidationErr = True"
| "is_ValueError (NoObjectError _ _) = True"
| "is_ValueError (ObjectExistsError _ _) = True"
| "is_ValueError (MissingArgumentError _) = True"
| "is_ValueError _ = False"

section \<open>Values of \<open>Any\<close>\<close>

text \<open>
  \<open>PSecret\<close> is pydantic's \<open>SecretStr\<close>, \<open>PObj c kwargs\<close> an instance of a client library class
  \<open>c\<close> that the code builds from keyword arguments.
\<close>

datatype pyval =
    PNone
  | PBool bool
  | PInt int
  | PStr string
  | PBytes string
  | PSecret string
  | PDate nat nat nat
  | PList "pyval list"
  | PDict "(string \<times> pyval) list"
  | PObj string "(string \<times> pyval) list"

type_synonym pydict = "(string \<times> pyval) list"

text \<open>The truth value Python gives to a value in \<open>if v\<close> and \<open>not v\<close>.\<close>

fun truthy :: "pyval \<Rightarrow> bool" where
  "truthy PNone = False"
| "truthy (PBool b) = b"
| "truthy (PInt i) = (i \<noteq> 0)"
| "truthy (PStr s) = (s \<noteq> [])"
| "truthy (PBytes s) = (s \<noteq> [])"
| "truthy (PSecret s) = (s \<noteq> [])"
| "truthy (PDate _ _ _) = True"
| "truthy (PList vs) = (vs \<noteq> [])"
| "truthy (PDict d) = (d \<noteq> [])"
| "truthy (PObj _ _) = True"

fun is_PDict :: "pyval \<Rightarrow> bool" where
  "is_PDict (PDict _) = True"
| "is_PDict _ = False"

fun is_PStr :: "pyval \<Rightarrow> bool" where
  "is_PStr (PStr _) = True"
| "is_PStr _ = False"

text \<open>A list of strings stored in a field of type \<open>Any\<close>; anything else is a type error.\<close>

fun strs_of :: "pyval list \<Rightarrow> exn + string list" where
  "strs_of [] = Inr []"
| "strs_of (PStr s # vs) = (case strs_of vs of Inl e \<Rightarrow> Inl e | Inr ss \<Rightarrow> Inr (s # ss))"
| "strs_of (_ # vs) = Inl TypeErr"

fun str_list :: "pyval \<Rightarrow> exn + string list" where
  "str_list (PList vs) = strs_of vs"
| "str_list _ = Inl TypeErr"

lemma strs_of_PStr [simp, py_simps]: "strs_of (map PStr ss) = Inr ss"
  by (induction ss) auto

lemma strs_of_InrD: "strs_of vs = Inr ss \<Longrightarrow> vs = map PStr ss"
  by (induction vs arbitrary: ss rule: strs_of.induct) (auto split: sum.splits)

lemma str_list_InrD: "str_list v = Inr ss \<Longrightarrow> v = PList (map PStr ss)"
  by (cases v) (auto dest: strs_of_InrD)

section \<open>Dictionaries\<close>

text \<open>
  A Python dictionary is an association list in insertion order: \<open>d[k]\<close> and \<open>d.get(k)\<close> are
  \<open>map_of d k\<close>, \<open>d[k] = v\<close> is \<open>AList.update k v d\<close> (in place, else at the end) and
  \<open>del d[k]\<close> is \<open>AList.delete k d\<close>. Keys are distinct.
\<close>

definition wf_dict :: "('k \<times> 'v) list \<Rightarrow> bool" where
  "wf_dict d \<longleftrightarrow> distinct (map fst d)"

definition keys :: "('k \<times> 'v) list \<Rightarrow> 'k set" where
  "keys d = fst ` set d"

lemma keys_Nil [dict_simps]: "keys [] = {}"
  by (simp add: keys_def)

lemma keys_Cons [dict_simps]: "keys ((k, v) # d) = insert k (keys d)"
  by (simp add: keys_def)

lemma keys_dom: "keys d = dom (map_of d)"
  by (simp add: keys_def dom_map_of_conv_image_fst)

lemma keys_update [dict_simps]: "keys (AList.update k v d) = insert k (keys d)"
  by (simp add: keys_dom update_conv')

lemma keys_delete [dict_simps]: "keys (AList.delete k d) = keys d - {k}"
  by (auto simp: keys_dom delete_conv' split: if_splits)

lemma map_of_update [dict_simps]: "map_of (AList.update k v d) = (map_of d)(k \<mapsto> v)"
  by (rule update_conv')

lemma map_of_delete [dict_simps]: "map_of (AList.delete k d) = (map_of d)(k := None)"
  by (rule delete_conv')

lemma map_of_None_iff: "map_of d k = None \<longleftrightarrow> k \<notin> keys d"
  by (auto simp: keys_dom dom_def)

lemma map_of_in_keys: "map_of d k = Some v \<Longrightarrow> k \<in> keys d"
  by (auto simp: keys_dom dom_def)

lemma in_keysE:
  assumes "k \<in> keys d"
  obtains v where "map_of d k = Some v"
  using assms by (auto simp: keys_dom)

lemma wf_dict_Nil [simp, intro]: "wf_dict []"
  by (simp add: wf_dict_def)

lemma wf_dict_Cons [dict_simps]: "wf_dict ((k, v) # d) \<longleftrightarrow> k \<notin> keys d \<and> wf_dict d"
  by (auto simp: wf_dict_def keys_def)

lemma wf_dict_update [simp, intro]: "wf_dict d \<Longrightarrow> wf_dict (AList.update k v d)"
  by (simp add: wf_dict_def distinct_update)

lemma wf_dict_delete [simp, intro]: "wf_dict d \<Longrightarrow> wf_dict (AList.delete k d)"
  by (simp add: wf_dict_def distinct_delete)

lemma set_iff_map_of: "wf_dict d \<Longrightarrow> (k, v) \<in> set d \<longleftrightarrow> map_of d k = Some v"
  by (simp add: wf_dict_def)

lemma wf_dict_filter [simp, intro]: "wf_dict d \<Longrightarrow> wf_dict (filter P d)"
  by (simp add: wf_dict_def distinct_map_filter)

lemma map_of_rev_wf: "wf_dict d \<Longrightarrow> map_of (rev d) = map_of d"
proof (induction d)
  case (Cons x d)
  obtain k v where x: "x = (k, v)" by force
  with Cons show ?case
    by (auto simp: fun_eq_iff map_add_def dict_simps map_of_None_iff [symmetric] split: option.split)
qed simp

lemma map_of_fold_update:
  "map_of (fold (\<lambda>x d. AList.update (k x) (v x) d) xs d) =
     map_of d ++ map_of (rev (map (\<lambda>x. (k x, v x)) xs))"
  by (induction xs arbitrary: d) (auto simp: dict_simps map_add_def fun_eq_iff split: option.split)

lemma wf_dict_fold_update:
  "wf_dict d \<Longrightarrow> wf_dict (fold (\<lambda>x d. AList.update (k x) (v x) d) xs d)"
  by (induction xs arbitrary: d) auto

section \<open>Strings\<close>

definition lower_char :: "char \<Rightarrow> char" where
  "lower_char c = (let n = (of_char c :: nat) in
     if 65 \<le> n \<and> n \<le> 90 then char_of (n + 32) else c)"

definition lower :: "string \<Rightarrow> string" where
  "lower s = map lower_char s"

lemma lower_char_idem [simp]: "lower_char (lower_char c) = lower_char c"
  by (auto simp: lower_char_def Let_def)

lemma lower_idem [simp, py_simps]: "lower (lower s) = lower s"
  by (simp add: lower_def)

lemma lower_append [simp, py_simps]: "lower (s @ t) = lower s @ lower t"
  by (simp add: lower_def)

lemma lower_Nil [simp, py_simps]: "lower [] = []"
  by (simp add: lower_def)

lemma lower_eq_Nil [simp]: "lower s = [] \<longleftrightarrow> s = []"
  by (simp add: lower_def)

lemma length_lower [simp]: "length (lower s) = length s"
  by (simp add: lower_def)

text \<open>A character that is not a letter has no other character lower-cased to it.\<close>

lemma of_char_lower_char:
  "(of_char (lower_char c) :: nat) =
     (if 65 \<le> (of_char c :: nat) \<and> (of_char c :: nat) \<le> 90 then of_char c + 32 else of_char c)"
  by (simp add: lower_char_def Let_def)

lemma lower_char_eq_iff:
  assumes "\<not> (65 \<le> (of_char d :: nat) \<and> (of_char d :: nat) \<le> 90)"
    and "\<not> (97 \<le> (of_char d :: nat) \<and> (of_char d :: nat) \<le> 122)"
  shows "lower_char c = d \<longleftrightarrow> c = d"
proof
  assume eq: "lower_char c = d"
  show "c = d"
  proof (cases "65 \<le> (of_char c :: nat) \<and> (of_char c :: nat) \<le> 90")
    case True
    then have "(of_char d :: nat) = of_char c + 32"
      using of_char_lower_char [of c] eq by simp
    with True assms(2) show ?thesis by simp
  next
    case False
    with eq show ?thesis by (auto simp: lower_char_def Let_def)
  qed
next
  assume "c = d"
  with assms(1) show "lower_char c = d" by (auto simp: lower_char_def Let_def)
qed

lemma lower_char_eq_comma [simp]: "lower_char c = CHR '','' \<longleftrightarrow> c = CHR '',''"
  by (rule lower_char_eq_iff) simp_all

lemma lower_char_eq_hyphen [simp]: "lower_char c = CHR ''-'' \<longleftrightarrow> c = CHR ''-''"
  by (rule lower_char_eq_iff) simp_all

lemma lower_char_comma [simp]: "lower_char CHR '','' = CHR '',''"
  by simp

lemma lower_char_hyphen [simp]: "lower_char CHR ''-'' = CHR ''-''"
  by simp

lemma comma_in_lower: "CHR '','' \<in> set (lower s) \<longleftrightarrow> CHR '','' \<in> set s"
  by (force simp: lower_def image_iff eq_commute [of "CHR '',''"])

text \<open>\<open>s.split(c, 1)[0]\<close>, \<open>s.split(c)[i]\<close> and \<open>s.rsplit(c, 1)[0]\<close>.\<close>

definition split_head :: "char \<Rightarrow> string \<Rightarrow> string" where
  "split_head c s = takeWhile (\<lambda>x. x \<noteq> c) s"

fun split_on :: "char \<Rightarrow> string \<Rightarrow> string list" where
  "split_on c [] = [[]]"
| "split_on c (x # xs) =
     (if x = c then [] # split_on c xs
      else (case split_on c xs of [] \<Rightarrow> [[x]] | w # ws \<Rightarrow> (x # w) # ws))"

definition rsplit_head :: "char \<Rightarrow> string \<Rightarrow> string" where
  "rsplit_head c s =
     (if c \<in> set s then rev (tl (dropWhile (\<lambda>x. x \<noteq> c) (rev s))) else s)"

lemma split_on_nonempty [simp]: "split_on c s \<noteq> []"
  by (induction s) (auto split: list.splits)

lemma split_on_head: "hd (split_on c s) = split_head c s"
  by (induction s) (auto simp: split_head_def split: list.splits)

lemma rsplit_head_append:
  assumes "c \<notin> set ext"
  shows "rsplit_head c (s @ c # ext) = s"
proof -
  have "dropWhile (\<lambda>x. x \<noteq> c) (rev ext @ c # rev s) = c # rev s"
    using assms by (subst dropWhile_append2) auto
  then show ?thesis by (simp add: rsplit_head_def)
qed

section \<open>Computations with a state and exceptions\<close>

text \<open>
  A method that changes a state of type \<open>'s\<close> and may raise: the state after it is returned on
  both outcomes, because Python keeps what was changed before the exception.
\<close>

type_synonym ('s, 'a) st = "'s \<Rightarrow> (exn + 'a) \<times> 's"

definition ret :: "'a \<Rightarrow> ('s, 'a) st" where
  "ret x s = (Inr x, s)"

definition throw :: "exn \<Rightarrow> ('s, 'a) st" where
  "throw e s = (Inl e, s)"

definition lift :: "exn + 'a \<Rightarrow> ('s, 'a) st" where
  "lift r s = (r, s)"

definition bindM :: "('s, 'a) st \<Rightarrow> ('a \<Rightarrow> ('s, 'b) st) \<Rightarrow> ('s, 'b) st" where
  "bindM m f s = (case m s of (Inl e, s') \<Rightarrow> (Inl e, s') | (Inr x, s') \<Rightarrow> f x s')"

definition catchM :: "('s, 'a) st \<Rightarrow> (exn \<Rightarrow> ('s, 'a) st) \<Rightarrow> ('s, 'a) st" where
  "catchM m h s = (case m s of (Inl e, s') \<Rightarrow> h e s' | (Inr x, s') \<Rightarrow> (Inr x, s'))"

text \<open>A list comprehension whose element expression is awaited: left to right, first error wins.\<close>

fun mapM :: "('x \<Rightarrow> ('s, 'a) st) \<Rightarrow> 'x list \<Rightarrow> ('s, 'a list) st" where
  "mapM f [] s = (Inr [], s)"
| "mapM f (x # xs) s =
     (case f x s of
        (Inl e, s') \<Rightarrow> (Inl e, s')
      | (Inr y, s') \<Rightarrow> (case mapM f xs s' of
            (Inl e, s'') \<Rightarrow> (Inl e, s'')
          | (Inr ys, s'') \<Rightarrow> (Inr (y # ys), s'')))"

fun mapE :: "('x \<Rightarrow> exn + 'a) \<Rightarrow> 'x list \<Rightarrow> exn + 'a list" where
  "mapE f [] = Inr []"
| "mapE f (x # xs) =
     (case f x of Inl e \<Rightarrow> Inl e | Inr y \<Rightarrow>
        (case mapE f xs of Inl e \<Rightarrow> Inl e | Inr ys \<Rightarrow> Inr (y # ys)))"

definition bindE :: "exn + 'a \<Rightarrow> ('a \<Rightarrow> exn + 'b) \<Rightarrow> exn + 'b" where
  "bindE r f = (case r of Inl e \<Rightarrow> Inl e | Inr x \<Rightarrow> f x)"

lemma bindE_simps [simp, st_simps]:
  "bindE (Inl e) f = Inl e" "bindE (Inr x) f = f x"
  by (simp_all add: bindE_def)

lemma bindE_InrE [elim!]:
  assumes "bindE r f = Inr y"
  obtains x where "r = Inr x" "f x = Inr y"
  using assms by (cases r) auto

lemma bindE_Inr_iff [st_simps]: "bindE r f = Inr y \<longleftrightarrow> (\<exists>x. r = Inr x \<and> f x = Inr y)"
  by (cases r) auto

lemma ret_apply [simp, st_simps]: "ret x s = (Inr x, s)"
  by (simp add: ret_def)

lemma throw_apply [simp, st_simps]: "throw e s = (Inl e, s)"
  by (simp add: throw_def)

lemma lift_apply [simp, st_simps]: "lift r s = (r, s)"
  by (simp add: lift_def)

lemma bindM_ret [st_simps]: "bindM (ret x) f = f x"
  by (rule ext) (simp add: bindM_def)

lemma bindM_throw [st_simps]: "bindM (throw e) f = throw e"
  by (rule ext) (simp add: bindM_def)

lemma bindM_assoc: "bindM (bindM m f) g = bindM m (\<lambda>x. bindM (f x) g)"
  by (rule ext) (simp add: bindM_def split: prod.splits sum.splits)

lemma bindM_InrE:
  assumes "bindM m f s = (Inr y, s'')"
  obtains x s' where "m s = (Inr x, s')" "f x s' = (Inr y, s'')"
  using assms by (auto simp: bindM_def split: prod.splits sum.splits)

lemma mapE_InrD: "mapE f xs = Inr ys \<Longrightarrow> list_all2 (\<lambda>x y. f x = Inr y) xs ys"
  by (induction xs arbitrary: ys) (auto split: sum.splits)

lemma mapE_Inl_iff: "(\<exists>e. mapE f xs = Inl e) \<longleftrightarrow> (\<exists>x \<in> set xs. \<exists>e. f x = Inl e)"
  by (induction xs) (auto split: sum.splits)

lemma mapE_all_Inr: "(\<And>x. x \<in> set xs \<Longrightarrow> f x = Inr (g x)) \<Longrightarrow> mapE f xs = Inr (map g xs)"
  by (induction xs) auto

text \<open>What every step keeps, \<open>mapM\<close> keeps.\<close>

lemma mapM_preserves:
  assumes step: "\<And>x s. x \<in> set xs \<Longrightarrow> P s \<Longrightarrow> P (snd (f x s))" and init: "P s"
  shows "P (snd (mapM f xs s))"
  using assms
proof (induction xs arbitrary: s)
  case Nil
  then show ?case by simp
next
  case (Cons x xs)
  obtain r s' where fx: "f x s = (r, s')" by force
  have "P s'" using Cons.prems(1) [of x s] Cons.prems(2) fx by simp
  then have "P (snd (mapM f xs s'))" using Cons.IH Cons.prems(1) by simp
  with \<open>P s'\<close> fx show ?case by (auto split: sum.splits prod.splits)
qed

text \<open>A \<open>for\<close> loop whose body may raise: the exception ends the loop.\<close>

fun for_each :: "('x \<Rightarrow> ('s, unit) st) \<Rightarrow> 'x list \<Rightarrow> ('s, unit) st" where
  "for_each step [] s = (Inr (), s)"
| "for_each step (x # xs) s =
     (case step x s of (Inl e, s') \<Rightarrow> (Inl e, s') | (Inr _, s') \<Rightarrow> for_each step xs s')"

text \<open>Coroutines that are awaited together: all of them run, the first exception is raised.\<close>

fun gather :: "('s, 'a) st list \<Rightarrow> ('s, 'a list) st" where
  "gather [] s = (Inr [], s)"
| "gather (m # ms) s =
     (case m s of (r, s') \<Rightarrow> (case gather ms s' of (rs, s'') \<Rightarrow>
        (bindE r (\<lambda>x. bindE rs (\<lambda>xs. Inr (x # xs))), s'')))"

lemma for_each_preserves:
  assumes "\<And>x s. x \<in> set xs \<Longrightarrow> P s \<Longrightarrow> P (snd (step x s))" "P s"
  shows "P (snd (for_each step xs s))"
  using assms
proof (induction xs arbitrary: s)
  case (Cons x xs)
  obtain r s' where step: "step x s = (r, s')" by force
  have "P s'" using Cons.prems(1) [of x s] Cons.prems(2) step by simp
  then show ?case using Cons.IH [of s'] Cons.prems(1) step by (cases r) auto
qed simp

text \<open>An invariant of the state that a computation keeps, on both outcomes.\<close>

definition preserves :: "('s \<Rightarrow> bool) \<Rightarrow> ('s, 'a) st \<Rightarrow> bool" where
  "preserves P m \<longleftrightarrow> (\<forall>s. P s \<longrightarrow> P (snd (m s)))"

lemma preservesI: "(\<And>s. P s \<Longrightarrow> P (snd (m s))) \<Longrightarrow> preserves P m"
  by (simp add: preserves_def)

lemma preservesD: "preserves P m \<Longrightarrow> P s \<Longrightarrow> P (snd (m s))"
  by (simp add: preserves_def)

lemma preserves_ret [simp]: "preserves P (ret x)"
  by (simp add: preserves_def)

lemma preserves_bindM:
  assumes "preserves P m" "\<And>x. preserves P (f x)"
  shows "preserves P (bindM m f)"
proof (rule preservesI)
  fix s assume "P s"
  obtain r s' where m: "m s = (r, s')" by force
  have "P s'" using preservesD [OF assms(1) \<open>P s\<close>] m by simp
  with m show "P (snd (bindM m f s))"
    using preservesD [OF assms(2)] by (cases r) (simp_all add: bindM_def)
qed

lemma bindM_apply [st_simps]:
  "bindM m f s = (case m s of (Inl e, s') \<Rightarrow> (Inl e, s') | (Inr x, s') \<Rightarrow> f x s')"
  by (rule bindM_def)

section \<open>Sorted lists of distinct keys\<close>

lemma sorted_distinct_set_eq:
  fixes xs ys :: "'a :: linorder list"
  assumes "sorted xs" "distinct xs" "sorted ys" "distinct ys" "set xs = set ys"
  shows "xs = ys"
  using assms by (rule sorted_distinct_set_unique)

lemma sort_distinct_perm:
  fixes xs ys :: "'a :: linorder list"
  assumes "distinct xs" "distinct ys" "set xs = set ys"
  shows "sort xs = sort ys"
  using assms by (intro sorted_distinct_set_eq) auto

end
