(* ===== verification/Regex.thy ===== *)
theory Regex
  imports Prelude
begin

text \<open>
  The part of Python's \<open>re\<close> module that the patterns of the program use: literals, greedy and
  lazy repetitions of a character class, named groups, back-references and \<open>$\<close>, with or without
  \<open>IGNORECASE\<close>. \<open>matches\<close> lists every way to match, in the order in which the backtracking
  engine tries them, so that \<open>re_match\<close> is the first of the list. \<open>re.match\<close> anchors the
  pattern at the start of the text and not at its end.
\<close>

section \<open>Patterns and the backtracking matcher\<close>

datatype cclass = AnyChar | NotChar char

fun in_class :: "cclass \<Rightarrow> char \<Rightarrow> bool" where
  "in_class AnyChar c = (c \<noteq> CHR 0x0A)"
| "in_class (NotChar d) c = (c \<noteq> d)"

datatype regex =
    Lit string
  | Plus cclass
  | PlusLazy cclass
  | Star cclass
  | OptLit string
  | Group string regex
  | Backref string
  | EndText

type_synonym groups = "(string \<times> string) list"

definition same_text :: "bool \<Rightarrow> string \<Rightarrow> string \<Rightarrow> bool" where
  "same_text ic u v = (if ic then lower u = lower v else u = v)"

definition run_length :: "cclass \<Rightarrow> string \<Rightarrow> nat" where
  "run_length cc s = length (takeWhile (in_class cc) s)"

definition match_text :: "bool \<Rightarrow> string \<Rightarrow> groups \<times> string \<Rightarrow> (groups \<times> string) list" where
  "match_text ic l st =
     (if length l \<le> length (snd st) \<and> same_text ic (take (length l) (snd st)) l
      then [(fst st, drop (length l) (snd st))] else [])"

fun matches :: "bool \<Rightarrow> regex \<Rightarrow> groups \<times> string \<Rightarrow> (groups \<times> string) list" where
  "matches ic (Lit l) st = match_text ic l st"
| "matches ic (Plus cc) st =
     map (\<lambda>i. (fst st, drop i (snd st))) (rev [1..<Suc (run_length cc (snd st))])"
| "matches ic (PlusLazy cc) st =
     map (\<lambda>i. (fst st, drop i (snd st))) [1..<Suc (run_length cc (snd st))]"
| "matches ic (Star cc) st =
     map (\<lambda>i. (fst st, drop i (snd st))) (rev [0..<Suc (run_length cc (snd st))])"
| "matches ic (OptLit l) st = match_text ic l st @ [st]"
| "matches ic (Group n r) st =
     map (\<lambda>(e, t). ((n, take (length (snd st) - length t) (snd st)) # e, t)) (matches ic r st)"
| "matches ic (Backref n) st =
     (case map_of (fst st) n of None \<Rightarrow> [] | Some v \<Rightarrow> match_text ic v st)"
| "matches ic EndText st = (if snd st = [] \<or> snd st = [CHR 0x0A] then [st] else [])"

fun matches_seq :: "bool \<Rightarrow> regex list \<Rightarrow> groups \<times> string \<Rightarrow> (groups \<times> string) list" where
  "matches_seq ic [] st = [st]"
| "matches_seq ic (r # rs) st = concat (map (matches_seq ic rs) (matches ic r st))"

definition re_match :: "bool \<Rightarrow> regex list \<Rightarrow> string \<Rightarrow> groups option" where
  "re_match ic rs s =
     (case matches_seq ic rs ([], s) of [] \<Rightarrow> None | (e, _) # _ \<Rightarrow> Some e)"

section \<open>What a match is\<close>

lemma takeWhile_run: "i \<le> length (takeWhile P s) \<Longrightarrow> \<forall>c \<in> set (take i s). P c"
proof -
  assume "i \<le> length (takeWhile P s)"
  then have "take i s = take i (takeWhile P s)"
    by (metis append_eq_conv_conj takeWhile_eq_take take_take min.absorb1)
  then show ?thesis by (metis in_set_takeD set_takeWhileD)
qed

lemma run_length_prefix:
  assumes "\<forall>c \<in> set u. in_class cc c" shows "length u \<le> run_length cc (u @ t)"
  using assms by (simp add: run_length_def takeWhile_append)

lemma rep_iff:
  "(\<exists>i. m \<le> i \<and> i \<le> run_length cc s \<and> t = drop i s) \<longleftrightarrow>
     (\<exists>u. m \<le> length u \<and> s = u @ t \<and> (\<forall>c \<in> set u. in_class cc c))"
proof
  assume "\<exists>i. m \<le> i \<and> i \<le> run_length cc s \<and> t = drop i s"
  then obtain i where i: "m \<le> i" "i \<le> run_length cc s" "t = drop i s" by blast
  have "i \<le> length s" using i(2) length_takeWhile_le unfolding run_length_def by (rule le_trans)
  with i takeWhile_run [of i "in_class cc" s]
  show "\<exists>u. m \<le> length u \<and> s = u @ t \<and> (\<forall>c \<in> set u. in_class cc c)"
    by (intro exI [of _ "take i s"]) (auto simp: run_length_def)
next
  assume "\<exists>u. m \<le> length u \<and> s = u @ t \<and> (\<forall>c \<in> set u. in_class cc c)"
  then obtain u where "m \<le> length u" "s = u @ t" "\<forall>c \<in> set u. in_class cc c" by blast
  then show "\<exists>i. m \<le> i \<and> i \<le> run_length cc s \<and> t = drop i s"
    using run_length_prefix by (intro exI [of _ "length u"]) auto
qed

lemma set_match_text:
  "(e, t) \<in> set (match_text ic l (e0, s)) \<longleftrightarrow>
     e = e0 \<and> (\<exists>u. s = u @ t \<and> same_text ic u l)" (is "?L \<longleftrightarrow> ?R")
proof
  assume ?L then show ?R
    by (auto simp: match_text_def split: if_splits intro!: exI [of _ "take (length l) s"])
next
  assume ?R
  then obtain u where "e = e0" "s = u @ t" "same_text ic u l" by blast
  moreover from this have "length u = length l"
    by (auto simp: same_text_def split: if_splits dest: arg_cong [of _ _ length])
  ultimately show ?L by (auto simp: match_text_def)
qed

lemma set_Plus:
  "(e, t) \<in> set (matches ic (Plus cc) (e0, s)) \<longleftrightarrow>
     e = e0 \<and> (\<exists>u. u \<noteq> [] \<and> s = u @ t \<and> (\<forall>c \<in> set u. in_class cc c))"
  using rep_iff [of 1 cc s t] by (auto simp: Suc_le_eq image_iff less_Suc_eq_le simp del: upt_Suc)

lemma set_PlusLazy:
  "(e, t) \<in> set (matches ic (PlusLazy cc) (e0, s)) \<longleftrightarrow>
     e = e0 \<and> (\<exists>u. u \<noteq> [] \<and> s = u @ t \<and> (\<forall>c \<in> set u. in_class cc c))"
  using rep_iff [of 1 cc s t] by (auto simp: Suc_le_eq image_iff less_Suc_eq_le simp del: upt_Suc)

lemma set_Star:
  "(e, t) \<in> set (matches ic (Star cc) (e0, s)) \<longleftrightarrow>
     e = e0 \<and> (\<exists>u. s = u @ t \<and> (\<forall>c \<in> set u. in_class cc c))"
  using rep_iff [of 0 cc s t] by (auto simp: image_iff less_Suc_eq_le simp del: upt_Suc)

lemma set_Group:
  "(e, t) \<in> set (matches ic (Group n r) (e0, s)) \<longleftrightarrow>
     (\<exists>e'. (e', t) \<in> set (matches ic r (e0, s)) \<and>
           e = (n, take (length s - length t) s) # e')"
  by (force simp: image_iff)

lemma set_Group_Plus:
  "(e, t) \<in> set (matches ic (Group n (Plus cc)) (e0, s)) \<longleftrightarrow>
     (\<exists>u. e = (n, u) # e0 \<and> u \<noteq> [] \<and> s = u @ t \<and> (\<forall>c \<in> set u. in_class cc c))"
  unfolding set_Group set_Plus by auto

lemma set_Group_PlusLazy:
  "(e, t) \<in> set (matches ic (Group n (PlusLazy cc)) (e0, s)) \<longleftrightarrow>
     (\<exists>u. e = (n, u) # e0 \<and> u \<noteq> [] \<and> s = u @ t \<and> (\<forall>c \<in> set u. in_class cc c))"
  unfolding set_Group set_PlusLazy by auto

lemma set_Group_Star:
  "(e, t) \<in> set (matches ic (Group n (Star cc)) (e0, s)) \<longleftrightarrow>
     (\<exists>u. e = (n, u) # e0 \<and> s = u @ t \<and> (\<forall>c \<in> set u. in_class cc c))"
  unfolding set_Group set_Star by auto

lemma set_Lit:
  "(e, t) \<in> set (matches ic (Lit l) (e0, s)) \<longleftrightarrow>
     e = e0 \<and> (\<exists>u. s = u @ t \<and> same_text ic u l)"
  by (simp add: set_match_text)

lemma set_Backref:
  "(e, t) \<in> set (matches ic (Backref n) (e0, s)) \<longleftrightarrow>
     e = e0 \<and> (\<exists>v u. map_of e0 n = Some v \<and> s = u @ t \<and> same_text ic u v)"
  by (cases "map_of e0 n") (auto simp: set_match_text)

lemma set_EndText:
  "(e, t) \<in> set (matches ic EndText (e0, s)) \<longleftrightarrow>
     e = e0 \<and> t = s \<and> (s = [] \<or> s = [CHR 0x0A])"
  by auto

lemma set_matches_seq_Cons:
  "(e, t) \<in> set (matches_seq ic (r # rs) st) \<longleftrightarrow>
     (\<exists>e' t'. (e', t') \<in> set (matches ic r st) \<and> (e, t) \<in> set (matches_seq ic rs (e', t')))"
  by force

lemmas set_matches = set_Lit set_Plus set_PlusLazy set_Star set_Group_Plus set_Group_PlusLazy
  set_Group_Star set_Backref set_EndText

text \<open>A successful match is one of the ways to match; it fails only if there is none.\<close>

lemma re_match_SomeD:
  assumes "re_match ic rs s = Some e"
  obtains t where "(e, t) \<in> set (matches_seq ic rs ([], s))"
  using assms by (cases "matches_seq ic rs ([], s)") (auto simp: re_match_def)

lemma re_match_exists:
  assumes "(e, t) \<in> set (matches_seq ic rs ([], s))"
  shows "\<exists>e'. re_match ic rs s = Some e'"
  using assms by (cases "matches_seq ic rs ([], s)") (auto simp: re_match_def)

text \<open>When all ways to match capture the same groups, the order of the search does not matter.\<close>

lemma re_match_unique:
  assumes ex: "(e, t) \<in> set (matches_seq ic rs ([], s))"
    and uniq: "\<And>e' t'. (e', t') \<in> set (matches_seq ic rs ([], s)) \<Longrightarrow> e' = e"
  shows "re_match ic rs s = Some e"
proof -
  obtain e' where e': "re_match ic rs s = Some e'" using re_match_exists [OF ex] ..
  then obtain t' where "(e', t') \<in> set (matches_seq ic rs ([], s))" by (rule re_match_SomeD)
  with uniq e' show ?thesis by simp
qed

section \<open>Text up to a separator\<close>

text \<open>The part before the first occurrence of a character is determined by the text.\<close>

lemma append_sep_eq:
  assumes "c \<notin> set a" "c \<notin> set b" "a @ c # x = b @ c # y"
  shows "a = b \<and> x = y"
proof -
  have "a = takeWhile (\<lambda>z. z \<noteq> c) (a @ c # x)"
    using assms(1) by (subst takeWhile_append2) auto
  moreover have "b = takeWhile (\<lambda>z. z \<noteq> c) (b @ c # y)"
    using assms(2) by (subst takeWhile_append2) auto
  ultimately have "a = b" using assms(3) by simp
  with assms(3) show ?thesis by simp
qed

lemma same_text_length: "same_text ic u v \<Longrightarrow> length u = length v"
  by (auto simp: same_text_def split: if_splits dest: arg_cong [of _ _ length])

lemma same_text_refl [simp]: "same_text ic u u"
  by (simp add: same_text_def)

lemma same_text_comma:
  assumes "same_text ic u v" shows "CHR '','' \<in> set u \<longleftrightarrow> CHR '','' \<in> set v"
  using assms unfolding same_text_def by (metis comma_in_lower)

lemma same_text_Cons_comma:
  assumes "same_text ic u (CHR '','' # v)"
  obtains w where "u = CHR '','' # w" "same_text ic w v"
  using assms by (cases u) (auto simp: same_text_def lower_def split: if_splits)

lemma same_text_hyphen: "same_text ic u [CHR ''-''] \<longleftrightarrow> u = [CHR ''-'']"
  by (cases u) (auto simp: same_text_def lower_def lower_char_eq_hyphen)

end
