(* ===== verification/Dn_Regex.thy ===== *)
theory Dn_Regex
  imports Regex
begin

text \<open>
  The regular expressions of \<open>utils.py\<close> for DNs, role strings and URLs, built from the
  environment as the code builds them. The container names and the LDAP base that the code pastes
  into a pattern contain no regular expression operators (they are DN components), so they are
  literals here. The functions are cached with \<open>lru_cache\<close> in the code; the environment of a
  process does not change, so the cache cannot be observed.
\<close>

section \<open>Environment variables\<close>

type_synonym environ = "string \<Rightarrow> string option"

text \<open>\<open>os.environ[k]\<close> and \<open>os.environ.get(k[0]) or k[1]\<close>.\<close>

definition environ_key :: "environ \<Rightarrow> string \<Rightarrow> exn + string" where
  "environ_key env k = (case env k of None \<Rightarrow> Inl (KeyErr k) | Some v \<Rightarrow> Inr v)"

definition environ_or :: "environ \<Rightarrow> string \<times> string \<Rightarrow> string" where
  "environ_or env kd =
     (case env (fst kd) of None \<Rightarrow> snd kd | Some v \<Rightarrow> if v = [] then snd kd else v)"

definition UCR_CONTAINER_CLASS :: "string \<times> string" where
  "UCR_CONTAINER_CLASS = (''ucsschool_ldap_default_container_class'', ''klassen'')"

definition UCR_CONTAINER_PUPILS :: "string \<times> string" where
  "UCR_CONTAINER_PUPILS = (''ucsschool_ldap_default_container_pupils'', ''schueler'')"

definition UCR_CONTAINER_TEACHERS :: "string \<times> string" where
  "UCR_CONTAINER_TEACHERS = (''ucsschool_ldap_default_container_teachers'', ''lehrer'')"

definition UCR_CONTAINER_LEGAL_GUARDIANS :: "string \<times> string" where
  "UCR_CONTAINER_LEGAL_GUARDIANS =
     (''ucsschool_ldap_default_container_legal_guardians'', ''sorgeberechtigte'')"

definition UCR_CONTAINER_TEACHERS_AND_STAFF :: "string \<times> string" where
  "UCR_CONTAINER_TEACHERS_AND_STAFF =
     (''ucsschool_ldap_default_container_teachers_and_staff'', ''lehrer und mitarbeiter'')"

definition UCR_GROUP_PREFIX_STUDENTS :: "string \<times> string" where
  "UCR_GROUP_PREFIX_STUDENTS = (''ucsschool_ldap_default_groupprefix_pupils'', ''schueler-'')"

definition UCR_GROUP_PREFIX_TEACHERS :: "string \<times> string" where
  "UCR_GROUP_PREFIX_TEACHERS = (''ucsschool_ldap_default_groupprefix_teachers'', ''lehrer-'')"

definition UCR_GROUP_PREFIX_LEGAL_GUARDIANS :: "string \<times> string" where
  "UCR_GROUP_PREFIX_LEGAL_GUARDIANS =
     (''ucsschool_ldap_default_groupprefix_legal_guardians'', ''sorgeberechtigte-'')"

section \<open>The patterns\<close>

text \<open>\<open>cn=<prefix>(?P<ou>.+?),cn=groups,ou=(?P=ou),<base>\<close>\<close>

definition ou_group_regex :: "string \<Rightarrow> string \<Rightarrow> regex list" where
  "ou_group_regex pre base =
     [Lit (''cn='' @ pre), Group ''ou'' (PlusLazy AnyChar), Lit '',cn=groups,ou='',
      Backref ''ou'', Lit ('','' @ base)]"

definition domain_users_ou_dn_regex :: "environ \<Rightarrow> exn + regex list" where
  "domain_users_ou_dn_regex env =
     bindE (environ_key env ''ldap_base'') (\<lambda>base. Inr (ou_group_regex ''Domain Users '' base))"

definition lehrer_ou_dn_regex :: "environ \<Rightarrow> exn + regex list" where
  "lehrer_ou_dn_regex env =
     bindE (environ_key env ''ldap_base'')
       (\<lambda>base. Inr (ou_group_regex (environ_or env UCR_GROUP_PREFIX_TEACHERS) base))"

definition schueler_ou_dn_regex :: "environ \<Rightarrow> exn + regex list" where
  "schueler_ou_dn_regex env =
     bindE (environ_key env ''ldap_base'')
       (\<lambda>base. Inr (ou_group_regex (environ_or env UCR_GROUP_PREFIX_STUDENTS) base))"

definition legal_guardian_ou_dn_regex :: "environ \<Rightarrow> exn + regex list" where
  "legal_guardian_ou_dn_regex env =
     bindE (environ_key env ''ldap_base'')
       (\<lambda>base. Inr (ou_group_regex (environ_or env UCR_GROUP_PREFIX_LEGAL_GUARDIANS) base))"

definition class_regex :: "string \<Rightarrow> string \<Rightarrow> string \<Rightarrow> regex list" where
  "class_regex c_class c_student base =
     [Lit ''cn='', Group ''ou'' (PlusLazy (NotChar CHR '','')), Lit ''-'',
      Group ''name'' (PlusLazy (NotChar CHR '','')),
      Lit ('',cn='' @ c_class @ '',cn='' @ c_student @ '',cn=groups,ou=''),
      Backref ''ou'', Lit ('','' @ base)]"

definition school_class_dn_regex :: "environ \<Rightarrow> exn + regex list" where
  "school_class_dn_regex env =
     bindE (environ_key env ''ldap_base'')
       (\<lambda>base. Inr (class_regex (environ_or env UCR_CONTAINER_CLASS)
                                (environ_or env UCR_CONTAINER_PUPILS) base))"

definition user_dn_regex :: "environ \<Rightarrow> exn + regex list" where
  "user_dn_regex env =
     bindE (environ_key env ''ldap_base'')
       (\<lambda>base. Inr [Lit ''uid='', Group ''name'' (PlusLazy AnyChar), Lit '','', Star AnyChar,
                     Lit ''cn=users,ou='', Group ''ou'' (PlusLazy AnyChar), Lit ('','' @ base)])"

text \<open>\<open>uid=(?P<name>.+?),cn=<container>,cn=users,ou=(?P<ou>.+?),<base>\<close>\<close>

definition role_user_regex :: "string \<Rightarrow> string \<Rightarrow> regex list" where
  "role_user_regex container base =
     [Lit ''uid='', Group ''name'' (PlusLazy AnyChar), Lit ('',cn='' @ container @ '',cn=users,ou=''),
      Group ''ou'' (PlusLazy AnyChar), Lit ('','' @ base)]"

definition student_dn_regex :: "environ \<Rightarrow> exn + regex list" where
  "student_dn_regex env =
     bindE (environ_key env ''ldap_base'')
       (\<lambda>base. Inr (role_user_regex (environ_or env UCR_CONTAINER_PUPILS) base))"

definition teacher_dn_regex :: "environ \<Rightarrow> exn + regex list" where
  "teacher_dn_regex env =
     bindE (environ_key env ''ldap_base'')
       (\<lambda>base. Inr (role_user_regex (environ_or env UCR_CONTAINER_TEACHERS) base))"

definition teacher_and_staff_dn_regex :: "environ \<Rightarrow> exn + regex list" where
  "teacher_and_staff_dn_regex env =
     bindE (environ_key env ''ldap_base'')
       (\<lambda>base. Inr (role_user_regex (environ_or env UCR_CONTAINER_TEACHERS_AND_STAFF) base))"

definition legal_guardian_dn_regex :: "environ \<Rightarrow> exn + regex list" where
  "legal_guardian_dn_regex env =
     bindE (environ_key env ''ldap_base'')
       (\<lambda>base. Inr (role_user_regex (environ_or env UCR_CONTAINER_LEGAL_GUARDIANS) base))"

definition workgroup_regex :: "string \<Rightarrow> string \<Rightarrow> regex list" where
  "workgroup_regex c_student base =
     [Lit ''cn='', Group ''ou'' (PlusLazy (NotChar CHR '','')), Lit ''-'',
      Group ''name'' (PlusLazy (NotChar CHR '','')),
      Lit ('',cn='' @ c_student @ '',cn=groups,ou=''), Backref ''ou'', Lit ('','' @ base)]"

definition workgroup_dn_regex :: "environ \<Rightarrow> exn + regex list" where
  "workgroup_dn_regex env =
     bindE (environ_key env ''ldap_base'')
       (\<lambda>base. Inr (workgroup_regex (environ_or env UCR_CONTAINER_PUPILS) base))"

definition kelvin_url_regex :: "regex list" where
  "kelvin_url_regex =
     [Lit ''https://'', Group ''host'' (PlusLazy AnyChar), Lit ''/ucsschool/kelvin/v'',
      Group ''version'' (PlusLazy AnyChar), OptLit ''/'']"

definition ucsschool_role_regex :: "regex list" where
  "ucsschool_role_regex =
     [Group ''role'' (Plus (NotChar CHR '':'')), Lit '':'',
      Group ''context_type'' (Plus (NotChar CHR '':'')), Lit '':'',
      Group ''context'' (Plus (NotChar CHR '':'')), EndText]"

section \<open>School class DNs\<close>

definition class_groups :: "string \<Rightarrow> string \<Rightarrow> groups" where
  "class_groups ou name = [(''name'', name), (''ou'', ou)]"

text \<open>
  A DN matches with groups \<open>ou\<close> and \<open>name\<close> iff it is, up to case outside the groups, the DN of
  a class of that OU: this is what all ways to match have in common.
\<close>

lemma class_regex_matches_iff:
  "(e, t) \<in> set (matches_seq True (class_regex c_class c_student base) ([], s)) \<longleftrightarrow>
     (\<exists>p ou h name m ou' b.
        s = p @ ou @ h @ name @ m @ ou' @ b @ t \<and> e = class_groups ou name \<and>
        same_text True p ''cn='' \<and> same_text True h ''-'' \<and>
        same_text True m ('',cn='' @ c_class @ '',cn='' @ c_student @ '',cn=groups,ou='') \<and>
        same_text True ou' ou \<and> same_text True b ('','' @ base) \<and>
        ou \<noteq> [] \<and> CHR '','' \<notin> set ou \<and> name \<noteq> [] \<and> CHR '','' \<notin> set name)"
  (is "?L \<longleftrightarrow> ?R")
proof
  assume ?L then show ?R
    unfolding class_regex_def set_matches_seq_Cons set_matches
    by (fastforce simp: class_groups_def)
next
  assume ?R then show ?L
    unfolding class_regex_def set_matches_seq_Cons set_matches
    by (fastforce simp: class_groups_def)
qed

text \<open>The parts of a class DN are determined by its text, whatever hyphens the names contain.\<close>

lemma class_dn_parts_unique:
  assumes eq: "p @ ou @ h @ name @ m @ ou' @ b @ t = q @ ou2 @ h2 @ name2 @ m2 @ ou2' @ b2 @ t2"
    and p: "same_text True p ''cn=''" "same_text True q ''cn=''"
    and h: "same_text True h ''-''" "same_text True h2 ''-''"
    and m: "same_text True m (CHR '','' # mm)" "same_text True m2 (CHR '','' # mm)"
    and b: "same_text True b (CHR '','' # bb)" "same_text True b2 (CHR '','' # bb)"
    and o: "same_text True ou' ou" "same_text True ou2' ou2"
    and nc: "CHR '','' \<notin> set ou" "CHR '','' \<notin> set ou2"
      "CHR '','' \<notin> set name" "CHR '','' \<notin> set name2"
  shows "ou = ou2 \<and> name = name2"
proof -
  obtain m' m2' where m': "m = CHR '','' # m'" "m2 = CHR '','' # m2'" "length m' = length m2'"
    using m by (metis same_text_Cons_comma same_text_length)
  obtain b' b2' where b': "b = CHR '','' # b'" "b2 = CHR '','' # b2'"
    using b by (metis same_text_Cons_comma)
  have h': "h = ''-''" "h2 = ''-''" using h by (simp_all add: same_text_hyphen)
  have "length p = length q" using p by (metis same_text_length)
  with eq have "(ou @ ''-'' @ name) @ CHR '','' # (m' @ ou' @ b @ t)
      = (ou2 @ ''-'' @ name2) @ CHR '','' # (m2' @ ou2' @ b2 @ t2)"
    by (simp add: h' m')
  then have 1: "ou @ ''-'' @ name = ou2 @ ''-'' @ name2"
      and 2: "m' @ ou' @ b @ t = m2' @ ou2' @ b2 @ t2"
    using nc append_sep_eq [of "CHR '',''" "ou @ ''-'' @ name" "ou2 @ ''-'' @ name2"] by auto
  from 2 m'(3) have "ou' @ CHR '','' # (b' @ t) = ou2' @ CHR '','' # (b2' @ t2)"
    by (simp add: b')
  moreover have "CHR '','' \<notin> set ou'" "CHR '','' \<notin> set ou2'"
    using o nc(1,2) same_text_comma by blast+
  ultimately have "ou' = ou2'" by (rule append_sep_eq [THEN conjunct1, rotated 2])
  then have "length ou = length ou2" using o by (metis same_text_length)
  with 1 show ?thesis by simp
qed

definition class_dn :: "string \<Rightarrow> string \<Rightarrow> string \<Rightarrow> string \<Rightarrow> string \<Rightarrow> string \<Rightarrow> string" where
  "class_dn c_class c_student base ou name ou' =
     ''cn='' @ ou @ ''-'' @ name @ ('',cn='' @ c_class @ '',cn='' @ c_student @ '',cn=groups,ou='')
       @ ou' @ '','' @ base"

lemma class_regex_match_class_dn:
  assumes "ou \<noteq> []" "CHR '','' \<notin> set ou" "name \<noteq> []" "CHR '','' \<notin> set name"
    and "lower ou' = lower ou"
  shows "re_match True (class_regex c_class c_student base)
           (class_dn c_class c_student base ou name ou' @ rest) = Some (class_groups ou name)"
proof (rule re_match_unique)
  have o: "same_text True ou' ou" using assms(5) by (simp add: same_text_def)
  let ?s = "class_dn c_class c_student base ou name ou' @ rest"
  let ?m = "'',cn='' @ c_class @ '',cn='' @ c_student @ '',cn=groups,ou=''"
  show "(class_groups ou name, rest) \<in> set (matches_seq True (class_regex c_class c_student base)
          ([], ?s))"
    unfolding class_regex_matches_iff class_dn_def using assms o
    by - (rule exI [of _ "''cn=''"], rule exI [of _ ou], rule exI [of _ "''-''"],
        rule exI [of _ name], rule exI [of _ ?m], rule exI [of _ ou'],
        rule exI [of _ "'','' @ base"], simp)
  fix e' t'
  assume "(e', t') \<in> set (matches_seq True (class_regex c_class c_student base) ([], ?s))"
  then obtain p ou2 h name2 m ou2' b where
      s: "?s = p @ ou2 @ h @ name2 @ m @ ou2' @ b @ t'" and e': "e' = class_groups ou2 name2"
      and d: "same_text True p ''cn=''" "same_text True h ''-''" "same_text True m ?m"
        "same_text True ou2' ou2" "same_text True b ('','' @ base)"
        "CHR '','' \<notin> set ou2" "CHR '','' \<notin> set name2"
    unfolding class_regex_matches_iff by blast
  from s have "p @ ou2 @ h @ name2 @ m @ ou2' @ b @ t'
      = ''cn='' @ ou @ ''-'' @ name @ ?m @ ou' @ ('','' @ base) @ rest"
    by (simp add: class_dn_def)
  moreover have "?m = CHR '','' # tl ?m" "'','' @ base = CHR '','' # base" by simp_all
  ultimately have "ou2 = ou \<and> name2 = name"
    using class_dn_parts_unique [of p ou2 h name2 m ou2' b t' "''cn=''" ou "''-''" name ?m ou'
        "'','' @ base" rest "tl ?m" base] d o assms(2,4)
    by (metis same_text_refl)
  then show "e' = class_groups ou name" by (simp add: e')
qed

text \<open>Conversely a DN that matches starts with such a DN, up to case.\<close>

lemma class_regex_match_sound:
  assumes "re_match True (class_regex c_class c_student base) s = Some e"
  shows "\<exists>ou name ou' t. e = class_groups ou name \<and> ou \<noteq> [] \<and> name \<noteq> [] \<and>
     CHR '','' \<notin> set ou \<and> CHR '','' \<notin> set name \<and>
     lower s = lower (class_dn c_class c_student base ou name ou') @ lower t \<and> lower ou' = lower ou"
proof -
  obtain t where "(e, t) \<in> set (matches_seq True (class_regex c_class c_student base) ([], s))"
    using assms by (rule re_match_SomeD)
  then obtain p ou h name m ou' b where
      "s = p @ ou @ h @ name @ m @ ou' @ b @ t" "e = class_groups ou name"
      "same_text True p ''cn=''" "same_text True h ''-''"
      "same_text True m ('',cn='' @ c_class @ '',cn='' @ c_student @ '',cn=groups,ou='')"
      "same_text True ou' ou" "same_text True b ('','' @ base)"
      "ou \<noteq> []" "CHR '','' \<notin> set ou" "name \<noteq> []" "CHR '','' \<notin> set name"
    unfolding class_regex_matches_iff by blast
  then show ?thesis
    by - (rule exI [of _ ou], rule exI [of _ name], rule exI [of _ ou'],
        rule exI [of _ t],
        simp only: class_dn_def same_text_def if_True lower_append append_assoc simp_thms)
qed

text \<open>What the callers use: the match of a DN against the pattern of the environment.\<close>

definition match_class_dn :: "environ \<Rightarrow> string \<Rightarrow> exn + groups option" where
  "match_class_dn env dn =
     bindE (school_class_dn_regex env) (\<lambda>re. Inr (re_match True re dn))"

definition class_dn_of :: "environ \<Rightarrow> string \<Rightarrow> string \<Rightarrow> string \<Rightarrow> string \<Rightarrow> string" where
  "class_dn_of env base ou name ou' =
     class_dn (environ_or env UCR_CONTAINER_CLASS) (environ_or env UCR_CONTAINER_PUPILS)
       base ou name ou'"

lemma match_class_dn_of:
  assumes "env ''ldap_base'' = Some base"
    and "ou \<noteq> []" "CHR '','' \<notin> set ou" "name \<noteq> []" "CHR '','' \<notin> set name"
    and "lower ou' = lower ou"
  shows "match_class_dn env (class_dn_of env base ou name ou' @ rest) = Inr (Some (class_groups ou name))"
  using assms class_regex_match_class_dn
  by (simp add: match_class_dn_def school_class_dn_regex_def environ_key_def class_dn_of_def)

lemma match_class_dn_sound:
  assumes "match_class_dn env dn = Inr (Some e)"
  shows "\<exists>base ou name ou' t. env ''ldap_base'' = Some base \<and> e = class_groups ou name \<and>
     ou \<noteq> [] \<and> name \<noteq> [] \<and> CHR '','' \<notin> set ou \<and> CHR '','' \<notin> set name \<and>
     lower dn = lower (class_dn_of env base ou name ou') @ lower t \<and> lower ou' = lower ou"
proof -
  from assms obtain base where base: "env ''ldap_base'' = Some base"
    by (auto simp: match_class_dn_def school_class_dn_regex_def environ_key_def
        split: option.splits)
  with assms have "re_match True (class_regex (environ_or env UCR_CONTAINER_CLASS)
      (environ_or env UCR_CONTAINER_PUPILS) base) dn = Some e"
    by (simp add: match_class_dn_def school_class_dn_regex_def environ_key_def)
  from class_regex_match_sound [OF this] base show ?thesis
    unfolding class_dn_of_def by blast
qed

section \<open>Workgroups are no school classes\<close>

text \<open>
  The comma after the name, the container and the next \<open>cn=\<close> keep the two patterns apart, so a
  group is handled as a class or as a workgroup but never as both.
\<close>

lemma workgroup_regex_matchesD:
  assumes "(e, t) \<in> set (matches_seq True (workgroup_regex c_student base) ([], s))"
  shows "\<exists>p ou h name m ou' b.
        s = (p @ ou @ h @ name) @ m @ ou' @ b @ t \<and>
        same_text True p ''cn='' \<and> same_text True h ''-'' \<and>
        same_text True m ('',cn='' @ c_student @ '',cn=groups,ou='') \<and>
        CHR '','' \<notin> set ou \<and> CHR '','' \<notin> set name"
  using assms unfolding workgroup_regex_def set_matches_seq_Cons set_matches by fastforce

lemma class_or_workgroup:
  assumes c: "re_match True (class_regex c_class c_student base) s = Some e"
    and w: "re_match True (workgroup_regex c_student base) s = Some e2"
    and nc: "CHR '','' \<notin> set c_class" "CHR '','' \<notin> set c_student"
  shows "lower c_class = lower c_student"
proof -
  obtain t where "(e, t) \<in> set (matches_seq True (class_regex c_class c_student base) ([], s))"
    using c by (rule re_match_SomeD)
  then obtain p ou h name m x where 1: "s = (p @ ou @ h @ name) @ m @ x"
      "lower p = lower ''cn=''" "lower h = lower ''-''"
      "lower m = lower ('',cn='' @ c_class @ '',cn='' @ c_student @ '',cn=groups,ou='')"
      "CHR '','' \<notin> set ou" "CHR '','' \<notin> set name"
    unfolding class_regex_matches_iff same_text_def by force
  obtain t2 where "(e2, t2) \<in> set (matches_seq True (workgroup_regex c_student base) ([], s))"
    using w by (rule re_match_SomeD)
  from workgroup_regex_matchesD [OF this]
  obtain p2 ou2 h2 name2 m2 x2 where 2: "s = (p2 @ ou2 @ h2 @ name2) @ m2 @ x2"
      "lower p2 = lower ''cn=''" "lower h2 = lower ''-''"
      "lower m2 = lower ('',cn='' @ c_student @ '',cn=groups,ou='')"
      "CHR '','' \<notin> set ou2" "CHR '','' \<notin> set name2"
    unfolding same_text_def if_True by blast
  have lits: "lower '',cn='' = '','' @ ''cn=''" "lower '',cn=groups,ou='' = '','' @ ''cn=groups,ou=''"
    "lower ''cn='' = ''cn=''" "lower ''-'' = ''-''"
    by (simp_all add: lower_def lower_char_def)
  have "(''cn='' @ lower ou @ ''-'' @ lower name) @ CHR '','' #
          (''cn='' @ lower c_class @ CHR '','' # (''cn='' @ lower c_student @ ('','' @ ''cn=groups,ou='')
             @ lower x))
      = lower s"
    using 1(2-4) by (simp only: 1(1) lower_append lits append_assoc) simp
  also have "\<dots> = (''cn='' @ lower ou2 @ ''-'' @ lower name2) @ CHR '','' #
          (''cn='' @ lower c_student @ CHR '','' # (''cn=groups,ou='' @ lower x2))"
    using 2(2-4) by (simp only: 2(1) lower_append lits append_assoc) simp
  finally have "''cn='' @ lower c_class @ CHR '','' # (''cn='' @ lower c_student @
        ('','' @ ''cn=groups,ou='') @ lower x)
      = ''cn='' @ lower c_student @ CHR '','' # (''cn=groups,ou='' @ lower x2)"
    using 1(5,6) 2(5,6) by - (drule append_sep_eq [rotated 2], auto simp: comma_in_lower)
  then show ?thesis
    using nc append_sep_eq [of "CHR '',''" "lower c_class" "lower c_student"]
    by (simp add: comma_in_lower)
qed

section \<open>Role strings\<close>

definition match_role :: "string \<Rightarrow> groups option" where
  "match_role role = re_match False ucsschool_role_regex role"

definition role_groups :: "string \<Rightarrow> string \<Rightarrow> string \<Rightarrow> groups" where
  "role_groups r ct c = [(''context'', c), (''context_type'', ct), (''role'', r)]"

definition role_string :: "string \<Rightarrow> string \<Rightarrow> string \<Rightarrow> string" where
  "role_string r ct c = r @ '':'' @ ct @ '':'' @ c"

lemma role_regex_matches_iff:
  "(e, t) \<in> set (matches_seq False ucsschool_role_regex ([], s)) \<longleftrightarrow>
     (\<exists>r ct c. s = role_string r ct c @ t \<and> e = role_groups r ct c \<and>
        (t = [] \<or> t = [CHR 0x0A]) \<and> r \<noteq> [] \<and> ct \<noteq> [] \<and> c \<noteq> [] \<and>
        CHR '':'' \<notin> set r \<and> CHR '':'' \<notin> set ct \<and> CHR '':'' \<notin> set c)"
  (is "?L \<longleftrightarrow> ?R")
proof
  assume ?L then show ?R
    unfolding ucsschool_role_regex_def set_matches_seq_Cons set_matches
    by (fastforce simp: role_groups_def role_string_def same_text_def)
next
  assume ?R then show ?L
    unfolding ucsschool_role_regex_def set_matches_seq_Cons set_matches
    by (fastforce simp: role_groups_def role_string_def same_text_def)
qed

text \<open>Parsing inverts printing for parts without colons and line ends.\<close>

lemma match_role_string:
  assumes "r \<noteq> []" "ct \<noteq> []" "c \<noteq> []" "CHR '':'' \<notin> set r" "CHR '':'' \<notin> set ct"
    "CHR '':'' \<notin> set c" "CHR 0x0A \<notin> set c"
  shows "match_role (role_string r ct c) = Some (role_groups r ct c)"
  unfolding match_role_def
proof (rule re_match_unique)
  show "(role_groups r ct c, []) \<in> set (matches_seq False ucsschool_role_regex
          ([], role_string r ct c))"
    unfolding role_regex_matches_iff using assms
    by - (rule exI [of _ r], rule exI [of _ ct], rule exI [of _ c], simp)
  fix e' t'
  assume "(e', t') \<in> set (matches_seq False ucsschool_role_regex ([], role_string r ct c))"
  then obtain r2 ct2 c2 where s: "role_string r ct c = role_string r2 ct2 c2 @ t'"
    and e': "e' = role_groups r2 ct2 c2" and t': "t' = [] \<or> t' = [CHR 0x0A]"
    and nc: "CHR '':'' \<notin> set r2" "CHR '':'' \<notin> set ct2"
    unfolding role_regex_matches_iff by blast
  from s have "r @ CHR '':'' # (ct @ CHR '':'' # c) = r2 @ CHR '':'' # (ct2 @ CHR '':'' # c2 @ t')"
    by (simp add: role_string_def)
  then have r: "r = r2" and "ct @ CHR '':'' # c = ct2 @ CHR '':'' # (c2 @ t')"
    using append_sep_eq [OF assms(4) nc(1)] by simp_all
  then have ct: "ct = ct2" and c: "c = c2 @ t'"
    using append_sep_eq [OF assms(5) nc(2)] by simp_all
  from c t' assms(7) have "c = c2" by auto
  with r ct e' show "e' = role_groups r ct c" by simp
qed

lemma match_role_SomeD:
  assumes "match_role s = Some e"
  obtains r ct c where "e = role_groups r ct c" "r \<noteq> []" "ct \<noteq> []" "c \<noteq> []"
    "CHR '':'' \<notin> set r" "CHR '':'' \<notin> set ct" "CHR '':'' \<notin> set c"
proof -
  obtain t where "(e, t) \<in> set (matches_seq False ucsschool_role_regex ([], s))"
    using assms unfolding match_role_def by (rule re_match_SomeD)
  then show ?thesis unfolding role_regex_matches_iff using that by blast
qed

end
