(* ===== verification/Models.thy ===== *)
theory Models
  imports Dn_Regex
begin

text \<open>
  \<open>models.py\<close>: the listener objects that travel through the queues, the school authority
  configurations and the requests of the RPC interface, with their properties and validators.
  pydantic builds the objects from dictionaries; its field coercion is third-party code and
  appears as a parameter where an object is built, the validators are the program's own and are
  modelled.
\<close>

section \<open>Roles\<close>

datatype school_user_role = staff | student | teacher | legal_guardian

fun role_value :: "school_user_role \<Rightarrow> string" where
  "role_value staff = ''staff''"
| "role_value student = ''student''"
| "role_value teacher = ''teacher''"
| "role_value legal_guardian = ''legal_guardian''"

lemma role_value_inj: "role_value r = role_value s \<longleftrightarrow> r = s"
  by (cases r; cases s) auto

text \<open>\<open>SchoolUserRole\<close> is a string enum: it is ordered by its values.\<close>

instantiation school_user_role :: linorder
begin

definition less_eq_school_user_role :: "school_user_role \<Rightarrow> school_user_role \<Rightarrow> bool" where
  "less_eq_school_user_role r s \<longleftrightarrow> role_value r \<le> role_value s"

definition less_school_user_role :: "school_user_role \<Rightarrow> school_user_role \<Rightarrow> bool" where
  "less_school_user_role r s \<longleftrightarrow> role_value r < role_value s"

instance
  by standard (auto simp: less_eq_school_user_role_def less_school_user_role_def
      order.strict_iff_order simp flip: role_value_inj)

end

section \<open>Old data and password hashes\<close>

record user_old_data =
  uo_schools :: "string list"
  uo_record_uid :: "string option"
  uo_source_uid :: "string option"

record group_old_data =
  go_users :: "string list"

record user_passwords =
  userPassword :: "string list"
  sambaNTPassword :: string
  krb5Key :: "string list"
  krb5KeyVersionNumber :: int
  sambaPwdLastSet :: int

text \<open>\<open>UserPasswords.__eq__\<close>: the order of the hashes does not count.\<close>

definition passwords_eq :: "user_passwords \<Rightarrow> user_passwords \<Rightarrow> bool" where
  "passwords_eq a b \<longleftrightarrow>
     set (userPassword a) = set (userPassword b) \<and>
     sambaNTPassword a = sambaNTPassword b \<and>
     set (krb5Key a) = set (krb5Key b) \<and>
     krb5KeyVersionNumber a = krb5KeyVersionNumber b \<and>
     sambaPwdLastSet a = sambaPwdLastSet b"

section \<open>Listener objects\<close>

record user_add_mod =
  um_dn :: string
  um_id :: string
  um_udm_object_type :: string
  um_object :: pydict
  um_options :: "string list"
  um_user_passwords :: "user_passwords option"
  um_old_data :: "user_old_data option"

record user_remove =
  ur_dn :: string
  ur_id :: string
  ur_udm_object_type :: string
  ur_old_data :: "user_old_data option"

record group_add_mod =
  gm_dn :: string
  gm_id :: string
  gm_udm_object_type :: string
  gm_object :: pydict
  gm_options :: "string list"
  gm_old_data :: "group_old_data option"

record group_remove =
  gr_dn :: string
  gr_id :: string
  gr_udm_object_type :: string
  gr_old_data :: "group_old_data option"

datatype listener_object =
    ListenerUserAddModifyObject user_add_mod
  | ListenerUserRemoveObject user_remove
  | ListenerGroupAddModifyObject group_add_mod
  | ListenerGroupRemoveObject group_remove

fun dn_of :: "listener_object \<Rightarrow> string" where
  "dn_of (ListenerUserAddModifyObject o') = um_dn o'"
| "dn_of (ListenerUserRemoveObject o') = ur_dn o'"
| "dn_of (ListenerGroupAddModifyObject o') = gm_dn o'"
| "dn_of (ListenerGroupRemoveObject o') = gr_dn o'"

fun id_of :: "listener_object \<Rightarrow> string" where
  "id_of (ListenerUserAddModifyObject o') = um_id o'"
| "id_of (ListenerUserRemoveObject o') = ur_id o'"
| "id_of (ListenerGroupAddModifyObject o') = gm_id o'"
| "id_of (ListenerGroupRemoveObject o') = gr_id o'"

fun udm_object_type_of :: "listener_object \<Rightarrow> string" where
  "udm_object_type_of (ListenerUserAddModifyObject o') = um_udm_object_type o'"
| "udm_object_type_of (ListenerUserRemoveObject o') = ur_udm_object_type o'"
| "udm_object_type_of (ListenerGroupAddModifyObject o') = gm_udm_object_type o'"
| "udm_object_type_of (ListenerGroupRemoveObject o') = gr_udm_object_type o'"

fun is_add_mod :: "listener_object \<Rightarrow> bool" where
  "is_add_mod (ListenerUserAddModifyObject _) = True"
| "is_add_mod (ListenerGroupAddModifyObject _) = True"
| "is_add_mod _ = False"

section \<open>Properties of user and group objects\<close>

text \<open>\<open>obj.object[k]\<close> for a list of strings, and \<open>obj.object.get(k)\<close> for an optional string.\<close>

definition object_strs :: "pydict \<Rightarrow> string \<Rightarrow> exn + string list" where
  "object_strs d k = (case map_of d k of None \<Rightarrow> Inl (KeyErr k) | Some v \<Rightarrow> str_list v)"

definition object_str :: "pydict \<Rightarrow> string \<Rightarrow> exn + string" where
  "object_str d k =
     (case map_of d k of None \<Rightarrow> Inl (KeyErr k) | Some (PStr s) \<Rightarrow> Inr s | Some _ \<Rightarrow> Inl TypeErr)"

definition object_opt_str :: "pydict \<Rightarrow> string \<Rightarrow> exn + string option" where
  "object_opt_str d k =
     (case map_of d k of
        None \<Rightarrow> Inr None
      | Some PNone \<Rightarrow> Inr None
      | Some (PStr s) \<Rightarrow> Inr (Some s)
      | Some _ \<Rightarrow> Inl TypeErr)"

definition schools :: "user_add_mod \<Rightarrow> exn + string list" where
  "schools u = object_strs (um_object u) ''school''"

definition username :: "user_add_mod \<Rightarrow> exn + string" where
  "username u = object_str (um_object u) ''username''"

definition record_uid :: "user_add_mod \<Rightarrow> exn + string option" where
  "record_uid u = object_opt_str (um_object u) ''ucsschoolRecordUID''"

definition source_uid :: "user_add_mod \<Rightarrow> exn + string option" where
  "source_uid u = object_opt_str (um_object u) ''ucsschoolSourceUID''"

definition group_name :: "group_add_mod \<Rightarrow> exn + string" where
  "group_name g = object_str (gm_object g) ''name''"

definition group_users :: "group_add_mod \<Rightarrow> exn + string list" where
  "group_users g = object_strs (gm_object g) ''users''"

text \<open>The \<open>school\<close> property: the OU of the DN if it is one of the schools, else the first school.\<close>

definition school_ou_regex :: "regex list" where
  "school_ou_regex =
     [Plus AnyChar, Lit '',ou='', Group ''ou'' (PlusLazy AnyChar), Lit '',dc='', Plus AnyChar]"

definition first_school :: "string list \<Rightarrow> exn + string" where
  "first_school ss = (case sort ss of [] \<Rightarrow> Inl IndexErr | s # _ \<Rightarrow> Inr s)"

definition school :: "user_add_mod \<Rightarrow> exn + string" where
  "school u =
     (case re_match False school_ou_regex (um_dn u) of
        None \<Rightarrow> bindE (schools u) first_school
      | Some g \<Rightarrow>
          (case map_of g ''ou'' of
             None \<Rightarrow> bindE (schools u) first_school
           | Some ou \<Rightarrow> bindE (schools u)
               (\<lambda>ss. if ou \<in> set ss then Inr ou else first_school ss)))"

definition school_user_roles :: "user_add_mod \<Rightarrow> exn + school_user_role list" where
  "school_user_roles u =
     (let options = set (um_options u) in
      if {''ucsschoolTeacher'', ''ucsschoolStaff''} \<subseteq> options then Inr [staff, teacher]
      else if ''ucsschoolTeacher'' \<in> options then Inr [teacher]
      else if ''ucsschoolStaff'' \<in> options then Inr [staff]
      else if ''ucsschoolStudent'' \<in> options then Inr [student]
      else if ''ucsschoolLegalGuardian'' \<in> options then Inr [legal_guardian]
      else Inl UnknownSchoolUserRole)"

section \<open>Validators of the listener objects\<close>

definition supported_group_object_type :: "string \<Rightarrow> bool" where
  "supported_group_object_type v \<longleftrightarrow> v = ''groups/group''"

definition supported_user_object_type :: "string \<Rightarrow> bool" where
  "supported_user_object_type v \<longleftrightarrow> v = ''users/user''"

definition has_required_oc :: "string list \<Rightarrow> bool" where
  "has_required_oc v \<longleftrightarrow>
     ''default'' \<in> set v \<and>
     {''ucsschoolStaff'', ''ucsschoolStudent'', ''ucsschoolTeacher'', ''ucsschoolLegalGuardian''}
       \<inter> set v \<noteq> {}"

definition has_required_attrs :: "pydict \<Rightarrow> bool" where
  "has_required_attrs v \<longleftrightarrow> (case map_of v ''school'' of None \<Rightarrow> False | Some s \<Rightarrow> truthy s)"

definition valid_user :: "user_add_mod \<Rightarrow> bool" where
  "valid_user u \<longleftrightarrow>
     supported_user_object_type (um_udm_object_type u) \<and> has_required_oc (um_options u) \<and>
     has_required_attrs (um_object u)"

definition valid_group :: "group_add_mod \<Rightarrow> bool" where
  "valid_group g \<longleftrightarrow> supported_group_object_type (gm_udm_object_type g)"

lemma first_school_in: "ss \<noteq> [] \<Longrightarrow> \<exists>s \<in> set ss. first_school ss = Inr s"
proof -
  assume "ss \<noteq> []"
  then obtain s rest where "sort ss = s # rest" by (metis list.exhaust set_empty set_sort)
  moreover from this have "s \<in> set ss" by (metis list.set_intros(1) set_sort)
  ultimately show ?thesis by (auto simp: first_school_def)
qed

text \<open>The validated fields make the properties total: a valid user has a school and roles.\<close>

lemma school_in_schools:
  assumes "schools u = Inr ss" "ss \<noteq> []"
  shows "\<exists>s \<in> set ss. school u = Inr s"
  using assms first_school_in [OF assms(2)] by (auto simp: school_def split: option.splits)

lemma valid_user_roles:
  assumes "has_required_oc (um_options u)"
  shows "\<exists>rs. school_user_roles u = Inr rs \<and> rs \<noteq> [] \<and> sorted rs \<and> distinct rs"
  using assms
  by (auto simp: school_user_roles_def has_required_oc_def Let_def
      less_eq_school_user_role_def)

lemma valid_user_schools_nonempty:
  assumes "has_required_attrs (um_object u)" "schools u = Inr ss" shows "ss \<noteq> []"
  using assms
  by (auto simp: has_required_attrs_def schools_def object_strs_def split: option.splits
      dest!: str_list_InrD)

section \<open>Secrets in plugin configurations\<close>

type_synonym plugin_configs = "(string \<times> pydict) list"

definition secret_key :: "string \<Rightarrow> bool" where
  "secret_key k \<longleftrightarrow> k \<in> {''key'', ''password'', ''token''}"

fun reveal :: "pyval \<Rightarrow> pyval" where
  "reveal (PSecret s) = PStr s"
| "reveal v = v"

fun conceal :: "pyval \<Rightarrow> pyval" where
  "conceal (PStr s) = PSecret s"
| "conceal v = v"

definition map_secrets :: "(pyval \<Rightarrow> pyval) \<Rightarrow> plugin_configs \<Rightarrow> plugin_configs" where
  "map_secrets f pcs =
     map (\<lambda>(p, pc). (p, map (\<lambda>(k, v). (k, if secret_key k then f v else v)) pc)) pcs"

definition plugin_configs_secrets_to_plain :: "plugin_configs \<Rightarrow> plugin_configs" where
  "plugin_configs_secrets_to_plain pcs = map_secrets reveal pcs"

definition plugin_configs_plain_to_secret :: "plugin_configs \<Rightarrow> plugin_configs" where
  "plugin_configs_plain_to_secret pcs = map_secrets conceal pcs"

text \<open>No plain string under a secret key; no \<open>SecretStr\<close> under one.\<close>

definition all_secret :: "plugin_configs \<Rightarrow> bool" where
  "all_secret pcs \<longleftrightarrow>
     (\<forall>(p, pc) \<in> set pcs. \<forall>(k, v) \<in> set pc. secret_key k \<longrightarrow> \<not> is_PStr v)"

definition all_plain :: "plugin_configs \<Rightarrow> bool" where
  "all_plain pcs \<longleftrightarrow>
     (\<forall>(p, pc) \<in> set pcs. \<forall>(k, v) \<in> set pc. secret_key k \<longrightarrow> (\<forall>s. v \<noteq> PSecret s))"

lemma conceal_no_PStr: "\<not> is_PStr (conceal v)"
  by (cases v) auto

lemma reveal_conceal: "(\<forall>s. v \<noteq> PSecret s) \<Longrightarrow> reveal (conceal v) = v"
  by (cases v) auto

lemma conceal_reveal: "\<not> is_PStr v \<Longrightarrow> conceal (reveal v) = v"
  by (cases v) auto

lemma map_secrets_id:
  "(\<And>p pc k v. (p, pc) \<in> set pcs \<Longrightarrow> (k, v) \<in> set pc \<Longrightarrow> secret_key k \<Longrightarrow> f (g v) = v) \<Longrightarrow>
    map_secrets f (map_secrets g pcs) = pcs"
  unfolding map_secrets_def by (auto intro!: map_idI simp: comp_def)

lemma plain_secret_plain:
  "all_plain pcs \<Longrightarrow>
    plugin_configs_secrets_to_plain (plugin_configs_plain_to_secret pcs) = pcs"
  unfolding plugin_configs_secrets_to_plain_def plugin_configs_plain_to_secret_def
  by (rule map_secrets_id, rule reveal_conceal) (fastforce simp: all_plain_def)

lemma secret_plain_secret:
  "all_secret pcs \<Longrightarrow>
    plugin_configs_plain_to_secret (plugin_configs_secrets_to_plain pcs) = pcs"
  unfolding plugin_configs_secrets_to_plain_def plugin_configs_plain_to_secret_def
  by (rule map_secrets_id, rule conceal_reveal) (fastforce simp: all_secret_def)

text \<open>Hidden secrets stay as they are when they are hidden again.\<close>

lemma secret_conceal_id:
  assumes "all_secret pcs" shows "plugin_configs_plain_to_secret pcs = pcs"
proof -
  have conceal: "conceal v = v" if "\<not> is_PStr v" for v using that by (cases v) auto
  have "conceal v = v" if "(p, pc) \<in> set pcs" "(k, v) \<in> set pc" "secret_key k" for p pc k v
    using that assms by (intro conceal) (fastforce simp: all_secret_def)
  then show ?thesis
    unfolding plugin_configs_plain_to_secret_def map_secrets_def
    by (auto intro!: map_idI)
qed

lemma all_secret_plain_to_secret: "all_secret (plugin_configs_plain_to_secret pcs)"
  by (auto simp: all_secret_def plugin_configs_plain_to_secret_def map_secrets_def conceal_no_PStr)

section \<open>School authority configurations\<close>

record school_authority =
  sa_name :: string
  sa_active :: bool
  sa_url :: string
  sa_plugins :: "string list"
  sa_plugin_configs :: plugin_configs

text \<open>\<open>d.get(k, {})\<close> on a value that must be a dictionary, and \<open>k in d\<close>.\<close>

definition get_dict :: "pyval \<Rightarrow> string \<Rightarrow> exn + pyval" where
  "get_dict v k =
     (case v of PDict d \<Rightarrow> Inr (case map_of d k of None \<Rightarrow> PDict [] | Some w \<Rightarrow> w)
      | _ \<Rightarrow> Inl AttributeErr)"

fun py_in :: "string \<Rightarrow> pyval \<Rightarrow> exn + bool" where
  "py_in k (PDict d) = Inr (k \<in> keys d)"
| "py_in k (PList vs) = Inr (PStr k \<in> set vs)"
| "py_in k (PStr s) = Inr (sublist k s)"
| "py_in k _ = Inl TypeErr"

text \<open>\<open>not spec and key in general or key in spec\<close>, evaluated from left to right.\<close>

definition configured :: "string \<Rightarrow> pyval \<Rightarrow> pyval \<Rightarrow> exn + bool" where
  "configured k general spec =
     (if truthy spec then py_in k spec
      else bindE (py_in k general) (\<lambda>b. if b then Inr True else py_in k spec))"

definition has_required_attr_combination :: "plugin_configs \<Rightarrow> exn + unit" where
  "has_required_attr_combination value =
     bindE (get_dict (case map_of value ''kelvin'' of None \<Rightarrow> PDict [] | Some d \<Rightarrow> PDict d) ''mapping'')
       (\<lambda>kelvin_plugin_config.
     bindE (get_dict kelvin_plugin_config ''users'') (\<lambda>users_config.
     bindE (get_dict kelvin_plugin_config ''users_student'') (\<lambda>student_user_config.
     bindE (get_dict kelvin_plugin_config ''users_legal_guardian'') (\<lambda>legal_guardian_user_config.
     bindE (configured ''ucsschoolLegalGuardian'' users_config student_user_config)
       (\<lambda>legal_guardians_configured.
     bindE (configured ''ucsschoolLegalWard'' users_config legal_guardian_user_config)
       (\<lambda>legal_wards_configured.
     if legal_guardians_configured \<noteq> legal_wards_configured then Inl ValueErr else Inr ()))))))"

text \<open>
  Building a configuration from keyword arguments: pydantic coerces the fields (the parameter
  \<open>coerce\<close>), runs the validator, whose value and type errors it turns into a
  \<open>ValidationError\<close>, and \<open>SecretsMixin.__init__\<close> hides the secrets.
\<close>

definition validation :: "exn + 'a \<Rightarrow> exn + 'a" where
  "validation r = (case r of
     Inl e \<Rightarrow> Inl (if is_ValueError e \<or> e = TypeErr then ValidationErr else e) | Inr x \<Rightarrow> Inr x)"

definition new_school_authority ::
    "(pydict \<Rightarrow> exn + school_authority) \<Rightarrow> pydict \<Rightarrow> exn + school_authority" where
  "new_school_authority coerce d =
     bindE (coerce d) (\<lambda>sa.
     bindE (validation (has_required_attr_combination (sa_plugin_configs sa))) (\<lambda>_.
     Inr (sa\<lparr>sa_plugin_configs := plugin_configs_plain_to_secret (sa_plugin_configs sa)\<rparr>)))"

text \<open>\<open>.dict()\<close> and \<open>.dict_secrets_as_str()\<close>.\<close>

definition sa_dict :: "school_authority \<Rightarrow> pydict" where
  "sa_dict sa =
     [(''name'', PStr (sa_name sa)), (''active'', PBool (sa_active sa)), (''url'', PStr (sa_url sa)),
      (''plugins'', PList (map PStr (sa_plugins sa))),
      (''plugin_configs'', PDict (map (\<lambda>(p, pc). (p, PDict pc)) (sa_plugin_configs sa)))]"

definition dict_secrets_as_str :: "school_authority \<Rightarrow> pydict" where
  "dict_secrets_as_str sa =
     sa_dict (sa\<lparr>sa_plugin_configs := plugin_configs_secrets_to_plain (sa_plugin_configs sa)\<rparr>)"

lemma new_school_authority_secret:
  "new_school_authority coerce d = Inr sa \<Longrightarrow> all_secret (sa_plugin_configs sa)"
  by (auto simp: new_school_authority_def all_secret_plain_to_secret)

text \<open>Every configuration with guardians has wards: the two directions of the relation.\<close>

lemma required_combination_both:
  assumes "has_required_attr_combination pcs = Inr ()"
  obtains users st lg b where
    "configured ''ucsschoolLegalGuardian'' users st = Inr b"
    "configured ''ucsschoolLegalWard'' users lg = Inr b"
  using assms by (auto simp: has_required_attr_combination_def split: if_splits)

section \<open>RPC requests\<close>

datatype rpc_command =
    get_queue | get_queues | get_school_authority | get_school_authorities
  | get_school_to_authority_mapping | create_school_authority | delete_school_authority
  | patch_school_authority | put_school_to_authority_mapping

fun RPCCommandsRequiredArgs :: "rpc_command \<Rightarrow> string list option" where
  "RPCCommandsRequiredArgs get_queue = Some [''name'']"
| "RPCCommandsRequiredArgs get_school_authority = Some [''name'']"
| "RPCCommandsRequiredArgs create_school_authority = Some [''school_authority'']"
| "RPCCommandsRequiredArgs delete_school_authority = Some [''name'']"
| "RPCCommandsRequiredArgs patch_school_authority = Some [''name'', ''school_authority'']"
| "RPCCommandsRequiredArgs put_school_to_authority_mapping = Some [''school_to_authority_mapping'']"
| "RPCCommandsRequiredArgs _ = None"

record rpc_request =
  rq_cmd :: rpc_command
  rq_name :: string
  rq_school_authority :: pydict
  rq_school_to_authority_mapping :: pydict

text \<open>The validator as it runs for one field; pydantic runs it for the two fields it names.\<close>

definition required_args_present :: "rpc_command \<Rightarrow> string \<Rightarrow> bool \<Rightarrow> bool" where
  "required_args_present cmd field non_empty \<longleftrightarrow>
     (case RPCCommandsRequiredArgs cmd of
        None \<Rightarrow> True
      | Some required_args \<Rightarrow> field \<in> set required_args \<longrightarrow> non_empty)"

definition valid_rpc_request :: "rpc_request \<Rightarrow> bool" where
  "valid_rpc_request rq \<longleftrightarrow>
     required_args_present (rq_cmd rq) ''name'' (rq_name rq \<noteq> []) \<and>
     required_args_present (rq_cmd rq) ''school_authority'' (rq_school_authority rq \<noteq> [])"

lemmas model_defs = schools_def username_def record_uid_def source_uid_def group_name_def
  group_users_def object_strs_def object_str_def object_opt_str_def

end
