(* ===== verification/Old_Data_DB.thy ===== *)
theory Old_Data_DB
  imports Models
begin

text \<open>
  \<open>db.py\<close>: the key/value database that keeps, per object id, what was last seen of the object.
  The storage is \<open>diskcache.Cache\<close>, a third-party package: its operations are the parameter
  \<open>cache_ops\<close>, and \<open>cache_laws\<close> is what the code relies on (a stored value is found under its key
  until another one is stored, and \<open>touch\<close> changes an expiry time only).
\<close>

section \<open>The storage\<close>

record 'c cache_ops =
  cache_get :: "'c \<Rightarrow> string \<Rightarrow> pydict option"
  cache_set :: "'c \<Rightarrow> string \<Rightarrow> pydict \<Rightarrow> 'c"
  cache_del :: "'c \<Rightarrow> string \<Rightarrow> 'c"
  cache_touch :: "'c \<Rightarrow> string \<Rightarrow> nat \<Rightarrow> 'c"

definition cache_laws :: "'c cache_ops \<Rightarrow> bool" where
  "cache_laws ops \<longleftrightarrow>
     (\<forall>c k v. cache_get ops (cache_set ops c k v) = (cache_get ops c)(k \<mapsto> v)) \<and>
     (\<forall>c k. cache_get ops (cache_del ops c k) = (cache_get ops c)(k := None)) \<and>
     (\<forall>c k n. cache_get ops (cache_touch ops c k n) = cache_get ops c)"

text \<open>A store that satisfies the laws, for concrete instances: the entries in a dictionary.\<close>

definition dict_cache :: "(string \<times> pydict) list cache_ops" where
  "dict_cache =
     \<lparr>cache_get = map_of, cache_set = (\<lambda>c k v. AList.update k v c),
      cache_del = (\<lambda>c k. AList.delete k c), cache_touch = (\<lambda>c k n. c)\<rparr>"

lemma dict_cache_laws: "cache_laws dict_cache"
  by (simp add: cache_laws_def dict_cache_def dict_simps)

section \<open>KeyValueDB and OldDataDB\<close>

text \<open>
  \<open>_native_to_storage_type\<close> and \<open>_storage_to_native_type\<close> are parameters of the generic class;
  \<open>OldDataDB\<close> sets them to \<open>value.dict()\<close> and \<open>data_type(**value)\<close>.
\<close>

definition db_contains :: "'c cache_ops \<Rightarrow> 'c \<Rightarrow> string \<Rightarrow> bool" where
  "db_contains ops c k = (cache_get ops c k \<noteq> None)"

definition db_delitem :: "'c cache_ops \<Rightarrow> 'c \<Rightarrow> string \<Rightarrow> exn + 'c" where
  "db_delitem ops c k =
     (if cache_get ops c k = None then Inl (KeyErr k) else Inr (cache_del ops c k))"

definition db_getitem ::
    "'c cache_ops \<Rightarrow> (pydict \<Rightarrow> exn + 'n) \<Rightarrow> 'c \<Rightarrow> string \<Rightarrow> exn + 'n" where
  "db_getitem ops of_storage c k =
     (case cache_get ops c k of None \<Rightarrow> Inl (KeyErr k) | Some v \<Rightarrow> of_storage v)"

definition db_setitem ::
    "'c cache_ops \<Rightarrow> ('n \<Rightarrow> pydict) \<Rightarrow> 'c \<Rightarrow> string \<Rightarrow> 'n \<Rightarrow> 'c" where
  "db_setitem ops to_storage c k v = cache_set ops c k (to_storage v)"

definition db_get ::
    "'c cache_ops \<Rightarrow> (pydict \<Rightarrow> exn + 'n) \<Rightarrow> 'c \<Rightarrow> string \<Rightarrow> exn + 'n option" where
  "db_get ops of_storage c k =
     (case cache_get ops c k of None \<Rightarrow> Inr None | Some v \<Rightarrow> bindE (of_storage v) (\<lambda>n. Inr (Some n)))"

definition db_touch :: "'c cache_ops \<Rightarrow> 'c \<Rightarrow> string \<Rightarrow> nat \<Rightarrow> 'c" where
  "db_touch ops c k expire = cache_touch ops c k expire"

text \<open>The two kinds of entries.\<close>

fun opt_str_val :: "string option \<Rightarrow> pyval" where
  "opt_str_val None = PNone"
| "opt_str_val (Some s) = PStr s"

definition user_old_to_dict :: "user_old_data \<Rightarrow> pydict" where
  "user_old_to_dict o' =
     [(''schools'', PList (map PStr (uo_schools o'))),
      (''record_uid'', opt_str_val (uo_record_uid o')),
      (''source_uid'', opt_str_val (uo_source_uid o'))]"

definition or_invalid :: "exn + 'a \<Rightarrow> exn + 'a" where
  "or_invalid r = (case r of Inl _ \<Rightarrow> Inl ValidationErr | Inr x \<Rightarrow> Inr x)"

definition user_old_of_dict :: "pydict \<Rightarrow> exn + user_old_data" where
  "user_old_of_dict d =
     or_invalid (bindE (object_strs d ''schools'') (\<lambda>ss.
       bindE (object_opt_str d ''record_uid'') (\<lambda>r.
       bindE (object_opt_str d ''source_uid'') (\<lambda>s.
       Inr \<lparr>uo_schools = ss, uo_record_uid = r, uo_source_uid = s\<rparr>))))"

definition group_old_to_dict :: "group_old_data \<Rightarrow> pydict" where
  "group_old_to_dict o' = [(''users'', PList (map PStr (go_users o')))]"

definition group_old_of_dict :: "pydict \<Rightarrow> exn + group_old_data" where
  "group_old_of_dict d =
     or_invalid (bindE (object_strs d ''users'') (\<lambda>us. Inr \<lparr>go_users = us\<rparr>))"

section \<open>The interface the listener object handlers use\<close>

text \<open>
  A type of entries with its conversions. What the handlers need of it is that a stored entry is
  read back; everything about the database follows from this and the laws of the storage.
\<close>

locale entry_type =
  fixes to_storage :: "'n \<Rightarrow> pydict" and of_storage :: "pydict \<Rightarrow> exn + 'n"
  assumes of_to: "of_storage (to_storage n) = Inr n"
begin

lemma get_setitem:
  assumes "cache_laws ops"
  shows "db_get ops of_storage (db_setitem ops to_storage c k n) k' =
    (if k' = k then Inr (Some n) else db_get ops of_storage c k')"
  using assms by (simp add: cache_laws_def db_get_def db_setitem_def of_to)

lemma getitem_setitem:
  "cache_laws ops \<Longrightarrow> db_getitem ops of_storage (db_setitem ops to_storage c k n) k = Inr n"
  by (simp add: cache_laws_def db_getitem_def db_setitem_def of_to)

lemma get_touch:
  "cache_laws ops \<Longrightarrow> db_get ops of_storage (db_touch ops c k e) k' = db_get ops of_storage c k'"
  by (simp add: cache_laws_def db_get_def db_touch_def)

lemma get_delitem:
  assumes "cache_laws ops" "db_delitem ops c k = Inr c'"
  shows "db_get ops of_storage c' k' = (if k' = k then Inr None else db_get ops of_storage c k')"
  using assms by (auto simp: cache_laws_def db_get_def db_delitem_def split: if_splits)

lemma get_contains:
  "db_contains ops c k \<longleftrightarrow> db_get ops of_storage c k \<noteq> Inr None"
  by (auto simp: db_contains_def db_get_def bindE_def split: option.splits sum.splits)

end

lemma object_opt_str_val: "map_of d k = Some (opt_str_val s) \<Longrightarrow> object_opt_str d k = Inr s"
  by (cases s) (auto simp: object_opt_str_def)

interpretation user_entry: entry_type user_old_to_dict user_old_of_dict
  by unfold_locales
     (simp add: user_old_of_dict_def user_old_to_dict_def or_invalid_def object_strs_def
       object_opt_str_val)

interpretation group_entry: entry_type group_old_to_dict group_old_of_dict
  by unfold_locales
     (simp add: group_old_of_dict_def group_old_to_dict_def or_invalid_def object_strs_def)

end
