(* ===== verification/Base64.thy ===== *)
theory Base64
  imports Prelude
begin

text \<open>
  \<open>base64.b64encode\<close> and \<open>base64.b64decode\<close> as the program uses them on the Kerberos keys of a
  user: keys are written to listener files base64 encoded (\<open>dict_krb5_key_base64_encoded\<close>) and
  decoded when a file is loaded again. The decoder is the lenient one of the standard library: it
  skips characters outside the alphabet, and fails on a truncated group.
\<close>

section \<open>The alphabet\<close>

definition alphabet :: string where
  "alphabet = ''ABCDEFGHIJKLMNOPQRSTUVWXYZabcdefghijklmnopqrstuvwxyz0123456789+/''"

definition b64_char :: "nat \<Rightarrow> char" where
  "b64_char n = alphabet ! n"

fun index_of :: "char \<Rightarrow> string \<Rightarrow> nat \<Rightarrow> nat option" where
  "index_of c [] i = None"
| "index_of c (x # xs) i = (if x = c then Some i else index_of c xs (Suc i))"

definition b64_val :: "char \<Rightarrow> nat option" where
  "b64_val c = index_of c alphabet 0"

lemma length_alphabet: "length alphabet = 64"
  by (simp add: alphabet_def)

lemma distinct_alphabet: "distinct alphabet"
  by (simp add: alphabet_def)

lemma pad_not_in_alphabet: "CHR ''='' \<notin> set alphabet"
  by (simp add: alphabet_def)

lemma index_of_nth: "distinct xs \<Longrightarrow> n < length xs \<Longrightarrow> index_of (xs ! n) xs i = Some (i + n)"
proof (induction xs arbitrary: n i)
  case Nil
  then show ?case by simp
next
  case (Cons x xs)
  then show ?case by (cases n) (auto simp: nth_mem)
qed

lemma b64_val_char [simp]: "n < 64 \<Longrightarrow> b64_val (b64_char n) = Some n"
  using index_of_nth [OF distinct_alphabet, of n 0]
  by (simp add: b64_val_def b64_char_def length_alphabet)

lemma b64_char_not_pad [simp]: "n < 64 \<Longrightarrow> b64_char n \<noteq> CHR ''=''"
  using pad_not_in_alphabet nth_mem [of n alphabet] by (metis b64_char_def length_alphabet)

section \<open>Encoder and decoder\<close>

fun b64encode_bytes :: "nat list \<Rightarrow> string" where
  "b64encode_bytes [] = []"
| "b64encode_bytes [x] =
     [b64_char (x div 4), b64_char (x mod 4 * 16), CHR ''='', CHR ''='']"
| "b64encode_bytes [x, y] =
     [b64_char (x div 4), b64_char (x mod 4 * 16 + y div 16), b64_char (y mod 16 * 4), CHR ''='']"
| "b64encode_bytes (x # y # z # bs) =
     b64_char (x div 4) # b64_char (x mod 4 * 16 + y div 16) #
     b64_char (y mod 16 * 4 + z div 64) # b64_char (z mod 64) # b64encode_bytes bs"

text \<open>
  The decoder's loop: position in the group of four, bits left over, number of pads seen. A pad
  that completes a group ends the input, any other pad and any foreign character is skipped.
\<close>

fun b64decode_loop :: "nat \<Rightarrow> nat \<Rightarrow> nat \<Rightarrow> string \<Rightarrow> nat list option" where
  "b64decode_loop quad left pads [] = (if quad = 0 then Some [] else None)"
| "b64decode_loop quad left pads (c # cs) =
     (if c = CHR ''='' then
        (if 2 \<le> quad \<and> 4 \<le> quad + Suc pads then Some []
         else b64decode_loop quad left (if 2 \<le> quad then Suc pads else pads) cs)
      else (case b64_val c of
          None \<Rightarrow> b64decode_loop quad left pads cs
        | Some v \<Rightarrow>
            (if quad = 0 then b64decode_loop 1 v 0 cs
             else if quad = 1 then
               map_option ((#) (left * 4 + v div 16)) (b64decode_loop 2 (v mod 16) 0 cs)
             else if quad = 2 then
               map_option ((#) (left * 16 + v div 4)) (b64decode_loop 3 (v mod 4) 0 cs)
             else
               map_option ((#) (left * 64 + v)) (b64decode_loop 0 0 0 cs))))"

definition b64encode :: "string \<Rightarrow> string" where
  "b64encode s = b64encode_bytes (map of_char s)"

definition b64decode :: "string \<Rightarrow> string option" where
  "b64decode s = map_option (map char_of) (b64decode_loop 0 0 0 s)"

section \<open>Decoding inverts encoding\<close>

lemma b64decode_loop_encode:
  "\<forall>b \<in> set bs. b < 256 \<Longrightarrow> b64decode_loop 0 0 0 (b64encode_bytes bs) = Some bs"
proof (induction bs rule: b64encode_bytes.induct)
  case 1
  then show ?case by simp
next
  case (2 x)
  then have "x div 4 < 64" "x mod 4 * 16 < 64" "x div 4 * 4 + x mod 4 = x" by auto
  then show ?case by simp
next
  case (3 x y)
  then have "x div 4 < 64" "x mod 4 * 16 + y div 16 < 64" "y mod 16 * 4 < 64" by auto
  moreover have "x div 4 * 4 + (x mod 4 * 16 + y div 16) div 16 = x"
    "(x mod 4 * 16 + y div 16) mod 16 * 16 + y mod 16 * 4 div 4 = y"
    using 3 by auto
  ultimately show ?case by simp
next
  case (4 x y z bs)
  then have "x div 4 < 64" "x mod 4 * 16 + y div 16 < 64" "y mod 16 * 4 + z div 64 < 64" "z mod 64 < 64"
    by auto
  moreover have "x div 4 * 4 + (x mod 4 * 16 + y div 16) div 16 = x"
    "(x mod 4 * 16 + y div 16) mod 16 * 16 + (y mod 16 * 4 + z div 64) div 4 = y"
    "(y mod 16 * 4 + z div 64) mod 4 * 64 + z mod 64 = z"
    using 4 by auto
  ultimately show ?case using 4 by simp
qed

lemma b64decode_b64encode: "b64decode (b64encode s) = Some s"
proof -
  have "\<forall>b \<in> set (map (of_char :: char \<Rightarrow> nat) s). b < 256" by auto
  from b64decode_loop_encode [OF this] show ?thesis
    by (simp add: b64decode_def b64encode_def comp_def)
qed

lemma length_b64encode: "length (b64encode s) = 4 * ((length s + 2) div 3)"
proof -
  have "length (b64encode_bytes bs) = 4 * ((length bs + 2) div 3)" for bs
  proof (induction bs rule: b64encode_bytes.induct)
    case (4 x y z bs)
    have "(length (x # y # z # bs) + 2) div 3 = Suc ((length bs + 2) div 3)" by simp
    with 4 show ?case by simp
  qed simp_all
  then show ?thesis by (simp add: b64encode_def)
qed

end
