(* ===== verification/Listener_Objects.thy ===== *)
theory Listener_Objects
  imports Old_Data_DB Base64
begin

text \<open>
  \<open>plugins/listener_objects.py\<close>: loading listener files into listener objects, writing them back,
  and the preprocessing that remembers the last seen data of each object (its \<open>old_data\<close>) and
  fetches password hashes. A preprocessing hook changes its object in place and writes to the
  database: it is a computation on the pair of both.

  Parameters (record \<open>env\<close>): pydantic's field coercion for each class, the JSON codec \<open>ujson\<close>, the
  storage of the database, and the LDAP server's answer to the search for password hashes.
\<close>

section \<open>Parameters\<close>

record pydantic =
  py_user_add_mod :: "pydict \<Rightarrow> exn + user_add_mod"
  py_user_remove :: "pydict \<Rightarrow> exn + user_remove"
  py_group_add_mod :: "pydict \<Rightarrow> exn + group_add_mod"
  py_group_remove :: "pydict \<Rightarrow> exn + group_remove"

record 'c env =
  env_pydantic :: pydantic
  env_loads :: "string \<Rightarrow> exn + pyval"
  env_dumps :: "pydict \<Rightarrow> exn + string"
  env_cache :: "'c cache_ops"
  env_passwords :: "string \<Rightarrow> exn + user_passwords option"

section \<open>Loading\<close>

text \<open>\<open>ListenerObjectHandlerImpl.get_listener_object\<close>; \<open>None\<close> is "not recognised".\<close>

definition base_get_listener_object ::
    "string \<Rightarrow> (pydict \<Rightarrow> exn + listener_object) \<Rightarrow> (pydict \<Rightarrow> exn + listener_object) \<Rightarrow>
     pydict \<Rightarrow> exn + listener_object option" where
  "base_get_listener_object type new_remove new_add_mod d =
     (if map_of d ''udm_object_type'' \<noteq> Some (PStr type) then Inr None
      else
        (case (if map_of d ''object'' = None \<or> map_of d ''object'' = Some PNone
               then new_remove d else new_add_mod d) of
           Inl e \<Rightarrow> if e = ValidationErr then Inr None else Inl e
         | Inr obj \<Rightarrow> Inr (Some obj)))"

definition new_user_add_mod :: "'c env \<Rightarrow> pydict \<Rightarrow> exn + listener_object" where
  "new_user_add_mod env d =
     bindE (py_user_add_mod (env_pydantic env) d)
       (\<lambda>u. if valid_user u then Inr (ListenerUserAddModifyObject u) else Inl ValidationErr)"

definition new_user_remove :: "'c env \<Rightarrow> pydict \<Rightarrow> exn + listener_object" where
  "new_user_remove env d =
     bindE (py_user_remove (env_pydantic env) d) (\<lambda>u. Inr (ListenerUserRemoveObject u))"

definition new_group_add_mod :: "'c env \<Rightarrow> pydict \<Rightarrow> exn + listener_object" where
  "new_group_add_mod env d =
     bindE (py_group_add_mod (env_pydantic env) d)
       (\<lambda>g. if valid_group g then Inr (ListenerGroupAddModifyObject g) else Inl ValidationErr)"

definition new_group_remove :: "'c env \<Rightarrow> pydict \<Rightarrow> exn + listener_object" where
  "new_group_remove env d =
     bindE (py_group_remove (env_pydantic env) d) (\<lambda>g. Inr (ListenerGroupRemoveObject g))"

text \<open>The Kerberos keys of a user are decoded; if one of them is no base64, all are kept.\<close>

fun decode_keys :: "string list \<Rightarrow> string list option" where
  "decode_keys [] = Some []"
| "decode_keys (k # ks) =
     (case b64decode k of
        None \<Rightarrow> None
      | Some b \<Rightarrow> map_option ((#) b) (decode_keys ks))"

definition decode_passwords :: "user_passwords \<Rightarrow> user_passwords" where
  "decode_passwords p =
     (case decode_keys (krb5Key p) of None \<Rightarrow> p | Some ks \<Rightarrow> p\<lparr>krb5Key := ks\<rparr>)"

fun decode_object :: "listener_object \<Rightarrow> listener_object" where
  "decode_object (ListenerUserAddModifyObject u) =
     ListenerUserAddModifyObject
       (u\<lparr>um_user_passwords := map_option decode_passwords (um_user_passwords u)\<rparr>)"
| "decode_object obj = obj"

definition user_get_listener_object :: "'c env \<Rightarrow> pydict \<Rightarrow> exn + listener_object option" where
  "user_get_listener_object env d =
     bindE (base_get_listener_object ''users/user'' (new_user_remove env) (new_user_add_mod env) d)
       (\<lambda>res. Inr (map_option decode_object res))"

definition group_get_listener_object :: "'c env \<Rightarrow> pydict \<Rightarrow> exn + listener_object option" where
  "group_get_listener_object env d =
     base_get_listener_object ''groups/group'' (new_group_remove env) (new_group_add_mod env) d"

section \<open>Writing\<close>

definition krb5_keys_encoded :: "user_passwords \<Rightarrow> string list" where
  "krb5_keys_encoded p = map b64encode (krb5Key p)"

text \<open>\<open>UserPasswords.dict_krb5_key_base64_encoded\<close> and the one of \<open>ListenerUserAddModifyObject\<close>.\<close>

definition passwords_dict :: "user_passwords \<Rightarrow> pydict" where
  "passwords_dict p =
     [(''userPassword'', PList (map PStr (userPassword p))),
      (''sambaNTPassword'', PStr (sambaNTPassword p)),
      (''krb5Key'', PList (map PStr (krb5_keys_encoded p))),
      (''krb5KeyVersionNumber'', PInt (krb5KeyVersionNumber p)),
      (''sambaPwdLastSet'', PInt (sambaPwdLastSet p))]"

fun opt_dict :: "pydict option \<Rightarrow> pyval" where
  "opt_dict None = PNone"
| "opt_dict (Some d) = PDict d"

definition user_add_mod_dict :: "user_add_mod \<Rightarrow> pydict" where
  "user_add_mod_dict u =
     [(''dn'', PStr (um_dn u)), (''id'', PStr (um_id u)),
      (''udm_object_type'', PStr (um_udm_object_type u)), (''action'', PStr ''add_mod''),
      (''object'', PDict (um_object u)), (''options'', PList (map PStr (um_options u))),
      (''old_data'', opt_dict (map_option user_old_to_dict (um_old_data u))),
      (''user_passwords'', opt_dict (map_option passwords_dict (um_user_passwords u)))]"

definition user_remove_dict :: "user_remove \<Rightarrow> pydict" where
  "user_remove_dict u =
     [(''dn'', PStr (ur_dn u)), (''id'', PStr (ur_id u)),
      (''udm_object_type'', PStr (ur_udm_object_type u)), (''action'', PStr ''delete''),
      (''old_data'', opt_dict (map_option user_old_to_dict (ur_old_data u)))]"

definition group_add_mod_dict :: "group_add_mod \<Rightarrow> pydict" where
  "group_add_mod_dict g =
     [(''dn'', PStr (gm_dn g)), (''id'', PStr (gm_id g)),
      (''udm_object_type'', PStr (gm_udm_object_type g)), (''action'', PStr ''add_mod''),
      (''object'', PDict (gm_object g)), (''options'', PList (map PStr (gm_options g))),
      (''old_data'', opt_dict (map_option group_old_to_dict (gm_old_data g)))]"

definition group_remove_dict :: "group_remove \<Rightarrow> pydict" where
  "group_remove_dict g =
     [(''dn'', PStr (gr_dn g)), (''id'', PStr (gr_id g)),
      (''udm_object_type'', PStr (gr_udm_object_type g)), (''action'', PStr ''delete''),
      (''old_data'', opt_dict (map_option group_old_to_dict (gr_old_data g)))]"

fun obj_dict :: "listener_object \<Rightarrow> pydict" where
  "obj_dict (ListenerUserAddModifyObject u) = user_add_mod_dict u"
| "obj_dict (ListenerUserRemoveObject u) = user_remove_dict u"
| "obj_dict (ListenerGroupAddModifyObject g) = group_add_mod_dict g"
| "obj_dict (ListenerGroupRemoveObject g) = group_remove_dict g"

text \<open>\<open>obj_as_dict\<close>: an empty \<open>old_data\<close> of a user is left out.\<close>

fun is_user_object :: "listener_object \<Rightarrow> bool" where
  "is_user_object (ListenerUserAddModifyObject _) = True"
| "is_user_object (ListenerUserRemoveObject _) = True"
| "is_user_object _ = False"

definition user_obj_as_dict :: "listener_object \<Rightarrow> pydict" where
  "user_obj_as_dict obj =
     (if is_user_object obj \<and> map_of (obj_dict obj) ''old_data'' = Some (PDict [])
      then AList.delete ''old_data'' (obj_dict obj) else obj_dict obj)"

text \<open>
  \<open>save_listener_object\<close>: the text written to the file, or \<open>None\<close> for an object of another
  type (the hook returns \<open>False\<close>). The text is complete before the file is opened.
\<close>

definition base_save_listener_object ::
    "'c env \<Rightarrow> string \<Rightarrow> (listener_object \<Rightarrow> pydict) \<Rightarrow> listener_object \<Rightarrow> exn + string option" where
  "base_save_listener_object env type as_dict obj =
     (if udm_object_type_of obj \<noteq> type then Inr None
      else bindE (env_dumps env (as_dict obj)) (\<lambda>text. Inr (Some text)))"

definition user_save_listener_object :: "'c env \<Rightarrow> listener_object \<Rightarrow> exn + string option" where
  "user_save_listener_object env obj =
     base_save_listener_object env ''users/user'' user_obj_as_dict obj"

definition group_save_listener_object :: "'c env \<Rightarrow> listener_object \<Rightarrow> exn + string option" where
  "group_save_listener_object env obj =
     base_save_listener_object env ''groups/group'' obj_dict obj"


section \<open>Preprocessing: old data\<close>

text \<open>
  \<open>ListenerObjectHandlerImpl.preprocess_add_mod_object\<close> and \<open>preprocess_remove_object\<close> for one
  type of objects: \<open>oid\<close> is the field \<open>id\<close>, \<open>set_old\<close> assigns the field \<open>old_data\<close> and \<open>current\<close>
  builds the entry that \<open>save_old_data\<close> stores. The result is the hook's, the object and the
  database after it; both keep what was assigned before an exception.
\<close>

definition base_preprocess_add_mod_object ::
    "'c cache_ops \<Rightarrow> ('n \<Rightarrow> pydict) \<Rightarrow> (pydict \<Rightarrow> exn + 'n) \<Rightarrow> ('o \<Rightarrow> string) \<Rightarrow>
     ('n option \<Rightarrow> 'o \<Rightarrow> 'o) \<Rightarrow> ('o \<Rightarrow> exn + 'n) \<Rightarrow> 'o \<Rightarrow> 'c \<Rightarrow> (exn + bool) \<times> 'o \<times> 'c" where
  "base_preprocess_add_mod_object ops to_storage of_storage oid set_old current obj c =
     (case db_get ops of_storage c (oid obj) of
        Inl e \<Rightarrow> (Inl e, obj, c)
      | Inr old \<Rightarrow>
          (case current (set_old old obj) of
             Inl e \<Rightarrow> (Inl e, set_old old obj, c)
           | Inr n \<Rightarrow>
               (Inr (old \<noteq> None), set_old old obj,
                db_setitem ops to_storage c (oid (set_old old obj)) n)))"

definition base_preprocess_remove_object ::
    "'c cache_ops \<Rightarrow> (pydict \<Rightarrow> exn + 'n) \<Rightarrow> ('o \<Rightarrow> string) \<Rightarrow> ('n option \<Rightarrow> 'o \<Rightarrow> 'o) \<Rightarrow> 'o \<Rightarrow> 'c \<Rightarrow>
     (exn + bool) \<times> 'o \<times> 'c" where
  "base_preprocess_remove_object ops of_storage oid set_old obj c =
     (case db_get ops of_storage c (oid obj) of
        Inl e \<Rightarrow> (Inl e, obj, c)
      | Inr None \<Rightarrow> (Inr False, set_old None obj, c)
      | Inr (Some n) \<Rightarrow>
          (Inr True, set_old (Some n) obj, db_touch ops c (oid obj) (7 * 24 * 3600)))"

definition user_old_entry :: "user_add_mod \<Rightarrow> exn + user_old_data" where
  "user_old_entry u =
     validation (bindE (schools u) (\<lambda>ss. bindE (record_uid u) (\<lambda>r. bindE (source_uid u) (\<lambda>s.
       Inr \<lparr>uo_schools = ss, uo_record_uid = r, uo_source_uid = s\<rparr>))))"

definition group_old_entry :: "group_add_mod \<Rightarrow> exn + group_old_data" where
  "group_old_entry g = validation (bindE (group_users g) (\<lambda>us. Inr \<lparr>go_users = us\<rparr>))"

definition um_set_old :: "user_old_data option \<Rightarrow> user_add_mod \<Rightarrow> user_add_mod" where
  "um_set_old old u = u\<lparr>um_old_data := old\<rparr>"

definition ur_set_old :: "user_old_data option \<Rightarrow> user_remove \<Rightarrow> user_remove" where
  "ur_set_old old u = u\<lparr>ur_old_data := old\<rparr>"

definition gm_set_old :: "group_old_data option \<Rightarrow> group_add_mod \<Rightarrow> group_add_mod" where
  "gm_set_old old g = g\<lparr>gm_old_data := old\<rparr>"

definition gr_set_old :: "group_old_data option \<Rightarrow> group_remove \<Rightarrow> group_remove" where
  "gr_set_old old g = g\<lparr>gr_old_data := old\<rparr>"

text \<open>
  The hooks of the two registered handlers. The user handler searches the password hashes after the
  old data was saved.
\<close>

definition user_super_preprocess_add_mod_object ::
    "'c env \<Rightarrow> user_add_mod \<Rightarrow> 'c \<Rightarrow> (exn + bool) \<times> user_add_mod \<times> 'c" where
  "user_super_preprocess_add_mod_object env u c =
     base_preprocess_add_mod_object (env_cache env) user_old_to_dict user_old_of_dict um_id um_set_old
       user_old_entry u c"

definition user_preprocess_add_mod_object :: "'c env \<Rightarrow> (listener_object \<times> 'c, bool) st" where
  "user_preprocess_add_mod_object env s =
     (case fst s of
        ListenerUserAddModifyObject u \<Rightarrow>
          (case user_super_preprocess_add_mod_object env u (snd s) of
             (Inl e, u', c') \<Rightarrow> (Inl e, ListenerUserAddModifyObject u', c')
           | (Inr old_data_res, u', c') \<Rightarrow>
               (case bindE (username u') (env_passwords env) of
                  Inl e \<Rightarrow> (Inl e, ListenerUserAddModifyObject u', c')
                | Inr pw \<Rightarrow>
                    (Inr (old_data_res \<or> pw \<noteq> None),
                     ListenerUserAddModifyObject (u'\<lparr>um_user_passwords := pw\<rparr>), c')))
      | _ \<Rightarrow> (Inr False, s))"

definition group_preprocess_add_mod_object :: "'c env \<Rightarrow> (listener_object \<times> 'c, bool) st" where
  "group_preprocess_add_mod_object env s =
     (case fst s of
        ListenerGroupAddModifyObject g \<Rightarrow>
          (case base_preprocess_add_mod_object (env_cache env) group_old_to_dict group_old_of_dict gm_id
                  gm_set_old group_old_entry g (snd s) of
             (r, g', c') \<Rightarrow> (r, ListenerGroupAddModifyObject g', c'))
      | _ \<Rightarrow> (Inr False, s))"

definition user_preprocess_remove_object :: "'c env \<Rightarrow> (listener_object \<times> 'c, bool) st" where
  "user_preprocess_remove_object env s =
     (case fst s of
        ListenerUserRemoveObject u \<Rightarrow>
          (case base_preprocess_remove_object (env_cache env) user_old_of_dict ur_id ur_set_old u (snd s)
           of (r, u', c') \<Rightarrow> (r, ListenerUserRemoveObject u', c'))
      | _ \<Rightarrow> (Inr False, s))"

definition group_preprocess_remove_object :: "'c env \<Rightarrow> (listener_object \<times> 'c, bool) st" where
  "group_preprocess_remove_object env s =
     (case fst s of
        ListenerGroupRemoveObject g \<Rightarrow>
          (case base_preprocess_remove_object (env_cache env) group_old_of_dict gr_id gr_set_old g (snd s)
           of (r, g', c') \<Rightarrow> (r, ListenerGroupRemoveObject g', c'))
      | _ \<Rightarrow> (Inr False, s))"

section \<open>What the old data is: the last data seen\<close>

text \<open>
  Abstractly the database is a partial map \<open>seen\<close> from the ids of one type's objects to the data of
  the last add or modify event: \<open>holds\<close> relates both, for the ids in \<open>K\<close>.
\<close>

definition holds ::
    "'c cache_ops \<Rightarrow> (pydict \<Rightarrow> exn + 'n) \<Rightarrow> string set \<Rightarrow> 'c \<Rightarrow> (string \<Rightarrow> 'n option) \<Rightarrow> bool" where
  "holds ops of_storage K c seen \<longleftrightarrow> (\<forall>k \<in> K. db_get ops of_storage c k = Inr (seen k))"

locale old_data_handler = entry_type to_storage of_storage
  for to_storage :: "'n \<Rightarrow> pydict" and of_storage :: "pydict \<Rightarrow> exn + 'n" +
  fixes oid :: "'o \<Rightarrow> string" and set_old :: "'n option \<Rightarrow> 'o \<Rightarrow> 'o" and current :: "'o \<Rightarrow> exn + 'n"
    and rid :: "'r \<Rightarrow> string" and set_old_r :: "'n option \<Rightarrow> 'r \<Rightarrow> 'r"
  assumes oid_set_old: "oid (set_old old obj) = oid obj"
    and current_set_old: "current (set_old old obj) = current obj"
begin

text \<open>An add or modify event yields the last seen data and records its own.\<close>

lemma add_mod_step:
  assumes "cache_laws ops" "holds ops of_storage K c seen" "oid obj \<in> K" "current obj = Inr n"
  shows "\<exists>c'. base_preprocess_add_mod_object ops to_storage of_storage oid set_old current obj c =
      (Inr (seen (oid obj) \<noteq> None), set_old (seen (oid obj)) obj, c') \<and>
    holds ops of_storage K c' (seen(oid obj \<mapsto> n))"
  using assms get_setitem [OF assms(1)]
  by (auto simp: base_preprocess_add_mod_object_def holds_def oid_set_old current_set_old)

text \<open>An add or modify event that raises leaves the database as it is.\<close>

lemma add_mod_raise:
  assumes "base_preprocess_add_mod_object ops to_storage of_storage oid set_old current obj c =
    (Inl e, obj', c')"
  shows "c' = c"
  using assms by (auto simp: base_preprocess_add_mod_object_def split: sum.splits)

text \<open>A remove event yields the last seen data and changes no entry.\<close>

lemma remove_step:
  assumes "cache_laws ops" "holds ops of_storage K c seen" "rid obj \<in> K"
  shows "\<exists>c'. base_preprocess_remove_object ops of_storage rid set_old_r obj c =
      (Inr (seen (rid obj) \<noteq> None), set_old_r (seen (rid obj)) obj, c') \<and>
    holds ops of_storage K c' seen"
  using assms get_touch [OF assms(1)]
  by (auto simp: base_preprocess_remove_object_def holds_def split: option.split)

end

lemmas set_old_defs = um_set_old_def ur_set_old_def gm_set_old_def gr_set_old_def

interpretation user_old: old_data_handler user_old_to_dict user_old_of_dict um_id um_set_old
    user_old_entry ur_id ur_set_old
  by unfold_locales
     (simp_all add: set_old_defs user_old_entry_def schools_def record_uid_def source_uid_def)

interpretation group_old: old_data_handler group_old_to_dict group_old_of_dict gm_id gm_set_old
    group_old_entry gr_id gr_set_old
  by unfold_locales (simp_all add: set_old_defs group_old_entry_def group_users_def)

text \<open>The hooks at work on the objects of their type.\<close>

lemma user_add_mod_step:
  assumes "cache_laws (env_cache env)" "holds (env_cache env) user_old_of_dict K c seen"
    and "um_id u \<in> K" "user_old_entry u = Inr n" "username u = Inr name"
    and "env_passwords env name = Inr pw"
  shows "\<exists>c'. user_preprocess_add_mod_object env (ListenerUserAddModifyObject u, c) =
      (Inr (seen (um_id u) \<noteq> None \<or> pw \<noteq> None),
       ListenerUserAddModifyObject
         (u\<lparr>um_old_data := seen (um_id u), um_user_passwords := pw\<rparr>), c') \<and>
    holds (env_cache env) user_old_of_dict K c' (seen(um_id u \<mapsto> n))"
proof -
  obtain c' where
    step: "user_super_preprocess_add_mod_object env u c =
      (Inr (seen (um_id u) \<noteq> None), um_set_old (seen (um_id u)) u, c')"
    and holds: "holds (env_cache env) user_old_of_dict K c' (seen(um_id u \<mapsto> n))"
    using user_old.add_mod_step [OF assms(1-4)] by (auto simp: user_super_preprocess_add_mod_object_def)
  with assms(5,6) show ?thesis
    by (auto simp: user_preprocess_add_mod_object_def set_old_defs username_def)
qed

lemma group_add_mod_step:
  assumes "cache_laws (env_cache env)" "holds (env_cache env) group_old_of_dict K c seen"
    and "gm_id g \<in> K" "group_old_entry g = Inr n"
  shows "\<exists>c'. group_preprocess_add_mod_object env (ListenerGroupAddModifyObject g, c) =
      (Inr (seen (gm_id g) \<noteq> None),
       ListenerGroupAddModifyObject (g\<lparr>gm_old_data := seen (gm_id g)\<rparr>), c') \<and>
    holds (env_cache env) group_old_of_dict K c' (seen(gm_id g \<mapsto> n))"
  using group_old.add_mod_step [OF assms]
  by (auto simp: group_preprocess_add_mod_object_def set_old_defs)

lemma user_remove_step:
  assumes "cache_laws (env_cache env)" "holds (env_cache env) user_old_of_dict K c seen"
    and "ur_id u \<in> K"
  shows "\<exists>c'. user_preprocess_remove_object env (ListenerUserRemoveObject u, c) =
      (Inr (seen (ur_id u) \<noteq> None),
       ListenerUserRemoveObject (u\<lparr>ur_old_data := seen (ur_id u)\<rparr>), c') \<and>
    holds (env_cache env) user_old_of_dict K c' seen"
  using user_old.remove_step [OF assms]
  by (auto simp: user_preprocess_remove_object_def set_old_defs)

lemma group_remove_step:
  assumes "cache_laws (env_cache env)" "holds (env_cache env) group_old_of_dict K c seen"
    and "gr_id g \<in> K"
  shows "\<exists>c'. group_preprocess_remove_object env (ListenerGroupRemoveObject g, c) =
      (Inr (seen (gr_id g) \<noteq> None),
       ListenerGroupRemoveObject (g\<lparr>gr_old_data := seen (gr_id g)\<rparr>), c') \<and>
    holds (env_cache env) group_old_of_dict K c' seen"
  using group_old.remove_step [OF assms]
  by (auto simp: group_preprocess_remove_object_def set_old_defs)

text \<open>
  When the search for the hashes fails the new data is in the database already: the retry of the
  file sees it as its own old data, and the schools the user was in before are lost.
\<close>

lemma user_retry_forgets:
  assumes "cache_laws (env_cache env)" "holds (env_cache env) user_old_of_dict K c seen"
    and "um_id u \<in> K" "user_old_entry u = Inr n" "username u = Inr name"
    and "env_passwords env name = Inl e" "env_passwords env' name = Inr pw"
    and "env_cache env' = env_cache env"
  shows "\<exists>c' c''. user_preprocess_add_mod_object env (ListenerUserAddModifyObject u, c) =
      (Inl e, ListenerUserAddModifyObject (u\<lparr>um_old_data := seen (um_id u)\<rparr>), c') \<and>
    user_preprocess_add_mod_object env' (ListenerUserAddModifyObject u, c') =
      (Inr True, ListenerUserAddModifyObject
         (u\<lparr>um_old_data := Some n, um_user_passwords := pw\<rparr>), c'')"
proof -
  obtain c' where
    step: "user_super_preprocess_add_mod_object env u c =
      (Inr (seen (um_id u) \<noteq> None), um_set_old (seen (um_id u)) u, c')"
    and holds: "holds (env_cache env') user_old_of_dict K c' (seen(um_id u \<mapsto> n))"
    using user_old.add_mod_step [OF assms(1-4)] assms(8)
    by (auto simp: user_super_preprocess_add_mod_object_def)
  have fst: "user_preprocess_add_mod_object env (ListenerUserAddModifyObject u, c) =
      (Inl e, ListenerUserAddModifyObject (u\<lparr>um_old_data := seen (um_id u)\<rparr>), c')"
    using step assms(5,6) by (simp add: user_preprocess_add_mod_object_def set_old_defs username_def)
  have "cache_laws (env_cache env')" using assms(1,8) by simp
  from user_add_mod_step [OF this holds assms(3-5,7)] fst show ?thesis by auto
qed

end
