(* ===== verification/File_Queue.thy ===== *)
theory File_Queue
  imports Listener_Objects
begin

text \<open>
  \<open>queues.py\<close>, class \<open>FileQueue\<close>: a directory of listener files with its \<open>trash\<close> and \<open>keep\<close>
  directories, and the operations on it both kinds of queues share. Input/output errors of the file
  system are not modelled, except the ones that the contents of the directories cause: a file that
  is not there, a name that is taken in the target directory, a directory where a file is expected.
\<close>

section \<open>State\<close>

text \<open>A directory entry is a file with its text, or anything that \<open>is_file()\<close> is false for.\<close>

datatype dirent = File string | Directory

fun is_File :: "dirent \<Rightarrow> bool" where
  "is_File (File _) = True"
| "is_File Directory = False"

type_synonym directory = "(string \<times> dirent) list"

record queue_dir =
  q_entries :: directory
  q_trash :: directory
  q_keep :: directory

definition wf_queue_dir :: "queue_dir \<Rightarrow> bool" where
  "wf_queue_dir q \<longleftrightarrow> wf_dict (q_entries q) \<and> wf_dict (q_trash q) \<and> wf_dict (q_keep q)"

section \<open>Moving files away\<close>

text \<open>
  \<open>shutil.move\<close> into a directory refuses to replace an entry of that name; \<open>discard_file\<close> then
  deletes the file (\<open>unlink\<close>, which fails on a directory), \<open>keep_file\<close> only logs the error.
\<close>

definition move_entry :: "string \<Rightarrow> directory \<Rightarrow> directory \<Rightarrow> (exn + directory \<times> directory)" where
  "move_entry name src dst =
     (if name \<in> keys dst then Inl OSErr
      else (case map_of src name of
              None \<Rightarrow> Inl FileNotFoundErr
            | Some e \<Rightarrow> Inr (AList.delete name src, AList.update name e dst)))"

definition unlink :: "string \<Rightarrow> directory \<Rightarrow> (exn + directory)" where
  "unlink name src =
     (case map_of src name of
        None \<Rightarrow> Inl FileNotFoundErr
      | Some Directory \<Rightarrow> Inl OSErr
      | Some (File _) \<Rightarrow> Inr (AList.delete name src))"

definition discard_file :: "string \<Rightarrow> queue_dir \<Rightarrow> queue_dir" where
  "discard_file name q =
     (case move_entry name (q_entries q) (q_trash q) of
        Inr (es, tr) \<Rightarrow> q\<lparr>q_entries := es, q_trash := tr\<rparr>
      | Inl e \<Rightarrow>
          if e = FileNotFoundErr then q
          else (case unlink name (q_entries q) of
                  Inr es \<Rightarrow> q\<lparr>q_entries := es\<rparr>
                | Inl _ \<Rightarrow> q))"

definition keep_file :: "string \<Rightarrow> queue_dir \<Rightarrow> queue_dir" where
  "keep_file name q =
     (case move_entry name (q_entries q) (q_keep q) of
        Inr (es, kp) \<Rightarrow> q\<lparr>q_entries := es, q_keep := kp\<rparr>
      | Inl _ \<Rightarrow> q)"

text \<open>\<open>path.unlink()\<close> where a missing file is no error (the other callers never see a directory).\<close>

definition unlink_missing_ok :: "string \<Rightarrow> queue_dir \<Rightarrow> exn + queue_dir" where
  "unlink_missing_ok name q =
     (case unlink name (q_entries q) of
        Inr es \<Rightarrow> Inr (q\<lparr>q_entries := es\<rparr>)
      | Inl e \<Rightarrow> if e = FileNotFoundErr then Inr q else Inl e)"

section \<open>Listing\<close>

definition json_name :: "string \<Rightarrow> bool" where
  "json_name name \<longleftrightarrow> suffix ''.json'' (lower name)"

definition skipped :: "string \<times> dirent \<Rightarrow> bool" where
  "skipped e \<longleftrightarrow> \<not> is_File (snd e) \<and> fst e \<in> {''keep'', ''trash''}"

definition listed :: "string \<times> dirent \<Rightarrow> bool" where
  "listed e \<longleftrightarrow> is_File (snd e) \<and> json_name (fst e)"

text \<open>The loop of \<open>queue_files\<close> over the directory entries, and the sorted result.\<close>

fun scan_dir :: "(string \<times> dirent) list \<Rightarrow> string list \<Rightarrow> queue_dir \<Rightarrow> string list \<times> queue_dir" where
  "scan_dir [] res q = (res, q)"
| "scan_dir (e # es) res q =
     (if skipped e then scan_dir es res q
      else if \<not> listed e then scan_dir es res (discard_file (fst e) q)
      else scan_dir es (res @ [fst e]) q)"

definition queue_files :: "queue_dir \<Rightarrow> string list \<times> queue_dir" where
  "queue_files q = (case scan_dir (q_entries q) [] q of (res, q') \<Rightarrow> (sort res, q'))"

definition queue_length :: "queue_dir \<Rightarrow> nat" where
  "queue_length q = length (fst (queue_files q))"

section \<open>Loading and saving listener files\<close>

text \<open>
  The hook calls run the implementations in the reverse order of their registration: the user
  handler, then the group handler. All of them run; results of \<open>None\<close> are left out.
\<close>

definition hook_get_listener_object :: "'c env \<Rightarrow> pyval \<Rightarrow> exn + listener_object list" where
  "hook_get_listener_object env v =
     (case v of
        PDict d \<Rightarrow>
          bindE (user_get_listener_object env d) (\<lambda>r1.
          bindE (group_get_listener_object env d) (\<lambda>r2.
          Inr (List.map_filter id [r1, r2])))
      | _ \<Rightarrow> Inl AttributeErr)"

definition load_text :: "'c env \<Rightarrow> string \<Rightarrow> exn + listener_object" where
  "load_text env text =
     (case env_loads env text of
        Inl e \<Rightarrow> Inl (if is_OSError e \<or> is_ValueError e then ListenerLoadingError else e)
      | Inr v \<Rightarrow>
          bindE (hook_get_listener_object env v)
            (\<lambda>objs. case objs of [] \<Rightarrow> Inl ListenerLoadingError | obj # _ \<Rightarrow> Inr obj))"

definition load_listener_file :: "'c env \<Rightarrow> string \<Rightarrow> queue_dir \<Rightarrow> exn + listener_object" where
  "load_listener_file env name q =
     (case map_of (q_entries q) name of
        Some (File text) \<Rightarrow> load_text env text
      | _ \<Rightarrow> Inl ListenerLoadingError)"

definition saving_error :: "exn \<Rightarrow> exn" where
  "saving_error e = (if is_OSError e \<or> is_ValueError e then ListenerSavingError else e)"

definition save_listener_file ::
    "'c env \<Rightarrow> listener_object \<Rightarrow> string \<Rightarrow> queue_dir \<Rightarrow> exn + queue_dir" where
  "save_listener_file env obj name q =
     (case user_save_listener_object env obj of
        Inl e \<Rightarrow> Inl (saving_error e)
      | Inr (Some text) \<Rightarrow> Inr (q\<lparr>q_entries := AList.update name (File text) (q_entries q)\<rparr>)
      | Inr None \<Rightarrow>
          (case group_save_listener_object env obj of
             Inl e \<Rightarrow> Inl (saving_error e)
           | Inr (Some text) \<Rightarrow> Inr (q\<lparr>q_entries := AList.update name (File text) (q_entries q)\<rparr>)
           | Inr None \<Rightarrow> Inl ListenerSavingError))"

section \<open>Properties of moves and listings\<close>

lemmas move_defs = move_entry_def unlink_def discard_file_def keep_file_def unlink_missing_ok_def

lemma wf_discard_file [simp, intro]: "wf_queue_dir q \<Longrightarrow> wf_queue_dir (discard_file name q)"
  by (auto simp: wf_queue_dir_def move_defs split: option.split dirent.split)

lemma wf_keep_file [simp, intro]: "wf_queue_dir q \<Longrightarrow> wf_queue_dir (keep_file name q)"
  by (auto simp: wf_queue_dir_def move_defs split: option.split)

lemma wf_unlink_missing_ok:
  "wf_queue_dir q \<Longrightarrow> unlink_missing_ok name q = Inr q' \<Longrightarrow> wf_queue_dir q'"
  by (auto simp: wf_queue_dir_def move_defs split: option.splits dirent.splits if_splits)

text \<open>A discarded file leaves the queue; its text is in the trash unless the name is taken there.\<close>

lemma discard_file_removes:
  assumes "map_of (q_entries q) name = Some (File text)"
  shows "map_of (q_entries (discard_file name q)) = (map_of (q_entries q))(name := None)"
    and "map_of (q_trash (discard_file name q)) =
      (if name \<in> keys (q_trash q) then map_of (q_trash q)
       else (map_of (q_trash q))(name \<mapsto> File text))"
    and "q_keep (discard_file name q) = q_keep q"
  using assms by (simp_all add: move_defs dict_simps)

lemma discard_file_missing:
  "name \<notin> keys (q_entries q) \<Longrightarrow> discard_file name q = q"
  by (simp add: move_defs map_of_None_iff [symmetric])

lemma discard_file_other:
  "n \<noteq> name \<Longrightarrow> map_of (q_entries (discard_file name q)) n = map_of (q_entries q) n"
  by (auto simp: move_defs dict_simps split: option.split dirent.split)

lemma keep_file_removes:
  assumes "map_of (q_entries q) name = Some e" "name \<notin> keys (q_keep q)"
  shows "map_of (q_entries (keep_file name q)) = (map_of (q_entries q))(name := None)"
    and "map_of (q_keep (keep_file name q)) = (map_of (q_keep q))(name \<mapsto> e)"
    and "q_trash (keep_file name q) = q_trash q"
  using assms by (simp_all add: move_defs dict_simps)

text \<open>A name that is taken in \<open>keep\<close> stays in the queue.\<close>

lemma keep_file_collision: "name \<in> keys (q_keep q) \<Longrightarrow> keep_file name q = q"
  by (simp add: move_defs)

lemma discard_file_keep [simp]: "q_keep (discard_file name q) = q_keep q"
  by (auto simp: move_defs split: option.split dirent.split)

lemma discard_file_trash_mono:
  "map_of (q_trash q) n = Some e \<Longrightarrow> map_of (q_trash (discard_file name q)) n = Some e"
  by (auto simp: move_defs dict_simps keys_dom split: option.split dirent.split)

lemma scan_dir_res:
  "fst (scan_dir es res q) = res @ map fst (filter (\<lambda>e. \<not> skipped e \<and> listed e) es)"
  by (induction es res q rule: scan_dir.induct) auto

lemma listed_not_skipped: "listed e \<Longrightarrow> \<not> skipped e"
  by (auto simp: listed_def skipped_def)

lemma scan_dir_other:
  assumes "\<forall>e \<in> set es. fst e = n \<longrightarrow> skipped e \<or> listed e"
  shows "map_of (q_entries (snd (scan_dir es res q))) n = map_of (q_entries q) n"
  using assms
proof (induction es res q rule: scan_dir.induct)
  case (2 e es res q)
  then show ?case by (auto simp: discard_file_other)
qed simp

lemma scan_dir_wf: "wf_queue_dir q \<Longrightarrow> wf_queue_dir (snd (scan_dir es res q))"
  by (induction es res q rule: scan_dir.induct) auto

lemma scan_dir_keep [simp]: "q_keep (snd (scan_dir es res q)) = q_keep q"
  by (induction es res q rule: scan_dir.induct) auto

lemma queue_files_eq:
  "fst (queue_files q) = sort (map fst (filter listed (q_entries q)))"
proof -
  have "filter (\<lambda>e. \<not> skipped e \<and> listed e) (q_entries q) = filter listed (q_entries q)"
    by (rule filter_cong) (auto dest: listed_not_skipped)
  then show ?thesis
    using scan_dir_res [of "q_entries q" "[]" q]
    by (auto simp: queue_files_def split: prod.split)
qed

lemma queue_files_snd: "snd (queue_files q) = snd (scan_dir (q_entries q) [] q)"
  by (simp add: queue_files_def split: prod.split)

text \<open>The listing is sorted, without duplicates, and holds exactly the JSON files.\<close>

lemma queue_files_sorted: "sorted (fst (queue_files q))"
  by (simp add: queue_files_eq)

lemma queue_files_distinct: "wf_queue_dir q \<Longrightarrow> distinct (fst (queue_files q))"
  unfolding queue_files_eq by (simp add: wf_queue_dir_def wf_dict_def distinct_map_filter)

lemma in_queue_files:
  assumes "wf_queue_dir q"
  shows "n \<in> set (fst (queue_files q)) \<longleftrightarrow>
    json_name n \<and> (\<exists>text. map_of (q_entries q) n = Some (File text))"
proof -
  have "n \<in> set (fst (queue_files q)) \<longleftrightarrow> (\<exists>e. (n, e) \<in> set (q_entries q) \<and> is_File e \<and> json_name n)"
    by (auto simp: queue_files_eq listed_def image_iff)
  also have "\<dots> \<longleftrightarrow> json_name n \<and> (\<exists>text. map_of (q_entries q) n = Some (File text))"
    using assms by (auto simp: set_iff_map_of wf_queue_dir_def is_File.simps elim: is_File.elims)
  finally show ?thesis .
qed

text \<open>Listing keeps every JSON file with its text.\<close>

lemma queue_files_keeps_file:
  assumes "wf_queue_dir q" "map_of (q_entries q) n = Some (File text)" "json_name n"
  shows "map_of (q_entries (snd (queue_files q))) n = Some (File text)"
proof -
  have "\<forall>e \<in> set (q_entries q). fst e = n \<longrightarrow> skipped e \<or> listed e"
    using assms by (auto simp: wf_queue_dir_def listed_def dest!: map_of_is_SomeI [rotated]
        simp: wf_dict_def)
  from scan_dir_other [OF this] show ?thesis using assms(2) by (simp add: queue_files_snd)
qed

lemma queue_files_wf: "wf_queue_dir q \<Longrightarrow> wf_queue_dir (snd (queue_files q))"
  by (simp add: queue_files_snd scan_dir_wf)

lemma queue_files_keep [simp]: "q_keep (snd (queue_files q)) = q_keep q"
  by (simp add: queue_files_snd)


text \<open>Listing adds nothing.\<close>

lemma discard_file_subset:
  "map_of (q_entries (discard_file name q)) n = Some e \<Longrightarrow> map_of (q_entries q) n = Some e"
  by (auto simp: move_defs dict_simps split: option.splits dirent.splits if_splits)

lemma scan_dir_subset:
  "map_of (q_entries (snd (scan_dir es res q))) n = Some e \<Longrightarrow> map_of (q_entries q) n = Some e"
  by (induction es res q rule: scan_dir.induct) (auto split: if_splits dest: discard_file_subset)

lemma queue_files_subset:
  "map_of (q_entries (snd (queue_files q))) n = Some e \<Longrightarrow> map_of (q_entries q) n = Some e"
  unfolding queue_files_snd by (rule scan_dir_subset)

lemma queue_files_no_dir:
  assumes "wf_queue_dir q" "n \<in> set (fst (queue_files q))"
  shows "map_of (q_entries (snd (queue_files q))) n \<noteq> Some Directory"
proof
  assume "map_of (q_entries (snd (queue_files q))) n = Some Directory"
  from queue_files_subset [OF this] show False using in_queue_files [OF assms(1), of n] assms(2) by simp
qed

section \<open>Loops over the files of a queue\<close>

text \<open>
  What the loops of the queues have in common: a step works on one file of the directory, touches no
  other name, and unless it raises, the file is gone afterwards.
\<close>

locale queue_loop =
  fixes dir :: "'s \<Rightarrow> directory" and step :: "string \<Rightarrow> ('s, unit) st"
  assumes other: "step n s = (r, s') \<Longrightarrow> m \<noteq> n \<Longrightarrow> map_of (dir s') m = map_of (dir s) m"
    and gone: "step n s = (Inr (), s') \<Longrightarrow> map_of (dir s) n \<noteq> Some Directory \<Longrightarrow> map_of (dir s') n = None"
begin

lemma loop_other:
  "m \<notin> set names \<Longrightarrow> map_of (dir (snd (for_each step names s))) m = map_of (dir s) m"
proof (induction names arbitrary: s)
  case (Cons n names)
  obtain r s' where step: "step n s = (r, s')" by force
  with Cons other [OF step, of m] show ?case by (cases r) auto
qed simp

lemma loop_gone:
  assumes "fst (for_each step names s) = Inr ()" "\<forall>n \<in> set names. map_of (dir s) n \<noteq> Some Directory"
    and "n \<in> set names"
  shows "map_of (dir (snd (for_each step names s))) n = None"
  using assms
proof (induction names arbitrary: s)
  case (Cons m names)
  obtain s' where step: "step m s = (Inr (), s')"
    using Cons.prems(1) by (cases "step m s") (auto split: sum.splits)
  have gone_m: "map_of (dir s') m = None" using gone [OF step] Cons.prems(2) by simp
  have dirs: "\<forall>n \<in> set names. map_of (dir s') n \<noteq> Some Directory"
    using Cons.prems(2) gone_m other [OF step] by (metis list.set_intros(2) option.distinct(1))
  show ?case
  proof (cases "n \<in> set names")
    case True
    then show ?thesis using Cons.IH [of s'] Cons.prems(1) dirs step by simp
  next
    case False
    then have "n = m" using Cons.prems(3) by simp
    then show ?thesis using loop_other [OF False, of s'] gone_m step by simp
  qed
qed simp

text \<open>A directory whose loop ended normally holds exactly what the loop did not work on.\<close>

lemma loop_restricts:
  assumes "fst (for_each step names s) = Inr ()" "\<forall>n \<in> set names. map_of (dir s) n \<noteq> Some Directory"
  shows "map_of (dir (snd (for_each step names s))) = map_of (dir s) |` (- set names)"
  using loop_gone [OF assms] loop_other [of _ names s] by (auto simp: restrict_map_def fun_eq_iff)

end

end
