(* ===== verification/Plugins.thy ===== *)
theory Plugins
  imports Prelude
begin

text \<open>
  \<open>plugins.py\<close>: which plugins' hook implementations a call runs. The registry is \<open>pluggy\<close>'s: the
  parameter \<open>registry\<close> lists, in the order of their registration, the names of the plugins with the
  hooks each implements; implementations run in the reverse order.
\<close>

type_synonym registry = "(string \<times> string list) list"

definition DEFAULT_PLUGIN :: string where
  "DEFAULT_PLUGIN = ''kelvin''"

fun hookcallers :: "registry \<Rightarrow> string \<Rightarrow> string list" where
  "hookcallers reg p = (case map_of reg p of None \<Rightarrow> [] | Some hs \<Rightarrow> hs)"

text \<open>\<open>filter_plugins\<close>: the plugins whose implementation of \<open>hook_name\<close> the returned caller runs.\<close>

definition filter_plugins :: "registry \<Rightarrow> string \<Rightarrow> string list \<Rightarrow> string list" where
  "filter_plugins reg hook_name plugins =
     (let all_hcaller_names = concat (map (hookcallers reg) plugins);
          selected = (if hook_name \<in> set all_hcaller_names then plugins else [DEFAULT_PLUGIN]);
          plugins_to_remove = filter (\<lambda>p. p \<notin> set selected) (map fst reg)
      in rev (map fst (filter (\<lambda>(p, hooks). p \<notin> set plugins_to_remove \<and> hook_name \<in> set hooks) reg)))"

lemma set_filter_plugins:
  assumes "wf_dict reg"
  shows "set (filter_plugins reg h ps) =
    (if \<exists>p \<in> set ps. h \<in> set (hookcallers reg p) then {p \<in> set ps. h \<in> set (hookcallers reg p)}
     else {p. p = DEFAULT_PLUGIN \<and> h \<in> set (hookcallers reg p)})"
proof -
  have mem: "h \<in> set (hookcallers reg p) \<longleftrightarrow> (\<exists>hs. (p, hs) \<in> set reg \<and> h \<in> set hs)" for p
    using assms by (cases "map_of reg p") (auto simp: set_iff_map_of)
  have "set (filter_plugins reg h ps) =
     {p. p \<in> set (if \<exists>p \<in> set ps. h \<in> set (hookcallers reg p) then ps else [DEFAULT_PLUGIN]) \<and>
         (\<exists>hs. (p, hs) \<in> set reg \<and> h \<in> set hs)}"
    by (auto simp: filter_plugins_def Let_def image_iff)
  then show ?thesis unfolding mem [symmetric] by (auto simp del: hookcallers.simps)
qed

lemma distinct_filter_plugins: "wf_dict reg \<Longrightarrow> distinct (filter_plugins reg h ps)"
  by (simp add: filter_plugins_def Let_def wf_dict_def distinct_map_filter)

end
