(* ===== verification/Distribution.thy ===== *)
theory Distribution
  imports File_Queue Plugins
begin

text \<open>
  The hooks \<open>school_authorities_to_distribute_to\<close> of the default plugins
  (\<open>distribution_user.py\<close>, \<open>distribution_group_base.py\<close>, \<open>distribution_group_kelvin.py\<close>): to which
  school authorities' queues the in queue copies an object. They read the school authorities of
  the out queues and the school authority mapping, whose keys are lower case.
\<close>

section \<open>The school authority mapping\<close>

text \<open>\<open>FileQueue.load_school_authority_mapping\<close> after the mapping was read from its file.\<close>

definition load_school_authority_mapping :: "(string \<times> string) list \<Rightarrow> (string \<times> string) list" where
  "load_school_authority_mapping m = fold (\<lambda>(k, v) d. AList.update (lower k) v d) m []"

lemma load_mapping_lookup:
  "map_of (load_school_authority_mapping m) = map_of (rev (map (\<lambda>(k, v). (lower k, v)) m))"
  using map_of_fold_update [of "\<lambda>x. lower (fst x)" snd m "[]"]
  by (simp add: load_school_authority_mapping_def case_prod_unfold)

lemma load_mapping_lower_keys: "k \<in> keys (load_school_authority_mapping m) \<Longrightarrow> lower k = k"
  by (auto simp: keys_dom load_mapping_lookup dom_map_of_conv_image_fst)

section \<open>Users\<close>

text \<open>\<open>_get_school_authority_configs\<close> of both plugins.\<close>

definition active_kelvin_configs :: "school_authority list \<Rightarrow> school_authority list" where
  "active_kelvin_configs sas = filter (\<lambda>sa. ''kelvin'' \<in> set (sa_plugins sa) \<and> sa_active sa) sas"

text \<open>The loop that adds the mapped school authority of every school; unknown schools are skipped.\<close>

fun add_mapped :: "(string \<times> string) list \<Rightarrow> string list \<Rightarrow> string list \<Rightarrow> string list" where
  "add_mapped mapping [] names = names"
| "add_mapped mapping (s # ss) names =
     (case map_of mapping (lower s) of
        None \<Rightarrow> add_mapped mapping ss names
      | Some sa \<Rightarrow> add_mapped mapping ss (List.insert sa names))"

definition user_old_schools :: "listener_object \<Rightarrow> string list" where
  "user_old_schools obj =
     (case obj of
        ListenerUserAddModifyObject u \<Rightarrow>
          (case um_old_data u of None \<Rightarrow> [] | Some o' \<Rightarrow> uo_schools o')
      | ListenerUserRemoveObject u \<Rightarrow>
          (case ur_old_data u of None \<Rightarrow> [] | Some o' \<Rightarrow> uo_schools o')
      | _ \<Rightarrow> [])"

definition user_current_schools :: "listener_object \<Rightarrow> exn + string list" where
  "user_current_schools obj =
     (case obj of ListenerUserAddModifyObject u \<Rightarrow> schools u | _ \<Rightarrow> Inr [])"

definition user_school_authorities_to_distribute_to ::
    "school_authority list \<Rightarrow> (string \<times> string) list \<Rightarrow> listener_object \<Rightarrow> exn + string list" where
  "user_school_authorities_to_distribute_to sas mapping obj =
     (if active_kelvin_configs sas = [] then Inr []
      else if \<not> is_user_object obj then Inr []
      else bindE (user_current_schools obj)
        (\<lambda>ss. Inr (add_mapped mapping (user_old_schools obj) (add_mapped mapping ss []))))"

lemma set_add_mapped:
  "set (add_mapped mapping ss names) = set names \<union> {sa. \<exists>s \<in> set ss. map_of mapping (lower s) = Some sa}"
  by (induction mapping ss names rule: add_mapped.induct) (auto split: option.split)

lemma distinct_add_mapped: "distinct names \<Longrightarrow> distinct (add_mapped mapping ss names)"
  by (induction mapping ss names rule: add_mapped.induct) (auto split: option.split)

text \<open>
  The queues a user goes to are those of its current schools and of the schools it was in before,
  so that a user who leaves a school is changed on the system it leaves as well.
\<close>

lemma user_distribution_set:
  assumes "active_kelvin_configs sas \<noteq> []" "is_user_object obj" "user_current_schools obj = Inr ss"
  shows "\<exists>names. user_school_authorities_to_distribute_to sas mapping obj = Inr names \<and>
    distinct names \<and>
    set names = {sa. \<exists>s \<in> set ss \<union> set (user_old_schools obj). map_of mapping (lower s) = Some sa}"
  using assms
  by (auto simp: user_school_authorities_to_distribute_to_def set_add_mapped distinct_add_mapped)

section \<open>School classes\<close>

definition group_school_authorities :: "string \<Rightarrow> school_authority list \<Rightarrow> school_authority list" where
  "group_school_authorities plugin_name sas = filter (\<lambda>sa. plugin_name \<in> set (sa_plugins sa)) sas"

fun is_group_object :: "listener_object \<Rightarrow> bool" where
  "is_group_object (ListenerGroupAddModifyObject _) = True"
| "is_group_object (ListenerGroupRemoveObject _) = True"
| "is_group_object _ = False"

lemma user_is_no_group: "is_user_object obj \<Longrightarrow> \<not> is_group_object obj"
  by (cases obj) auto

definition filtered_mapping :: "string set \<Rightarrow> (string \<times> string) list \<Rightarrow> (string \<times> string) list" where
  "filtered_mapping names mapping =
     fold (\<lambda>(ou, sa) d. AList.update (lower ou) sa d) (filter (\<lambda>(ou, sa). sa \<in> names) mapping) []"

definition base_group_school_authorities_to_distribute_to ::
    "environ \<Rightarrow> string \<Rightarrow> school_authority list \<Rightarrow> (string \<times> string) list \<Rightarrow> listener_object \<Rightarrow>
     exn + string list" where
  "base_group_school_authorities_to_distribute_to env plugin_name sas mapping obj =
     (if \<not> is_group_object obj then Inr []
      else bindE (match_class_dn env (dn_of obj)) (\<lambda>group_match.
        (case group_match of
           None \<Rightarrow> Inr []
         | Some groupdict \<Rightarrow>
             let school_authorities = group_school_authorities plugin_name sas;
                 our_names = set (map sa_name school_authorities)
             in if school_authorities = [] then Inr []
                else (case map_of groupdict ''ou'' of
                   None \<Rightarrow> Inl (KeyErr ''ou'')
                 | Some ou \<Rightarrow>
                     (case map_of (filtered_mapping our_names mapping) (lower ou) of
                        None \<Rightarrow> Inr []
                      | Some sa \<Rightarrow> Inr [sa])))))"

definition kelvin_group_school_authorities_to_distribute_to ::
    "environ \<Rightarrow> school_authority list \<Rightarrow> (string \<times> string) list \<Rightarrow> listener_object \<Rightarrow> exn + string list"
  where
  "kelvin_group_school_authorities_to_distribute_to env sas mapping obj =
     (if active_kelvin_configs sas = [] then Inr []
      else base_group_school_authorities_to_distribute_to env ''kelvin'' sas mapping obj)"

text \<open>\<open>KelvinPartialGroupSyncGroupDistribution\<close> only sets the names of the base class.\<close>

definition partial_group_school_authorities_to_distribute_to ::
    "environ \<Rightarrow> school_authority list \<Rightarrow> (string \<times> string) list \<Rightarrow> listener_object \<Rightarrow> exn + string list"
  where
  "partial_group_school_authorities_to_distribute_to env =
     base_group_school_authorities_to_distribute_to env ''kelvin-partial-group-sync''"

lemma group_distribution_user [simp]:
  assumes "\<not> is_group_object obj"
  shows "kelvin_group_school_authorities_to_distribute_to env sas mapping obj = Inr []"
    "partial_group_school_authorities_to_distribute_to env sas mapping obj = Inr []"
  using assms
  by (simp_all add: kelvin_group_school_authorities_to_distribute_to_def
      partial_group_school_authorities_to_distribute_to_def base_group_school_authorities_to_distribute_to_def)

text \<open>On a mapping as it is loaded, filtering keeps the lookups of the names in the set.\<close>

lemma filtered_mapping_lookup:
  assumes "wf_dict mapping" "\<And>k. k \<in> keys mapping \<Longrightarrow> lower k = k"
  shows "map_of (filtered_mapping names mapping) k =
    (case map_of mapping k of Some sa \<Rightarrow> if sa \<in> names then Some sa else None | None \<Rightarrow> None)"
proof -
  have "filter (\<lambda>(ou, sa). sa \<in> names) mapping =
      map (\<lambda>(ou, sa). (lower ou, sa)) (filter (\<lambda>(ou, sa). sa \<in> names) mapping)"
    using assms(2) by (auto intro!: map_idI [symmetric] simp: keys_def) force
  then have "map_of (filtered_mapping names mapping) k =
      map_of (rev (filter (\<lambda>(ou, sa). sa \<in> names) mapping)) k"
    using map_of_fold_update [of "\<lambda>x. lower (fst x)" snd "filter (\<lambda>(ou, sa). sa \<in> names) mapping" "[]"]
    unfolding filtered_mapping_def by (simp add: case_prod_unfold)
  also have "\<dots> = map_of (filter (\<lambda>(ou, sa). sa \<in> names) mapping) k"
    using assms(1) by (simp add: map_of_rev_wf)
  also have "\<dots> = (case map_of mapping k of Some sa \<Rightarrow> if sa \<in> names then Some sa else None | None \<Rightarrow> None)"
    using assms(1) by (induction mapping) (auto simp: dict_simps map_of_None_iff [symmetric] split: option.splits)
  finally show ?thesis .
qed

lemma base_group_distribution:
  assumes "wf_dict mapping" "\<And>k. k \<in> keys mapping \<Longrightarrow> lower k = k" "is_group_object obj"
    and "match_class_dn env (dn_of obj) = Inr (Some (class_groups ou name))"
  shows "base_group_school_authorities_to_distribute_to env plugin_name sas mapping obj =
    Inr (case map_of mapping (lower ou) of
           Some sa \<Rightarrow> if sa \<in> sa_name ` {s \<in> set sas. plugin_name \<in> set (sa_plugins s)} then [sa] else []
         | None \<Rightarrow> [])"
  using assms(3,4)
  by (cases "group_school_authorities plugin_name sas = []")
    (auto simp: base_group_school_authorities_to_distribute_to_def Let_def class_groups_def filter_empty_conv
        filtered_mapping_lookup [OF assms(1,2)] group_school_authorities_def image_iff split: option.split)

lemma kelvin_group_distribution:
  assumes "wf_dict mapping" "\<And>k. k \<in> keys mapping \<Longrightarrow> lower k = k"
    and "active_kelvin_configs sas \<noteq> []" "is_group_object obj"
    and "match_class_dn env (dn_of obj) = Inr (Some (class_groups ou name))"
  shows "kelvin_group_school_authorities_to_distribute_to env sas mapping obj =
    Inr (case map_of mapping (lower ou) of
           Some sa \<Rightarrow> if sa \<in> sa_name ` {s \<in> set sas. ''kelvin'' \<in> set (sa_plugins s)} then [sa] else []
         | None \<Rightarrow> [])"
  using assms(3) base_group_distribution [OF assms(1,2,4,5)]
  by (simp add: kelvin_group_school_authorities_to_distribute_to_def)

end
