(* ===== verification/In_Queue.thy ===== *)
theory In_Queue
  imports Distribution
begin

text \<open>
  \<open>queues.py\<close>, class \<open>InQueue\<close>: every new listener file is preprocessed and renamed to
  \<open>..._ready.json\<close>, then copied to the out queues of the school authorities concerned and removed.
  A file that cannot be used is moved to the trash.
\<close>

section \<open>State\<close>

text \<open>The part of an \<open>OutQueue\<close> object that the in queue reads and writes, with its own fields.\<close>

datatype task_state = no_task | running | closed

record out_queue =
  oq_name :: string
  oq_school_authority :: school_authority
  oq_dir :: queue_dir
  oq_head :: string
  oq_task :: task_state
  oq_deleted :: bool

record 'c in_queue =
  iq_dir :: queue_dir
  iq_db :: 'c
  iq_head :: string
  iq_out_queues :: "out_queue list"
  iq_mapping :: "(string \<times> string) list"
  iq_old_out_queues :: "string list"

definition school_authority_names :: "'c in_queue \<Rightarrow> string list" where
  "school_authority_names iq = map (\<lambda>q. sa_name (oq_school_authority q)) (iq_out_queues iq)"

section \<open>Preprocessing\<close>

text \<open>All implementations of a preprocessing hook run one after the other on the same object.\<close>

definition hook_preprocess_add_mod_object :: "'c env \<Rightarrow> (listener_object \<times> 'c, bool) st" where
  "hook_preprocess_add_mod_object env =
     bindM (user_preprocess_add_mod_object env) (\<lambda>r1.
     bindM (group_preprocess_add_mod_object env) (\<lambda>r2. ret (r1 \<or> r2)))"

definition hook_preprocess_remove_object :: "'c env \<Rightarrow> (listener_object \<times> 'c, bool) st" where
  "hook_preprocess_remove_object env =
     bindM (user_preprocess_remove_object env) (\<lambda>r1.
     bindM (group_preprocess_remove_object env) (\<lambda>r2. ret (r1 \<or> r2)))"

definition preprocess_object :: "'c env \<Rightarrow> (listener_object \<times> 'c, bool) st" where
  "preprocess_object env s =
     (if is_add_mod (fst s) then hook_preprocess_add_mod_object env s
      else hook_preprocess_remove_object env s)"

definition ready_name :: "string \<Rightarrow> string" where
  "ready_name name = rsplit_head CHR ''.'' name @ ''_ready.json''"

definition is_ready :: "string \<Rightarrow> bool" where
  "is_ready name \<longleftrightarrow> suffix ''_ready.json'' name"

definition rename :: "string \<Rightarrow> string \<Rightarrow> directory \<Rightarrow> exn + directory" where
  "rename src dst es =
     (case map_of es src of
        None \<Rightarrow> Inl FileNotFoundErr
      | Some e \<Rightarrow>
          if map_of es dst = Some Directory then Inl OSErr
          else Inr (AList.update dst e (AList.delete src es)))"

definition preprocess_file :: "'c env \<Rightarrow> string \<Rightarrow> ('c in_queue, string) st" where
  "preprocess_file env name iq =
     (case load_listener_file env name (iq_dir iq) of
        Inl e \<Rightarrow> (Inl (if e = ListenerLoadingError then InvalidListenerFile else e), iq)
      | Inr obj \<Rightarrow>
          (case preprocess_object env (obj, iq_db iq) of
             (Inl e, obj', c') \<Rightarrow> (Inl e, iq\<lparr>iq_db := c'\<rparr>)
           | (Inr changed, obj', c') \<Rightarrow>
               (case (if changed then save_listener_file env obj' name (iq_dir iq)
                      else Inr (iq_dir iq)) of
                  Inl e \<Rightarrow> (Inl (if e = ListenerSavingError then InvalidListenerFile else e),
                            iq\<lparr>iq_db := c'\<rparr>)
                | Inr q \<Rightarrow>
                    (case rename name (ready_name name) (q_entries q) of
                       Inl e \<Rightarrow> (Inl e, iq\<lparr>iq_db := c', iq_dir := q\<rparr>)
                     | Inr es \<Rightarrow> (Inr (ready_name name),
                                 iq\<lparr>iq_db := c', iq_dir := q\<lparr>q_entries := es\<rparr>\<rparr>)))))"

text \<open>
  The \<open>for\<close> loop of \<open>distribute_loop\<close>: an unexpected exception ends the task with
  \<open>InvalidListenerFile\<close>.
\<close>

definition discard_in :: "string \<Rightarrow> 'c in_queue \<Rightarrow> 'c in_queue" where
  "discard_in name iq = iq\<lparr>iq_dir := discard_file name (iq_dir iq)\<rparr>"

fun preprocess_all :: "'c env \<Rightarrow> string list \<Rightarrow> ('c in_queue, unit) st" where
  "preprocess_all env [] iq = (Inr (), iq)"
| "preprocess_all env (name # names) iq =
     (case preprocess_file env name iq of
        (Inr _, iq') \<Rightarrow> preprocess_all env names iq'
      | (Inl e, iq') \<Rightarrow>
          if e = InvalidListenerFile \<or> e = ListenerSavingError
          then preprocess_all env names (discard_in name iq')
          else (Inl InvalidListenerFile, iq'))"

section \<open>Distribution\<close>

text \<open>
  The results of the hook implementations are merged into a set; the copies go to different
  directories, so that the order of the set, which Python leaves open, only matters for which copies
  were made before one fails. The model keeps the order of the results.
\<close>

definition hook_distribution :: "environ \<Rightarrow> 'c in_queue \<Rightarrow> listener_object \<Rightarrow> exn + string list" where
  "hook_distribution renv iq obj =
     (let sas = map oq_school_authority (iq_out_queues iq) in
      bindE (user_school_authorities_to_distribute_to sas (iq_mapping iq) obj) (\<lambda>r1.
      bindE (kelvin_group_school_authorities_to_distribute_to renv sas (iq_mapping iq) obj) (\<lambda>r2.
      bindE (partial_group_school_authorities_to_distribute_to renv sas (iq_mapping iq) obj) (\<lambda>r3.
      Inr (remdups (r1 @ r2 @ r3))))))"

text \<open>The dictionary from names to queues: of two queues with the same name the last one counts.\<close>

definition s_a_name_to_out_queue :: "out_queue list \<Rightarrow> (string \<times> nat) list" where
  "s_a_name_to_out_queue qs =
     fold (\<lambda>(i, q) d. AList.update (sa_name (oq_school_authority q)) i d) (List.enumerate 0 qs) []"

definition copy2 :: "string \<Rightarrow> dirent \<Rightarrow> directory \<Rightarrow> exn + directory" where
  "copy2 name e dst =
     (if map_of dst name = Some Directory then Inl OSErr else Inr (AList.update name e dst))"

definition copy_to_queue :: "string \<Rightarrow> dirent \<Rightarrow> out_queue \<Rightarrow> exn + out_queue" where
  "copy_to_queue name e q =
     bindE (copy2 name e (q_entries (oq_dir q)))
       (\<lambda>es. Inr (q\<lparr>oq_dir := (oq_dir q)\<lparr>q_entries := es\<rparr>\<rparr>))"

fun copy_to_queues ::
    "(string \<times> nat) list \<Rightarrow> string \<Rightarrow> dirent \<Rightarrow> string list \<Rightarrow> (out_queue list, unit) st" where
  "copy_to_queues d name e [] qs = (Inr (), qs)"
| "copy_to_queues d name e (sa # sas) qs =
     (case map_of d sa of
        None \<Rightarrow> copy_to_queues d name e sas qs
      | Some i \<Rightarrow>
          (case copy_to_queue name e (qs ! i) of
             Inl x \<Rightarrow> (Inl x, qs)
           | Inr q' \<Rightarrow> copy_to_queues d name e sas (qs[i := q'])))"

definition distribute_file ::
    "'c env \<Rightarrow> environ \<Rightarrow> (string \<times> nat) list \<Rightarrow> string \<Rightarrow> ('c in_queue, unit) st" where
  "distribute_file env renv d name iq0 =
     (let iq = iq0\<lparr>iq_head := name\<rparr> in
      case load_listener_file env name (iq_dir iq) of
        Inl _ \<Rightarrow> (Inr (), discard_in name iq)
      | Inr obj \<Rightarrow>
          (case hook_distribution renv iq obj of
             Inl e \<Rightarrow> (Inl e, iq)
           | Inr names \<Rightarrow>
               if names = [] then (Inr (), discard_in name iq)
               else (case copy_to_queues d name (the (map_of (q_entries (iq_dir iq)) name)) names
                            (iq_out_queues iq) of
                  (Inl e, qs) \<Rightarrow> (Inl e, iq\<lparr>iq_out_queues := qs\<rparr>)
                | (Inr _, qs) \<Rightarrow>
                    (case unlink_missing_ok name (iq_dir iq) of
                       Inl e \<Rightarrow> (Inl e, iq\<lparr>iq_out_queues := qs\<rparr>)
                     | Inr q \<Rightarrow> (Inr (), iq\<lparr>iq_out_queues := qs, iq_dir := q\<rparr>)))))"

definition distribute_files ::
    "'c env \<Rightarrow> environ \<Rightarrow> (string \<times> nat) list \<Rightarrow> string list \<Rightarrow> ('c in_queue, unit) st" where
  "distribute_files env renv d names = for_each (distribute_file env renv d) names"

definition distribute :: "'c env \<Rightarrow> environ \<Rightarrow> ('c in_queue, unit) st" where
  "distribute env renv iq =
     (case queue_files (iq_dir iq) of (names, q) \<Rightarrow>
        (case distribute_files env renv (s_a_name_to_out_queue (iq_out_queues iq))
                (filter is_ready names) (iq\<lparr>iq_dir := q\<rparr>) of
           (Inl e, iq') \<Rightarrow> (Inl e, iq')
         | (Inr _, iq') \<Rightarrow> (Inr (), iq'\<lparr>iq_head := []\<rparr>)))"

text \<open>\<open>log_queue_changes\<close>: the removed and the added names it logs, and the new state.\<close>

definition log_queue_changes :: "'c in_queue \<Rightarrow> (string set \<times> string set) \<times> 'c in_queue" where
  "log_queue_changes iq =
     (let current_queues = map oq_name (iq_out_queues iq) in
      ((set (iq_old_out_queues iq) - set current_queues,
        set current_queues - set (iq_old_out_queues iq)),
       iq\<lparr>iq_old_out_queues := current_queues\<rparr>))"

text \<open>One round of \<open>distribute_loop\<close>, from one listing of the directory to the next sleep.\<close>

definition distribute_round :: "'c env \<Rightarrow> environ \<Rightarrow> ('c in_queue, unit) st" where
  "distribute_round env renv iq =
     (case queue_files (iq_dir iq) of (names, q) \<Rightarrow>
        (case preprocess_all env (filter (\<lambda>n. \<not> is_ready n) names) (iq\<lparr>iq_dir := q\<rparr>) of
           (Inl e, iq') \<Rightarrow> (Inl e, iq')
         | (Inr _, iq') \<Rightarrow>
             (let iq'' = snd (log_queue_changes iq') in
              if iq_out_queues iq'' \<noteq> [] then distribute env renv iq'' else (Inr (), iq''))))"


section \<open>What preprocessing does to the directory\<close>

text \<open>A loaded file exists, and saving or renaming it touches no other name.\<close>

lemma load_listener_file_File:
  "load_listener_file env name q = Inr obj \<Longrightarrow> \<exists>text. map_of (q_entries q) name = Some (File text)"
  by (auto simp: load_listener_file_def split: option.splits dirent.splits)

lemma save_listener_file_Inr:
  "save_listener_file env obj name q = Inr q' \<Longrightarrow>
    \<exists>text. q' = q\<lparr>q_entries := AList.update name (File text) (q_entries q)\<rparr>"
  by (auto simp: save_listener_file_def split: sum.splits option.splits)

lemma saved_or_same:
  assumes "(if changed then save_listener_file env obj name q else Inr q) = Inr q'"
    and "map_of (q_entries q) name = Some (File text)"
  shows "\<exists>text'. map_of (q_entries q') = (map_of (q_entries q))(name \<mapsto> File text') \<and>
    q_trash q' = q_trash q \<and> q_keep q' = q_keep q \<and> (\<not> changed \<longrightarrow> text' = text)"
  using assms by (auto simp: dict_simps fun_eq_iff split: if_splits dest!: save_listener_file_Inr)

lemma rename_Inr:
  "rename src dst es = Inr es' \<Longrightarrow>
    \<exists>e. map_of es src = Some e \<and> map_of es' = (map_of es)(src := None, dst \<mapsto> e)"
  by (auto simp: rename_def dict_simps split: option.splits if_splits)

lemma suffix_ready_name: "is_ready (ready_name name)"
  by (auto simp: is_ready_def ready_name_def suffix_def)

lemma ready_name_neq: "\<not> is_ready name \<Longrightarrow> ready_name name \<noteq> name"
  using suffix_ready_name by metis

text \<open>The possible results of \<open>preprocess_file\<close>.\<close>

lemma preprocess_file_ok:
  assumes "preprocess_file env name iq = (Inr new, iq')"
  shows "new = ready_name name"
    and "\<exists>text. map_of (q_entries (iq_dir iq')) =
      (map_of (q_entries (iq_dir iq)))(name := None, ready_name name \<mapsto> File text)"
    and "q_trash (iq_dir iq') = q_trash (iq_dir iq)" "q_keep (iq_dir iq') = q_keep (iq_dir iq)"
proof -
  obtain obj where load: "load_listener_file env name (iq_dir iq) = Inr obj"
    using assms by (cases "load_listener_file env name (iq_dir iq)") (simp_all add: preprocess_file_def)
  obtain changed obj' c' where hook: "preprocess_object env (obj, iq_db iq) = (Inr changed, obj', c')"
    using assms load by (cases "preprocess_object env (obj, iq_db iq)", cases "fst (preprocess_object env (obj, iq_db iq))")
      (auto simp: preprocess_file_def)
  obtain q where save: "(if changed then save_listener_file env obj' name (iq_dir iq) else Inr (iq_dir iq)) = Inr q"
    using assms load hook
    by (cases "if changed then save_listener_file env obj' name (iq_dir iq) else Inr (iq_dir iq)")
      (simp_all add: preprocess_file_def)
  obtain es where ren: "rename name (ready_name name) (q_entries q) = Inr es"
    using assms load hook save
    by (cases "rename name (ready_name name) (q_entries q)") (simp_all add: preprocess_file_def)
  have iq': "new = ready_name name" "iq' = iq\<lparr>iq_db := c', iq_dir := q\<lparr>q_entries := es\<rparr>\<rparr>"
    using assms load hook save ren by (simp_all add: preprocess_file_def)
  obtain ta where ta: "map_of (q_entries (iq_dir iq)) name = Some (File ta)"
    using load_listener_file_File [OF load] by blast
  obtain tb where q: "map_of (q_entries q) = (map_of (q_entries (iq_dir iq)))(name \<mapsto> File tb)"
    "q_trash q = q_trash (iq_dir iq)" "q_keep q = q_keep (iq_dir iq)"
    using saved_or_same [OF save ta] by blast
  have "map_of es = (map_of (q_entries (iq_dir iq)))(name := None, ready_name name \<mapsto> File tb)"
    using rename_Inr [OF ren] q(1) by (auto simp: fun_eq_iff)
  with iq' q show "new = ready_name name"
    and "\<exists>text. map_of (q_entries (iq_dir iq')) =
      (map_of (q_entries (iq_dir iq)))(name := None, ready_name name \<mapsto> File text)"
    and "q_trash (iq_dir iq') = q_trash (iq_dir iq)" "q_keep (iq_dir iq') = q_keep (iq_dir iq)"
    by auto
qed

lemma preprocess_file_err:
  assumes "preprocess_file env name iq = (Inl e, iq')" "n \<noteq> name"
  shows "map_of (q_entries (iq_dir iq')) n = map_of (q_entries (iq_dir iq)) n"
  using assms
  by (auto simp: preprocess_file_def dict_simps split: sum.splits prod.splits if_splits
      dest!: save_listener_file_Inr)

lemma preprocess_file_err_entry:
  assumes "preprocess_file env name iq = (Inl e, iq')"
    and "map_of (q_entries (iq_dir iq)) name \<noteq> Some Directory"
  shows "map_of (q_entries (iq_dir iq')) name \<noteq> Some Directory"
  using assms
  by (auto simp: preprocess_file_def dict_simps split: sum.splits prod.splits if_splits
      dest!: save_listener_file_Inr)

lemma preprocess_file_out_queues [simp]:
  "iq_out_queues (snd (preprocess_file env name iq)) = iq_out_queues iq"
  "iq_mapping (snd (preprocess_file env name iq)) = iq_mapping iq"
  by (auto simp: preprocess_file_def split: sum.splits prod.splits)

lemma preprocess_all_out_queues [simp]:
  "iq_out_queues (snd (preprocess_all env names iq)) = iq_out_queues iq"
  "iq_mapping (snd (preprocess_all env names iq)) = iq_mapping iq"
  by (induction env names iq rule: preprocess_all.induct)
     (auto simp: discard_in_def split: prod.split sum.split,
      (metis preprocess_file_out_queues snd_conv)+)

lemma discard_in_gone:
  "map_of (q_entries (iq_dir iq)) name \<noteq> Some Directory \<Longrightarrow>
    map_of (q_entries (iq_dir (discard_in name iq))) name = None"
  by (auto simp: discard_in_def move_defs dict_simps split: option.split dirent.split)

lemma discard_in_other:
  "n \<noteq> name \<Longrightarrow> map_of (q_entries (iq_dir (discard_in name iq))) n = map_of (q_entries (iq_dir iq)) n"
  by (simp add: discard_in_def discard_file_other)

text \<open>
  A name that is not processed and not produced is untouched, and after a round that ends normally
  none of the names is left: each was renamed or discarded.
\<close>

lemma preprocess_step [consumes 1, case_names stop skip ready]:
  assumes "preprocess_file env name iq = (r, iq')"
  obtains (stop) e where "r = Inl e" "preprocess_all env (name # names) iq = (Inl InvalidListenerFile, iq')"
  | (skip) e where "r = Inl e" "preprocess_all env (name # names) iq = preprocess_all env names (discard_in name iq')"
  | (ready) new where "r = Inr new" "preprocess_all env (name # names) iq = preprocess_all env names iq'"
proof (cases r)
  case (Inl e)
  then show ?thesis
    using assms stop [of e] skip [of e] by (cases "e = InvalidListenerFile \<or> e = ListenerSavingError") simp_all
next
  case (Inr new)
  then show ?thesis using assms ready [of new] by simp
qed

lemma preprocess_all_other:
  assumes "n \<notin> set names" "n \<notin> ready_name ` set names"
  shows "map_of (q_entries (iq_dir (snd (preprocess_all env names iq)))) n =
    map_of (q_entries (iq_dir iq)) n"
  using assms
proof (induction names arbitrary: iq)
  case (Cons name names)
  obtain r iq' where pf: "preprocess_file env name iq = (r, iq')" by force
  from pf show ?case
  proof (cases rule: preprocess_step [where names = names])
    case (stop e)
    then show ?thesis using preprocess_file_err [of env name iq e iq' n] pf Cons.prems by simp
  next
    case (skip e)
    then show ?thesis
      using preprocess_file_err [of env name iq e iq' n] pf Cons.prems Cons.IH [of "discard_in name iq'"]
      by (simp add: discard_in_other)
  next
    case (ready new)
    then show ?thesis
      using preprocess_file_ok(2) [of env name iq new iq'] pf Cons.prems Cons.IH [of iq'] by auto
  qed
qed simp

lemma preprocess_all_gone:
  assumes "fst (preprocess_all env names iq) = Inr ()" "\<forall>n \<in> set names. \<not> is_ready n"
    and "\<forall>n \<in> set names. map_of (q_entries (iq_dir iq)) n \<noteq> Some Directory" "n \<in> set names"
  shows "map_of (q_entries (iq_dir (snd (preprocess_all env names iq)))) n = None"
  using assms
proof (induction names arbitrary: iq)
  case (Cons name names)
  obtain r iq' where pf: "preprocess_file env name iq = (r, iq')" by force
  have not_ready: "ready_name m \<noteq> n" for m
    using Cons.prems(2,4) suffix_ready_name [of m] by auto
  define iq2 where "iq2 = (case r of Inl _ \<Rightarrow> discard_in name iq' | Inr _ \<Rightarrow> iq')"
  from pf have rest: "preprocess_all env (name # names) iq = preprocess_all env names iq2"
    using Cons.prems(1)
    by (cases rule: preprocess_step [where names = names]) (simp_all add: iq2_def)
  have gone: "map_of (q_entries (iq_dir iq2)) name = None"
  proof (cases r)
    case (Inl e)
    then show ?thesis using pf Cons.prems(3) preprocess_file_err_entry [of env name iq e iq']
      by (simp add: iq2_def discard_in_gone)
  next
    case (Inr new)
    then show ?thesis using pf preprocess_file_ok(2) [of env name iq new iq'] Cons.prems(2)
        ready_name_neq [of name] by (auto simp: iq2_def)
  qed
  have others: "map_of (q_entries (iq_dir iq2)) m = map_of (q_entries (iq_dir iq)) m"
    if "m \<noteq> name" "m \<noteq> ready_name name" for m
    using pf that preprocess_file_err [of env name iq _ iq' m] preprocess_file_ok(2) [of env name iq _ iq']
    by (cases r) (auto simp: iq2_def discard_in_other)
  have dirs: "\<forall>m \<in> set names. map_of (q_entries (iq_dir iq2)) m \<noteq> Some Directory"
    using Cons.prems(2,3) gone others suffix_ready_name [of name]
    by (metis list.set_intros(2) option.distinct(1))
  show ?case
  proof (cases "n \<in> set names")
    case True
    then show ?thesis using Cons.IH [of iq2] Cons.prems(1,2) rest dirs by simp
  next
    case False
    then have "n = name" using Cons.prems(4) by simp
    moreover have "n \<notin> ready_name ` set names" using not_ready by blast
    ultimately show ?thesis using rest preprocess_all_other [OF False, of env iq2] gone by metis
  qed
qed simp


section \<open>What distribution does to the out queues\<close>

lemma s_a_lookup:
  assumes "distinct (map (\<lambda>q. sa_name (oq_school_authority q)) qs)"
  shows "map_of (s_a_name_to_out_queue qs) sa = Some i \<longleftrightarrow>
    i < length qs \<and> sa_name (oq_school_authority (qs ! i)) = sa"
proof -
  let ?al = "map (\<lambda>x. (sa_name (oq_school_authority (snd x)), fst x)) (List.enumerate 0 qs)"
  have "map fst ?al = map (\<lambda>q. sa_name (oq_school_authority q)) qs"
    by (rule nth_equalityI) (auto simp: nth_enumerate_eq)
  then have wf: "wf_dict ?al" using assms by (simp add: wf_dict_def)
  have "map_of (s_a_name_to_out_queue qs) = map_of (rev ?al)"
    using map_of_fold_update [of "\<lambda>x. sa_name (oq_school_authority (snd x))" fst "List.enumerate 0 qs" "[]"]
    by (simp add: s_a_name_to_out_queue_def case_prod_unfold)
  then have "map_of (s_a_name_to_out_queue qs) sa = Some i \<longleftrightarrow> (sa, i) \<in> set ?al"
    using wf set_iff_map_of [OF wf, of sa i] by (simp only: map_of_rev_wf)
  also have "\<dots> \<longleftrightarrow> i < length qs \<and> sa_name (oq_school_authority (qs ! i)) = sa"
    by (auto simp: in_set_enumerate_eq image_iff intro!: bexI [of _ "(i, qs ! i)"])
  finally show ?thesis .
qed

definition deliver :: "string \<Rightarrow> dirent \<Rightarrow> out_queue \<Rightarrow> out_queue" where
  "deliver name e q = q\<lparr>oq_dir := (oq_dir q)\<lparr>q_entries := AList.update name e (q_entries (oq_dir q))\<rparr>\<rparr>"

lemma deliver_simps [simp]:
  "oq_name (deliver name e q) = oq_name q"
  "oq_school_authority (deliver name e q) = oq_school_authority q"
  "q_trash (oq_dir (deliver name e q)) = q_trash (oq_dir q)"
  "q_keep (oq_dir (deliver name e q)) = q_keep (oq_dir q)"
  "map_of (q_entries (oq_dir (deliver name e q))) = (map_of (q_entries (oq_dir q)))(name \<mapsto> e)"
  by (simp_all add: deliver_def dict_simps)

lemma deliver_twice: "deliver name e (deliver name e q) = deliver name e q"
  by (simp add: deliver_def update_triv dict_simps)

lemma copy_to_queue_deliver:
  "map_of (q_entries (oq_dir q)) name \<noteq> Some Directory \<Longrightarrow>
    copy_to_queue name e q = Inr (deliver name e q)"
  by (simp add: copy_to_queue_def copy2_def deliver_def)

lemma copy_to_queues_nth:
  assumes "\<forall>q \<in> set qs. map_of (q_entries (oq_dir q)) name \<noteq> Some Directory" "e \<noteq> Directory"
    and "\<And>sa i. map_of d sa = Some i \<Longrightarrow> i < length qs"
  shows "\<exists>qs'. copy_to_queues d name e names qs = (Inr (), qs') \<and> length qs' = length qs \<and>
    (\<forall>i < length qs. qs' ! i =
      (if \<exists>sa \<in> set names. map_of d sa = Some i then deliver name e (qs ! i) else qs ! i))"
  using assms
proof (induction names arbitrary: qs)
  case (Cons sa names)
  show ?case
  proof (cases "map_of d sa")
    case None
    then show ?thesis using Cons.IH [OF Cons.prems] by simp
  next
    case (Some i)
    then have i: "i < length qs" using Cons.prems(3) by simp
    have copy: "copy_to_queue name e (qs ! i) = Inr (deliver name e (qs ! i))"
      using Cons.prems(1) i by (simp add: copy_to_queue_deliver)
    let ?qs = "qs[i := deliver name e (qs ! i)]"
    have "\<forall>q \<in> set ?qs. map_of (q_entries (oq_dir q)) name \<noteq> Some Directory"
    proof
      fix q assume "q \<in> set ?qs"
      then have "q = deliver name e (qs ! i) \<or> q \<in> set qs"
        using set_update_subset_insert [of qs i "deliver name e (qs ! i)"] by blast
      then show "map_of (q_entries (oq_dir q)) name \<noteq> Some Directory"
        using Cons.prems(1,2) by auto
    qed
    then obtain qs' where "copy_to_queues d name e names ?qs = (Inr (), qs')" "length qs' = length qs"
      "\<forall>j < length qs. qs' ! j =
        (if \<exists>sa \<in> set names. map_of d sa = Some j then deliver name e (?qs ! j) else ?qs ! j)"
      using Cons.IH [of ?qs] Cons.prems(2,3) by auto
    then show ?thesis using Some i copy by (auto simp: nth_list_update deliver_twice)
  qed
qed simp

text \<open>
  The functional behaviour of distributing one file: it is delivered to the queues of the school
  authorities the hooks name, with its text, to no other queue, and then it is removed.
\<close>

definition no_directory_named :: "string \<Rightarrow> 'c in_queue \<Rightarrow> bool" where
  "no_directory_named name iq \<longleftrightarrow>
     (\<forall>q \<in> set (iq_out_queues iq). map_of (q_entries (oq_dir q)) name \<noteq> Some Directory)"

definition distinct_authorities :: "'c in_queue \<Rightarrow> bool" where
  "distinct_authorities iq \<longleftrightarrow> distinct (school_authority_names iq)"

definition delivered :: "string \<Rightarrow> dirent \<Rightarrow> string set \<Rightarrow> out_queue list \<Rightarrow> out_queue list" where
  "delivered name e names qs =
     map (\<lambda>q. if sa_name (oq_school_authority q) \<in> names then deliver name e q else q) qs"

lemma hook_distribution_head [simp]:
  "hook_distribution renv (iq\<lparr>iq_head := h\<rparr>) = hook_distribution renv iq"
  by (rule ext) (simp add: hook_distribution_def)

lemma copy_to_queues_delivered:
  assumes "distinct_authorities iq" "no_directory_named name iq" "e \<noteq> Directory"
  shows "copy_to_queues (s_a_name_to_out_queue (iq_out_queues iq)) name e names (iq_out_queues iq) =
    (Inr (), delivered name e (set names) (iq_out_queues iq))"
proof -
  let ?qs = "iq_out_queues iq" and ?d = "s_a_name_to_out_queue (iq_out_queues iq)"
  have lookup: "map_of ?d sa = Some i \<longleftrightarrow> i < length ?qs \<and> sa_name (oq_school_authority (?qs ! i)) = sa"
    for sa i
    using assms(1) by (intro s_a_lookup) (simp add: distinct_authorities_def school_authority_names_def)
  obtain qs' where qs': "copy_to_queues ?d name e names ?qs = (Inr (), qs')" "length qs' = length ?qs"
    "\<forall>i < length ?qs. qs' ! i =
      (if \<exists>sa \<in> set names. map_of ?d sa = Some i then deliver name e (?qs ! i) else ?qs ! i)"
    using copy_to_queues_nth [of ?qs name e ?d names] assms(2,3) lookup
    by (auto simp: no_directory_named_def)
  have "qs' = delivered name e (set names) ?qs"
    by (rule nth_equalityI) (auto simp: qs' delivered_def lookup)
  with qs'(1) show ?thesis by simp
qed

lemma distribute_file_ok:
  assumes "map_of (q_entries (iq_dir iq)) name = Some (File content)" "load_text env content = Inr obj"
    and "hook_distribution renv iq obj = Inr names" "names \<noteq> []"
    and "distinct_authorities iq" "no_directory_named name iq"
  shows "distribute_file env renv (s_a_name_to_out_queue (iq_out_queues iq)) name iq =
    (Inr (), iq\<lparr>iq_head := name,
       iq_dir := (iq_dir iq)\<lparr>q_entries := AList.delete name (q_entries (iq_dir iq))\<rparr>,
       iq_out_queues := delivered name (File content) (set names) (iq_out_queues iq)\<rparr>)"
  using assms copy_to_queues_delivered [OF assms(5,6), of "File content" names]
  by (simp add: distribute_file_def Let_def load_listener_file_def move_defs)

lemma distribute_file_unmapped:
  assumes "map_of (q_entries (iq_dir iq)) name = Some (File content)" "load_text env content = Inr obj"
    and "hook_distribution renv iq obj = Inr []"
  shows "distribute_file env renv d name iq = (Inr (), discard_in name (iq\<lparr>iq_head := name\<rparr>))"
  using assms by (simp add: distribute_file_def Let_def load_listener_file_def)

text \<open>The queues that get a user: those of the current schools and those of the old data.\<close>

lemma hook_distribution_user:
  assumes "is_user_object obj" "user_current_schools obj = Inr ss"
    and "\<exists>q \<in> set (iq_out_queues iq). sa_active (oq_school_authority q) \<and>
      ''kelvin'' \<in> set (sa_plugins (oq_school_authority q))"
  shows "\<exists>names. hook_distribution renv iq obj = Inr names \<and>
    set names = {sa. \<exists>s \<in> set ss \<union> set (user_old_schools obj). map_of (iq_mapping iq) (lower s) = Some sa}"
proof -
  let ?sas = "map oq_school_authority (iq_out_queues iq)"
  have kelvin: "active_kelvin_configs ?sas \<noteq> []"
    using assms(3) by (auto simp: active_kelvin_configs_def filter_empty_conv)
  obtain names where
    "user_school_authorities_to_distribute_to ?sas (iq_mapping iq) obj = Inr names"
    "set names = {sa. \<exists>s \<in> set ss \<union> set (user_old_schools obj). map_of (iq_mapping iq) (lower s) = Some sa}"
    using user_distribution_set [OF kelvin assms(1,2)] by blast
  with assms(1) show ?thesis by (simp add: hook_distribution_def Let_def user_is_no_group)
qed

text \<open>Without an active school authority that has the plugin named kelvin, no user is distributed.\<close>

lemma hook_distribution_user_none:
  assumes "is_user_object obj"
    and "\<And>q. q \<in> set (iq_out_queues iq) \<Longrightarrow> sa_active (oq_school_authority q) \<Longrightarrow>
      ''kelvin'' \<notin> set (sa_plugins (oq_school_authority q))"
  shows "hook_distribution renv iq obj = Inr []"
proof -
  have "active_kelvin_configs (map oq_school_authority (iq_out_queues iq)) = []"
    using assms(2) by (auto simp: active_kelvin_configs_def filter_empty_conv)
  with assms(1) show ?thesis
    by (simp add: hook_distribution_def Let_def user_is_no_group user_school_authorities_to_distribute_to_def)
qed

text \<open>The loop over the ready files: what is left afterwards.\<close>

lemma distribute_file_other:
  assumes "distribute_file env renv d name iq = (r, iq')" "n \<noteq> name"
  shows "map_of (q_entries (iq_dir iq')) n = map_of (q_entries (iq_dir iq)) n"
  using assms
  by (auto simp: distribute_file_def Let_def discard_in_other unlink_missing_ok_def unlink_def dict_simps
      split: sum.splits prod.splits if_splits option.splits dirent.splits)

lemma distribute_file_gone:
  assumes "distribute_file env renv d name iq = (Inr (), iq')"
    and "map_of (q_entries (iq_dir iq)) name \<noteq> Some Directory"
  shows "map_of (q_entries (iq_dir iq')) name = None"
  using assms discard_in_gone [of "iq\<lparr>iq_head := name\<rparr>" name]
  by (auto simp: distribute_file_def Let_def unlink_missing_ok_def unlink_def dict_simps
      split: sum.splits prod.splits if_splits option.splits dirent.splits)

interpretation distribution: queue_loop "\<lambda>iq. q_entries (iq_dir iq)" "distribute_file env renv d"
  for env renv d
  by unfold_locales (fact distribute_file_other, fact distribute_file_gone)

lemma ready_json: "is_ready n \<Longrightarrow> json_name n"
  by (auto simp: is_ready_def json_name_def suffix_def lower_def lower_char_def)

text \<open>Distribution that ends normally leaves no ready file and adds nothing.\<close>

lemma distribute_clears:
  assumes "wf_queue_dir (iq_dir iq)" "distribute env renv iq = (Inr (), iq')"
    and "map_of (q_entries (iq_dir iq')) n = Some (File content)"
  shows "\<not> is_ready n" "map_of (q_entries (iq_dir iq)) n = Some (File content)"
proof -
  obtain names q where qf: "queue_files (iq_dir iq) = (names, q)" by force
  let ?ready = "filter is_ready names" and ?iq = "iq\<lparr>iq_dir := q\<rparr>"
  let ?loop = "for_each (distribute_file env renv (s_a_name_to_out_queue (iq_out_queues iq))) ?ready ?iq"
  obtain iqx where loop: "?loop = (Inr (), iqx)" and iq': "iq' = iqx\<lparr>iq_head := []\<rparr>"
    using assms(2) qf
    by (cases "fst ?loop") (auto simp: distribute_def distribute_files_def split: prod.splits)
  have "map_of (q_entries q) m \<noteq> Some Directory" if "m \<in> set ?ready" for m
    using that queue_files_no_dir [OF assms(1), of m] qf by simp
  then have "map_of (q_entries (iq_dir iqx)) = map_of (q_entries q) |` (- set ?ready)"
    using distribution.loop_restricts
      [of env renv "s_a_name_to_out_queue (iq_out_queues iq)" ?ready ?iq] loop by auto
  then have n: "n \<notin> set ?ready" "map_of (q_entries q) n = Some (File content)"
    using assms(3) iq' by (auto simp: restrict_map_def split: if_splits)
  then show "map_of (q_entries (iq_dir iq)) n = Some (File content)"
    using queue_files_subset [of "iq_dir iq" n] qf by simp
  with n(1) show "\<not> is_ready n"
    using in_queue_files [OF assms(1), of n] qf ready_json by auto
qed

text \<open>Distribution changes the directories of the out queues only.\<close>

definition queue_ids :: "out_queue list \<Rightarrow> (string \<times> school_authority \<times> task_state \<times> bool) list" where
  "queue_ids qs = map (\<lambda>q. (oq_name q, oq_school_authority q, oq_task q, oq_deleted q)) qs"

lemma copy_to_queues_ids: "queue_ids (snd (copy_to_queues d name e names qs)) = queue_ids qs"
proof (induction names arbitrary: qs)
  case (Cons sa names)
  have "queue_ids (qs[i := q]) = queue_ids qs" if "copy_to_queue name e (qs ! i) = Inr q" for i q
    using that by (cases "i < length qs")
      (auto simp: queue_ids_def copy_to_queue_def map_update list_update_same_conv list_update_beyond)
  with Cons.IH show ?case by (auto split: option.split sum.split)
qed simp

lemma distribute_file_ids:
  "queue_ids (iq_out_queues (snd (distribute_file env renv d name iq))) = queue_ids (iq_out_queues iq)"
proof -
  have "queue_ids qs' = queue_ids qs" if "copy_to_queues d name e names qs = (r, qs')" for e names qs r qs'
    using copy_to_queues_ids [of d name e names qs] that by simp
  then show ?thesis
    by (auto simp: distribute_file_def Let_def discard_in_def split: sum.split prod.split)
qed

lemma distribute_ids:
  "queue_ids (iq_out_queues (snd (distribute env renv iq))) = queue_ids (iq_out_queues iq)"
proof -
  obtain names q where qf: "queue_files (iq_dir iq) = (names, q)" by force
  let ?iq = "iq\<lparr>iq_dir := q\<rparr>" and ?d = "s_a_name_to_out_queue (iq_out_queues iq)"
  let ?loop = "for_each (distribute_file env renv ?d) (filter is_ready names) ?iq"
  have "queue_ids (iq_out_queues (snd ?loop)) = queue_ids (iq_out_queues iq)"
    by (rule for_each_preserves [where P = "\<lambda>x. queue_ids (iq_out_queues x) = queue_ids (iq_out_queues iq)"])
       (simp_all add: distribute_file_ids)
  then show ?thesis
    using qf by (cases "fst ?loop") (auto simp: distribute_def distribute_files_def split: prod.split)
qed

section \<open>Files wait for their consumers\<close>

text \<open>Without out queues a round never takes a ready file away.\<close>

lemma round_without_consumers:
  assumes "wf_queue_dir (iq_dir iq)" "iq_out_queues iq = []"
    and "map_of (q_entries (iq_dir iq)) n = Some (File content)" "is_ready n" "json_name n"
    and "\<forall>m \<in> set (fst (queue_files (iq_dir iq))). ready_name m = n \<longrightarrow> is_ready m"
  shows "map_of (q_entries (iq_dir (snd (distribute_round env renv iq)))) n = Some (File content)"
proof -
  obtain names q where qf: "queue_files (iq_dir iq) = (names, q)" by force
  let ?new = "filter (\<lambda>n. \<not> is_ready n) names" and ?iq = "iq\<lparr>iq_dir := q\<rparr>"
  obtain r iq' where pa: "preprocess_all env ?new ?iq = (r, iq')" by force
  have "map_of (q_entries q) n = Some (File content)"
    using queue_files_keeps_file [OF assms(1,3,5)] qf by simp
  moreover have "n \<notin> set ?new" "n \<notin> ready_name ` set ?new"
    using assms(4,6) qf by auto
  ultimately have "map_of (q_entries (iq_dir iq')) n = Some (File content)"
    using preprocess_all_other [of n ?new env ?iq] pa by simp
  moreover have "iq_out_queues iq' = []"
    using preprocess_all_out_queues(1) [of env ?new ?iq] pa assms(2) by simp
  ultimately show ?thesis
    using qf pa by (cases r) (simp_all add: distribute_round_def log_queue_changes_def Let_def)
qed

section \<open>Well-formedness\<close>

definition wf_in_queue :: "'c in_queue \<Rightarrow> bool" where
  "wf_in_queue iq \<longleftrightarrow> wf_queue_dir (iq_dir iq)"

lemma wf_preprocess_file: "wf_in_queue iq \<Longrightarrow> wf_in_queue (snd (preprocess_file env name iq))"
  by (auto simp: preprocess_file_def wf_in_queue_def wf_queue_dir_def rename_def
      split: sum.splits prod.splits if_splits option.splits dest!: save_listener_file_Inr)

lemma wf_discard_in [simp]: "wf_in_queue iq \<Longrightarrow> wf_in_queue (discard_in name iq)"
  by (simp add: wf_in_queue_def discard_in_def)

lemma wf_preprocess_all: "wf_in_queue iq \<Longrightarrow> wf_in_queue (snd (preprocess_all env names iq))"
proof (induction names arbitrary: iq)
  case (Cons name names)
  obtain r iq' where pf: "preprocess_file env name iq = (r, iq')" by force
  have "wf_in_queue iq'" using wf_preprocess_file [OF Cons.prems, of env name] pf by simp
  with pf show ?case
    using Cons.IH by (cases rule: preprocess_step [where names = names]) auto
qed simp

lemma wf_distribute_file: "wf_in_queue iq \<Longrightarrow> wf_in_queue (snd (distribute_file env renv d name iq))"
  using wf_discard_in [of "iq\<lparr>iq_head := name\<rparr>" name]
  by (auto simp: distribute_file_def Let_def wf_in_queue_def
      split: sum.splits prod.splits if_splits dest: wf_unlink_missing_ok)

lemma wf_distribute:
  assumes "wf_in_queue iq" shows "wf_in_queue (snd (distribute env renv iq))"
proof -
  obtain names q where qf: "queue_files (iq_dir iq) = (names, q)" by force
  let ?iq = "iq\<lparr>iq_dir := q\<rparr>" and ?d = "s_a_name_to_out_queue (iq_out_queues iq)"
  let ?loop = "for_each (distribute_file env renv ?d) (filter is_ready names) ?iq"
  have "wf_in_queue ?iq"
    using queue_files_wf [of "iq_dir iq"] assms qf by (simp add: wf_in_queue_def)
  then have "wf_in_queue (snd ?loop)"
    by (rule for_each_preserves [where P = wf_in_queue, rotated]) (rule wf_distribute_file)
  then show ?thesis
    using qf by (cases "fst ?loop")
      (auto simp: distribute_def distribute_files_def wf_in_queue_def split: prod.split)
qed

text \<open>
  A round that ends normally drains the in queue: with an out queue to distribute to, no listener
  file is left, new or ready.
\<close>

lemma round_drains:
  assumes "wf_in_queue iq" "iq_out_queues iq \<noteq> []" "distribute_round env renv iq = (Inr (), iq')"
  shows "fst (queue_files (iq_dir iq')) = []" and "wf_in_queue iq'"
    and "map_of (q_entries (iq_dir iq')) n = Some (File content) \<Longrightarrow> \<not> json_name n"
proof -
  obtain names q where qf: "queue_files (iq_dir iq) = (names, q)" by force
  let ?new = "filter (\<lambda>n. \<not> is_ready n) names" and ?iq = "iq\<lparr>iq_dir := q\<rparr>"
  obtain iqp where pa: "preprocess_all env ?new ?iq = (Inr (), iqp)"
    using assms(3) qf by (cases "preprocess_all env ?new ?iq")
      (auto simp: distribute_round_def split: sum.splits)
  let ?iqp = "snd (log_queue_changes iqp)"
  have wfq: "wf_in_queue ?iq"
    using queue_files_wf [of "iq_dir iq"] assms(1) qf by (simp add: wf_in_queue_def)
  have same: "iq_dir ?iqp = iq_dir iqp" "iq_out_queues ?iqp = iq_out_queues iqp"
    by (simp_all add: log_queue_changes_def Let_def)
  have "iq_out_queues iqp = iq_out_queues iq"
    using preprocess_all_out_queues(1) [of env ?new ?iq] pa by simp
  then have dist: "distribute env renv ?iqp = (Inr (), iq')"
    using assms(2,3) qf pa same by (simp add: distribute_round_def Let_def)
  have wfp: "wf_queue_dir (iq_dir ?iqp)"
    using wf_preprocess_all [OF wfq, of env ?new] pa same by (simp add: wf_in_queue_def)
  show no_json: "\<not> json_name n"
    if left: "map_of (q_entries (iq_dir iq')) n = Some (File content)" for n content
  proof
    assume json: "json_name n"
    have not_ready: "\<not> is_ready n" and n: "map_of (q_entries (iq_dir iqp)) n = Some (File content)"
      using distribute_clears [OF wfp dist left] same by simp_all
    have "n \<notin> ready_name ` set ?new" using not_ready suffix_ready_name by blast
    moreover have dirs: "\<forall>m \<in> set ?new. map_of (q_entries q) m \<noteq> Some Directory"
    proof
      fix m assume "m \<in> set ?new"
      then show "map_of (q_entries q) m \<noteq> Some Directory"
        using queue_files_no_dir [of "iq_dir iq" m] assms(1) qf by (simp add: wf_in_queue_def)
    qed
    moreover have "n \<notin> set ?new"
    proof
      assume "n \<in> set ?new"
      then have "map_of (q_entries (iq_dir (snd (preprocess_all env ?new ?iq)))) n = None"
        using pa dirs by (intro preprocess_all_gone) auto
      with n pa show False by simp
    qed
    ultimately have "map_of (q_entries q) n = Some (File content)"
      using preprocess_all_other [of n ?new env ?iq] pa n by simp
    then have "n \<in> set names"
      using in_queue_files [of "iq_dir iq" n] assms(1) json queue_files_subset [of "iq_dir iq" n] qf
      by (simp add: wf_in_queue_def)
    then show False using \<open>n \<notin> set ?new\<close> not_ready by simp
  qed
  show wf': "wf_in_queue iq'"
    using wf_distribute [of ?iqp env renv] wfp dist by (simp add: wf_in_queue_def)
  have "n \<notin> set (fst (queue_files (iq_dir iq')))" for n
    using in_queue_files [of "iq_dir iq'" n] no_json wf' by (auto simp: wf_in_queue_def)
  then show "fst (queue_files (iq_dir iq')) = []"
    by (metis list.set_intros(1) neq_Nil_conv)
qed

section \<open>Exceptions that end the task\<close>

text \<open>
  An exception other than the two for unusable files is raised again as \<open>InvalidListenerFile\<close> and
  ends the task; the file stays in the directory under its name, so the next start of the task
  meets it again. A failing search for the password hashes is such an exception.
\<close>

lemma preprocess_stop:
  assumes "preprocess_file env name iq = (Inl e, iq')" "e \<noteq> InvalidListenerFile" "e \<noteq> ListenerSavingError"
  shows "preprocess_all env (name # names) iq = (Inl InvalidListenerFile, iq')"
  using assms by simp

lemma preprocess_all_error:
  "fst (preprocess_all env names iq) = Inl e \<Longrightarrow> e = InvalidListenerFile"
  by (induction env names iq rule: preprocess_all.induct)
     (auto split: prod.splits sum.splits if_splits)

lemma password_search_stops:
  assumes "cache_laws (env_cache env)" "holds (env_cache env) user_old_of_dict K (iq_db iq) seen"
    and "um_id u \<in> K" "user_old_entry u = Inr n" "username u = Inr login"
    and "load_listener_file env name (iq_dir iq) = Inr (ListenerUserAddModifyObject u)"
    and "env_passwords env login = Inl e" "e \<noteq> InvalidListenerFile" "e \<noteq> ListenerSavingError"
  shows "\<exists>iq'. preprocess_all env (name # names) iq = (Inl InvalidListenerFile, iq') \<and>
    iq_dir iq' = iq_dir iq \<and>
    holds (env_cache env) user_old_of_dict K (iq_db iq') (seen(um_id u \<mapsto> n))"
proof -
  obtain c' where
    step: "user_super_preprocess_add_mod_object env u (iq_db iq) =
      (Inr (seen (um_id u) \<noteq> None), um_set_old (seen (um_id u)) u, c')"
    and holds: "holds (env_cache env) user_old_of_dict K c' (seen(um_id u \<mapsto> n))"
    using user_old.add_mod_step [OF assms(1-4)] by (auto simp: user_super_preprocess_add_mod_object_def)
  have "preprocess_object env (ListenerUserAddModifyObject u, iq_db iq) =
      (Inl e, ListenerUserAddModifyObject (um_set_old (seen (um_id u)) u), c')"
    using step assms(5,7)
    by (simp add: preprocess_object_def hook_preprocess_add_mod_object_def bindM_def
        user_preprocess_add_mod_object_def set_old_defs username_def)
  with assms(6) have "preprocess_file env name iq = (Inl e, iq\<lparr>iq_db := c'\<rparr>)"
    by (simp add: preprocess_file_def)
  from preprocess_stop [OF this assms(8,9)] holds show ?thesis by simp
qed

end
