(* ===== verification/Out_Queue.thy ===== *)
theory Out_Queue
  imports In_Queue
begin

text \<open>
  \<open>queues.py\<close>, class \<open>OutQueue\<close>: the files of one school authority are handed to the plugins the
  authority is configured with, users before groups, and leave the queue whatever comes of it. The
  state of a step is the queue and the world \<open>'w\<close> the plugins change (their caches, the target
  system): a plugin is a computation on \<open>'w\<close>. The plugins of one file run one after the other here;
  \<open>asyncio.gather\<close> may interleave them when a school authority has several.
\<close>

section \<open>Starting, stopping and deleting queues\<close>

text \<open>
  \<open>start_task\<close> replaces the task of the queue; it only warns about an inactive school authority.
  \<open>delete_queue\<close> moves the directory to \<open>OUT_QUEUE_TRASH_DIR\<close>, whose entries are \<open>trash\<close>; when the
  target name is taken, \<open>shutil.move\<close> moves the directory into the existing one.
\<close>

definition start_task :: "bool \<Rightarrow> out_queue \<Rightarrow> exn + out_queue" where
  "start_task scheduler_set q =
     (if \<not> scheduler_set then Inl RuntimeErr
      else if oq_deleted q then Inl RuntimeErr
      else Inr (q\<lparr>oq_task := running\<rparr>))"

definition stop_task :: "out_queue \<Rightarrow> out_queue" where
  "stop_task q = (if oq_task q = running then q\<lparr>oq_task := closed\<rparr> else q)"

definition empty_dir :: queue_dir where
  "empty_dir = \<lparr>q_entries = [], q_trash = [], q_keep = []\<rparr>"

definition delete_queue ::
    "string \<Rightarrow> out_queue \<Rightarrow> (string \<times> queue_dir) list \<Rightarrow> exn + out_queue \<times> (string \<times> queue_dir) list" where
  "delete_queue timestamp q trash =
     (let target_dir = timestamp @ ''.'' @ oq_name q;
          real_dst = (if target_dir \<in> keys trash then target_dir @ ''/'' @ oq_name q else target_dir)
      in if real_dst \<in> keys trash then Inl OSErr
         else Inr ((stop_task q)\<lparr>oq_dir := empty_dir, oq_deleted := True\<rparr>,
                   AList.update real_dst (oq_dir q) trash))"

text \<open>A new queue finds the files that are in its directory already.\<close>

definition from_school_authority :: "(string \<times> queue_dir) list \<Rightarrow> school_authority \<Rightarrow> out_queue" where
  "from_school_authority dirs sa =
     \<lparr>oq_name = sa_name sa, oq_school_authority = sa,
      oq_dir = (case map_of dirs (sa_name sa) of None \<Rightarrow> empty_dir | Some d \<Rightarrow> d),
      oq_head = [], oq_task = no_task, oq_deleted = False\<rparr>"

record queue_model =
  qm_name :: string
  qm_head :: string
  qm_length :: nat
  qm_school_authority :: string

definition as_queue_model :: "out_queue \<Rightarrow> queue_model \<times> out_queue" where
  "as_queue_model q =
     (case queue_files (oq_dir q) of (names, d) \<Rightarrow>
        (\<lparr>qm_name = oq_name q, qm_head = oq_head q, qm_length = length names,
          qm_school_authority = sa_name (oq_school_authority q)\<rparr>, q\<lparr>oq_dir := d\<rparr>))"

lemma stop_task_not_running: "oq_task (stop_task q) \<noteq> running"
  by (simp add: stop_task_def)

lemma deleted_queue_not_started:
  "delete_queue ts q trash = Inr (q', trash') \<Longrightarrow> start_task b q' = Inl RuntimeErr"
  by (auto simp: delete_queue_def start_task_def Let_def split: if_splits)

lemma delete_queue_keeps_files:
  assumes "delete_queue ts q trash = Inr (q', trash')"
  shows "\<exists>dst. map_of trash dst = None \<and> map_of trash' = (map_of trash)(dst \<mapsto> oq_dir q)"
  using assms by (auto simp: delete_queue_def Let_def dict_simps map_of_None_iff split: if_splits)

section \<open>Handling a file\<close>

type_synonym 'w handler = "school_authority \<Rightarrow> listener_object \<Rightarrow> ('w, bool) st"

text \<open>The parameters of an out queue's work: the registry, and per plugin the two hooks it calls.\<close>

record 'w hooks =
  hk_registry :: registry
  hk_handle_listener_object :: "string \<Rightarrow> 'w handler"
  hk_school_authority_ping :: "string \<Rightarrow> school_authority \<Rightarrow> ('w, bool) st"

definition discard_out :: "string \<Rightarrow> out_queue \<Rightarrow> out_queue" where
  "discard_out name q = q\<lparr>oq_dir := discard_file name (oq_dir q)\<rparr>"

definition call_handlers :: "'w hooks \<Rightarrow> school_authority \<Rightarrow> listener_object \<Rightarrow> ('w, bool list) st" where
  "call_handlers hk sa obj =
     gather (map (\<lambda>p. hk_handle_listener_object hk p sa obj)
       (filter_plugins (hk_registry hk) ''handle_listener_object'' (sa_plugins sa)))"

definition handle :: "'c env \<Rightarrow> 'w hooks \<Rightarrow> string \<Rightarrow> (out_queue \<times> 'w, unit) st" where
  "handle env hk name s =
     (case load_listener_file env name (oq_dir (fst s)) of
        Inl e \<Rightarrow>
          if e = ListenerLoadingError then (Inr (), discard_out name (fst s), snd s)
          else (Inl e, s)
      | Inr obj \<Rightarrow>
          (case call_handlers hk (oq_school_authority (fst s)) obj (snd s) of
             (Inr results, w) \<Rightarrow>
               if True \<in> set results then (Inr (), fst s, w)
               else (Inr (), discard_out name (fst s), w)
           | (Inl _, w) \<Rightarrow> (Inr (), discard_out name (fst s), w)))"

section \<open>The scan loop\<close>

definition queue_sort_order :: "string list" where
  "queue_sort_order = [''users/user'', ''groups/group'']"

fun list_index :: "string \<Rightarrow> string list \<Rightarrow> nat option" where
  "list_index x [] = None"
| "list_index x (y # ys) = (if x = y then Some 0 else map_option Suc (list_index x ys))"

definition udm_object_queue_order :: "'c env \<Rightarrow> out_queue \<Rightarrow> string \<Rightarrow> exn + nat" where
  "udm_object_queue_order env q name =
     bindE (load_listener_file env name (oq_dir q)) (\<lambda>obj.
       Inr (case list_index (udm_object_type_of obj) queue_sort_order of None \<Rightarrow> 999 | Some i \<Rightarrow> i))"

text \<open>The body of the \<open>for\<close> loop: \<open>True\<close> is the break with \<open>api_error\<close>.\<close>

definition scan_file :: "'c env \<Rightarrow> 'w hooks \<Rightarrow> string \<Rightarrow> (out_queue \<times> 'w, bool) st" where
  "scan_file env hk name s =
     (case handle env hk name ((fst s)\<lparr>oq_head := name\<rparr>, snd s) of
        (Inl e, q, w) \<Rightarrow>
          if is_ServerError e then (Inr False, discard_out name q, w)
          else if is_APICommunicationError e then (Inr True, q, w)
          else (Inr False, q\<lparr>oq_dir := keep_file name (oq_dir q)\<rparr>, w)
      | (Inr _, q, w) \<Rightarrow>
          (case unlink_missing_ok name (oq_dir q) of
             Inl e \<Rightarrow> (Inl e, q, w)
           | Inr d \<Rightarrow> (Inr False, q\<lparr>oq_dir := d\<rparr>, w)))"

text \<open>The loop over the sorted pairs; it ends at the first file of another type, or with an error.\<close>

fun scan_paths :: "'c env \<Rightarrow> 'w hooks \<Rightarrow> nat \<Rightarrow> (nat \<times> string) list \<Rightarrow> (out_queue \<times> 'w, bool) st" where
  "scan_paths env hk lowest [] s = (Inr False, s)"
| "scan_paths env hk lowest ((queue_order, name) # ps) s =
     (if queue_order > lowest then (Inr False, s)
      else (case scan_file env hk name s of
              (Inl e, s') \<Rightarrow> (Inl e, s')
            | (Inr True, q, w) \<Rightarrow> (Inr True, q\<lparr>oq_dir := keep_file name (oq_dir q)\<rparr>, w)
            | (Inr False, s') \<Rightarrow> scan_paths env hk lowest ps s'))"

text \<open>
  One round of the inner loop, from the listing to the sleep: \<open>True\<close> goes back to the ping of the
  school authority. An exception while the order of the files is computed ends the task.
\<close>

definition scan_round :: "'c env \<Rightarrow> 'w hooks \<Rightarrow> (out_queue \<times> 'w, bool) st" where
  "scan_round env hk s =
     (case queue_files (oq_dir (fst s)) of (names, d) \<Rightarrow>
        let q = (fst s)\<lparr>oq_dir := d\<rparr> in
        case mapE (\<lambda>n. bindE (udm_object_queue_order env q n) (\<lambda>k. Inr (k, n))) names of
          Inl e \<Rightarrow> (Inl e, q, snd s)
        | Inr pairs \<Rightarrow>
            let paths = sort pairs;
                lowest_queue_order_num = (case paths of [] \<Rightarrow> 999 | (k, _) # _ \<Rightarrow> k)
            in (case scan_paths env hk lowest_queue_order_num paths (q, snd s) of
                  (Inr False, q', w) \<Rightarrow> (Inr False, q'\<lparr>oq_head := []\<rparr>, w)
                | (r, s') \<Rightarrow> (r, s')))"

definition ping_ok :: "'w hooks \<Rightarrow> school_authority \<Rightarrow> 'w \<Rightarrow> bool \<times> 'w" where
  "ping_ok hk sa w =
     (case gather (map (\<lambda>p. hk_school_authority_ping hk p sa)
             (filter_plugins (hk_registry hk) ''school_authority_ping'' (sa_plugins sa))) w of
        (Inl _, w') \<Rightarrow> (False, w')
      | (Inr results, w') \<Rightarrow> (False \<notin> set results, w'))"

text \<open>
  The task as a state machine: it pings until the connection is good, then works until a round asks
  for a ping again or raises; between two steps the in queue may deliver a file, which it has
  loaded itself before (\<open>distribute_file\<close>).
\<close>

datatype phase = pinging | working | ended exn

fun scan_step :: "'c env \<Rightarrow> 'w hooks \<Rightarrow> phase \<times> out_queue \<times> 'w \<Rightarrow> phase \<times> out_queue \<times> 'w" where
  "scan_step env hk (pinging, q, w) =
     (case ping_ok hk (oq_school_authority q) w of
        (True, w') \<Rightarrow> (working, q, w')
      | (False, w') \<Rightarrow> (pinging, q, w'))"
| "scan_step env hk (working, q, w) =
     (case scan_round env hk (q, w) of
        (Inl e, s') \<Rightarrow> (ended e, s')
      | (Inr True, s') \<Rightarrow> (pinging, s')
      | (Inr False, s') \<Rightarrow> (working, s'))"
| "scan_step env hk (ended e, s) = (ended e, s)"

inductive scan_run :: "'c env \<Rightarrow> 'w hooks \<Rightarrow> phase \<times> out_queue \<times> 'w \<Rightarrow> phase \<times> out_queue \<times> 'w \<Rightarrow> bool"
  for env :: "'c env" and hk :: "'w hooks" where
  refl: "scan_run env hk s s"
| step: "scan_run env hk s t \<Longrightarrow> scan_run env hk s (scan_step env hk t)"
| arrive: "scan_run env hk s (ph, q, w) \<Longrightarrow> load_text env content = Inr obj \<Longrightarrow>
    scan_run env hk s (ph, deliver name (File content) q, w)"


section \<open>Every loadable file leaves the queue\<close>

text \<open>
  Whatever the handlers return or raise, \<open>handle\<close> raises nothing for a file that can be loaded: a
  file whose handling failed is in the trash. The clauses of \<open>scan\<close> for \<open>ServerError\<close> and
  \<open>APICommunicationError\<close> never run.
\<close>

definition handled :: "exn + bool list \<Rightarrow> bool" where
  "handled r \<longleftrightarrow> (case r of Inl _ \<Rightarrow> False | Inr results \<Rightarrow> True \<in> set results)"

lemma handle_loaded:
  assumes "load_listener_file env name (oq_dir q) = Inr obj"
    and "call_handlers hk (oq_school_authority q) obj w = (r, w')"
  shows "handle env hk name (q, w) = (Inr (), (if handled r then q else discard_out name q), w')"
  using assms by (cases r) (simp_all add: handle_def handled_def)

lemma load_head [simp]: "oq_dir (q\<lparr>oq_head := h\<rparr>) = oq_dir q"
  by simp

lemma unlink_File:
  assumes "map_of (q_entries d) name = Some (File content)"
  shows "unlink_missing_ok name d = Inr (d\<lparr>q_entries := AList.delete name (q_entries d)\<rparr>)"
  using assms by (simp add: move_defs)

lemma unlink_gone:
  assumes "map_of (q_entries d) name = None" shows "unlink_missing_ok name d = Inr d"
  using assms by (simp add: move_defs)

lemma scan_file_loaded:
  assumes load: "load_listener_file env name (oq_dir q) = Inr obj"
    and entry: "map_of (q_entries (oq_dir q)) name = Some (File content)"
    and calls: "call_handlers hk (oq_school_authority q) obj w = (r, w')"
  shows "\<exists>q'. scan_file env hk name (q, w) = (Inr False, q', w') \<and>
    map_of (q_entries (oq_dir q')) = (map_of (q_entries (oq_dir q)))(name := None) \<and>
    map_of (q_trash (oq_dir q')) =
      (if handled r \<or> name \<in> keys (q_trash (oq_dir q)) then map_of (q_trash (oq_dir q))
       else (map_of (q_trash (oq_dir q)))(name \<mapsto> File content)) \<and>
    q_keep (oq_dir q') = q_keep (oq_dir q) \<and> oq_school_authority q' = oq_school_authority q"
proof (cases "handled r")
  case True
  then show ?thesis
    using handle_loaded [of env name "q\<lparr>oq_head := name\<rparr>" obj hk w r w'] assms unlink_File [OF entry]
    by (simp add: scan_file_def dict_simps)
next
  case False
  let ?d = "discard_file name (oq_dir q)"
  have "map_of (q_entries ?d) name = None" using discard_file_removes(1) [OF entry] by simp
  from unlink_gone [OF this] False show ?thesis
    using handle_loaded [of env name "q\<lparr>oq_head := name\<rparr>" obj hk w r w'] assms(1,3)
      discard_file_removes [OF entry]
    by (simp add: scan_file_def discard_out_def)
qed

lemma scan_file_step:
  assumes "load_listener_file env name (oq_dir q) = Inr obj"
  shows "\<exists>q' w'. scan_file env hk name (q, w) = (Inr False, q', w') \<and>
    map_of (q_entries (oq_dir q')) = (map_of (q_entries (oq_dir q)))(name := None) \<and>
    oq_school_authority q' = oq_school_authority q"
proof -
  obtain content where entry: "map_of (q_entries (oq_dir q)) name = Some (File content)"
    using load_listener_file_File [OF assms] by blast
  obtain r w' where calls: "call_handlers hk (oq_school_authority q) obj w = (r, w')" by force
  obtain q' where "scan_file env hk name (q, w) = (Inr False, q', w')"
    "map_of (q_entries (oq_dir q')) = (map_of (q_entries (oq_dir q)))(name := None)"
    "oq_school_authority q' = oq_school_authority q"
    using scan_file_loaded [OF assms entry calls] by metis
  then show ?thesis by metis
qed

text \<open>What a file loads to depends on its own entry only.\<close>

lemma load_cong:
  "map_of (q_entries d) n = map_of (q_entries d') n \<Longrightarrow>
    load_listener_file env n d = load_listener_file env n d'"
  by (simp add: load_listener_file_def)

text \<open>The loop handles the leading files of the lowest order and no other.\<close>

lemma scan_paths_loaded:
  assumes "\<forall>(k, n) \<in> set ps. \<exists>obj. load_listener_file env n (oq_dir q) = Inr obj"
    and "distinct (map snd ps)"
  shows "\<exists>q' w'. scan_paths env hk lowest ps (q, w) = (Inr False, q', w') \<and>
    map_of (q_entries (oq_dir q')) =
      map_of (q_entries (oq_dir q)) |` (- snd ` set (takeWhile (\<lambda>p. fst p \<le> lowest) ps)) \<and>
    oq_school_authority q' = oq_school_authority q"
  using assms
proof (induction ps arbitrary: q w)
  case Nil
  then show ?case by (simp add: restrict_map_def)
next
  case (Cons p ps)
  obtain k n where p: "p = (k, n)" by force
  show ?case
  proof (cases "k > lowest")
    case True
    then show ?thesis by (simp add: p restrict_map_def)
  next
    case False
    obtain obj where "load_listener_file env n (oq_dir q) = Inr obj" using Cons.prems(1) p by auto
    from scan_file_step [OF this, of hk w] obtain q1 w1 where
      sf: "scan_file env hk n (q, w) = (Inr False, q1, w1)"
      and e: "map_of (q_entries (oq_dir q1)) = (map_of (q_entries (oq_dir q)))(n := None)"
      and sa: "oq_school_authority q1 = oq_school_authority q"
      by blast
    have "\<forall>(k, m) \<in> set ps. \<exists>obj. load_listener_file env m (oq_dir q1) = Inr obj"
    proof clarify
      fix k' m assume m: "(k', m) \<in> set ps"
      then have "m \<noteq> n" using Cons.prems(2) p by force
      then have "load_listener_file env m (oq_dir q1) = load_listener_file env m (oq_dir q)"
        using e by (intro load_cong) simp
      then show "\<exists>obj. load_listener_file env m (oq_dir q1) = Inr obj" using Cons.prems(1) m by auto
    qed
    moreover have "distinct (map snd ps)" using Cons.prems(2) by simp
    ultimately obtain q' w' where
      "scan_paths env hk lowest ps (q1, w1) = (Inr False, q', w')"
      "map_of (q_entries (oq_dir q')) =
        map_of (q_entries (oq_dir q1)) |` (- snd ` set (takeWhile (\<lambda>p. fst p \<le> lowest) ps))"
      "oq_school_authority q' = oq_school_authority q1"
      using Cons.IH [of q1 w1] by blast
    with False sf e sa show ?thesis by (auto simp: p restrict_map_def fun_eq_iff)
  qed
qed


text \<open>A queue whose listener files can all be loaded, as the in queue leaves it.\<close>

definition loadable :: "'c env \<Rightarrow> queue_dir \<Rightarrow> bool" where
  "loadable env d \<longleftrightarrow>
     (\<forall>n \<in> set (fst (queue_files d)). \<exists>obj. load_listener_file env n d = Inr obj)"

definition order_of :: "'c env \<Rightarrow> queue_dir \<Rightarrow> string \<Rightarrow> nat" where
  "order_of env d n =
     (case load_listener_file env n d of
        Inl _ \<Rightarrow> 0
      | Inr obj \<Rightarrow>
          (case list_index (udm_object_type_of obj) queue_sort_order of None \<Rightarrow> 999 | Some i \<Rightarrow> i))"

text \<open>The files a round works on: those of the first type there is, users before groups.\<close>

definition current_files :: "'c env \<Rightarrow> queue_dir \<Rightarrow> string set" where
  "current_files env d =
     {n \<in> set (fst (queue_files d)). \<forall>m \<in> set (fst (queue_files d)). order_of env d n \<le> order_of env d m}"

lemma loadable_after_listing:
  assumes "wf_queue_dir d" "n \<in> set (fst (queue_files d))"
  shows "load_listener_file env n (snd (queue_files d)) = load_listener_file env n d"
  using assms in_queue_files [OF assms(1), of n] queue_files_keeps_file [OF assms(1), of n]
  by (intro load_cong) auto

lemma sorted_prefix:
  fixes ps :: "('a :: linorder \<times> 'b :: linorder) list"
  assumes "sorted (p # ps)"
  shows "set (takeWhile (\<lambda>x. fst x \<le> fst p) (p # ps)) =
    {x \<in> set (p # ps). \<forall>y \<in> set (p # ps). fst x \<le> fst y}"
proof -
  have le: "fst p \<le> fst x" if "x \<in> set (p # ps)" for x
    using assms that by (auto simp: less_eq_prod_def)
  have sorted_fst: "sorted (map fst (p # ps))"
    using assms by (auto simp: sorted_map less_eq_prod_def elim!: sorted_wrt_mono_rel [rotated] dest: less_imp_le)
  have "set (takeWhile (\<lambda>x. fst x \<le> fst p) xs) = {x \<in> set xs. fst x \<le> fst p}"
    if "sorted (map fst xs)" for xs :: "('a \<times> 'b) list"
    using that by (induction xs) force+
  from this [OF sorted_fst] show ?thesis using le by (auto intro: order.trans)
qed

lemma scan_round_loadable:
  assumes wf: "wf_queue_dir (oq_dir q)" and loadable: "loadable env (oq_dir q)"
  shows "\<exists>q' w'. scan_round env hk (q, w) = (Inr False, q', w') \<and>
    map_of (q_entries (oq_dir q')) =
      map_of (q_entries (snd (queue_files (oq_dir q)))) |` (- current_files env (oq_dir q)) \<and>
    oq_school_authority q' = oq_school_authority q"
proof -
  obtain names d where qf: "queue_files (oq_dir q) = (names, d)" by force
  let ?q = "q\<lparr>oq_dir := d\<rparr>" and ?order = "order_of env (oq_dir q)"
  let ?pairs = "map (\<lambda>n. (?order n, n)) names"
  have load: "\<exists>obj. load_listener_file env n d = Inr obj \<and> load_listener_file env n (oq_dir q) = Inr obj"
    if "n \<in> set names" for n
    using loadable_after_listing [OF wf, of n env] loadable that qf by (auto simp: loadable_def)
  have pairs: "mapE (\<lambda>n. bindE (udm_object_queue_order env ?q n) (\<lambda>k. Inr (k, n))) names = Inr ?pairs"
  proof (rule mapE_all_Inr)
    fix n assume "n \<in> set names"
    from load [OF this] show "bindE (udm_object_queue_order env ?q n) (\<lambda>k. Inr (k, n)) = Inr (?order n, n)"
      by (auto simp: udm_object_queue_order_def order_of_def)
  qed
  have all: "\<forall>(k, n) \<in> set (sort ?pairs). \<exists>obj. load_listener_file env n (oq_dir ?q) = Inr obj"
    using load by auto
  have "map snd ?pairs = names" by (simp add: comp_def)
  then have "distinct (map snd ?pairs)" using queue_files_distinct [OF wf] qf by simp
  then have dist: "distinct (map snd (sort ?pairs))"
    by (auto simp: distinct_map inj_on_def)
  have current: "snd ` set (takeWhile (\<lambda>p. fst p \<le> (case sort ?pairs of [] \<Rightarrow> 999 | (k, _) # _ \<Rightarrow> k)) (sort ?pairs)) =
      current_files env (oq_dir q)"
  proof (cases "sort ?pairs")
    case Nil
    then have "names = []" by (metis length_0_conv length_map length_sort)
    with qf show ?thesis by (simp add: current_files_def)
  next
    case (Cons p ps)
    have "sorted (sort ?pairs)" by simp
    then have sorted: "sorted (p # ps)" unfolding Cons .
    have "set (sort ?pairs) = (\<lambda>n. (?order n, n)) ` set names" by simp
    then have elems: "set (p # ps) = (\<lambda>n. (?order n, n)) ` set names" unfolding Cons .
    have "snd ` {x \<in> (\<lambda>n. (?order n, n)) ` set names.
        \<forall>y \<in> (\<lambda>n. (?order n, n)) ` set names. fst x \<le> fst y} = current_files env (oq_dir q)"
      using qf by (force simp: current_files_def image_iff)
    then have "snd ` set (takeWhile (\<lambda>x. fst x \<le> fst p) (p # ps)) = current_files env (oq_dir q)"
      unfolding sorted_prefix [OF sorted] elems .
    then show ?thesis unfolding Cons by (simp only: list.case prod.case_eq_if)
  qed
  from scan_paths_loaded [OF all dist, of hk "case sort ?pairs of [] \<Rightarrow> 999 | (k, _) # _ \<Rightarrow> k" w]
  obtain q' w' where
    "scan_paths env hk (case sort ?pairs of [] \<Rightarrow> 999 | (k, _) # _ \<Rightarrow> k) (sort ?pairs) (?q, w) = (Inr False, q', w')"
    "map_of (q_entries (oq_dir q')) = map_of (q_entries d) |` (- current_files env (oq_dir q))"
    "oq_school_authority q' = oq_school_authority q"
    unfolding current by auto
  then show ?thesis using qf pairs by (simp add: scan_round_def Let_def)
qed


section \<open>Well-formedness and the reachable states\<close>

lemma wf_handle:
  "wf_queue_dir (oq_dir (fst s)) \<Longrightarrow> wf_queue_dir (oq_dir (fst (snd (handle env hk name s))))"
  by (auto simp: handle_def discard_out_def split: sum.split prod.split)

lemma wf_scan_file:
  assumes "wf_queue_dir (oq_dir (fst s))"
  shows "wf_queue_dir (oq_dir (fst (snd (scan_file env hk name s))))"
  using wf_handle [of "((fst s)\<lparr>oq_head := name\<rparr>, snd s)" env hk name] assms
  by (auto simp: scan_file_def discard_out_def split: sum.split prod.split dest: wf_unlink_missing_ok)

lemma wf_scan_paths:
  "wf_queue_dir (oq_dir (fst s)) \<Longrightarrow> wf_queue_dir (oq_dir (fst (snd (scan_paths env hk lowest ps s))))"
proof (induction ps arbitrary: s)
  case (Cons p ps)
  obtain k n where p: "p = (k, n)" by force
  obtain r q w where sf: "scan_file env hk n s = (r, q, w)" by (metis prod.exhaust)
  have "wf_queue_dir (oq_dir q)" using wf_scan_file [OF Cons.prems, of env hk n] sf by simp
  with Cons.IH [of "(q, w)"] Cons.prems sf show ?case
    by (auto simp: p split: sum.split bool.split)
qed simp

lemma wf_scan_round:
  assumes "wf_queue_dir (oq_dir q)"
  shows "wf_queue_dir (oq_dir (fst (snd (scan_round env hk (q, w)))))"
proof -
  obtain names d where qf: "queue_files (oq_dir q) = (names, d)" by force
  then have wf: "wf_queue_dir (oq_dir (fst (q\<lparr>oq_dir := d\<rparr>, w)))"
    using queue_files_wf [OF assms] by simp
  show ?thesis
  proof (cases "mapE (\<lambda>n. bindE (udm_object_queue_order env (q\<lparr>oq_dir := d\<rparr>) n) (\<lambda>k. Inr (k, n))) names")
    case (Inl e)
    then show ?thesis using qf wf by (simp add: scan_round_def Let_def)
  next
    case (Inr pairs)
    let ?low = "case sort pairs of [] \<Rightarrow> 999 | (k, _) # _ \<Rightarrow> k"
    obtain r q' w' where "scan_paths env hk ?low (sort pairs) (q\<lparr>oq_dir := d\<rparr>, w) = (r, q', w')"
      by (metis prod.exhaust)
    moreover from this have "wf_queue_dir (oq_dir q')"
      using wf_scan_paths [OF wf, of env hk ?low "sort pairs"] by simp
    ultimately show ?thesis
      using qf Inr by (auto simp: scan_round_def Let_def split: sum.split bool.split)
  qed
qed

text \<open>After a round the files that are left are those of another type, unchanged.\<close>

lemma scan_round_files:
  assumes "wf_queue_dir (oq_dir q)" "loadable env (oq_dir q)"
    and "scan_round env hk (q, w) = (r, q', w')"
  shows "r = Inr False" "wf_queue_dir (oq_dir q')"
    and "set (fst (queue_files (oq_dir q'))) =
      set (fst (queue_files (oq_dir q))) - current_files env (oq_dir q)"
    and "loadable env (oq_dir q')"
proof -
  show wf': "wf_queue_dir (oq_dir q')" using wf_scan_round [OF assms(1), of env hk w] assms(3) by simp
  have r: "r = Inr False" and entries: "map_of (q_entries (oq_dir q')) =
      map_of (q_entries (snd (queue_files (oq_dir q)))) |` (- current_files env (oq_dir q))"
    using scan_round_loadable [OF assms(1,2), of hk w] assms(3) by auto
  show "r = Inr False" by (rule r)
  have same: "map_of (q_entries (oq_dir q')) n = map_of (q_entries (oq_dir q)) n"
    if "n \<in> set (fst (queue_files (oq_dir q)))" "n \<notin> current_files env (oq_dir q)" for n
    using that entries in_queue_files [OF assms(1), of n] queue_files_keeps_file [OF assms(1), of n]
    by (auto simp: restrict_map_def)
  show files: "set (fst (queue_files (oq_dir q'))) =
      set (fst (queue_files (oq_dir q))) - current_files env (oq_dir q)"
  proof (intro set_eqI iffI)
    fix n assume n: "n \<in> set (fst (queue_files (oq_dir q')))"
    then obtain content where json: "json_name n"
      and content: "map_of (q_entries (oq_dir q')) n = Some (File content)"
      using in_queue_files [OF wf', of n] by auto
    then have "n \<notin> current_files env (oq_dir q)"
      and "map_of (q_entries (snd (queue_files (oq_dir q)))) n = Some (File content)"
      using entries by (auto simp: restrict_map_def split: if_splits)
    with json show "n \<in> set (fst (queue_files (oq_dir q))) - current_files env (oq_dir q)"
      using in_queue_files [OF assms(1), of n] queue_files_subset [of "oq_dir q" n] by blast
  next
    fix n assume n: "n \<in> set (fst (queue_files (oq_dir q))) - current_files env (oq_dir q)"
    then show "n \<in> set (fst (queue_files (oq_dir q')))"
      using same [of n] in_queue_files [OF assms(1), of n] in_queue_files [OF wf', of n] by auto
  qed
  show "loadable env (oq_dir q')"
    unfolding loadable_def files
  proof
    fix n assume n: "n \<in> set (fst (queue_files (oq_dir q))) - current_files env (oq_dir q)"
    then have "load_listener_file env n (oq_dir q') = load_listener_file env n (oq_dir q)"
      using same [of n] by (intro load_cong) auto
    with n assms(2) show "\<exists>obj. load_listener_file env n (oq_dir q') = Inr obj"
      by (auto simp: loadable_def)
  qed
qed

lemma current_files_nonempty:
  assumes "set (fst (queue_files d)) \<noteq> {}" shows "current_files env d \<noteq> {}"
proof -
  obtain n where "n \<in> set (fst (queue_files d))"
    and "\<forall>m \<in> set (fst (queue_files d)). \<not> order_of env d m < order_of env d n"
    using ex_min_if_finite [of "order_of env d ` set (fst (queue_files d))"] assms
    by (metis (no_types, lifting) arg_min_if_finite(1) arg_min_least finite_set leD)
  then show ?thesis by (auto simp: current_files_def not_less)
qed

text \<open>A round makes progress: a queue that is not empty gets smaller.\<close>

lemma scan_round_progress:
  assumes "wf_queue_dir (oq_dir q)" "loadable env (oq_dir q)"
    and "scan_round env hk (q, w) = (r, q', w')" "fst (queue_files (oq_dir q)) \<noteq> []"
  shows "queue_length (oq_dir q') < queue_length (oq_dir q)"
proof -
  have "current_files env (oq_dir q) \<noteq> {}" using current_files_nonempty assms(4) by simp
  moreover have "current_files env (oq_dir q) \<subseteq> set (fst (queue_files (oq_dir q)))"
    by (auto simp: current_files_def)
  ultimately have "set (fst (queue_files (oq_dir q'))) \<subset> set (fst (queue_files (oq_dir q)))"
    using scan_round_files(3) [OF assms(1-3)] by blast
  then have "card (set (fst (queue_files (oq_dir q')))) < card (set (fst (queue_files (oq_dir q))))"
    by (simp add: psubset_card_mono)
  then show ?thesis
    using queue_files_distinct [OF assms(1)] queue_files_distinct [OF scan_round_files(2) [OF assms(1-3)]]
    by (simp add: queue_length_def distinct_card)
qed

text \<open>A delivered file keeps a queue loadable.\<close>

lemma wf_deliver: "wf_queue_dir (oq_dir q) \<Longrightarrow> wf_queue_dir (oq_dir (deliver name e q))"
  by (simp add: wf_queue_dir_def deliver_def)

lemma loadable_deliver:
  assumes "wf_queue_dir (oq_dir q)" "loadable env (oq_dir q)" "load_text env content = Inr obj"
  shows "loadable env (oq_dir (deliver name (File content) q))"
  unfolding loadable_def
proof
  fix n assume n: "n \<in> set (fst (queue_files (oq_dir (deliver name (File content) q))))"
  show "\<exists>obj. load_listener_file env n (oq_dir (deliver name (File content) q)) = Inr obj"
  proof (cases "n = name")
    case True
    then show ?thesis using assms(3) by (simp add: load_listener_file_def)
  next
    case False
    then have "load_listener_file env n (oq_dir (deliver name (File content) q)) =
        load_listener_file env n (oq_dir q)"
      by (intro load_cong) simp
    moreover have "n \<in> set (fst (queue_files (oq_dir q)))"
      using n False in_queue_files [OF wf_deliver [OF assms(1), of name "File content"], of n]
        in_queue_files [OF assms(1), of n] by simp
    ultimately show ?thesis using assms(2) by (simp add: loadable_def)
  qed
qed

text \<open>The task never ends and its queue stays loadable, whatever the plugins do.\<close>

definition healthy :: "'c env \<Rightarrow> phase \<times> out_queue \<times> 'w \<Rightarrow> bool" where
  "healthy env s \<longleftrightarrow>
     (case s of (ph, q, w) \<Rightarrow>
        (\<forall>e. ph \<noteq> ended e) \<and> wf_queue_dir (oq_dir q) \<and> loadable env (oq_dir q))"

inductive_cases scan_run_cases: "scan_run env hk s t"

lemma healthy_step: "healthy env s \<Longrightarrow> healthy env (scan_step env hk s)"
proof -
  assume h: "healthy env s"
  obtain ph q w where s: "s = (ph, q, w)" by (metis prod.exhaust)
  show ?thesis
  proof (cases ph)
    case pinging
    with h s show ?thesis by (auto simp: healthy_def split: prod.split bool.split)
  next
    case working
    obtain r q' w' where sr: "scan_round env hk (q, w) = (r, q', w')" by (metis prod.exhaust)
    have "wf_queue_dir (oq_dir q)" "loadable env (oq_dir q)" using h s by (simp_all add: healthy_def)
    from scan_round_files [OF this sr] sr working show ?thesis by (simp add: s healthy_def)
  next
    case (ended e)
    with h s show ?thesis by (simp add: healthy_def)
  qed
qed

lemma scan_run_healthy: "scan_run env hk s t \<Longrightarrow> healthy env s \<Longrightarrow> healthy env t"
proof (induction rule: scan_run.induct)
  case (step s t)
  then show ?case by (simp add: healthy_step)
next
  case (arrive s ph q w content obj name)
  then show ?case using wf_deliver loadable_deliver by (fastforce simp: healthy_def)
qed

text \<open>
  The hypothesis matters: one listed file that cannot be loaded ends the task before any file is
  handled, because the order of the files is computed outside of any \<open>try\<close>.
\<close>

lemma scan_round_unloadable:
  assumes "wf_queue_dir (oq_dir q)" "n \<in> set (fst (queue_files (oq_dir q)))"
    and "load_listener_file env n (oq_dir q) = Inl e"
  shows "\<exists>e'. scan_round env hk (q, w) = (Inl e', q\<lparr>oq_dir := snd (queue_files (oq_dir q))\<rparr>, w)"
proof -
  obtain names d where qf: "queue_files (oq_dir q) = (names, d)" by force
  have "load_listener_file env n d = Inl e"
    using loadable_after_listing [OF assms(1,2), of env] assms(3) qf by simp
  then have "\<exists>x. mapE (\<lambda>n. bindE (udm_object_queue_order env (q\<lparr>oq_dir := d\<rparr>) n) (\<lambda>k. Inr (k, n))) names = Inl x"
    unfolding mapE_Inl_iff using assms(2) qf
    by (intro bexI [of _ n]) (simp_all add: udm_object_queue_order_def)
  then show ?thesis using qf by (auto simp: scan_round_def Let_def)
qed

end
