(* ===== verification/Instances.thy ===== *)
theory Instances
  imports Out_Queue
begin

text \<open>
  Concrete parameters: an environment whose JSON codec knows a few texts, whose field coercion reads
  the fields of well-typed dictionaries, and whose directory answers every search for hashes; a
  plugin registry with one plugin; a school authority with its queue. The witnesses of the
  properties evaluate the model on them.
\<close>

section \<open>Field coercion of well-typed dictionaries\<close>

definition coerce_object :: "pydict \<Rightarrow> exn + pydict" where
  "coerce_object d = (case map_of d ''object'' of Some (PDict o') \<Rightarrow> Inr o' | _ \<Rightarrow> Inl ValidationErr)"

definition coerce_old :: "(pydict \<Rightarrow> exn + 'n) \<Rightarrow> pydict \<Rightarrow> exn + 'n option" where
  "coerce_old of_dict d =
     (case map_of d ''old_data'' of
        Some (PDict o') \<Rightarrow> bindE (of_dict o') (\<lambda>n. Inr (Some n))
      | _ \<Rightarrow> Inr None)"

definition coerce_passwords :: "pydict \<Rightarrow> exn + user_passwords option" where
  "coerce_passwords d =
     (case map_of d ''user_passwords'' of
        Some (PDict p) \<Rightarrow>
          bindE (object_strs p ''userPassword'') (\<lambda>up. bindE (object_str p ''sambaNTPassword'') (\<lambda>nt.
          bindE (object_strs p ''krb5Key'') (\<lambda>ks.
          Inr (Some \<lparr>userPassword = up, sambaNTPassword = nt, krb5Key = ks,
            krb5KeyVersionNumber = 1, sambaPwdLastSet = 2\<rparr>))))
      | _ \<Rightarrow> Inr None)"

definition coerce_user_add_mod :: "pydict \<Rightarrow> exn + user_add_mod" where
  "coerce_user_add_mod d =
     bindE (object_str d ''dn'') (\<lambda>dn. bindE (object_str d ''id'') (\<lambda>i.
     bindE (object_str d ''udm_object_type'') (\<lambda>t. bindE (coerce_object d) (\<lambda>o'.
     bindE (object_strs d ''options'') (\<lambda>opts. bindE (coerce_passwords d) (\<lambda>pw.
     bindE (coerce_old user_old_of_dict d) (\<lambda>old.
     Inr \<lparr>um_dn = dn, um_id = i, um_udm_object_type = t, um_object = o', um_options = opts,
       um_user_passwords = pw, um_old_data = old\<rparr>)))))))"

definition coerce_user_remove :: "pydict \<Rightarrow> exn + user_remove" where
  "coerce_user_remove d =
     bindE (object_str d ''dn'') (\<lambda>dn. bindE (object_str d ''id'') (\<lambda>i.
     bindE (object_str d ''udm_object_type'') (\<lambda>t. bindE (coerce_old user_old_of_dict d) (\<lambda>old.
     Inr \<lparr>ur_dn = dn, ur_id = i, ur_udm_object_type = t, ur_old_data = old\<rparr>))))"

definition coerce_group_add_mod :: "pydict \<Rightarrow> exn + group_add_mod" where
  "coerce_group_add_mod d =
     bindE (object_str d ''dn'') (\<lambda>dn. bindE (object_str d ''id'') (\<lambda>i.
     bindE (object_str d ''udm_object_type'') (\<lambda>t. bindE (coerce_object d) (\<lambda>o'.
     bindE (object_strs d ''options'') (\<lambda>opts. bindE (coerce_old group_old_of_dict d) (\<lambda>old.
     Inr \<lparr>gm_dn = dn, gm_id = i, gm_udm_object_type = t, gm_object = o', gm_options = opts,
       gm_old_data = old\<rparr>))))))"

definition coerce_group_remove :: "pydict \<Rightarrow> exn + group_remove" where
  "coerce_group_remove d =
     bindE (object_str d ''dn'') (\<lambda>dn. bindE (object_str d ''id'') (\<lambda>i.
     bindE (object_str d ''udm_object_type'') (\<lambda>t. bindE (coerce_old group_old_of_dict d) (\<lambda>old.
     Inr \<lparr>gr_dn = dn, gr_id = i, gr_udm_object_type = t, gr_old_data = old\<rparr>))))"

section \<open>Objects and texts\<close>

definition ex_user :: user_add_mod where
  "ex_user = \<lparr>um_dn = ''uid=max,ou=A,dc=x'', um_id = ''u1'', um_udm_object_type = ''users/user'',
     um_object = [(''username'', PStr ''max''), (''school'', PList [PStr ''A'', PStr ''B''])],
     um_options = [''default'', ''ucsschoolStudent''], um_user_passwords = None, um_old_data = None\<rparr>"

definition ex_passwords :: user_passwords where
  "ex_passwords = \<lparr>userPassword = [''pw''], sambaNTPassword = ''nt'', krb5Key = [''k''],
     krb5KeyVersionNumber = 1, sambaPwdLastSet = 2\<rparr>"

definition ex_user_full :: user_add_mod where
  "ex_user_full = ex_user\<lparr>um_user_passwords := Some ex_passwords\<rparr>"

definition ex_group :: group_add_mod where
  "ex_group = \<lparr>gm_dn = ''cn=A-1a,cn=klassen,cn=schueler,cn=groups,ou=A,dc=x'', gm_id = ''g1'',
     gm_udm_object_type = ''groups/group'',
     gm_object = [(''name'', PStr ''A-1a''), (''users'', PList [])], gm_options = [''default''],
     gm_old_data = None\<rparr>"

definition ex_loads :: "string \<Rightarrow> exn + pyval" where
  "ex_loads t =
     (if t = ''user'' then Inr (PDict (user_add_mod_dict ex_user))
      else if t = ''user2'' then Inr (PDict (user_add_mod_dict ex_user_full))
      else if t = ''group'' then Inr (PDict (group_add_mod_dict ex_group))
      else if t = ''list'' then Inr (PList [])
      else Inl ValueErr)"

definition ex_dumps :: "pydict \<Rightarrow> exn + string" where
  "ex_dumps d = Inr (if map_of d ''udm_object_type'' = Some (PStr ''users/user'') then ''user2'' else ''group'')"

definition ex_env :: "(string \<times> pydict) list env" where
  "ex_env = \<lparr>env_pydantic = \<lparr>py_user_add_mod = coerce_user_add_mod, py_user_remove = coerce_user_remove,
       py_group_add_mod = coerce_group_add_mod, py_group_remove = coerce_group_remove\<rparr>,
     env_loads = ex_loads, env_dumps = ex_dumps, env_cache = dict_cache,
     env_passwords = (\<lambda>_. Inr (Some ex_passwords))\<rparr>"

definition ex_env_down :: "(string \<times> pydict) list env" where
  "ex_env_down = ex_env\<lparr>env_passwords := (\<lambda>_. Inl LDAPExceptionErr)\<rparr>"

definition ex_environ :: environ where
  "ex_environ k = (if k = ''ldap_base'' then Some ''dc=x'' else None)"

section \<open>Queues\<close>

definition ex_sa :: school_authority where
  "ex_sa = \<lparr>sa_name = ''T1'', sa_active = True, sa_url = ''https://t1'', sa_plugins = [''kelvin''],
     sa_plugin_configs = []\<rparr>"

definition ex_sa2 :: school_authority where
  "ex_sa2 = ex_sa\<lparr>sa_name := ''T2''\<rparr>"

definition ex_out_queue :: out_queue where
  "ex_out_queue = from_school_authority [(''T1'', \<lparr>q_entries =
     [(''trash'', Directory), (''2.json'', File ''user2''), (''1.json'', File ''group''), (''x'', File ''y'')],
     q_trash = [], q_keep = []\<rparr>)] ex_sa"

definition ex_hooks :: "nat hooks" where
  "ex_hooks = \<lparr>hk_registry = [(''kelvin'', [''handle_listener_object'', ''school_authority_ping''])],
     hk_handle_listener_object =
       (\<lambda>p sa obj w. if is_user_object obj then (Inr True, Suc w) else (Inl APICommunicationError, w)),
     hk_school_authority_ping = (\<lambda>p sa w. (Inr True, w))\<rparr>"

definition ex_in_queue :: "(string \<times> pydict) list in_queue" where
  "ex_in_queue = \<lparr>iq_dir = \<lparr>q_entries = [(''1.json'', File ''user''), (''0_ready.json'', File ''user2'')],
       q_trash = [], q_keep = []\<rparr>,
     iq_db = [], iq_head = [], iq_out_queues = [from_school_authority [] ex_sa, from_school_authority [] ex_sa2],
     iq_mapping = [(''a'', ''T1''), (''c'', ''T2'')], iq_old_out_queues = []\<rparr>"

lemma ex_cache_laws [simp]: "cache_laws (env_cache ex_env)" "cache_laws (env_cache ex_env_down)"
  by (simp_all add: ex_env_def ex_env_down_def dict_cache_laws)

lemmas ex_defs = ex_env_def ex_env_down_def ex_user_def ex_user_full_def ex_group_def ex_passwords_def
  ex_loads_def ex_dumps_def ex_environ_def ex_sa_def ex_sa2_def ex_out_queue_def ex_hooks_def ex_in_queue_def

lemma ex_load_user: "load_text ex_env ''user'' = Inr (ListenerUserAddModifyObject ex_user)"
  by code_simp

lemma ex_load_user2: "load_text ex_env ''user2'' = Inr (ListenerUserAddModifyObject ex_user_full)"
  by code_simp

lemma ex_load_group: "load_text ex_env ''group'' = Inr (ListenerGroupAddModifyObject ex_group)"
  by code_simp

lemma ex_out_queue_files: "fst (queue_files (oq_dir ex_out_queue)) = [''1.json'', ''2.json'']"
  by code_simp

lemma ex_out_queue_wf: "wf_queue_dir (oq_dir ex_out_queue)"
  by code_simp

lemma ex_out_queue_loadable: "loadable ex_env (oq_dir ex_out_queue)"
  using ex_load_user2 ex_load_group
  by (simp add: loadable_def ex_out_queue_files)
     (simp add: load_listener_file_def ex_out_queue_def from_school_authority_def ex_sa_def)

lemma ex_in_queue_wf: "wf_in_queue ex_in_queue"
  by code_simp


lemma ex_out_queue_sa [simp]: "oq_school_authority ex_out_queue = ex_sa"
  by (simp add: ex_out_queue_def from_school_authority_def)

lemma ex_plugins:
  "filter_plugins (hk_registry ex_hooks) ''school_authority_ping'' (sa_plugins ex_sa) = [''kelvin'']"
  "filter_plugins (hk_registry ex_hooks) ''handle_listener_object'' (sa_plugins ex_sa) = [''kelvin'']"
  by (simp_all add: filter_plugins_def ex_hooks_def ex_sa_def Let_def)

lemma ex_ping: "ping_ok ex_hooks ex_sa w = (True, w)"
  unfolding ping_ok_def ex_plugins by (simp add: ex_hooks_def)

lemma ex_orders:
  "order_of ex_env (oq_dir ex_out_queue) ''1.json'' = 1"
  "order_of ex_env (oq_dir ex_out_queue) ''2.json'' = 0"
  using ex_load_user2 ex_load_group
  by (simp_all add: order_of_def load_listener_file_def ex_out_queue_def from_school_authority_def
      ex_sa_def queue_sort_order_def ex_group_def ex_user_full_def ex_user_def)


lemma ex_later_files:
  "{n \<in> set [''1.json'', ''2.json'']. \<exists>m \<in> set [''1.json'', ''2.json''].
      order_of ex_env (oq_dir ex_out_queue) m < order_of ex_env (oq_dir ex_out_queue) n} = {''1.json''}"
  by (auto simp: ex_orders)

section \<open>One user\<close>

definition ex_old_entry :: user_old_data where
  "ex_old_entry = \<lparr>uo_schools = [''A'', ''B''], uo_record_uid = None, uo_source_uid = None\<rparr>"

lemma ex_holds_empty: "holds (env_cache ex_env) user_old_of_dict K [] (\<lambda>_. None)"
  by (simp add: holds_def ex_env_def db_get_def dict_cache_def)

lemma ex_user_entry: "user_old_entry ex_user = Inr ex_old_entry"
  by code_simp

lemma ex_username: "username ex_user = Inr ''max''"
  by code_simp

definition ex_bad_queue :: out_queue where
  "ex_bad_queue = from_school_authority
     [(''T1'', \<lparr>q_entries = [(''1.json'', File ''no json'')], q_trash = [], q_keep = []\<rparr>)] ex_sa"

lemma ex_in_queue_files: "fst (queue_files (iq_dir ex_in_queue)) = [''0_ready.json'', ''1.json'']"
  by code_simp

end
