(* ===== verification/Dict_Update.thy ===== *)
theory Dict_Update
  imports Prelude
begin

text \<open>
  \<open>recursive_dict_update\<close> of \<open>utils.py\<close>: the merge of two nested dictionaries that the PATCH
  handler and the attribute mapping rest on. The update is in place, so the model returns the
  changed dictionary together with the exception, if one was raised: what was changed before it
  stays changed.
\<close>

section \<open>The merge\<close>

function recursive_dict_update :: "pydict \<Rightarrow> pydict \<Rightarrow> bool \<Rightarrow> pydict \<times> exn option" where
  "recursive_dict_update ori [] none = (ori, None)"
| "recursive_dict_update ori ((k, v) # us) none =
     (case map_of ori k of
        Some (PDict d) \<Rightarrow>
          (case v of
             PDict u \<Rightarrow>
               (case recursive_dict_update d u none of
                  (d', None) \<Rightarrow> recursive_dict_update (AList.update k (PDict d') ori) us none
                | (d', Some e) \<Rightarrow> (AList.update k (PDict d') ori, Some e))
           | _ \<Rightarrow> (ori, Some ValueErr))
      | _ \<Rightarrow>
          if v \<noteq> PNone \<or> none then recursive_dict_update (AList.update k v ori) us none
          else recursive_dict_update ori us none)"
  by pat_completeness auto
termination
  by (relation "measure (\<lambda>(_, us, _). size_list (size_prod (\<lambda>_. 0) size) us)") auto

declare recursive_dict_update.simps(2) [simp del]

text \<open>One entry of the updater against what the dictionary holds under its key.\<close>

lemma rdu_Cons_conflict:
  assumes "map_of ori k = Some (PDict d)" "\<not> is_PDict v"
  shows "recursive_dict_update ori ((k, v) # us) none = (ori, Some ValueErr)"
  using assms by (cases v) (simp_all add: recursive_dict_update.simps(2))

lemma rdu_Cons_nested:
  assumes "map_of ori k = Some (PDict d)"
  shows "recursive_dict_update ori ((k, PDict u) # us) none =
    (case recursive_dict_update d u none of
       (d', None) \<Rightarrow> recursive_dict_update (AList.update k (PDict d') ori) us none
     | (d', Some e) \<Rightarrow> (AList.update k (PDict d') ori, Some e))"
  using assms by (simp add: recursive_dict_update.simps(2))

lemma rdu_Cons_plain:
  assumes "\<And>d. map_of ori k \<noteq> Some (PDict d)"
  shows "recursive_dict_update ori ((k, v) # us) none =
    recursive_dict_update (if v \<noteq> PNone \<or> none then AList.update k v ori else ori) us none"
  using assms
  by (auto simp: recursive_dict_update.simps(2) split: option.splits pyval.splits)

lemmas rdu_Cons = rdu_Cons_conflict rdu_Cons_nested rdu_Cons_plain

text \<open>
  Every proof about the merge goes by induction on the updater: into the value of its first entry,
  and over the rest, each for any dictionary that is updated.
\<close>

lemma updater_induct [case_names Nil Cons]:
  assumes Nil: "\<And>ori. P ori []"
    and Cons: "\<And>ori k v us. (\<And>u d. v = PDict u \<Longrightarrow> P d u) \<Longrightarrow> (\<And>d. P d us) \<Longrightarrow> P ori ((k, v) # us)"
  shows "P ori us"
proof (induction us arbitrary: ori
    rule: measure_induct_rule [where f = "size_list (size_prod (\<lambda>_. 0) size)"])
  case (less us)
  show ?case
  proof (cases us)
    case Nil
    with assms(1) show ?thesis by simp
  next
    case [simp]: (Cons p ps)
    obtain k v where [simp]: "p = (k, v)" by force
    have "P ori ((k, v) # ps)" by (rule assms(2)) (use less.IH in auto)
    then show ?thesis by simp
  qed
qed

lemma not_dict_cases [case_names nested plain]:
  obtains d where "map_of (ori :: pydict) k = Some (PDict d)"
  | "\<And>d. map_of ori k \<noteq> Some (PDict d)"
  by blast

section \<open>When the merge fails\<close>

fun conflict :: "pydict \<Rightarrow> pydict \<Rightarrow> bool" where
  "conflict ori [] = False"
| "conflict ori ((k, v) # us) =
     ((case map_of ori k of
         Some (PDict d) \<Rightarrow> (case v of PDict u \<Rightarrow> conflict d u | _ \<Rightarrow> True)
       | _ \<Rightarrow> False) \<or> conflict ori us)"

text \<open>Entries of other keys do not change whether a key is in conflict.\<close>

lemma conflict_update_other: "k \<notin> keys us \<Longrightarrow> conflict (AList.update k v ori) us = conflict ori us"
proof (induction us)
  case Nil
  then show ?case by simp
next
  case (Cons p us)
  obtain k' v' where p: "p = (k', v')" by force
  with Cons.prems have "k \<noteq> k'" and "k \<notin> keys us" by (auto simp: keys_def)
  with Cons.IH p show ?case by (simp add: dict_simps)
qed

fun wf_val :: "pyval \<Rightarrow> bool" and wf_deep :: "pydict \<Rightarrow> bool" where
  "wf_val (PDict d) = (wf_dict d \<and> wf_deep d)"
| "wf_val _ = True"
| "wf_deep [] = True"
| "wf_deep ((k, v) # d) = (wf_val v \<and> wf_deep d)"

lemma wf_deep_map_of: "wf_deep d \<Longrightarrow> map_of d k = Some v \<Longrightarrow> wf_val v"
  by (induction d) (auto split: if_splits)

lemma conflict_Cons_plain:
  "(\<And>d. map_of ori k \<noteq> Some (PDict d)) \<Longrightarrow> conflict ori ((k, v) # us) = conflict ori us"
  by (auto split: option.splits pyval.splits)

lemma rdu_fails_iff:
  "wf_dict us \<Longrightarrow> wf_deep us \<Longrightarrow>
    snd (recursive_dict_update ori us none) = (if conflict ori us then Some ValueErr else None)"
proof (induction ori us rule: updater_induct)
  case (Nil ori)
  then show ?case by simp
next
  case (Cons ori k v us)
  have k: "k \<notin> keys us" and wf: "wf_dict us" "wf_deep us" "wf_val v"
    using Cons.prems by (auto simp: dict_simps)
  show ?case
  proof (cases rule: not_dict_cases [of ori k])
    case (nested d)
    show ?thesis
    proof (cases v)
      case (PDict u)
      obtain d' r where dr: "recursive_dict_update d u none = (d', r)" by force
      with Cons.IH(1) [OF PDict, of d] wf PDict have r: "r = (if conflict d u then Some ValueErr else None)"
        by simp
      show ?thesis
        using Cons.IH(2) [OF wf(1,2)] nested PDict dr r k
        by (simp add: rdu_Cons_nested conflict_update_other)
    qed (use nested in \<open>simp_all add: rdu_Cons_conflict\<close>)
  next
    case plain
    with Cons.IH(2) [OF wf(1,2)] k show ?thesis
      by (simp add: rdu_Cons_plain conflict_Cons_plain conflict_update_other del: conflict.simps(2))
  qed
qed

section \<open>What a successful merge holds\<close>

text \<open>The value at a path of keys.\<close>

fun path_get :: "pydict \<Rightarrow> string list \<Rightarrow> pyval option" where
  "path_get d [] = Some (PDict d)"
| "path_get d [k] = map_of d k"
| "path_get d (k # ks) = (case map_of d k of Some (PDict d') \<Rightarrow> path_get d' ks | _ \<Rightarrow> None)"

text \<open>Whether the updater says something about a path: it has a value at it or at a prefix.\<close>

fun touched :: "pydict \<Rightarrow> string list \<Rightarrow> bool" where
  "touched us [] = True"
| "touched us (k # ks) =
     (case map_of us k of None \<Rightarrow> False | Some (PDict u) \<Rightarrow> touched u ks | Some _ \<Rightarrow> True)"

lemma path_get_Cons:
  "path_get d (k # ks) = (if ks = [] then map_of d k
     else (case map_of d k of Some (PDict d') \<Rightarrow> path_get d' ks | _ \<Rightarrow> None))"
  by (cases ks) auto

text \<open>The merge, key by key.\<close>

definition merged_value :: "pyval option \<Rightarrow> pyval \<Rightarrow> bool \<Rightarrow> pyval option" where
  "merged_value old v none =
     (case (old, v) of
        (Some (PDict d), PDict u) \<Rightarrow> Some (PDict (fst (recursive_dict_update d u none)))
      | _ \<Rightarrow> if v \<noteq> PNone \<or> none then Some v else old)"

definition merged :: "pydict \<Rightarrow> pydict \<Rightarrow> bool \<Rightarrow> string \<Rightarrow> pyval option" where
  "merged ori us none k =
     (case map_of us k of None \<Rightarrow> map_of ori k | Some v \<Rightarrow> merged_value (map_of ori k) v none)"

lemma merged_value_plain:
  "(\<And>d. old \<noteq> Some (PDict d)) \<Longrightarrow> merged_value old v none = (if v \<noteq> PNone \<or> none then Some v else old)"
  by (auto simp: merged_value_def split: option.splits pyval.splits)

lemma merged_Cons:
  "merged ori ((k', v) # us) none k =
     (if k = k' then merged_value (map_of ori k) v none else merged ori us none k)"
  by (simp add: merged_def)

lemma merged_update_other: "k \<noteq> k' \<Longrightarrow> merged (AList.update k' v ori) us none k = merged ori us none k"
  by (simp add: merged_def dict_simps split: option.split)

lemma merged_absent: "k \<notin> keys us \<Longrightarrow> merged ori us none k = map_of ori k"
  by (simp add: merged_def flip: map_of_None_iff)

lemma rdu_map_of:
  "wf_dict us \<Longrightarrow> recursive_dict_update ori us none = (res, None) \<Longrightarrow>
    map_of res k = merged ori us none k"
proof (induction us arbitrary: ori)
  case Nil
  then show ?case by (simp add: merged_def)
next
  case (Cons p us)
  obtain k' v where p: "p = (k', v)" by force
  have k': "k' \<notin> keys us" and wf: "wf_dict us"
    using Cons.prems(1) p by (auto simp: dict_simps)
  show ?case
  proof (cases rule: not_dict_cases [of ori k'])
    case (nested d)
    with Cons.prems(2) p obtain u where u: "v = PDict u"
      by (cases v) (simp_all add: rdu_Cons_conflict)
    with Cons.prems(2) p nested obtain d' where
      d': "recursive_dict_update d u none = (d', None)"
      and rest: "recursive_dict_update (AList.update k' (PDict d') ori) us none = (res, None)"
      by (auto simp: rdu_Cons_nested split: prod.splits option.splits)
    from Cons.IH [OF wf rest] k' d' u nested p show ?thesis
      by (cases "k = k'")
        (simp_all add: merged_Cons merged_update_other merged_absent merged_value_def dict_simps)
  next
    case plain
    with Cons.prems(2) p have
      rest: "recursive_dict_update (if v \<noteq> PNone \<or> none then AList.update k' v ori else ori) us none
        = (res, None)"
      by (simp add: rdu_Cons_plain)
    from Cons.IH [OF wf rest] k' plain p show ?thesis
      by (cases "k = k'"; cases "v \<noteq> PNone \<or> none")
        (simp_all add: merged_Cons merged_update_other merged_absent merged_value_plain dict_simps)
  qed
qed

lemma no_conflictD:
  "\<not> conflict ori us \<Longrightarrow> map_of us k = Some v \<Longrightarrow> map_of ori k = Some (PDict d) \<Longrightarrow>
    \<exists>u. v = PDict u \<and> \<not> conflict d u"
proof (induction us)
  case Nil
  then show ?case by simp
next
  case (Cons p us)
  obtain k' v' where "p = (k', v')" by force
  with Cons show ?case by (cases "k' = k"; cases v') auto
qed

lemma rdu_no_conflict:
  "wf_dict us \<Longrightarrow> wf_deep us \<Longrightarrow> \<not> conflict ori us \<Longrightarrow>
    recursive_dict_update ori us none = (fst (recursive_dict_update ori us none), None)"
  by (simp add: prod_eq_iff rdu_fails_iff)

lemma wf_nested: "wf_deep us \<Longrightarrow> map_of us k = Some (PDict u) \<Longrightarrow> wf_dict u \<and> wf_deep u"
  using wf_deep_map_of by fastforce

text \<open>
  The step both theorems on paths take: under a key of the updater whose value is a dictionary,
  the result holds the merge of the two dictionaries, or the new one if there was none.
\<close>

lemma rdu_nested_key [consumes 4, case_names merge fresh]:
  assumes "wf_dict us" "wf_deep us" "recursive_dict_update ori us none = (res, None)"
    "map_of us k = Some (PDict u)"
  obtains (merge) d d' where "map_of ori k = Some (PDict d)" "map_of res k = Some (PDict d')"
      "recursive_dict_update d u none = (d', None)"
    | (fresh) "\<And>d. map_of ori k \<noteq> Some (PDict d)" "map_of res k = Some (PDict u)"
proof (cases rule: not_dict_cases [of ori k])
  case (nested d)
  have nc: "\<not> conflict ori us" using rdu_fails_iff [OF assms(1,2), of ori none] assms(3) by auto
  then have "\<not> conflict d u" using no_conflictD [OF _ assms(4) nested] by blast
  then have "recursive_dict_update d u none = (fst (recursive_dict_update d u none), None)"
    using wf_nested [OF assms(2,4)] by (intro rdu_no_conflict) auto
  moreover have "map_of res k = Some (PDict (fst (recursive_dict_update d u none)))"
    using rdu_map_of [OF assms(1,3)] assms(4) nested by (simp add: merged_def merged_value_def)
  ultimately show ?thesis using merge nested by blast
next
  case plain
  moreover have "map_of res k = Some (PDict u)"
    using rdu_map_of [OF assms(1,3)] assms(4) plain by (simp add: merged_def merged_value_plain)
  ultimately show ?thesis by (rule fresh)
qed

lemma rdu_leaf_key:
  assumes "wf_dict us" "wf_deep us" "recursive_dict_update ori us none = (res, None)"
    "map_of us k = Some v" "\<not> is_PDict v"
  shows "map_of res k = (if v \<noteq> PNone \<or> none then Some v else map_of ori k)"
proof -
  have nc: "\<not> conflict ori us" using rdu_fails_iff [OF assms(1,2), of ori none] assms(3) by auto
  have "map_of ori k \<noteq> Some (PDict d)" for d
    using no_conflictD [OF nc assms(4)] assms(5) by fastforce
  then show ?thesis
    using rdu_map_of [OF assms(1,3)] assms(4) by (simp add: merged_def merged_value_plain)
qed

lemma rdu_path_new:
  "wf_dict us \<Longrightarrow> wf_deep us \<Longrightarrow> recursive_dict_update ori us none = (res, None) \<Longrightarrow>
   path_get us p = Some v \<Longrightarrow> \<not> is_PDict v \<Longrightarrow> v \<noteq> PNone \<or> none \<Longrightarrow> path_get res p = Some v"
proof (induction p arbitrary: ori us res)
  case Nil
  then show ?case by auto
next
  case (Cons k ks)
  show ?case
  proof (cases "ks = []")
    case True
    with Cons.prems rdu_leaf_key [OF Cons.prems(1-3)] show ?thesis by auto
  next
    case False
    with Cons.prems(4) obtain u where u: "map_of us k = Some (PDict u)" and pu: "path_get u ks = Some v"
      by (auto simp: path_get_Cons split: option.splits pyval.splits)
    from Cons.prems(1-3) u show ?thesis
    proof (cases rule: rdu_nested_key)
      case (merge d d')
      with Cons.IH [of u d d'] wf_nested [OF Cons.prems(2) u] pu Cons.prems(5,6) False
      show ?thesis by (simp add: path_get_Cons)
    next
      case fresh
      with pu False show ?thesis by (simp add: path_get_Cons)
    qed
  qed
qed

lemma untouched_path_get: "\<not> touched us p \<Longrightarrow> path_get us p = None"
  by (induction p arbitrary: us) (auto simp: path_get_Cons split: option.splits pyval.splits)

lemma rdu_path_old:
  "wf_dict us \<Longrightarrow> wf_deep us \<Longrightarrow> recursive_dict_update ori us none = (res, None) \<Longrightarrow>
   \<not> touched us p \<Longrightarrow> path_get res p = path_get ori p"
proof (induction p arbitrary: ori us res)
  case Nil
  then show ?case by simp
next
  case (Cons k ks)
  show ?case
  proof (cases "map_of us k")
    case None
    then have "map_of res k = map_of ori k"
      using rdu_map_of [OF Cons.prems(1,3)] by (simp add: merged_def)
    then show ?thesis by (simp add: path_get_Cons)
  next
    case (Some w)
    with Cons.prems(4) obtain u where w: "w = PDict u" and tu: "\<not> touched u ks"
      by (cases w) auto
    then have ks: "ks \<noteq> []" by auto
    from Cons.prems(1-3) Some [unfolded w] show ?thesis
    proof (cases rule: rdu_nested_key)
      case (merge d d')
      with Cons.IH [of u d d'] wf_nested [OF Cons.prems(2) Some [unfolded w]] tu ks
      show ?thesis by (simp add: path_get_Cons)
    next
      case fresh
      with untouched_path_get [OF tu] ks show ?thesis
        by (auto simp: path_get_Cons split: option.splits pyval.splits)
    qed
  qed
qed

end
