(* ===== verification/Config_Storage.thy ===== *)
theory Config_Storage
  imports File_Queue
begin

text \<open>
  \<open>config_storage.py\<close>: the directory of school authority configurations, one JSON file each, and
  the file with the school to authority mapping. The JSON codec is the one of the listener objects
  (\<open>env_loads\<close>, \<open>env_dumps\<close>); how pydantic coerces the fields of a configuration and of a mapping is
  the parameter of the functions that build one.
\<close>

section \<open>School authorities\<close>

definition config_name :: "string \<Rightarrow> string" where
  "config_name name = name @ ''.json''"

definition school_authority_config_files :: "directory \<Rightarrow> string list" where
  "school_authority_config_files cfg = map fst (filter (\<lambda>e. is_File (snd e) \<and> json_name (fst e)) cfg)"

text \<open>\<open>SecretsMixin.parse_obj\<close>: a mapping is expected; the secrets are hidden once more.\<close>

definition parse_obj :: "(pydict \<Rightarrow> exn + school_authority) \<Rightarrow> pyval \<Rightarrow> exn + school_authority" where
  "parse_obj coerce v =
     (case v of
        PDict d \<Rightarrow>
          bindE (new_school_authority coerce d) (\<lambda>sa.
            Inr (sa\<lparr>sa_plugin_configs := plugin_configs_plain_to_secret (sa_plugin_configs sa)\<rparr>))
      | _ \<Rightarrow> Inl ValidationErr)"

definition load_school_authority ::
    "'c env \<Rightarrow> (pydict \<Rightarrow> exn + school_authority) \<Rightarrow> directory \<Rightarrow> string \<Rightarrow> exn + school_authority" where
  "load_school_authority env coerce cfg file_name =
     (case map_of cfg file_name of
        None \<Rightarrow> Inl FileNotFoundErr
      | Some Directory \<Rightarrow> Inl OSErr
      | Some (File content) \<Rightarrow> bindE (env_loads env content) (parse_obj coerce))"

text \<open>The first file that cannot be loaded ends the start of the service.\<close>

definition load_school_authorities ::
    "'c env \<Rightarrow> (pydict \<Rightarrow> exn + school_authority) \<Rightarrow> directory \<Rightarrow> exn + school_authority list" where
  "load_school_authorities env coerce cfg =
     mapE (\<lambda>n. case load_school_authority env coerce cfg n of
                 Inl e \<Rightarrow> Inl (if is_OSError e \<or> is_ValueError e
                               then SchoolAuthorityConfigurationLoadingError else e)
               | Inr sa \<Rightarrow> Inr sa)
       (school_authority_config_files cfg)"

text \<open>The file is opened, and so emptied, before its text is computed.\<close>

definition save_school_authority ::
    "'c env \<Rightarrow> school_authority \<Rightarrow> string \<Rightarrow> (directory, unit) st" where
  "save_school_authority env config file_name cfg =
     (if map_of cfg file_name = Some Directory then (Inl OSErr, cfg)
      else (case env_dumps env (dict_secrets_as_str config) of
              Inl e \<Rightarrow> (Inl e, AList.update file_name (File []) cfg)
            | Inr t \<Rightarrow> (Inr (), AList.update file_name (File t) cfg)))"

definition save_school_authorities :: "'c env \<Rightarrow> school_authority list \<Rightarrow> (directory, unit) st" where
  "save_school_authorities env configs =
     for_each (\<lambda>config. save_school_authority env config (config_name (sa_name config))) configs"

text \<open>All errors of the deletion are logged only.\<close>

definition delete_school_authority_file :: "string \<Rightarrow> directory \<Rightarrow> directory" where
  "delete_school_authority_file name cfg =
     (case map_of cfg (config_name name) of
        Some (File _) \<Rightarrow> AList.delete (config_name name) cfg
      | _ \<Rightarrow> cfg)"

section \<open>The school to authority mapping\<close>

type_synonym school_mapping = "(string \<times> string) list"

text \<open>The items of a dictionary whose values are strings.\<close>

fun str_items :: "(string \<times> pyval) list \<Rightarrow> exn + (string \<times> string) list" where
  "str_items [] = Inr []"
| "str_items ((k, v) # d) =
     (case v of PStr s \<Rightarrow> bindE (str_items d) (\<lambda>r. Inr ((k, s) # r)) | _ \<Rightarrow> Inl TypeErr)"

lemma str_items_PStr [simp]: "str_items (map (\<lambda>(k, v). (k, PStr v)) m) = Inr m"
  by (induction m) auto

definition mapping_dict :: "school_mapping \<Rightarrow> pydict" where
  "mapping_dict m = [(''mapping'', PDict (map (\<lambda>(k, v). (k, PStr v)) m))]"

definition load_school2target_mapping ::
    "'c env \<Rightarrow> (pydict \<Rightarrow> exn + school_mapping) \<Rightarrow> string option \<Rightarrow> exn + school_mapping" where
  "load_school2target_mapping env coerce content =
     (case content of
        None \<Rightarrow> Inr []
      | Some t \<Rightarrow>
          (case bindE (env_loads env t) (\<lambda>v. case v of PDict d \<Rightarrow> coerce d | _ \<Rightarrow> Inl TypeErr) of
             Inl e \<Rightarrow> Inl (if is_OSError e \<or> is_ValueError e then SchoolMappingLoadingError else e)
           | Inr m \<Rightarrow> Inr m))"

definition save_school2target_mapping ::
    "'c env \<Rightarrow> school_mapping \<Rightarrow> (string option, unit) st" where
  "save_school2target_mapping env m content =
     (case env_dumps env (mapping_dict m) of
        Inl e \<Rightarrow> (Inl e, Some [])
      | Inr t \<Rightarrow> (Inr (), Some t))"

section \<open>What is saved is loaded\<close>

text \<open>
  What the code relies on: reading back the JSON text of \<open>.dict()\<close>, and coercing its fields, gives the
  fields again.
\<close>

definition reads_back_config :: "'c env \<Rightarrow> (pydict \<Rightarrow> exn + school_authority) \<Rightarrow> school_authority \<Rightarrow> bool" where
  "reads_back_config env coerce sa \<longleftrightarrow>
     (\<exists>t d. env_dumps env (sa_dict sa) = Inr t \<and> env_loads env t = Inr (PDict d) \<and> coerce d = Inr sa)"

text \<open>A configuration in memory: its secrets are hidden and the validator accepts it.\<close>

definition valid_config :: "school_authority \<Rightarrow> bool" where
  "valid_config sa \<longleftrightarrow> all_secret (sa_plugin_configs sa) \<and>
     has_required_attr_combination (plugin_configs_secrets_to_plain (sa_plugin_configs sa)) = Inr ()"

definition plain_config :: "school_authority \<Rightarrow> school_authority" where
  "plain_config sa = sa\<lparr>sa_plugin_configs := plugin_configs_secrets_to_plain (sa_plugin_configs sa)\<rparr>"

lemma save_then_load:
  assumes "valid_config sa" "reads_back_config env coerce (plain_config sa)"
    and "save_school_authority env sa n cfg = (Inr (), cfg')"
  shows "load_school_authority env coerce cfg' n = Inr sa"
proof -
  from assms(2) obtain t d where t: "env_dumps env (sa_dict (plain_config sa)) = Inr t"
    and d: "env_loads env t = Inr (PDict d)" "coerce d = Inr (plain_config sa)"
    by (auto simp: reads_back_config_def)
  have cfg': "map_of cfg' n = Some (File t)"
    using assms(3) t
    by (auto simp: save_school_authority_def dict_secrets_as_str_def plain_config_def dict_simps
        split: if_splits)
  have secret: "plugin_configs_plain_to_secret (plugin_configs_secrets_to_plain (sa_plugin_configs sa)) =
      sa_plugin_configs sa"
    using assms(1) by (simp add: valid_config_def secret_plain_secret)
  have "plugin_configs_plain_to_secret (sa_plugin_configs sa) = sa_plugin_configs sa"
    using secret_conceal_id assms(1) by (simp add: valid_config_def)
  with cfg' d secret assms(1) show ?thesis
    by (simp add: load_school_authority_def parse_obj_def new_school_authority_def plain_config_def
        validation_def valid_config_def)
qed

lemma save_school_authority_other:
  "save_school_authority env sa n cfg = (r, cfg') \<Longrightarrow> m \<noteq> n \<Longrightarrow> map_of cfg' m = map_of cfg m"
  by (auto simp: save_school_authority_def dict_simps split: if_splits sum.splits)

lemma delete_school_authority_file_gone:
  "map_of cfg (config_name name) \<noteq> Some Directory \<Longrightarrow>
    map_of (delete_school_authority_file name cfg) = (map_of cfg)(config_name name := None)"
  by (auto simp: delete_school_authority_file_def dict_simps fun_eq_iff split: option.split dirent.split)

end
