(* ===== verification/Rpc.thy ===== *)
theory Rpc
  imports Config_Storage Out_Queue Dict_Update
begin

text \<open>
  \<open>rpc.py\<close>: the requests by which the HTTP API reads and changes the configuration of the running
  service, and the start of the service (\<open>scripts/queue_management.py\<close>) that sets up the state they
  work on. The socket and the coding of messages are not modelled.
\<close>

section \<open>The state of the service\<close>

text \<open>
  \<open>sv_in_queue\<close>, \<open>sv_out_queues\<close>: the queues. \<open>InQueue.__init__\<close> keeps the list it is given unless
  that is empty: \<open>sv_shared\<close> says that \<open>in_queue.out_queues\<close> and \<open>out_queues\<close> are the same list object,
  so that a change of one is a change of the other. \<open>sv_handlers\<close>: for each registered plugin its
  dictionary \<open>_per_s_a_handlers\<close>, the value being the configuration a handler was built with.
\<close>

type_synonym handler_cache = "((string \<times> string) \<times> school_authority) list"

record 'c service =
  sv_in_queue :: "'c in_queue"
  sv_out_queues :: "out_queue list"
  sv_shared :: bool
  sv_config :: directory
  sv_mapping :: "string option"
  sv_out_dirs :: "(string \<times> queue_dir) list"
  sv_out_trash :: "(string \<times> queue_dir) list"
  sv_handlers :: "(string \<times> handler_cache) list"
  sv_scheduler :: bool

definition set_out_queues :: "out_queue list \<Rightarrow> 'c service \<Rightarrow> 'c service" where
  "set_out_queues qs sv =
     (if sv_shared sv
      then sv\<lparr>sv_out_queues := qs, sv_in_queue := (sv_in_queue sv)\<lparr>iq_out_queues := qs\<rparr>\<rparr>
      else sv\<lparr>sv_out_queues := qs\<rparr>)"

text \<open>A change of one queue object, found by its name.\<close>

definition change_queue :: "string \<Rightarrow> (out_queue \<Rightarrow> out_queue) \<Rightarrow> 'c service \<Rightarrow> 'c service" where
  "change_queue name f sv =
     set_out_queues (map (\<lambda>q. if oq_name q = name then f q else q) (sv_out_queues sv)) sv"

definition find_queue :: "string \<Rightarrow> out_queue list \<Rightarrow> out_queue option" where
  "find_queue name qs = List.find (\<lambda>q. oq_name q = name) qs"

definition active_out_queues :: "'c service \<Rightarrow> out_queue list" where
  "active_out_queues sv = filter (\<lambda>q. sa_active (oq_school_authority q)) (sv_out_queues sv)"

text \<open>The parameters: the coercion of configurations, patch documents and mappings.\<close>

record patch_document =
  pd_active :: "bool option"
  pd_url :: "string option"
  pd_plugins :: "string list option"
  pd_plugin_configs :: "plugin_configs option"

record coercions =
  co_school_authority :: "pydict \<Rightarrow> exn + school_authority"
  co_patch_document :: "pydict \<Rightarrow> exn + patch_document"
  co_mapping :: "pydict \<Rightarrow> exn + school_mapping"

definition new_patch_document :: "coercions \<Rightarrow> pydict \<Rightarrow> exn + patch_document" where
  "new_patch_document co d =
     bindE (co_patch_document co d) (\<lambda>pd.
       Inr (pd\<lparr>pd_plugin_configs := map_option plugin_configs_plain_to_secret (pd_plugin_configs pd)\<rparr>))"

fun opt_val :: "('a \<Rightarrow> pyval) \<Rightarrow> 'a option \<Rightarrow> pyval" where
  "opt_val f None = PNone"
| "opt_val f (Some x) = f x"

definition configs_val :: "plugin_configs \<Rightarrow> pyval" where
  "configs_val pcs = PDict (map (\<lambda>(p, pc). (p, PDict pc)) pcs)"

definition patch_dict :: "patch_document \<Rightarrow> pydict" where
  "patch_dict pd =
     [(''active'', opt_val PBool (pd_active pd)), (''url'', opt_val PStr (pd_url pd)),
      (''plugins'', opt_val (\<lambda>ps. PList (map PStr ps)) (pd_plugins pd)),
      (''plugin_configs'', opt_val configs_val (pd_plugin_configs pd))]"

section \<open>Requests\<close>

datatype rpc_result =
    r_none
  | r_mapping "(string \<times> string) list"
  | r_queue queue_model
  | r_queues queue_model "queue_model list"
  | r_school_authority school_authority
  | r_school_authorities "school_authority list"

type_synonym 'c rpc = "('c service, rpc_result) st"

definition start_out_queue_task :: "string \<Rightarrow> ('c service, unit) st" where
  "start_out_queue_task name sv =
     (case find_queue name (sv_out_queues sv) of
        None \<Rightarrow> (Inr (), sv)
      | Some q \<Rightarrow>
          if sa_active (oq_school_authority q)
          then (case start_task (sv_scheduler sv) q of
                  Inl e \<Rightarrow> (Inl e, sv)
                | Inr q' \<Rightarrow> (Inr (), change_queue name (\<lambda>_. q') sv))
          else (Inr (), sv))"

definition save_school_authority_configuration :: "'c env \<Rightarrow> school_authority \<Rightarrow> ('c service, unit) st" where
  "save_school_authority_configuration env sa sv =
     (case save_school_authorities env [sa] (sv_config sv) of (r, cfg) \<Rightarrow> (r, sv\<lparr>sv_config := cfg\<rparr>))"

definition get_school_to_authority_mapping_rq :: "'c rpc" where
  "get_school_to_authority_mapping_rq sv = (Inr (r_mapping (iq_mapping (sv_in_queue sv))), sv)"

text \<open>
  The mapping in memory is built from the request itself, in which a value that is no string (which
  pydantic would coerce for the file) is outside of this model.
\<close>

definition request_mapping :: "pydict \<Rightarrow> exn + (string \<times> string) list" where
  "request_mapping d =
     (case map_of d ''mapping'' of
        None \<Rightarrow> Inl (KeyErr ''mapping'')
      | Some (PDict m) \<Rightarrow> str_items m
      | Some _ \<Rightarrow> Inl AttributeErr)"

definition put_school_to_authority_mapping_rq :: "'c env \<Rightarrow> coercions \<Rightarrow> rpc_request \<Rightarrow> 'c rpc" where
  "put_school_to_authority_mapping_rq env co rq sv =
     (case co_mapping co (rq_school_to_authority_mapping rq) of
        Inl e \<Rightarrow> (Inl e, sv)
      | Inr obj \<Rightarrow>
          (case save_school2target_mapping env obj (sv_mapping sv) of
             (Inl e, f) \<Rightarrow> (Inl e, sv\<lparr>sv_mapping := f\<rparr>)
           | (Inr _, f) \<Rightarrow>
               (case request_mapping (rq_school_to_authority_mapping rq) of
                  Inl e \<Rightarrow> (Inl e, sv\<lparr>sv_mapping := f,
                              sv_in_queue := (sv_in_queue sv)\<lparr>iq_mapping := []\<rparr>\<rparr>)
                | Inr m \<Rightarrow> (Inr (r_mapping obj), sv\<lparr>sv_mapping := f,
                    sv_in_queue := (sv_in_queue sv)\<lparr>iq_mapping := load_school_authority_mapping m\<rparr>\<rparr>))))"

text \<open>Reading a queue's length lists its directory, which moves other files to the trash.\<close>

definition in_queue_model :: "'c in_queue \<Rightarrow> queue_model \<times> 'c in_queue" where
  "in_queue_model iq =
     (case queue_files (iq_dir iq) of (names, d) \<Rightarrow>
        (\<lparr>qm_name = ''InQueue'', qm_head = iq_head iq, qm_length = length names,
          qm_school_authority = []\<rparr>, iq\<lparr>iq_dir := d\<rparr>))"

definition get_queues_rq :: "'c rpc" where
  "get_queues_rq sv =
     (let (im, iq) = in_queue_model (sv_in_queue sv);
          models = map (\<lambda>q. fst (as_queue_model q)) (active_out_queues sv);
          qs = map (\<lambda>q. if sa_active (oq_school_authority q) then snd (as_queue_model q) else q)
                 (sv_out_queues sv)
      in (Inr (r_queues im (sort_key qm_name models)), set_out_queues qs (sv\<lparr>sv_in_queue := iq\<rparr>)))"

definition get_queue_rq :: "rpc_request \<Rightarrow> 'c rpc" where
  "get_queue_rq rq sv =
     (if rq_name rq = ''InQueue''
      then (case in_queue_model (sv_in_queue sv) of (m, iq) \<Rightarrow> (Inr (r_queue m), sv\<lparr>sv_in_queue := iq\<rparr>))
      else (case find_queue (rq_name rq) (active_out_queues sv) of
              None \<Rightarrow> (Inl (NoObjectError ''name'' (rq_name rq)), sv)
            | Some q \<Rightarrow> (case as_queue_model q of (m, q') \<Rightarrow>
                (Inr (r_queue m), change_queue (oq_name q) (\<lambda>_. q') sv))))"

definition get_school_authorities_rq :: "'c rpc" where
  "get_school_authorities_rq sv =
     (Inr (r_school_authorities (sort_key sa_name (map oq_school_authority (sv_out_queues sv)))), sv)"

definition get_school_authority_rq :: "rpc_request \<Rightarrow> 'c rpc" where
  "get_school_authority_rq rq sv =
     (case find_queue (rq_name rq) (sv_out_queues sv) of
        None \<Rightarrow> (Inl (NoObjectError ''name'' (rq_name rq)), sv)
      | Some q \<Rightarrow> (Inr (r_school_authority (oq_school_authority q)), sv))"

definition add_out_queue :: "out_queue \<Rightarrow> 'c service \<Rightarrow> 'c service" where
  "add_out_queue q sv =
     (let sv' = set_out_queues (sort_key oq_name (sv_out_queues sv @ [q])) sv in
      if iq_out_queues (sv_in_queue sv') = []
      then sv'\<lparr>sv_shared := True,
             sv_in_queue := (sv_in_queue sv')\<lparr>iq_out_queues := sv_out_queues sv'\<rparr>\<rparr>
      else sv')"

definition create_school_authority_rq :: "'c env \<Rightarrow> coercions \<Rightarrow> rpc_request \<Rightarrow> 'c rpc" where
  "create_school_authority_rq env co rq sv =
     (case new_school_authority (co_school_authority co) (rq_school_authority rq) of
        Inl e \<Rightarrow> (Inl e, sv)
      | Inr sa \<Rightarrow>
          if \<exists>q \<in> set (sv_out_queues sv). sa_name (oq_school_authority q) = sa_name sa
          then (Inl (ObjectExistsError ''name'' (sa_name sa)), sv)
          else bindM (save_school_authority_configuration env sa) (\<lambda>_.
               bindM (start_out_queue_task (sa_name sa)) (\<lambda>_.
               ret (r_school_authority sa)))
               (add_out_queue (from_school_authority (sv_out_dirs sv) sa) sv))"

text \<open>\<open>del plugin._per_s_a_handlers[key]\<close> for the plugins of a school authority.\<close>

definition forget_handler :: "string \<Rightarrow> string \<Rightarrow> ((string \<times> handler_cache) list, unit) st" where
  "forget_handler sa plugin_name hs =
     (case map_of hs plugin_name of
        None \<Rightarrow> (Inl AttributeErr, hs)
      | Some cache \<Rightarrow> (Inr (), AList.update plugin_name (AList.delete (sa, plugin_name) cache) hs))"

definition forget_handlers :: "string \<Rightarrow> string list \<Rightarrow> ('c service, unit) st" where
  "forget_handlers sa plugins sv =
     (case for_each (forget_handler sa) plugins (sv_handlers sv) of (r, hs) \<Rightarrow> (r, sv\<lparr>sv_handlers := hs\<rparr>))"

definition delete_school_authority_rq :: "string \<Rightarrow> rpc_request \<Rightarrow> 'c rpc" where
  "delete_school_authority_rq timestamp rq sv =
     (case find_queue (rq_name rq) (sv_out_queues sv) of
        None \<Rightarrow> (Inl (NoObjectError ''name'' (rq_name rq)), sv)
      | Some q \<Rightarrow>
          let sv1 = set_out_queues (remove1 q (sv_out_queues sv)) sv in
          (case delete_queue timestamp (stop_task q) (sv_out_trash sv1) of
             Inl e \<Rightarrow> (Inl e, sv1)
           | Inr (q', trash) \<Rightarrow>
               let sa = oq_school_authority q;
                   sv2 = sv1\<lparr>sv_out_trash := trash,
                     sv_out_dirs := AList.delete (oq_name q) (sv_out_dirs sv1),
                     sv_config := delete_school_authority_file (sa_name sa) (sv_config sv1)\<rparr>
               in bindM (forget_handlers (sa_name sa) (sa_plugins sa)) (\<lambda>_. ret r_none) sv2))"

text \<open>
  A patch stops the task of the queue, merges the document into the configuration, forgets the
  handlers, replaces the configuration, saves it and starts the task again. What raises on the way
  leaves the rest undone.
\<close>

definition patch_configuration :: "coercions \<Rightarrow> patch_document \<Rightarrow> school_authority \<Rightarrow> ('c service, school_authority) st"
  where
  "patch_configuration co pd sa sv =
     (case recursive_dict_update (sa_dict sa) (patch_dict pd) False of
        (d, Some e) \<Rightarrow> (Inl e, sv)
      | (d, None) \<Rightarrow>
          (case forget_handlers (sa_name sa) (sa_plugins sa) sv of
             (Inl e, sv') \<Rightarrow> (Inl e, sv')
           | (Inr _, sv') \<Rightarrow> (new_school_authority (co_school_authority co) d, sv')))"

definition find_authority :: "string \<Rightarrow> out_queue list \<Rightarrow> out_queue option" where
  "find_authority name qs = List.find (\<lambda>q. sa_name (oq_school_authority q) = name) qs"

definition patch_school_authority_rq :: "'c env \<Rightarrow> coercions \<Rightarrow> rpc_request \<Rightarrow> 'c rpc" where
  "patch_school_authority_rq env co rq sv =
     (case new_patch_document co (rq_school_authority rq) of
        Inl e \<Rightarrow> (Inl e, sv)
      | Inr pd \<Rightarrow>
          (case find_authority (rq_name rq) (sv_out_queues sv) of
             None \<Rightarrow> (Inl (NoObjectError ''name'' (rq_name rq)), sv)
           | Some q \<Rightarrow>
               bindM (patch_configuration co pd (oq_school_authority q)) (\<lambda>sa sv'.
                 bindM (save_school_authority_configuration env sa) (\<lambda>_.
                 bindM (start_out_queue_task (oq_name q)) (\<lambda>_. ret (r_school_authority sa)))
                 (change_queue (oq_name q) (\<lambda>q. q\<lparr>oq_school_authority := sa\<rparr>) sv'))
               (change_queue (oq_name q) stop_task sv)))"

text \<open>\<open>handle_request\<close>; \<open>timestamp\<close> is the time a deleted queue's directory is named after.\<close>

definition handle_request :: "'c env \<Rightarrow> coercions \<Rightarrow> string \<Rightarrow> rpc_request \<Rightarrow> 'c rpc" where
  "handle_request env co timestamp rq =
     (case rq_cmd rq of
        get_queue \<Rightarrow> get_queue_rq rq
      | get_queues \<Rightarrow> get_queues_rq
      | get_school_authority \<Rightarrow> get_school_authority_rq rq
      | get_school_authorities \<Rightarrow> get_school_authorities_rq
      | get_school_to_authority_mapping \<Rightarrow> get_school_to_authority_mapping_rq
      | create_school_authority \<Rightarrow> create_school_authority_rq env co rq
      | delete_school_authority \<Rightarrow> delete_school_authority_rq timestamp rq
      | patch_school_authority \<Rightarrow> patch_school_authority_rq env co rq
      | put_school_to_authority_mapping \<Rightarrow> put_school_to_authority_mapping_rq env co rq)"

section \<open>The start of the service\<close>

text \<open>
  \<open>IDConnectorService.manage_queues\<close> up to the RPC server; \<open>dirs\<close> are the directories of out queues
  that exist. An error in the configuration files ends the service (\<open>None\<close>).
\<close>

definition new_in_queue :: "queue_dir \<Rightarrow> 'c \<Rightarrow> (string \<times> string) list \<Rightarrow> out_queue list \<Rightarrow> 'c in_queue" where
  "new_in_queue dir db mapping qs =
     \<lparr>iq_dir = dir, iq_db = db, iq_head = [], iq_out_queues = qs, iq_mapping = mapping,
      iq_old_out_queues = map oq_name qs\<rparr>"

definition initial_queues :: "(string \<times> queue_dir) list \<Rightarrow> school_authority list \<Rightarrow> out_queue list" where
  "initial_queues dirs sas = sort_key oq_name (map (from_school_authority dirs) sas)"

definition start_if_active :: "bool \<Rightarrow> out_queue \<Rightarrow> out_queue" where
  "start_if_active scheduler q =
     (if sa_active (oq_school_authority q)
      then (case start_task scheduler q of Inl _ \<Rightarrow> q | Inr q' \<Rightarrow> q')
      else q)"

definition start_service ::
    "'c env \<Rightarrow> coercions \<Rightarrow> environ \<Rightarrow> directory \<Rightarrow> string option \<Rightarrow> (string \<times> queue_dir) list \<Rightarrow>
     queue_dir \<Rightarrow> 'c \<Rightarrow> (string \<times> handler_cache) list \<Rightarrow> exn + 'c service option" where
  "start_service env co renv cfg mapping_file dirs in_dir db handlers =
     (case load_school2target_mapping env (co_mapping co) mapping_file of
        Inl e \<Rightarrow> if e = SchoolMappingLoadingError then Inr None else Inl e
      | Inr m \<Rightarrow>
          (case load_school_authorities env (co_school_authority co) cfg of
             Inl e \<Rightarrow> if e = SchoolAuthorityConfigurationLoadingError then Inr None else Inl e
           | Inr sas \<Rightarrow>
               let iq = new_in_queue in_dir db (load_school_authority_mapping m) (initial_queues dirs sas)
               in (case (if iq_out_queues iq \<noteq> [] then distribute env renv iq else (Inr (), iq)) of
                     (Inl e, _) \<Rightarrow> Inl e
                   | (Inr _, iq') \<Rightarrow>
                       let qs = map (start_if_active True) (iq_out_queues iq')
                       in Inr (Some \<lparr>sv_in_queue = iq'\<lparr>iq_out_queues := qs\<rparr>, sv_out_queues = qs,
                            sv_shared = (qs \<noteq> []), sv_config = cfg, sv_mapping = mapping_file,
                            sv_out_dirs = dirs, sv_out_trash = [], sv_handlers = handlers,
                            sv_scheduler = True\<rparr>))))"


section \<open>The in queue distributes to every out queue\<close>

text \<open>
  The invariant of the service: queues have different names, which are those of their school
  authorities, and the list of the in queue is the list of the service, whichever of the two lists
  a request changed.
\<close>

definition service_inv :: "'c service \<Rightarrow> bool" where
  "service_inv sv \<longleftrightarrow>
     distinct (map oq_name (sv_out_queues sv)) \<and>
     (\<forall>q \<in> set (sv_out_queues sv). oq_name q = sa_name (oq_school_authority q)) \<and>
     iq_out_queues (sv_in_queue sv) = sv_out_queues sv \<and>
     (\<not> sv_shared sv \<longrightarrow> sv_out_queues sv = [])"

definition queues_ok :: "out_queue list \<Rightarrow> bool" where
  "queues_ok qs \<longleftrightarrow> distinct (map oq_name qs) \<and>
     (\<forall>q \<in> set qs. oq_name q = sa_name (oq_school_authority q))"

lemma service_inv_queues: "service_inv sv \<longleftrightarrow> queues_ok (sv_out_queues sv) \<and>
    iq_out_queues (sv_in_queue sv) = sv_out_queues sv \<and> (\<not> sv_shared sv \<longrightarrow> sv_out_queues sv = [])"
  by (auto simp: service_inv_def queues_ok_def)

lemma set_out_queues_simps [simp]:
  "sv_out_queues (set_out_queues qs sv) = qs" "sv_shared (set_out_queues qs sv) = sv_shared sv"
  "sv_config (set_out_queues qs sv) = sv_config sv" "sv_mapping (set_out_queues qs sv) = sv_mapping sv"
  "sv_handlers (set_out_queues qs sv) = sv_handlers sv"
  "sv_out_dirs (set_out_queues qs sv) = sv_out_dirs sv"
  "sv_scheduler (set_out_queues qs sv) = sv_scheduler sv"
  by (simp_all add: set_out_queues_def)

lemma inv_set_out_queues:
  assumes "service_inv sv" "queues_ok qs" "sv_out_queues sv = [] \<Longrightarrow> qs = []"
  shows "service_inv (set_out_queues qs sv)"
  using assms by (auto simp: service_inv_queues set_out_queues_def)

lemma queues_ok_map:
  assumes "queues_ok qs"
    and "\<And>q. q \<in> set qs \<Longrightarrow> oq_name (f q) = oq_name q \<and> sa_name (oq_school_authority (f q)) = sa_name (oq_school_authority q)"
  shows "queues_ok (map f qs)"
proof -
  have "map oq_name (map f qs) = map oq_name qs" using assms(2) by simp
  then show ?thesis using assms by (auto simp: queues_ok_def simp del: map_map)
qed

lemma inv_change_queue:
  assumes "service_inv sv"
    and "\<And>q. q \<in> set (sv_out_queues sv) \<Longrightarrow> oq_name q = name \<Longrightarrow>
      oq_name (f q) = oq_name q \<and> sa_name (oq_school_authority (f q)) = sa_name (oq_school_authority q)"
  shows "service_inv (change_queue name f sv)"
  unfolding change_queue_def
  using assms by (intro inv_set_out_queues queues_ok_map) (auto simp: service_inv_queues)

lemma find_queue_Some: "find_queue name qs = Some q \<Longrightarrow> q \<in> set qs \<and> oq_name q = name"
  by (auto simp: find_queue_def find_Some_iff)

lemma find_queue_unique:
  "queues_ok qs \<Longrightarrow> find_queue name qs = Some q \<Longrightarrow> p \<in> set qs \<Longrightarrow> oq_name p = name \<Longrightarrow> p = q"
  using find_queue_Some [of name qs q] by (auto simp: queues_ok_def distinct_map inj_on_def)

lemma as_queue_model_same:
  "oq_name (snd (as_queue_model q)) = oq_name q"
  "oq_school_authority (snd (as_queue_model q)) = oq_school_authority q"
  by (simp_all add: as_queue_model_def split: prod.split)

lemma inv_in_queue:
  "service_inv sv \<Longrightarrow> iq_out_queues iq = iq_out_queues (sv_in_queue sv) \<Longrightarrow>
    service_inv (sv\<lparr>sv_in_queue := iq\<rparr>)"
  by (simp add: service_inv_def)

lemma in_queue_model_same: "iq_out_queues (snd (in_queue_model iq)) = iq_out_queues iq"
  by (simp add: in_queue_model_def split: prod.split)

lemma inv_start_out_queue_task: "preserves service_inv (start_out_queue_task name)"
proof (rule preservesI)
  fix sv assume inv: "service_inv sv"
  show "service_inv (snd (start_out_queue_task name sv))"
  proof (cases "find_queue name (sv_out_queues sv)")
    case None
    with inv show ?thesis by (simp add: start_out_queue_task_def)
  next
    case (Some q)
    have "p = q" if "p \<in> set (sv_out_queues sv)" "oq_name p = name" for p
      using find_queue_unique [OF _ Some that] inv by (simp add: service_inv_queues)
    then have "service_inv (change_queue name (\<lambda>_. q\<lparr>oq_task := running\<rparr>) sv)"
      using inv by (intro inv_change_queue) auto
    with inv Some show ?thesis by (auto simp: start_out_queue_task_def start_task_def)
  qed
qed

lemma inv_save_configuration: "preserves service_inv (save_school_authority_configuration env sa)"
  by (auto simp: preserves_def save_school_authority_configuration_def service_inv_def split: prod.split)

lemma inv_forget_handlers: "preserves service_inv (forget_handlers sa plugins)"
  by (auto simp: preserves_def forget_handlers_def service_inv_def split: prod.split)

lemma inv_get_queue: "preserves service_inv (get_queue_rq rq)"
proof (rule preservesI)
  fix sv assume inv: "service_inv sv"
  show "service_inv (snd (get_queue_rq rq sv))"
  proof (cases "rq_name rq = ''InQueue''")
    case True
    then show ?thesis
      using inv in_queue_model_same [of "sv_in_queue sv"]
      by (auto simp: get_queue_rq_def intro!: inv_in_queue split: prod.split)
  next
    case False
    show ?thesis
    proof (cases "find_queue (rq_name rq) (active_out_queues sv)")
      case None
      with False inv show ?thesis by (simp add: get_queue_rq_def)
    next
      case (Some q)
      have q: "q \<in> set (sv_out_queues sv)" using find_queue_Some [OF Some] by (simp add: active_out_queues_def)
      have "p = q" if "p \<in> set (sv_out_queues sv)" "oq_name p = oq_name q" for p
        using inv that q by (auto simp: service_inv_queues queues_ok_def distinct_map inj_on_def)
      then have "service_inv (change_queue (oq_name q) (\<lambda>_. snd (as_queue_model q)) sv)"
        using inv as_queue_model_same [of q] by (intro inv_change_queue) auto
      with False Some show ?thesis by (cases "as_queue_model q") (simp add: get_queue_rq_def)
    qed
  qed
qed

lemma inv_get_queues: "preserves service_inv get_queues_rq"
proof (rule preservesI)
  fix sv assume inv: "service_inv sv"
  obtain im iq where m: "in_queue_model (sv_in_queue sv) = (im, iq)" by force
  have "iq_out_queues iq = iq_out_queues (sv_in_queue sv)"
    using in_queue_model_same [of "sv_in_queue sv"] m by simp
  with inv have "service_inv (sv\<lparr>sv_in_queue := iq\<rparr>)" by (rule inv_in_queue)
  moreover have "queues_ok (map (\<lambda>q. if sa_active (oq_school_authority q) then snd (as_queue_model q) else q)
      (sv_out_queues sv))"
    using inv as_queue_model_same by (intro queues_ok_map) (auto simp: service_inv_queues)
  ultimately have "service_inv (set_out_queues
      (map (\<lambda>q. if sa_active (oq_school_authority q) then snd (as_queue_model q) else q) (sv_out_queues sv))
      (sv\<lparr>sv_in_queue := iq\<rparr>))"
    by (rule inv_set_out_queues) simp
  then show "service_inv (snd (get_queues_rq sv))"
    by (simp add: get_queues_rq_def m Let_def)
qed

lemma inv_put_mapping: "preserves service_inv (put_school_to_authority_mapping_rq env co rq)"
  by (auto simp: preserves_def put_school_to_authority_mapping_rq_def service_inv_def
      split: sum.split prod.split)

lemma queues_ok_add:
  assumes "queues_ok qs" "\<And>q. q \<in> set qs \<Longrightarrow> sa_name (oq_school_authority q) \<noteq> sa_name sa"
  shows "queues_ok (sort_key oq_name (qs @ [from_school_authority dirs sa]))"
proof -
  let ?qs = "qs @ [from_school_authority dirs sa]"
  have "oq_name q \<noteq> sa_name sa" if "q \<in> set qs" for q
    using assms(2) [OF that] assms(1) that by (simp add: queues_ok_def)
  then have "sa_name sa \<notin> oq_name ` set qs" by (metis imageE)
  then have "distinct (map oq_name ?qs)"
    using assms(1) by (simp add: queues_ok_def from_school_authority_def)
  then have "distinct (map oq_name (sort_key oq_name ?qs))"
    unfolding distinct_map set_sort distinct_sort .
  moreover have "oq_name q = sa_name (oq_school_authority q)" if "q \<in> set ?qs" for q
    using that assms(1) by (auto simp: queues_ok_def from_school_authority_def)
  ultimately show ?thesis by (simp add: queues_ok_def)
qed

lemma inv_add_out_queue:
  assumes "service_inv sv" "\<forall>q \<in> set (sv_out_queues sv). sa_name (oq_school_authority q) \<noteq> sa_name sa"
  shows "service_inv (add_out_queue (from_school_authority dirs sa) sv)"
proof -
  let ?qs = "sort_key oq_name (sv_out_queues sv @ [from_school_authority dirs sa])"
  have ok: "queues_ok ?qs" using assms by (intro queues_ok_add) (auto simp: service_inv_queues)
  have "?qs \<noteq> []" by (metis append_is_Nil_conv length_0_conv length_sort not_Cons_self2)
  with ok assms(1) show ?thesis
    by (auto simp: add_out_queue_def Let_def service_inv_queues set_out_queues_def)
qed

lemma inv_create:
  fixes env :: "'c env"
  shows "preserves service_inv (create_school_authority_rq env co rq)"
proof (rule preservesI)
  fix sv :: "'c service" assume inv: "service_inv sv"
  show "service_inv (snd (create_school_authority_rq env co rq sv))"
  proof (cases "new_school_authority (co_school_authority co) (rq_school_authority rq)")
    case (Inl e)
    with inv show ?thesis by (simp add: create_school_authority_rq_def)
  next
    case (Inr sa)
    let ?m = "bindM (save_school_authority_configuration env sa) (\<lambda>_.
      bindM (start_out_queue_task (sa_name sa)) (\<lambda>_. ret (r_school_authority sa)))"
    have m: "preserves service_inv ?m"
      by (intro preserves_bindM inv_save_configuration inv_start_out_queue_task preserves_ret)
    show ?thesis
    proof (cases "\<exists>q \<in> set (sv_out_queues sv). sa_name (oq_school_authority q) = sa_name sa")
      case True
      with Inr inv show ?thesis by (simp add: create_school_authority_rq_def)
    next
      case False
      then have "service_inv (add_out_queue (from_school_authority (sv_out_dirs sv) sa) sv)"
        using inv inv_add_out_queue by blast
      from preservesD [OF m this] False Inr show ?thesis
        by (simp add: create_school_authority_rq_def)
    qed
  qed
qed

lemma queues_ok_remove1: "queues_ok qs \<Longrightarrow> queues_ok (remove1 q qs)"
  using set_remove1_subset [of q qs]
  by (auto simp: queues_ok_def distinct_map intro: inj_on_subset)

lemma inv_delete: "preserves service_inv (delete_school_authority_rq timestamp rq)"
proof (rule preservesI)
  fix sv assume inv: "service_inv sv"
  show "service_inv (snd (delete_school_authority_rq timestamp rq sv))"
  proof (cases "find_queue (rq_name rq) (sv_out_queues sv)")
    case None
    with inv show ?thesis by (simp add: delete_school_authority_rq_def)
  next
    case (Some q)
    let ?sv1 = "set_out_queues (remove1 q (sv_out_queues sv)) sv"
    have inv1: "service_inv ?sv1"
      using inv by (intro inv_set_out_queues queues_ok_remove1) (auto simp: service_inv_queues)
    let ?m = "bindM (forget_handlers (sa_name (oq_school_authority q)) (sa_plugins (oq_school_authority q)))
      (\<lambda>_. ret r_none)"
    have m: "preserves service_inv ?m" by (intro preserves_bindM inv_forget_handlers preserves_ret)
    show ?thesis
    proof (cases "delete_queue timestamp (stop_task q) (sv_out_trash ?sv1)")
      case (Inl e)
      with Some inv1 show ?thesis by (simp add: delete_school_authority_rq_def Let_def)
    next
      case (Inr r)
      obtain q' trash where r: "r = (q', trash)" by force
      let ?sv2 = "?sv1\<lparr>sv_out_trash := trash, sv_out_dirs := AList.delete (oq_name q) (sv_out_dirs ?sv1),
        sv_config := delete_school_authority_file (sa_name (oq_school_authority q)) (sv_config ?sv1)\<rparr>"
      have "service_inv ?sv2" using inv1 by (simp add: service_inv_def)
      from preservesD [OF m this] Some Inr r show ?thesis
        by (simp add: delete_school_authority_rq_def Let_def)
    qed
  qed
qed

text \<open>What the patch relies on: the coercion keeps the name, as pydantic does for a string.\<close>

definition keeps_name :: "coercions \<Rightarrow> bool" where
  "keeps_name co \<longleftrightarrow>
     (\<forall>d sa n. co_school_authority co d = Inr sa \<longrightarrow> map_of d ''name'' = Some (PStr n) \<longrightarrow> sa_name sa = n)"

lemma wf_patch_dict: "wf_dict (patch_dict pd)"
  by (simp add: patch_dict_def dict_simps)

lemma new_school_authority_name:
  assumes "keeps_name co" "new_school_authority (co_school_authority co) d = Inr sa"
    and "map_of d ''name'' = Some (PStr n)"
  shows "sa_name sa = n"
  using assms by (auto simp: new_school_authority_def keeps_name_def)

lemma patch_keeps_name:
  assumes "keeps_name co" "patch_configuration co pd sa sv = (Inr sa', sv')"
  shows "sa_name sa' = sa_name sa"
proof -
  obtain d where d: "recursive_dict_update (sa_dict sa) (patch_dict pd) False = (d, None)"
    and new: "new_school_authority (co_school_authority co) d = Inr sa'"
    using assms(2) by (auto simp: patch_configuration_def split: prod.splits option.splits sum.splits)
  have "map_of d ''name'' = Some (PStr (sa_name sa))"
    using rdu_map_of [OF wf_patch_dict d, of "''name''"]
    by (subst (asm) merged_absent) (simp_all add: patch_dict_def dict_simps sa_dict_def)
  from new_school_authority_name [OF assms(1) new this] show ?thesis .
qed

lemma patch_configuration_queues:
  fixes sv :: "'c service"
  shows "sv_out_queues (snd (patch_configuration co pd sa sv)) = sv_out_queues sv"
    and "service_inv sv \<Longrightarrow> service_inv (snd (patch_configuration co pd sa sv))"
  using preservesD [OF inv_forget_handlers [of "sa_name sa" "sa_plugins sa"], of sv]
  by (auto simp: patch_configuration_def forget_handlers_def split: prod.split option.split sum.split)

lemma stop_task_same:
  "oq_name (stop_task q) = oq_name q" "oq_school_authority (stop_task q) = oq_school_authority q"
  "oq_dir (stop_task q) = oq_dir q"
  by (simp_all add: stop_task_def)

lemma find_authority_Some: "find_authority name qs = Some q \<Longrightarrow> q \<in> set qs \<and> sa_name (oq_school_authority q) = name"
  by (auto simp: find_authority_def find_Some_iff)

lemma inv_patch:
  fixes env :: "'c env"
  assumes "keeps_name co"
  shows "preserves service_inv (patch_school_authority_rq env co rq)"
proof (rule preservesI)
  fix sv :: "'c service" assume inv: "service_inv sv"
  show "service_inv (snd (patch_school_authority_rq env co rq sv))"
  proof (cases "new_patch_document co (rq_school_authority rq)")
    case (Inl e)
    with inv show ?thesis by (simp add: patch_school_authority_rq_def)
  next
    case [simp]: (Inr pd)
    show ?thesis
    proof (cases "find_authority (rq_name rq) (sv_out_queues sv)")
      case None
      with inv show ?thesis by (simp add: patch_school_authority_rq_def)
    next
      case [simp]: (Some q)
      have q: "q \<in> set (sv_out_queues sv)" using find_authority_Some [OF Some] by simp
      let ?sv1 = "change_queue (oq_name q) stop_task sv"
      have inv1: "service_inv ?sv1" using inv stop_task_same by (intro inv_change_queue) auto
      obtain r sv2 where pc: "patch_configuration co pd (oq_school_authority q) ?sv1 = (r, sv2)" by force
      have inv2: "service_inv sv2" "sv_out_queues sv2 = sv_out_queues ?sv1"
        using patch_configuration_queues [where co = co and pd = pd and sa = "oq_school_authority q" and sv = ?sv1] inv1 pc by simp_all
      show ?thesis
      proof (cases r)
        case (Inl e)
        with pc inv2 show ?thesis by (simp add: patch_school_authority_rq_def bindM_apply)
      next
        case (Inr sa)
        let ?m = "bindM (save_school_authority_configuration env sa) (\<lambda>_.
          bindM (start_out_queue_task (oq_name q)) (\<lambda>_. ret (r_school_authority sa)))"
        have m: "preserves service_inv ?m"
          by (intro preserves_bindM inv_save_configuration inv_start_out_queue_task preserves_ret)
        have name: "sa_name sa = sa_name (oq_school_authority q)"
          using patch_keeps_name [OF assms] pc Inr by metis
        have "service_inv (change_queue (oq_name q) (\<lambda>q. q\<lparr>oq_school_authority := sa\<rparr>) sv2)"
        proof (rule inv_change_queue [OF inv2(1)])
          fix p assume "p \<in> set (sv_out_queues sv2)" "oq_name p = oq_name q"
          moreover have "oq_name q = sa_name (oq_school_authority q)"
            using inv q by (simp add: service_inv_def)
          ultimately show "oq_name (p\<lparr>oq_school_authority := sa\<rparr>) = oq_name p \<and>
              sa_name (oq_school_authority (p\<lparr>oq_school_authority := sa\<rparr>)) = sa_name (oq_school_authority p)"
            using inv2(1) name by (auto simp: service_inv_def)
        qed
        from preservesD [OF m this] pc Inr show ?thesis
          by (simp add: patch_school_authority_rq_def bindM_apply)
      qed
    qed
  qed
qed

lemma inv_reads:
  "preserves P get_school_to_authority_mapping_rq" "preserves P get_school_authorities_rq"
  "preserves P (get_school_authority_rq rq)"
  by (auto simp: preserves_def get_school_authority_rq_def get_school_authorities_rq_def
      get_school_to_authority_mapping_rq_def split: option.split)

lemma inv_handle_request:
  assumes "keeps_name co" shows "preserves service_inv (handle_request env co timestamp rq)"
  by (cases "rq_cmd rq")
     (simp_all add: handle_request_def inv_get_queue inv_get_queues inv_put_mapping inv_create
       inv_delete inv_patch [OF assms] inv_reads)


section \<open>What a patch does\<close>

text \<open>Forgetting handlers: no cached handler of the school authority is left for its plugins.\<close>

definition cached_handler :: "(string \<times> handler_cache) list \<Rightarrow> string \<Rightarrow> string \<Rightarrow> school_authority option" where
  "cached_handler hs plugin_name sa =
     (case map_of hs plugin_name of None \<Rightarrow> None | Some cache \<Rightarrow> map_of cache (sa, plugin_name))"

lemma forget_handler_cached:
  "forget_handler sa p hs = (Inr (), hs') \<Longrightarrow>
    cached_handler hs' p' sa' = (if p' = p \<and> sa' = sa then None else cached_handler hs p' sa')"
  by (cases "p' = p") (auto simp: forget_handler_def cached_handler_def dict_simps split: option.splits)

lemma forget_all_cached:
  "for_each (forget_handler sa) ps hs = (Inr (), hs') \<Longrightarrow>
    cached_handler hs' p' sa' = (if p' \<in> set ps \<and> sa' = sa then None else cached_handler hs p' sa')"
proof (induction ps arbitrary: hs)
  case (Cons p ps)
  obtain r hs1 where step: "forget_handler sa p hs = (r, hs1)" by force
  with Cons.prems have r: "r = Inr ()" and rest: "for_each (forget_handler sa) ps hs1 = (Inr (), hs')"
    by (auto split: sum.splits)
  from Cons.IH [OF rest] forget_handler_cached [OF step [unfolded r], of p' sa'] show ?case by auto
qed simp

text \<open>
  The configuration after a patch is built from a dictionary that has the patch's value under each
  path the patch gives one for, and the old value under each path it does not touch.
\<close>

definition patched_dict :: "pydict \<Rightarrow> pydict \<Rightarrow> pydict \<Rightarrow> bool" where
  "patched_dict old patch d \<longleftrightarrow>
     (\<forall>p v. path_get patch p = Some v \<longrightarrow> \<not> is_PDict v \<longrightarrow> v \<noteq> PNone \<longrightarrow> path_get d p = Some v) \<and>
     (\<forall>p. \<not> touched patch p \<longrightarrow> path_get d p = path_get old p)"

definition wf_configs :: "plugin_configs \<Rightarrow> bool" where
  "wf_configs pcs \<longleftrightarrow> wf_dict pcs \<and> (\<forall>(p, pc) \<in> set pcs. wf_dict pc \<and> wf_deep pc)"

lemma wf_deep_configs: "\<forall>(p, pc) \<in> set pcs. wf_dict pc \<and> wf_deep pc \<Longrightarrow>
    wf_deep (map (\<lambda>(p, pc). (p, PDict pc)) pcs)"
  by (induction pcs) auto

lemma wf_val_opt_val: "(\<And>x. wf_val (f x)) \<Longrightarrow> wf_val (opt_val f v)"
  by (cases v) simp_all

lemma wf_val_configs:
  assumes "wf_configs pcs" shows "wf_val (configs_val pcs)"
proof -
  have "wf_dict (map (\<lambda>(p, pc). (p, PDict pc)) pcs) = wf_dict pcs"
    by (simp add: wf_dict_def comp_def case_prod_unfold)
  with assms show ?thesis
    by (simp add: configs_val_def wf_configs_def wf_deep_configs)
qed

lemma wf_deep_patch_dict:
  "(\<And>pcs. pd_plugin_configs pd = Some pcs \<Longrightarrow> wf_configs pcs) \<Longrightarrow> wf_deep (patch_dict pd)"
proof -
  assume "\<And>pcs. pd_plugin_configs pd = Some pcs \<Longrightarrow> wf_configs pcs"
  then have "wf_val (opt_val configs_val (pd_plugin_configs pd))"
    using wf_val_configs by (cases "pd_plugin_configs pd") simp_all
  moreover have "wf_val (opt_val PBool (pd_active pd))" "wf_val (opt_val PStr (pd_url pd))"
    "wf_val (opt_val (\<lambda>ps. PList (map PStr ps)) (pd_plugins pd))"
    by (rule wf_val_opt_val, simp)+
  ultimately show ?thesis by (simp add: patch_dict_def)
qed

lemma patch_configuration_ok:
  assumes "patch_configuration co pd sa sv = (Inr sa', sv')"
    and "\<And>pcs. pd_plugin_configs pd = Some pcs \<Longrightarrow> wf_configs pcs"
  shows "\<exists>d. new_school_authority (co_school_authority co) d = Inr sa' \<and>
      patched_dict (sa_dict sa) (patch_dict pd) d"
    and "p \<in> set (sa_plugins sa) \<Longrightarrow> cached_handler (sv_handlers sv') p (sa_name sa) = None"
proof -
  obtain d hs where d: "recursive_dict_update (sa_dict sa) (patch_dict pd) False = (d, None)"
    and new: "new_school_authority (co_school_authority co) d = Inr sa'"
    and hs: "for_each (forget_handler (sa_name sa)) (sa_plugins sa) (sv_handlers sv) = (Inr (), hs)"
    and sv': "sv' = sv\<lparr>sv_handlers := hs\<rparr>"
    using assms(1)
    by (auto simp: patch_configuration_def forget_handlers_def split: prod.splits option.splits sum.splits)
  note wf = wf_patch_dict [of pd] wf_deep_patch_dict [OF assms(2)]
  have "patched_dict (sa_dict sa) (patch_dict pd) d"
    unfolding patched_dict_def using rdu_path_new [OF wf d] rdu_path_old [OF wf d] by auto
  with new show "\<exists>d. new_school_authority (co_school_authority co) d = Inr sa' \<and>
      patched_dict (sa_dict sa) (patch_dict pd) d" by blast
  show "p \<in> set (sa_plugins sa) \<Longrightarrow> cached_handler (sv_handlers sv') p (sa_name sa) = None"
    using forget_all_cached [OF hs, of p "sa_name sa"] sv' by simp
qed

text \<open>The queue after a successful patch: the new configuration, running if and only if it is active.\<close>

lemma change_queue_queues [simp]:
  "sv_out_queues (change_queue name f sv) =
    map (\<lambda>q. if oq_name q = name then f q else q) (sv_out_queues sv)"
  by (simp add: change_queue_def)

lemma change_queue_simps [simp]:
  "sv_config (change_queue name f sv) = sv_config sv" "sv_handlers (change_queue name f sv) = sv_handlers sv"
  "sv_scheduler (change_queue name f sv) = sv_scheduler sv"
  by (simp_all add: change_queue_def)

lemma find_queue_map:
  "find_queue name qs = Some q \<Longrightarrow> (\<And>q. oq_name (f q) = oq_name q) \<Longrightarrow>
    find_queue name (map f qs) = Some (f q)"
  by (induction qs) (auto simp: find_queue_def)

lemma find_queue_in:
  "queues_ok qs \<Longrightarrow> q \<in> set qs \<Longrightarrow> find_queue (oq_name q) qs = Some q"
  by (induction qs) (auto simp: find_queue_def queues_ok_def)

lemma start_out_queue_task_effect:
  assumes "start_out_queue_task name sv = (Inr (), sv')" "find_queue name (sv_out_queues sv) = Some q"
    and "queues_ok (sv_out_queues sv)"
  shows "find_queue name (sv_out_queues sv') =
      Some (if sa_active (oq_school_authority q) then q\<lparr>oq_task := running\<rparr> else q)"
    and "sv_handlers sv' = sv_handlers sv" "sv_config sv' = sv_config sv"
proof -
  have q: "oq_name q = name" using find_queue_Some [OF assms(2)] by simp
  have "find_queue name (map (\<lambda>p. if oq_name p = name then q\<lparr>oq_task := running\<rparr> else p) (sv_out_queues sv)) =
      Some (q\<lparr>oq_task := running\<rparr>)"
    using find_queue_map [OF assms(2), of "\<lambda>p. if oq_name p = name then q\<lparr>oq_task := running\<rparr> else p"] q
    by simp
  with assms(1,2) show "find_queue name (sv_out_queues sv') =
      Some (if sa_active (oq_school_authority q) then q\<lparr>oq_task := running\<rparr> else q)"
    by (auto simp: start_out_queue_task_def start_task_def split: if_splits)
  show "sv_handlers sv' = sv_handlers sv" "sv_config sv' = sv_config sv"
    using assms(1,2) by (auto simp: start_out_queue_task_def start_task_def split: if_splits)
qed

lemma patch_effect:
  fixes sv sv' :: "'c service"
  assumes "service_inv sv" "keeps_name co"
    and "patch_school_authority_rq env co rq sv = (Inr res, sv')"
  shows "\<exists>pd q sa q' sv1 (sv2 :: 'c service). new_patch_document co (rq_school_authority rq) = Inr pd \<and>
      find_authority (rq_name rq) (sv_out_queues sv) = Some q \<and> res = r_school_authority sa \<and>
      patch_configuration co pd (oq_school_authority q) sv1 = (Inr sa, sv2) \<and>
      find_queue (oq_name q) (sv_out_queues sv') = Some q' \<and> oq_school_authority q' = sa \<and>
      (oq_task q' = running \<longleftrightarrow> sa_active sa) \<and> sv_handlers sv' = sv_handlers sv2"
proof -
  obtain pd where pd: "new_patch_document co (rq_school_authority rq) = Inr pd"
    using assms(3) by (cases "new_patch_document co (rq_school_authority rq)")
      (simp_all add: patch_school_authority_rq_def)
  obtain q where q: "find_authority (rq_name rq) (sv_out_queues sv) = Some q"
    using assms(3) pd by (cases "find_authority (rq_name rq) (sv_out_queues sv)")
      (simp_all add: patch_school_authority_rq_def)
  let ?sv1 = "change_queue (oq_name q) stop_task sv"
  have qs: "queues_ok (sv_out_queues sv)" "q \<in> set (sv_out_queues sv)"
    using assms(1) find_authority_Some [OF q] by (simp_all add: service_inv_queues)
  have inv1: "service_inv ?sv1" using assms(1) stop_task_same by (intro inv_change_queue) auto
  obtain sa sv2 where pc: "patch_configuration co pd (oq_school_authority q) ?sv1 = (Inr sa, sv2)"
    using assms(3) pd q
    by (cases "patch_configuration co pd (oq_school_authority q) ?sv1", cases "fst (patch_configuration co pd (oq_school_authority q) ?sv1)")
      (auto simp: patch_school_authority_rq_def bindM_apply)
  let ?f = "\<lambda>q. q\<lparr>oq_school_authority := sa\<rparr>"
  let ?sv3 = "change_queue (oq_name q) ?f sv2"
  obtain u cfg where save: "save_school_authorities env [sa] (sv_config ?sv3) = (Inr u, cfg)"
    using assms(3) pd q pc
    by (cases "save_school_authorities env [sa] (sv_config ?sv3)", cases "fst (save_school_authorities env [sa] (sv_config ?sv3))")
      (auto simp: patch_school_authority_rq_def bindM_apply save_school_authority_configuration_def)
  let ?sv4 = "?sv3\<lparr>sv_config := cfg\<rparr>"
  have start: "start_out_queue_task (oq_name q) ?sv4 = (Inr (), sv')" and res: "res = r_school_authority sa"
    using assms(3) pd q pc save
    by (cases "start_out_queue_task (oq_name q) ?sv4", cases "fst (start_out_queue_task (oq_name q) ?sv4)",
        auto simp: patch_school_authority_rq_def bindM_apply save_school_authority_configuration_def)+
  have qs2: "sv_out_queues sv2 = sv_out_queues ?sv1"
    using patch_configuration_queues(1) [where co = co and pd = pd and sa = "oq_school_authority q" and sv = ?sv1] pc
    by simp
  have inv2: "service_inv sv2"
    using patch_configuration_queues(2) [OF inv1, of co pd "oq_school_authority q"] pc by simp
  have q4: "sv_out_queues ?sv4 = map (\<lambda>p. if oq_name p = oq_name q then ?f p else p)
      (map (\<lambda>p. if oq_name p = oq_name q then stop_task p else p) (sv_out_queues sv))"
    using qs2 by simp
  have "find_queue (oq_name q) (sv_out_queues sv) = Some q" using find_queue_in [OF qs] .
  then have "find_queue (oq_name q) (map (\<lambda>p. if oq_name p = oq_name q then stop_task p else p) (sv_out_queues sv)) =
      Some (stop_task q)"
    using find_queue_map [of "oq_name q" "sv_out_queues sv" q "\<lambda>p. if oq_name p = oq_name q then stop_task p else p"]
    by (simp add: stop_task_same)
  then have found: "find_queue (oq_name q) (sv_out_queues ?sv4) = Some (?f (stop_task q))"
    unfolding q4
    using find_queue_map [of "oq_name q" "map (\<lambda>p. if oq_name p = oq_name q then stop_task p else p) (sv_out_queues sv)"
        "stop_task q" "\<lambda>p. if oq_name p = oq_name q then ?f p else p"]
    by (simp add: stop_task_same)
  have name: "sa_name sa = sa_name (oq_school_authority q)" using patch_keeps_name [OF assms(2) pc] .
  have "queues_ok (sv_out_queues ?sv4)"
    unfolding q4 using qs name stop_task_same
    by (intro queues_ok_map) (auto simp: queues_ok_def)
  note started = start_out_queue_task_effect [OF start found this]
  have "sv_handlers sv' = sv_handlers sv2" using started(2) by simp
  let ?q = "if sa_active sa then (?f (stop_task q))\<lparr>oq_task := running\<rparr> else ?f (stop_task q)"
  have "find_queue (oq_name q) (sv_out_queues sv') = Some ?q" using started(1) by simp
  moreover have "oq_school_authority ?q = sa" "oq_task ?q = running \<longleftrightarrow> sa_active sa"
    using stop_task_not_running [of q] by simp_all
  ultimately show ?thesis
    using \<open>sv_handlers sv' = sv_handlers sv2\<close> pd q pc res by blast
qed

text \<open>
  A patch document without \<open>plugin_configs\<close> is merged as \<open>None\<close> over a dictionary, which the merge
  refuses although it is told to leave \<open>None\<close> values out. The task has been stopped by then.
\<close>

lemma patch_without_configs_fails:
  assumes "new_patch_document co (rq_school_authority rq) = Inr pd" "pd_plugin_configs pd = None"
    and "find_authority (rq_name rq) (sv_out_queues sv) = Some q"
  shows "patch_school_authority_rq env co rq sv = (Inl ValueErr, change_queue (oq_name q) stop_task sv)"
proof -
  have "conflict (sa_dict (oq_school_authority q)) (patch_dict pd)"
    using assms(2) by (simp add: sa_dict_def patch_dict_def)
  then have "snd (recursive_dict_update (sa_dict (oq_school_authority q)) (patch_dict pd) False) = Some ValueErr"
    using rdu_fails_iff [OF wf_patch_dict wf_deep_patch_dict, of pd] assms(2) by simp
  then obtain d where "recursive_dict_update (sa_dict (oq_school_authority q)) (patch_dict pd) False = (d, Some ValueErr)"
    by (metis prod.collapse)
  with assms show ?thesis
    by (simp add: patch_school_authority_rq_def bindM_apply patch_configuration_def)
qed


section \<open>The started service\<close>

lemma queues_ok_queue_ids:
  "queues_ok qs \<longleftrightarrow> distinct (map fst (queue_ids qs)) \<and>
    (\<forall>i \<in> set (queue_ids qs). fst i = sa_name (fst (snd i)))"
  by (simp add: queues_ok_def queue_ids_def comp_def)

lemma queues_ok_ids: "queue_ids qs = queue_ids qs' \<Longrightarrow> queues_ok qs \<longleftrightarrow> queues_ok qs'"
  by (simp add: queues_ok_queue_ids)

lemma initial_queues_ok: "distinct (map sa_name sas) \<Longrightarrow> queues_ok (initial_queues dirs sas)"
proof -
  let ?qs = "map (from_school_authority dirs) sas"
  assume "distinct (map sa_name sas)"
  then have "distinct (map oq_name ?qs)" by (simp add: comp_def from_school_authority_def)
  then have "distinct (map oq_name (sort_key oq_name ?qs))" unfolding distinct_map set_sort distinct_sort .
  then show ?thesis by (auto simp: queues_ok_def initial_queues_def from_school_authority_def)
qed

lemma start_if_active_same:
  "oq_name (start_if_active b q) = oq_name q"
  "oq_school_authority (start_if_active b q) = oq_school_authority q"
  by (simp_all add: start_if_active_def start_task_def)

lemma start_service_inv:
  assumes "start_service env co renv cfg mapping_file dirs in_dir db handlers = Inr (Some sv)"
    and "load_school_authorities env (co_school_authority co) cfg = Inr sas" "distinct (map sa_name sas)"
  shows "service_inv sv"
proof -
  obtain m where m: "load_school2target_mapping env (co_mapping co) mapping_file = Inr m"
    using assms(1) by (cases "load_school2target_mapping env (co_mapping co) mapping_file")
      (auto simp: start_service_def split: if_splits)
  let ?iq = "new_in_queue in_dir db (load_school_authority_mapping m) (initial_queues dirs sas)"
  obtain r iq' where dist: "(if iq_out_queues ?iq \<noteq> [] then distribute env renv ?iq else (Inr (), ?iq)) = (r, iq')"
    by force
  let ?qs = "map (start_if_active True) (iq_out_queues iq')"
  have sv: "sv_out_queues sv = ?qs" "iq_out_queues (sv_in_queue sv) = ?qs" "sv_shared sv \<longleftrightarrow> ?qs \<noteq> []"
    using assms(1,2) m dist by (cases r; auto simp: start_service_def Let_def)+
  have "queue_ids (iq_out_queues iq') = queue_ids (initial_queues dirs sas)"
    using dist distribute_ids [of env renv ?iq] by (auto simp: new_in_queue_def split: if_splits)
  then have "queues_ok (iq_out_queues iq')"
    using queues_ok_ids initial_queues_ok [OF assms(3)] by blast
  then have "queues_ok ?qs" using start_if_active_same by (intro queues_ok_map) auto
  with sv show ?thesis by (simp add: service_inv_queues)
qed

end
