(* ===== verification/Handler_Base.thy ===== *)
theory Handler_Base
  imports Config_Storage Dict_Update
begin

text \<open>
  \<open>output_plugin_handler_base.py\<close>: the code all output plugins share. An abstract class is a record of
  the methods its subclasses override (\<open>dispatcher\<close>); the methods of the base class are functions of
  that record. They work on the handler object of one school authority and on the world \<open>'w\<close>, which
  the client of the target system changes.
\<close>

section \<open>The handler of one school authority\<close>

type_synonym id_cache = "(string \<times> string) list"

record base_handler =
  h_school_authority :: school_authority
  h_plugin_name :: string
  h_attribute_mapping :: pyval
  h_roles :: id_cache
  h_schools :: id_cache
  h_schools_created :: int

definition API_SCHOOL_CACHE_TTL :: int where
  "API_SCHOOL_CACHE_TTL = 600"

definition new_handler :: "school_authority \<Rightarrow> string \<Rightarrow> base_handler" where
  "new_handler sa plugin_name =
     \<lparr>h_school_authority = sa, h_plugin_name = plugin_name, h_attribute_mapping = PDict [],
      h_roles = [], h_schools = [], h_schools_created = 0\<rparr>"

type_synonym ('w, 'a) hm = "(base_handler \<times> 'w, 'a) st"

definition on_world :: "(base_handler \<Rightarrow> ('w, 'a) st) \<Rightarrow> ('w, 'a) hm" where
  "on_world m s = (case m (fst s) (snd s) of (r, w) \<Rightarrow> (r, fst s, w))"

section \<open>Ids of schools and roles\<close>

text \<open>
  The caches are emptied before the new content is fetched; if that raises they stay empty. \<open>now\<close> is
  the time in seconds.
\<close>

definition refresh_schools :: "(base_handler \<Rightarrow> ('w, id_cache) st) \<Rightarrow> ('w, unit) hm" where
  "refresh_schools fetch s =
     (let h = (fst s)\<lparr>h_schools := []\<rparr> in
      case fetch h (snd s) of
        (Inl e, w) \<Rightarrow> (Inl e, h, w)
      | (Inr d, w) \<Rightarrow> (Inr (), h\<lparr>h_schools := d\<rparr>, w))"

definition refresh_roles :: "(base_handler \<Rightarrow> ('w, id_cache) st) \<Rightarrow> ('w, unit) hm" where
  "refresh_roles fetch s =
     (let h = (fst s)\<lparr>h_roles := []\<rparr> in
      case fetch h (snd s) of
        (Inl e, w) \<Rightarrow> (Inl e, h, w)
      | (Inr d, w) \<Rightarrow> (Inr (), h\<lparr>h_roles := d\<rparr>, w))"

definition schools_ids_on_target :: "int \<Rightarrow> (base_handler \<Rightarrow> ('w, id_cache) st) \<Rightarrow> ('w, id_cache) hm" where
  "schools_ids_on_target now fetch s =
     (if h_schools (fst s) = [] \<or> h_schools_created (fst s) + API_SCHOOL_CACHE_TTL < now
      then (case refresh_schools fetch s of
              (Inl e, s') \<Rightarrow> (Inl e, s')
            | (Inr _, h, w) \<Rightarrow> (Inr (h_schools h), h\<lparr>h_schools_created := now\<rparr>, w))
      else (Inr (h_schools (fst s)), s))"

definition roles_on_target :: "(base_handler \<Rightarrow> ('w, id_cache) st) \<Rightarrow> ('w, id_cache) hm" where
  "roles_on_target fetch s =
     (if h_roles (fst s) = []
      then (case refresh_roles fetch s of
              (Inl e, s') \<Rightarrow> (Inl e, s')
            | (Inr _, h, w) \<Rightarrow> (Inr (h_roles h), h, w))
      else (Inr (h_roles (fst s)), s))"

section \<open>The schools a school authority handles\<close>

text \<open>
  The class-level copy of the school to authority mapping is loaded when it is first asked for and
  never again; \<open>load\<close> is the outcome of reading the file at that time.
\<close>

definition school_2_school_authority_mapping ::
    "exn + school_mapping \<Rightarrow> (school_mapping option, school_mapping) st" where
  "school_2_school_authority_mapping load cache =
     (case cache of
        Some m \<Rightarrow> (Inr m, cache)
      | None \<Rightarrow>
          (case load of
             Inl e \<Rightarrow> (Inl e, None)
           | Inr m \<Rightarrow>
               (let m' = fold (\<lambda>(k, v) d. AList.update (lower k) v d) m [] in (Inr m', Some m'))))"

definition handled_schools :: "string \<Rightarrow> school_mapping \<Rightarrow> exn + string list" where
  "handled_schools name mapping =
     bindE (mapE (\<lambda>(k, _). case map_of mapping (lower k) of
                     None \<Rightarrow> Inl (KeyErr (lower k)) | Some v \<Rightarrow> Inr (lower k, v)) mapping)
       (\<lambda>kvs. Inr (map fst (filter (\<lambda>(_, v). v = name) kvs)))"

section \<open>Mapping attributes\<close>

text \<open>
  The attributes an object is mapped with: \<open>special\<close> is the method \<open>_handle_attr_<key>\<close> if the class
  has one, \<open>none_value\<close> is \<open>_handle_none_value\<close> and \<open>structure\<close> is \<open>_update_for_mapping_data\<close>.
\<close>

record 'w mapper =
  mp_special :: "string \<Rightarrow> (listener_object \<Rightarrow> ('w, pyval) hm) option"
  mp_none_value :: "string \<Rightarrow> exn + pyval"
  mp_structure :: "string \<Rightarrow> string \<Rightarrow> pyval \<Rightarrow> pydict"

fun object_of :: "listener_object \<Rightarrow> pydict" where
  "object_of (ListenerUserAddModifyObject u) = um_object u"
| "object_of (ListenerGroupAddModifyObject g) = gm_object g"
| "object_of _ = []"

definition value_here :: "'w mapper \<Rightarrow> string \<Rightarrow> listener_object \<Rightarrow> ('w, pyval) hm" where
  "value_here mp key_here obj s =
     (case mp_special mp key_here of
        Some meth \<Rightarrow> meth obj s
      | None \<Rightarrow> (Inr (case map_of (object_of obj) key_here of None \<Rightarrow> PNone | Some v \<Rightarrow> v), s))"

definition none_replaced :: "'w mapper \<Rightarrow> string \<Rightarrow> pyval \<Rightarrow> exn + pyval" where
  "none_replaced mp key_here v = (if v = PNone then mp_none_value mp key_here else Inr v)"

fun map_attributes ::
    "'w mapper \<Rightarrow> listener_object \<Rightarrow> (string \<times> string) list \<Rightarrow> pydict \<Rightarrow> ('w, pydict) hm" where
  "map_attributes mp obj [] res s = (Inr res, s)"
| "map_attributes mp obj ((key_here, key_there) # mapping) res s =
     (case value_here mp key_here obj s of
        (Inl e, s') \<Rightarrow>
          if e = SkipAttribute \<and> mp_special mp key_here \<noteq> None then map_attributes mp obj mapping res s'
          else (Inl e, s')
      | (Inr v, s') \<Rightarrow>
          (case none_replaced mp key_here v of
             Inl e \<Rightarrow> if e = SkipAttribute then map_attributes mp obj mapping res s' else (Inl e, s')
           | Inr v' \<Rightarrow>
               (case recursive_dict_update res (mp_structure mp key_here key_there v') True of
                  (res', Some e) \<Rightarrow> (Inl e, s')
                | (res', None) \<Rightarrow> map_attributes mp obj mapping res' s')))"

section \<open>Creating, modifying and removing\<close>

text \<open>The methods a plugin class provides; \<open>'r\<close> is the representation of an object in the target.\<close>

record ('w, 'r) dispatcher =
  dp_create_preconditions :: "listener_object \<Rightarrow> ('w, bool) hm"
  dp_print_ids :: "listener_object \<Rightarrow> ('w, unit) hm"
  dp_remove_preconditions :: "listener_object \<Rightarrow> ('w, bool) hm"
  dp_map_attributes :: "listener_object \<Rightarrow> ('w, pydict) hm"
  dp_search_params :: "listener_object \<Rightarrow> ('w, pydict) hm"
  dp_required_search_params :: "string list"
  dp_fetch_obj :: "pydict \<Rightarrow> ('w, 'r) hm"
  dp_do_create :: "pydict \<Rightarrow> ('w, unit) hm"
  dp_do_modify :: "pydict \<Rightarrow> 'r \<Rightarrow> ('w, unit) hm"
  dp_do_remove :: "listener_object \<Rightarrow> 'r \<Rightarrow> ('w, unit) hm"

definition missing_params :: "string list \<Rightarrow> pydict \<Rightarrow> bool" where
  "missing_params required params \<longleftrightarrow>
     (\<exists>p \<in> set required. case map_of params p of None \<Rightarrow> True | Some v \<Rightarrow> \<not> truthy v)"

definition exists_on_target :: "('w, 'r) dispatcher \<Rightarrow> listener_object \<Rightarrow> ('w, 'r option) hm" where
  "exists_on_target dp obj =
     bindM (dp_search_params dp obj) (\<lambda>params.
       if missing_params (dp_required_search_params dp) params then throw MissingData
       else (\<lambda>s. case dp_fetch_obj dp params s of
               (Inl e, s') \<Rightarrow> if is_ObjectNotFoundError e then (Inr None, s') else (Inl e, s')
             | (Inr r, s') \<Rightarrow> (Inr (Some r), s')))"

definition do_create_or_update :: "('w, 'r) dispatcher \<Rightarrow> listener_object \<Rightarrow> ('w, unit) hm" where
  "do_create_or_update dp obj =
     bindM (dp_map_attributes dp obj) (\<lambda>request_body s.
       case exists_on_target dp obj s of
         (Inl e, s') \<Rightarrow> if e = MissingData then (Inr (), s') else (Inl e, s')
       | (Inr (Some r), s') \<Rightarrow> dp_do_modify dp request_body r s'
       | (Inr None, s') \<Rightarrow> dp_do_create dp request_body s')"

definition handle_create_or_update :: "('w, 'r) dispatcher \<Rightarrow> listener_object \<Rightarrow> ('w, unit) hm" where
  "handle_create_or_update dp obj =
     bindM (dp_create_preconditions dp obj) (\<lambda>ok.
       if \<not> ok then ret ()
       else bindM (dp_print_ids dp obj) (\<lambda>_. do_create_or_update dp obj))"

definition handle_remove :: "('w, 'r) dispatcher \<Rightarrow> listener_object \<Rightarrow> ('w, unit) hm" where
  "handle_remove dp obj =
     bindM (dp_remove_preconditions dp obj) (\<lambda>ok s.
       if \<not> ok then (Inr (), s)
       else (case exists_on_target dp obj s of
               (Inl e, s') \<Rightarrow> if e = MissingData then (Inr (), s') else (Inl e, s')
             | (Inr (Some r), s') \<Rightarrow> dp_do_remove dp obj r s'
             | (Inr None, s') \<Rightarrow> (Inr (), s')))"

section \<open>The plugin: one handler per school authority\<close>

text \<open>
  \<open>DispatcherPluginBase.handler\<close>: the handlers of a plugin, by school authority and plugin name. A
  handler that exists is used as it is, whatever the configuration is by now.
\<close>

type_synonym handlers = "((string \<times> string) \<times> base_handler) list"

definition handler_key :: "school_authority \<Rightarrow> string \<Rightarrow> string \<times> string" where
  "handler_key sa plugin_name = (sa_name sa, plugin_name)"

definition get_handler ::
    "(school_authority \<Rightarrow> string \<Rightarrow> exn + base_handler) \<Rightarrow> school_authority \<Rightarrow> string \<Rightarrow> (handlers, base_handler) st" where
  "get_handler new sa plugin_name hs =
     (case map_of hs (handler_key sa plugin_name) of
        Some h \<Rightarrow> (Inr h, hs)
      | None \<Rightarrow>
          (case new sa plugin_name of
             Inl e \<Rightarrow> (Inl e, hs)
           | Inr h \<Rightarrow> (Inr h, AList.update (handler_key sa plugin_name) h hs)))"

text \<open>Running a method of the handler of a school authority on the plugin's state.\<close>

definition with_handler ::
    "(school_authority \<Rightarrow> string \<Rightarrow> exn + base_handler) \<Rightarrow> school_authority \<Rightarrow> string \<Rightarrow> ('w, 'a) hm \<Rightarrow>
     (handlers \<times> 'w, 'a) st" where
  "with_handler new sa plugin_name m s =
     (case get_handler new sa plugin_name (fst s) of
        (Inl e, hs) \<Rightarrow> (Inl e, hs, snd s)
      | (Inr h, hs) \<Rightarrow>
          (case m (h, snd s) of (r, h', w) \<Rightarrow> (r, AList.update (handler_key sa plugin_name) h' hs, w)))"

definition school_authority_ping ::
    "(base_handler \<Rightarrow> ('w, id_cache) st) \<Rightarrow> (base_handler \<Rightarrow> ('w, id_cache) st) \<Rightarrow>
     (school_authority \<Rightarrow> string \<Rightarrow> exn + base_handler) \<Rightarrow> string \<Rightarrow> school_authority \<Rightarrow> (handlers \<times> 'w, bool) st" where
  "school_authority_ping fetch_roles fetch_schools new plugin_name sa =
     with_handler new sa plugin_name
       (catchM (bindM (refresh_roles fetch_roles) (\<lambda>_. bindM (refresh_schools fetch_schools) (\<lambda>_. ret True)))
         (\<lambda>e. if is_APICommunicationError e then ret False else throw e))"


section \<open>Caches\<close>

text \<open>A cache that is filled and young is used without asking the target.\<close>

lemma schools_cached:
  assumes "h_schools h \<noteq> []" "now \<le> h_schools_created h + API_SCHOOL_CACHE_TTL"
  shows "schools_ids_on_target now fetch (h, w) = (Inr (h_schools h), h, w)"
  using assms by (simp add: schools_ids_on_target_def)

lemma schools_refreshed:
  assumes "h_schools h = [] \<or> h_schools_created h + API_SCHOOL_CACHE_TTL < now"
    and "fetch (h\<lparr>h_schools := []\<rparr>) w = (Inr d, w')"
  shows "schools_ids_on_target now fetch (h, w) =
    (Inr d, h\<lparr>h_schools := d, h_schools_created := now\<rparr>, w')"
  using assms by (simp add: schools_ids_on_target_def refresh_schools_def Let_def)

text \<open>Whatever happened before, an answer is at most as old as the time to live.\<close>

lemma schools_fresh:
  assumes "schools_ids_on_target now fetch (h, w) = (Inr d, h', w')"
  shows "d = h_schools h'" "now \<le> h_schools_created h' + API_SCHOOL_CACHE_TTL"
  using assms
  by (auto simp: schools_ids_on_target_def API_SCHOOL_CACHE_TTL_def split: if_splits prod.splits sum.splits)

text \<open>The schools of the mapping once it is loaded with lower-case keys.\<close>

lemma handled_schools_lower:
  assumes "wf_dict mapping" "\<And>k. k \<in> keys mapping \<Longrightarrow> lower k = k"
  shows "\<exists>ss. handled_schools sa mapping = Inr ss \<and> set ss = {k. map_of mapping k = Some sa}"
proof -
  have lookup: "map_of mapping (lower k) = Some v" if "(k, v) \<in> set mapping" for k v
  proof -
    have "k \<in> keys mapping" using that by (force simp: keys_def)
    with assms(2) [of k] that assms(1) show ?thesis by (simp add: set_iff_map_of)
  qed
  have "mapE (\<lambda>(k, _). case map_of mapping (lower k) of
      None \<Rightarrow> Inl (KeyErr (lower k)) | Some v \<Rightarrow> Inr (lower k, v)) mapping =
      Inr (map (\<lambda>(k, v). (lower k, v)) mapping)"
    by (rule mapE_all_Inr) (auto simp: lookup)
  then have "handled_schools sa mapping =
      Inr (map fst (filter (\<lambda>(_, v). v = sa) (map (\<lambda>(k, v). (lower k, v)) mapping)))"
    by (simp add: handled_schools_def)
  moreover have "set (map fst (filter (\<lambda>(_, v). v = sa) (map (\<lambda>(k, v). (lower k, v)) mapping))) =
      {k. map_of mapping k = Some sa}"
  proof (intro set_eqI iffI)
    fix k assume "k \<in> set (map fst (filter (\<lambda>(_, v). v = sa) (map (\<lambda>(k, v). (lower k, v)) mapping)))"
    then obtain k' where "(k', sa) \<in> set mapping" "k = lower k'" by auto
    then show "k \<in> {k. map_of mapping k = Some sa}" using lookup by simp
  next
    fix k assume "k \<in> {k. map_of mapping k = Some sa}"
    then have "(k, sa) \<in> set mapping" "lower k = k"
      using assms(2) [of k] by (auto dest: map_of_SomeD intro: map_of_in_keys)
    then show "k \<in> set (map fst (filter (\<lambda>(_, v). v = sa) (map (\<lambda>(k, v). (lower k, v)) mapping)))"
      by force
  qed
  ultimately show ?thesis by blast
qed

text \<open>The class-level mapping does not follow the file: what was loaded first is used from then on.\<close>

lemma mapping_loaded_once:
  assumes "school_2_school_authority_mapping load None = (Inr m, cache)"
  shows "school_2_school_authority_mapping load' cache = (Inr m, cache)"
  using assms by (auto simp: school_2_school_authority_mapping_def Let_def split: sum.splits)

section \<open>Which operation the target sees\<close>

text \<open>
  The base class decides between creating and modifying by what the search in the target finds. The
  laws of a target, for the plugins that provide one: a search changes nothing there.
\<close>

locale target =
  fixes dp :: "('w, 'r) dispatcher" and visible :: "'w \<Rightarrow> 'v"
  assumes search_params_visible: "dp_search_params dp obj s = (r, s') \<Longrightarrow> visible (snd s') = visible (snd s)"
    and fetch_visible: "dp_fetch_obj dp params s = (r', s') \<Longrightarrow> visible (snd s') = visible (snd s)"
    and map_visible: "dp_map_attributes dp obj s = (r'', s') \<Longrightarrow> visible (snd s') = visible (snd s)"
    and pre_visible: "dp_remove_preconditions dp obj s = (r3, s') \<Longrightarrow> visible (snd s') = visible (snd s)"
begin

lemma exists_visible:
  assumes "exists_on_target dp obj s = (r, s')" shows "visible (snd s') = visible (snd s)"
proof -
  obtain r1 s1 where sp: "dp_search_params dp obj s = (r1, s1)" by (metis surj_pair)
  obtain p2 where p2: "dp_fetch_obj dp (case r1 of Inr p \<Rightarrow> p | Inl _ \<Rightarrow> []) s1 = p2" by blast
  obtain r2 s2 where r2: "p2 = (r2, s2)" by (metis surj_pair)
  have "s' = s1 \<or> s' = s2"
    using assms sp p2 r2
    by (cases r1; cases r2) (auto simp: exists_on_target_def bindM_apply split: if_splits)
  then show ?thesis using search_params_visible [OF sp] fetch_visible p2 r2 by metis
qed

text \<open>An object that is not found is created, one that is found is modified with what was found.\<close>

lemma create_or_modify:
  assumes "do_create_or_update dp obj s = (r, s')"
  obtains (unchanged) "visible (snd s') = visible (snd s)"
  | (create) body s1 s2 where "dp_map_attributes dp obj s = (Inr body, s1)"
      "exists_on_target dp obj s1 = (Inr None, s2)" "dp_do_create dp body s2 = (r, s')"
      "visible (snd s2) = visible (snd s)"
  | (modify) body s1 s2 remote where "dp_map_attributes dp obj s = (Inr body, s1)"
      "exists_on_target dp obj s1 = (Inr (Some remote), s2)" "dp_do_modify dp body remote s2 = (r, s')"
      "visible (snd s2) = visible (snd s)"
proof -
  obtain r1 s1 where m: "dp_map_attributes dp obj s = (r1, s1)" by (metis surj_pair)
  note v1 = map_visible [OF m]
  show ?thesis
  proof (cases r1)
    case (Inl e)
    with assms m v1 unchanged show ?thesis by (simp add: do_create_or_update_def bindM_apply)
  next
    case (Inr body)
    obtain r2 s2 where ex: "exists_on_target dp obj s1 = (r2, s2)" by (metis surj_pair)
    have v2: "visible (snd s2) = visible (snd s)" using exists_visible [OF ex] v1 by simp
    show ?thesis
    proof (cases r2)
      case (Inl e)
      with assms m Inr ex v2 unchanged show ?thesis
        by (simp add: do_create_or_update_def bindM_apply split: if_splits)
    next
      case (Inr found)
      with assms m \<open>r1 = Inr body\<close> ex v2 create [of body s1 s2] modify [of body s1 _ s2] show ?thesis
        by (cases found) (simp_all add: do_create_or_update_def bindM_apply)
    qed
  qed
qed

text \<open>A removal reaches the target only if the object was found there.\<close>

lemma remove_only_found:
  assumes "handle_remove dp obj s = (r, s')" "visible (snd s') \<noteq> visible (snd s)"
  shows "\<exists>s1 s2 remote. exists_on_target dp obj s1 = (Inr (Some remote), s2) \<and>
    dp_do_remove dp obj remote s2 = (r, s') \<and> visible (snd s2) = visible (snd s)"
proof -
  obtain r1 s1 where p: "dp_remove_preconditions dp obj s = (r1, s1)" by (metis surj_pair)
  note v1 = pre_visible [OF p]
  obtain r2 s2 where ex: "exists_on_target dp obj s1 = (r2, s2)" by (metis surj_pair)
  have v2: "visible (snd s2) = visible (snd s)" using exists_visible [OF ex] v1 by simp
  have r1: "r1 = Inr True"
    using assms p v1 by (cases r1) (auto simp: handle_remove_def bindM_apply split: if_splits)
  obtain remote where r2: "r2 = Inr (Some remote)"
    using assms p ex v2 r1
    by (cases r2) (auto simp: handle_remove_def bindM_apply split: if_splits option.splits)
  have "dp_do_remove dp obj remote s2 = (r, s')"
    using assms(1) p ex r1 r2 by (simp add: handle_remove_def bindM_apply)
  then show ?thesis using ex v2 r2 by blast
qed

end

end
