(* ===== verification/Queue_Properties.thy ===== *)
theory Queue_Properties
  imports Instances
begin

text \<open>
  Properties of the way of a listener file: what the in queue records about users and to which out
  queues it delivers, and what becomes of the file in an out queue. Each property is stated over the
  definitions of the components, rests on their lemmas, and is applied to a concrete case after it.
\<close>

section \<open>Users\<close>



text \<open>
  C30: Preprocessing a user refines the specification "remember the last entry of each user": if the
  database holds the entries \<open>seen\<close>, then afterwards it holds them with this user's entry updated to
  the present schools and ids, and the object leaves with the entry seen before as its old data and
  with its current password hashes; it is reported as changed exactly if either is present.
\<close>

theorem old_data_recorded:
  assumes "cache_laws (env_cache env)" "holds (env_cache env) user_old_of_dict K c seen"
    and "um_id u \<in> K" "user_old_entry u = Inr n" "username u = Inr name"
    and "env_passwords env name = Inr pw"
  shows "\<exists>c'. user_preprocess_add_mod_object env (ListenerUserAddModifyObject u, c) =
      (Inr (seen (um_id u) \<noteq> None \<or> pw \<noteq> None),
       ListenerUserAddModifyObject (u\<lparr>um_old_data := seen (um_id u), um_user_passwords := pw\<rparr>), c') \<and>
    holds (env_cache env) user_old_of_dict K c' (seen(um_id u \<mapsto> n))"
  using assms by (rule user_add_mod_step)

theorem old_data_recorded_witness:
  "\<exists>c'. user_preprocess_add_mod_object ex_env (ListenerUserAddModifyObject ex_user, []) =
      (Inr True, ListenerUserAddModifyObject (ex_user\<lparr>um_old_data := None, um_user_passwords := Some ex_passwords\<rparr>), c') \<and>
    holds (env_cache ex_env) user_old_of_dict {''u1''} c' [''u1'' \<mapsto> ex_old_entry]"
proof -
  have id: "um_id ex_user = ''u1''" by (simp add: ex_user_def)
  have pw: "env_passwords ex_env ''max'' = Inr (Some ex_passwords)" by (simp add: ex_env_def)
  from old_data_recorded [OF ex_cache_laws(1) ex_holds_empty _ ex_user_entry ex_username pw, of "{''u1''}"]
  show ?thesis by (simp add: id)
qed

text \<open>
  C39: If the search for the password hashes fails, the entry of the user has been overwritten already:
  when the file is tried again, the object gets its own present entry as old data, and what the user
  was before is lost.
\<close>

theorem old_data_lost_on_retry:
  assumes "cache_laws (env_cache env)" "holds (env_cache env) user_old_of_dict K c seen"
    and "um_id u \<in> K" "user_old_entry u = Inr n" "username u = Inr name"
    and "env_passwords env name = Inl e" "env_passwords env' name = Inr pw"
    and "env_cache env' = env_cache env"
  shows "\<exists>c' c''. user_preprocess_add_mod_object env (ListenerUserAddModifyObject u, c) =
      (Inl e, ListenerUserAddModifyObject (u\<lparr>um_old_data := seen (um_id u)\<rparr>), c') \<and>
    user_preprocess_add_mod_object env' (ListenerUserAddModifyObject u, c') =
      (Inr True, ListenerUserAddModifyObject (u\<lparr>um_old_data := Some n, um_user_passwords := pw\<rparr>), c'')"
  using assms by (rule user_retry_forgets)

theorem old_data_lost_on_retry_witness:
  "\<exists>c' c''. user_preprocess_add_mod_object ex_env_down (ListenerUserAddModifyObject ex_user, []) =
      (Inl LDAPExceptionErr, ListenerUserAddModifyObject (ex_user\<lparr>um_old_data := None\<rparr>), c') \<and>
    user_preprocess_add_mod_object ex_env (ListenerUserAddModifyObject ex_user, c') =
      (Inr True, ListenerUserAddModifyObject
        (ex_user\<lparr>um_old_data := Some ex_old_entry, um_user_passwords := Some ex_passwords\<rparr>), c'')"
proof -
  have id: "um_id ex_user = ''u1''" by (simp add: ex_user_def)
  have envs: "env_passwords ex_env_down ''max'' = Inl LDAPExceptionErr"
    "env_passwords ex_env ''max'' = Inr (Some ex_passwords)" "env_cache ex_env = env_cache ex_env_down"
    by (simp_all add: ex_env_def ex_env_down_def)
  have empty: "holds (env_cache ex_env_down) user_old_of_dict {''u1''} [] (\<lambda>_. None)"
    using ex_holds_empty by (simp add: ex_env_down_def)
  from old_data_lost_on_retry [OF ex_cache_laws(2) empty _ ex_user_entry ex_username envs]
  show ?thesis by (simp add: id)
qed

section \<open>The in queue\<close>

text \<open>
  C4: A file with a user is delivered to the out queues of exactly those school authorities to which a
  present or a previous school of the user is mapped, whatever the case of its name: those queues
  hold the file with its content afterwards, all else in them and all other queues are as before, and
  the file is gone from the in queue.
\<close>

theorem user_file_delivered:
  assumes "map_of (q_entries (iq_dir iq)) name = Some (File content)" "load_text env content = Inr obj"
    and "is_user_object obj" "user_current_schools obj = Inr ss"
    and "\<exists>q \<in> set (iq_out_queues iq). sa_active (oq_school_authority q) \<and>
      ''kelvin'' \<in> set (sa_plugins (oq_school_authority q))"
    and "s \<in> set ss \<union> set (user_old_schools obj)" "map_of (iq_mapping iq) (lower s) = Some sa"
    and "distinct_authorities iq" "no_directory_named name iq"
  shows "\<exists>iq'. distribute_file env renv (s_a_name_to_out_queue (iq_out_queues iq)) name iq = (Inr (), iq') \<and>
    map_of (q_entries (iq_dir iq')) = (map_of (q_entries (iq_dir iq)))(name := None) \<and>
    iq_out_queues iq' =
      delivered name (File content)
        {sa. \<exists>s \<in> set ss \<union> set (user_old_schools obj). map_of (iq_mapping iq) (lower s) = Some sa}
        (iq_out_queues iq)"
proof -
  obtain names where hook: "hook_distribution renv iq obj = Inr names"
    and names: "set names =
      {sa. \<exists>s \<in> set ss \<union> set (user_old_schools obj). map_of (iq_mapping iq) (lower s) = Some sa}"
    using hook_distribution_user [OF assms(3-5)] by blast
  have "names \<noteq> []" using names assms(6,7) by auto
  from distribute_file_ok [OF assms(1,2) hook this assms(8,9)] show ?thesis
    by (simp add: names dict_simps)
qed

theorem user_file_delivered_witness:
  "\<exists>iq'. distribute_file ex_env ex_environ (s_a_name_to_out_queue (iq_out_queues ex_in_queue))
      ''1.json'' ex_in_queue = (Inr (), iq') \<and>
    map_of (q_entries (oq_dir (iq_out_queues iq' ! 0))) ''1.json'' = Some (File ''user'') \<and>
    map_of (q_entries (oq_dir (iq_out_queues iq' ! 1))) ''1.json'' = None"
proof -
  have dir: "map_of (q_entries (iq_dir ex_in_queue)) ''1.json'' = Some (File ''user'')"
    by (simp add: ex_in_queue_def)
  have schools: "user_current_schools (ListenerUserAddModifyObject ex_user) = Inr [''A'', ''B'']"
    "user_old_schools (ListenerUserAddModifyObject ex_user) = []"
    by (simp_all add: user_current_schools_def user_old_schools_def schools_def object_strs_def ex_user_def)
  have "lower ''A'' = ''a''" by code_simp
  then have mapped: "map_of (iq_mapping ex_in_queue) (lower ''A'') = Some ''T1''"
    by (simp add: ex_in_queue_def)
  have active: "\<exists>q \<in> set (iq_out_queues ex_in_queue). sa_active (oq_school_authority q) \<and>
      ''kelvin'' \<in> set (sa_plugins (oq_school_authority q))"
    by (simp add: ex_in_queue_def from_school_authority_def ex_sa_def ex_sa2_def)
  have distinct: "distinct_authorities ex_in_queue" "no_directory_named ''1.json'' ex_in_queue"
    by code_simp+
  have lowers: "lower ''A'' = ''a''" "lower ''B'' = ''b''" by code_simp+
  have targets: "{sa. \<exists>s \<in> {''A'', ''B''}. map_of (iq_mapping ex_in_queue) (lower s) = Some sa} = {''T1''}"
    by (auto simp: ex_in_queue_def lowers)
  from user_file_delivered [OF dir ex_load_user _ schools(1) active _ mapped distinct,
      where renv = ex_environ] obtain iq' where
    "distribute_file ex_env ex_environ (s_a_name_to_out_queue (iq_out_queues ex_in_queue))
      ''1.json'' ex_in_queue = (Inr (), iq')"
    "iq_out_queues iq' = delivered ''1.json'' (File ''user'') {''T1''} (iq_out_queues ex_in_queue)"
    using targets schools(2) by auto
  then show ?thesis
    by (intro exI [of _ iq'])
      (simp add: delivered_def ex_in_queue_def from_school_authority_def ex_sa_def ex_sa2_def empty_dir_def)
qed

text \<open>
  C12: If no active school authority has the plugin named kelvin, a file with a user is delivered to no
  out queue, but moved to the trash, whatever its schools are mapped to. A school authority that has
  the partial synchronisation plugin instead gets its school classes, but none of its users.
\<close>

theorem users_need_kelvin_plugin:
  assumes "map_of (q_entries (iq_dir iq)) name = Some (File content)" "load_text env content = Inr obj"
    and "is_user_object obj"
    and "\<And>q. q \<in> set (iq_out_queues iq) \<Longrightarrow> sa_active (oq_school_authority q) \<Longrightarrow>
      ''kelvin'' \<notin> set (sa_plugins (oq_school_authority q))"
  shows "\<exists>iq'. distribute_file env renv d name iq = (Inr (), iq') \<and>
    iq_out_queues iq' = iq_out_queues iq \<and>
    map_of (q_entries (iq_dir iq')) = (map_of (q_entries (iq_dir iq)))(name := None) \<and>
    (name \<notin> keys (q_trash (iq_dir iq)) \<longrightarrow>
      map_of (q_trash (iq_dir iq')) = (map_of (q_trash (iq_dir iq)))(name \<mapsto> File content))"
  using distribute_file_unmapped [OF assms(1,2) hook_distribution_user_none [OF assms(3,4)]]
    discard_file_removes [OF assms(1)]
  by (simp add: discard_in_def)

definition ex_partial_queue :: "(string \<times> pydict) list in_queue" where
  "ex_partial_queue = ex_in_queue
     \<lparr>iq_out_queues := [from_school_authority [] (ex_sa\<lparr>sa_plugins := [''kelvin-partial-group-sync'']\<rparr>)]\<rparr>"

theorem users_need_kelvin_plugin_witness:
  "iq_out_queues (snd (distribute_file ex_env ex_environ [] ''1.json'' ex_partial_queue)) =
      iq_out_queues ex_partial_queue \<and>
    user_current_schools (ListenerUserAddModifyObject ex_user) = Inr [''A'', ''B''] \<and>
    hook_distribution ex_environ ex_partial_queue (ListenerGroupAddModifyObject ex_group) = Inr [''T1'']"
proof -
  have dir: "map_of (q_entries (iq_dir ex_partial_queue)) ''1.json'' = Some (File ''user'')"
    by (simp add: ex_partial_queue_def ex_in_queue_def)
  have plugins: "''kelvin'' \<notin> set (sa_plugins (oq_school_authority q))" if "q \<in> set (iq_out_queues ex_partial_queue)" for q
    using that by (simp add: ex_partial_queue_def from_school_authority_def)
  have group: "hook_distribution ex_environ ex_partial_queue (ListenerGroupAddModifyObject ex_group) = Inr [''T1'']"
    "user_current_schools (ListenerUserAddModifyObject ex_user) = Inr [''A'', ''B'']"
    by code_simp+
  obtain iq' where
    "distribute_file ex_env ex_environ [] ''1.json'' ex_partial_queue = (Inr (), iq')"
    "iq_out_queues iq' = iq_out_queues ex_partial_queue"
    using users_need_kelvin_plugin [OF dir ex_load_user _ plugins, where renv = ex_environ and d = "[]"] by auto
  with group show ?thesis by simp
qed



text \<open>
  C38: When the search for a user's password hashes raises an error that is no listener file error, the
  loop that preprocesses ends with an exception and the file stays where it is, so that the remaining
  files are not preprocessed; the entry of the user in the database has been replaced all the same.
\<close>

theorem password_error_ends_preprocessing:
  assumes "cache_laws (env_cache env)" "holds (env_cache env) user_old_of_dict K (iq_db iq) seen"
    and "um_id u \<in> K" "user_old_entry u = Inr n" "username u = Inr login"
    and "load_listener_file env name (iq_dir iq) = Inr (ListenerUserAddModifyObject u)"
    and "env_passwords env login = Inl e" "e \<noteq> InvalidListenerFile" "e \<noteq> ListenerSavingError"
  shows "\<exists>iq'. preprocess_all env (name # names) iq = (Inl InvalidListenerFile, iq') \<and>
    iq_dir iq' = iq_dir iq \<and>
    holds (env_cache env) user_old_of_dict K (iq_db iq') (seen(um_id u \<mapsto> n))"
  using assms by (rule password_search_stops)

theorem password_error_ends_preprocessing_witness:
  "\<exists>iq'. preprocess_all ex_env_down [''1.json'', ''2.json''] ex_in_queue = (Inl InvalidListenerFile, iq') \<and>
    iq_dir iq' = iq_dir ex_in_queue"
proof -
  have empty: "holds (env_cache ex_env_down) user_old_of_dict {''u1''} (iq_db ex_in_queue) (\<lambda>_. None)"
    using ex_holds_empty by (simp add: ex_env_down_def ex_in_queue_def)
  have down: "env_passwords ex_env_down ''max'' = Inl LDAPExceptionErr" by (simp add: ex_env_down_def)
  have load: "load_listener_file ex_env_down ''1.json'' (iq_dir ex_in_queue) = Inr (ListenerUserAddModifyObject ex_user)"
    by code_simp
  have "um_id ex_user \<in> {''u1''}" by (simp add: ex_user_def)
  from password_error_ends_preprocessing [OF ex_cache_laws(2) empty this ex_user_entry ex_username load down]
  show ?thesis by auto
qed

text \<open>
  A school class is distributed to the one school authority its school is mapped to, if that is
  configured with the Kelvin plugin, and to none otherwise; the school is the one in the DN of the
  class.
\<close>

theorem class_distributed_by_school:
  assumes "wf_dict mapping" "\<And>k. k \<in> keys mapping \<Longrightarrow> lower k = k"
    and "active_kelvin_configs sas \<noteq> []" "is_group_object obj"
    and "env ''ldap_base'' = Some base" "dn_of obj = class_dn_of env base ou name ou'"
    and "ou \<noteq> []" "CHR '','' \<notin> set ou" "name \<noteq> []" "CHR '','' \<notin> set name" "lower ou' = lower ou"
  shows "kelvin_group_school_authorities_to_distribute_to env sas mapping obj =
    Inr (case map_of mapping (lower ou) of
           Some sa \<Rightarrow> if sa \<in> sa_name ` {s \<in> set sas. ''kelvin'' \<in> set (sa_plugins s)} then [sa] else []
         | None \<Rightarrow> [])"
proof -
  have "match_class_dn env (dn_of obj) = Inr (Some (class_groups ou name))"
    using match_class_dn_of [of env base ou name ou' "[]"] assms(5-11) by simp
  with assms(1-4) show ?thesis by (rule kelvin_group_distribution)
qed

theorem class_distributed_by_school_witness:
  "kelvin_group_school_authorities_to_distribute_to ex_environ [ex_sa, ex_sa2] [(''a'', ''T1'')]
    (ListenerGroupAddModifyObject ex_group) = Inr [''T1'']"
proof -
  have dn: "dn_of (ListenerGroupAddModifyObject ex_group) = class_dn_of ex_environ ''dc=x'' ''A'' ''1a'' ''A''"
    by code_simp
  have lowers: "lower ''A'' = ''a''" "lower ''a'' = ''a''" by code_simp+
  have kelvin: "''T1'' \<in> sa_name ` {s \<in> set [ex_sa, ex_sa2]. ''kelvin'' \<in> set (sa_plugins s)}"
    by (rule image_eqI [of _ _ ex_sa]) (simp_all add: ex_sa_def)
  have configs: "wf_dict [(''a'', ''T1'')]" "active_kelvin_configs [ex_sa, ex_sa2] \<noteq> []"
    by code_simp+
  have lower_keys: "k \<in> keys [(''a'', ''T1'')] \<Longrightarrow> lower k = k" for k by (simp add: keys_def lowers)
  have base: "ex_environ ''ldap_base'' = Some ''dc=x''" by (simp add: ex_environ_def)
  have "kelvin_group_school_authorities_to_distribute_to ex_environ [ex_sa, ex_sa2] [(''a'', ''T1'')]
      (ListenerGroupAddModifyObject ex_group) =
    Inr (case map_of [(''a'', ''T1'')] (lower ''A'') of
           Some sa \<Rightarrow> if sa \<in> sa_name ` {s \<in> set [ex_sa, ex_sa2]. ''kelvin'' \<in> set (sa_plugins s)}
             then [sa] else []
         | None \<Rightarrow> [])"
    by (rule class_distributed_by_school [OF configs(1) lower_keys configs(2) _ base dn]) simp_all
  with kelvin show ?thesis by (simp add: lowers del: set_simps)
qed

section \<open>The out queues\<close>

text \<open>
  C29: A listener file that can be loaded leaves its out queue for good, whatever the plugins do: if
  one of them reports success it is gone, otherwise (none is responsible, or one raised, an error of
  the target system included) it is in the trash, unless a file of that name is there already. It is
  never put aside to be tried again.
\<close>

theorem listener_file_consumed:
  assumes "load_listener_file env name (oq_dir q) = Inr obj"
    and "map_of (q_entries (oq_dir q)) name = Some (File content)"
    and "call_handlers hk (oq_school_authority q) obj w = (r, w')"
  shows "\<exists>q'. scan_file env hk name (q, w) = (Inr False, q', w') \<and>
    map_of (q_entries (oq_dir q')) = (map_of (q_entries (oq_dir q)))(name := None) \<and>
    map_of (q_trash (oq_dir q')) =
      (if handled r \<or> name \<in> keys (q_trash (oq_dir q)) then map_of (q_trash (oq_dir q))
       else (map_of (q_trash (oq_dir q)))(name \<mapsto> File content)) \<and>
    q_keep (oq_dir q') = q_keep (oq_dir q)"
  using scan_file_loaded [OF assms] by blast

theorem listener_file_consumed_witness:
  "\<exists>q'. scan_file ex_env ex_hooks ''1.json'' (ex_out_queue, 0) = (Inr False, q', 0) \<and>
    map_of (q_entries (oq_dir q')) ''1.json'' = None \<and>
    map_of (q_trash (oq_dir q')) ''1.json'' = Some (File ''group'')"
proof -
  have load: "load_listener_file ex_env ''1.json'' (oq_dir ex_out_queue) = Inr (ListenerGroupAddModifyObject ex_group)"
    by code_simp
  have entry: "map_of (q_entries (oq_dir ex_out_queue)) ''1.json'' = Some (File ''group'')"
    "q_trash (oq_dir ex_out_queue) = []"
    by code_simp+
  have calls: "call_handlers ex_hooks (oq_school_authority ex_out_queue) (ListenerGroupAddModifyObject ex_group) 0 =
      (Inl APICommunicationError, 0)"
    by code_simp
  from listener_file_consumed [OF load entry(1) calls] entry(2) show ?thesis
    by (auto simp: handled_def keys_def)
qed

text \<open>
  A round of an out queue whose files can be loaded makes progress: if there is a listener file,
  there are fewer afterwards. So a queue to which nothing is delivered is empty after as many rounds as
  it has files.
\<close>

theorem scan_round_shrinks:
  assumes "wf_queue_dir (oq_dir q)" "loadable env (oq_dir q)"
    and "scan_round env hk (q, w) = (r, q', w')" "fst (queue_files (oq_dir q)) \<noteq> []"
  shows "queue_length (oq_dir q') < queue_length (oq_dir q) \<and> loadable env (oq_dir q')"
  using scan_round_progress [OF assms] scan_round_files(4) [OF assms(1-3)] by simp

theorem scan_round_shrinks_witness:
  "queue_length (oq_dir (fst (snd (scan_round ex_env ex_hooks (ex_out_queue, 0))))) < 2"
proof -
  obtain r q' w' where sr: "scan_round ex_env ex_hooks (ex_out_queue, 0) = (r, q', w')"
    by (metis prod.exhaust)
  have "fst (queue_files (oq_dir ex_out_queue)) \<noteq> []" by (simp add: ex_out_queue_files)
  from scan_round_shrinks [OF ex_out_queue_wf ex_out_queue_loadable sr this] sr show ?thesis
    by (simp add: queue_length_def ex_out_queue_files)
qed

text \<open>
  C37: A listener file in an out queue that cannot be loaded makes a round raise before any file is
  handled: the queue keeps all of its files, and the task ends, as the exception is not caught.
\<close>

theorem unloadable_file_ends_task:
  assumes "wf_queue_dir (oq_dir q)" "n \<in> set (fst (queue_files (oq_dir q)))"
    and "load_listener_file env n (oq_dir q) = Inl e"
  shows "\<exists>e'. scan_step env hk (working, q, w) = (ended e', q\<lparr>oq_dir := snd (queue_files (oq_dir q))\<rparr>, w)"
proof -
  from scan_round_unloadable [OF assms, of hk w] obtain e' where
    "scan_round env hk (q, w) = (Inl e', q\<lparr>oq_dir := snd (queue_files (oq_dir q))\<rparr>, w)" by blast
  then show ?thesis by simp
qed

theorem unloadable_file_ends_task_witness:
  "\<exists>e' q'. scan_step ex_env ex_hooks (working, ex_bad_queue, 0) = (ended e', q', 0)"
proof -
  have wf: "wf_queue_dir (oq_dir ex_bad_queue)" by code_simp
  have listed: "''1.json'' \<in> set (fst (queue_files (oq_dir ex_bad_queue)))" by code_simp
  have bad: "load_listener_file ex_env ''1.json'' (oq_dir ex_bad_queue) = Inl ListenerLoadingError" by code_simp
  from unloadable_file_ends_task [OF wf listed bad, of ex_hooks 0] show ?thesis by blast
qed

end
