(* ===== verification/Config_Properties.thy ===== *)
theory Config_Properties
  imports Instances Rpc Handler_Base
begin

text \<open>
  Properties of the configuration and of the code that reads it: names in DNs and roles, merging of
  dictionaries, secrets, the configuration files, the requests of the HTTP API on the running service,
  and the caches of the output plugins.
\<close>

section \<open>Names\<close>

text \<open>
  The pattern for DNs of school classes reads back the OU and the name a DN was made of, whatever
  comes after the LDAP base; the OU of the position may differ in case from the one in the name.
\<close>

theorem class_dn_read_back:
  assumes "env ''ldap_base'' = Some base"
    and "ou \<noteq> []" "CHR '','' \<notin> set ou" "name \<noteq> []" "CHR '','' \<notin> set name"
    and "lower ou' = lower ou"
  shows "match_class_dn env (class_dn_of env base ou name ou' @ rest) = Inr (Some (class_groups ou name))"
  using assms by (rule match_class_dn_of)

theorem class_dn_read_back_witness:
  "match_class_dn ex_environ ''cn=A-1-b,cn=klassen,cn=schueler,cn=groups,ou=a,dc=x'' =
    Inr (Some (class_groups ''A'' ''1-b''))"
proof -
  have dn: "class_dn_of ex_environ ''dc=x'' ''A'' ''1-b'' ''a'' =
      ''cn=A-1-b,cn=klassen,cn=schueler,cn=groups,ou=a,dc=x''"
    by code_simp
  have base: "ex_environ ''ldap_base'' = Some ''dc=x''" by (simp add: ex_environ_def)
  have "lower ''a'' = lower ''A''" by code_simp
  from class_dn_read_back [of ex_environ "''dc=x''" "''A''" "''1-b''" "''a''" "[]", OF base _ _ _ _ this]
  show ?thesis by (simp add: dn)
qed

text \<open>
  A role string made of a role, a context type and a context is read back as these three, if none
  of them is empty or contains a colon and the context has no line break.
\<close>

theorem role_string_read_back:
  assumes "r \<noteq> []" "ct \<noteq> []" "c \<noteq> []" "CHR '':'' \<notin> set r" "CHR '':'' \<notin> set ct"
    "CHR '':'' \<notin> set c" "CHR 0x0A \<notin> set c"
  shows "match_role (role_string r ct c) = Some (role_groups r ct c)"
  using assms by (rule match_role_string)

theorem role_string_read_back_witness:
  "match_role ''student:school:A'' =
    Some [(''context'', ''A''), (''context_type'', ''school''), (''role'', ''student'')]"
proof -
  have "role_string ''student'' ''school'' ''A'' = ''student:school:A''" by (simp add: role_string_def)
  with role_string_read_back [of "''student''" "''school''" "''A''"] show ?thesis
    by (simp add: role_groups_def)
qed

section \<open>Merging dictionaries\<close>

text \<open>
  Merging a dictionary into another fails exactly if it would put something that is no dictionary
  in the place of one, at any depth; the error is a \<open>ValueError\<close>.
\<close>

theorem merge_fails_iff_conflict:
  assumes "wf_dict us" "wf_deep us"
  shows "snd (recursive_dict_update ori us none) = (if conflict ori us then Some ValueErr else None)"
  using assms by (rule rdu_fails_iff)

theorem merge_fails_iff_conflict_witness:
  "snd (recursive_dict_update [(''a'', PDict [(''b'', PDict [])])] [(''a'', PDict [(''b'', PInt 1)])] True) = Some ValueErr"
proof -
  have "wf_dict [(''a'', PDict [(''b'', PInt 1)])]" "wf_deep [(''a'', PDict [(''b'', PInt 1)])]"
    by (simp_all add: wf_dict_def)
  from merge_fails_iff_conflict [OF this] show ?thesis by simp
qed

text \<open>
  C34: After a merge that does not fail, every path of the new dictionary that leads to a value other
  than a dictionary leads to the same value in the result (\<open>None\<close> only if \<open>None\<close> values are to be
  merged), and every path the new dictionary does not touch leads where it did before.
\<close>

theorem merge_paths:
  assumes "wf_dict us" "wf_deep us" "recursive_dict_update ori us none = (res, None)"
    and "path_get us p = Some v" "\<not> is_PDict v" "v \<noteq> PNone \<or> none" "\<not> touched us q"
  shows "path_get res p = Some v \<and> path_get res q = path_get ori q"
  using rdu_path_new [OF assms(1-6)] rdu_path_old [OF assms(1-3,7)] by simp

theorem merge_paths_witness:
  "path_get (fst (recursive_dict_update [(''a'', PDict [(''x'', PInt 1), (''y'', PInt 2)])]
      [(''a'', PDict [(''x'', PInt 3)])] True)) [''a'', ''x''] = Some (PInt 3) \<and>
   path_get (fst (recursive_dict_update [(''a'', PDict [(''x'', PInt 1), (''y'', PInt 2)])]
      [(''a'', PDict [(''x'', PInt 3)])] True)) [''a'', ''y''] = Some (PInt 2)"
proof -
  let ?ori = "[(''a'', PDict [(''x'', PInt 1), (''y'', PInt 2)])]" and ?us = "[(''a'', PDict [(''x'', PInt 3)])]"
  have wf: "wf_dict ?us" "wf_deep ?us" by (simp_all add: wf_dict_def)
  have run: "recursive_dict_update ?ori ?us True = (fst (recursive_dict_update ?ori ?us True), None)"
    by code_simp
  from merge_paths [OF wf run, of "[''a'', ''x'']" "PInt 3" "[''a'', ''y'']"] show ?thesis by simp
qed

section \<open>Secrets and configuration files\<close>

text \<open>
  Hiding the secrets of plugin configurations and revealing them again gives the same
  configurations, if no secret was hidden before; and the hidden configurations contain no plain
  secret.
\<close>

theorem secrets_round_trip:
  assumes "all_plain pcs"
  shows "plugin_configs_secrets_to_plain (plugin_configs_plain_to_secret pcs) = pcs \<and>
    all_secret (plugin_configs_plain_to_secret pcs)"
  using plain_secret_plain [OF assms] all_secret_plain_to_secret by simp

theorem secrets_round_trip_witness:
  "plugin_configs_plain_to_secret [(''kelvin'', [(''password'', PStr ''x''), (''username'', PStr ''u'')])] =
     [(''kelvin'', [(''password'', PSecret ''x''), (''username'', PStr ''u'')])] \<and>
   plugin_configs_secrets_to_plain [(''kelvin'', [(''password'', PSecret ''x''), (''username'', PStr ''u'')])] =
     [(''kelvin'', [(''password'', PStr ''x''), (''username'', PStr ''u'')])]"
proof -
  let ?pcs = "[(''kelvin'', [(''password'', PStr ''x''), (''username'', PStr ''u'')])]"
  have hidden: "plugin_configs_plain_to_secret ?pcs =
      [(''kelvin'', [(''password'', PSecret ''x''), (''username'', PStr ''u'')])]"
    by code_simp
  have "all_plain ?pcs" by (simp add: all_plain_def)
  from secrets_round_trip [OF this] hidden show ?thesis by simp
qed

text \<open>
  C35: A configuration that is saved and loaded again from the same file is the same configuration,
  with its secrets hidden, if the JSON text is read back.
\<close>

theorem saved_configuration_loads:
  assumes "valid_config sa" "reads_back_config env coerce (plain_config sa)"
    and "save_school_authority env sa n cfg = (Inr (), cfg')"
  shows "load_school_authority env coerce cfg' n = Inr sa"
  using assms by (rule save_then_load)

definition ex_config :: school_authority where
  "ex_config = ex_sa\<lparr>sa_plugin_configs := [(''kelvin'', [(''password'', PSecret ''x'')])]\<rparr>"

definition ex_config_env :: "(string \<times> pydict) list env" where
  "ex_config_env = ex_env\<lparr>env_dumps := (\<lambda>_. Inr ''sa''), env_loads := (\<lambda>_. Inr (PDict (sa_dict (plain_config ex_config))))\<rparr>"

theorem saved_configuration_loads_witness:
  "\<exists>cfg'. save_school_authority ex_config_env ex_config ''T1.json'' [] = (Inr (), cfg') \<and>
    load_school_authority ex_config_env (\<lambda>_. Inr (plain_config ex_config)) cfg' ''T1.json'' = Inr ex_config"
proof -
  have valid: "valid_config ex_config" by code_simp
  have reads: "reads_back_config ex_config_env (\<lambda>_. Inr (plain_config ex_config)) (plain_config ex_config)"
    by (simp add: reads_back_config_def ex_config_env_def)
  have save: "save_school_authority ex_config_env ex_config ''T1.json'' [] = (Inr (), [(''T1.json'', File ''sa'')])"
    by (simp add: save_school_authority_def ex_config_env_def)
  from saved_configuration_loads [OF valid reads save] save show ?thesis by blast
qed

section \<open>The running service\<close>

text \<open>
  Every request of the HTTP API, whether it succeeds or fails, keeps the invariant of the service:
  out queues have different names, which are those of their school authorities, and the in queue
  distributes to exactly the queues the service has.
\<close>

theorem requests_keep_service_consistent:
  assumes "keeps_name co" "service_inv sv"
  shows "service_inv (snd (handle_request env co timestamp rq sv))"
  using preservesD [OF inv_handle_request [OF assms(1)] assms(2)] .

definition ex_coercions :: coercions where
  "ex_coercions = \<lparr>co_school_authority = (\<lambda>d. bindE (object_str d ''name'') (\<lambda>n.
       Inr (ex_sa\<lparr>sa_name := n, sa_active := (map_of d ''active'' \<noteq> Some (PBool False))\<rparr>))),
     co_patch_document = (\<lambda>d. Inr \<lparr>pd_active = Some False, pd_url = None, pd_plugins = None,
       pd_plugin_configs = (if map_of d ''plugin_configs'' = None then None else Some [])\<rparr>),
     co_mapping = (\<lambda>d. Inr [])\<rparr>"

definition ex_service :: "(string \<times> pydict) list service" where
  "ex_service = \<lparr>sv_in_queue = ex_in_queue\<lparr>iq_out_queues := [ex_out_queue]\<rparr>, sv_out_queues = [ex_out_queue],
     sv_shared = True, sv_config = [], sv_mapping = None, sv_out_dirs = [], sv_out_trash = [],
     sv_handlers = [(''kelvin'', [((''T1'', ''kelvin''), ex_sa)])], sv_scheduler = True\<rparr>"

definition ex_patch :: rpc_request where
  "ex_patch = \<lparr>rq_cmd = patch_school_authority, rq_name = ''T1'',
     rq_school_authority = [(''active'', PBool False), (''plugin_configs'', PDict [])],
     rq_school_to_authority_mapping = []\<rparr>"

lemma ex_keeps_name: "keeps_name ex_coercions"
  by (auto simp: keeps_name_def ex_coercions_def object_str_def)

lemma ex_service_inv: "service_inv ex_service"
  by (simp add: service_inv_def ex_service_def ex_out_queue_def from_school_authority_def)

theorem requests_keep_service_consistent_witness:
  "service_inv (snd (handle_request ex_env ex_coercions ''t'' ex_patch ex_service))"
  by (rule requests_keep_service_consistent [OF ex_keeps_name ex_service_inv])

text \<open>
  A service that starts, on configurations with different names, starts in a state that satisfies
  the invariant.
\<close>

theorem started_service_consistent:
  assumes "start_service env co renv cfg mapping_file dirs in_dir db handlers = Inr (Some sv)"
    and "load_school_authorities env (co_school_authority co) cfg = Inr sas" "distinct (map sa_name sas)"
  shows "service_inv sv"
  using assms by (rule start_service_inv)

definition ex_start_env :: "(string \<times> pydict) list env" where
  "ex_start_env = ex_env\<lparr>env_loads := (\<lambda>_. Inr (PDict [(''name'', PStr ''T1'')]))\<rparr>"

theorem started_service_consistent_witness:
  "\<exists>sv. start_service ex_start_env ex_coercions ex_environ [(''T1.json'', File ''sa'')] None [] empty_dir [] [] =
      Inr (Some sv) \<and> service_inv sv \<and> map oq_name (sv_out_queues sv) = [''T1'']"
proof -
  let ?start = "start_service ex_start_env ex_coercions ex_environ [(''T1.json'', File ''sa'')] None [] empty_dir [] []"
  have "case ?start of Inr (Some sv) \<Rightarrow> map oq_name (sv_out_queues sv) = [''T1''] | _ \<Rightarrow> False" by code_simp
  then obtain sv where sv: "?start = Inr (Some sv)" "map oq_name (sv_out_queues sv) = [''T1'']"
    by (auto split: sum.splits option.splits)
  have "load_school_authorities ex_start_env (co_school_authority ex_coercions) [(''T1.json'', File ''sa'')] = Inr [ex_sa]"
    by code_simp
  from started_service_consistent [OF sv(1) this] sv show ?thesis by simp
qed



text \<open>
  C40: A patch without plugin configurations is refused with a \<open>ValueError\<close>, although all fields of a
  patch are optional: the missing value is merged as \<open>None\<close> over a dictionary. By then the task of the
  queue has been stopped, and it stays stopped.
\<close>

theorem patch_without_configs_refused:
  assumes "new_patch_document co (rq_school_authority rq) = Inr pd" "pd_plugin_configs pd = None"
    and "find_authority (rq_name rq) (sv_out_queues sv) = Some q"
  shows "patch_school_authority_rq env co rq sv = (Inl ValueErr, change_queue (oq_name q) stop_task sv)"
  using assms by (rule patch_without_configs_fails)

theorem patch_without_configs_refused_witness:
  "fst (patch_school_authority_rq ex_env ex_coercions
     (ex_patch\<lparr>rq_school_authority := [(''active'', PBool False)]\<rparr>) ex_service) = Inl ValueErr"
proof -
  let ?rq = "ex_patch\<lparr>rq_school_authority := [(''active'', PBool False)]\<rparr>"
  have pd: "new_patch_document ex_coercions (rq_school_authority ?rq) =
      Inr \<lparr>pd_active = Some False, pd_url = None, pd_plugins = None, pd_plugin_configs = None\<rparr>"
    by code_simp
  have q: "find_authority (rq_name ?rq) (sv_out_queues ex_service) = Some ex_out_queue"
    by (simp add: find_authority_def ex_service_def ex_patch_def ex_sa_def)
  from patch_without_configs_refused [OF pd _ q] show ?thesis by simp
qed

section \<open>Plugins\<close>

text \<open>
  The plugins a hook is called for are the configured ones that implement it; only if none of them
  does, the default plugin is called instead.
\<close>

theorem plugins_selected:
  assumes "wf_dict reg"
  shows "set (filter_plugins reg h ps) =
    (if \<exists>p \<in> set ps. h \<in> set (hookcallers reg p) then {p \<in> set ps. h \<in> set (hookcallers reg p)}
     else {p. p = DEFAULT_PLUGIN \<and> h \<in> set (hookcallers reg p)})"
  using assms by (rule set_filter_plugins)

theorem plugins_selected_witness:
  "set (filter_plugins [(''kelvin'', [''shutdown'']), (''other'', [''ping''])] ''shutdown'' [''other'']) = {''kelvin''}"
proof -
  have "wf_dict [(''kelvin'', [''shutdown'']), (''other'', [''ping''])]" by code_simp
  from plugins_selected [OF this, of "''shutdown''" "[''other'']"] show ?thesis
    by (simp add: DEFAULT_PLUGIN_def)
qed

text \<open>
  The schools of the target system that a handler works with are never older than the time to
  live of its cache, and they are the ones it remembers afterwards.
\<close>

theorem schools_are_fresh:
  assumes "schools_ids_on_target now fetch (h, w) = (Inr d, h', w')"
  shows "d = h_schools h' \<and> now - h_schools_created h' \<le> API_SCHOOL_CACHE_TTL"
  using schools_fresh [OF assms] by simp

theorem schools_are_fresh_witness:
  "\<exists>h' w'. schools_ids_on_target 1000 (\<lambda>_ w. (Inr [(''A'', ''url'')], Suc w)) (new_handler ex_sa ''kelvin'', 0) =
      (Inr [(''A'', ''url'')], h', w') \<and> 1000 - h_schools_created h' \<le> 600"
proof -
  let ?h = "new_handler ex_sa ''kelvin''"
  have run: "schools_ids_on_target 1000 (\<lambda>_ w. (Inr [(''A'', ''url'')], Suc w)) (?h, 0) =
      (Inr [(''A'', ''url'')], ?h\<lparr>h_schools := [(''A'', ''url'')], h_schools_created := 1000\<rparr>, 1)"
    by (simp add: schools_ids_on_target_def refresh_schools_def new_handler_def)
  from schools_are_fresh [OF run] run show ?thesis by (simp add: API_SCHOOL_CACHE_TTL_def)
qed

end
