(* ===== verification/Kelvin_Connection.thy ===== *)
theory Kelvin_Connection
  imports Handler_Base Dn_Regex
begin

text \<open>
  \<open>kelvin_connection.py\<close> and what the handlers of users and of school classes share: reading from and
  writing to the target system of a handler. Reading depends on the world and leaves it as it is. An
  object of the API is the dictionary of its attributes.
\<close>

section \<open>Connection\<close>

record session =
  se_username :: pyval
  se_password :: string
  se_host :: string

fun get_secret_value :: "pyval \<Rightarrow> exn + string" where
  "get_secret_value (PSecret s) = Inr s"
| "get_secret_value _ = Inl AttributeErr"

text \<open>\<open>set_ssl\<close> sets the options of the plugin configuration in an SSL context.\<close>

definition kelvin_client_session ::
    "(pydict \<Rightarrow> exn + unit) \<Rightarrow> school_authority \<Rightarrow> string \<Rightarrow> exn + session" where
  "kelvin_client_session set_ssl sa plugin_name =
     (case re_match False kelvin_url_regex (sa_url sa) of
        None \<Rightarrow> Inl ValueErr
      | Some g \<Rightarrow>
          (case map_of g ''host'' of
             None \<Rightarrow> Inl (KeyErr ''host'')
           | Some host \<Rightarrow>
               (case map_of (sa_plugin_configs sa) plugin_name of
                  None \<Rightarrow> Inl ValueErr
                | Some pc \<Rightarrow>
                    (case (map_of pc ''username'', map_of pc ''password'') of
                       (Some user, Some p) \<Rightarrow>
                         bindE (get_secret_value p) (\<lambda>secret.
                         bindE (case map_of pc ''ssl_context'' of
                                  None \<Rightarrow> Inr ()
                                | Some (PDict d) \<Rightarrow> set_ssl d
                                | Some _ \<Rightarrow> Inl AttributeErr) (\<lambda>_.
                         Inr \<lparr>se_username = user, se_password = secret, se_host = host\<rparr>))
                     | _ \<Rightarrow> Inl ValueErr))))"

section \<open>Reading and writing\<close>

text \<open>Reading the target: the world stays as it is.\<close>

definition reading :: "(base_handler \<Rightarrow> 'w \<Rightarrow> exn + 'a) \<Rightarrow> ('w, 'a) hm" where
  "reading f s = (f (fst s) (snd s), s)"

text \<open>
  The world of a handler that asks which schools its school authority handles: the class-level copy of
  the school to authority mapping, once it has been loaded, and the target system.
\<close>

type_synonym 'w kelvin_world = "school_mapping option \<times> 'w"

definition look :: "(base_handler \<Rightarrow> 'w \<Rightarrow> exn + 'a) \<Rightarrow> ('w kelvin_world, 'a) hm" where
  "look f = reading (\<lambda>h w. f h (snd w))"

definition world_handled_schools :: "exn + school_mapping \<Rightarrow> ('w kelvin_world, string list) hm" where
  "world_handled_schools load s =
     (case school_2_school_authority_mapping load (fst (snd s)) of
        (Inl e, m) \<Rightarrow> (Inl e, fst s, m, snd (snd s))
      | (Inr mapping, m) \<Rightarrow>
          (handled_schools (sa_name (h_school_authority (fst s))) mapping, fst s, m, snd (snd s)))"

definition plugin_config :: "base_handler \<Rightarrow> exn + pydict" where
  "plugin_config h =
     (case map_of (sa_plugin_configs (h_school_authority h)) (h_plugin_name h) of
        None \<Rightarrow> Inl (KeyErr (h_plugin_name h))
      | Some pc \<Rightarrow> Inr pc)"

definition names_dict :: "string list \<Rightarrow> id_cache" where
  "names_dict ns = fold (\<lambda>n d. AList.update n n d) ns []"

definition attribute :: "pydict \<Rightarrow> string \<Rightarrow> exn + pyval" where
  "attribute d k = (case map_of d k of None \<Rightarrow> Inl AttributeErr | Some v \<Rightarrow> Inr v)"

definition set_attributes :: "pydict \<Rightarrow> pydict \<Rightarrow> pydict" where
  "set_attributes request_body c = fold (\<lambda>(k, v) d. AList.update k v d) request_body c"

definition lower_keys :: "id_cache \<Rightarrow> id_cache" where
  "lower_keys ids = fold (\<lambda>(k, v) d. AList.update (lower k) v d) ids []"

section \<open>What changes the target\<close>

text \<open>A computation that leaves what is \<open>visible\<close> of the world as it is.\<close>

definition keeps :: "('w \<Rightarrow> 'v) \<Rightarrow> ('w, 'a) hm \<Rightarrow> bool" where
  "keeps visible m \<longleftrightarrow> (\<forall>s. visible (snd (snd (m s))) = visible (snd s))"

named_theorems keeps \<open>computations that change nothing visible\<close>

lemma keepsD: "keeps v m \<Longrightarrow> m s = (r, s') \<Longrightarrow> v (snd s') = v (snd s)"
  by (metis keeps_def snd_conv)

lemma keeps_basic [keeps]:
  "keeps v (ret x)" "keeps v (throw e)" "keeps v (lift r)" "keeps v (reading f)"
  by (simp_all add: keeps_def reading_def)

lemma keeps_bindM [keeps]:
  assumes "keeps v m" and "\<And>x. keeps v (f x)"
  shows "keeps v (bindM m f)"
  unfolding keeps_def
proof
  fix s
  obtain r s1 where s1: "m s = (r, s1)" by (metis surj_pair)
  have "v (snd (snd (f x s1))) = v (snd s1)" for x
    using assms(2) [of x] unfolding keeps_def by blast
  with keepsD [OF assms(1) s1] s1 show "v (snd (snd (bindM m f s))) = v (snd s)"
    by (cases r) (simp_all add: bindM_apply)
qed

lemma keeps_schools:
  assumes "\<And>h w. v (snd (fetch h w)) = v w"
  shows "keeps v (schools_ids_on_target now fetch)"
  using assms
  by (auto simp: keeps_def schools_ids_on_target_def refresh_schools_def Let_def
      split: prod.split sum.split) (metis snd_conv)+

lemma keeps_roles:
  assumes "\<And>h w. v (snd (fetch h w)) = v w"
  shows "keeps v (roles_on_target fetch)"
  using assms
  by (auto simp: keeps_def roles_on_target_def refresh_roles_def Let_def
      split: prod.split sum.split) (metis snd_conv)+

text \<open>Mapping attributes changes something only if a special attribute does.\<close>

lemma map_attributes_keeps:
  assumes "\<And>k meth. mp_special mp k = Some meth \<Longrightarrow> keeps v (meth obj)"
  shows "keeps v (map_attributes mp obj mapping res)"
proof (induction mapping arbitrary: res)
  case Nil
  show ?case by (simp add: keeps_def)
next
  case (Cons kk mapping)
  obtain k k' where kk: "kk = (k, k')" by (cases kk)
  have here: "keeps v (value_here mp k obj)"
    using assms [of k] by (cases "mp_special mp k") (simp_all add: keeps_def value_here_def)
  show ?case
    unfolding keeps_def
  proof
    fix s :: "base_handler \<times> 'a"
    obtain r s1 where s1: "value_here mp k obj s = (r, s1)" by (metis surj_pair)
    have w: "v (snd s1) = v (snd s)" using keepsD [OF here s1] .
    have rest: "v (snd (snd (map_attributes mp obj mapping res' s1))) = v (snd s)" for res'
      using spec [OF Cons.IH [of res', unfolded keeps_def], of s1] w by simp
    show "v (snd (snd (map_attributes mp obj (kk # mapping) res s))) = v (snd s)"
      using w rest by (auto simp: kk s1 split: sum.split prod.split option.split)
  qed
qed

lemma keeps_look [keeps]: "keeps v (look f)"
  by (simp add: look_def keeps)

lemma keeps_mapM [keeps]:
  assumes "\<And>x. keeps v (f x)" shows "keeps v (mapM f xs)"
proof (induction xs)
  case Nil
  show ?case by (simp add: keeps_def)
next
  case (Cons x xs)
  have "mapM f (x # xs) = bindM (f x) (\<lambda>y. bindM (mapM f xs) (\<lambda>ys. ret (y # ys)))"
    by (rule ext) (auto simp: bindM_apply split: prod.split sum.split)
  then show ?case using assms Cons by (auto intro!: keeps)
qed

lemma keeps_handled [keeps]: "keeps snd (world_handled_schools load)"
  by (auto simp: keeps_def world_handled_schools_def split: prod.split sum.split)

end
