(* ===== verification/Kelvin_Users.thy ===== *)
theory Kelvin_Users
  imports Kelvin_Connection
begin

text \<open>
  \<open>user_handler_base.py\<close> and \<open>users_kelvin.py\<close>: users are sent to the Kelvin API of a school
  authority. The client library of the API, \<open>parse_dn\<close> of ldap3, the order \<open>random.shuffle\<close> leaves,
  the source UID of the import configuration and the content of the mapping file are the parameter
  \<open>user_client\<close>.
\<close>

record 'w user_client =
  uc_schools :: "base_handler \<Rightarrow> 'w \<Rightarrow> exn + string list"
  uc_roles :: "base_handler \<Rightarrow> 'w \<Rightarrow> exn + string list"
  uc_search :: "base_handler \<Rightarrow> pydict \<Rightarrow> 'w \<Rightarrow> exn + pydict list"
  uc_get :: "base_handler \<Rightarrow> pyval \<Rightarrow> 'w \<Rightarrow> exn + pydict"
  uc_exists :: "base_handler \<Rightarrow> string \<Rightarrow> 'w \<Rightarrow> exn + bool"
  uc_new :: "base_handler \<Rightarrow> pydict \<Rightarrow> exn + pydict"
  uc_save :: "base_handler \<Rightarrow> pydict \<Rightarrow> ('w, unit) st"
  uc_delete :: "base_handler \<Rightarrow> pydict \<Rightarrow> ('w, unit) st"
  uc_first_rdn :: "string \<Rightarrow> exn + string"
  uc_shuffle :: "'w \<Rightarrow> string \<Rightarrow> string"
  uc_source_uid :: string
  uc_mapping :: "exn + school_mapping"

definition act :: "(base_handler \<Rightarrow> ('w, 'a) st) \<Rightarrow> ('w kelvin_world, 'a) hm" where
  "act f = on_world (\<lambda>h w. case f h (snd w) of (r, w') \<Rightarrow> (r, fst w, w'))"

section \<open>The handler\<close>

definition new_user_handler ::
    "(pydict \<Rightarrow> exn + unit) \<Rightarrow> environ \<Rightarrow> school_authority \<Rightarrow> string \<Rightarrow> exn + base_handler" where
  "new_user_handler set_ssl renv sa plugin_name =
     bindE (school_class_dn_regex renv) (\<lambda>_.
       case map_of (sa_plugin_configs sa) plugin_name of
         None \<Rightarrow> Inl (KeyErr plugin_name)
       | Some pc \<Rightarrow>
           (case map_of pc ''mapping'' of
              None \<Rightarrow> Inl (KeyErr ''mapping'')
            | Some v \<Rightarrow>
                bindE (kelvin_client_session set_ssl sa plugin_name) (\<lambda>_.
                Inr ((new_handler sa plugin_name)\<lparr>h_attribute_mapping := v\<rparr>))))"

definition fetch_user_schools :: "'w user_client \<Rightarrow> base_handler \<Rightarrow> ('w kelvin_world, id_cache) st" where
  "fetch_user_schools kc h w = (bindE (uc_schools kc h (snd w)) (\<lambda>ns. Inr (names_dict ns)), w)"

definition fetch_user_roles :: "'w user_client \<Rightarrow> base_handler \<Rightarrow> ('w kelvin_world, id_cache) st" where
  "fetch_user_roles kc h w = (bindE (uc_roles kc h (snd w)) (\<lambda>ns. Inr (names_dict ns)), w)"

abbreviation user_schools_on_target :: "int \<Rightarrow> 'w user_client \<Rightarrow> ('w kelvin_world, id_cache) hm" where
  "user_schools_on_target now kc \<equiv> schools_ids_on_target now (fetch_user_schools kc)"

definition sync_password_hashes :: "base_handler \<Rightarrow> exn + bool" where
  "sync_password_hashes h =
     bindE (plugin_config h) (\<lambda>pc. Inr (case map_of pc ''sync_password_hashes'' of None \<Rightarrow> False | Some v \<Rightarrow> truthy v))"

section \<open>Searching\<close>

fun user_old_data_of :: "listener_object \<Rightarrow> user_old_data option" where
  "user_old_data_of (ListenerUserAddModifyObject u) = um_old_data u"
| "user_old_data_of (ListenerUserRemoveObject u) = ur_old_data u"
| "user_old_data_of _ = None"

text \<open>
  The parameters start empty for a removed user, whose ids are in its old data only; reading one that
  is not there is a \<open>KeyError\<close>.
\<close>

definition user_params :: "string \<Rightarrow> listener_object \<Rightarrow> exn + pydict" where
  "user_params own_uid obj =
     bindE (case obj of
         ListenerUserAddModifyObject u \<Rightarrow>
           bindE (record_uid u) (\<lambda>r. bindE (source_uid u) (\<lambda>s.
             Inr [(''entryUUID'', PStr (id_of obj)), (''record_uid'', opt_str_val r), (''source_uid'', opt_str_val s)]))
       | _ \<Rightarrow> Inr [(''entryUUID'', PStr (id_of obj))]) (\<lambda>params.
     let params' = (case user_old_data_of obj of
           None \<Rightarrow> params
         | Some n \<Rightarrow>
             let p1 = (case uo_record_uid n of Some (c # cs) \<Rightarrow> AList.update ''record_uid'' (PStr (c # cs)) params
                       | _ \<Rightarrow> params)
             in (case uo_source_uid n of Some (c # cs) \<Rightarrow> AList.update ''source_uid'' (PStr (c # cs)) p1
                 | _ \<Rightarrow> p1))
     in (case map_of params' ''source_uid'' of
           None \<Rightarrow> Inl (KeyErr ''source_uid'')
         | Some v \<Rightarrow> Inr (AList.update ''source_uid'' (if truthy v then v else PStr own_uid) params')))"

definition user_search_params :: "'w user_client \<Rightarrow> listener_object \<Rightarrow> ('w kelvin_world, pydict) hm" where
  "user_search_params kc obj =
     lift (bindE (user_params (uc_source_uid kc) obj) (\<lambda>res.
       case (map_of res ''record_uid'', map_of res ''source_uid'') of
         (None, _) \<Rightarrow> Inl (KeyErr ''record_uid'')
       | (_, None) \<Rightarrow> Inl (KeyErr ''source_uid'')
       | (Some r, Some s) \<Rightarrow> Inr [(''record_uid'', r), (''source_uid'', s)]))"

definition fetch_user :: "'w user_client \<Rightarrow> pydict \<Rightarrow> ('w kelvin_world, pydict) hm" where
  "fetch_user kc params =
     bindM (look (\<lambda>h. uc_search kc h params)) (\<lambda>users.
       case users of
         [u] \<Rightarrow> ret u
       | [] \<Rightarrow> throw UserNotFoundError
       | _ \<Rightarrow> throw UniquenessError)"

section \<open>Creating, modifying, removing\<close>

definition contains :: "string \<Rightarrow> string \<Rightarrow> bool" where
  "contains sub s = (\<exists>i \<in> set [0..<Suc (length s)]. take (length sub) (drop i s) = sub)"

text \<open>The DNs of a list of users whose user exists in the target.\<close>

fun existing :: "'w user_client \<Rightarrow> string list \<Rightarrow> ('w kelvin_world, string list) hm" where
  "existing kc [] = ret []"
| "existing kc (dn # dns) =
     bindM (lift (uc_first_rdn kc dn)) (\<lambda>uid.
     bindM (look (\<lambda>h. uc_exists kc h uid)) (\<lambda>b.
     bindM (existing kc dns) (\<lambda>rest. ret (if b then dn # rest else rest))))"

definition retry_without :: "'w user_client \<Rightarrow> string \<Rightarrow> pydict \<Rightarrow> ('w kelvin_world, unit) hm" where
  "retry_without kc k user =
     bindM (lift (bindE (attribute user k) str_list)) (\<lambda>old.
     bindM (existing kc old) (\<lambda>dns.
     act (\<lambda>h. uc_save kc h (AList.update k (PList (map PStr dns)) user))))"

definition save_user_with_retry :: "'w user_client \<Rightarrow> pydict \<Rightarrow> ('w kelvin_world, unit) hm" where
  "save_user_with_retry kc user =
     catchM (act (\<lambda>h. uc_save kc h user)) (\<lambda>e.
       case e of
         InvalidRequest reason \<Rightarrow>
           if contains ''legal_guardians'' reason then retry_without kc ''legal_guardians'' user
           else if contains ''legal_wards'' reason then retry_without kc ''legal_wards'' user
           else throw e
       | _ \<Rightarrow> throw e)"

definition do_create_user :: "'w user_client \<Rightarrow> pydict \<Rightarrow> ('w kelvin_world, unit) hm" where
  "do_create_user kc request_body =
     (case map_of request_body ''name'' of
        None \<Rightarrow> throw (KeyErr ''name'')
      | Some _ \<Rightarrow> bindM (look (\<lambda>h _. uc_new kc h request_body)) (save_user_with_retry kc))"

definition get_user :: "'w user_client \<Rightarrow> pydict \<Rightarrow> ('w kelvin_world, pydict) hm" where
  "get_user kc api_user_data =
     bindM (lift (attribute api_user_data ''name'')) (\<lambda>name. look (\<lambda>h. uc_get kc h name))"

definition do_modify_user :: "'w user_client \<Rightarrow> pydict \<Rightarrow> pydict \<Rightarrow> ('w kelvin_world, unit) hm" where
  "do_modify_user kc request_body api_user_data =
     bindM (get_user kc api_user_data) (\<lambda>u. save_user_with_retry kc (set_attributes request_body u))"

definition do_remove_user :: "'w user_client \<Rightarrow> listener_object \<Rightarrow> pydict \<Rightarrow> ('w kelvin_world, unit) hm" where
  "do_remove_user kc obj api_user_data =
     bindM (get_user kc api_user_data) (\<lambda>u. act (\<lambda>h. uc_delete kc h u))"

section \<open>Special attributes\<close>

text \<open>
  \<open>strptime(s, "%Y-%m-%d").date()\<close>: a year of four digits, a month of one or two and a day of one or
  two, or of one after a space, that exist.
\<close>

definition py_digit :: "char \<Rightarrow> bool" where
  "py_digit c \<longleftrightarrow> 48 \<le> (of_char c :: nat) \<and> (of_char c :: nat) \<le> 57"

definition number_of :: "string \<Rightarrow> nat" where
  "number_of s = foldl (\<lambda>n c. 10 * n + (of_char c - 48)) 0 s"

definition one_or_two :: "string \<Rightarrow> bool" where
  "one_or_two s \<longleftrightarrow> (length s = 1 \<or> length s = 2) \<and> list_all py_digit s"

definition days_in_month :: "nat \<Rightarrow> nat \<Rightarrow> nat" where
  "days_in_month y m =
     (if m = 2 then (if y mod 4 = 0 \<and> (y mod 100 \<noteq> 0 \<or> y mod 400 = 0) then 29 else 28)
      else if m \<in> {4, 6, 9, 11} then 30 else 31)"

definition strptime_date :: "string \<Rightarrow> exn + pyval" where
  "strptime_date t =
     (case split_on CHR ''-'' t of
        [y, m, d] \<Rightarrow>
          let d' = (case d of c # cs \<Rightarrow> if c = CHR '' '' \<and> length cs = 1 then cs else d | [] \<Rightarrow> d) in
          if length y = 4 \<and> list_all py_digit y \<and> one_or_two m \<and> one_or_two d' \<and>
            1 \<le> number_of y \<and> 1 \<le> number_of m \<and> number_of m \<le> 12 \<and>
            1 \<le> number_of d' \<and> number_of d' \<le> days_in_month (number_of y) (number_of m)
          then Inr (PDate (number_of y) (number_of m) (number_of d')) else Inl ValueErr
      | _ \<Rightarrow> Inl ValueErr)"

definition handle_attr_date :: "string \<Rightarrow> listener_object \<Rightarrow> ('w kelvin_world, pyval) hm" where
  "handle_attr_date k obj =
     (case map_of (object_of obj) k of
        None \<Rightarrow> ret PNone
      | Some v \<Rightarrow>
          if \<not> truthy v then ret PNone
          else (case v of PStr t \<Rightarrow> lift (strptime_date t) | _ \<Rightarrow> throw TypeErr))"

definition handle_attr_disabled :: "listener_object \<Rightarrow> ('w kelvin_world, pyval) hm" where
  "handle_attr_disabled obj =
     (case map_of (object_of obj) ''disabled'' of
        None \<Rightarrow> throw (KeyErr ''disabled'')
      | Some v \<Rightarrow> ret (PBool (v = PBool True \<or> v = PStr ''1'')))"

definition password_chars :: string where
  "password_chars = ''abcdefghijklmnopqrstuvwxyzABCDEFGHIJKLMNOPQRSTUVWXYZ0123456789.-_''"

definition handle_attr_password :: "'w user_client \<Rightarrow> listener_object \<Rightarrow> ('w kelvin_world, pyval) hm" where
  "handle_attr_password kc obj =
     bindM (look (\<lambda>h _. sync_password_hashes h)) (\<lambda>sync.
       if sync then throw SkipAttribute
       else look (\<lambda>h w. Inr (PStr (take 15 (uc_shuffle kc w password_chars)))))"

fun as_user :: "listener_object \<Rightarrow> exn + user_add_mod" where
  "as_user (ListenerUserAddModifyObject u) = Inr u"
| "as_user _ = Inl AttributeErr"

definition handle_attr_roles :: "'w user_client \<Rightarrow> listener_object \<Rightarrow> ('w kelvin_world, pyval) hm" where
  "handle_attr_roles kc obj =
     bindM (lift (bindE (as_user obj) school_user_roles)) (\<lambda>roles.
     bindM (mapM (\<lambda>r. bindM (roles_on_target (fetch_user_roles kc)) (\<lambda>ids.
         case map_of ids (role_value r) of None \<Rightarrow> throw (KeyErr (role_value r)) | Some v \<Rightarrow> ret (PStr v))) roles)
       (\<lambda>vs. ret (PList vs)))"

text \<open>\<open>sorted(set([obj.school] + obj.schools))\<close>, and the ids of those that are known.\<close>

definition all_schools :: "listener_object \<Rightarrow> exn + string \<times> string list" where
  "all_schools obj =
     bindE (as_user obj) (\<lambda>u. bindE (school u) (\<lambda>s. bindE (schools u) (\<lambda>ss.
     Inr (s, sort (remdups (s # ss))))))"

definition known_ids :: "id_cache \<Rightarrow> string list \<Rightarrow> string list" where
  "known_ids ids ss = List.map_filter (\<lambda>s. map_of (lower_keys ids) (lower s)) ss"

definition user_handle_attr_school :: "int \<Rightarrow> 'w user_client \<Rightarrow> listener_object \<Rightarrow> ('w kelvin_world, pyval) hm" where
  "user_handle_attr_school now kc obj =
     bindM (user_schools_on_target now kc) (\<lambda>ids.
     bindM (lift (all_schools obj)) (\<lambda>(s, ss).
       case known_ids ids (s # remove1 s ss) of
         [] \<Rightarrow> throw (UnknownSchool s)
       | v # _ \<Rightarrow> ret (PStr v)))"

definition handle_attr_schools :: "int \<Rightarrow> 'w user_client \<Rightarrow> listener_object \<Rightarrow> ('w kelvin_world, pyval) hm" where
  "handle_attr_schools now kc obj =
     bindM (user_schools_on_target now kc) (\<lambda>ids.
     bindM (lift (all_schools obj)) (\<lambda>(s, ss).
       case known_ids ids ss of
         [] \<Rightarrow> throw (UnknownSchool s)
       | vs \<Rightarrow> ret (PList (map PStr vs))))"

fun collect_classes :: "environ \<Rightarrow> string set \<Rightarrow> string list \<Rightarrow> (string \<times> string list) list \<Rightarrow>
    exn + (string \<times> string list) list" where
  "collect_classes renv known [] res = Inr res"
| "collect_classes renv known (dn # dns) res =
     bindE (match_class_dn renv dn) (\<lambda>m.
       case m of
         None \<Rightarrow> collect_classes renv known dns res
       | Some g \<Rightarrow>
           (case (map_of g ''name'', map_of g ''ou'') of
              (Some name, Some ou) \<Rightarrow>
                collect_classes renv known dns
                  (if lower ou \<in> known
                   then AList.update ou ((case map_of res ou of None \<Rightarrow> [] | Some ns \<Rightarrow> ns) @ [name]) res
                   else res)
            | _ \<Rightarrow> Inl IndexErr))"

definition handle_attr_school_classes ::
    "environ \<Rightarrow> int \<Rightarrow> 'w user_client \<Rightarrow> listener_object \<Rightarrow> ('w kelvin_world, pyval) hm" where
  "handle_attr_school_classes renv now kc obj =
     bindM (user_schools_on_target now kc) (\<lambda>ids.
     bindM (lift (case map_of (object_of obj) ''groups'' of None \<Rightarrow> Inr [] | Some v \<Rightarrow> str_list v)) (\<lambda>dns.
     bindM (lift (collect_classes renv (lower ` fst ` set ids) dns [])) (\<lambda>res.
     ret (PDict (map (\<lambda>(ou, ns). (ou, PList (map PStr ns))) res)))))"

definition handle_attr_source_uid :: "'w user_client \<Rightarrow> listener_object \<Rightarrow> ('w kelvin_world, pyval) hm" where
  "handle_attr_source_uid kc obj =
     bindM (lift (bindE (as_user obj) source_uid)) (\<lambda>s.
     ret (PStr (case s of Some (c # cs) \<Rightarrow> c # cs | _ \<Rightarrow> uc_source_uid kc)))"

section \<open>Mapping the attributes of a user\<close>

definition KELVIN_API_SCHOOL_ATTRIBUTES :: "string set" where
  "KELVIN_API_SCHOOL_ATTRIBUTES = {''name'', ''birthday'', ''disabled'', ''email'', ''expiration_date'',
     ''firstname'', ''lastname'', ''password'', ''record_uid'', ''roles'', ''school'', ''school_classes'',
     ''schools'', ''source_uid'', ''legal_wards'', ''legal_guardians'', ''ucsschool_roles''}"

definition user_mapper :: "environ \<Rightarrow> int \<Rightarrow> 'w user_client \<Rightarrow> 'w kelvin_world mapper" where
  "user_mapper renv now kc =
     \<lparr>mp_special = (\<lambda>k.
        if k = ''birthday'' \<or> k = ''userexpiry'' then Some (handle_attr_date k)
        else if k = ''disabled'' then Some handle_attr_disabled
        else if k = ''password'' then Some (handle_attr_password kc)
        else if k = ''roles'' then Some (handle_attr_roles kc)
        else if k = ''school'' then Some (user_handle_attr_school now kc)
        else if k = ''schools'' then Some (handle_attr_schools now kc)
        else if k = ''school_classes'' then Some (handle_attr_school_classes renv now kc)
        else if k = ''source_uid'' then Some (handle_attr_source_uid kc)
        else None),
      mp_none_value = (\<lambda>k.
        if k = ''birthday'' \<or> k = ''userexpiry'' then Inr PNone
        else if k = ''ucsschoolLegalGuardian'' \<or> k = ''ucsschoolLegalWard'' then Inr (PList [])
        else Inl SkipAttribute),
      mp_structure = (\<lambda>key_here key_there v.
        if key_there \<in> KELVIN_API_SCHOOL_ATTRIBUTES then [(key_there, v)]
        else [(''udm_properties'', PDict [(key_there, v)])])\<rparr>"

definition handle_password_hashes :: "base_handler \<Rightarrow> listener_object \<Rightarrow> exn + pydict" where
  "handle_password_hashes h obj =
     bindE (sync_password_hashes h) (\<lambda>sync.
       case obj of
         ListenerUserAddModifyObject u \<Rightarrow>
           (case (sync, um_user_passwords u) of
              (True, Some p) \<Rightarrow>
                Inr [(''kelvin_password_hashes'', PObj ''PasswordsHashes''
                  [(''user_password'', PList (map PStr (userPassword p))),
                   (''samba_nt_password'', PStr (sambaNTPassword p)),
                   (''krb_5_key'', PList (map PStr (krb5_keys_encoded p))),
                   (''krb5_key_version_number'', PInt (krb5KeyVersionNumber p)),
                   (''samba_pwd_last_set'', PInt (sambaPwdLastSet p))])]
            | _ \<Rightarrow> Inr [])
       | _ \<Rightarrow> Inr [])"

text \<open>The mapping is chosen by the roles the user has in the schools of this school authority.\<close>

definition user_roles_in :: "string list \<Rightarrow> string list \<Rightarrow> string list" where
  "user_roles_in handled roles =
     List.map_filter (\<lambda>s.
       case match_role s of
         None \<Rightarrow> None
       | Some g \<Rightarrow>
           if map_of g ''context_type'' = Some ''school'' \<and>
             (case map_of g ''context'' of None \<Rightarrow> False | Some c \<Rightarrow> lower c \<in> set (map lower handled))
           then map_of g ''role'' else None) roles"

definition mapping_key :: "string list \<Rightarrow> string set \<Rightarrow> string" where
  "mapping_key roles mapping =
     (if ''school_admin'' \<in> set roles \<and> ''users_school_admin'' \<in> mapping then ''users_school_admin''
      else if ''staff'' \<in> set roles \<and> ''users_staff'' \<in> mapping then ''users_staff''
      else if ''teacher'' \<in> set roles \<and> ''users_teacher'' \<in> mapping then ''users_teacher''
      else if ''legal_guardian'' \<in> set roles \<and> ''users_legal_guardian'' \<in> mapping then ''users_legal_guardian''
      else if ''student'' \<in> set roles \<and> ''users_student'' \<in> mapping then ''users_student''
      else ''users'')"

definition get_role_specific_mapping ::
    "'w user_client \<Rightarrow> exn + string list \<Rightarrow> pydict \<Rightarrow> ('w kelvin_world, (string \<times> string) list) hm" where
  "get_role_specific_mapping kc role_strings mapping =
     bindM (world_handled_schools (uc_mapping kc)) (\<lambda>handled.
     bindM (lift role_strings) (\<lambda>roles.
     let key = mapping_key (user_roles_in handled roles) (keys mapping) in
     case map_of mapping key of
       None \<Rightarrow> throw (KeyErr key)
     | Some (PDict d) \<Rightarrow> lift (str_items d)
     | Some _ \<Rightarrow> throw AttributeErr))"

definition map_user :: "environ \<Rightarrow> int \<Rightarrow> 'w user_client \<Rightarrow> listener_object \<Rightarrow> ('w kelvin_world, pydict) hm" where
  "map_user renv now kc obj =
     bindM (look (\<lambda>h _. case h_attribute_mapping h of PDict m \<Rightarrow> Inr m | _ \<Rightarrow> Inl TypeErr)) (\<lambda>mapping.
     bindM (get_role_specific_mapping kc
         (case map_of (object_of obj) ''ucsschoolRole'' of None \<Rightarrow> Inr [] | Some v \<Rightarrow> str_list v) mapping) (\<lambda>used.
     bindM (map_attributes (user_mapper renv now kc) obj used []) (\<lambda>res.
     bindM (look (\<lambda>h _. handle_password_hashes h obj)) (\<lambda>hashes.
       case recursive_dict_update res hashes True of
         (res', Some e) \<Rightarrow> throw e
       | (res', None) \<Rightarrow> ret res'))))"

section \<open>The dispatcher\<close>

text \<open>Everything but the preconditions of creating a user, which may remove one.\<close>

definition print_user_ids :: "int \<Rightarrow> 'w user_client \<Rightarrow> listener_object \<Rightarrow> ('w kelvin_world, unit) hm" where
  "print_user_ids now kc obj =
     bindM (user_schools_on_target now kc) (\<lambda>_.
     bindM (lift (bindE (as_user obj) (\<lambda>u. bindE (username u) (\<lambda>_. bindE (schools u) (\<lambda>_.
       bindE (record_uid u) (\<lambda>_. source_uid u)))))) (\<lambda>_. ret ()))"

definition user_remover :: "environ \<Rightarrow> int \<Rightarrow> 'w user_client \<Rightarrow> ('w kelvin_world, pydict) dispatcher" where
  "user_remover renv now kc =
     \<lparr>dp_create_preconditions = (\<lambda>_. ret True),
      dp_print_ids = print_user_ids now kc,
      dp_remove_preconditions = (\<lambda>_. ret True),
      dp_map_attributes = map_user renv now kc,
      dp_search_params = user_search_params kc,
      dp_required_search_params = [''record_uid'', ''source_uid''],
      dp_fetch_obj = fetch_user kc,
      dp_do_create = do_create_user kc,
      dp_do_modify = do_modify_user kc,
      dp_do_remove = do_remove_user kc\<rparr>"

text \<open>\<open>handle_has_no_schools\<close>: the object to remove, with the old data or the present one.\<close>

definition removal_of :: "user_add_mod \<Rightarrow> exn + listener_object" where
  "removal_of u =
     bindE (case um_old_data u of
         Some n \<Rightarrow> Inr n
       | None \<Rightarrow>
           bindE (username u) (\<lambda>_. bindE (record_uid u) (\<lambda>r. bindE (source_uid u) (\<lambda>s. bindE (schools u) (\<lambda>ss.
             Inr \<lparr>uo_schools = ss, uo_record_uid = r, uo_source_uid = s\<rparr>))))) (\<lambda>n.
     Inr (ListenerUserRemoveObject
       \<lparr>ur_dn = um_dn u, ur_id = um_id u, ur_udm_object_type = um_udm_object_type u, ur_old_data = Some n\<rparr>))"

definition user_has_schools :: "environ \<Rightarrow> int \<Rightarrow> 'w user_client \<Rightarrow> listener_object \<Rightarrow> ('w kelvin_world, bool) hm"
  where
  "user_has_schools renv now kc obj =
     bindM (user_schools_on_target now kc) (\<lambda>ids.
     bindM (lift (bindE (as_user obj) (\<lambda>u. bindE (schools u) (\<lambda>ss. Inr (u, ss))))) (\<lambda>(u, ss).
       if \<exists>s \<in> set ss. lower s \<in> lower ` fst ` set ids then ret True
       else bindM (lift (removal_of u)) (\<lambda>r.
            bindM (handle_remove (user_remover renv now kc) r) (\<lambda>_. ret False))))"

definition user_dispatcher :: "environ \<Rightarrow> int \<Rightarrow> 'w user_client \<Rightarrow> ('w kelvin_world, pydict) dispatcher" where
  "user_dispatcher renv now kc =
     (user_remover renv now kc)\<lparr>dp_create_preconditions := user_has_schools renv now kc\<rparr>"

text \<open>\<open>UserDispatcherPluginBase.handle_listener_object\<close>: whether the object is a user.\<close>

definition handle_user ::
    "(pydict \<Rightarrow> exn + unit) \<Rightarrow> environ \<Rightarrow> int \<Rightarrow> 'w user_client \<Rightarrow> string \<Rightarrow> school_authority \<Rightarrow>
     listener_object \<Rightarrow> (handlers \<times> 'w kelvin_world, bool) st" where
  "handle_user set_ssl renv now kc plugin_name sa obj =
     (let dp = user_dispatcher renv now kc;
          run = (\<lambda>m. bindM (with_handler (new_user_handler set_ssl renv) sa plugin_name m) (\<lambda>_. ret True))
      in case obj of
           ListenerUserAddModifyObject _ \<Rightarrow> run (handle_create_or_update dp obj)
         | ListenerUserRemoveObject _ \<Rightarrow> run (handle_remove dp obj)
         | _ \<Rightarrow> ret False)"

section \<open>What changes the target\<close>

lemma keeps_user_schools [keeps]: "keeps v (user_schools_on_target now kc)"
  by (rule keeps_schools) (simp add: fetch_user_schools_def)

lemma keeps_user_roles [keeps]: "keeps v (roles_on_target (fetch_user_roles kc))"
  by (rule keeps_roles) (simp add: fetch_user_roles_def)

lemma keeps_search_user [keeps]: "keeps v (user_search_params kc obj)"
  by (simp add: user_search_params_def keeps)

lemma keeps_fetch_user [keeps]: "keeps v (fetch_user kc params)"
  unfolding fetch_user_def by (auto intro!: keeps split: list.split)

lemma keeps_handlers [keeps]:
  "keeps v (handle_attr_date k obj)"
  "keeps v (handle_attr_disabled obj)"
  "keeps v (handle_attr_password kc obj)"
  "keeps v (handle_attr_source_uid kc obj)"
  unfolding handle_attr_date_def handle_attr_disabled_def handle_attr_password_def handle_attr_source_uid_def
  by (auto intro!: keeps split: option.split pyval.split)

lemma keeps_roles_handler [keeps]: "keeps v (handle_attr_roles kc obj)"
  unfolding handle_attr_roles_def by (auto intro!: keeps split: option.split)

lemma keeps_school_handlers [keeps]:
  "keeps v (user_handle_attr_school now kc obj)"
  "keeps v (handle_attr_schools now kc obj)"
  "keeps v (handle_attr_school_classes renv now kc obj)"
  unfolding user_handle_attr_school_def handle_attr_schools_def handle_attr_school_classes_def
  by (auto intro!: keeps split: list.split prod.split)

lemma keeps_user_special:
  assumes "mp_special (user_mapper renv now kc) k = Some meth" shows "keeps v (meth obj)"
proof -
  have "meth obj \<in> {handle_attr_date k obj, handle_attr_disabled obj, handle_attr_password kc obj,
      handle_attr_roles kc obj, user_handle_attr_school now kc obj, handle_attr_schools now kc obj,
      handle_attr_school_classes renv now kc obj, handle_attr_source_uid kc obj}"
    using assms by (simp add: user_mapper_def split: if_splits)
  then show ?thesis by (auto intro: keeps)
qed

lemma keeps_role_mapping [keeps]: "keeps snd (get_role_specific_mapping kc roles mapping)"
proof -
  have "keeps snd (case map_of mapping key of None \<Rightarrow> throw (KeyErr key)
      | Some (PDict d) \<Rightarrow> lift (str_items d) | Some _ \<Rightarrow> throw AttributeErr)" for key
    by (auto intro: keeps split: option.split pyval.split)
  then show ?thesis unfolding get_role_specific_mapping_def Let_def by (intro keeps)
qed

lemma keeps_map_user [keeps]: "keeps snd (map_user renv now kc obj)"
proof -
  have "keeps snd (case recursive_dict_update res hashes True of
      (res', Some e) \<Rightarrow> throw e | (res', None) \<Rightarrow> ret res')" for res hashes
    by (auto intro: keeps split: option.split prod.split)
  moreover have "keeps snd (map_attributes (user_mapper renv now kc) obj used [])" for used
    by (rule map_attributes_keeps) (rule keeps_user_special)
  ultimately show ?thesis unfolding map_user_def by (intro keeps)
qed

lemma user_remover_parts:
  "dp_search_params (user_remover renv now kc) = user_search_params kc"
  "dp_fetch_obj (user_remover renv now kc) = fetch_user kc"
  "dp_map_attributes (user_remover renv now kc) = map_user renv now kc"
  "dp_remove_preconditions (user_remover renv now kc) = (\<lambda>_. ret True)"
  by (simp_all add: user_remover_def)

lemma user_dispatcher_parts:
  "dp_search_params (user_dispatcher renv now kc) = user_search_params kc"
  "dp_fetch_obj (user_dispatcher renv now kc) = fetch_user kc"
  "dp_map_attributes (user_dispatcher renv now kc) = map_user renv now kc"
  "dp_remove_preconditions (user_dispatcher renv now kc) = (\<lambda>_. ret True)"
  by (simp_all add: user_dispatcher_def user_remover_parts)

text \<open>The Kelvin users are a target of the base class; what is visible is the target system.\<close>

interpretation user_target: target "user_dispatcher renv now kc" snd
  for renv now and kc :: "'w user_client"
proof (unfold_locales, unfold user_dispatcher_parts)
qed (erule keepsD [where v = snd, rotated], rule keeps)+

interpretation user_removal: target "user_remover renv now kc" snd
  for renv now and kc :: "'w user_client"
proof (unfold_locales, unfold user_remover_parts)
qed (erule keepsD [where v = snd, rotated], rule keeps)+

end
