(* ===== verification/Kelvin_Classes.thy ===== *)
theory Kelvin_Classes
  imports Kelvin_Connection
begin

text \<open>
  \<open>group_handler_base.py\<close> and \<open>school_classes_kelvin.py\<close>: school classes are sent to the Kelvin API
  of a school authority. The client library of the API is the parameter \<open>class_client\<close>. \<open>now\<close> is
  the time of the operation, \<open>renv\<close> the environment the DN pattern is built from.
\<close>

section \<open>The handler of school classes\<close>

record 'w class_client =
  cc_schools :: "base_handler \<Rightarrow> 'w \<Rightarrow> exn + string list"
  cc_search :: "base_handler \<Rightarrow> string \<Rightarrow> string \<Rightarrow> 'w \<Rightarrow> exn + pydict list"
  cc_get :: "base_handler \<Rightarrow> pyval \<Rightarrow> pyval \<Rightarrow> 'w \<Rightarrow> exn + pydict"
  cc_new :: "base_handler \<Rightarrow> pydict \<Rightarrow> exn + pydict"
  cc_save :: "base_handler \<Rightarrow> pydict \<Rightarrow> ('w, unit) st"
  cc_delete :: "base_handler \<Rightarrow> pydict \<Rightarrow> ('w, unit) st"

definition new_class_handler ::
    "(pydict \<Rightarrow> exn + unit) \<Rightarrow> environ \<Rightarrow> school_authority \<Rightarrow> string \<Rightarrow> exn + base_handler" where
  "new_class_handler set_ssl renv sa plugin_name =
     (case map_of (sa_plugin_configs sa) plugin_name of
        None \<Rightarrow> Inl (KeyErr plugin_name)
      | Some pc \<Rightarrow>
          (case map_of pc ''mapping'' of
             None \<Rightarrow> Inl (KeyErr ''mapping'')
           | Some (PDict m) \<Rightarrow>
               (case map_of m ''school_classes'' of
                  None \<Rightarrow> Inl (KeyErr ''school_classes'')
                | Some v \<Rightarrow>
                    bindE (kelvin_client_session set_ssl sa plugin_name) (\<lambda>_.
                    bindE (school_class_dn_regex renv) (\<lambda>_.
                    Inr ((new_handler sa plugin_name)\<lparr>h_attribute_mapping := v\<rparr>))))
           | Some _ \<Rightarrow> Inl TypeErr))"

definition fetch_schools :: "'w class_client \<Rightarrow> base_handler \<Rightarrow> ('w, id_cache) st" where
  "fetch_schools kc h w = (bindE (cc_schools kc h w) (\<lambda>ns. Inr (names_dict ns)), w)"

definition is_schools_class :: "environ \<Rightarrow> listener_object \<Rightarrow> exn + bool" where
  "is_schools_class renv obj = bindE (match_class_dn renv (dn_of obj)) (\<lambda>m. Inr (m \<noteq> None))"

text \<open>The groups of the match; without one, \<open>m.groupdict()\<close> fails.\<close>

definition class_parts :: "environ \<Rightarrow> listener_object \<Rightarrow> exn + string \<times> string" where
  "class_parts renv obj =
     bindE (match_class_dn renv (dn_of obj)) (\<lambda>m.
       case m of
         None \<Rightarrow> Inl AttributeErr
       | Some g \<Rightarrow>
           (case (map_of g ''name'', map_of g ''ou'') of
              (Some name, Some ou) \<Rightarrow> Inr (name, ou)
            | _ \<Rightarrow> Inl (KeyErr ''ou'')))"

definition school_class_school_exists_on_target ::
    "environ \<Rightarrow> int \<Rightarrow> 'w class_client \<Rightarrow> listener_object \<Rightarrow> ('w, bool) hm" where
  "school_class_school_exists_on_target renv now kc obj =
     bindM (lift (class_parts renv obj)) (\<lambda>(name, ou).
     bindM (schools_ids_on_target now (fetch_schools kc)) (\<lambda>ids.
     ret (lower ou \<in> set (map (\<lambda>(k, _). lower k) ids))))"

text \<open>The preconditions of creating or modifying and of removing a class are the same.\<close>

definition class_preconditions_met ::
    "environ \<Rightarrow> int \<Rightarrow> 'w class_client \<Rightarrow> listener_object \<Rightarrow> ('w, bool) hm" where
  "class_preconditions_met renv now kc obj =
     bindM (lift (is_schools_class renv obj)) (\<lambda>b.
       if \<not> b then ret False else school_class_school_exists_on_target renv now kc obj)"

definition class_search_params :: "environ \<Rightarrow> listener_object \<Rightarrow> ('w, pydict) hm" where
  "class_search_params renv obj =
     bindM (lift (class_parts renv obj)) (\<lambda>(name, ou).
     ret [(''name'', PStr name), (''school'', PStr ou)])"

text \<open>
  The message of the \<open>UniquenessError\<close> names search parameters of users, which are missing here:
  the error that reaches the caller is the \<open>KeyError\<close> of the message.
\<close>

definition fetch_class :: "'w class_client \<Rightarrow> pydict \<Rightarrow> ('w, pydict) hm" where
  "fetch_class kc params =
     bindM (lift (bindE (object_str params ''name'') (\<lambda>n. bindE (object_str params ''school'') (\<lambda>s. Inr (n, s)))))
       (\<lambda>(name, school).
     bindM (reading (\<lambda>h. cc_search kc h name school)) (\<lambda>classes.
       case classes of
         [c] \<Rightarrow> ret c
       | [] \<Rightarrow> throw GroupNotFoundError
       | _ \<Rightarrow> (case map_of params ''source_uid'' of
                None \<Rightarrow> throw (KeyErr ''source_uid'')
              | Some _ \<Rightarrow> throw UniquenessError)))"

definition save_class :: "'w class_client \<Rightarrow> pydict \<Rightarrow> ('w, unit) hm" where
  "save_class kc c =
     catchM (on_world (\<lambda>h. cc_save kc h c)) (\<lambda>e. if e = NoObject then ret () else throw e)"

definition do_create_class :: "'w class_client \<Rightarrow> pydict \<Rightarrow> ('w, unit) hm" where
  "do_create_class kc request_body =
     (case map_of request_body ''name'' of
        None \<Rightarrow> throw (KeyErr ''name'')
      | Some _ \<Rightarrow>
          bindM (reading (\<lambda>h _. cc_new kc h request_body)) (\<lambda>c. save_class kc c))"

definition get_class :: "'w class_client \<Rightarrow> pydict \<Rightarrow> ('w, pydict) hm" where
  "get_class kc api_user_data =
     bindM (lift (attribute api_user_data ''name'')) (\<lambda>name.
     bindM (lift (attribute api_user_data ''school'')) (\<lambda>school.
     reading (\<lambda>h. cc_get kc h name school)))"

definition do_modify_class :: "'w class_client \<Rightarrow> pydict \<Rightarrow> pydict \<Rightarrow> ('w, unit) hm" where
  "do_modify_class kc request_body api_user_data =
     bindM (get_class kc api_user_data) (\<lambda>c. save_class kc (set_attributes request_body c))"

definition do_remove_class :: "'w class_client \<Rightarrow> listener_object \<Rightarrow> pydict \<Rightarrow> ('w, unit) hm" where
  "do_remove_class kc obj api_user_data =
     bindM (get_class kc api_user_data) (\<lambda>c. on_world (\<lambda>h. cc_delete kc h c))"

section \<open>Mapping the attributes of a class\<close>

text \<open>\<open>dn.split(",", 1)[0].split("=", 1)[1]\<close>\<close>

definition rdn_value :: "string \<Rightarrow> exn + string" where
  "rdn_value dn =
     (let rdn = split_head CHR '','' dn in
      if CHR ''='' \<in> set rdn then Inr (tl (dropWhile (\<lambda>c. c \<noteq> CHR ''='') rdn)) else Inl IndexErr)"

definition handle_attr_name :: "environ \<Rightarrow> listener_object \<Rightarrow> ('w, pyval) hm" where
  "handle_attr_name renv obj =
     bindM (lift (class_parts renv obj)) (\<lambda>(name, ou). ret (PStr name))"

definition handle_attr_school ::
    "environ \<Rightarrow> int \<Rightarrow> 'w class_client \<Rightarrow> listener_object \<Rightarrow> ('w, pyval) hm" where
  "handle_attr_school renv now kc obj =
     bindM (schools_ids_on_target now (fetch_schools kc)) (\<lambda>ids.
     bindM (lift (class_parts renv obj)) (\<lambda>(name, ou).
       case map_of (lower_keys ids) (lower ou) of
         None \<Rightarrow> throw (UnknownSchool ou)
       | Some v \<Rightarrow> ret (PStr v)))"

fun users_of :: "listener_object \<Rightarrow> exn + string list" where
  "users_of (ListenerGroupAddModifyObject g) = group_users g"
| "users_of _ = Inl AttributeErr"

definition handle_attr_users :: "listener_object \<Rightarrow> ('w, pyval) hm" where
  "handle_attr_users obj =
     bindM (lift (bindE (users_of obj) (mapE rdn_value))) (\<lambda>us. ret (PList (map PStr us)))"

definition class_mapper :: "environ \<Rightarrow> int \<Rightarrow> 'w class_client \<Rightarrow> 'w mapper" where
  "class_mapper renv now kc =
     \<lparr>mp_special = (\<lambda>k.
        if k = ''name'' then Some (handle_attr_name renv)
        else if k = ''school'' then Some (handle_attr_school renv now kc)
        else if k = ''users'' then Some handle_attr_users
        else None),
      mp_none_value = (\<lambda>_. Inl SkipAttribute),
      mp_structure = (\<lambda>key_here key_there v. [(key_there, v)])\<rparr>"

definition map_with :: "'w mapper \<Rightarrow> listener_object \<Rightarrow> ('w, pydict) hm" where
  "map_with mp obj s =
     (case h_attribute_mapping (fst s) of
        PDict d \<Rightarrow>
          (case str_items d of
             Inl e \<Rightarrow> (Inl e, s)
           | Inr mapping \<Rightarrow> map_attributes mp obj mapping [] s)
      | _ \<Rightarrow> (Inl AttributeErr, s))"

definition map_class :: "environ \<Rightarrow> int \<Rightarrow> 'w class_client \<Rightarrow> listener_object \<Rightarrow> ('w, pydict) hm" where
  "map_class renv now kc = map_with (class_mapper renv now kc)"

section \<open>The dispatcher\<close>

definition class_dispatcher :: "environ \<Rightarrow> int \<Rightarrow> 'w class_client \<Rightarrow> ('w, pydict) dispatcher" where
  "class_dispatcher renv now kc =
     \<lparr>dp_create_preconditions = class_preconditions_met renv now kc,
      dp_print_ids = (\<lambda>_. ret ()),
      dp_remove_preconditions = class_preconditions_met renv now kc,
      dp_map_attributes = map_class renv now kc,
      dp_search_params = class_search_params renv,
      dp_required_search_params = [''name''],
      dp_fetch_obj = fetch_class kc,
      dp_do_create = do_create_class kc,
      dp_do_modify = do_modify_class kc,
      dp_do_remove = do_remove_class kc\<rparr>"

text \<open>\<open>GroupDispatcherPluginBase.handle_listener_object\<close>: whether the object is a group.\<close>

definition handle_group_with ::
    "('w, pydict) dispatcher \<Rightarrow> (school_authority \<Rightarrow> string \<Rightarrow> exn + base_handler) \<Rightarrow> string \<Rightarrow> school_authority \<Rightarrow>
     listener_object \<Rightarrow> (handlers \<times> 'w, bool) st" where
  "handle_group_with dp new plugin_name sa obj =
     (let run = (\<lambda>m. bindM (with_handler new sa plugin_name m) (\<lambda>_. ret True))
      in case obj of
           ListenerGroupAddModifyObject _ \<Rightarrow> run (handle_create_or_update dp obj)
         | ListenerGroupRemoveObject _ \<Rightarrow> run (handle_remove dp obj)
         | _ \<Rightarrow> ret False)"

definition handle_group ::
    "(pydict \<Rightarrow> exn + unit) \<Rightarrow> environ \<Rightarrow> int \<Rightarrow> 'w class_client \<Rightarrow> string \<Rightarrow> school_authority \<Rightarrow>
     listener_object \<Rightarrow> (handlers \<times> 'w, bool) st" where
  "handle_group set_ssl renv now kc =
     handle_group_with (class_dispatcher renv now kc) (new_class_handler set_ssl renv)"

section \<open>What changes the target\<close>

lemma keeps_class_schools [keeps]: "keeps v (schools_ids_on_target now (fetch_schools kc))"
  by (rule keeps_schools) (simp add: fetch_schools_def)

lemma keeps_class_search [keeps]: "keeps v (class_search_params renv obj)"
  unfolding class_search_params_def by (auto intro!: keeps split: prod.split)

lemma keeps_class_pre [keeps]: "keeps v (class_preconditions_met renv now kc obj)"
  unfolding class_preconditions_met_def school_class_school_exists_on_target_def
  by (auto intro!: keeps split: prod.split)

lemma keeps_fetch_class [keeps]: "keeps v (fetch_class kc params)"
  unfolding fetch_class_def by (auto intro!: keeps split: prod.split list.split option.split)

lemma keeps_class_special:
  assumes "mp_special (class_mapper renv now kc) k = Some meth" shows "keeps v (meth obj)"
  using assms
  by (auto simp: class_mapper_def handle_attr_name_def handle_attr_school_def handle_attr_users_def
      intro!: keeps split: if_splits prod.split option.split)

lemma keeps_map_with:
  assumes "\<And>k meth. mp_special mp k = Some meth \<Longrightarrow> keeps v (meth obj)"
  shows "keeps v (map_with mp obj)"
proof -
  have "keeps v (map_attributes mp obj mapping [])" for mapping
    using assms by (rule map_attributes_keeps)
  then show ?thesis
    by (auto simp: keeps_def map_with_def split: pyval.split sum.split)
qed

lemma keeps_map_class [keeps]: "keeps v (map_class renv now kc obj)"
  unfolding map_class_def by (rule keeps_map_with) (rule keeps_class_special)

text \<open>So school classes are a target of the base class: searching and mapping change nothing there.\<close>

interpretation class_target: target "class_dispatcher renv now kc" "\<lambda>w. w"
  for renv now and kc :: "'w class_client"
  by unfold_locales
    (simp_all add: class_dispatcher_def keepsD [OF keeps_class_search, where v = "\<lambda>w. w"]
      keepsD [OF keeps_fetch_class, where v = "\<lambda>w. w"] keepsD [OF keeps_map_class, where v = "\<lambda>w. w"]
      keepsD [OF keeps_class_pre, where v = "\<lambda>w. w"])

end
