(* ===== verification/Kelvin_Plugin.thy ===== *)
theory Kelvin_Plugin
  imports Kelvin_Users Kelvin_Classes
begin

text \<open>
  \<open>kelvin_handlers.py\<close> and \<open>kelvin_partial_group_sync_handlers.py\<close>: the two plugins that are
  registered, each of which hands users and school classes on to a dispatcher of its own. The second
  one leaves the members of a class alone that have certain roles or are not known here. The LDAP
  search for a user is a parameter: the name and the roles of the user, if there is one.
\<close>

section \<open>Partial synchronisation of school classes\<close>

record 'w partial_client =
  pc_class :: "'w kelvin_world class_client"
  pc_get_user :: "string \<Rightarrow> 'w \<Rightarrow> exn + (string \<times> string list) option"
  pc_mapping :: "exn + school_mapping"

definition roles_to_ignore :: "base_handler \<Rightarrow> exn + string list" where
  "roles_to_ignore h =
     bindE (plugin_config h) (\<lambda>pc.
       case map_of pc ''school_classes_ignore_roles'' of None \<Rightarrow> Inr [] | Some v \<Rightarrow> str_list v)"

text \<open>The roles in the schools of this school authority.\<close>

definition roles_handled :: "string list \<Rightarrow> string list \<Rightarrow> string list" where
  "roles_handled handled roles =
     List.map_filter (\<lambda>s.
       case match_role s of
         None \<Rightarrow> None
       | Some g \<Rightarrow>
           if map_of g ''context_type'' = Some ''school'' \<and>
             (case map_of g ''context'' of None \<Rightarrow> False | Some c \<Rightarrow> lower c \<in> set handled)
           then map_of g ''role'' else None) roles"

definition check_user_ignore :: "'w partial_client \<Rightarrow> string list \<Rightarrow> ('w kelvin_world, bool) hm" where
  "check_user_ignore pc roles =
     bindM (world_handled_schools (pc_mapping pc)) (\<lambda>handled.
     bindM (look (\<lambda>h _. roles_to_ignore h)) (\<lambda>ignore.
     ret (set ignore \<inter> set (roles_handled handled roles) \<noteq> {})))"

definition get_remote_usernames :: "'w partial_client \<Rightarrow> string \<Rightarrow> string \<Rightarrow> ('w kelvin_world, string list) hm" where
  "get_remote_usernames pc name ou =
     catchM
       (bindM (reading (\<lambda>h. cc_get (pc_class pc) h (PStr name) (PStr ou))) (\<lambda>c.
        lift (bindE (attribute c ''users'') str_list)))
       (\<lambda>e. if e = NoObject then ret [] else throw e)"

text \<open>\<open>school, name = obj.object["name"].split("-", 1)\<close>\<close>

definition school_and_name :: "listener_object \<Rightarrow> exn + string \<times> string" where
  "school_and_name obj =
     bindE (object_str (object_of obj) ''name'') (\<lambda>n.
       if CHR ''-'' \<in> set n
       then Inr (takeWhile (\<lambda>c. c \<noteq> CHR ''-'') n, tl (dropWhile (\<lambda>c. c \<noteq> CHR ''-'') n))
       else Inl ValueErr)"

text \<open>
  The names of the users that are ignored; a user that was not found is \<open>None\<close>, whose attributes
  cannot be read.
\<close>

fun ignored_users ::
    "'w partial_client \<Rightarrow> (string \<times> string list) option list \<Rightarrow> ('w kelvin_world, string list) hm" where
  "ignored_users pc [] = ret []"
| "ignored_users pc (None # us) = throw AttributeErr"
| "ignored_users pc (Some (n, roles) # us) =
     bindM (check_user_ignore pc roles) (\<lambda>b.
     bindM (ignored_users pc us) (\<lambda>ns. ret (if b then n # ns else ns)))"

definition get_users :: "'w partial_client \<Rightarrow> string list \<Rightarrow> ('w kelvin_world, (string \<times> string list) option list) hm"
  where
  "get_users pc = mapM (\<lambda>n. look (\<lambda>_. pc_get_user pc n))"

text \<open>The members are a set; they are listed in the order of their first occurrence here.\<close>

definition partial_handle_attr_users :: "'w partial_client \<Rightarrow> listener_object \<Rightarrow> ('w kelvin_world, pyval) hm" where
  "partial_handle_attr_users pc obj =
     bindM (lift (school_and_name obj)) (\<lambda>(ou, name).
     bindM (lift (bindE (users_of obj) (mapE rdn_value))) (\<lambda>local_usernames.
     bindM (get_users pc local_usernames) (\<lambda>local_users.
     bindM (ignored_users pc local_users) (\<lambda>local_ignore.
     bindM (get_remote_usernames pc name ou) (\<lambda>remote_usernames.
     bindM (get_users pc remote_usernames) (\<lambda>remote_users.
     bindM (ignored_users pc (filter (\<lambda>u. u \<noteq> None) remote_users)) (\<lambda>remote_keep.
     ret (PList (map PStr (remdups
       (filter (\<lambda>n. n \<notin> set local_ignore) local_usernames @ remote_keep @
        map fst (filter (\<lambda>(n, u). u = None) (zip remote_usernames remote_users)))))))))))))"

definition partial_mapper :: "environ \<Rightarrow> int \<Rightarrow> 'w partial_client \<Rightarrow> 'w kelvin_world mapper" where
  "partial_mapper renv now pc =
     (class_mapper renv now (pc_class pc))\<lparr>mp_special := (\<lambda>k.
        if k = ''users'' then Some (partial_handle_attr_users pc)
        else mp_special (class_mapper renv now (pc_class pc)) k)\<rparr>"

definition partial_class_dispatcher ::
    "environ \<Rightarrow> int \<Rightarrow> 'w partial_client \<Rightarrow> ('w kelvin_world, pydict) dispatcher" where
  "partial_class_dispatcher renv now pc =
     (class_dispatcher renv now (pc_class pc))\<lparr>dp_map_attributes := map_with (partial_mapper renv now pc)\<rparr>"

section \<open>The registered plugins\<close>

text \<open>
  A plugin has the dictionary \<open>_per_s_a_handlers\<close> of its base class, and so have the dispatchers of
  users and of school classes that it creates.
\<close>

record kelvin_plugin =
  kp_per_s_a_handlers :: handlers
  kp_user_handlers :: handlers
  kp_class_handlers :: handlers

definition new_plugin :: kelvin_plugin where
  "new_plugin = \<lparr>kp_per_s_a_handlers = [], kp_user_handlers = [], kp_class_handlers = []\<rparr>"

type_synonym ('w, 'a) plugin_st = "(kelvin_plugin \<times> 'w, 'a) st"

definition with_user_handlers :: "(handlers \<times> 'w, 'a) st \<Rightarrow> ('w, 'a) plugin_st" where
  "with_user_handlers m s =
     (case m (kp_user_handlers (fst s), snd s) of (r, hs, w) \<Rightarrow> (r, (fst s)\<lparr>kp_user_handlers := hs\<rparr>, w))"

definition with_class_handlers :: "(handlers \<times> 'w, 'a) st \<Rightarrow> ('w, 'a) plugin_st" where
  "with_class_handlers m s =
     (case m (kp_class_handlers (fst s), snd s) of (r, hs, w) \<Rightarrow> (r, (fst s)\<lparr>kp_class_handlers := hs\<rparr>, w))"

text \<open>\<open>handle_listener_object\<close>, which is the same in both plugins but for the dispatchers.\<close>

definition plugin_handle ::
    "(school_authority \<Rightarrow> listener_object \<Rightarrow> (handlers \<times> 'w, bool) st) \<Rightarrow>
     (school_authority \<Rightarrow> listener_object \<Rightarrow> (handlers \<times> 'w, bool) st) \<Rightarrow>
     school_authority \<Rightarrow> listener_object \<Rightarrow> ('w, bool) plugin_st" where
  "plugin_handle users classes sa obj =
     (case obj of
        ListenerUserAddModifyObject _ \<Rightarrow> with_user_handlers (users sa obj)
      | ListenerUserRemoveObject _ \<Rightarrow> with_user_handlers (users sa obj)
      | ListenerGroupAddModifyObject _ \<Rightarrow> with_class_handlers (classes sa obj)
      | ListenerGroupRemoveObject _ \<Rightarrow> with_class_handlers (classes sa obj))"

definition kelvin_handle ::
    "(pydict \<Rightarrow> exn + unit) \<Rightarrow> environ \<Rightarrow> int \<Rightarrow> 'w user_client \<Rightarrow> 'w kelvin_world class_client \<Rightarrow>
     school_authority \<Rightarrow> listener_object \<Rightarrow> ('w kelvin_world, bool) plugin_st" where
  "kelvin_handle set_ssl renv now uc cc =
     plugin_handle (handle_user set_ssl renv now uc ''kelvin'') (handle_group set_ssl renv now cc ''kelvin'')"

definition partial_handle ::
    "(pydict \<Rightarrow> exn + unit) \<Rightarrow> environ \<Rightarrow> int \<Rightarrow> 'w user_client \<Rightarrow> 'w partial_client \<Rightarrow>
     school_authority \<Rightarrow> listener_object \<Rightarrow> ('w kelvin_world, bool) plugin_st" where
  "partial_handle set_ssl renv now uc pc =
     plugin_handle (handle_user set_ssl renv now uc ''kelvin-partial-group-sync'')
       (handle_group_with (partial_class_dispatcher renv now pc) (new_class_handler set_ssl renv)
          ''kelvin-partial-group-sync'')"

definition kelvin_ping ::
    "(pydict \<Rightarrow> exn + unit) \<Rightarrow> environ \<Rightarrow> 'w user_client \<Rightarrow> string \<Rightarrow> school_authority \<Rightarrow>
     ('w kelvin_world, bool) plugin_st" where
  "kelvin_ping set_ssl renv uc plugin_name sa =
     with_user_handlers (school_authority_ping (fetch_user_roles uc) (fetch_user_schools uc)
       (new_user_handler set_ssl renv) plugin_name sa)"

text \<open>What \<open>rpc.py\<close> deletes when a school authority is changed: \<open>plugin._per_s_a_handlers[key]\<close>.\<close>

definition forget_plugin_handler :: "string \<Rightarrow> string \<Rightarrow> kelvin_plugin \<Rightarrow> kelvin_plugin" where
  "forget_plugin_handler name plugin_name p =
     p\<lparr>kp_per_s_a_handlers := AList.delete (name, plugin_name) (kp_per_s_a_handlers p)\<rparr>"

section \<open>Who is a member after a partial synchronisation\<close>

text \<open>Looking up users reads the target system only; the mapping has been loaded before.\<close>

lemma get_users_at: "get_users pc ns (h, c, w) = (mapE (\<lambda>n. pc_get_user pc n w) ns, h, c, w)"
  unfolding get_users_def
  by (induction ns) (simp_all add: look_def reading_def bindE_def split: sum.split)

lemma get_remote_usernames_at: "\<exists>r. get_remote_usernames pc name ou s = (r, s)"
  by (auto simp: get_remote_usernames_def catchM_def bindM_apply reading_def split: sum.split)

definition ignored_here :: "string list \<Rightarrow> string list \<Rightarrow> string list \<Rightarrow> bool" where
  "ignored_here ignore handled roles \<longleftrightarrow> set ignore \<inter> set (roles_handled handled roles) \<noteq> {}"

lemma check_user_ignore_at:
  assumes "handled_schools (sa_name (h_school_authority h)) m = Inr handled" and "roles_to_ignore h = Inr ignore"
  shows "check_user_ignore pc roles (h, Some m, w) = (Inr (ignored_here ignore handled roles), h, Some m, w)"
  using assms
  by (simp add: check_user_ignore_def world_handled_schools_def school_2_school_authority_mapping_def
      look_def reading_def bindM_apply ignored_here_def)

lemma ignored_users_at:
  assumes "handled_schools (sa_name (h_school_authority h)) m = Inr handled" and "roles_to_ignore h = Inr ignore"
  shows "ignored_users pc us (h, Some m, w) =
    (if None \<in> set us then Inl AttributeErr
     else Inr (map fst (filter (\<lambda>(n, roles). ignored_here ignore handled roles) (map the us))), h, Some m, w)"
  by (induction pc us rule: ignored_users.induct)
    (auto simp: bindM_apply check_user_ignore_at [OF assms])

text \<open>A name is left alone if no user has it here, or one whose roles are ignored.\<close>

definition left_alone :: "'w partial_client \<Rightarrow> 'w \<Rightarrow> string list \<Rightarrow> string list \<Rightarrow> string \<Rightarrow> bool" where
  "left_alone pc w ignore handled n \<longleftrightarrow>
     (case pc_get_user pc n w of
        Inl _ \<Rightarrow> False
      | Inr None \<Rightarrow> True
      | Inr (Some (_, roles)) \<Rightarrow> ignored_here ignore handled roles)"

text \<open>The search by a user name finds the user of that name.\<close>

definition finds_by_name :: "'w partial_client \<Rightarrow> 'w \<Rightarrow> bool" where
  "finds_by_name pc w \<longleftrightarrow>
     (\<forall>n n' roles. pc_get_user pc n w = Inr (Some (n', roles)) \<longrightarrow> n' = n)"

lemma found_users:
  assumes "mapE (\<lambda>n. pc_get_user pc n w) ns = Inr us"
    and "finds_by_name pc w"
  shows "map fst (filter (\<lambda>(n, u). u = None) (zip ns us)) = filter (\<lambda>n. pc_get_user pc n w = Inr None) ns"
    and "None \<in> set us \<longleftrightarrow> (\<exists>n \<in> set ns. pc_get_user pc n w = Inr None)"
    and "map fst (filter (\<lambda>(n, roles). ignored_here ignore handled roles) (map the (filter (\<lambda>u. u \<noteq> None) us))) =
      filter (\<lambda>n. pc_get_user pc n w \<noteq> Inr None \<and> left_alone pc w ignore handled n) ns"
  using mapE_InrD [OF assms(1)]
  by (induction rule: list_all2_induct) (use assms(2) in \<open>auto simp: left_alone_def finds_by_name_def split: if_splits\<close>)

lemma partial_members:
  assumes "handled_schools (sa_name (h_school_authority h)) m = Inr handled" and "roles_to_ignore h = Inr ignore"
    and name: "finds_by_name pc w"
    and run: "partial_handle_attr_users pc obj (h, Some m, w) = (Inr v, s')"
  shows "\<exists>ou name local remote ns. school_and_name obj = Inr (ou, name) \<and>
    bindE (users_of obj) (mapE rdn_value) = Inr local \<and>
    fst (get_remote_usernames pc name ou (h, Some m, w)) = Inr remote \<and>
    v = PList (map PStr ns) \<and> distinct ns \<and>
    (\<forall>n. n \<in> set ns \<longleftrightarrow> (if left_alone pc w ignore handled n then n \<in> set remote else n \<in> set local))"
proof -
  let ?s = "(h, Some m, w)"
  note at = get_users_at ignored_users_at [OF assms(1, 2)] bindM_apply
  obtain ou name where n: "school_and_name obj = Inr (ou, name)"
    using run by (auto simp: partial_handle_attr_users_def bindM_apply split: sum.splits)
  obtain local where l: "bindE (users_of obj) (mapE rdn_value) = Inr local"
    using run n by (auto simp: partial_handle_attr_users_def bindM_apply split: sum.splits)
  obtain lus where lus: "mapE (\<lambda>n. pc_get_user pc n w) local = Inr lus"
    using run n l by (auto simp: partial_handle_attr_users_def at split: sum.splits)
  have all: "None \<notin> set lus"
    using run n l lus by (auto simp: partial_handle_attr_users_def at split: if_splits)
  obtain remote where r: "get_remote_usernames pc name ou ?s = (Inr remote, ?s)"
    using run n l lus all get_remote_usernames_at [of pc name ou ?s]
    by (auto simp: partial_handle_attr_users_def at split: sum.splits)
  obtain rus where rus: "mapE (\<lambda>n. pc_get_user pc n w) remote = Inr rus"
    using run n l lus all r by (auto simp: partial_handle_attr_users_def at split: sum.splits)
  have same: "filter (\<lambda>u. u \<noteq> None) lus = lus"
  proof (rule filter_True, rule ballI, rule notI)
    fix u assume "u \<in> set lus" "u = None"
    with all show False by simp
  qed
  have known: "pc_get_user pc n w \<noteq> Inr None" if "n \<in> set local" for n
    using that all found_users(2) [OF lus name] by blast
  define ns where "ns = remdups (filter (\<lambda>n. n \<notin> set (filter (\<lambda>n. pc_get_user pc n w \<noteq> Inr None \<and>
      left_alone pc w ignore handled n) local)) local @
    filter (\<lambda>n. pc_get_user pc n w \<noteq> Inr None \<and> left_alone pc w ignore handled n) remote @
    filter (\<lambda>n. pc_get_user pc n w = Inr None) remote)"
  have "v = PList (map PStr ns)"
    using run n l lus all r rus found_users(1) [OF rus name] found_users(3) [OF rus name, of ignore handled]
      found_users(3) [OF lus name, of ignore handled, unfolded same]
    by (simp add: partial_handle_attr_users_def at ns_def)
  moreover have "n \<in> set ns \<longleftrightarrow> (if left_alone pc w ignore handled n then n \<in> set remote else n \<in> set local)" for n
    using known [of n] by (auto simp: ns_def left_alone_def)
  moreover have "distinct ns" by (simp add: ns_def)
  ultimately show ?thesis using n l r by auto
qed

section \<open>What changes the target\<close>

lemma keeps_get_users [keeps]: "keeps v (get_users pc ns)"
  unfolding get_users_def by (intro keeps)

lemma keeps_remote_usernames [keeps]: "keeps v (get_remote_usernames pc name ou)"
  using get_remote_usernames_at [of pc name ou] unfolding keeps_def by (metis snd_conv)

lemma keeps_check_user_ignore [keeps]: "keeps snd (check_user_ignore pc roles)"
  unfolding check_user_ignore_def by (intro keeps)

lemma keeps_ignored_users [keeps]: "keeps snd (ignored_users pc us)"
  by (induction pc us rule: ignored_users.induct)
    (simp_all only: ignored_users.simps, (intro keeps | assumption)+)

lemma keeps_partial_users [keeps]: "keeps snd (partial_handle_attr_users pc obj)"
  unfolding partial_handle_attr_users_def by (auto intro!: keeps split: prod.split)

lemma keeps_partial_map [keeps]: "keeps snd (map_with (partial_mapper renv now pc) obj)"
proof (rule keeps_map_with)
  fix k meth assume "mp_special (partial_mapper renv now pc) k = Some meth"
  then have "meth = partial_handle_attr_users pc \<or>
      mp_special (class_mapper renv now (pc_class pc)) k = Some meth"
    by (auto simp: partial_mapper_def split: if_splits)
  then show "keeps snd (meth obj)" using keeps_partial_users keeps_class_special by blast
qed

lemma partial_dispatcher_parts:
  "dp_search_params (partial_class_dispatcher renv now pc) = class_search_params renv"
  "dp_fetch_obj (partial_class_dispatcher renv now pc) = fetch_class (pc_class pc)"
  "dp_map_attributes (partial_class_dispatcher renv now pc) = map_with (partial_mapper renv now pc)"
  "dp_remove_preconditions (partial_class_dispatcher renv now pc) =
    class_preconditions_met renv now (pc_class pc)"
  by (simp_all add: partial_class_dispatcher_def class_dispatcher_def)

interpretation partial_target: target "partial_class_dispatcher renv now pc" snd
  for renv now and pc :: "'w partial_client"
proof (unfold_locales, unfold partial_dispatcher_parts)
qed (erule keepsD [where v = snd, rotated], rule keeps)+

section \<open>Handlers outlive their configuration\<close>

text \<open>
  A handler that exists is used with the configuration it was built with; and what \<open>rpc.py\<close> deletes
  is not where the dispatchers of the plugin keep their handlers.
\<close>

lemma with_handler_cached:
  assumes "map_of (fst s) (handler_key sa plugin_name) = Some h" and "sa_name sa' = sa_name sa"
  shows "with_handler new sa' plugin_name m s = with_handler new sa plugin_name m s"
  using assms by (simp add: with_handler_def get_handler_def handler_key_def)

lemma handle_user_cached:
  assumes "map_of (fst s) (sa_name sa, plugin_name) = Some h" and "sa_name sa' = sa_name sa"
  shows "handle_user set_ssl renv now uc plugin_name sa' obj s = handle_user set_ssl renv now uc plugin_name sa obj s"
  using assms
  by (cases obj) (simp_all add: handle_user_def Let_def bindM_apply handler_key_def
      with_handler_cached [of s sa plugin_name h sa'])

lemma handle_group_cached:
  assumes "map_of (fst s) (sa_name sa, plugin_name) = Some h" and "sa_name sa' = sa_name sa"
  shows "handle_group_with dp new plugin_name sa' obj s = handle_group_with dp new plugin_name sa obj s"
  using assms
  by (cases obj) (simp_all add: handle_group_with_def Let_def bindM_apply handler_key_def
      with_handler_cached [of s sa plugin_name h sa'])

lemma kelvin_handle_cached:
  assumes "map_of (kp_user_handlers p) (sa_name sa, ''kelvin'') \<noteq> None"
    and "map_of (kp_class_handlers p) (sa_name sa, ''kelvin'') \<noteq> None" and "sa_name sa' = sa_name sa"
  shows "kelvin_handle set_ssl renv now uc cc sa' obj (p, w) = kelvin_handle set_ssl renv now uc cc sa obj (p, w)"
proof -
  obtain h g where "map_of (kp_user_handlers p) (sa_name sa, ''kelvin'') = Some h"
    "map_of (kp_class_handlers p) (sa_name sa, ''kelvin'') = Some g" using assms(1, 2) by blast
  then show ?thesis
    using handle_user_cached [of "(kp_user_handlers p, w)" sa "''kelvin''" h sa']
      handle_group_cached [of "(kp_class_handlers p, w)" sa "''kelvin''" g sa'] assms(3)
    by (simp add: kelvin_handle_def plugin_handle_def with_user_handlers_def with_class_handlers_def
        handle_group_def split: listener_object.split)
qed

lemma kelvin_handle_own:
  "kp_per_s_a_handlers (fst (snd (kelvin_handle set_ssl renv now uc cc sa obj s))) =
    kp_per_s_a_handlers (fst s)"
  by (simp add: kelvin_handle_def plugin_handle_def with_user_handlers_def with_class_handlers_def
      split: listener_object.split prod.split)

end
