(* ===== verification/Kelvin_Properties.thy ===== *)
theory Kelvin_Properties
  imports Kelvin_Plugin Instances
begin

text \<open>
  Properties of the plugins that send users and school classes to the Kelvin API of a school
  authority, from the interpretations of the base class's locale, with a target system that is a list
  of its users or classes as instance.
\<close>

section \<open>Users\<close>


definition ex_user_client :: "pydict list user_client" where
  "ex_user_client =
     \<lparr>uc_schools = (\<lambda>h w. Inr [''A'']), uc_roles = (\<lambda>h w. Inr [''student'']),
      uc_search = (\<lambda>h params w. Inr (filter (\<lambda>u. map_of u ''record_uid'' = map_of params ''record_uid'') w)),
      uc_get = (\<lambda>h n w. case List.find (\<lambda>u. map_of u ''name'' = Some n) w of None \<Rightarrow> Inl NoObject | Some u \<Rightarrow> Inr u),
      uc_exists = (\<lambda>h n w. Inr False), uc_new = (\<lambda>h d. Inr d), uc_save = (\<lambda>h u w. (Inr (), u # w)),
      uc_delete = (\<lambda>h u w. (Inr (), remove1 u w)), uc_first_rdn = Inr, uc_shuffle = (\<lambda>w s. s),
      uc_source_uid = ''s'', uc_mapping = Inr [(''A'', ''T1'')]\<rparr>"

definition ex_handler :: base_handler where
  "ex_handler =
     (new_handler (ex_sa\<lparr>sa_plugin_configs := [(''kelvin'', [])]\<rparr>) ''kelvin'')\<lparr>h_attribute_mapping :=
       PDict [(''users'', PDict [(''username'', PStr ''name''), (''record_uid'', PStr ''record_uid'')])]\<rparr>"

definition ex_kelvin_user :: listener_object where
  "ex_kelvin_user = ListenerUserAddModifyObject (ex_user\<lparr>um_object :=
     [(''username'', PStr ''max''), (''record_uid'', PStr ''r1''), (''source_uid'', PStr ''s1''),
      (''ucsschoolRecordUID'', PStr ''r1''), (''ucsschoolSourceUID'', PStr ''s1'')]\<rparr>)"




section \<open>School classes\<close>

text \<open>
  C9: Handling a removed school class changes the target system only if the search there found the
  class; then the class found is the one that is removed.
\<close>

theorem class_removed_if_found:
  assumes "handle_remove (class_dispatcher renv now kc) obj s = (r, s')" "snd s' \<noteq> snd s"
  shows "\<exists>s1 s2 remote. exists_on_target (class_dispatcher renv now kc) obj s1 = (Inr (Some remote), s2) \<and>
    do_remove_class kc obj remote s2 = (r, s') \<and> snd s2 = snd s"
  using class_target.remove_only_found [OF assms] by (simp add: class_dispatcher_def)

definition ex_class_client :: "pydict list class_client" where
  "ex_class_client =
     \<lparr>cc_schools = (\<lambda>h w. Inr [''A'']),
      cc_search = (\<lambda>h n s w. Inr (filter (\<lambda>c. map_of c ''name'' = Some (PStr n)) w)),
      cc_get = (\<lambda>h n s w. case List.find (\<lambda>c. map_of c ''name'' = Some n) w of None \<Rightarrow> Inl NoObject | Some c \<Rightarrow> Inr c),
      cc_new = (\<lambda>h d. Inr d), cc_save = (\<lambda>h c w. (Inr (), c # w)), cc_delete = (\<lambda>h c w. (Inr (), remove1 c w))\<rparr>"

definition ex_removed_class :: listener_object where
  "ex_removed_class = ListenerGroupRemoveObject
     \<lparr>gr_dn = gm_dn ex_group, gr_id = ''g1'', gr_udm_object_type = ''groups/group'', gr_old_data = None\<rparr>"

definition ex_class :: pydict where
  "ex_class = [(''name'', PStr ''1a''), (''school'', PStr ''A'')]"

lemma ex_class_removed:
  "snd (snd (handle_remove (class_dispatcher ex_environ 0 ex_class_client) ex_removed_class (ex_handler, [ex_class]))) = []"
  by code_simp

theorem class_removed_if_found_witness:
  "\<exists>s1 s2 remote. exists_on_target (class_dispatcher ex_environ 0 ex_class_client) ex_removed_class s1 =
    (Inr (Some remote), s2) \<and> snd s2 = [ex_class]"
proof -
  obtain r s' where run: "handle_remove (class_dispatcher ex_environ 0 ex_class_client) ex_removed_class
      (ex_handler, [ex_class]) = (r, s')" by (metis surj_pair)
  have "snd s' \<noteq> snd (ex_handler, [ex_class])" using ex_class_removed unfolding run by simp
  from class_removed_if_found [OF run this] show ?thesis by auto
qed

section \<open>Partial synchronisation\<close>

text \<open>
  C10: The members that the partial synchronisation sends for a class: a user who is unknown here, or has
  one of the ignored roles in a school of this school authority, is a member exactly if the target has
  that user in the class already; every other user is a member exactly if it is one here. No name
  occurs twice.
\<close>

theorem partial_sync_members:
  assumes "handled_schools (sa_name (h_school_authority h)) m = Inr ours" "roles_to_ignore h = Inr ignore"
    and "finds_by_name pc w" "partial_handle_attr_users pc obj (h, Some m, w) = (Inr v, s')"
  shows "\<exists>ou name local remote ns. school_and_name obj = Inr (ou, name) \<and>
    bindE (users_of obj) (mapE rdn_value) = Inr local \<and>
    fst (get_remote_usernames pc name ou (h, Some m, w)) = Inr remote \<and>
    v = PList (map PStr ns) \<and> distinct ns \<and>
    (\<forall>n. n \<in> set ns \<longleftrightarrow> (if left_alone pc w ignore ours n then n \<in> set remote else n \<in> set local))"
  using assms by (rule partial_members)

definition ex_get_user :: "string \<Rightarrow> pydict list \<Rightarrow> exn + (string \<times> string list) option" where
  "ex_get_user n w =
     Inr (if n = ''max'' then Some (n, [''student:school:A''])
          else if n = ''lea'' \<or> n = ''eve'' then Some (n, [''teacher:school:A'']) else None)"

definition ex_world_classes :: "pydict list kelvin_world class_client" where
  "ex_world_classes =
     \<lparr>cc_schools = (\<lambda>h w. Inr [''A'']), cc_search = (\<lambda>h n s w. Inr (snd w)),
      cc_get = (\<lambda>h n s w. Inr [(''users'', PList [PStr ''bob'', PStr ''eve''])]),
      cc_new = (\<lambda>h d. Inr d), cc_save = (\<lambda>h c w. (Inr (), fst w, c # snd w)),
      cc_delete = (\<lambda>h c w. (Inr (), fst w, remove1 c (snd w)))\<rparr>"

definition ex_partial :: "pydict list partial_client" where
  "ex_partial = \<lparr>pc_class = ex_world_classes, pc_get_user = ex_get_user, pc_mapping = Inr [(''A'', ''T1'')]\<rparr>"

definition ex_partial_handler :: base_handler where
  "ex_partial_handler = new_handler (ex_sa\<lparr>sa_plugin_configs :=
     [(''kelvin'', [(''school_classes_ignore_roles'', PList [PStr ''teacher''])])]\<rparr>) ''kelvin''"

definition ex_partial_class :: listener_object where
  "ex_partial_class = ListenerGroupAddModifyObject (ex_group\<lparr>gm_object :=
     [(''name'', PStr ''A-1a''), (''users'', PList [PStr ''uid=max,dc=x'', PStr ''uid=lea,dc=x''])]\<rparr>)"

lemma ex_partial_run:
  "handled_schools (sa_name (h_school_authority ex_partial_handler)) [(''a'', ''T1'')] = Inr [''a'']"
  "roles_to_ignore ex_partial_handler = Inr [''teacher'']"
  "fst (partial_handle_attr_users ex_partial ex_partial_class (ex_partial_handler, Some [(''a'', ''T1'')], [])) =
    Inr (PList [PStr ''max'', PStr ''eve'', PStr ''bob''])"
  by code_simp+

theorem partial_sync_members_witness:
  "\<exists>ns. fst (partial_handle_attr_users ex_partial ex_partial_class (ex_partial_handler, Some [(''a'', ''T1'')], [])) =
      Inr (PList (map PStr ns)) \<and> distinct ns \<and> ''lea'' \<notin> set ns"
proof -
  have law: "finds_by_name ex_partial []"
    by (simp add: finds_by_name_def ex_partial_def ex_get_user_def)
  obtain s' where run: "partial_handle_attr_users ex_partial ex_partial_class
      (ex_partial_handler, Some [(''a'', ''T1'')], []) = (Inr (PList [PStr ''max'', PStr ''eve'', PStr ''bob'']), s')"
    using ex_partial_run(3) by (metis prod.collapse)
  from partial_sync_members [OF ex_partial_run(1, 2) law run] obtain ns where
    ns: "PList [PStr ''max'', PStr ''eve'', PStr ''bob''] = PList (map PStr ns)" "distinct ns"
    by (elim exE conjE) (rule that)
  from ns(1) have "''lea'' \<notin> set ns" by (cases ns) (auto simp: Cons_eq_map_conv)
  with ns show ?thesis unfolding run by (intro exI [of _ ns]) simp
qed

section \<open>A changed configuration\<close>

text \<open>
  C11: After a school authority has been changed, the Kelvin plugin goes on with the old configuration:
  what \<open>rpc.py\<close> deletes is the entry in the plugin's own dictionary, which nothing ever fills, while
  the handlers its two dispatchers have built are used whatever the configuration is by now.
\<close>

theorem changed_configuration_ignored:
  assumes "map_of (kp_user_handlers p) (sa_name sa, ''kelvin'') \<noteq> None"
    and "map_of (kp_class_handlers p) (sa_name sa, ''kelvin'') \<noteq> None" "sa_name sa' = sa_name sa"
  shows "kelvin_handle set_ssl renv now uc cc sa' obj (forget_plugin_handler (sa_name sa) ''kelvin'' p, w) =
      kelvin_handle set_ssl renv now uc cc sa obj (forget_plugin_handler (sa_name sa) ''kelvin'' p, w) \<and>
    kp_per_s_a_handlers (fst (snd (kelvin_handle set_ssl renv now uc cc sa' obj (p, w)))) = kp_per_s_a_handlers p"
proof -
  have "map_of (kp_user_handlers (forget_plugin_handler (sa_name sa) ''kelvin'' p)) (sa_name sa, ''kelvin'') \<noteq> None"
    "map_of (kp_class_handlers (forget_plugin_handler (sa_name sa) ''kelvin'' p)) (sa_name sa, ''kelvin'') \<noteq> None"
    using assms(1, 2) by (simp_all add: forget_plugin_handler_def)
  from kelvin_handle_cached [OF this assms(3)] show ?thesis by (simp add: kelvin_handle_own)
qed

definition ex_plugin :: kelvin_plugin where
  "ex_plugin = new_plugin\<lparr>kp_user_handlers := [((''T1'', ''kelvin''), ex_handler)],
     kp_class_handlers := [((''T1'', ''kelvin''), ex_partial_handler)]\<rparr>"

theorem changed_configuration_ignored_witness:
  "kelvin_handle (\<lambda>_. Inr ()) ex_environ 0 ex_user_client ex_world_classes (ex_sa\<lparr>sa_url := ''https://new''\<rparr>)
      ex_kelvin_user (forget_plugin_handler ''T1'' ''kelvin'' ex_plugin, None, []) =
    kelvin_handle (\<lambda>_. Inr ()) ex_environ 0 ex_user_client ex_world_classes ex_sa
      ex_kelvin_user (forget_plugin_handler ''T1'' ''kelvin'' ex_plugin, None, [])"
proof -
  have "map_of (kp_user_handlers ex_plugin) (sa_name ex_sa, ''kelvin'') \<noteq> None"
    "map_of (kp_class_handlers ex_plugin) (sa_name ex_sa, ''kelvin'') \<noteq> None"
    "sa_name (ex_sa\<lparr>sa_url := ''https://new''\<rparr>) = sa_name ex_sa"
    by (simp_all add: ex_plugin_def ex_sa_def)
  note same = conjunct1 [OF changed_configuration_ignored [OF this]]
  have "sa_name ex_sa = ''T1''" by (simp add: ex_sa_def)
  from same [unfolded this] show ?thesis .
qed

end
