(* ===== verification/Password_Hook.thy ===== *)
theory Password_Hook
  imports Listener_Objects
begin

text \<open>
  The hook ucsschool_id_connector_password_hook.py, which an administrator of a target system installs into
  its UCS@school import: it takes the password hashes out of the properties of an imported user before the
  user is created or modified, and writes them to the directory afterwards.

  It runs under Python 2, in which text and byte strings of ASCII characters are equal; both are \<open>PStr\<close> here.
  Parameters are the connection to the directory (get and modify) and the text of values that are no
  numbers. The test whether cached hashes are a dictionary cannot fail, as nothing else is cached.
\<close>

section \<open>State\<close>

definition PASSWORD_TARGET_ATTRIBUT :: string where
  "PASSWORD_TARGET_ATTRIBUT = ''ucsschool_id_connector_pw''"

record import_user =
  iu_dn :: string
  iu_record_uid :: string
  iu_udm_properties :: pydict

type_synonym modlist = "(string \<times> pyval list \<times> pyval list) list"

record 'd directory_access =
  da_get :: "string \<Rightarrow> string list \<Rightarrow> 'd \<Rightarrow> exn + (string \<times> pyval list) list"
  da_modify :: "string \<Rightarrow> modlist \<Rightarrow> 'd \<Rightarrow> (exn + unit) \<times> 'd"
  da_str :: "pyval \<Rightarrow> string"

record 'd hook_state =
  hk_password_hashes :: "(string \<times> pydict) list"
  hk_directory :: 'd

section \<open>Before a user is created or modified\<close>

definition store_password_hashes ::
    "string \<Rightarrow> import_user \<times> 'd hook_state \<Rightarrow> (exn + unit) \<times> import_user \<times> 'd hook_state" where
  "store_password_hashes now =
     (\<lambda>(u, h).
        case map_of (iu_udm_properties u) PASSWORD_TARGET_ATTRIBUT of
          None \<Rightarrow> (Inr (), u, h)
        | Some pw_hashes \<Rightarrow>
            let props = AList.delete PASSWORD_TARGET_ATTRIBUT (iu_udm_properties u) in
            case pw_hashes of
              PDict d \<Rightarrow>
                (Inr (),
                 u\<lparr>iu_udm_properties := AList.update ''ucsschool_id_connector_last_update'' (PStr now) props\<rparr>,
                 h\<lparr>hk_password_hashes := AList.update (iu_record_uid u) d (hk_password_hashes h)\<rparr>)
            | _ \<Rightarrow> (Inl TypeErr, u\<lparr>iu_udm_properties := props\<rparr>, h))"

section \<open>Afterwards\<close>

text \<open>The values of one attribute. A key is decoded if its characters are ASCII.\<close>

fun decode_key :: "pyval \<Rightarrow> exn + pyval" where
  "decode_key (PStr s) =
     (if \<forall>c \<in> set s. of_char c < (128 :: nat)
      then case b64decode s of None \<Rightarrow> Inl TypeErr | Some b \<Rightarrow> Inr (PStr b)
      else Inl ValueErr)"
| "decode_key _ = Inl AttributeErr"

fun iterated :: "pyval \<Rightarrow> exn + pyval list" where
  "iterated (PList vs) = Inr vs"
| "iterated (PStr s) = Inr (map (\<lambda>c. PStr [c]) s)"
| "iterated (PDict d) = Inr (map (\<lambda>(k, v). PStr k) d)"
| "iterated _ = Inl TypeErr"

fun as_list :: "pyval \<Rightarrow> pyval list" where
  "as_list (PList vs) = vs"
| "as_list v = [v]"

definition hash_values :: "(pyval \<Rightarrow> string) \<Rightarrow> string \<Rightarrow> pyval \<Rightarrow> exn + pyval list" where
  "hash_values str key v =
     (if key \<in> {''krb5KeyVersionNumber'', ''sambaPwdLastSet''} then Inr [PStr (str v)]
      else if key = ''krb5Key'' then bindE (iterated v) (mapE decode_key)
      else Inr (as_list v))"

fun hashable :: "pyval \<Rightarrow> bool" where
  "hashable (PList _) = False"
| "hashable (PDict _) = False"
| "hashable _ = True"

definition old_values :: "(string \<times> pyval list) list \<Rightarrow> string \<Rightarrow> pyval list" where
  "old_values old_data key = (case map_of old_data key of None \<Rightarrow> [] | Some vs \<Rightarrow> vs)"

definition hash_change ::
    "(pyval \<Rightarrow> string) \<Rightarrow> (string \<times> pyval list) list \<Rightarrow> string \<times> pyval \<Rightarrow> exn + modlist" where
  "hash_change str old_data = (\<lambda>(key, v).
     bindE (hash_values str key v) (\<lambda>vs.
       if \<not> list_all hashable vs then Inl TypeErr
       else if set vs \<subseteq> set (old_values old_data key) then Inr []
       else Inr [(key, old_values old_data key, vs)]))"

definition set_hashes_in_ldap ::
    "'d directory_access \<Rightarrow> bool \<Rightarrow> import_user \<Rightarrow> ('d hook_state, unit) st" where
  "set_hashes_in_ldap da dry_run u h =
     (case map_of (hk_password_hashes h) (iu_record_uid u) of
        None \<Rightarrow> (Inr (), h)
      | Some d \<Rightarrow>
          let h = h\<lparr>hk_password_hashes := AList.delete (iu_record_uid u) (hk_password_hashes h)\<rparr> in
          case bindE (da_get da (iu_dn u) (map fst d) (hk_directory h))
              (\<lambda>old_data. mapE (hash_change (da_str da) old_data) d) of
            Inl e \<Rightarrow> (Inl e, h)
          | Inr changes \<Rightarrow>
              let ml = concat changes in
              if dry_run \<or> ml = [] then (Inr (), h)
              else case da_modify da (iu_dn u) ml (hk_directory h) of
                  (r, dir) \<Rightarrow> (r, h\<lparr>hk_directory := dir\<rparr>))"

section \<open>What reaches the directory\<close>

text \<open>
  A directory that works: \<open>vals\<close> are the values of an attribute of an object; get returns them, modify
  replaces those of the attributes it is given.
\<close>

definition directory_works ::
    "'d directory_access \<Rightarrow> ('d \<Rightarrow> string \<Rightarrow> string \<Rightarrow> pyval list) \<Rightarrow> bool" where
  "directory_works da vals \<longleftrightarrow>
     (\<forall>dn attrs d. \<exists>old. da_get da dn attrs d = Inr old \<and> (\<forall>a \<in> set attrs. old_values old a = vals d dn a)) \<and>
     (\<forall>dn ml d. \<exists>d'. da_modify da dn ml d = (Inr (), d') \<and>
        (\<forall>dn' a. vals d' dn' a =
           (if dn' = dn then case map_of ml a of None \<Rightarrow> vals d dn a | Some (_, vs) \<Rightarrow> vs else vals d dn' a)))"

text \<open>The values of the hashes of a user in the directory.\<close>

definition hash_attributes :: "(pyval \<Rightarrow> string) \<Rightarrow> user_passwords \<Rightarrow> (string \<times> pyval list) list" where
  "hash_attributes str p =
     [(''userPassword'', map PStr (userPassword p)),
      (''sambaNTPassword'', [PStr (sambaNTPassword p)]),
      (''krb5Key'', map PStr (krb5Key p)),
      (''krb5KeyVersionNumber'', [PStr (str (PInt (krb5KeyVersionNumber p)))]),
      (''sambaPwdLastSet'', [PStr (str (PInt (sambaPwdLastSet p)))])]"

definition change_of :: "(string \<times> pyval list) list \<Rightarrow> string \<times> pyval list \<Rightarrow> modlist" where
  "change_of old = (\<lambda>(a, vs). if set vs \<subseteq> set (old_values old a) then [] else [(a, old_values old a, vs)])"

lemma b64_char_in: "n < 64 \<Longrightarrow> b64_char n \<in> set alphabet"
  by (simp add: b64_char_def length_alphabet)

lemma b64encode_bytes_chars:
  "\<forall>b \<in> set bs. b < 256 \<Longrightarrow> set (b64encode_bytes bs) \<subseteq> insert CHR ''='' (set alphabet)"
proof (induction bs rule: b64encode_bytes.induct)
  case (2 x)
  then have "x div 4 < 64" "x mod 4 * 16 < 64" by auto
  then show ?case by (simp add: b64_char_in)
next
  case (3 x y)
  then have "x div 4 < 64" "x mod 4 * 16 + y div 16 < 64" "y mod 16 * 4 < 64" by auto
  then show ?case by (simp add: b64_char_in)
next
  case (4 x y z bs)
  then have "x div 4 < 64" "x mod 4 * 16 + y div 16 < 64" "y mod 16 * 4 + z div 64 < 64" by auto
  with 4 show ?case by (simp add: b64_char_in)
qed simp

lemma b64encode_ascii: "c \<in> set (b64encode s) \<Longrightarrow> of_char c < (128 :: nat)"
proof -
  assume "c \<in> set (b64encode s)"
  moreover have "\<forall>b \<in> set (map (of_char :: char \<Rightarrow> nat) s). b < 256" by auto
  ultimately have "c \<in> insert CHR ''='' (set alphabet)"
    using b64encode_bytes_chars unfolding b64encode_def by blast
  moreover have "\<forall>c \<in> insert CHR ''='' (set alphabet). of_char c < (128 :: nat)"
    by (simp add: alphabet_def)
  ultimately show ?thesis by blast
qed

lemma decode_keys_sent: "mapE decode_key (map PStr (krb5_keys_encoded p)) = Inr (map PStr (krb5Key p))"
proof -
  have key: "decode_key (PStr (b64encode k)) = Inr (PStr k)" for k
    by (simp add: b64decode_b64encode b64encode_ascii)
  have "mapE decode_key (map (\<lambda>k. PStr (b64encode k)) ks) = Inr (map PStr ks)" for ks
    by (induction ks) (simp_all add: key del: decode_key.simps)
  then show ?thesis by (simp add: krb5_keys_encoded_def comp_def)
qed

lemma sent_values:
  "list_all2 (\<lambda>(k, v) (a, vs). k = a \<and> hash_values str k v = Inr vs \<and> list_all hashable vs)
     (passwords_dict p) (hash_attributes str p)"
  by (simp add: passwords_dict_def hash_attributes_def hash_values_def decode_keys_sent list_all_iff)

lemma sent_changes:
  "mapE (hash_change str old) (passwords_dict p) = Inr (map (change_of old) (hash_attributes str p))"
proof -
  have "list_all2 (\<lambda>(k, v) (a, vs). k = a \<and> hash_values str k v = Inr vs \<and> list_all hashable vs) d as \<Longrightarrow>
      mapE (hash_change str old) d = Inr (map (change_of old) as)" for d as
    by (induction rule: list_all2_induct) (auto simp: hash_change_def change_of_def)
  from this [OF sent_values] show ?thesis .
qed

lemma changes_keys: "keys (concat (map (change_of old) as)) \<subseteq> keys as"
proof -
  have head: "keys (change_of old y) \<subseteq> {fst y}" for y :: "string \<times> pyval list"
    by (cases y) (simp add: change_of_def keys_def)
  have append: "keys (xs @ ys) = keys xs \<union> keys ys" for xs ys :: modlist
    by (simp add: keys_def image_Un)
  show ?thesis
  proof (induction as)
    case (Cons x as)
    with head [of x] show ?case by (cases x) (auto simp: append dict_simps)
  qed (simp add: dict_simps)
qed

lemma map_of_changes:
  assumes "wf_dict as"
  shows "map_of (concat (map (change_of old) as)) a =
    (case map_of as a of
       None \<Rightarrow> None
     | Some vs \<Rightarrow> if set vs \<subseteq> set (old_values old a) then None else Some (old_values old a, vs))"
  using assms
proof (induction as)
  case (Cons x as)
  obtain b vs where x: "x = (b, vs)" by force
  from Cons.prems have "b \<notin> keys as" "wf_dict as" by (simp_all add: x dict_simps)
  then have "map_of (concat (map (change_of old) as)) b = None" "map_of as b = None"
    using changes_keys by (auto simp: map_of_None_iff)
  with Cons.IH [OF \<open>wf_dict as\<close>] show ?case by (auto simp: x change_of_def)
qed simp

text \<open>The hashes that were stored for a user reach the directory, apart from those it has already.\<close>

lemma hashes_written:
  assumes "directory_works da vals"
    and "map_of (hk_password_hashes h) (iu_record_uid u) = Some (passwords_dict p)"
  shows "\<exists>h'. set_hashes_in_ldap da False u h = (Inr (), h') \<and>
    hk_password_hashes h' = AList.delete (iu_record_uid u) (hk_password_hashes h) \<and>
    (\<forall>dn a. vals (hk_directory h') dn a =
      (case map_of (hash_attributes (da_str da) p) a of
         Some vs \<Rightarrow> if dn = iu_dn u \<and> \<not> set vs \<subseteq> set (vals (hk_directory h) dn a) then vs
                    else vals (hk_directory h) dn a
       | None \<Rightarrow> vals (hk_directory h) dn a))"
proof -
  let ?attrs = "map fst (passwords_dict p)" and ?as = "hash_attributes (da_str da) p"
  from assms(1) obtain old where old: "da_get da (iu_dn u) ?attrs (hk_directory h) = Inr old"
    "\<forall>a \<in> set ?attrs. old_values old a = vals (hk_directory h) (iu_dn u) a"
    unfolding directory_works_def by blast
  let ?ml = "concat (map (change_of old) ?as)"
  from assms(1) obtain d' where d': "da_modify da (iu_dn u) ?ml (hk_directory h) = (Inr (), d')"
    "\<forall>dn a. vals d' dn a = (if dn = iu_dn u then case map_of ?ml a of None \<Rightarrow> vals (hk_directory h) (iu_dn u) a
       | Some (_, vs) \<Rightarrow> vs else vals (hk_directory h) dn a)"
    unfolding directory_works_def by meson
  have wf: "wf_dict ?as" by (simp add: hash_attributes_def dict_simps)
  have attrs: "set ?attrs = keys ?as" by (simp add: hash_attributes_def passwords_dict_def keys_def)
  have ml: "map_of ?ml a = (case map_of ?as a of None \<Rightarrow> None
     | Some vs \<Rightarrow> if set vs \<subseteq> set (vals (hk_directory h) (iu_dn u) a) then None else Some (old_values old a, vs))" for a
    using old(2) unfolding map_of_changes [OF wf] attrs by (auto simp: map_of_in_keys split: option.split)
  show ?thesis
  proof (cases "?ml = []")
    case True
    then have "set vs \<subseteq> set (vals (hk_directory h) (iu_dn u) a)" if "map_of ?as a = Some vs" for a vs
      using ml [of a] that unfolding True by (simp split: if_splits)
    with True show ?thesis
      by (simp add: set_hashes_in_ldap_def assms(2) old(1) sent_changes Let_def split: option.split) blast
  next
    case False
    then show ?thesis
      using d' ml
      by (simp add: set_hashes_in_ldap_def assms(2) old(1) sent_changes Let_def) (auto split: option.split)
  qed
qed

section \<open>An import\<close>

text \<open>The hooks around the creation or the modification of a user that succeeds.\<close>

definition import_hooks :: "'d directory_access \<Rightarrow> string \<Rightarrow> import_user \<Rightarrow> ('d hook_state, unit) st" where
  "import_hooks da now u h =
     (case store_password_hashes now (u, h) of
        (Inl e, _, h') \<Rightarrow> (Inl e, h')
      | (Inr _, u', h') \<Rightarrow> set_hashes_in_ldap da False u' h')"

lemma store_hashes:
  assumes "map_of (iu_udm_properties u) PASSWORD_TARGET_ATTRIBUT = Some (PDict d)"
  shows "\<exists>u' h1. store_password_hashes now (u, h) = (Inr (), u', h1) \<and> iu_dn u' = iu_dn u \<and>
    iu_record_uid u' = iu_record_uid u \<and> map_of (hk_password_hashes h1) (iu_record_uid u) = Some d \<and>
    hk_directory h1 = hk_directory h"
  by (simp add: store_password_hashes_def assms Let_def dict_simps)

text \<open>
  C13: The password hashes of a user, as the connector writes them into a document (with the keys encoded),
  reach the directory of the target system exactly as they are in the directory here: an attribute gets the
  values that were sent, unless it has all of them already; then it also keeps the others that it has.
\<close>

theorem hashes_reach_directory:
  assumes "directory_works da vals"
    and "map_of (iu_udm_properties u) PASSWORD_TARGET_ATTRIBUT = Some (PDict (passwords_dict p))"
  shows "\<exists>h'. import_hooks da now u h = (Inr (), h') \<and>
    map_of (hk_password_hashes h') (iu_record_uid u) = None \<and>
    (\<forall>dn a. vals (hk_directory h') dn a =
      (case map_of (hash_attributes (da_str da) p) a of
         Some vs \<Rightarrow> if dn = iu_dn u \<and> \<not> set vs \<subseteq> set (vals (hk_directory h) dn a) then vs
                    else vals (hk_directory h) dn a
       | None \<Rightarrow> vals (hk_directory h) dn a))"
proof -
  from store_hashes [OF assms(2)] obtain u' h1 where
    h1: "store_password_hashes now (u, h) = (Inr (), u', h1)" "iu_dn u' = iu_dn u" "iu_record_uid u' = iu_record_uid u"
      "map_of (hk_password_hashes h1) (iu_record_uid u) = Some (passwords_dict p)" "hk_directory h1 = hk_directory h"
    by blast
  have "map_of (hk_password_hashes h1) (iu_record_uid u') = Some (passwords_dict p)" using h1(3,4) by simp
  from hashes_written [OF assms(1) this] obtain h' where
    h': "set_hashes_in_ldap da False u' h1 = (Inr (), h')"
      "hk_password_hashes h' = AList.delete (iu_record_uid u) (hk_password_hashes h1)"
      "\<forall>dn a. vals (hk_directory h') dn a =
        (case map_of (hash_attributes (da_str da) p) a of
           Some vs \<Rightarrow> if dn = iu_dn u \<and> \<not> set vs \<subseteq> set (vals (hk_directory h) dn a) then vs
                      else vals (hk_directory h) dn a
         | None \<Rightarrow> vals (hk_directory h) dn a)"
    unfolding h1(2,3,5) by blast
  have "import_hooks da now u h = (Inr (), h')" by (simp add: import_hooks_def h1(1) h'(1))
  moreover have "map_of (hk_password_hashes h') (iu_record_uid u) = None" by (simp add: h'(2) dict_simps)
  ultimately show ?thesis using h'(3) by blast
qed

text \<open>
  C19: Hashes that were stored before a creation that failed stay behind: when the user with the same record is
  imported later without hashes, the old ones are written to the directory.
\<close>

theorem stale_hashes_written:
  assumes "directory_works da vals" "store_password_hashes now (u, h) = (Inr (), u', h1)"
    and "map_of (iu_udm_properties u) PASSWORD_TARGET_ATTRIBUT = Some (PDict (passwords_dict p))"
    and "map_of (iu_udm_properties v) PASSWORD_TARGET_ATTRIBUT = None" "iu_record_uid v = iu_record_uid u"
  shows "\<exists>h2. import_hooks da later v h1 = (Inr (), h2) \<and>
    (\<forall>(a, vs) \<in> set (hash_attributes (da_str da) p). set vs \<subseteq> set (vals (hk_directory h2) (iu_dn v) a))"
proof -
  have "map_of (hk_password_hashes h1) (iu_record_uid v) = Some (passwords_dict p)"
    using store_hashes [OF assms(3), of now h] assms(2,5) by auto
  from hashes_written [OF assms(1) this] obtain h2 where h2:
    "set_hashes_in_ldap da False v h1 = (Inr (), h2)"
    "\<forall>dn a. vals (hk_directory h2) dn a =
      (case map_of (hash_attributes (da_str da) p) a of
         Some vs \<Rightarrow> if dn = iu_dn v \<and> \<not> set vs \<subseteq> set (vals (hk_directory h1) dn a) then vs
                    else vals (hk_directory h1) dn a
       | None \<Rightarrow> vals (hk_directory h1) dn a)" by blast
  have "wf_dict (hash_attributes (da_str da) p)" by (simp add: hash_attributes_def dict_simps)
  then have "set vs \<subseteq> set (vals (hk_directory h2) (iu_dn v) a)" if "(a, vs) \<in> set (hash_attributes (da_str da) p)" for a vs
    using h2(2) that by (simp add: set_iff_map_of)
  moreover have "import_hooks da later v h1 = (Inr (), h2)"
    by (simp add: import_hooks_def store_password_hashes_def assms(4) h2(1))
  ultimately show ?thesis by blast
qed

section \<open>An instance\<close>

text \<open>A directory as a function, which always answers.\<close>

type_synonym ex_dir = "string \<Rightarrow> string \<Rightarrow> pyval list"

definition ex_access :: "ex_dir directory_access" where
  "ex_access = \<lparr>da_get = (\<lambda>dn attrs d. Inr (map (\<lambda>a. (a, d dn a)) attrs)),
     da_modify = (\<lambda>dn ml d. (Inr (), \<lambda>dn' a.
       if dn' = dn then case map_of ml a of None \<Rightarrow> d dn a | Some (_, vs) \<Rightarrow> vs else d dn' a)),
     da_str = (\<lambda>v. case v of PInt i \<Rightarrow> replicate (nat i) CHR ''1'' | _ \<Rightarrow> [])\<rparr>"

lemma ex_directory_works: "directory_works ex_access (\<lambda>d. d)"
proof -
  have "a \<in> set attrs \<Longrightarrow> old_values (map (\<lambda>a. (a, f a)) attrs) a = f a" for f a and attrs :: "string list"
    by (induction attrs) (auto simp: old_values_def)
  then show ?thesis by (simp add: directory_works_def ex_access_def)
qed

definition ex_hashes :: user_passwords where
  "ex_hashes = \<lparr>userPassword = [''pw''], sambaNTPassword = ''nt'', krb5Key = [''k''],
     krb5KeyVersionNumber = 1, sambaPwdLastSet = 2\<rparr>"

definition ex_import :: import_user where
  "ex_import = \<lparr>iu_dn = ''uid=a'', iu_record_uid = ''a'',
     iu_udm_properties = [(PASSWORD_TARGET_ATTRIBUT, PDict (passwords_dict ex_hashes))]\<rparr>"

definition ex_hook :: "ex_dir hook_state" where
  "ex_hook = \<lparr>hk_password_hashes = [], hk_directory = (\<lambda>_ _. [])\<rparr>"

theorem hashes_reach_directory_witness:
  "\<exists>h'. import_hooks ex_access ''now'' ex_import ex_hook = (Inr (), h') \<and>
    hk_directory h' ''uid=a'' ''krb5Key'' = [PStr ''k''] \<and> hk_directory h' ''uid=b'' ''krb5Key'' = []"
proof -
  have "map_of (iu_udm_properties ex_import) PASSWORD_TARGET_ATTRIBUT = Some (PDict (passwords_dict ex_hashes))"
    by (simp add: ex_import_def)
  from hashes_reach_directory [OF ex_directory_works this, of "''now''" ex_hook] obtain h' where
    h': "import_hooks ex_access ''now'' ex_import ex_hook = (Inr (), h')"
    "\<And>dn a. hk_directory h' dn a =
      (case map_of (hash_attributes (da_str ex_access) ex_hashes) a of
         Some vs \<Rightarrow> if dn = iu_dn ex_import \<and> \<not> set vs \<subseteq> set (hk_directory ex_hook dn a) then vs
                    else hk_directory ex_hook dn a
       | None \<Rightarrow> hk_directory ex_hook dn a)" by blast
  then show ?thesis
    by (simp add: hash_attributes_def) (simp add: ex_hashes_def ex_import_def ex_hook_def)
qed

theorem stale_hashes_written_witness:
  "\<exists>h2. import_hooks ex_access ''later'' (ex_import\<lparr>iu_udm_properties := []\<rparr>)
      (snd (snd (store_password_hashes ''now'' (ex_import, ex_hook)))) = (Inr (), h2) \<and>
    PStr ''nt'' \<in> set (hk_directory h2 ''uid=a'' ''sambaNTPassword'')"
proof -
  have props: "map_of (iu_udm_properties ex_import) PASSWORD_TARGET_ATTRIBUT = Some (PDict (passwords_dict ex_hashes))"
    by (simp add: ex_import_def)
  then have store: "store_password_hashes ''now'' (ex_import, ex_hook) =
      (Inr (), fst (snd (store_password_hashes ''now'' (ex_import, ex_hook))),
        snd (snd (store_password_hashes ''now'' (ex_import, ex_hook))))"
    by (simp add: store_password_hashes_def Let_def)
  have "map_of (iu_udm_properties (ex_import\<lparr>iu_udm_properties := []\<rparr>)) PASSWORD_TARGET_ATTRIBUT = None"
    "iu_record_uid (ex_import\<lparr>iu_udm_properties := []\<rparr>) = iu_record_uid ex_import" by simp_all
  from stale_hashes_written [OF ex_directory_works store props this, of "''later''"] show ?thesis
    by (auto simp: hash_attributes_def ex_hashes_def) (simp add: ex_import_def)
qed

end
