(* ===== verification/Requests.thy ===== *)
theory Requests
  imports Plugins Models
begin

text \<open>
  The HTTP client helpers of requests.py, which plugins can use to talk to a target system: the plugins of
  the school authority may change the request, and the status of the answer decides between a result and
  one of three exceptions.

  Parameters are what the plugins return, and the answer of the server or the exception of aiohttp
  (\<open>ClientConnectionError\<close>, or another). The state counts the sessions that are open, and has the file to
  which a long body of an answer is written.
\<close>

record http_answer =
  ha_status :: int
  ha_json :: "exn + pyval"
  ha_text :: "exn + string"

record http_env =
  he_hooks :: "string \<Rightarrow> string \<Rightarrow> exn + pydict list"
  he_send :: "string \<Rightarrow> pydict \<Rightarrow> exn + http_answer"

record http_client =
  hc_open_sessions :: nat
  hc_error_file :: "string option"

definition ClientConnectionError :: exn where
  "ClientConnectionError = OtherExn ''ClientConnectionError''"

definition ContentTypeError :: exn where
  "ContentTypeError = OtherExn ''ContentTypeError''"

definition get_error_msg :: "http_answer \<Rightarrow> exn + pyval" where
  "get_error_msg resp =
     (case ha_json resp of
        Inr j \<Rightarrow> Inr j
      | Inl e \<Rightarrow>
          if is_ValueError e \<or> e = ContentTypeError
          then bindE (ha_text resp) (\<lambda>t. Inr (PStr t)) else Inl e)"

text \<open>\<open>len(response_body)\<close>, which fails for JSON values that are neither texts nor containers.\<close>

fun body_length :: "pyval \<Rightarrow> exn + nat" where
  "body_length (PStr s) = Inr (length s)"
| "body_length (PList vs) = Inr (length vs)"
| "body_length (PDict d) = Inr (length d)"
| "body_length _ = Inl TypeErr"

text \<open>Only a text can be written to the file, which is emptied before.\<close>

definition report_body :: "pyval \<Rightarrow> (http_client, unit) st" where
  "report_body body s =
     (case body_length body of
        Inl e \<Rightarrow> (Inl e, s)
      | Inr n \<Rightarrow>
          if 500 < n then
            (case body of
               PStr t \<Rightarrow> (Inr (), s\<lparr>hc_error_file := Some t\<rparr>)
             | _ \<Rightarrow> (Inl TypeErr, s\<lparr>hc_error_file := Some []\<rparr>))
          else (Inr (), s))"

definition status_error :: "int \<Rightarrow> exn" where
  "status_error status = (if 500 \<le> status then ServerError (nat status) else APIRequestError (nat status))"

definition handle_answer :: "int list \<Rightarrow> http_answer \<Rightarrow> (http_client, int \<times> pyval option) st" where
  "handle_answer acceptable_statuses resp =
     (if ha_status resp \<in> set acceptable_statuses then
        lift (if ha_status resp = 204 then Inr (204, None)
              else bindE (ha_json resp) (\<lambda>j. Inr (ha_status resp, Some j)))
      else
        bindM (lift (get_error_msg resp)) (\<lambda>body.
        bindM (report_body body) (\<lambda>_. throw (status_error (ha_status resp)))))"

definition request_arguments :: "string \<Rightarrow> string \<Rightarrow> pyval option \<Rightarrow> pyval \<Rightarrow> pydict" where
  "request_arguments http_method url data params =
     (''url'', PStr url) #
     (case data of
        Some d \<Rightarrow> if http_method \<in> {''patch'', ''post''} then [(''json'', d)] else []
      | None \<Rightarrow> []) @
     (if truthy params then [(''params'', params)] else [])"

definition connection_error :: "exn + 'a \<Rightarrow> exn + 'a" where
  "connection_error r =
     (case r of Inl e \<Rightarrow> Inl (if e = ClientConnectionError then APICommunicationError else e) | Inr x \<Rightarrow> Inr x)"

definition do_request ::
    "http_env \<Rightarrow> string \<Rightarrow> string \<Rightarrow> pyval \<Rightarrow> int list \<Rightarrow> pyval option \<Rightarrow> bool \<Rightarrow>
     (http_client, int \<times> pyval option) st" where
  "do_request env http_method url params acceptable_statuses data has_session s =
     (let acceptable_statuses = (if acceptable_statuses = [] then [200] else acceptable_statuses);
          http_method = lower http_method;
          s1 = (if has_session then s else s\<lparr>hc_open_sessions := hc_open_sessions s + 1\<rparr>)
      in case he_hooks env http_method url of
           Inl e \<Rightarrow> (Inl e, s1)
         | Inr updates \<Rightarrow>
             (case he_send env http_method
                (foldl (\<lambda>d u. foldl (\<lambda>d (k, v). AList.update k v d) d u)
                  (request_arguments http_method url data params) updates) of
                Inl e \<Rightarrow> (connection_error (Inl e), s1)
              | Inr resp \<Rightarrow>
                  (case handle_answer acceptable_statuses resp
                      (if has_session then s1 else s1\<lparr>hc_open_sessions := hc_open_sessions s1 - 1\<rparr>) of
                     (r, s2) \<Rightarrow> (connection_error r, s2))))"

definition http_delete where
  "http_delete env url acceptable_statuses has_session =
     do_request env ''delete'' url PNone (if acceptable_statuses = [] then [204] else acceptable_statuses)
       None has_session"

definition http_get where
  "http_get env url params acceptable_statuses has_session =
     do_request env ''get'' url params acceptable_statuses None has_session"

definition http_patch where
  "http_patch env url data acceptable_statuses has_session =
     do_request env ''patch'' url PNone (if acceptable_statuses = [] then [200] else acceptable_statuses)
       (Some data) has_session"

definition http_post where
  "http_post env url data acceptable_statuses has_session =
     do_request env ''post'' url PNone (if acceptable_statuses = [] then [201] else acceptable_statuses)
       (Some data) has_session"

section \<open>Outcomes\<close>

text \<open>An answer with a status that is not accepted and a short body raises the exception of its status.\<close>

lemma refused_answer:
  assumes "ha_status resp \<notin> set ok" "get_error_msg resp = Inr body" "body_length body = Inr n" "n \<le> 500"
  shows "handle_answer ok resp s = (Inl (status_error (ha_status resp)), s)"
  using assms by (simp add: handle_answer_def bindM_apply report_body_def)

text \<open>A result has an accepted status, and no body exactly for status 204.\<close>

lemma request_result:
  assumes "do_request env m url params ok data has_session s = (Inr (status, body), s')"
  shows "status \<in> set (if ok = [] then [200] else ok) \<and> (body = None \<longleftrightarrow> status = 204) \<and> s' = s"
  using assms
  by (auto simp: do_request_def Let_def handle_answer_def connection_error_def bindM_apply report_body_def
      split: sum.splits if_splits prod.splits)

text \<open>A session that was opened for the request stays open when the connection fails.\<close>

lemma session_left_open:
  assumes "he_hooks env (lower m) url = Inr us" "\<And>d. he_send env (lower m) d = Inl ClientConnectionError"
  shows "do_request env m url params ok data False s =
    (Inl APICommunicationError, s\<lparr>hc_open_sessions := hc_open_sessions s + 1\<rparr>)"
  using assms by (simp add: do_request_def Let_def connection_error_def)

text \<open>The same happens to a request whose plugins fail; every other request without a session closes its own.\<close>

lemma session_closed:
  assumes "he_hooks env (lower m) url = Inr us" "\<And>d. \<exists>resp. he_send env (lower m) d = Inr resp"
    and "do_request env m url params ok data False s = (r, s')"
  shows "hc_open_sessions s' = hc_open_sessions s"
proof -
  obtain resp where resp: "he_send env (lower m) (foldl (\<lambda>d u. foldl (\<lambda>d (k, v). AList.update k v d) d u)
      (request_arguments (lower m) url data params) us) = Inr resp" using assms(2) by blast
  have report: "hc_open_sessions (snd (report_body b t)) = hc_open_sessions t" for b t
    by (auto simp: report_body_def split: sum.split pyval.split)
  have "hc_open_sessions (snd (handle_answer ok' resp t)) = hc_open_sessions t" for ok' t
    using report by (auto simp: handle_answer_def bindM_apply split: sum.split prod.split) (metis snd_conv)+
  then show ?thesis
    using assms(3) by (auto simp: do_request_def Let_def assms(1) resp split: prod.splits) (metis snd_conv select_convs(1) surjective update_convs(1))
qed

end
