(* ===== verification/Plugin_Loader.thy ===== *)
theory Plugin_Loader
  imports Prelude
begin

text \<open>
  The loader of plugins (plugin_loader.py): two directories of packages are added to the path of Python, and
  the modules in two directories of plugins are executed, once in the life of the process. The parameters
  are the entries of a directory (\<open>os.scandir\<close>) and what executing a module raises. Logging is left out.
\<close>

record loader_env =
  le_package_dirs :: "string list"
  le_plugin_dirs :: "string list"
  le_scandir :: "string \<Rightarrow> (string \<times> bool) list"
  le_exec_module :: "string \<Rightarrow> string \<Rightarrow> exn option"

record loader =
  ld_plugins_loaded :: bool
  ld_sys_path :: "string list"
  ld_dirs :: "string list"
  ld_modules :: "(string \<times> string) list"

definition make_dir :: "string \<Rightarrow> loader \<Rightarrow> loader" where
  "make_dir d s = (if d \<in> set (ld_dirs s) then s else s\<lparr>ld_dirs := ld_dirs s @ [d]\<rparr>)"

text \<open>
  The test whether the directory is in \<open>sys.path\<close> compares a path object with strings, to which it is
  never equal: the directory is always appended.
\<close>

definition add_package_dir :: "string \<Rightarrow> (loader, unit) st" where
  "add_package_dir d s = (let s' = make_dir d s in (Inr (), s'\<lparr>ld_sys_path := ld_sys_path s' @ [d]\<rparr>))"

definition is_module :: "string \<times> bool \<Rightarrow> bool" where
  "is_module = (\<lambda>(name, is_file). is_file \<and> suffix ''.py'' (lower name))"

text \<open>A module is recorded when its execution begins.\<close>

definition load_module :: "loader_env \<Rightarrow> string \<Rightarrow> string \<times> bool \<Rightarrow> (loader, unit) st" where
  "load_module env d entry s =
     (if is_module entry then
        let s' = s\<lparr>ld_modules := ld_modules s @ [(d, take (length (fst entry) - 3) (fst entry))]\<rparr> in
        case le_exec_module env d (fst entry) of Some e \<Rightarrow> (Inl e, s') | None \<Rightarrow> (Inr (), s')
      else (Inr (), s))"

definition load_plugin_dir :: "loader_env \<Rightarrow> string \<Rightarrow> (loader, unit) st" where
  "load_plugin_dir env d s = for_each (load_module env d) (le_scandir env d) (make_dir d s)"

definition load_plugins :: "loader_env \<Rightarrow> (loader, unit) st" where
  "load_plugins env s =
     (if ld_plugins_loaded s then (Inr (), s)
      else
        bindM (for_each add_package_dir (le_package_dirs env)) (\<lambda>_.
        bindM (for_each (load_plugin_dir env) (le_plugin_dirs env)) (\<lambda>_ s.
          (Inr (), s\<lparr>ld_plugins_loaded := True\<rparr>))) s)"

section \<open>What is loaded\<close>

lemma add_package_dirs:
  "\<exists>dirs. for_each add_package_dir ds s =
    (Inr (), s\<lparr>ld_sys_path := ld_sys_path s @ ds, ld_dirs := dirs\<rparr>)"
proof (induction ds arbitrary: s)
  case (Cons d ds)
  from Cons.IH [of "snd (add_package_dir d s)"] show ?case
    by (auto simp: add_package_dir_def Let_def make_dir_def)
qed (simp, metis loader.surjective loader.update_convs(2,3))

definition modules_of :: "loader_env \<Rightarrow> string \<Rightarrow> (string \<times> string) list" where
  "modules_of env d = map (\<lambda>(name, _). (d, take (length name - 3) name)) (filter is_module (le_scandir env d))"

lemma load_modules_ok:
  assumes "\<forall>(name, _) \<in> set entries. le_exec_module env d name = None"
  shows "for_each (load_module env d) entries s =
    (Inr (), s\<lparr>ld_modules := ld_modules s @
       map (\<lambda>(name, _). (d, take (length name - 3) name)) (filter is_module entries)\<rparr>)"
  using assms by (induction entries arbitrary: s) (auto simp: load_module_def Let_def)

lemma load_plugin_dirs_ok:
  assumes "\<forall>d \<in> set ds. \<forall>(name, _) \<in> set (le_scandir env d). le_exec_module env d name = None"
  shows "\<exists>dirs. for_each (load_plugin_dir env) ds s =
    (Inr (), s\<lparr>ld_modules := ld_modules s @ concat (map (modules_of env) ds), ld_dirs := dirs\<rparr>)"
  using assms
proof (induction ds arbitrary: s)
  case (Cons d ds)
  then have "load_plugin_dir env d s =
      (Inr (), (make_dir d s)\<lparr>ld_modules := ld_modules (make_dir d s) @ modules_of env d\<rparr>)"
    by (simp add: load_plugin_dir_def load_modules_ok modules_of_def)
  moreover note Cons.IH [of "(make_dir d s)\<lparr>ld_modules := ld_modules (make_dir d s) @ modules_of env d\<rparr>"] Cons.prems
  ultimately show ?case by (auto simp: make_dir_def)
qed (simp, metis loader.surjective loader.update_convs(3,4))

text \<open>Without errors the modules of the directories are executed in order, and only the first time.\<close>

lemma plugins_loaded_once:
  assumes "\<forall>d \<in> set (le_plugin_dirs env). \<forall>(name, _) \<in> set (le_scandir env d). le_exec_module env d name = None"
    and "\<not> ld_plugins_loaded s" "load_plugins env s = (r, s')"
  shows "r = Inr () \<and> ld_modules s' = ld_modules s @ concat (map (modules_of env) (le_plugin_dirs env)) \<and>
    load_plugins env s' = (Inr (), s')"
proof -
  obtain dirs where 1: "for_each add_package_dir (le_package_dirs env) s =
      (Inr (), s\<lparr>ld_sys_path := ld_sys_path s @ le_package_dirs env, ld_dirs := dirs\<rparr>)"
    using add_package_dirs by blast
  obtain dirs' where "for_each (load_plugin_dir env) (le_plugin_dirs env)
      (s\<lparr>ld_sys_path := ld_sys_path s @ le_package_dirs env, ld_dirs := dirs\<rparr>) =
    (Inr (), s\<lparr>ld_sys_path := ld_sys_path s @ le_package_dirs env,
       ld_modules := ld_modules s @ concat (map (modules_of env) (le_plugin_dirs env)), ld_dirs := dirs'\<rparr>)"
    using load_plugin_dirs_ok [OF assms(1),
      of "s\<lparr>ld_sys_path := ld_sys_path s @ le_package_dirs env, ld_dirs := dirs\<rparr>"] by auto
  with 1 assms(2,3) show ?thesis by (auto simp: load_plugins_def bindM_apply)
qed

text \<open>After an error, loading again appends the package directories to the path once more.\<close>

lemma path_grows_after_error:
  assumes "\<not> ld_plugins_loaded s"
  shows "ld_sys_path (snd (load_plugins env s)) = ld_sys_path s @ le_package_dirs env"
proof -
  have keep: "ld_sys_path (snd (load_module env d e t)) = ld_sys_path t" for d e t
    by (simp add: load_module_def Let_def split: option.split)
  have dir: "ld_sys_path (snd (load_plugin_dir env d t)) = p" if "ld_sys_path t = p" for d t p
    unfolding load_plugin_dir_def
    by (rule for_each_preserves [where P = "\<lambda>t. ld_sys_path t = p"]) (use that in \<open>simp_all add: keep make_dir_def\<close>)
  obtain dirs where 1: "for_each add_package_dir (le_package_dirs env) s =
      (Inr (), s\<lparr>ld_sys_path := ld_sys_path s @ le_package_dirs env, ld_dirs := dirs\<rparr>)" (is "_ = (_, ?t)")
    using add_package_dirs by blast
  have "ld_sys_path (snd (for_each (load_plugin_dir env) (le_plugin_dirs env) ?t)) = ld_sys_path s @ le_package_dirs env"
    by (rule for_each_preserves [where P = "\<lambda>t. ld_sys_path t = ld_sys_path s @ le_package_dirs env"]) (simp_all add: dir)
  with 1 assms show ?thesis
    by (auto simp: load_plugins_def bindM_apply split: prod.splits sum.splits)
qed

end
