(* ===== verification/Ucr.thy ===== *)
theory Ucr
  imports Prelude
begin

text \<open>
  Reading the configuration registry of the host (utils.py): the lines of its file, the cache of values
  that is cleared when the file is newer than the last time it was looked at, and the settings read.

  The file is what \<open>os.stat\<close> and \<open>open\<close> find: nothing, or its modification time and, if it can be opened,
  its lines without their line ends.
\<close>

section \<open>Lines\<close>

text \<open>\<open>^(?P<ucr>.+?): (?P<value>.*)$\<close>: the key is the shortest that is not empty.\<close>

fun ucr_split :: "string \<Rightarrow> string \<Rightarrow> (string \<times> string) option" where
  "ucr_split k (c # d # s) =
     (if k \<noteq> [] \<and> c = CHR '':'' \<and> d = CHR '' '' then Some (k, s) else ucr_split (k @ [c]) (d # s))"
| "ucr_split k s = None"

definition ucr_line :: "string \<Rightarrow> (string \<times> string) option" where
  "ucr_line = ucr_split []"

text \<open>The loop of \<open>_get_ucrv_cached\<close>: the first line with the key counts.\<close>

fun read_ucr :: "string list \<Rightarrow> string \<Rightarrow> pyval \<Rightarrow> pyval" where
  "read_ucr [] ucr fallback = fallback"
| "read_ucr (line # lines) ucr fallback =
     (case ucr_line line of
        Some (k, v) \<Rightarrow> if ucr = k then PStr v else read_ucr lines ucr fallback
      | None \<Rightarrow> read_ucr lines ucr fallback)"

section \<open>The cache\<close>

type_synonym ucr_key = "string \<times> pyval"

record ucr_cache =
  uc_mtime :: nat
  uc_values :: "(ucr_key \<times> pyval) list"

type_synonym ucr_file = "(nat \<times> string list option) option"

definition cache_maxsize :: nat where
  "cache_maxsize = 16"

text \<open>\<open>lru_cache\<close>: the value used last comes first; an exception is not kept.\<close>

definition get_ucrv_cached :: "string list option \<Rightarrow> string \<Rightarrow> pyval \<Rightarrow> (ucr_cache, pyval) st" where
  "get_ucrv_cached content ucr fallback uc =
     (case map_of (uc_values uc) (ucr, fallback) of
        Some v \<Rightarrow>
          (Inr v, uc\<lparr>uc_values := ((ucr, fallback), v) # AList.delete (ucr, fallback) (uc_values uc)\<rparr>)
      | None \<Rightarrow>
          (case content of
             None \<Rightarrow> (Inl OSErr, uc)
           | Some lines \<Rightarrow>
               (let v = read_ucr lines ucr fallback in
                (Inr v, uc\<lparr>uc_values := take cache_maxsize (((ucr, fallback), v) # uc_values uc)\<rparr>))))"

definition get_ucrv :: "ucr_file \<Rightarrow> string \<Rightarrow> pyval \<Rightarrow> (ucr_cache, pyval) st" where
  "get_ucrv file ucr fallback uc =
     (case file of
        None \<Rightarrow> (Inr fallback, uc)
      | Some (mtime, content) \<Rightarrow>
          get_ucrv_cached content ucr fallback
            (if uc_mtime uc < mtime then uc\<lparr>uc_mtime := mtime, uc_values := []\<rparr> else uc))"

definition initial_ucr :: ucr_cache where
  "initial_ucr = \<lparr>uc_mtime = 0, uc_values = []\<rparr>"

section \<open>Settings\<close>

text \<open>\<open>int(v)\<close>: a text may have white space around it, a sign, and underscores between digits.\<close>

definition is_space :: "char \<Rightarrow> bool" where
  "is_space c \<longleftrightarrow> (let n = (of_char c :: nat) in n = 32 \<or> 9 \<le> n \<and> n \<le> 13 \<or> 28 \<le> n \<and> n \<le> 31 \<or> n = 133 \<or> n = 160)"

definition strip_text :: "string \<Rightarrow> string" where
  "strip_text s = rev (dropWhile is_space (rev (dropWhile is_space s)))"

definition decimal_digit :: "char \<Rightarrow> bool" where
  "decimal_digit c \<longleftrightarrow> 48 \<le> (of_char c :: nat) \<and> (of_char c :: nat) \<le> 57"

fun int_digits :: "int \<Rightarrow> string \<Rightarrow> int option" where
  "int_digits n [] = Some n"
| "int_digits n (c # s) =
     (if decimal_digit c then int_digits (10 * n + int (of_char c) - 48) s
      else if c = CHR ''_'' \<and> s \<noteq> [] \<and> decimal_digit (hd s) then int_digits n s
      else None)"

definition unsigned_int :: "string \<Rightarrow> int option" where
  "unsigned_int s = (if s \<noteq> [] \<and> decimal_digit (hd s) then int_digits 0 s else None)"

definition str_int :: "string \<Rightarrow> int option" where
  "str_int s =
     (case strip_text s of
        [] \<Rightarrow> None
      | c # t \<Rightarrow>
          if c = CHR ''-'' then map_option uminus (unsigned_int t)
          else if c = CHR ''+'' then unsigned_int t
          else unsigned_int (c # t))"

fun py_int :: "pyval \<Rightarrow> exn + int" where
  "py_int (PInt n) = Inr n"
| "py_int (PBool b) = Inr (if b then 1 else 0)"
| "py_int (PStr s) = (case str_int s of Some n \<Rightarrow> Inr n | None \<Rightarrow> Inl ValueErr)"
| "py_int (PBytes s) = (case str_int s of Some n \<Rightarrow> Inr n | None \<Rightarrow> Inl ValueErr)"
| "py_int _ = Inl TypeErr"

definition UCRV_TOKEN_TTL :: "string \<times> int" where
  "UCRV_TOKEN_TTL = (''ucsschool-id-connector/access_tokel_ttl'', 60)"

definition UCRV_LOG_LEVEL :: "string \<times> string" where
  "UCRV_LOG_LEVEL = (''ucsschool-id-connector/log_level'', ''INFO'')"

definition UCRV_SOURCE_UID :: "string \<times> string" where
  "UCRV_SOURCE_UID = (''ucsschool-id-connector/source_uid'', ''TESTID'')"

definition get_token_ttl :: "ucr_file \<Rightarrow> (ucr_cache, int) st" where
  "get_token_ttl file uc =
     (case get_ucrv file (fst UCRV_TOKEN_TTL) (PInt (snd UCRV_TOKEN_TTL)) uc of
        (Inl e, uc') \<Rightarrow> (if is_ValueError e then Inr (snd UCRV_TOKEN_TTL) else Inl e, uc')
      | (Inr v, uc') \<Rightarrow>
          (case py_int v of
             Inl e \<Rightarrow> (if is_ValueError e then Inr (snd UCRV_TOKEN_TTL) else Inl e, uc')
           | Inr n \<Rightarrow> (Inr n, uc')))"

definition get_log_level :: "ucr_file \<Rightarrow> (ucr_cache, string) st" where
  "get_log_level file uc =
     (case get_ucrv file (fst UCRV_LOG_LEVEL) (PStr (snd UCRV_LOG_LEVEL)) uc of
        (Inl e, uc') \<Rightarrow> (Inl e, uc')
      | (Inr v, uc') \<Rightarrow>
          (Inr (case v of
             PStr l \<Rightarrow> if l \<in> set [''DEBUG'', ''INFO'', ''WARNING'', ''ERROR''] then l else ''INFO''
           | _ \<Rightarrow> ''INFO''), uc'))"

definition get_source_uid :: "ucr_file \<Rightarrow> (ucr_cache, pyval) st" where
  "get_source_uid file = get_ucrv file (fst UCRV_SOURCE_UID) (PStr (snd UCRV_SOURCE_UID))"

section \<open>The cache does not show\<close>

text \<open>What the cache holds are values of the file as it was at the time noted.\<close>

definition ucr_cache_ok :: "string list \<Rightarrow> ucr_cache \<Rightarrow> bool" where
  "ucr_cache_ok lines uc \<longleftrightarrow>
     length (uc_values uc) \<le> cache_maxsize \<and>
     (\<forall>k v. map_of (uc_values uc) k = Some v \<longrightarrow> v = read_ucr lines (fst k) (snd k))"

lemma map_of_takeD: "map_of (take n xs) k = Some v \<Longrightarrow> map_of xs k = Some v"
  by (induction xs arbitrary: n) (auto simp: take_Cons' split: if_splits)

lemma length_delete: "length (AList.delete k xs) \<le> length xs"
  by (simp add: AList.delete_eq)

lemma length_delete_mem: "map_of xs k = Some v \<Longrightarrow> length (AList.delete k xs) < length xs"
proof -
  assume "map_of xs k = Some v"
  then have "(k, v) \<in> set xs" by (rule map_of_SomeD)
  then show ?thesis unfolding AList.delete_eq by (intro length_filter_less) auto
qed

lemma get_ucrv_cached_ok:
  assumes "ucr_cache_ok lines uc"
  shows "fst (get_ucrv_cached (Some lines) ucr fallback uc) = Inr (read_ucr lines ucr fallback)"
    and "ucr_cache_ok lines (snd (get_ucrv_cached (Some lines) ucr fallback uc))"
proof -
  show "fst (get_ucrv_cached (Some lines) ucr fallback uc) = Inr (read_ucr lines ucr fallback)"
    using assms by (auto simp: get_ucrv_cached_def ucr_cache_ok_def Let_def split: option.split)
  show "ucr_cache_ok lines (snd (get_ucrv_cached (Some lines) ucr fallback uc))"
  proof (cases "map_of (uc_values uc) (ucr, fallback)")
    case None
    then show ?thesis using assms
      by (auto simp: get_ucrv_cached_def ucr_cache_ok_def Let_def dest!: map_of_takeD split: if_splits)
  next
    case (Some v)
    from length_delete_mem [OF Some] show ?thesis using assms Some
      by (auto simp: get_ucrv_cached_def ucr_cache_ok_def dict_simps split: if_splits)
  qed
qed

text \<open>
  A history of reads, each with the file as it is then. The file may only be changed together with its
  time: as long as the time is the same the lines are, and it never goes back.
\<close>

fun times_grow :: "nat \<Rightarrow> string list option \<Rightarrow> (nat \<times> string list) list \<Rightarrow> bool" where
  "times_grow t content [] = True"
| "times_grow t content ((mtime, lines) # fs) =
     ((t < mtime \<or> t = mtime \<and> (content = None \<or> content = Some lines)) \<and> times_grow mtime (Some lines) fs)"

fun ucr_reads :: "((nat \<times> string list) \<times> ucr_key) list \<Rightarrow> (ucr_cache, pyval list) st" where
  "ucr_reads [] uc = (Inr [], uc)"
| "ucr_reads (((mtime, lines), (ucr, fallback)) # rs) uc =
     bindM (get_ucrv (Some (mtime, Some lines)) ucr fallback)
       (\<lambda>v. bindM (ucr_reads rs) (\<lambda>vs. ret (v # vs))) uc"

lemma get_ucrv_ok:
  assumes "uc_mtime uc < mtime \<or> uc_mtime uc = mtime \<and> ucr_cache_ok lines uc"
  shows "\<exists>uc'. get_ucrv (Some (mtime, Some lines)) ucr fallback uc = (Inr (read_ucr lines ucr fallback), uc') \<and>
    uc_mtime uc' = mtime \<and> ucr_cache_ok lines uc'"
proof -
  let ?uc = "if uc_mtime uc < mtime then uc\<lparr>uc_mtime := mtime, uc_values := []\<rparr> else uc"
  have "ucr_cache_ok lines ?uc" using assms by (auto simp: ucr_cache_ok_def)
  note ok = get_ucrv_cached_ok [OF this, of ucr fallback]
  have "uc_mtime (snd (get_ucrv_cached (Some lines) ucr fallback ?uc)) = uc_mtime ?uc"
    by (auto simp: get_ucrv_cached_def Let_def split: option.split)
  with assms have "uc_mtime (snd (get_ucrv_cached (Some lines) ucr fallback ?uc)) = mtime" by auto
  with ok show ?thesis
    by (cases "get_ucrv_cached (Some lines) ucr fallback ?uc") (simp add: get_ucrv_def)
qed

lemma ucr_reads_fresh:
  assumes "times_grow (uc_mtime uc) content (map fst rs)"
    and "case content of None \<Rightarrow> \<forall>lines. ucr_cache_ok lines uc | Some lines \<Rightarrow> ucr_cache_ok lines uc"
  shows "fst (ucr_reads rs uc) = Inr (map (\<lambda>((mtime, lines), (ucr, fallback)). read_ucr lines ucr fallback) rs)"
  using assms
proof (induction rs arbitrary: uc content)
  case (Cons r rs)
  obtain mtime lines ucr fallback where r: "r = ((mtime, lines), (ucr, fallback))" by (metis surj_pair)
  from Cons.prems have "uc_mtime uc < mtime \<or> uc_mtime uc = mtime \<and> ucr_cache_ok lines uc"
    by (auto simp: r split: option.splits)
  from get_ucrv_ok [OF this, of ucr fallback] obtain uc' where uc':
    "get_ucrv (Some (mtime, Some lines)) ucr fallback uc = (Inr (read_ucr lines ucr fallback), uc')"
    "uc_mtime uc' = mtime" "ucr_cache_ok lines uc'" by blast
  from Cons.IH [of uc' "Some lines"] Cons.prems uc'(2,3)
  have "fst (ucr_reads rs uc') = Inr (map (\<lambda>((mtime, lines), (ucr, fallback)). read_ucr lines ucr fallback) rs)"
    by (simp add: r)
  then show ?case
    by (cases "ucr_reads rs uc'") (simp add: r bindM_apply uc'(1))
qed simp

end
