(* ===== verification/Ldap_Access.thy ===== *)
theory Ldap_Access
  imports Ucr Models
begin

text \<open>
  Searches in the LDAP directory (ldap_access.py): the cached password of the host, binding and
  searching, and what the code makes of the entries found.

  The server and the client library are parameters: binding with a DN and a password fails or not, a
  search as a DN below a base with a filter for attributes returns entries or fails. An argument that is
  None or empty is the empty list, as the code treats both alike (\<open>a or b\<close>). The coercion of an
  attribute's value to a text by pydantic is a parameter, too.
\<close>

section \<open>Entries\<close>

record ldap_entry =
  le_dn :: string
  le_attributes :: "(string \<times> pyval list) list"

text \<open>\<open>entry[name]\<close>, and \<open>value\<close> of an attribute.\<close>

definition attr_values :: "ldap_entry \<Rightarrow> string \<Rightarrow> exn + pyval list" where
  "attr_values e name =
     (case map_of (le_attributes e) name of None \<Rightarrow> Inl (KeyErr name) | Some vs \<Rightarrow> Inr vs)"

fun the_value :: "pyval list \<Rightarrow> pyval" where
  "the_value [] = PNone"
| "the_value [v] = v"
| "the_value vs = PList vs"

definition attr_value :: "ldap_entry \<Rightarrow> string \<Rightarrow> exn + pyval" where
  "attr_value e name = bindE (attr_values e name) (\<lambda>vs. Inr (the_value vs))"

text \<open>\<open>'D' in v\<close>\<close>

fun has_D :: "pyval \<Rightarrow> exn + bool" where
  "has_D (PStr s) = Inr (CHR ''D'' \<in> set s)"
| "has_D (PList vs) = Inr (PStr ''D'' \<in> set vs)"
| "has_D (PDict d) = Inr (''D'' \<in> keys d)"
| "has_D _ = Inl TypeErr"

definition usec_per_day :: int where
  "usec_per_day = 24 * 3600 * 1000000"

text \<open>\<open>user_is_disabled\<close>; the time is in microseconds.\<close>

definition account_expired :: "int \<Rightarrow> ldap_entry \<Rightarrow> exn + bool" where
  "account_expired now e =
     (case map_of (le_attributes e) ''shadowExpire'' of
        None \<Rightarrow> Inr False
      | Some vs \<Rightarrow>
          if \<not> truthy (the_value vs) then Inr False
          else (case the_value vs of
              PInt n \<Rightarrow> Inr (n * usec_per_day < now)
            | PBool b \<Rightarrow> Inr ((if b then 1 else 0) * usec_per_day < now)
            | _ \<Rightarrow> Inl TypeErr))"

definition user_is_disabled :: "int \<Rightarrow> ldap_entry \<Rightarrow> exn + bool" where
  "user_is_disabled now e =
     bindE (attr_value e ''sambaAcctFlags'') (\<lambda>flags.
     bindE (has_D flags) (\<lambda>d.
       if d then Inr True
       else
         bindE (attr_value e ''krb5KDCFlags'') (\<lambda>kdc.
           if kdc = PInt 254 then Inr True else account_expired now e)))"

section \<open>The directory\<close>

record ldap_env =
  ln_base :: string
  ln_host_dn :: string
  ln_secret :: "(int \<times> string) option"
  ln_bind :: "string \<Rightarrow> string \<Rightarrow> exn option"
  ln_query :: "string \<Rightarrow> string \<Rightarrow> string \<Rightarrow> string list \<Rightarrow> exn + ldap_entry list"
  ln_escape :: "string \<Rightarrow> string"
  ln_str :: "pyval \<Rightarrow> string option"
  ln_passwords :: "pyval list \<Rightarrow> exn + user_passwords"
  ln_now :: int

text \<open>The password of the host, read again if the time of its file has changed.\<close>

type_synonym machine_pw_cache = "int \<times> string"

definition initial_machine_pw :: machine_pw_cache where
  "initial_machine_pw = (0, [])"

definition machine_password :: "ldap_env \<Rightarrow> (machine_pw_cache, string) st" where
  "machine_password env mc =
     (case ln_secret env of
        None \<Rightarrow> (Inl FileNotFoundErr, mc)
      | Some (mtime, content) \<Rightarrow>
          if fst mc = mtime then (Inr (snd mc), mc)
          else (Inr (strip_text content), (mtime, strip_text content)))"

definition or_else :: "string \<Rightarrow> string \<Rightarrow> string" where
  "or_else a b = (if a \<noteq> [] then a else b)"

fun is_LDAPExceptionError :: "exn \<Rightarrow> bool" where
  "is_LDAPExceptionError LDAPBindErr = True"
| "is_LDAPExceptionError LDAPExceptionErr = True"
| "is_LDAPExceptionError _ = False"

definition check_auth_dn :: "ldap_env \<Rightarrow> string \<Rightarrow> string \<Rightarrow> exn + bool" where
  "check_auth_dn env bind_dn bind_pw =
     (case ln_bind env bind_dn bind_pw of
        None \<Rightarrow> Inr True
      | Some e \<Rightarrow> if is_LDAPExceptionError e then Inr False else Inl e)"

text \<open>The connection and the search on it, as a user.\<close>

definition connect_search :: "ldap_env \<Rightarrow> string \<Rightarrow> string \<Rightarrow> string \<Rightarrow> string \<Rightarrow> string list \<Rightarrow> exn + ldap_entry list"
  where
  "connect_search env bind_dn bind_pw base filter_s attributes =
     (case ln_bind env bind_dn bind_pw of
        Some e \<Rightarrow> Inl e
      | None \<Rightarrow> ln_query env bind_dn base filter_s attributes)"

definition search ::
    "ldap_env \<Rightarrow> string \<Rightarrow> string list \<Rightarrow> string \<Rightarrow> string \<Rightarrow> string \<Rightarrow> bool \<Rightarrow>
     (machine_pw_cache, ldap_entry list) st" where
  "search env filter_s attributes base bind_dn bind_pw raise_on_bind_error =
     bindM (if bind_pw \<noteq> [] then ret bind_pw else machine_password env) (\<lambda>pw.
       lift
         (case connect_search env (or_else bind_dn (ln_host_dn env)) pw (or_else base (ln_base env)) filter_s attributes of
            Inl e \<Rightarrow> if e = LDAPBindErr \<and> \<not> raise_on_bind_error then Inr [] else Inl e
          | Inr es \<Rightarrow> Inr es))"

text \<open>A search that must find at most one entry.\<close>

definition at_most_one :: "'a \<Rightarrow> (ldap_entry \<Rightarrow> exn + 'a) \<Rightarrow> ldap_entry list \<Rightarrow> exn + 'a" where
  "at_most_one none one es =
     (case es of [] \<Rightarrow> Inr none | [e] \<Rightarrow> one e | _ \<Rightarrow> Inl RuntimeErr)"

definition uid_filter :: "ldap_env \<Rightarrow> string \<Rightarrow> string" where
  "uid_filter env name = ''(uid='' @ ln_escape env name @ '')''"

definition get_dn_of_user :: "ldap_env \<Rightarrow> string \<Rightarrow> (machine_pw_cache, string) st" where
  "get_dn_of_user env name =
     bindM (search env (uid_filter env name) [] [] [] [] True)
       (\<lambda>es. lift (at_most_one [] (\<lambda>e. Inr (le_dn e)) es))"

text \<open>\<open>get_passwords\<close>: the coercion gets the values in the order of the model's fields.\<close>

definition password_attributes :: "string list" where
  "password_attributes =
     [''krb5Key'', ''krb5KeyVersionNumber'', ''sambaPwdLastSet'', ''sambaNTPassword'', ''userPassword'']"

definition new_passwords :: "ldap_env \<Rightarrow> ldap_entry \<Rightarrow> exn + user_passwords option" where
  "new_passwords env e =
     bindE (attr_values e ''userPassword'') (\<lambda>up.
     bindE (attr_value e ''sambaNTPassword'') (\<lambda>nt.
     bindE (attr_values e ''krb5Key'') (\<lambda>kk.
     bindE (attr_value e ''krb5KeyVersionNumber'') (\<lambda>kv.
     bindE (attr_value e ''sambaPwdLastSet'') (\<lambda>ls.
     bindE (ln_passwords env [PList up, nt, PList kk, kv, ls]) (\<lambda>p. Inr (Some p)))))))"

definition get_passwords ::
    "ldap_env \<Rightarrow> string \<Rightarrow> string \<Rightarrow> string \<Rightarrow> string \<Rightarrow> (machine_pw_cache, user_passwords option) st" where
  "get_passwords env name base bind_dn bind_pw =
     bindM (search env (uid_filter env name) password_attributes base bind_dn bind_pw True)
       (\<lambda>es. lift (at_most_one None (new_passwords env) es))"

section \<open>Users and groups\<close>

record ldap_user =
  lu_username :: string
  lu_full_name :: "string option"
  lu_disabled :: bool
  lu_dn :: string
  lu_attributes :: "(string \<times> pyval list) list"

record ldap_group =
  lg_groupname :: string
  lg_dn :: string
  lg_attributes :: "(string \<times> pyval list) list"

definition str_field :: "ldap_env \<Rightarrow> pyval \<Rightarrow> exn + string" where
  "str_field env v = (case ln_str env v of None \<Rightarrow> Inl ValidationErr | Some s \<Rightarrow> Inr s)"

definition opt_str_field :: "ldap_env \<Rightarrow> pyval \<Rightarrow> exn + string option" where
  "opt_str_field env v = (if v = PNone then Inr None else bindE (str_field env v) (\<lambda>s. Inr (Some s)))"

text \<open>The arguments are evaluated in the order of the call, and validated after that.\<close>

definition new_user :: "ldap_env \<Rightarrow> ldap_entry \<Rightarrow> exn + ldap_user option" where
  "new_user env e =
     bindE (attr_value e ''uid'') (\<lambda>uid.
     bindE (attr_value e ''displayName'') (\<lambda>display_name.
     bindE (user_is_disabled (ln_now env) e) (\<lambda>disabled.
     bindE (str_field env uid) (\<lambda>name.
     bindE (opt_str_field env display_name) (\<lambda>full_name.
       Inr (Some \<lparr>lu_username = name, lu_full_name = full_name, lu_disabled = disabled,
         lu_dn = le_dn e, lu_attributes = le_attributes e\<rparr>))))))"

definition school_user_filter :: "string \<Rightarrow> string" where
  "school_user_filter f =
     ''(&'' @ f @ ''(|(objectClass=ucsschoolStaff)(objectClass=ucsschoolStudent)(objectClass=ucsschoolTeacher)'' @
     ''(objectClass=ucsschoolLegalGuardian)))''"

definition user_attributes :: "string list" where
  "user_attributes = [''displayName'', ''krb5KDCFlags'', ''sambaAcctFlags'', ''shadowExpire'', ''uid'']"

definition get_user_ldap ::
    "ldap_env \<Rightarrow> string \<Rightarrow> string \<Rightarrow> string \<Rightarrow> string list \<Rightarrow> bool \<Rightarrow> (machine_pw_cache, ldap_user option) st"
  where
  "get_user_ldap env name bind_dn bind_pw attributes school_only =
     (let f = uid_filter env name in
      bindM (search env (if school_only then school_user_filter f else f) (attributes @ user_attributes) []
          bind_dn bind_pw False)
        (\<lambda>es. lift (at_most_one None (new_user env) es)))"

definition new_group :: "ldap_env \<Rightarrow> ldap_entry \<Rightarrow> exn + ldap_group option" where
  "new_group env e =
     bindE (attr_value e ''cn'') (\<lambda>cn. bindE (str_field env cn) (\<lambda>name.
       Inr (Some \<lparr>lg_groupname = name, lg_dn = le_dn e, lg_attributes = le_attributes e\<rparr>)))"

definition get_group_ldap ::
    "ldap_env \<Rightarrow> string \<Rightarrow> string \<Rightarrow> string \<Rightarrow> string list \<Rightarrow> bool \<Rightarrow> (machine_pw_cache, ldap_group option) st"
  where
  "get_group_ldap env groupname bind_dn bind_pw attributes school_only =
     (let f = ''(cn='' @ ln_escape env groupname @ '')'' in
      bindM (search env (if school_only then ''(&'' @ f @ ''(|(objectClass=ucsschoolGroup)))'' else f)
          (if attributes = [] then [''displayName'', ''cn''] else attributes @ [''cn'']) [] bind_dn bind_pw False)
        (\<lambda>es. lift (at_most_one None (new_group env) es)))"

section \<open>Logins\<close>

definition ADMIN_GROUP_NAME :: string where
  "ADMIN_GROUP_NAME = ''ucsschool-id-connector-admins''"

definition admin_group_members :: "ldap_env \<Rightarrow> (machine_pw_cache, pyval list) st" where
  "admin_group_members env =
     bindM (search env (''(cn='' @ ln_escape env ADMIN_GROUP_NAME @ '')'') [''uniqueMember'']
         (''cn=groups,'' @ ln_base env) [] [] True)
       (\<lambda>es. lift (case es of [e] \<Rightarrow> attr_values e ''uniqueMember'' | _ \<Rightarrow> Inr []))"

definition check_auth_and_get_user :: "ldap_env \<Rightarrow> string \<Rightarrow> string \<Rightarrow> (machine_pw_cache, ldap_user option) st"
  where
  "check_auth_and_get_user env name password =
     bindM (get_dn_of_user env name) (\<lambda>user_dn.
       if user_dn \<noteq> [] then
         bindM (admin_group_members env) (\<lambda>members.
           if PStr user_dn \<in> set members then get_user_ldap env name user_dn password [] False else ret None)
       else ret None)"

definition extended_attribute_ldap_mapping :: "ldap_env \<Rightarrow> string \<Rightarrow> (machine_pw_cache, pyval) st" where
  "extended_attribute_ldap_mapping env udm_property_name =
     bindM (search env
         (''(&(objectClass=univentionUDMProperty)(cn='' @ ln_escape env udm_property_name @ ''))'')
         [''univentionUDMPropertyLdapMapping''] (''cn=custom attributes,cn=univention,'' @ ln_base env) [] [] True)
       (\<lambda>es. lift (case es of [e] \<Rightarrow> attr_value e ''univentionUDMPropertyLdapMapping'' | _ \<Rightarrow> Inr PNone))"

section \<open>What a search does\<close>

text \<open>The cache holds the password of the file that was there at the time noted.\<close>

definition machine_pw_ok :: "ldap_env \<Rightarrow> machine_pw_cache \<Rightarrow> bool" where
  "machine_pw_ok env mc \<longleftrightarrow> (\<forall>content. ln_secret env = Some (fst mc, content) \<longrightarrow> snd mc = strip_text content)"

definition host_password :: "ldap_env \<Rightarrow> exn + string" where
  "host_password env =
     (case ln_secret env of None \<Rightarrow> Inl FileNotFoundErr | Some (_, content) \<Rightarrow> Inr (strip_text content))"

text \<open>A computation over the cache that returns what a function of the directory says.\<close>

definition reads :: "ldap_env \<Rightarrow> (machine_pw_cache, 'a) st \<Rightarrow> exn + 'a \<Rightarrow> bool" where
  "reads env m r \<longleftrightarrow>
     (\<forall>mc. machine_pw_ok env mc \<longrightarrow> fst (m mc) = r \<and> machine_pw_ok env (snd (m mc)))"

named_theorems reads_intros

lemma readsI:
  "(\<And>mc. machine_pw_ok env mc \<Longrightarrow> fst (m mc) = r \<and> machine_pw_ok env (snd (m mc))) \<Longrightarrow> reads env m r"
  by (simp add: reads_def)

lemma readsD: "reads env m r \<Longrightarrow> machine_pw_ok env mc \<Longrightarrow> m mc = (r', mc') \<Longrightarrow> r' = r \<and> machine_pw_ok env mc'"
  unfolding reads_def by (drule spec [of _ mc]) simp

lemma reads_lift [reads_intros]: "reads env (lift r) r"
  by (simp add: reads_def)

lemma reads_ret [reads_intros]: "reads env (ret x) (Inr x)"
  by (simp add: reads_def)

lemma reads_bind [reads_intros]:
  assumes "reads env m r" "\<And>x. reads env (f x) (g x)"
  shows "reads env (bindM m f) (bindE r g)"
proof (rule readsI)
  fix mc assume mc: "machine_pw_ok env mc"
  obtain r' mc' where m: "m mc = (r', mc')" by (cases "m mc") auto
  from readsD [OF assms(1) mc m] have r: "r' = r" "machine_pw_ok env mc'" by auto
  from m show "fst (bindM m f mc) = bindE r g \<and> machine_pw_ok env (snd (bindM m f mc))"
    using r assms(2) [unfolded reads_def] by (cases r) (simp_all add: bindM_apply del: split_paired_All)
qed

lemma reads_if [reads_intros]:
  "reads env m r \<Longrightarrow> reads env m' r' \<Longrightarrow> reads env (if b then m else m') (if b then r else r')"
  by simp

lemma reads_machine_password [reads_intros]: "reads env (machine_password env) (host_password env)"
  by (auto simp: reads_def machine_password_def host_password_def machine_pw_ok_def split: option.split)

text \<open>Searches without their cache, as functions of the directory.\<close>

definition search_result ::
    "ldap_env \<Rightarrow> string \<Rightarrow> string list \<Rightarrow> string \<Rightarrow> string \<Rightarrow> string \<Rightarrow> bool \<Rightarrow> exn + ldap_entry list" where
  "search_result env filter_s attributes base bind_dn bind_pw raise_on_bind_error =
     bindE (if bind_pw \<noteq> [] then Inr bind_pw else host_password env) (\<lambda>pw.
       (case connect_search env (or_else bind_dn (ln_host_dn env)) pw (or_else base (ln_base env)) filter_s attributes of
          Inl e \<Rightarrow> if e = LDAPBindErr \<and> \<not> raise_on_bind_error then Inr [] else Inl e
        | Inr es \<Rightarrow> Inr es))"

lemma reads_search [reads_intros]:
  "reads env (search env f attrs base dn pw b) (search_result env f attrs base dn pw b)"
  unfolding search_def search_result_def by (intro reads_intros)

definition user_dn_found :: "ldap_env \<Rightarrow> string \<Rightarrow> exn + string" where
  "user_dn_found env name =
     bindE (search_result env (uid_filter env name) [] [] [] [] True) (at_most_one [] (\<lambda>e. Inr (le_dn e)))"

definition user_found :: "ldap_env \<Rightarrow> string \<Rightarrow> string \<Rightarrow> string \<Rightarrow> exn + ldap_user option" where
  "user_found env name bind_dn bind_pw =
     bindE (search_result env (uid_filter env name) user_attributes [] bind_dn bind_pw False)
       (at_most_one None (new_user env))"

definition admins_found :: "ldap_env \<Rightarrow> exn + pyval list" where
  "admins_found env =
     bindE (search_result env (''(cn='' @ ln_escape env ADMIN_GROUP_NAME @ '')'') [''uniqueMember'']
         (''cn=groups,'' @ ln_base env) [] [] True)
       (\<lambda>es. case es of [e] \<Rightarrow> attr_values e ''uniqueMember'' | _ \<Rightarrow> Inr [])"

definition login_found :: "ldap_env \<Rightarrow> string \<Rightarrow> string \<Rightarrow> exn + ldap_user option" where
  "login_found env name password =
     bindE (user_dn_found env name) (\<lambda>user_dn.
       if user_dn \<noteq> [] then
         bindE (admins_found env) (\<lambda>members.
           if PStr user_dn \<in> set members then user_found env name user_dn password else Inr None)
       else Inr None)"

lemma reads_get_dn [reads_intros]: "reads env (get_dn_of_user env name) (user_dn_found env name)"
  unfolding get_dn_of_user_def user_dn_found_def by (intro reads_intros)

lemma reads_admins [reads_intros]: "reads env (admin_group_members env) (admins_found env)"
  unfolding admin_group_members_def admins_found_def by (intro reads_intros)

lemma reads_get_user [reads_intros]:
  "reads env (get_user_ldap env name dn pw [] False) (user_found env name dn pw)"
  unfolding get_user_ldap_def user_found_def Let_def by (simp, intro reads_intros)

lemma reads_login: "reads env (check_auth_and_get_user env name password) (login_found env name password)"
  unfolding check_auth_and_get_user_def login_found_def by (intro reads_intros)

text \<open>
  Who can log in: the name belongs to exactly one entry, its DN is a member of the group of
  administrators, and the server accepts the password for this DN; but if no password is given, it is
  asked with the password of the host.
\<close>

lemma at_most_one_Some:
  "at_most_one None f es = Inr (Some x) \<Longrightarrow> \<exists>e. es = [e] \<and> f e = Inr (Some x)"
  by (auto simp: at_most_one_def split: list.splits)

lemma new_user_dn: "new_user env e = Inr (Some u) \<Longrightarrow> lu_dn u = le_dn e"
  by (auto simp: new_user_def)

lemma search_result_bound:
  assumes "search_result env f attrs base dn pw b = Inr es" "es \<noteq> []"
  shows "\<exists>p. (if pw \<noteq> [] then p = pw else host_password env = Inr p) \<and>
    ln_bind env (or_else dn (ln_host_dn env)) p = None"
proof -
  from assms(1) obtain p where p: "(if pw \<noteq> [] then Inr pw else host_password env) = Inr p"
    "(case connect_search env (or_else dn (ln_host_dn env)) p (or_else base (ln_base env)) f attrs of
        Inl e \<Rightarrow> if e = LDAPBindErr \<and> \<not> b then Inr [] else Inl e | Inr es \<Rightarrow> Inr es) = Inr es"
    unfolding search_result_def by (rule bindE_InrE)
  from p(2) assms(2) have "ln_bind env (or_else dn (ln_host_dn env)) p = None"
    by (cases "ln_bind env (or_else dn (ln_host_dn env)) p") (auto simp: connect_search_def split: if_splits)
  with p(1) show ?thesis by (intro exI [of _ p]) (auto split: if_splits)
qed

lemma user_found_bound:
  assumes "user_found env name dn pw = Inr (Some u)"
  shows "\<exists>p. (if pw \<noteq> [] then p = pw else host_password env = Inr p) \<and>
    ln_bind env (or_else dn (ln_host_dn env)) p = None"
proof -
  from assms obtain es where es: "search_result env (uid_filter env name) user_attributes [] dn pw False = Inr es"
    and one: "at_most_one None (new_user env) es = Inr (Some u)"
    unfolding user_found_def by (rule bindE_InrE)
  from at_most_one_Some [OF one] have "es \<noteq> []" by auto
  from search_result_bound [OF es this] show ?thesis .
qed

lemma login_checked:
  assumes "login_found env name password = Inr (Some u)"
  shows "\<exists>dn p members. user_dn_found env name = Inr dn \<and> dn \<noteq> [] \<and> admins_found env = Inr members \<and>
    PStr dn \<in> set members \<and> (if password \<noteq> [] then p = password else host_password env = Inr p) \<and>
    ln_bind env dn p = None"
proof -
  from assms obtain dn where dn: "user_dn_found env name = Inr dn"
    "(if dn \<noteq> [] then
        bindE (admins_found env) (\<lambda>members.
          if PStr dn \<in> set members then user_found env name dn password else Inr None)
      else Inr None) = Inr (Some u)"
    unfolding login_found_def by (rule bindE_InrE)
  then have "dn \<noteq> []" by (auto split: if_splits)
  with dn(2) have "bindE (admins_found env) (\<lambda>members.
      if PStr dn \<in> set members then user_found env name dn password else Inr None) = Inr (Some u)" by simp
  then obtain members where "admins_found env = Inr members"
    "(if PStr dn \<in> set members then user_found env name dn password else Inr None) = Inr (Some u)"
    by (rule bindE_InrE)
  then have 1: "admins_found env = Inr members" "PStr dn \<in> set members"
    "user_found env name dn password = Inr (Some u)"
    by (simp_all split: if_splits)
  from user_found_bound [OF 1(3)] \<open>dn \<noteq> []\<close> obtain p where
    "if password \<noteq> [] then p = password else host_password env = Inr p" "ln_bind env dn p = None"
    by (auto simp: or_else_def)
  with 1 dn(1) \<open>dn \<noteq> []\<close> show ?thesis by blast
qed

end
