(* ===== verification/Token_Auth.thy ===== *)
theory Token_Auth
  imports Ldap_Access
begin

text \<open>
  Access tokens (token_auth.py and the login of http_api.py): the key they are signed with, their time to
  live, and which user a token stands for.

  Coding and decoding of tokens is a parameter: signing a payload with a key, and checking a token with a
  key at a time, in seconds.
\<close>

record token_env =
  te_encode :: "string \<Rightarrow> pydict \<Rightarrow> string"
  te_decode :: "string \<Rightarrow> int \<Rightarrow> string \<Rightarrow> exn + pydict"
  te_secret_file :: "string option"
  te_ucr :: ucr_file
  te_now :: int
  te_ldap :: ldap_env

record auth_state =
  au_secret_key :: string
  au_ucr :: ucr_cache
  au_machine_pw :: machine_pw_cache

definition initial_auth :: auth_state where
  "initial_auth = \<lparr>au_secret_key = [], au_ucr = initial_ucr, au_machine_pw = initial_machine_pw\<rparr>"

definition on_ldap :: "(machine_pw_cache, 'a) st \<Rightarrow> (auth_state, 'a) st" where
  "on_ldap m s = (case m (au_machine_pw s) of (r, mc) \<Rightarrow> (r, s\<lparr>au_machine_pw := mc\<rparr>))"

definition on_ucr :: "(ucr_cache, 'a) st \<Rightarrow> (auth_state, 'a) st" where
  "on_ucr m s = (case m (au_ucr s) of (r, uc) \<Rightarrow> (r, s\<lparr>au_ucr := uc\<rparr>))"

section \<open>Tokens\<close>

definition get_secret_key :: "token_env \<Rightarrow> (auth_state, string) st" where
  "get_secret_key env s =
     (if au_secret_key s \<noteq> [] then (Inr (au_secret_key s), s)
      else (case te_secret_file env of
          None \<Rightarrow> (Inl FileNotFoundErr, s)
        | Some key \<Rightarrow> (Inr (strip_text key), s\<lparr>au_secret_key := strip_text key\<rparr>)))"

text \<open>The time to live is in seconds; none and zero are the same.\<close>

definition create_access_token :: "token_env \<Rightarrow> pydict \<Rightarrow> int \<Rightarrow> (auth_state, string) st" where
  "create_access_token env data expires_delta =
     bindM (if expires_delta \<noteq> 0 then ret expires_delta
            else bindM (on_ucr (get_token_ttl (te_ucr env))) (\<lambda>minutes. ret (60 * minutes))) (\<lambda>delta.
     bindM (get_secret_key env) (\<lambda>key.
       ret (te_encode env key (AList.update ''exp'' (PInt (te_now env + delta)) data))))"

definition unauthorized :: exn where
  "unauthorized = HTTPException 401"

definition token_name :: "token_env \<Rightarrow> pydict \<Rightarrow> exn + string" where
  "token_name env payload =
     (case map_of payload ''sub'' of
        None \<Rightarrow> Inl unauthorized
      | Some v \<Rightarrow> if v = PNone then Inl unauthorized else str_field (te_ldap env) v)"

definition get_current_user :: "token_env \<Rightarrow> string \<Rightarrow> (auth_state, ldap_user) st" where
  "get_current_user env token =
     bindM (get_secret_key env) (\<lambda>key.
     bindM (lift (case te_decode env key (te_now env) token of
                    Inl e \<Rightarrow> Inl (if e = PyJWTErr then unauthorized else e)
                  | Inr payload \<Rightarrow> token_name env payload)) (\<lambda>name.
     bindM (on_ldap (get_user_ldap (te_ldap env) name [] [] [] False)) (\<lambda>user.
       lift (case user of None \<Rightarrow> Inl unauthorized | Some u \<Rightarrow> Inr u))))"

definition get_current_active_user :: "token_env \<Rightarrow> string \<Rightarrow> (auth_state, ldap_user) st" where
  "get_current_active_user env token =
     bindM (get_current_user env token) (\<lambda>u. if lu_disabled u then throw unauthorized else ret u)"

definition login_for_access_token :: "token_env \<Rightarrow> string \<Rightarrow> string \<Rightarrow> (auth_state, string) st" where
  "login_for_access_token env name password =
     bindM (on_ldap (check_auth_and_get_user (te_ldap env) name password)) (\<lambda>user.
       case user of
         None \<Rightarrow> throw unauthorized
       | Some u \<Rightarrow>
           bindM (on_ucr (get_token_ttl (te_ucr env))) (\<lambda>minutes.
             create_access_token env [(''sub'', PStr (lu_username u))] (60 * minutes)))"

section \<open>What a token stands for\<close>

text \<open>The state's caches do not show, apart from the key, which is read only once.\<close>

definition auth_ok :: "token_env \<Rightarrow> auth_state \<Rightarrow> bool" where
  "auth_ok env s \<longleftrightarrow> machine_pw_ok (te_ldap env) (au_machine_pw s)"

definition signing_key :: "token_env \<Rightarrow> auth_state \<Rightarrow> exn + string" where
  "signing_key env s =
     (if au_secret_key s \<noteq> [] then Inr (au_secret_key s)
      else (case te_secret_file env of None \<Rightarrow> Inl FileNotFoundErr | Some key \<Rightarrow> Inr (strip_text key)))"

lemma get_secret_key_ok:
  "\<exists>s'. get_secret_key env s = (signing_key env s, s') \<and> signing_key env s' = signing_key env s \<and>
    au_machine_pw s' = au_machine_pw s"
proof -
  have "fst (get_secret_key env s) = signing_key env s" "signing_key env (snd (get_secret_key env s)) = signing_key env s"
    "au_machine_pw (snd (get_secret_key env s)) = au_machine_pw s"
    by (simp_all add: get_secret_key_def signing_key_def split: option.split)
  then show ?thesis by (intro exI [of _ "snd (get_secret_key env s)"]) (simp add: prod_eq_iff)
qed

lemma on_ldap_ok:
  assumes "reads (te_ldap env) m r" "auth_ok env s"
  shows "\<exists>s'. on_ldap m s = (r, s') \<and> signing_key env s' = signing_key env s \<and> auth_ok env s'"
proof -
  obtain r' mc' where m: "m (au_machine_pw s) = (r', mc')" by (cases "m (au_machine_pw s)") auto
  from readsD [OF assms(1) _ m] assms(2) have "r' = r" "machine_pw_ok (te_ldap env) mc'"
    by (auto simp: auth_ok_def)
  with m show ?thesis by (simp add: on_ldap_def auth_ok_def signing_key_def)
qed

lemma on_ucr_ok:
  "signing_key env (snd (on_ucr m s)) = signing_key env s" "auth_ok env s \<Longrightarrow> auth_ok env (snd (on_ucr m s))"
  by (simp_all add: on_ucr_def signing_key_def auth_ok_def split: prod.split)

text \<open>Which user a token is accepted for, as a function of the directory and the key.\<close>

definition token_user :: "token_env \<Rightarrow> exn + string \<Rightarrow> string \<Rightarrow> exn + ldap_user" where
  "token_user env key token =
     bindE key (\<lambda>key.
     bindE (case te_decode env key (te_now env) token of
              Inl e \<Rightarrow> Inl (if e = PyJWTErr then unauthorized else e)
            | Inr payload \<Rightarrow> token_name env payload) (\<lambda>name.
     bindE (user_found (te_ldap env) name [] []) (\<lambda>user.
       case user of
         None \<Rightarrow> Inl unauthorized
       | Some u \<Rightarrow> if lu_disabled u then Inl unauthorized else Inr u)))"

lemma active_user_ok:
  assumes "auth_ok env s"
  shows "\<exists>s'. get_current_active_user env token s = (token_user env (signing_key env s) token, s') \<and>
    signing_key env s' = signing_key env s \<and> auth_ok env s'"
proof -
  obtain s1 where s1: "get_secret_key env s = (signing_key env s, s1)" "signing_key env s1 = signing_key env s"
    "au_machine_pw s1 = au_machine_pw s"
    using get_secret_key_ok by blast
  then have ok: "auth_ok env s1" using assms by (simp add: auth_ok_def)
  show ?thesis
  proof (cases "signing_key env s")
    case (Inl e)
    with s1 ok show ?thesis by (simp add: get_current_active_user_def get_current_user_def token_user_def bindM_apply)
  next
    case key: (Inr key)
    let ?name = "case te_decode env key (te_now env) token of
        Inl e \<Rightarrow> Inl (if e = PyJWTErr then unauthorized else e) | Inr payload \<Rightarrow> token_name env payload"
    show ?thesis
    proof (cases ?name)
      case (Inl e)
      with key s1 ok show ?thesis
        by (simp add: get_current_active_user_def get_current_user_def token_user_def bindM_apply)
    next
      case name: (Inr name)
      obtain s2 where "on_ldap (get_user_ldap (te_ldap env) name [] [] [] False) s1 = (user_found (te_ldap env) name [] [], s2)"
        "signing_key env s2 = signing_key env s1" "auth_ok env s2"
        using on_ldap_ok [OF reads_get_user ok] by blast
      with name key s1 show ?thesis
        by (auto simp: get_current_active_user_def get_current_user_def token_user_def bindM_apply
            split: sum.split option.split)
    qed
  qed
qed

lemma token_user_Inr:
  assumes "token_user env (Inr key) token = Inr u"
  shows "\<exists>payload name. te_decode env key (te_now env) token = Inr payload \<and> token_name env payload = Inr name \<and>
    user_found (te_ldap env) name [] [] = Inr (Some u) \<and> \<not> lu_disabled u"
  using assms
  by (auto simp: token_user_def split: sum.splits option.splits if_splits)

text \<open>
  The documented behaviour of the library for the tokens that are made here: the payload is read back
  with the same key until its expiry time, and not after it.
\<close>

definition jwt_laws :: "token_env \<Rightarrow> bool" where
  "jwt_laws env \<longleftrightarrow>
     (\<forall>key name x t.
        te_decode env key t (te_encode env key [(''sub'', PStr name), (''exp'', PInt x)]) =
          (if t < x then Inr [(''sub'', PStr name), (''exp'', PInt x)] else Inl PyJWTErr))"

lemma create_token_ok:
  assumes "create_access_token env data delta s = (Inr token, s')" "delta \<noteq> 0"
  shows "\<exists>key. signing_key env s = Inr key \<and> signing_key env s' = Inr key \<and>
    token = te_encode env key (AList.update ''exp'' (PInt (te_now env + delta)) data)"
proof -
  obtain s1 where s1: "get_secret_key env s = (signing_key env s, s1)" "signing_key env s1 = signing_key env s"
    using get_secret_key_ok by blast
  with assms show ?thesis by (cases "signing_key env s") (auto simp: create_access_token_def bindM_apply)
qed

lemma login_ok:
  assumes "login_for_access_token env name password s = (Inr token, s')" "auth_ok env s"
    and "get_token_ttl (te_ucr env) (au_ucr s) = (Inr minutes, uc)" "0 < minutes"
  shows "\<exists>u key. login_found (te_ldap env) name password = Inr (Some u) \<and> signing_key env s' = Inr key \<and>
    token = te_encode env key [(''sub'', PStr (lu_username u)), (''exp'', PInt (te_now env + 60 * minutes))]"
proof -
  let ?m = "check_auth_and_get_user (te_ldap env) name password"
  obtain s1 where s1: "on_ldap ?m s = (login_found (te_ldap env) name password, s1)"
    using on_ldap_ok [OF reads_login assms(2)] by blast
  then have ucr: "au_ucr s1 = au_ucr s" by (auto simp: on_ldap_def split: prod.splits)
  from assms(1) s1 obtain u where u: "login_found (te_ldap env) name password = Inr (Some u)"
    by (auto simp: login_for_access_token_def bindM_apply split: sum.splits option.splits)
  let ?s2 = "s1\<lparr>au_ucr := uc\<rparr>"
  have "on_ucr (get_token_ttl (te_ucr env)) s1 = (Inr minutes, ?s2)" using assms(3) ucr by (simp add: on_ucr_def)
  with assms(1) s1 u have "create_access_token env [(''sub'', PStr (lu_username u))] (60 * minutes) ?s2 = (Inr token, s')"
    by (simp add: login_for_access_token_def bindM_apply)
  from create_token_ok [OF this] assms(4) u show ?thesis by auto
qed

lemma login_token_user:
  assumes "login_for_access_token env name password s = (Inr token, s')" "auth_ok env s"
    and "get_token_ttl (te_ucr env) (au_ucr s) = (Inr minutes, uc)" "0 < minutes"
    and "jwt_laws env" "\<forall>x. ln_str (te_ldap env) (PStr x) = Some x"
  shows "\<exists>u. login_found (te_ldap env) name password = Inr (Some u) \<and>
    token_user (env\<lparr>te_now := t\<rparr>) (signing_key env s') token =
      (if t < te_now env + 60 * minutes then
         bindE (user_found (te_ldap env) (lu_username u) [] []) (\<lambda>v.
           case v of None \<Rightarrow> Inl unauthorized | Some v \<Rightarrow> if lu_disabled v then Inl unauthorized else Inr v)
       else Inl unauthorized)"
proof -
  from login_ok [OF assms(1-4)] obtain u key where u: "login_found (te_ldap env) name password = Inr (Some u)"
    "signing_key env s' = Inr key"
    "token = te_encode env key [(''sub'', PStr (lu_username u)), (''exp'', PInt (te_now env + 60 * minutes))]"
    by blast
  then have "te_decode env key t token =
      (if t < te_now env + 60 * minutes then
         Inr [(''sub'', PStr (lu_username u)), (''exp'', PInt (te_now env + 60 * minutes))] else Inl PyJWTErr)"
    using assms(5) by (simp add: jwt_laws_def)
  with u assms(6) show ?thesis
    by (intro exI [of _ u]) (simp add: token_user_def token_name_def str_field_def)
qed

end
