(* ===== verification/Http_Api.thy ===== *)
theory Http_Api
  imports Rpc Token_Auth
begin

text \<open>
  The HTTP API (http_api.py) and the loop of the RPC server it talks to (rpc.py): a request is let through
  if its token stands for an active user, it becomes an RPC request, which the server answers with a
  result or errors, and the answer becomes a response with a status code.

  Parameters are the coding of requests and results as JSON, with the validation on the way, and what
  happens to the messages: the client waits a limited time for the answer, which may come later than that,
  or never if no server is running. The order of requests is that in which the server handles them.
\<close>

section \<open>The RPC server\<close>

datatype rpc_response = Errors exn | Result rpc_result

record coding =
  cd_request :: "rpc_request \<Rightarrow> string"
  cd_parse :: "string \<Rightarrow> exn + rpc_request"
  cd_result :: "rpc_result \<Rightarrow> exn + rpc_result"

text \<open>One message: all exceptions become errors of the response, so that the loop goes on.\<close>

definition serve_message ::
    "'c env \<Rightarrow> coercions \<Rightarrow> coding \<Rightarrow> string \<Rightarrow> string \<Rightarrow> 'c service \<Rightarrow> rpc_response \<times> 'c service" where
  "serve_message env co cd timestamp message sv =
     (case cd_parse cd message of
        Inl e \<Rightarrow> (Errors e, sv)
      | Inr rq \<Rightarrow>
          if \<not> valid_rpc_request rq then (Errors ValidationErr, sv)
          else (case handle_request env co timestamp rq sv of
              (Inl e, sv') \<Rightarrow> (Errors e, sv')
            | (Inr r, sv') \<Rightarrow> (Result r, sv')))"

section \<open>Queries\<close>

datatype delivery = Answered | Request_Lost | Answer_Late

definition query_service ::
    "'c env \<Rightarrow> coercions \<Rightarrow> coding \<Rightarrow> string \<Rightarrow> delivery \<Rightarrow> rpc_request \<Rightarrow> ('c service, rpc_response) st" where
  "query_service env co cd timestamp dv rq sv =
     (if \<not> valid_rpc_request rq then (Inl ValidationErr, sv)
      else (case dv of
          Request_Lost \<Rightarrow> (Inl (HTTPException 500), sv)
        | Answer_Late \<Rightarrow> (Inl (HTTPException 500), snd (serve_message env co cd timestamp (cd_request cd rq) sv))
        | Answered \<Rightarrow>
            (case serve_message env co cd timestamp (cd_request cd rq) sv of (r, sv') \<Rightarrow> (Inr r, sv'))))"

section \<open>Routes\<close>

text \<open>The documents of a request are the dictionaries that they are turned into after their validation.\<close>

datatype api_request =
    Read_Mapping
  | Put_Mapping pydict
  | Read_Queues
  | Read_Queue string
  | Read_Authorities
  | Create_Authority pydict
  | Read_Authority string
  | Delete_Authority string
  | Patch_Authority string pydict

definition rpc_call :: "rpc_command \<Rightarrow> string \<Rightarrow> pydict \<Rightarrow> pydict \<Rightarrow> rpc_request" where
  "rpc_call cmd name sa mapping =
     \<lparr>rq_cmd = cmd, rq_name = name, rq_school_authority = sa, rq_school_to_authority_mapping = mapping\<rparr>"

fun route_query :: "api_request \<Rightarrow> rpc_request" where
  "route_query Read_Mapping = rpc_call get_school_to_authority_mapping [] [] []"
| "route_query (Put_Mapping m) = rpc_call put_school_to_authority_mapping [] [] m"
| "route_query Read_Queues = rpc_call get_queues [] [] []"
| "route_query (Read_Queue name) = rpc_call get_queue name [] []"
| "route_query Read_Authorities = rpc_call get_school_authorities [] [] []"
| "route_query (Create_Authority d) = rpc_call create_school_authority [] d []"
| "route_query (Read_Authority name) = rpc_call get_school_authority name [] []"
| "route_query (Delete_Authority name) = rpc_call delete_school_authority name [] []"
| "route_query (Patch_Authority name d) = rpc_call patch_school_authority name d []"

text \<open>
  The exception for a response with errors: two routes do not look at the errors and fail on the result
  \<open>None\<close> instead.
\<close>

fun route_error :: "api_request \<Rightarrow> exn" where
  "route_error Read_Mapping = HTTPException 500"
| "route_error (Put_Mapping _) = HTTPException 500"
| "route_error Read_Queues = TypeErr"
| "route_error (Read_Queue _) = HTTPException 404"
| "route_error Read_Authorities = TypeErr"
| "route_error (Create_Authority _) = HTTPException 400"
| "route_error (Read_Authority _) = HTTPException 404"
| "route_error (Delete_Authority _) = HTTPException 404"
| "route_error (Patch_Authority _ _) = HTTPException 400"

fun route_status :: "api_request \<Rightarrow> nat" where
  "route_status (Create_Authority _) = 201"
| "route_status (Delete_Authority _) = 204"
| "route_status _ = 200"

text \<open>
  The value of a response. A result of another kind does not fit the model of the route.
\<close>

datatype api_value =
    v_none
  | v_mapping "(string \<times> string) list"
  | v_queue queue_model
  | v_queues "queue_model list"
  | v_school_authority school_authority
  | v_school_authorities "school_authority list"

fun route_value :: "api_request \<Rightarrow> rpc_result \<Rightarrow> exn + api_value" where
  "route_value Read_Mapping (r_mapping m) = Inr (v_mapping m)"
| "route_value (Put_Mapping _) (r_mapping m) = Inr (v_mapping m)"
| "route_value Read_Queues (r_queues iq oqs) = Inr (v_queues (iq # oqs))"
| "route_value (Read_Queue _) (r_queue q) = Inr (v_queue q)"
| "route_value Read_Authorities (r_school_authorities sas) = Inr (v_school_authorities (sort_key sa_name sas))"
| "route_value (Create_Authority _) (r_school_authority sa) = Inr (v_school_authority sa)"
| "route_value (Read_Authority _) (r_school_authority sa) = Inr (v_school_authority sa)"
| "route_value (Patch_Authority _ _) (r_school_authority sa) = Inr (v_school_authority sa)"
| "route_value _ _ = Inl ValidationErr"

definition route_result :: "coding \<Rightarrow> api_request \<Rightarrow> rpc_response \<Rightarrow> exn + api_value" where
  "route_result cd req resp =
     (case resp of
        Errors _ \<Rightarrow> Inl (route_error req)
      | Result r \<Rightarrow>
          (case req of
             Delete_Authority _ \<Rightarrow> Inr v_none
           | _ \<Rightarrow> bindE (cd_result cd r) (route_value req)))"

definition call_route ::
    "'c env \<Rightarrow> coercions \<Rightarrow> coding \<Rightarrow> string \<Rightarrow> delivery \<Rightarrow> api_request \<Rightarrow> ('c service, api_value) st" where
  "call_route env co cd timestamp dv req =
     bindM (query_service env co cd timestamp dv (route_query req)) (\<lambda>resp. lift (route_result cd req resp))"

section \<open>The API\<close>

record 'c api =
  ap_auth :: auth_state
  ap_service :: "'c service"

datatype api_response = Response nat "api_value option"

definition status_of :: "api_response \<Rightarrow> nat" where
  "status_of r = (case r of Response n _ \<Rightarrow> n)"

text \<open>An exception that is no \<open>HTTPException\<close> is an internal server error.\<close>

fun error_response :: "exn \<Rightarrow> api_response" where
  "error_response (HTTPException n) = Response n None"
| "error_response _ = Response 500 None"

definition api_call ::
    "'c env \<Rightarrow> coercions \<Rightarrow> coding \<Rightarrow> string \<Rightarrow> token_env \<Rightarrow> string \<Rightarrow> delivery \<Rightarrow> api_request \<Rightarrow> 'c api \<Rightarrow>
     api_response \<times> 'c api" where
  "api_call env co cd timestamp tenv token dv req ap =
     (case get_current_active_user tenv token (ap_auth ap) of
        (Inl e, a) \<Rightarrow> (error_response e, ap\<lparr>ap_auth := a\<rparr>)
      | (Inr _, a) \<Rightarrow>
          (case call_route env co cd timestamp dv req (ap_service ap) of
             (Inl e, sv) \<Rightarrow> (error_response e, ap\<lparr>ap_auth := a, ap_service := sv\<rparr>)
           | (Inr r, sv) \<Rightarrow> (Response (route_status req) (Some r), ap\<lparr>ap_auth := a, ap_service := sv\<rparr>)))"

text \<open>A sequence of requests, each with the world as it is at its time.\<close>

type_synonym api_event = "string \<times> token_env \<times> string \<times> delivery \<times> api_request"

fun api_calls :: "'c env \<Rightarrow> coercions \<Rightarrow> coding \<Rightarrow> api_event list \<Rightarrow> 'c api \<Rightarrow> api_response list \<times> 'c api" where
  "api_calls env co cd [] ap = ([], ap)"
| "api_calls env co cd ((timestamp, tenv, token, dv, req) # evs) ap =
     (case api_call env co cd timestamp tenv token dv req ap of (r, ap') \<Rightarrow>
       (case api_calls env co cd evs ap' of (rs, ap'') \<Rightarrow> (r # rs, ap'')))"

section \<open>What requests can do\<close>

lemma serve_message_inv:
  assumes "keeps_name co" "service_inv sv"
  shows "service_inv (snd (serve_message env co cd timestamp message sv))"
proof (cases "cd_parse cd message")
  case (Inr rq)
  have "service_inv (snd (handle_request env co timestamp rq sv))"
    using preservesD [OF inv_handle_request [OF assms(1)] assms(2)] .
  with Inr assms(2) show ?thesis by (auto simp: serve_message_def split: prod.splits sum.splits)
qed (use assms in \<open>simp add: serve_message_def\<close>)

lemma query_service_state:
  "snd (query_service env co cd timestamp dv rq sv) \<in>
     {sv, snd (serve_message env co cd timestamp (cd_request cd rq) sv)}"
  by (cases dv) (auto simp: query_service_def split: prod.split)

lemma call_route_state:
  "snd (call_route env co cd timestamp dv req sv) = snd (query_service env co cd timestamp dv (route_query req) sv)"
  by (cases "query_service env co cd timestamp dv (route_query req) sv") (auto simp: call_route_def bindM_apply split: sum.split)

lemma call_route_inv:
  assumes "keeps_name co" "service_inv sv"
  shows "service_inv (snd (call_route env co cd timestamp dv req sv))"
  using query_service_state [of env co cd timestamp dv "route_query req" sv] serve_message_inv [OF assms] assms(2)
  by (auto simp: call_route_state)

lemma api_call_service:
  "ap_service (snd (api_call env co cd timestamp tenv token dv req ap)) \<in>
     {ap_service ap, snd (call_route env co cd timestamp dv req (ap_service ap))}"
  by (auto simp: api_call_def split: prod.split sum.split)

lemma api_calls_inv:
  assumes "keeps_name co" "service_inv (ap_service ap)"
  shows "service_inv (ap_service (snd (api_calls env co cd evs ap)))"
  using assms(2)
proof (induction evs arbitrary: ap)
  case (Cons ev evs)
  obtain timestamp tenv token dv req where ev: "ev = (timestamp, tenv, token, dv, req)" by (metis surj_pair)
  obtain r ap' where ap': "api_call env co cd timestamp tenv token dv req ap = (r, ap')"
    by (cases "api_call env co cd timestamp tenv token dv req ap") auto
  have "service_inv (ap_service ap')"
    using api_call_service [of env co cd timestamp tenv token dv req ap] call_route_inv [OF assms(1) Cons.prems] Cons.prems
    unfolding ap' by auto
  from Cons.IH [OF this] show ?case by (auto simp: ev ap' split: prod.splits)
qed simp

text \<open>A request whose token is not accepted does not reach the service.\<close>

lemma refused_no_effect:
  assumes "auth_ok tenv (ap_auth ap)"
    and "token_user tenv (signing_key tenv (ap_auth ap)) token = Inl e"
  shows "\<exists>a. api_call env co cd timestamp tenv token dv req ap = (error_response e, ap\<lparr>ap_auth := a\<rparr>)"
  using active_user_ok [OF assms(1), of token] assms(2) by (auto simp: api_call_def)

lemma unknown_token_refused:
  assumes "signing_key tenv a = Inr key" "te_decode tenv key (te_now tenv) token = Inl PyJWTErr"
  shows "token_user tenv (signing_key tenv a) token = Inl unauthorized"
  by (simp add: token_user_def assms)

text \<open>A request that is let through: the response is that of the route.\<close>

lemma accepted_call:
  assumes "auth_ok tenv (ap_auth ap)"
    and "token_user tenv (signing_key tenv (ap_auth ap)) token = Inr u"
  shows "\<exists>a. api_call env co cd timestamp tenv token dv req ap =
    (case call_route env co cd timestamp dv req (ap_service ap) of
       (Inl e, sv) \<Rightarrow> (error_response e, ap\<lparr>ap_auth := a, ap_service := sv\<rparr>)
     | (Inr r, sv) \<Rightarrow> (Response (route_status req) (Some r), ap\<lparr>ap_auth := a, ap_service := sv\<rparr>))"
  using active_user_ok [OF assms(1), of token] assms(2) by (auto simp: api_call_def)

text \<open>The documented behaviour of the coding: a request that was sent is the one received.\<close>

definition read_back :: "coding \<Rightarrow> rpc_request \<Rightarrow> bool" where
  "read_back cd rq \<longleftrightarrow> cd_parse cd (cd_request cd rq) = Inr rq"

lemma answered_route:
  assumes "read_back cd (route_query req)" "valid_rpc_request (route_query req)"
  shows "call_route env co cd timestamp Answered req sv =
    (case handle_request env co timestamp (route_query req) sv of
       (Inl e, sv') \<Rightarrow> (Inl (route_error req), sv')
     | (Inr r, sv') \<Rightarrow> (route_result cd req (Result r), sv'))"
  using assms
  by (simp add: call_route_def query_service_def serve_message_def read_back_def bindM_apply route_result_def
      split: prod.split sum.split)

text \<open>The client's time is over before the answer comes: an error is reported, but the request was handled.\<close>

lemma late_answer:
  assumes "read_back cd (route_query req)" "valid_rpc_request (route_query req)"
  shows "call_route env co cd timestamp Answer_Late req sv =
    (Inl (HTTPException 500), snd (handle_request env co timestamp (route_query req) sv))"
  using assms
  by (simp add: call_route_def query_service_def serve_message_def read_back_def bindM_apply
      split: prod.split sum.split)

text \<open>What a read of a school authority answers.\<close>

lemma read_authority_status:
  assumes "read_back cd (route_query (Read_Authority name))" "name \<noteq> []" "\<forall>r. cd_result cd r = Inr r"
  shows "call_route env co cd timestamp Answered (Read_Authority name) sv =
    (case find_queue name (sv_out_queues sv) of
       None \<Rightarrow> Inl (HTTPException 404)
     | Some q \<Rightarrow> Inr (v_school_authority (oq_school_authority q)), sv)"
proof -
  have "valid_rpc_request (route_query (Read_Authority name))"
    using assms(2) by (simp add: valid_rpc_request_def rpc_call_def required_args_present_def)
  then show ?thesis
    using assms(3) answered_route [OF assms(1), of env co timestamp sv]
    by (cases "find_queue name (sv_out_queues sv)")
      (simp_all add: handle_request_def get_school_authority_rq_def rpc_call_def route_result_def)
qed

end
