(* ===== verification/Service_Run.thy ===== *)
theory Service_Run
  imports Http_Api
begin

text \<open>
  The running service (scripts/queue_management.py): after its start the task of the in queue, the tasks of
  the out queues and the RPC server work side by side, until a signal makes it shut down. A step of the
  relation is one round of a queue, or one message handled by the server; the order is free. Between them,
  listener files arrive and the world outside changes. LDAP, clock and pydantic may answer differently in
  every step (\<open>env\<close>, \<open>renv\<close>).

  A task that raises is over. The task of an out queue waits for a successful ping before its rounds;
  the relation allows a round without it, so that it has all runs of the program and more.
\<close>

record ('c, 'w) live =
  lv_service :: "'c service"
  lv_in_running :: bool
  lv_rpc_running :: bool
  lv_world :: 'w

definition live_start :: "'c service \<Rightarrow> 'w \<Rightarrow> ('c, 'w) live" where
  "live_start sv w = \<lparr>lv_service = sv, lv_in_running = True, lv_rpc_running = True, lv_world = w\<rparr>"

text \<open>The in queue changes the queues it shares with the service.\<close>

definition with_in_queue :: "'c in_queue \<Rightarrow> 'c service \<Rightarrow> 'c service" where
  "with_in_queue iq sv =
     (if sv_shared sv then sv\<lparr>sv_in_queue := iq, sv_out_queues := iq_out_queues iq\<rparr>
      else sv\<lparr>sv_in_queue := iq\<rparr>)"

definition arrived :: "string \<Rightarrow> string \<Rightarrow> 'c service \<Rightarrow> 'c service" where
  "arrived name content sv =
     (let iq = sv_in_queue sv; d = iq_dir iq in
      sv\<lparr>sv_in_queue := iq\<lparr>iq_dir := d\<lparr>q_entries := AList.update name (File content) (q_entries d)\<rparr>\<rparr>\<rparr>)"

fun task_after :: "exn + 'a \<Rightarrow> out_queue \<Rightarrow> out_queue" where
  "task_after (Inl _) q = stop_task q"
| "task_after (Inr _) q = q"

inductive service_step :: "coercions \<Rightarrow> coding \<Rightarrow> 'w hooks \<Rightarrow> ('c, 'w) live \<Rightarrow> ('c, 'w) live \<Rightarrow> bool"
    for co cd hk where
  file_arrives: "service_step co cd hk lv (lv\<lparr>lv_service := arrived name content (lv_service lv)\<rparr>)"
| world_changes: "service_step co cd hk lv (lv\<lparr>lv_world := w\<rparr>)"
| in_queue_round: "lv_in_running lv \<Longrightarrow>
    distribute_round env renv (sv_in_queue (lv_service lv)) = (r, iq) \<Longrightarrow>
    service_step co cd hk lv
      (lv\<lparr>lv_service := with_in_queue iq (lv_service lv), lv_in_running := \<not> isl r\<rparr>)"
| out_queue_round: "q \<in> set (sv_out_queues (lv_service lv)) \<Longrightarrow> oq_task q = running \<Longrightarrow>
    scan_round (env :: 'c env) hk (q, lv_world lv) = (r, q', w) \<Longrightarrow>
    service_step co cd hk lv
      (lv\<lparr>lv_service := change_queue (oq_name q) (\<lambda>_. task_after r q') (lv_service lv), lv_world := w\<rparr>)"
| message: "lv_rpc_running lv \<Longrightarrow>
    service_step co cd hk lv
      (lv\<lparr>lv_service := snd (serve_message env co cd timestamp msg (lv_service lv))\<rparr>)"

inductive_simps service_step_simps: "service_step co cd hk lv lv'"

text \<open>
  \<open>IDConnectorService.shutdown\<close>: closing the scheduler closes all tasks; then the plugins close their
  connections (\<open>hook\<close>).
\<close>

definition close_scheduler :: "('c, 'w) live \<Rightarrow> ('c, 'w) live" where
  "close_scheduler lv =
     (let sv = lv_service lv in
      lv\<lparr>lv_service := set_out_queues (map stop_task (sv_out_queues sv)) sv,
         lv_in_running := False, lv_rpc_running := False\<rparr>)"

definition shutdown_service :: "('w, unit) st \<Rightarrow> bool \<Rightarrow> (('c, 'w) live, unit) st" where
  "shutdown_service hook scheduler lv =
     (let lv1 = (if scheduler then close_scheduler lv else lv) in
      case hook (lv_world lv1) of (r, w) \<Rightarrow> (r, lv1\<lparr>lv_world := w\<rparr>))"

section \<open>Which tasks run\<close>

text \<open>No queue of the service is deleted, and only those of active school authorities run.\<close>

definition task_ok :: "out_queue \<Rightarrow> bool" where
  "task_ok q \<longleftrightarrow> (oq_task q = running \<longrightarrow> sa_active (oq_school_authority q)) \<and> \<not> oq_deleted q"

definition tasks_ok :: "'c service \<Rightarrow> bool" where
  "tasks_ok sv \<longleftrightarrow> (\<forall>q \<in> set (sv_out_queues sv). task_ok q)"

lemma tasks_ok_change:
  assumes "tasks_ok sv" "\<And>q. q \<in> set (sv_out_queues sv) \<Longrightarrow> oq_name q = name \<Longrightarrow> task_ok (f q)"
  shows "tasks_ok (change_queue name f sv)"
  using assms by (auto simp: tasks_ok_def change_queue_def)

lemma tasks_ok_same: "sv_out_queues sv' = sv_out_queues sv \<Longrightarrow> tasks_ok sv' \<longleftrightarrow> tasks_ok sv"
  by (simp add: tasks_ok_def)

lemma task_ok_stop: "task_ok q \<Longrightarrow> task_ok (stop_task q)"
  by (auto simp: task_ok_def stop_task_def)

lemma task_ok_model: "task_ok (snd (as_queue_model q)) \<longleftrightarrow> task_ok q"
  by (simp add: task_ok_def as_queue_model_def split: prod.split)

lemma tasks_start: "preserves tasks_ok (start_out_queue_task name)"
proof (rule preservesI)
  fix sv :: "'c service" assume ok: "tasks_ok sv"
  have "tasks_ok (change_queue name (\<lambda>_. q\<lparr>oq_task := running\<rparr>) sv)"
    if "find_queue name (sv_out_queues sv) = Some q" "sa_active (oq_school_authority q)" for q
    using ok find_queue_Some [OF that(1)] that(2)
    by (intro tasks_ok_change) (auto simp: tasks_ok_def task_ok_def)
  with ok show "tasks_ok (snd (start_out_queue_task name sv))"
    by (auto simp: start_out_queue_task_def start_task_def split: option.split)
qed

lemma tasks_save: "preserves tasks_ok (save_school_authority_configuration env sa)"
  by (auto simp: preserves_def save_school_authority_configuration_def tasks_ok_def split: prod.split)

lemma tasks_forget: "preserves tasks_ok (forget_handlers sa plugins)"
  by (auto simp: preserves_def forget_handlers_def tasks_ok_def split: prod.split)

lemma tasks_get_queue: "preserves tasks_ok (get_queue_rq rq)"
proof (rule preservesI)
  fix sv :: "'c service" assume ok: "tasks_ok sv"
  have "tasks_ok (change_queue (oq_name q) (\<lambda>_. snd (as_queue_model q)) sv)"
    if "find_queue (rq_name rq) (active_out_queues sv) = Some q" for q
    using ok find_queue_Some [OF that]
    by (intro tasks_ok_change) (auto simp: tasks_ok_def active_out_queues_def task_ok_model)
  note changed = this
  show "tasks_ok (snd (get_queue_rq rq sv))"
  proof (cases "rq_name rq = ''InQueue''")
    case True
    with ok show ?thesis by (simp add: get_queue_rq_def tasks_ok_def split: prod.split)
  next
    case False
    show ?thesis
    proof (cases "find_queue (rq_name rq) (active_out_queues sv)")
      case (Some q)
      with False changed [OF Some] show ?thesis by (cases "as_queue_model q") (simp add: get_queue_rq_def)
    qed (use False ok in \<open>simp add: get_queue_rq_def\<close>)
  qed
qed

lemma tasks_get_queues: "preserves tasks_ok get_queues_rq"
  by (auto simp: preserves_def get_queues_rq_def Let_def tasks_ok_def task_ok_model split: prod.split)

lemma tasks_put_mapping: "preserves tasks_ok (put_school_to_authority_mapping_rq env co rq)"
  by (auto simp: preserves_def put_school_to_authority_mapping_rq_def tasks_ok_def split: sum.split prod.split)

lemma tasks_add:
  assumes "tasks_ok sv" shows "tasks_ok (add_out_queue (from_school_authority dirs sa) sv)"
proof -
  have "task_ok (from_school_authority dirs sa)" by (simp add: task_ok_def from_school_authority_def)
  with assms show ?thesis by (auto simp: add_out_queue_def Let_def tasks_ok_def)
qed

lemma tasks_create:
  fixes env :: "'c env"
  shows "preserves tasks_ok (create_school_authority_rq env co rq)"
proof (rule preservesI)
  fix sv :: "'c service" assume ok: "tasks_ok sv"
  have "preserves tasks_ok (bindM (save_school_authority_configuration env sa) (\<lambda>_.
      bindM (start_out_queue_task (sa_name sa)) (\<lambda>_. ret (r_school_authority sa))))" for sa
    by (intro preserves_bindM tasks_save tasks_start preserves_ret)
  from preservesD [OF this tasks_add [OF ok]] ok
  show "tasks_ok (snd (create_school_authority_rq env co rq sv))"
    by (auto simp: create_school_authority_rq_def split: sum.split)
qed

lemma tasks_delete: "preserves tasks_ok (delete_school_authority_rq timestamp rq)"
proof (rule preservesI)
  fix sv :: "'c service" assume ok: "tasks_ok sv"
  have "preserves tasks_ok (bindM (forget_handlers sa ps) (\<lambda>_. ret r_none))" for sa ps
    by (intro preserves_bindM tasks_forget preserves_ret)
  note forgot = preservesD [OF this]
  have removed: "tasks_ok sv'" if "sv_out_queues sv' = remove1 q (sv_out_queues sv)" for sv' :: "'c service" and q
    using ok that set_remove1_subset [of q "sv_out_queues sv"] by (auto simp: tasks_ok_def)
  show "tasks_ok (snd (delete_school_authority_rq timestamp rq sv))"
    using ok by (auto simp: delete_school_authority_rq_def Let_def intro!: removed forgot split: option.split sum.split prod.split)
qed

lemma tasks_patch:
  fixes env :: "'c env"
  shows "preserves tasks_ok (patch_school_authority_rq env co rq)"
proof (rule preservesI)
  fix sv :: "'c service" assume ok: "tasks_ok sv"
  have patched: "tasks_ok (snd (patch_school_authority_rq env co rq sv))"
    if pd: "new_patch_document co (rq_school_authority rq) = Inr pd"
      and q: "find_authority (rq_name rq) (sv_out_queues sv) = Some q" for pd q
  proof -
    let ?sv1 = "change_queue (oq_name q) stop_task sv"
    have ok1: "tasks_ok ?sv1" using ok by (intro tasks_ok_change) (auto simp: tasks_ok_def task_ok_stop)
    obtain r sv2 where pc: "patch_configuration co pd (oq_school_authority q) ?sv1 = (r, sv2)" by force
    then have same: "sv_out_queues sv2 = sv_out_queues ?sv1" by (metis patch_configuration_queues(1) snd_conv)
    then have ok2: "tasks_ok sv2" using ok1 tasks_ok_same by blast
    have stopped: "oq_task p \<noteq> running" if "p \<in> set (sv_out_queues sv2)" "oq_name p = oq_name q" for p
      using that by (auto simp: same change_queue_def stop_task_not_running stop_task_same split: if_splits)
    have changed: "tasks_ok (change_queue (oq_name q) (\<lambda>q. q\<lparr>oq_school_authority := sa\<rparr>) sv2)" for sa
      using ok2 stopped by (intro tasks_ok_change) (auto simp: tasks_ok_def task_ok_def)
    have m: "preserves tasks_ok (bindM (save_school_authority_configuration env sa) (\<lambda>_.
        bindM (start_out_queue_task (oq_name q)) (\<lambda>_. ret (r_school_authority sa))))" for sa
      by (intro preserves_bindM tasks_save tasks_start preserves_ret)
    show ?thesis
    proof (cases r)
      case (Inl e)
      with pd q pc ok2 show ?thesis by (simp add: patch_school_authority_rq_def bindM_apply)
    next
      case (Inr sa)
      from preservesD [OF m changed] pd q pc Inr show ?thesis
        by (simp add: patch_school_authority_rq_def bindM_apply)
    qed
  qed
  show "tasks_ok (snd (patch_school_authority_rq env co rq sv))"
  proof (cases "new_patch_document co (rq_school_authority rq)")
    case (Inr pd)
    with patched ok show ?thesis
      by (cases "find_authority (rq_name rq) (sv_out_queues sv)") (simp_all add: patch_school_authority_rq_def)
  qed (use ok in \<open>simp add: patch_school_authority_rq_def\<close>)
qed

lemma tasks_handle_request: "preserves tasks_ok (handle_request env co timestamp rq)"
  by (cases "rq_cmd rq")
    (simp_all add: handle_request_def tasks_get_queue tasks_get_queues tasks_put_mapping tasks_create
      tasks_delete tasks_patch inv_reads)

section \<open>What holds in every state\<close>

definition live_ok :: "('c, 'w) live \<Rightarrow> bool" where
  "live_ok lv \<longleftrightarrow> service_inv (lv_service lv) \<and> tasks_ok (lv_service lv)"

lemma tasks_ok_ids:
  "tasks_ok sv \<longleftrightarrow> (\<forall>(_, sa, task, deleted) \<in> set (queue_ids (sv_out_queues sv)).
     (task = running \<longrightarrow> sa_active sa) \<and> \<not> deleted)"
  by (simp add: tasks_ok_def task_ok_def queue_ids_def)

lemma preprocess_file_queues:
  "iq_out_queues (snd (preprocess_file env name iq)) = iq_out_queues iq"
  by (auto simp: preprocess_file_def split: sum.split prod.split option.split)

lemma preprocess_all_queues: "iq_out_queues (snd (preprocess_all env names iq)) = iq_out_queues iq"
proof (induction names arbitrary: iq)
  case (Cons name names)
  have "iq_out_queues iq' = iq_out_queues iq" if "preprocess_file env name iq = (r, iq')" for r iq'
    using preprocess_file_queues [of env name iq] that by simp
  with Cons.IH show ?case by (auto simp: discard_in_def split: prod.split sum.split)
qed simp

lemma distribute_round_ids:
  "queue_ids (iq_out_queues (snd (distribute_round env renv iq))) = queue_ids (iq_out_queues iq)"
proof -
  obtain names d where d: "queue_files (iq_dir iq) = (names, d)" by force
  obtain r iq' where iq': "preprocess_all env (filter (\<lambda>n. \<not> is_ready n) names) (iq\<lparr>iq_dir := d\<rparr>) = (r, iq')" by force
  then have "iq_out_queues iq' = iq_out_queues iq"
    using preprocess_all_queues [of env "filter (\<lambda>n. \<not> is_ready n) names" "iq\<lparr>iq_dir := d\<rparr>"] by simp
  with d iq' show ?thesis
    by (cases r) (simp_all add: distribute_round_def Let_def log_queue_changes_def distribute_ids)
qed

text \<open>A round of an out queue changes its directory and its head only.\<close>

definition queue_id :: "out_queue \<Rightarrow> string \<times> school_authority \<times> task_state \<times> bool" where
  "queue_id q = (oq_name q, oq_school_authority q, oq_task q, oq_deleted q)"

lemma handle_id: "queue_id (fst (snd (handle env hk name s))) = queue_id (fst s)"
  by (auto simp: handle_def discard_out_def queue_id_def split: sum.split prod.split)

lemma scan_file_id: "queue_id (fst (snd (scan_file env hk name s))) = queue_id (fst s)"
proof -
  obtain r q w where h: "handle env hk name ((fst s)\<lparr>oq_head := name\<rparr>, snd s) = (r, q, w)" by (metis prod.exhaust)
  then have "queue_id q = queue_id (fst s)"
    using handle_id [of env hk name "((fst s)\<lparr>oq_head := name\<rparr>, snd s)"] by (simp add: queue_id_def)
  with h show ?thesis by (auto simp: scan_file_def discard_out_def queue_id_def split: sum.split)
qed

lemma scan_paths_id: "queue_id (fst (snd (scan_paths env hk lowest ps s))) = queue_id (fst s)"
proof (induction ps arbitrary: s)
  case (Cons p ps)
  obtain k n where p: "p = (k, n)" by force
  obtain r q w where f: "scan_file env hk n s = (r, q, w)" by (metis prod.exhaust)
  then have "queue_id q = queue_id (fst s)" using scan_file_id [of env hk n s] by simp
  with Cons.IH [of "(q, w)"] p f show ?case by (auto simp: queue_id_def split: sum.split bool.split)
qed simp

lemma scan_round_id:
  assumes "scan_round env hk (q, w) = (r, q', w')" shows "queue_id q' = queue_id q"
proof -
  obtain names d where d: "queue_files (oq_dir q) = (names, d)" by force
  have dir: "queue_id (q\<lparr>oq_dir := d\<rparr>) = queue_id q" by (simp add: queue_id_def)
  show ?thesis
  proof (cases "mapE (\<lambda>n. bindE (udm_object_queue_order env (q\<lparr>oq_dir := d\<rparr>) n) (\<lambda>k. Inr (k, n))) names")
    case (Inl e)
    with assms d dir show ?thesis by (auto simp: scan_round_def Let_def)
  next
    case (Inr pairs)
    let ?low = "case sort pairs of [] \<Rightarrow> 999 | (k, _) # _ \<Rightarrow> k"
    obtain r1 p w1 where ps: "scan_paths env hk ?low (sort pairs) (q\<lparr>oq_dir := d\<rparr>, w) = (r1, p, w1)"
      by (metis prod.exhaust)
    then have "queue_id p = queue_id q"
      using scan_paths_id [of env hk ?low "sort pairs" "(q\<lparr>oq_dir := d\<rparr>, w)"] dir by simp
    moreover have "q' = p \<or> q' = p\<lparr>oq_head := []\<rparr>"
      using assms d Inr ps by (auto simp: scan_round_def Let_def split: sum.splits bool.splits)
    ultimately show ?thesis by (auto simp: queue_id_def)
  qed
qed

section \<open>Steps\<close>

lemma service_inv_ids:
  assumes "service_inv sv" "queue_ids (iq_out_queues iq) = queue_ids (iq_out_queues (sv_in_queue sv))"
  shows "service_inv (with_in_queue iq sv)"
    and "queue_ids (sv_out_queues (with_in_queue iq sv)) = queue_ids (sv_out_queues sv)"
proof -
  have "iq_out_queues iq = []" if "\<not> sv_shared sv"
    using assms that by (simp add: service_inv_queues queue_ids_def)
  moreover have "queues_ok (iq_out_queues iq)"
    using queues_ok_ids [OF assms(2)] assms(1) by (simp add: service_inv_queues)
  ultimately show "service_inv (with_in_queue iq sv)"
    using assms(1) by (auto simp: with_in_queue_def service_inv_queues)
  show "queue_ids (sv_out_queues (with_in_queue iq sv)) = queue_ids (sv_out_queues sv)"
    using assms by (simp add: with_in_queue_def service_inv_queues)
qed

lemma live_ok_step:
  assumes "service_step co cd hk lv lv'" "keeps_name co" "live_ok lv"
  shows "live_ok lv'"
  using assms(1)
proof cases
  case (file_arrives name content)
  with assms(3) show ?thesis by (simp add: live_ok_def arrived_def Let_def service_inv_def tasks_ok_def)
next
  case (world_changes w)
  with assms(3) show ?thesis by (simp add: live_ok_def)
next
  case (in_queue_round env renv r iq)
  let ?sv = "lv_service lv"
  have ids: "queue_ids (iq_out_queues iq) = queue_ids (iq_out_queues (sv_in_queue ?sv))"
    using distribute_round_ids [of env renv "sv_in_queue ?sv"] in_queue_round(3) by simp
  have "service_inv ?sv" "tasks_ok ?sv" using assms(3) by (simp_all add: live_ok_def)
  with service_inv_ids [OF _ ids] have "service_inv (with_in_queue iq ?sv)" "tasks_ok (with_in_queue iq ?sv)"
    by (simp_all add: tasks_ok_ids)
  with in_queue_round(1) show ?thesis by (simp add: live_ok_def)
next
  case (out_queue_round q env r q' w)
  let ?sv = "lv_service lv"
  have ok: "service_inv ?sv" "tasks_ok ?sv" using assms(3) by (simp_all add: live_ok_def)
  have "queue_id q' = queue_id q" using scan_round_id [OF out_queue_round(4)] .
  then have same: "oq_name (task_after r q') = oq_name q" "oq_school_authority (task_after r q') = oq_school_authority q"
    "task_ok q \<Longrightarrow> task_ok (task_after r q')"
    by (cases r; auto simp: queue_id_def task_ok_def stop_task_def)+
  have "p = q" if "p \<in> set (sv_out_queues ?sv)" "oq_name p = oq_name q" for p
    using ok(1) that out_queue_round(2) by (auto simp: service_inv_def distinct_map inj_on_def)
  then have "service_inv (change_queue (oq_name q) (\<lambda>_. task_after r q') ?sv)"
    using ok(1) same by (intro inv_change_queue) auto
  moreover have "tasks_ok (change_queue (oq_name q) (\<lambda>_. task_after r q') ?sv)"
    using ok(2) same(3) out_queue_round(2) by (intro tasks_ok_change) (auto simp: tasks_ok_def)
  ultimately show ?thesis using out_queue_round(1) by (simp add: live_ok_def)
next
  case (message env timestamp msg)
  let ?sv = "lv_service lv"
  have "tasks_ok (snd (serve_message env co cd timestamp msg ?sv))"
    using assms(3) preservesD [OF tasks_handle_request, of ?sv env co timestamp]
    by (auto simp: live_ok_def serve_message_def split: sum.split prod.split) (metis snd_conv)+
  with message(1) serve_message_inv [OF assms(2), of ?sv] assms(3) show ?thesis by (simp add: live_ok_def)
qed

lemma live_ok_steps:
  assumes "rtranclp (service_step co cd hk) lv lv'" "keeps_name co" "live_ok lv"
  shows "live_ok lv'"
  using assms(1,3) by (induction rule: rtranclp_induct) (auto intro: live_ok_step [OF _ assms(2)])

text \<open>The start.\<close>

lemma tasks_ok_start:
  assumes "start_service env co renv cfg mapping_file dirs in_dir db handlers = Inr (Some sv)"
  shows "tasks_ok sv"
proof -
  obtain m sas where m: "load_school2target_mapping env (co_mapping co) mapping_file = Inr m"
    and sas: "load_school_authorities env (co_school_authority co) cfg = Inr sas"
    using assms by (auto simp: start_service_def split: sum.splits if_splits)
  let ?iq = "new_in_queue in_dir db (load_school_authority_mapping m) (initial_queues dirs sas)"
  obtain r iq' where dist: "(if iq_out_queues ?iq \<noteq> [] then distribute env renv ?iq else (Inr (), ?iq)) = (r, iq')"
    by force
  have "queue_ids (iq_out_queues iq') = queue_ids (initial_queues dirs sas)"
    using dist distribute_ids [of env renv ?iq] by (auto simp: new_in_queue_def split: if_splits)
  moreover have "\<forall>(_, _, task, deleted) \<in> set (queue_ids (initial_queues dirs sas)). task = no_task \<and> \<not> deleted"
    by (auto simp: queue_ids_def initial_queues_def from_school_authority_def)
  ultimately have "\<forall>(_, _, task, deleted) \<in> set (queue_ids (iq_out_queues iq')). task = no_task \<and> \<not> deleted" by simp
  then have "\<forall>q \<in> set (iq_out_queues iq'). oq_task q = no_task \<and> \<not> oq_deleted q" by (auto simp: queue_ids_def)
  moreover have "sv_out_queues sv = map (start_if_active True) (iq_out_queues iq')"
    using assms m sas dist by (cases r) (auto simp: start_service_def Let_def)
  ultimately show ?thesis by (auto simp: tasks_ok_def task_ok_def start_if_active_def start_task_def)
qed

section \<open>The end\<close>

text \<open>After a shutdown no task runs, so that only the world and the directory of the in queue still change.\<close>

definition quiet :: "('c, 'w) live \<Rightarrow> bool" where
  "quiet lv \<longleftrightarrow> \<not> lv_in_running lv \<and> \<not> lv_rpc_running lv \<and> (\<forall>q \<in> set (sv_out_queues (lv_service lv)). oq_task q \<noteq> running)"

lemma quiet_closed: "quiet (close_scheduler lv)"
  by (auto simp: quiet_def close_scheduler_def Let_def stop_task_not_running)

lemma quiet_step:
  assumes "quiet lv" "service_step co cd hk lv lv'"
  shows "quiet lv' \<and> sv_out_queues (lv_service lv') = sv_out_queues (lv_service lv) \<and>
    iq_db (sv_in_queue (lv_service lv')) = iq_db (sv_in_queue (lv_service lv)) \<and>
    sv_config (lv_service lv') = sv_config (lv_service lv)"
  using assms(2) by cases (use assms(1) in \<open>auto simp: quiet_def arrived_def Let_def\<close>)

lemma quiet_steps:
  assumes "rtranclp (service_step co cd hk) lv lv'" "quiet lv"
  shows "quiet lv' \<and> sv_out_queues (lv_service lv') = sv_out_queues (lv_service lv) \<and>
    iq_db (sv_in_queue (lv_service lv')) = iq_db (sv_in_queue (lv_service lv)) \<and>
    sv_config (lv_service lv') = sv_config (lv_service lv)"
  using assms(1)
proof (induction rule: rtranclp_induct)
  case (step y z)
  from quiet_step [OF _ step.hyps(2)] step.IH show ?case by auto
qed (use assms(2) in simp)

lemma shutdown_ends_work:
  assumes "shutdown_service hook True lv = (r, lv1)" "rtranclp (service_step co cd hk) lv1 lv2"
  shows "sv_out_queues (lv_service lv2) = sv_out_queues (lv_service lv1) \<and>
    iq_db (sv_in_queue (lv_service lv2)) = iq_db (sv_in_queue (lv_service lv1)) \<and>
    sv_config (lv_service lv2) = sv_config (lv_service lv1)"
proof -
  have "quiet lv1" using assms(1) quiet_closed [of lv] by (auto simp: shutdown_service_def Let_def quiet_def split: prod.splits)
  from quiet_steps [OF assms(2) this] show ?thesis by blast
qed

end
