(* ===== verification/Schedulers.thy ===== *)
theory Schedulers
  imports Ldap_Access "HOL-Library.Multiset"
begin

text \<open>
  The command line tools that put objects into the in queue: user_scheduler.py, group_scheduler.py and
  school_scheduler.py, and the one that cleans the trash of the listener, listener_trash_cleaner.py.

  The files written for the converter service are kept as a list in the order of writing, as that
  service takes them away. The tasks of a school run concurrently, not more than a given number of them
  at a time: a step relation says what can happen next.
\<close>

section \<open>One object\<close>

record listener_file =
  lf_name :: string
  lf_entry_uuid :: pyval
  lf_dn :: string
  lf_object_type :: string
  lf_command :: string

record sched_env =
  sc_ldap :: ldap_env
  sc_timestamp :: "nat \<Rightarrow> string"
  sc_format :: "pyval \<Rightarrow> string"

record sched =
  sd_machine_pw :: machine_pw_cache
  sd_written :: "listener_file list"

definition on_directory :: "(machine_pw_cache, 'a) st \<Rightarrow> (sched, 'a) st" where
  "on_directory m s = (case m (sd_machine_pw s) of (r, mc) \<Rightarrow> (r, s\<lparr>sd_machine_pw := mc\<rparr>))"

text \<open>\<open>attributes['entryUUID'][0]\<close>\<close>

definition entry_uuid :: "(string \<times> pyval list) list \<Rightarrow> exn + pyval" where
  "entry_uuid attributes =
     (case map_of attributes ''entryUUID'' of
        None \<Rightarrow> Inl (KeyErr ''entryUUID'')
      | Some [] \<Rightarrow> Inl IndexErr
      | Some (v # _) \<Rightarrow> Inr v)"

text \<open>The time is that of the number of files written so far.\<close>

definition write_listener_file ::
    "sched_env \<Rightarrow> string \<Rightarrow> string \<Rightarrow> (string \<times> pyval list) list \<Rightarrow> (sched, unit) st" where
  "write_listener_file env object_type dn attributes s =
     (case entry_uuid attributes of
        Inl e \<Rightarrow> (Inl e, s)
      | Inr v \<Rightarrow>
          (Inr (), s\<lparr>sd_written := sd_written s @
            [\<lparr>lf_name = sc_timestamp env (length (sd_written s)) @ ''_'' @ sc_format env v @ ''.json'',
              lf_entry_uuid = v, lf_dn = dn, lf_object_type = object_type, lf_command = ''m''\<rparr>]\<rparr>))"

definition get_user_from_ldap :: "sched_env \<Rightarrow> string \<Rightarrow> (sched, ldap_user option) st" where
  "get_user_from_ldap env name =
     on_directory (get_user_ldap (sc_ldap env) name [] [] [''*'', ''entryUUID''] True)"

definition get_group_from_ldap :: "sched_env \<Rightarrow> string \<Rightarrow> (sched, ldap_group option) st" where
  "get_group_from_ldap env name =
     on_directory (get_group_ldap (sc_ldap env) name [] [] [''*'', ''entryUUID''] True)"

definition queue_user :: "sched_env \<Rightarrow> string \<Rightarrow> (sched, unit) st" where
  "queue_user env name =
     bindM (get_user_from_ldap env name) (\<lambda>user.
       case user of
         None \<Rightarrow> ret ()
       | Some u \<Rightarrow> write_listener_file env ''users/user'' (lu_dn u) (lu_attributes u))"

definition queue_group :: "sched_env \<Rightarrow> string \<Rightarrow> (sched, unit) st" where
  "queue_group env name =
     bindM (get_group_from_ldap env name) (\<lambda>group.
       case group of
         None \<Rightarrow> ret ()
       | Some g \<Rightarrow> write_listener_file env ''groups/group'' (lg_dn g) (lg_attributes g))"

section \<open>Concurrent tasks\<close>

text \<open>
  \<open>gather\<close> of coroutines that first enter a semaphore (\<open>limited_func\<close>): a task may start, in the order of
  the list, while less than the limit are running, and any running one may end. The first exception ends
  the run; the other tasks are cancelled.
\<close>

record 's tasks =
  tk_waiting :: "string list"
  tk_running :: "string list"
  tk_state :: 's
  tk_error :: "exn option"

inductive task_step :: "nat \<Rightarrow> (string \<Rightarrow> ('s, unit) st) \<Rightarrow> 's tasks \<Rightarrow> 's tasks \<Rightarrow> bool" for limit f where
  task_start:
    "tk_error t = None \<Longrightarrow> tk_waiting t = x # xs \<Longrightarrow> length (tk_running t) < limit \<Longrightarrow>
     task_step limit f t (t\<lparr>tk_waiting := xs, tk_running := x # tk_running t\<rparr>)"
| task_end:
    "tk_error t = None \<Longrightarrow> x \<in> set (tk_running t) \<Longrightarrow> f x (tk_state t) = (r, s) \<Longrightarrow>
     task_step limit f t (t\<lparr>tk_running := remove1 x (tk_running t), tk_state := s,
       tk_error := (case r of Inl e \<Rightarrow> Some e | Inr _ \<Rightarrow> None)\<rparr>)"

definition start_tasks :: "string list \<Rightarrow> 's \<Rightarrow> 's tasks" where
  "start_tasks xs s = \<lparr>tk_waiting = xs, tk_running = [], tk_state = s, tk_error = None\<rparr>"

definition all_ended :: "'s tasks \<Rightarrow> bool" where
  "all_ended t \<longleftrightarrow> tk_error t = None \<and> tk_waiting t = [] \<and> tk_running t = []"

section \<open>A school\<close>

definition school_role :: "sched_env \<Rightarrow> string \<Rightarrow> string \<Rightarrow> string" where
  "school_role env role ou =
     ''(ucsschoolRole='' @ role @ '':school:'' @ ln_escape (sc_ldap env) ou @ '')''"

definition school_groups_filter :: "sched_env \<Rightarrow> string \<Rightarrow> string" where
  "school_groups_filter env ou =
     ''(&(cn='' @ ln_escape (sc_ldap env) ou @ ''-*)(|'' @ school_role env ''school_class'' ou @
     school_role env ''workgroup'' ou @ ''))''"

definition school_users_filter :: "sched_env \<Rightarrow> string \<Rightarrow> string" where
  "school_users_filter env ou =
     ''(&(ucsschoolSchool='' @ ln_escape (sc_ldap env) ou @ '')(|'' @
     concat (map (\<lambda>r. school_role env r ou) [''teacher'', ''student'', ''staff'', ''legal_guardian'']) @ ''))''"

text \<open>\<open>str(entry.cn)\<close>\<close>

definition str_attributes :: "sched_env \<Rightarrow> string \<Rightarrow> ldap_entry list \<Rightarrow> exn + string list" where
  "str_attributes env a es =
     mapE (\<lambda>e. case map_of (le_attributes e) a of
        None \<Rightarrow> Inl AttributeErr | Some vs \<Rightarrow> Inr (sc_format env (the_value vs))) es"

definition get_school_users :: "sched_env \<Rightarrow> string \<Rightarrow> (sched, string list) st" where
  "get_school_users env ou =
     on_directory (bindM (search (sc_ldap env) (school_users_filter env ou) [''uid''] [] [] [] True)
       (\<lambda>es. lift (str_attributes env ''uid'' es)))"

definition get_school_groups :: "sched_env \<Rightarrow> string \<Rightarrow> (sched, string list) st" where
  "get_school_groups env ou =
     on_directory (bindM (search (sc_ldap env) (school_groups_filter env ou) [''cn''] [] [] [] True)
       (\<lambda>es. lift (str_attributes env ''cn'' es)))"

text \<open>\<open>queue_school\<close>: the users, and after all of them the groups.\<close>

datatype school_run =
    School_Start sched
  | User_Tasks "sched tasks"
  | Group_Tasks "sched tasks"
  | School_Done sched
  | School_Failed exn sched

definition list_users :: "sched_env \<Rightarrow> string \<Rightarrow> sched \<Rightarrow> school_run" where
  "list_users env ou s =
     (case get_school_users env ou s of
        (Inl e, s') \<Rightarrow> School_Failed e s' | (Inr names, s') \<Rightarrow> User_Tasks (start_tasks names s'))"

definition list_groups :: "sched_env \<Rightarrow> string \<Rightarrow> sched \<Rightarrow> school_run" where
  "list_groups env ou s =
     (case get_school_groups env ou s of
        (Inl e, s') \<Rightarrow> School_Failed e s' | (Inr names, s') \<Rightarrow> Group_Tasks (start_tasks names s'))"

inductive school_step :: "sched_env \<Rightarrow> string \<Rightarrow> nat \<Rightarrow> school_run \<Rightarrow> school_run \<Rightarrow> bool"
    for env ou num_tasks where
  school_users: "school_step env ou num_tasks (School_Start s) (list_users env ou s)"
| user_task: "task_step num_tasks (queue_user env) t t' \<Longrightarrow>
    school_step env ou num_tasks (User_Tasks t) (User_Tasks t')"
| user_failed: "tk_error t = Some e \<Longrightarrow>
    school_step env ou num_tasks (User_Tasks t) (School_Failed e (tk_state t))"
| users_ended: "all_ended t \<Longrightarrow>
    school_step env ou num_tasks (User_Tasks t) (list_groups env ou (tk_state t))"
| group_task: "task_step num_tasks (queue_group env) t t' \<Longrightarrow>
    school_step env ou num_tasks (Group_Tasks t) (Group_Tasks t')"
| group_failed: "tk_error t = Some e \<Longrightarrow>
    school_step env ou num_tasks (Group_Tasks t) (School_Failed e (tk_state t))"
| groups_ended: "all_ended t \<Longrightarrow>
    school_step env ou num_tasks (Group_Tasks t) (School_Done (tk_state t))"

inductive_simps school_step_simps:
  "school_step env ou n (School_Start s) r" "school_step env ou n (User_Tasks t) r"
  "school_step env ou n (Group_Tasks t) r" "school_step env ou n (School_Done s) r"
  "school_step env ou n (School_Failed e s) r"

text \<open>The command takes one to 32 tasks.\<close>

definition valid_num_tasks :: "nat \<Rightarrow> bool" where
  "valid_num_tasks n \<longleftrightarrow> 1 \<le> n \<and> n \<le> 32"

section \<open>The trash\<close>

text \<open>
  A directory: for every name the time of the last change and whether it is a regular file; times are in
  microseconds.
\<close>

type_synonym trash = "(string \<times> (int \<times> bool)) list"

definition usec_day :: int where
  "usec_day = 24 * 3600 * 1000000"

text \<open>The loop over the names listed; a name that is gone raises.\<close>

definition delete_if_old :: "int \<Rightarrow> string \<Rightarrow> (trash, unit) st" where
  "delete_if_old delete_time name d =
     (case map_of d name of
        None \<Rightarrow> (Inl FileNotFoundErr, d)
      | Some (mtime, is_file) \<Rightarrow>
          (Inr (), if mtime < delete_time \<and> is_file then AList.delete name d else d))"

definition delete_up_from_day :: "int \<Rightarrow> int \<Rightarrow> (trash, unit) st" where
  "delete_up_from_day now offset d = for_each (delete_if_old (now - offset * usec_day)) (map fst d) d"

definition clean_trash :: "ucr_file \<Rightarrow> int \<Rightarrow> (ucr_cache \<times> trash, unit) st" where
  "clean_trash file now s =
     (case s of (uc, d) \<Rightarrow>
       (case get_ucrv file ''ucsschool-id-connector/trash_delete_state'' (PInt 1) uc of
          (Inl e, uc1) \<Rightarrow> (Inl e, uc1, d)
        | (Inr v, uc1) \<Rightarrow>
            (case py_int v of
               Inl e \<Rightarrow> (Inl e, uc1, d)
             | Inr state \<Rightarrow>
                 if state \<noteq> 1 then (Inr (), uc1, d)
                 else
                   (case get_ucrv file ''ucsschool-id-connector/trash_delete_offset'' (PInt 30) uc1 of
                      (Inl e, uc2) \<Rightarrow> (Inl e, uc2, d)
                    | (Inr v, uc2) \<Rightarrow>
                        (case py_int v of
                           Inl e \<Rightarrow> (Inl e, uc2, d)
                         | Inr offset \<Rightarrow> (case delete_up_from_day now offset d of (r, d') \<Rightarrow> (r, uc2, d')))))))"

lemma delete_each:
  assumes "wf_dict d" "set names \<subseteq> keys d" "distinct names"
  shows "for_each (delete_if_old time) names d =
    (Inr (), filter (\<lambda>(name, mtime, is_file). \<not> (name \<in> set names \<and> mtime < time \<and> is_file)) d)"
  using assms
proof (induction names arbitrary: d)
  case Nil
  then show ?case by simp
next
  case (Cons name names)
  obtain mtime is_file where name: "map_of d name = Some (mtime, is_file)"
    using Cons.prems(2) by (auto elim!: in_keysE)
  let ?d = "if mtime < time \<and> is_file then AList.delete name d else d"
  have step: "delete_if_old time name d = (Inr (), ?d)" by (simp add: delete_if_old_def name)
  have "wf_dict ?d" "set names \<subseteq> keys ?d" using Cons.prems by (auto simp: dict_simps)
  from Cons.IH [OF this] Cons.prems(3)
  have "for_each (delete_if_old time) names ?d =
      (Inr (), filter (\<lambda>(name, mtime, is_file). \<not> (name \<in> set names \<and> mtime < time \<and> is_file)) ?d)" by simp
  moreover have "filter (\<lambda>(n, mtime, is_file). \<not> (n \<in> set names \<and> mtime < time \<and> is_file)) ?d =
      filter (\<lambda>(n, mtime, is_file). \<not> (n \<in> set (name # names) \<and> mtime < time \<and> is_file)) d"
  proof -
    have "x = (mtime, is_file)" if "(name, x) \<in> set d" for x
      using that name Cons.prems(1) by (simp add: set_iff_map_of)
    then show ?thesis
      using Cons.prems(3) unfolding AList.delete_eq
      by (auto simp: filter_filter intro!: filter_cong)
  qed
  ultimately show ?case by (simp add: step)
qed

lemma delete_up_from_day_ok:
  assumes "wf_dict d"
  shows "delete_up_from_day now offset d =
    (Inr (), filter (\<lambda>(name, mtime, is_file). \<not> (mtime < now - offset * usec_day \<and> is_file)) d)"
proof -
  have "set (map fst d) \<subseteq> keys d" "distinct (map fst d)" using assms by (simp_all add: keys_def wf_dict_def)
  from delete_each [OF assms this, of "now - offset * usec_day"] show ?thesis
    by (auto simp: delete_up_from_day_def image_iff intro!: filter_cong)
qed

end
