(* ===== verification/Scheduler_Facts.thy ===== *)
theory Scheduler_Facts
  imports Schedulers
begin

text \<open>
  What scheduling a school does: never more than the given number of tasks run, every run ends, and when
  it has ended well every user found was written exactly once, and after all of them every group.
\<close>

section \<open>Concurrent tasks\<close>

definition task_size :: "'s tasks \<Rightarrow> nat" where
  "task_size t = 2 * length (tk_waiting t) + length (tk_running t)"

lemma task_step_smaller: "task_step limit f t t' \<Longrightarrow> task_size t' < task_size t"
  by (induction rule: task_step.induct) (auto simp: task_size_def length_remove1 dest: length_pos_if_in_set)

lemma task_step_possible:
  assumes "0 < limit" "tk_error t = None" "\<not> all_ended t"
  shows "\<exists>t'. task_step limit f t t'"
proof (cases "tk_running t")
  case Nil
  with assms obtain x xs where "tk_waiting t = x # xs" by (cases "tk_waiting t") (auto simp: all_ended_def)
  then have "task_step limit f t (t\<lparr>tk_waiting := xs, tk_running := x # tk_running t\<rparr>)"
    using Nil assms(1,2) by (intro task_start) simp_all
  then show ?thesis ..
next
  case (Cons x xs)
  obtain r s where "f x (tk_state t) = (r, s)" by (cases "f x (tk_state t)") auto
  then have "task_step limit f t (t\<lparr>tk_running := remove1 x (tk_running t), tk_state := s,
      tk_error := (case r of Inl e \<Rightarrow> Some e | Inr _ \<Rightarrow> None)\<rparr>)"
    using Cons assms(2) by (intro task_end) simp_all
  then show ?thesis ..
qed

text \<open>Tasks that only add to a log, each a part that depends on nothing but its name.\<close>

locale logged_tasks =
  fixes f :: "string \<Rightarrow> ('s, unit) st" and inv :: "'s \<Rightarrow> bool" and log :: "'s \<Rightarrow> 'l list"
    and part :: "string \<Rightarrow> 'l list"
  assumes done_ok: "inv s \<Longrightarrow> f x s = (Inr u, s') \<Longrightarrow> inv s' \<and> log s' = log s @ part x"
    and failed_ok: "inv s \<Longrightarrow> f x s = (Inl e, s') \<Longrightarrow> inv s' \<and> log s' = log s"
begin

definition run_ok :: "nat \<Rightarrow> string list \<Rightarrow> 's \<Rightarrow> 's tasks \<Rightarrow> bool" where
  "run_ok limit names s0 t \<longleftrightarrow>
     length (tk_running t) \<le> limit \<and> inv (tk_state t) \<and>
     (\<exists>ended new. log (tk_state t) = log s0 @ new \<and> mset new = mset (concat (map part ended)) \<and>
        set ended \<subseteq> set names \<and>
        (tk_error t = None \<longrightarrow> mset ended + mset (tk_running t) + mset (tk_waiting t) = mset names))"

lemma run_ok_start: "inv s0 \<Longrightarrow> run_ok limit names s0 (start_tasks names s0)"
  unfolding run_ok_def start_tasks_def by (auto intro: exI [of _ "[]"])

lemma run_ok_step:
  assumes "task_step limit f t t'" "run_ok limit names s0 t"
  shows "run_ok limit names s0 t'"
proof -
  obtain ended new where ok: "length (tk_running t) \<le> limit" "inv (tk_state t)"
    "log (tk_state t) = log s0 @ new" "mset new = mset (concat (map part ended))" "set ended \<subseteq> set names"
    "tk_error t = None \<longrightarrow> mset ended + mset (tk_running t) + mset (tk_waiting t) = mset names"
    using assms(2) unfolding run_ok_def by (elim exE conjE) (rule that)
  from assms(1) show ?thesis
  proof cases
    case (task_start x xs)
    with ok show ?thesis unfolding run_ok_def
      by (intro conjI exI [of _ ended] exI [of _ new]) auto
  next
    case (task_end x r s)
    have len: "length (remove1 x (tk_running t)) \<le> limit" using ok(1) by (simp add: length_remove1 le_diff_conv)
    have all: "mset ended + mset (tk_running t) + mset (tk_waiting t) = mset names" using ok(6) task_end by blast
    then have "x \<in> set names"
      using task_end(3) by (metis in_multiset_in_set union_iff)
    show ?thesis
    proof (cases r)
      case (Inl e)
      with failed_ok [OF ok(2)] task_end(4) have "inv s" "log s = log (tk_state t)" by auto
      with task_end(1) Inl len ok(3-5) show ?thesis unfolding run_ok_def
        by (intro conjI exI [of _ ended] exI [of _ new]) auto
    next
      case (Inr u)
      with done_ok [OF ok(2)] task_end(4) have s: "inv s" "log s = log s0 @ new @ part x" using ok(3) by auto
      have "mset (ended @ [x]) + mset (remove1 x (tk_running t)) + mset (tk_waiting t) = mset names"
        using all task_end(3) by (simp add: add_mset_add_single [symmetric])
      with task_end(1) Inr len s ok(4,5) \<open>x \<in> set names\<close> show ?thesis unfolding run_ok_def
        by (intro conjI exI [of _ "ended @ [x]"] exI [of _ "new @ part x"]) auto
    qed
  qed
qed

lemma run_ok_ended:
  assumes "run_ok limit names s0 t" "all_ended t"
  shows "\<exists>new. log (tk_state t) = log s0 @ new \<and> mset new = mset (concat (map part names)) \<and> inv (tk_state t)"
proof -
  obtain ended new where ok: "inv (tk_state t)" "log (tk_state t) = log s0 @ new"
    "mset new = mset (concat (map part ended))" "mset ended = mset names"
    using assms unfolding run_ok_def all_ended_def by auto
  have "mset (concat (map part xs)) = \<Sum>\<^sub># (image_mset (\<lambda>x. mset (part x)) (mset xs))" for xs
    by (induction xs) auto
  with ok(3,4) have "mset new = mset (concat (map part names))" by simp
  with ok(1,2) show ?thesis by blast
qed

end

section \<open>The tasks of a school\<close>

text \<open>What a file says, apart from its name and time.\<close>

definition file_entry :: "listener_file \<Rightarrow> pyval \<times> string \<times> string" where
  "file_entry f = (lf_entry_uuid f, lf_dn f, lf_object_type f)"

definition written_entries :: "sched \<Rightarrow> (pyval \<times> string \<times> string) list" where
  "written_entries s = map file_entry (sd_written s)"

definition sched_ok :: "sched_env \<Rightarrow> sched \<Rightarrow> bool" where
  "sched_ok env s \<longleftrightarrow> machine_pw_ok (sc_ldap env) (sd_machine_pw s)"

definition school_user_found :: "sched_env \<Rightarrow> string \<Rightarrow> exn + ldap_user option" where
  "school_user_found env name =
     bindE (search_result (sc_ldap env) (school_user_filter (uid_filter (sc_ldap env) name))
         ([''*'', ''entryUUID''] @ user_attributes) [] [] [] False)
       (at_most_one None (new_user (sc_ldap env)))"

definition school_group_found :: "sched_env \<Rightarrow> string \<Rightarrow> exn + ldap_group option" where
  "school_group_found env name =
     bindE (search_result (sc_ldap env)
         (''(&'' @ (''(cn='' @ ln_escape (sc_ldap env) name @ '')'') @ ''(|(objectClass=ucsschoolGroup)))'')
         ([''*'', ''entryUUID''] @ [''cn'']) [] [] [] False)
       (at_most_one None (new_group (sc_ldap env)))"

definition entry_of :: "string \<Rightarrow> string \<Rightarrow> (string \<times> pyval list) list \<Rightarrow> (pyval \<times> string \<times> string) list" where
  "entry_of object_type dn attributes =
     (case entry_uuid attributes of Inl _ \<Rightarrow> [] | Inr v \<Rightarrow> [(v, dn, object_type)])"

definition user_entry :: "sched_env \<Rightarrow> string \<Rightarrow> (pyval \<times> string \<times> string) list" where
  "user_entry env name =
     (case school_user_found env name of
        Inr (Some u) \<Rightarrow> entry_of ''users/user'' (lu_dn u) (lu_attributes u) | _ \<Rightarrow> [])"

definition group_entry :: "sched_env \<Rightarrow> string \<Rightarrow> (pyval \<times> string \<times> string) list" where
  "group_entry env name =
     (case school_group_found env name of
        Inr (Some g) \<Rightarrow> entry_of ''groups/group'' (lg_dn g) (lg_attributes g) | _ \<Rightarrow> [])"

lemma on_directory_ok:
  assumes "reads (sc_ldap env) m r" "sched_ok env s" "on_directory m s = (r', s')"
  shows "r' = r \<and> sched_ok env s' \<and> sd_written s' = sd_written s"
proof -
  obtain r1 mc where m: "m (sd_machine_pw s) = (r1, mc)" by (cases "m (sd_machine_pw s)") auto
  with readsD [OF assms(1) _ m] assms(2,3) show ?thesis by (auto simp: on_directory_def sched_ok_def)
qed

lemma reads_school_user:
  "reads (sc_ldap env) (get_user_ldap (sc_ldap env) name [] [] [''*'', ''entryUUID''] True) (school_user_found env name)"
  unfolding get_user_ldap_def school_user_found_def Let_def if_True by (intro reads_intros)

lemma reads_school_group:
  "reads (sc_ldap env) (get_group_ldap (sc_ldap env) name [] [] [''*'', ''entryUUID''] True) (school_group_found env name)"
proof -
  have "get_group_ldap (sc_ldap env) name [] [] [''*'', ''entryUUID''] True =
    bindM (search (sc_ldap env)
         (''(&'' @ (''(cn='' @ ln_escape (sc_ldap env) name @ '')'') @ ''(|(objectClass=ucsschoolGroup)))'')
         ([''*'', ''entryUUID''] @ [''cn'']) [] [] [] False)
       (\<lambda>es. lift (at_most_one None (new_group (sc_ldap env)) es))"
    by (simp add: get_group_ldap_def)
  then show ?thesis unfolding school_group_found_def by (simp only:) (intro reads_intros)
qed

lemma write_listener_file_ok:
  assumes "write_listener_file env object_type dn attributes s = (r, s')" "sched_ok env s"
  shows "sched_ok env s' \<and>
    (case r of
       Inl _ \<Rightarrow> written_entries s' = written_entries s
     | Inr _ \<Rightarrow> written_entries s' = written_entries s @ entry_of object_type dn attributes)"
  using assms
  by (auto simp: write_listener_file_def entry_of_def sched_ok_def written_entries_def file_entry_def split: sum.splits)

lemma queue_user_ok:
  assumes "queue_user env name s = (r, s')" "sched_ok env s"
  shows "sched_ok env s' \<and>
    (case r of
       Inl _ \<Rightarrow> written_entries s' = written_entries s
     | Inr _ \<Rightarrow> written_entries s' = written_entries s @ user_entry env name)"
proof -
  obtain r1 s1 where s1: "get_user_from_ldap env name s = (r1, s1)" by (cases "get_user_from_ldap env name s") auto
  from on_directory_ok [OF reads_school_user assms(2)] s1
  have ok: "r1 = school_user_found env name" "sched_ok env s1" "written_entries s1 = written_entries s"
    by (auto simp: get_user_from_ldap_def written_entries_def)
  show ?thesis
  proof (cases "\<exists>u. r1 = Inr (Some u)")
    case True
    then obtain u where u: "r1 = Inr (Some u)" by blast
    with assms(1) s1 have "write_listener_file env ''users/user'' (lu_dn u) (lu_attributes u) s1 = (r, s')"
      by (simp add: queue_user_def bindM_apply)
    from write_listener_file_ok [OF this ok(2)] ok(1,3) u show ?thesis
      by (cases r) (simp_all add: user_entry_def flip: ok(1))
  next
    case False
    with assms(1) s1 ok show ?thesis
      by (auto simp: queue_user_def bindM_apply user_entry_def split: sum.splits option.splits)
  qed
qed

lemma queue_group_ok:
  assumes "queue_group env name s = (r, s')" "sched_ok env s"
  shows "sched_ok env s' \<and>
    (case r of
       Inl _ \<Rightarrow> written_entries s' = written_entries s
     | Inr _ \<Rightarrow> written_entries s' = written_entries s @ group_entry env name)"
proof -
  obtain r1 s1 where s1: "get_group_from_ldap env name s = (r1, s1)" by (cases "get_group_from_ldap env name s") auto
  from on_directory_ok [OF reads_school_group assms(2)] s1
  have ok: "r1 = school_group_found env name" "sched_ok env s1" "written_entries s1 = written_entries s"
    by (auto simp: get_group_from_ldap_def written_entries_def)
  show ?thesis
  proof (cases "\<exists>g. r1 = Inr (Some g)")
    case True
    then obtain g where g: "r1 = Inr (Some g)" by blast
    with assms(1) s1 have "write_listener_file env ''groups/group'' (lg_dn g) (lg_attributes g) s1 = (r, s')"
      by (simp add: queue_group_def bindM_apply)
    from write_listener_file_ok [OF this ok(2)] ok(1,3) g show ?thesis
      by (cases r) (simp_all add: group_entry_def flip: ok(1))
  next
    case False
    with assms(1) s1 ok show ?thesis
      by (auto simp: queue_group_def bindM_apply group_entry_def split: sum.splits option.splits)
  qed
qed

interpretation user_tasks: logged_tasks "queue_user env" "sched_ok env" written_entries "user_entry env" for env
  by unfold_locales (use queue_user_ok in fastforce)+

interpretation group_tasks: logged_tasks "queue_group env" "sched_ok env" written_entries "group_entry env" for env
  by unfold_locales (use queue_group_ok in fastforce)+

section \<open>A school\<close>

definition school_user_names :: "sched_env \<Rightarrow> string \<Rightarrow> exn + string list" where
  "school_user_names env ou =
     bindE (search_result (sc_ldap env) (school_users_filter env ou) [''uid''] [] [] [] True)
       (str_attributes env ''uid'')"

definition school_group_names :: "sched_env \<Rightarrow> string \<Rightarrow> exn + string list" where
  "school_group_names env ou =
     bindE (search_result (sc_ldap env) (school_groups_filter env ou) [''cn''] [] [] [] True)
       (str_attributes env ''cn'')"

lemma get_school_users_ok:
  assumes "get_school_users env ou s = (r, s')" "sched_ok env s"
  shows "r = school_user_names env ou \<and> sched_ok env s' \<and> written_entries s' = written_entries s"
proof -
  have "reads (sc_ldap env) (bindM (search (sc_ldap env) (school_users_filter env ou) [''uid''] [] [] [] True)
      (\<lambda>es. lift (str_attributes env ''uid'' es))) (school_user_names env ou)"
    unfolding school_user_names_def by (intro reads_intros)
  from on_directory_ok [OF this assms(2)] assms(1) show ?thesis
    by (simp add: get_school_users_def written_entries_def)
qed

lemma get_school_groups_ok:
  assumes "get_school_groups env ou s = (r, s')" "sched_ok env s"
  shows "r = school_group_names env ou \<and> sched_ok env s' \<and> written_entries s' = written_entries s"
proof -
  have "reads (sc_ldap env) (bindM (search (sc_ldap env) (school_groups_filter env ou) [''cn''] [] [] [] True)
      (\<lambda>es. lift (str_attributes env ''cn'' es))) (school_group_names env ou)"
    unfolding school_group_names_def by (intro reads_intros)
  from on_directory_ok [OF this assms(2)] assms(1) show ?thesis
    by (simp add: get_school_groups_def written_entries_def)
qed

text \<open>
  What holds of a run in each of its phases; \<open>L\<close> is what was written before it. After the users, the
  state is one that has the files of all of them.
\<close>

definition users_written :: "sched_env \<Rightarrow> string \<Rightarrow> (pyval \<times> string \<times> string) list \<Rightarrow> sched \<Rightarrow> bool" where
  "users_written env ou L s \<longleftrightarrow>
     sched_ok env s \<and>
     (\<exists>users us. school_user_names env ou = Inr users \<and> written_entries s = L @ us \<and>
        mset us = mset (concat (map (user_entry env) users)))"

fun school_ok :: "sched_env \<Rightarrow> string \<Rightarrow> nat \<Rightarrow> (pyval \<times> string \<times> string) list \<Rightarrow> school_run \<Rightarrow> bool" where
  "school_ok env ou n L (School_Start s) = (sched_ok env s \<and> written_entries s = L)"
| "school_ok env ou n L (User_Tasks t) =
     (\<exists>users s0. school_user_names env ou = Inr users \<and> written_entries s0 = L \<and>
        user_tasks.run_ok env n users s0 t)"
| "school_ok env ou n L (Group_Tasks t) =
     (\<exists>groups s1. users_written env ou L s1 \<and> school_group_names env ou = Inr groups \<and>
        group_tasks.run_ok env n groups s1 t)"
| "school_ok env ou n L (School_Done s) =
     (\<exists>groups s1 gs. users_written env ou L s1 \<and> school_group_names env ou = Inr groups \<and>
        written_entries s = written_entries s1 @ gs \<and> mset gs = mset (concat (map (group_entry env) groups)))"
| "school_ok env ou n L (School_Failed e s) = True"

lemma list_users_ok:
  assumes "sched_ok env s" "written_entries s = L"
  shows "school_ok env ou n L (list_users env ou s)"
proof -
  obtain r s' where get: "get_school_users env ou s = (r, s')" by (cases "get_school_users env ou s") auto
  from get_school_users_ok [OF get assms(1)] assms(2) have
    "r = school_user_names env ou" "sched_ok env s'" "written_entries s' = L" by auto
  then show ?thesis
    using user_tasks.run_ok_start [of env s' n]
    by (cases "school_user_names env ou") (auto simp: list_users_def get)
qed

lemma list_groups_ok:
  assumes "users_written env ou L s"
  shows "school_ok env ou n L (list_groups env ou s)"
proof -
  obtain r s' where get: "get_school_groups env ou s = (r, s')" by (cases "get_school_groups env ou s") auto
  have "sched_ok env s" using assms by (simp add: users_written_def)
  from get_school_groups_ok [OF get this] have
    ok: "r = school_group_names env ou" "sched_ok env s'" "written_entries s' = written_entries s" by auto
  then have "users_written env ou L s'" using assms by (simp add: users_written_def)
  with ok show ?thesis
    using group_tasks.run_ok_start [of env s' n]
    by (cases "school_group_names env ou") (auto simp: list_groups_def get)
qed

lemma school_ok_step:
  assumes "school_step env ou n r r'" "school_ok env ou n L r"
  shows "school_ok env ou n L r'"
  using assms
proof cases
  case (school_users s)
  with assms(2) show ?thesis by (auto intro: list_users_ok)
next
  case (user_task t t')
  with assms(2) show ?thesis by (auto intro: user_tasks.run_ok_step)
next
  case (users_ended t)
  with assms(2) obtain users s0 where u: "school_user_names env ou = Inr users" "written_entries s0 = L"
    "user_tasks.run_ok env n users s0 t" by auto
  from user_tasks.run_ok_ended [OF u(3) users_ended(3)] u(1,2) have "users_written env ou L (tk_state t)"
    by (auto simp: users_written_def)
  with users_ended show ?thesis by (simp add: list_groups_ok)
next
  case (group_task t t')
  with assms(2) show ?thesis by (auto intro: group_tasks.run_ok_step)
next
  case (groups_ended t)
  with assms(2) obtain groups s1 where g: "users_written env ou L s1" "school_group_names env ou = Inr groups"
    "group_tasks.run_ok env n groups s1 t" by auto
  from group_tasks.run_ok_ended [OF g(3) groups_ended(3)] g(1,2) groups_ended show ?thesis by auto
qed simp_all

lemma school_reaches_ok:
  assumes "rtranclp (school_step env ou n) (School_Start s0) r" "sched_ok env s0"
  shows "school_ok env ou n (written_entries s0) r"
  using assms(1)
proof (induction rule: rtranclp_induct)
  case base
  then show ?case using assms(2) by simp
qed (rule school_ok_step)

text \<open>Runs end: every step leads to a later phase, or to fewer and smaller tasks in the same one.\<close>

fun school_phase :: "school_run \<Rightarrow> nat" where
  "school_phase (School_Start _) = 3"
| "school_phase (User_Tasks _) = 2"
| "school_phase (Group_Tasks _) = 1"
| "school_phase _ = 0"

fun school_size :: "school_run \<Rightarrow> nat" where
  "school_size (User_Tasks t) = task_size t"
| "school_size (Group_Tasks t) = task_size t"
| "school_size _ = 0"

lemma school_step_later:
  assumes "school_step env ou n r r'"
  shows "school_phase r' < school_phase r \<or> school_phase r' = school_phase r \<and> school_size r' < school_size r"
  using assms
  by cases (auto simp: list_users_def list_groups_def task_step_smaller split: prod.split sum.split)

lemma school_ends: "wfP (\<lambda>r' r. school_step env ou n r r')"
proof -
  have "{(r', r). school_step env ou n r r'} \<subseteq> measures [school_phase, school_size]"
    using school_step_later by auto
  from wf_subset [OF wf_measures this] show ?thesis by (simp add: wfp_def)
qed

lemma school_goes_on:
  assumes "0 < n" "\<And>s. r \<noteq> School_Done s" "\<And>e s. r \<noteq> School_Failed e s"
  shows "\<exists>r'. school_step env ou n r r'"
proof (cases r)
  case (User_Tasks t)
  show ?thesis
  proof (cases "tk_error t")
    case None
    then show ?thesis
      using task_step_possible [OF assms(1) None, of "queue_user env"] User_Tasks
      by (cases "all_ended t") (auto intro: school_step.intros)
  qed (use User_Tasks in \<open>auto intro: school_step.intros\<close>)
next
  case (Group_Tasks t)
  show ?thesis
  proof (cases "tk_error t")
    case None
    then show ?thesis
      using task_step_possible [OF assms(1) None, of "queue_group env"] Group_Tasks
      by (cases "all_ended t") (auto intro: school_step.intros)
  qed (use Group_Tasks in \<open>auto intro: school_step.intros\<close>)
qed (use assms in \<open>auto intro: school_step.intros\<close>)

end
