(* ===== verification/Api_Properties.thy ===== *)
theory Api_Properties
  imports Service_Run Scheduler_Facts Config_Properties
begin

text \<open>
  Properties of the HTTP API with its logins and tokens, of the settings it reads and of the command line
  tools, each with an instance: a directory with a host, an administrator, a pupil and a class.
\<close>

section \<open>An instance\<close>

definition ex_entry :: "string \<Rightarrow> (string \<times> pyval list) list \<Rightarrow> ldap_entry" where
  "ex_entry dn attributes = \<lparr>le_dn = dn, le_attributes = attributes\<rparr>"

definition ex_admin_entry :: ldap_entry where
  "ex_admin_entry =
     ex_entry ''uid=adm'' [(''uid'', [PStr ''adm'']), (''displayName'', []), (''sambaAcctFlags'', [PStr ''[U]'']),
       (''krb5KDCFlags'', [PInt 126])]"

definition ex_pupil_entry :: ldap_entry where
  "ex_pupil_entry =
     ex_entry ''uid=p'' [(''uid'', [PStr ''p'']), (''displayName'', [PStr ''P'']), (''sambaAcctFlags'', [PStr ''[U]'']),
       (''krb5KDCFlags'', [PInt 126]), (''entryUUID'', [PStr ''1-2''])]"

definition ex_class_entry :: ldap_entry where
  "ex_class_entry = ex_entry ''cn=S-1a'' [(''cn'', [PStr ''S-1a'']), (''entryUUID'', [PStr ''3-4''])]"

definition ex_query :: "string \<Rightarrow> string \<Rightarrow> string \<Rightarrow> string list \<Rightarrow> exn + ldap_entry list" where
  "ex_query dn base f attributes =
     (if f = ''(uid=adm)'' then Inr [ex_admin_entry]
      else if attributes = [''uniqueMember''] then Inr [ex_entry ''cn=admins'' [(''uniqueMember'', [PStr ''uid=adm''])]]
      else if attributes = [''uid''] then Inr [ex_pupil_entry]
      else if attributes = [''cn''] then Inr [ex_class_entry]
      else if take 7 f = ''(&(uid='' then Inr [ex_pupil_entry]
      else if take 6 f = ''(&(cn='' then Inr [ex_class_entry]
      else Inr [])"

definition ex_bind :: "string \<Rightarrow> string \<Rightarrow> exn option" where
  "ex_bind dn pw = (if (dn, pw) \<in> {(''cn=host'', ''m''), (''uid=adm'', ''pw'')} then None else Some LDAPBindErr)"

fun ex_str :: "pyval \<Rightarrow> string option" where
  "ex_str (PStr s) = Some s"
| "ex_str _ = None"

definition ex_ldap :: ldap_env where
  "ex_ldap = \<lparr>ln_base = ''dc=x'', ln_host_dn = ''cn=host'', ln_secret = Some (1, ''m''), ln_bind = ex_bind,
     ln_query = ex_query, ln_escape = (\<lambda>s. s), ln_str = ex_str, ln_passwords = (\<lambda>_. Inl ValidationErr), ln_now = 0\<rparr>"

text \<open>Tokens: the key, the expiry time as a number of marks, and the name.\<close>

definition ex_encode :: "string \<Rightarrow> pydict \<Rightarrow> string" where
  "ex_encode key payload =
     (case payload of
        [(_, PStr name), (_, PInt x)] \<Rightarrow>
          key @ (if x < 0 then CHR ''-'' else CHR ''+'') # replicate (nat \<bar>x\<bar>) CHR ''1'' @ CHR ''.'' # name
      | _ \<Rightarrow> [])"

definition ex_decode :: "string \<Rightarrow> int \<Rightarrow> string \<Rightarrow> exn + pydict" where
  "ex_decode key t token =
     (if take (length key) token \<noteq> key then Inl PyJWTErr
      else (case drop (length key) token of
          [] \<Rightarrow> Inl PyJWTErr
        | c # s \<Rightarrow>
            (let n = int (length (takeWhile (\<lambda>d. d = CHR ''1'') s)); x = (if c = CHR ''-'' then - n else n) in
             if t < x then Inr [(''sub'', PStr (tl (dropWhile (\<lambda>d. d = CHR ''1'') s))), (''exp'', PInt x)]
             else Inl PyJWTErr)))"

definition ex_tokens :: token_env where
  "ex_tokens = \<lparr>te_encode = ex_encode, te_decode = ex_decode, te_secret_file = Some ''k'', te_ucr = None,
     te_now = 0, te_ldap = ex_ldap\<rparr>"

lemma ex_jwt_laws: "jwt_laws ex_tokens"
proof -
  have ones: "takeWhile (\<lambda>d. d = CHR ''1'') (replicate n CHR ''1'' @ CHR ''.'' # name) = replicate n CHR ''1''"
    "dropWhile (\<lambda>d. d = CHR ''1'') (replicate n CHR ''1'' @ CHR ''.'' # name) = CHR ''.'' # name" for n name
    by (induction n) auto
  show ?thesis
    by (auto simp: jwt_laws_def ex_tokens_def ex_encode_def ex_decode_def Let_def ones)
qed

lemma ex_auth_ok: "auth_ok ex_tokens initial_auth"
  by (simp add: auth_ok_def machine_pw_ok_def ex_tokens_def ex_ldap_def initial_auth_def initial_machine_pw_def)

lemmas ex_directory_defs = ex_ldap_def ex_query_def ex_bind_def ex_admin_entry_def ex_entry_def

lemma ex_admin_disabled: "user_is_disabled 0 ex_admin_entry = Inr False"
  by (simp add: user_is_disabled_def account_expired_def attr_value_def attr_values_def ex_admin_entry_def ex_entry_def)

definition ex_admin :: ldap_user where
  "ex_admin = \<lparr>lu_username = ''adm'', lu_full_name = None, lu_disabled = False, lu_dn = ''uid=adm'',
     lu_attributes = le_attributes ex_admin_entry\<rparr>"

lemma ex_new_admin: "new_user ex_ldap ex_admin_entry = Inr (Some ex_admin)"
proof -
  have "ln_now ex_ldap = 0" "ln_str ex_ldap = ex_str" by (simp_all add: ex_ldap_def)
  then show ?thesis
    by (simp add: new_user_def ex_admin_disabled str_field_def opt_str_field_def attr_value_def attr_values_def ex_admin_def)
      (simp add: ex_admin_entry_def ex_entry_def)
qed

lemma ex_search_admin:
  assumes "pw = [] \<and> dn = [] \<or> pw = ''pw'' \<and> dn = ''uid=adm''"
  shows "search_result ex_ldap (uid_filter ex_ldap ''adm'') attributes [] dn pw b = Inr [ex_admin_entry]"
  using assms
  by (auto simp: search_result_def host_password_def connect_search_def or_else_def uid_filter_def strip_text_def
      is_space_def ex_ldap_def ex_query_def ex_bind_def)

lemma ex_login_found: "login_found ex_ldap ''adm'' ''pw'' = Inr (Some ex_admin)"
proof -
  have "user_dn_found ex_ldap ''adm'' = Inr ''uid=adm''"
    by (simp add: user_dn_found_def ex_search_admin at_most_one_def) (simp add: ex_admin_entry_def ex_entry_def)
  moreover have "admins_found ex_ldap = Inr [PStr ''uid=adm'']"
    by (simp add: admins_found_def search_result_def host_password_def connect_search_def or_else_def strip_text_def
        is_space_def ex_ldap_def ex_query_def ex_bind_def ADMIN_GROUP_NAME_def ex_entry_def attr_values_def)
  moreover have "user_found ex_ldap ''adm'' ''uid=adm'' ''pw'' = Inr (Some ex_admin)"
    by (simp add: user_found_def ex_search_admin at_most_one_def ex_new_admin)
  ultimately show ?thesis by (simp add: login_found_def)
qed

lemma ex_admin_found: "user_found ex_ldap ''adm'' [] [] = Inr (Some ex_admin)"
  by (simp add: user_found_def ex_search_admin at_most_one_def ex_new_admin)

lemma ex_ttl: "get_token_ttl None uc = (Inr 60, uc)"
  by (simp add: get_token_ttl_def get_ucrv_def UCRV_TOKEN_TTL_def)

lemma ex_login_succeeds: "\<exists>token s. login_for_access_token ex_tokens ''adm'' ''pw'' initial_auth = (Inr token, s)"
proof -
  have ldap: "te_ldap ex_tokens = ex_ldap" "te_ucr ex_tokens = None" by (simp_all add: ex_tokens_def)
  obtain s1 where s1: "on_ldap (check_auth_and_get_user ex_ldap ''adm'' ''pw'') initial_auth = (Inr (Some ex_admin), s1)"
    using on_ldap_ok [of ex_tokens, OF _ ex_auth_ok] reads_login [of ex_ldap "''adm''" "''pw''"]
    unfolding ldap ex_login_found by blast
  have ucr: "on_ucr (get_token_ttl None) s = (Inr 60, s)" for s by (simp add: on_ucr_def ex_ttl)
  obtain key where "signing_key ex_tokens s1 = Inr key" by (cases "au_secret_key s1 = []") (simp_all add: signing_key_def ex_tokens_def)
  then obtain s2 where "get_secret_key ex_tokens s1 = (Inr key, s2)" using get_secret_key_ok [of ex_tokens s1] by auto
  then have "create_access_token ex_tokens [(''sub'', PStr ''adm'')] 3600 s1 =
      (Inr (te_encode ex_tokens key (AList.update ''exp'' (PInt (te_now ex_tokens + 3600)) [(''sub'', PStr ''adm'')])), s2)"
    by (simp add: create_access_token_def bindM_apply)
  moreover have "lu_username ex_admin = ''adm''" by (simp add: ex_admin_def)
  ultimately show ?thesis
    by (simp add: login_for_access_token_def bindM_apply ldap s1 ucr)
qed

section \<open>Logins and tokens\<close>

text \<open>
  C6: Whoever gets a token has a name that belongs to exactly one entry of the directory, which is a member of
  the group of administrators, and the directory has accepted the password for it; only if no password
  was given at all, it has accepted the password of the host instead.
\<close>

theorem login_checks_password:
  assumes "login_for_access_token env name password s = (Inr token, s')" "auth_ok env s"
  shows "\<exists>dn p members. user_dn_found (te_ldap env) name = Inr dn \<and> dn \<noteq> [] \<and>
    admins_found (te_ldap env) = Inr members \<and> PStr dn \<in> set members \<and>
    (if password \<noteq> [] then p = password else host_password (te_ldap env) = Inr p) \<and>
    ln_bind (te_ldap env) dn p = None"
proof -
  obtain s1 where s1: "on_ldap (check_auth_and_get_user (te_ldap env) name password) s =
      (login_found (te_ldap env) name password, s1)"
    using on_ldap_ok [OF reads_login assms(2)] by blast
  with assms(1) obtain u where "login_found (te_ldap env) name password = Inr (Some u)"
    by (auto simp: login_for_access_token_def bindM_apply split: sum.splits option.splits)
  from login_checked [OF this] show ?thesis .
qed

theorem login_checks_password_witness:
  "\<exists>token s dn. login_for_access_token ex_tokens ''adm'' ''pw'' initial_auth = (Inr token, s) \<and>
    ln_bind ex_ldap dn ''pw'' = None"
proof -
  obtain token s where login: "login_for_access_token ex_tokens ''adm'' ''pw'' initial_auth = (Inr token, s)"
    using ex_login_succeeds by blast
  have "te_ldap ex_tokens = ex_ldap" by (simp add: ex_tokens_def)
  with login_checks_password [OF login ex_auth_ok] login show ?thesis by auto
qed



section \<open>Requests\<close>

text \<open>
  C15: A request whose token is not accepted, as it is forged or expired, or its user is unknown or disabled,
  changes nothing of the service.
\<close>

theorem refused_request_changes_nothing:
  assumes "auth_ok tenv (ap_auth ap)"
    and "token_user tenv (signing_key tenv (ap_auth ap)) token = Inl e"
  shows "\<exists>a. api_call env co cd timestamp tenv token dv req ap = (error_response e, ap\<lparr>ap_auth := a\<rparr>)"
  using refused_no_effect [OF assms] .

definition ex_api :: "(string \<times> pydict) list api" where
  "ex_api = \<lparr>ap_auth = initial_auth, ap_service = ex_service\<rparr>"

definition ex_coding :: coding where
  "ex_coding = \<lparr>cd_request = (\<lambda>rq. rq_name rq),
     cd_parse = (\<lambda>m. Inr (rpc_call delete_school_authority m [] [])), cd_result = Inr\<rparr>"

theorem refused_request_changes_nothing_witness:
  "\<exists>a. api_call ex_env ex_coercions ex_coding ''t'' ex_tokens ''forged'' Answered (Delete_Authority ''T1'') ex_api =
    (Response 401 None, ex_api\<lparr>ap_auth := a\<rparr>)"
proof -
  have key: "signing_key ex_tokens (ap_auth ex_api) = Inr ''k''"
    by (simp add: signing_key_def ex_tokens_def ex_api_def initial_auth_def strip_text_def is_space_def)
  have "te_decode ex_tokens ''k'' (te_now ex_tokens) ''forged'' = Inl PyJWTErr"
    by (simp add: ex_tokens_def ex_decode_def)
  note refused = unknown_token_refused [OF key this]
  have "auth_ok ex_tokens (ap_auth ex_api)" using ex_auth_ok by (simp add: ex_api_def)
  from refused_request_changes_nothing [OF this refused] show ?thesis by (simp add: unauthorized_def)
qed

text \<open>
  Whatever requests are sent to the HTTP API, with any tokens, in any order, and with answers that come in
  time or too late, the service stays consistent: out queues have different names, which are those of
  their school authorities, and the in queue distributes to exactly the queues the service has.
\<close>

theorem api_keeps_service_consistent:
  assumes "keeps_name co" "service_inv (ap_service ap)"
  shows "service_inv (ap_service (snd (api_calls env co cd evs ap)))"
  using api_calls_inv [OF assms] .

theorem api_keeps_service_consistent_witness:
  "service_inv (ap_service (snd (api_calls ex_env ex_coercions ex_coding
    [(''t1'', ex_tokens, ''x'', Answered, Delete_Authority ''T1''),
     (''t2'', ex_tokens, ''y'', Answer_Late, Create_Authority [(''name'', PStr ''T2'')])] ex_api)))"
proof -
  have "service_inv (ap_service ex_api)" using ex_service_inv by (simp add: ex_api_def)
  from api_keeps_service_consistent [OF ex_keeps_name this] show ?thesis .
qed

text \<open>
  A request whose answer comes later than the client waits is reported as failed, with status 500, although
  the service has handled it: the configuration may have been changed.
\<close>

theorem late_answer_reported_as_failure:
  assumes "read_back cd (route_query req)" "valid_rpc_request (route_query req)"
    and "auth_ok tenv (ap_auth ap)" "token_user tenv (signing_key tenv (ap_auth ap)) token = Inr u"
  shows "\<exists>ap'. api_call env co cd timestamp tenv token Answer_Late req ap = (Response 500 None, ap') \<and>
    ap_service ap' = snd (handle_request env co timestamp (route_query req) (ap_service ap))"
  using accepted_call [OF assms(3,4), of env co cd timestamp Answer_Late req]
  by (auto simp: late_answer [OF assms(1,2)])

definition ex_token :: string where
  "ex_token = ex_encode ''k'' [(''sub'', PStr ''adm''), (''exp'', PInt 3600)]"

lemma ex_token_user: "token_user ex_tokens (signing_key ex_tokens initial_auth) ex_token = Inr ex_admin"
proof -
  have key: "signing_key ex_tokens initial_auth = Inr ''k''"
    by (simp add: signing_key_def ex_tokens_def initial_auth_def strip_text_def is_space_def)
  have env: "te_encode ex_tokens = ex_encode" "te_ldap ex_tokens = ex_ldap" "te_now ex_tokens = 0" "ln_str ex_ldap = ex_str"
    by (simp_all add: ex_tokens_def ex_ldap_def)
  have decode: "te_decode ex_tokens ''k'' 0 ex_token = Inr [(''sub'', PStr ''adm''), (''exp'', PInt 3600)]"
    using ex_jwt_laws by (simp add: jwt_laws_def ex_token_def env)
  have "\<not> lu_disabled ex_admin" by (simp add: ex_admin_def)
  then show ?thesis
    by (simp add: token_user_def key decode env token_name_def str_field_def ex_admin_found)
qed

theorem late_answer_reported_as_failure_witness:
  "\<exists>ap'. api_call ex_env ex_coercions ex_coding ''t'' ex_tokens ex_token Answer_Late (Delete_Authority ''T1'') ex_api =
      (Response 500 None, ap') \<and> sv_out_queues (ap_service ex_api) \<noteq> [] \<and> sv_out_queues (ap_service ap') = []"
proof -
  have api: "ap_auth ex_api = initial_auth" "ap_service ex_api = ex_service" by (simp_all add: ex_api_def)
  have read: "read_back ex_coding (route_query (Delete_Authority ''T1''))"
    by (simp add: read_back_def ex_coding_def rpc_call_def)
  have valid: "valid_rpc_request (route_query (Delete_Authority ''T1''))"
    by (simp add: valid_rpc_request_def rpc_call_def required_args_present_def)
  have "auth_ok ex_tokens (ap_auth ex_api)" "token_user ex_tokens (signing_key ex_tokens (ap_auth ex_api)) ex_token = Inr ex_admin"
    by (simp_all add: api ex_auth_ok ex_token_user)
  from late_answer_reported_as_failure [OF read valid this, of ex_env ex_coercions "''t''"]
  obtain ap' where ap': "api_call ex_env ex_coercions ex_coding ''t'' ex_tokens ex_token Answer_Late
      (Delete_Authority ''T1'') ex_api = (Response 500 None, ap')"
    "ap_service ap' = snd (handle_request ex_env ex_coercions ''t'' (route_query (Delete_Authority ''T1'')) ex_service)"
    by (auto simp: api)
  have "sv_out_queues ex_service \<noteq> []" by (simp add: ex_service_def)
  moreover have "sv_out_queues (snd (handle_request ex_env ex_coercions ''t'' (route_query (Delete_Authority ''T1'')) ex_service)) = []"
    by (simp add: handle_request_def rpc_call_def delete_school_authority_rq_def ex_service_def find_queue_def)
      code_simp
  ultimately show ?thesis using ap' api by (intro exI [of _ ap']) simp
qed

section \<open>The running service\<close>

text \<open>
  C5: From its start on, in every state the service can reach while files arrive, the in queue and the out
  queues work, plugins and directory answer as they like, and requests are served, in any order: out queues
  have different names, which are those of their school authorities; the in queue distributes to exactly
  the queues the service has; none of them is deleted; and no task of a deactivated school authority runs.
\<close>

theorem service_consistent_throughout:
  assumes "start_service env co renv cfg mapping_file dirs in_dir db handlers = Inr (Some sv)"
    and "load_school_authorities env (co_school_authority co) cfg = Inr sas" "distinct (map sa_name sas)"
    and "keeps_name co" "rtranclp (service_step co cd hk) (live_start sv w) lv"
  shows "service_inv (lv_service lv) \<and> tasks_ok (lv_service lv)"
proof -
  have "live_ok (live_start sv w)"
    using start_service_inv [OF assms(1-3)] tasks_ok_start [OF assms(1)] by (simp add: live_ok_def live_start_def)
  from live_ok_steps [OF assms(5,4) this] show ?thesis by (simp add: live_ok_def)
qed

definition ex_start :: "exn + (string \<times> pydict) list service option" where
  "ex_start = start_service ex_start_env ex_coercions ex_environ [(''T1.json'', File ''sa'')] None [] empty_dir [] []"

theorem service_consistent_throughout_witness:
  "\<exists>sv lv. ex_start = Inr (Some sv) \<and> map oq_name (sv_out_queues sv) = [''T1''] \<and>
    rtranclp (service_step ex_coercions ex_coding ex_hooks) (live_start sv 0) lv \<and>
    lv_service lv = snd (serve_message ex_start_env ex_coercions ex_coding ''t'' ''T1'' (arrived ''1.json'' ''x'' sv)) \<and>
    service_inv (lv_service lv) \<and> tasks_ok (lv_service lv)"
proof -
  have "case ex_start of Inr (Some sv) \<Rightarrow> map oq_name (sv_out_queues sv) = [''T1''] | _ \<Rightarrow> False" by code_simp
  then obtain sv where sv: "ex_start = Inr (Some sv)" "map oq_name (sv_out_queues sv) = [''T1'']"
    by (auto split: sum.splits option.splits)
  have sas: "load_school_authorities ex_start_env (co_school_authority ex_coercions) [(''T1.json'', File ''sa'')] = Inr [ex_sa]"
    by code_simp
  let ?step = "service_step ex_coercions ex_coding ex_hooks" and ?s0 = "live_start sv (0 :: nat)"
  let ?s1 = "?s0\<lparr>lv_service := arrived ''1.json'' ''x'' (lv_service ?s0)\<rparr>"
  let ?s2 = "?s1\<lparr>lv_service := snd (serve_message ex_start_env ex_coercions ex_coding ''t'' ''T1'' (lv_service ?s1))\<rparr>"
  have "?step ?s0 ?s1" by (rule file_arrives)
  moreover have "?step ?s1 ?s2" by (rule message) (simp add: live_start_def)
  ultimately have run: "rtranclp ?step ?s0 ?s2" by (rule converse_rtranclp_into_rtranclp [OF _ r_into_rtranclp])
  from service_consistent_throughout [OF sv(1) [unfolded ex_start_def] sas _ ex_keeps_name this] sv run show ?thesis
    by (intro exI [of _ sv] exI [of _ ?s2]) (simp add: live_start_def)
qed

section \<open>Settings\<close>

text \<open>
  C18: The cache of settings does not show: in a history of reads of the registry, in which its file changes only
  together with its time and that time never goes back, every read returns what the file says then.
\<close>

theorem settings_are_fresh:
  assumes "times_grow 0 None (map fst rs)"
  shows "fst (ucr_reads rs initial_ucr) =
    Inr (map (\<lambda>((mtime, lines), (ucr, fallback)). read_ucr lines ucr fallback) rs)"
  using ucr_reads_fresh [of initial_ucr None rs] assms by (simp add: initial_ucr_def ucr_cache_ok_def)

theorem settings_are_fresh_witness:
  "fst (ucr_reads
     [((5, [''a: 1'']), (''a'', PNone)), ((5, [''a: 1'']), (''a'', PNone)), ((7, [''a: 2'']), (''a'', PNone))] initial_ucr) =
   Inr [PStr ''1'', PStr ''1'', PStr ''2'']"
proof -
  let ?rs = "[((5, [''a: 1'']), (''a'', PNone)), ((5, [''a: 1'']), (''a'', PNone)), ((7, [''a: 2'']), (''a'', PNone))]"
  have "times_grow 0 None (map fst ?rs)" by simp
  from settings_are_fresh [OF this] show ?thesis by (simp add: ucr_line_def)
qed

section \<open>Command line tools\<close>

text \<open>
  C16: When scheduling a school has ended well, the files written are, in the order of writing, one for every user
  of the school that the directory has, and after all of these one for every group: no class can be
  distributed before its members, however many tasks run at a time.
\<close>

theorem school_users_before_groups:
  assumes "rtranclp (school_step env ou num_tasks) (School_Start s0) (School_Done s)" "sched_ok env s0"
  shows "\<exists>users groups us gs. school_user_names env ou = Inr users \<and> school_group_names env ou = Inr groups \<and>
    written_entries s = written_entries s0 @ us @ gs \<and>
    mset us = mset (concat (map (user_entry env) users)) \<and> mset gs = mset (concat (map (group_entry env) groups))"
proof -
  from school_reaches_ok [OF assms] obtain groups s1 gs where
    s1: "users_written env ou (written_entries s0) s1" and gs: "school_group_names env ou = Inr groups"
    "written_entries s = written_entries s1 @ gs" "mset gs = mset (concat (map (group_entry env) groups))"
    by auto
  from s1 obtain users us where "school_user_names env ou = Inr users" "written_entries s1 = written_entries s0 @ us"
    "mset us = mset (concat (map (user_entry env) users))"
    by (auto simp: users_written_def)
  with gs show ?thesis by (intro exI [of _ users] exI [of _ groups] exI [of _ us] exI [of _ gs]) simp
qed

definition ex_sched_env :: sched_env where
  "ex_sched_env = \<lparr>sc_ldap = ex_ldap, sc_timestamp = (\<lambda>_. ''t''), sc_format = (\<lambda>v. case v of PStr s \<Rightarrow> s | _ \<Rightarrow> [])\<rparr>"

definition ex_sched :: sched where
  "ex_sched = \<lparr>sd_machine_pw = initial_machine_pw, sd_written = []\<rparr>"

definition ex_sched_user :: sched where
  "ex_sched_user = \<lparr>sd_machine_pw = (1, ''m''), sd_written =
     [\<lparr>lf_name = ''t_1-2.json'', lf_entry_uuid = PStr ''1-2'', lf_dn = ''uid=p'', lf_object_type = ''users/user'',
       lf_command = ''m''\<rparr>]\<rparr>"

definition ex_sched_group :: sched where
  "ex_sched_group = ex_sched_user\<lparr>sd_written := sd_written ex_sched_user @
     [\<lparr>lf_name = ''t_3-4.json'', lf_entry_uuid = PStr ''3-4'', lf_dn = ''cn=S-1a'', lf_object_type = ''groups/group'',
       lf_command = ''m''\<rparr>]\<rparr>"

lemma ex_school_steps:
  "list_users ex_sched_env ''S'' ex_sched = User_Tasks (start_tasks [''p''] (ex_sched\<lparr>sd_machine_pw := (1, ''m'')\<rparr>))"
  "queue_user ex_sched_env ''p'' (ex_sched\<lparr>sd_machine_pw := (1, ''m'')\<rparr>) = (Inr (), ex_sched_user)"
  "list_groups ex_sched_env ''S'' ex_sched_user = Group_Tasks (start_tasks [''S-1a''] ex_sched_user)"
  "queue_group ex_sched_env ''S-1a'' ex_sched_user = (Inr (), ex_sched_group)"
  by code_simp+

lemma one_task:
  assumes "f x s = (Inr u, s')" "0 < n"
  shows "\<exists>t. rtranclp (task_step n f) (start_tasks [x] s) t \<and> all_ended t \<and> tk_state t = s'"
proof -
  let ?t0 = "start_tasks [x] s" and ?t2 = "start_tasks [] s'"
  have "task_step n f ?t0 (?t0\<lparr>tk_waiting := [], tk_running := x # tk_running ?t0\<rparr>)"
    using assms(2) by (intro task_start) (simp_all add: start_tasks_def)
  moreover have "task_step n f (?t0\<lparr>tk_waiting := [], tk_running := x # tk_running ?t0\<rparr>) ?t2"
    using task_end [of "?t0\<lparr>tk_waiting := [], tk_running := [x]\<rparr>" x f "Inr u" s' n] assms(1)
    by (simp add: start_tasks_def)
  ultimately have "rtranclp (task_step n f) ?t0 ?t2" by (rule converse_rtranclp_into_rtranclp [OF _ r_into_rtranclp])
  then show ?thesis by (intro exI [of _ ?t2]) (simp add: all_ended_def start_tasks_def)
qed

lemma user_steps:
  "rtranclp (task_step n (queue_user env)) t t' \<Longrightarrow> rtranclp (school_step env ou n) (User_Tasks t) (User_Tasks t')"
  by (induction rule: rtranclp_induct) (auto intro: rtranclp.rtrancl_into_rtrancl school_step.intros)

lemma group_steps:
  "rtranclp (task_step n (queue_group env)) t t' \<Longrightarrow> rtranclp (school_step env ou n) (Group_Tasks t) (Group_Tasks t')"
  by (induction rule: rtranclp_induct) (auto intro: rtranclp.rtrancl_into_rtrancl school_step.intros)

lemma ex_school_run:
  "rtranclp (school_step ex_sched_env ''S'' 2) (School_Start ex_sched) (School_Done ex_sched_group)"
proof -
  let ?step = "school_step ex_sched_env ''S'' 2" and ?s = "ex_sched\<lparr>sd_machine_pw := (1, ''m'')\<rparr>"
  from one_task [of "queue_user ex_sched_env", OF ex_school_steps(2), of 2] obtain t where
    t: "rtranclp ?step (User_Tasks (start_tasks [''p''] ?s)) (User_Tasks t)" "all_ended t" "tk_state t = ex_sched_user"
    using user_steps by (meson zero_less_numeral)
  from one_task [of "queue_group ex_sched_env", OF ex_school_steps(4), of 2] obtain t' where
    t': "rtranclp ?step (Group_Tasks (start_tasks [''S-1a''] ex_sched_user)) (Group_Tasks t')" "all_ended t'"
      "tk_state t' = ex_sched_group"
    using group_steps by (meson zero_less_numeral)
  have 1: "?step (School_Start ex_sched) (User_Tasks (start_tasks [''p''] ?s))"
    using school_users [of ex_sched_env "''S''" 2 ex_sched] unfolding ex_school_steps(1) .
  have 2: "?step (User_Tasks t) (Group_Tasks (start_tasks [''S-1a''] ex_sched_user))"
    using users_ended [OF t(2), of ex_sched_env "''S''" 2] unfolding t(3) ex_school_steps(3) .
  have 3: "?step (Group_Tasks t') (School_Done ex_sched_group)"
    using groups_ended [OF t'(2), of ex_sched_env "''S''" 2] unfolding t'(3) .
  from 1 t(1) 2 t'(1) 3 show ?thesis
    by (meson converse_rtranclp_into_rtranclp rtranclp_trans r_into_rtranclp)
qed

theorem school_users_before_groups_witness:
  "\<exists>us gs. written_entries ex_sched_group = us @ gs \<and>
    mset us = mset [(PStr ''1-2'', ''uid=p'', ''users/user'')] \<and>
    mset gs = mset [(PStr ''3-4'', ''cn=S-1a'', ''groups/group'')]"
proof -
  have "sched_ok ex_sched_env ex_sched"
    by (simp add: sched_ok_def machine_pw_ok_def ex_sched_env_def ex_sched_def ex_ldap_def initial_machine_pw_def)
  note run = school_users_before_groups [OF ex_school_run this]
  have names: "school_user_names ex_sched_env ''S'' = Inr [''p'']" "school_group_names ex_sched_env ''S'' = Inr [''S-1a'']"
    by code_simp+
  have entries: "user_entry ex_sched_env ''p'' = [(PStr ''1-2'', ''uid=p'', ''users/user'')]"
    "group_entry ex_sched_env ''S-1a'' = [(PStr ''3-4'', ''cn=S-1a'', ''groups/group'')]"
    by code_simp+
  have "written_entries ex_sched = []" by (simp add: written_entries_def ex_sched_def)
  with run show ?thesis unfolding names by (simp add: entries)
qed

text \<open>
  C17: Scheduling a school always ends: it cannot go on for ever, and with one task or more it cannot get stuck
  before it is done or has failed.
\<close>

theorem school_run_ends:
  assumes "valid_num_tasks n"
  shows "wfP (\<lambda>r' r. school_step env ou n r r') \<and>
    (\<exists>s e. r = School_Done s \<or> r = School_Failed e s \<or> (\<exists>r'. school_step env ou n r r'))"
  using school_ends school_goes_on [of n r env ou] assms by (auto simp: valid_num_tasks_def)

theorem school_run_ends_witness: "\<exists>r'. school_step ex_sched_env ''S'' 2 (School_Start ex_sched) r'"
  using school_run_ends [of 2 ex_sched_env "''S''" "School_Start ex_sched"] by (auto simp: valid_num_tasks_def)

text \<open>Cleaning the trash deletes the regular files that are older than the given number of days, and nothing else.\<close>

lemma trash_cleaned:
  assumes "wf_dict d"
  shows "delete_up_from_day now offset d =
    (Inr (), filter (\<lambda>(name, mtime, is_file). \<not> (mtime < now - offset * usec_day \<and> is_file)) d)"
  using delete_up_from_day_ok [OF assms] .

end
