(* ===== verification/JS_Value.thy ===== *)
theory JS_Value
  imports Main
begin

text \<open>
  The JavaScript values the bundled documentation viewer
  (src/ucsschool_id_connector/static/redoc.standalone-2.0.0-rc.75.js) computes with when it
  renders its style rules: property access, truth values, conversion to strings, and the exceptions
  these raise.

  Numbers are decimal fractions \<open>Dec m k\<close> for \<open>m / 10 ^ k\<close>, which is what every number literal
  of the modelled code denotes; their text is the one JavaScript prints for numbers whose magnitude
  lies between \<open>1e-6\<close> and \<open>1e21\<close> and that have at most 15 digits. Strings are byte lists; the two
  characters outside ASCII that the modelled code contains are written as their UTF-8 bytes.
  Objects have own properties only, in insertion order; the properties that every object inherits
  from its prototype (\<open>constructor\<close>, \<open>toString\<close>) are not values of the model.
\<close>

named_theorems js_simps \<open>access to properties, truth values and conversions\<close>

section \<open>Exceptions\<close>

text \<open>
  \<open>PlainError\<close> is \<open>new Error\<close> with its message, \<open>StyledError n\<close> the numbered error of
  styled-components; \<open>Outside_Model\<close> marks a conversion that the model does not compute.
\<close>

datatype js_error =
    TypeError string | PlainError string | StyledError nat | PolishedError string | Outside_Model string

type_synonym 'a js = "js_error + 'a"

definition js_bind :: "'a js \<Rightarrow> ('a \<Rightarrow> 'b js) \<Rightarrow> 'b js" where
  "js_bind r f = (case r of Inl e \<Rightarrow> Inl e | Inr a \<Rightarrow> f a)"

lemma js_bind_simps [js_simps, simp]:
  "js_bind (Inl e) f = Inl e"
  "js_bind (Inr a) f = f a"
  by (simp_all add: js_bind_def)

lemma js_bind_Inr_iff: "js_bind r f = Inr b \<longleftrightarrow> (\<exists>a. r = Inr a \<and> f a = Inr b)"
  by (cases r) (simp_all add: js_bind_def)

lemma js_bind_Inl_iff: "js_bind r f = Inl e \<longleftrightarrow> r = Inl e \<or> (\<exists>a. r = Inr a \<and> f a = Inl e)"
  by (cases r) (simp_all add: js_bind_def)

lemma js_bind_assoc: "js_bind (js_bind r f) g = js_bind r (\<lambda>a. js_bind (f a) g)"
  by (cases r) simp_all

lemma js_bind_return: "js_bind r Inr = r"
  by (cases r) simp_all

section \<open>Numbers\<close>

datatype dec = Dec int nat

fun dec_mult :: "dec \<Rightarrow> dec \<Rightarrow> dec" where
  "dec_mult (Dec m k) (Dec n l) = Dec (m * n) (k + l)"

fun dec_less :: "dec \<Rightarrow> dec \<Rightarrow> bool" where
  "dec_less (Dec m k) (Dec n l) = (m * 10 ^ l < n * 10 ^ k)"

fun dec_is_0 :: "dec \<Rightarrow> bool" where
  "dec_is_0 (Dec m k) = (m = 0)"

fun digits :: "nat \<Rightarrow> string" where
  "digits n = (if n < 10 then [char_of (48 + n)] else digits (n div 10) @ [char_of (48 + n mod 10)])"

declare digits.simps [simp del]

text \<open>The last \<open>k\<close> digits of \<open>n\<close>, without trailing zeros.\<close>

fun fraction_digits :: "nat \<Rightarrow> nat \<Rightarrow> string" where
  "fraction_digits 0 n = []"
| "fraction_digits (Suc k) n =
     (if n mod 10 ^ Suc k = 0 then []
      else char_of (48 + n div 10 ^ k mod 10) # fraction_digits k n)"

fun dec_text :: "dec \<Rightarrow> string" where
  "dec_text (Dec m k) =
     (let n = nat \<bar>m\<bar>; f = fraction_digits k n in
      (if m < 0 then ''-'' else []) @ digits (n div 10 ^ k) @ (if f = [] then [] else ''.'' @ f))"

declare dec_text.simps [simp del]

section \<open>Values\<close>

datatype jsval =
    JUndef
  | JNull
  | JBool bool
  | JNum dec
  | JNaN
  | JStr string
  | JObj "(string \<times> jsval) list"

abbreviation jint :: "int \<Rightarrow> jsval" where
  "jint i \<equiv> JNum (Dec i 0)"

fun truthy_js :: "jsval \<Rightarrow> bool" where
  "truthy_js JUndef = False"
| "truthy_js JNull = False"
| "truthy_js (JBool b) = b"
| "truthy_js (JNum n) = (\<not> dec_is_0 n)"
| "truthy_js JNaN = False"
| "truthy_js (JStr s) = (s \<noteq> [])"
| "truthy_js (JObj _) = True"

text \<open>\<open>a || b\<close> and \<open>a && b\<close>, with the second operand computed only when it is needed.\<close>

definition js_or :: "jsval \<Rightarrow> jsval js \<Rightarrow> jsval js" where
  "js_or a b = (if truthy_js a then Inr a else b)"

definition js_and :: "jsval \<Rightarrow> jsval js \<Rightarrow> jsval js" where
  "js_and a b = (if truthy_js a then b else Inr a)"

text \<open>\<open>v[k]\<close> and \<open>v.k\<close>: a \<open>TypeError\<close> on undefined and null.\<close>

fun js_get :: "jsval \<Rightarrow> string \<Rightarrow> jsval js" where
  "js_get JUndef k = Inl (TypeError k)"
| "js_get JNull k = Inl (TypeError k)"
| "js_get (JObj kvs) k = Inr (case map_of kvs k of None \<Rightarrow> JUndef | Some v \<Rightarrow> v)"
| "js_get _ k = Inr JUndef"

primrec js_path :: "string list \<Rightarrow> jsval \<Rightarrow> jsval js" where
  "js_path [] v = Inr v"
| "js_path (k # ks) v = js_bind (js_get v k) (js_path ks)"

lemma js_path_Nil [simp]: "js_path [] = Inr"
  by (rule ext) simp

lemma js_path_append: "js_path (ks @ ls) v = js_bind (js_path ks v) (js_path ls)"
  by (induction ks arbitrary: v) (auto simp: js_bind_def split: sum.splits)

text \<open>String conversion, as in a template literal and as the key of a property access.\<close>

fun js_text :: "jsval \<Rightarrow> string" where
  "js_text JUndef = ''undefined''"
| "js_text JNull = ''null''"
| "js_text (JBool b) = (if b then ''true'' else ''false'')"
| "js_text (JNum n) = dec_text n"
| "js_text JNaN = ''NaN''"
| "js_text (JStr s) = s"
| "js_text (JObj _) = ''[object Object]''"

text \<open>Multiplication by a number literal. The numeric value of a string is not computed.\<close>

fun js_times :: "dec \<Rightarrow> jsval \<Rightarrow> jsval js" where
  "js_times c JUndef = Inr JNaN"
| "js_times c JNull = Inr (JNum (dec_mult c (Dec 0 0)))"
| "js_times c (JBool b) = Inr (JNum (dec_mult c (Dec (if b then 1 else 0) 0)))"
| "js_times c (JNum n) = Inr (JNum (dec_mult c n))"
| "js_times c JNaN = Inr JNaN"
| "js_times c (JStr s) = Inl (Outside_Model ''ToNumber'')"
| "js_times c (JObj _) = Inr JNaN"

text \<open>\<open>v > c\<close> for a number \<open>v\<close>; comparisons with NaN are false.\<close>

fun js_greater :: "jsval \<Rightarrow> dec \<Rightarrow> bool js" where
  "js_greater (JNum n) c = Inr (dec_less c n)"
| "js_greater JNaN c = Inr False"
| "js_greater JUndef c = Inr False"
| "js_greater _ c = Inl (Outside_Model ''comparison'')"

text \<open>\<open>v === n\<close> for an integer literal \<open>n\<close>.\<close>

fun js_is_int :: "jsval \<Rightarrow> int \<Rightarrow> bool" where
  "js_is_int (JNum (Dec m k)) n = (m = n * 10 ^ k)"
| "js_is_int v n = False"

text \<open>The string methods; on other values the method does not exist and the call throws.\<close>

fun js_endsWith :: "jsval \<Rightarrow> string \<Rightarrow> bool js" where
  "js_endsWith (JStr s) t = Inr (length t \<le> length s \<and> drop (length s - length t) s = t)"
| "js_endsWith _ t = Inl (TypeError ''endsWith'')"

definition is_digit :: "char \<Rightarrow> bool" where
  "is_digit c = ((48 :: nat) \<le> of_char c \<and> (of_char c :: nat) \<le> 57)"

definition digits_value :: "string \<Rightarrow> int" where
  "digits_value s = foldl (\<lambda>n c. 10 * n + (int (of_char c) - 48)) 0 s"

text \<open>\<open>parseInt(s, 10)\<close>: leading white space, an optional sign, the longest run of digits.\<close>

definition parse_digits :: "string \<Rightarrow> int option" where
  "parse_digits s = (let ds = takeWhile is_digit s in if ds = [] then None else Some (digits_value ds))"

definition js_parse_int :: "string \<Rightarrow> int option" where
  "js_parse_int s =
     (case dropWhile (\<lambda>c. c \<in> set [CHR '' '', CHR 0x09, CHR 0x0A, CHR 0x0D]) s of
        [] \<Rightarrow> None
      | c # cs \<Rightarrow>
          if c = CHR ''-'' then map_option uminus (parse_digits cs)
          else if c = CHR ''+'' then parse_digits cs
          else parse_digits (c # cs))"

section \<open>Facts\<close>

lemma js_or_simps [js_simps]:
  "truthy_js a \<Longrightarrow> js_or a b = Inr a"
  "\<not> truthy_js a \<Longrightarrow> js_or a b = b"
  by (simp_all add: js_or_def)

lemma js_and_simps [js_simps]:
  "truthy_js a \<Longrightarrow> js_and a b = b"
  "\<not> truthy_js a \<Longrightarrow> js_and a b = Inr a"
  by (simp_all add: js_and_def)

lemma js_get_throws: "(\<exists>e. js_get v k = Inl e) \<longleftrightarrow> v = JUndef \<or> v = JNull"
  by (cases v) simp_all

lemma js_get_ok: "v \<noteq> JUndef \<Longrightarrow> v \<noteq> JNull \<Longrightarrow> \<exists>w. js_get v k = Inr w"
  by (cases v) simp_all

text \<open>A decimal prints as digits, a sign and a point only.\<close>

definition number_char :: "char \<Rightarrow> bool" where
  "number_char c \<longleftrightarrow> is_digit c \<or> c = CHR ''-'' \<or> c = CHR ''.''"

lemma is_digit_char_of: "n < 10 \<Longrightarrow> is_digit (char_of (48 + n :: nat))"
  by (simp add: is_digit_def of_char_of)

lemma digits_are_digits: "c \<in> set (digits n) \<Longrightarrow> is_digit c"
proof (induction n rule: digits.induct)
  case (1 n)
  show ?case
  proof (cases "n < 10")
    case True
    with 1 show ?thesis by (simp add: digits.simps is_digit_char_of)
  next
    case False
    have "c \<in> set (digits (n div 10)) \<or> c = char_of (48 + n mod 10)"
      using 1(2) False by (auto simp: digits.simps [of n])
    with 1(1) [OF False] show ?thesis by (auto simp: is_digit_char_of)
  qed
qed

lemma fraction_are_digits: "c \<in> set (fraction_digits k n) \<Longrightarrow> is_digit c"
  by (induction k) (auto simp: is_digit_char_of split: if_splits)

lemma dec_text_chars: "c \<in> set (dec_text n) \<Longrightarrow> number_char c"
  by (cases n)
    (auto simp: dec_text.simps Let_def number_char_def dest: digits_are_digits fraction_are_digits split: if_splits)

lemma digits_nonempty [simp]: "digits n \<noteq> []"
  by (subst digits.simps) simp

lemma dec_text_nonempty [simp]: "dec_text n \<noteq> []"
  by (cases n) (simp add: dec_text.simps Let_def)

end
