(* ===== verification/Styled_Rules.thy ===== *)
theory Styled_Rules
  imports JS_Value
begin

text \<open>
  The tagged templates of styled-components 5.3.0, as bundled in the documentation viewer: how the
  text pieces and interpolations of a template become a list of rules (\<open>Io\<close>, \<open>Fi\<close>, and \<open>Mi\<close> without
  an execution context), and how the rules become the text of a style when a component renders with
  its props (\<open>Mi\<close> with an execution context).

  A \<open>rule\<close> is what may stand in an interpolation. \<open>Mi\<close> also injects the rules of the keyframes it
  meets; here it returns a \<open>piece\<close> that names them, and the theory of the style sheet injects the
  pieces in order.
\<close>

section \<open>Rules\<close>

datatype keyframes = Keyframes_Of (kf_name: string) (kf_rules: string)

datatype rule =
    Txt string
  | Val jsval
  | Component string
  | Animation keyframes
  | Rules "rule list"
  | Fn "jsval \<Rightarrow> js_error + rule"

datatype piece = Out string | Name keyframes

subsection \<open>Objects as rules\<close>

definition is_upper :: "char \<Rightarrow> bool" where
  "is_upper c = ((65 :: nat) \<le> of_char c \<and> (of_char c :: nat) \<le> 90)"

definition to_lower :: "char \<Rightarrow> char" where
  "to_lower c = (if is_upper c then char_of (of_char c + 32 :: nat) else c)"

definition hyphenate :: "string \<Rightarrow> string" where
  "hyphenate k =
     (if list_ex is_upper k then
        (let h = concat (map (\<lambda>c. if is_upper c then ''-'' @ [to_lower c] else [c]) k) in
         if take 3 h = ''ms-'' then ''-'' @ h else h)
      else k)"

text \<open>\<open>Li\<close>: what renders as nothing. The number 0 is not among them.\<close>

fun drops :: "jsval \<Rightarrow> bool" where
  "drops JUndef = True"
| "drops JNull = True"
| "drops (JBool b) = (\<not> b)"
| "drops (JStr s) = (s = [])"
| "drops _ = False"

definition js_space :: "char \<Rightarrow> bool" where
  "js_space c = (c \<in> set [CHR '' '', CHR 0x09, CHR 0x0A, CHR 0x0B, CHR 0x0C, CHR 0x0D])"

definition trim :: "string \<Rightarrow> string" where
  "trim s = rev (dropWhile js_space (rev (dropWhile js_space s)))"

definition unitless :: "string list" where
  "unitless =
     [''animationIterationCount'', ''borderImageOutset'', ''borderImageSlice'', ''borderImageWidth'',
      ''boxFlex'', ''boxFlexGroup'', ''boxOrdinalGroup'', ''columnCount'', ''columns'', ''flex'',
      ''flexGrow'', ''flexPositive'', ''flexShrink'', ''flexNegative'', ''flexOrder'', ''gridRow'',
      ''gridRowEnd'', ''gridRowSpan'', ''gridRowStart'', ''gridColumn'', ''gridColumnEnd'',
      ''gridColumnSpan'', ''gridColumnStart'', ''msGridRow'', ''msGridRowSpan'', ''msGridColumn'',
      ''msGridColumnSpan'', ''fontWeight'', ''lineHeight'', ''opacity'', ''order'', ''orphans'',
      ''tabSize'', ''widows'', ''zIndex'', ''zoom'', ''WebkitLineClamp'', ''fillOpacity'',
      ''floodOpacity'', ''stopOpacity'', ''strokeDasharray'', ''strokeDashoffset'',
      ''strokeMiterlimit'', ''strokeOpacity'', ''strokeWidth'']"

fun add_unit :: "string \<Rightarrow> jsval \<Rightarrow> string" where
  "add_unit k (JNum n) =
     (if dec_is_0 n \<or> k \<in> set unitless then dec_text n else dec_text n @ ''px'')"
| "add_unit k JNaN = (if k \<in> set unitless then ''NaN'' else ''NaNpx'')"
| "add_unit k (JStr s) = trim s"
| "add_unit k v = []"

function obj_css :: "(string \<times> jsval) list \<Rightarrow> string list" where
  "obj_css [] = []"
| "obj_css ((k, v) # kvs) =
     (case v of
        JObj inner \<Rightarrow> if k = [] then obj_css inner else [k @ '' {''] @ obj_css inner @ [''}'']
      | _ \<Rightarrow> if drops v then [] else [hyphenate k @ '': '' @ add_unit k v @ '';''])
     @ obj_css kvs"
  by pat_completeness auto
termination
  by (relation "measure (\<lambda>kvs. size (JObj kvs))") auto

section \<open>Flattening\<close>

text \<open>The rendering of a single value, \<open>e.toString()\<close> for what is neither dropped nor an object.\<close>

fun value_css :: "jsval \<Rightarrow> string list" where
  "value_css (JObj kvs) = obj_css kvs"
| "value_css v = (if drops v then [] else [js_text v])"

text \<open>\<open>Mi(e)\<close>: when the template is evaluated, functions and keyframes are kept.\<close>

primrec flatten_static :: "rule \<Rightarrow> rule list" where
  "flatten_static (Txt s) = (if s = [] then [] else [Txt s])"
| "flatten_static (Val v) = map Txt (value_css v)"
| "flatten_static (Component i) = [Txt (''.'' @ i)]"
| "flatten_static (Animation k) = [Animation k]"
| "flatten_static (Rules rs) = concat (map flatten_static rs)"
| "flatten_static (Fn f) = [Fn f]"

text \<open>Results of computations that may throw, concatenated from the left.\<close>

primrec js_concat :: "'a list js list \<Rightarrow> 'a list js" where
  "js_concat [] = Inr []"
| "js_concat (r # rs) = js_bind r (\<lambda>xs. js_bind (js_concat rs) (\<lambda>ys. Inr (xs @ ys)))"

text \<open>
  \<open>Mi(e, props, sheet)\<close>: when the component renders, functions are called with the props until
  something else comes out.
\<close>

primrec flatten :: "rule \<Rightarrow> jsval \<Rightarrow> piece list js" where
  "flatten (Txt s) = (\<lambda>p. Inr (if s = [] then [] else [Out s]))"
| "flatten (Val v) = (\<lambda>p. Inr (map Out (value_css v)))"
| "flatten (Component i) = (\<lambda>p. Inr [Out (''.'' @ i)])"
| "flatten (Animation k) = (\<lambda>p. Inr [Name k])"
| "flatten (Rules rs) = (\<lambda>p. js_concat (map (\<lambda>g. g p) (map flatten rs)))"
| "flatten (Fn f) =
     (\<lambda>p. case map_sum (\<lambda>e. e) flatten (f p) of Inl e \<Rightarrow> Inl e | Inr g \<Rightarrow> g p)"

definition render :: "rule list \<Rightarrow> jsval \<Rightarrow> piece list js" where
  "render rs p = js_concat (map (\<lambda>r. flatten r p) rs)"

fun piece_text :: "piece \<Rightarrow> string" where
  "piece_text (Out s) = s"
| "piece_text (Name k) = kf_name k"

definition css_text :: "rule list \<Rightarrow> jsval \<Rightarrow> string js" where
  "css_text rs p = js_bind (render rs p) (\<lambda>ps. Inr (concat (map piece_text ps)))"

section \<open>Templates\<close>

text \<open>\<open>Io\<close>: the strings and the interpolations of a template, alternately.\<close>

fun interleave :: "string list \<Rightarrow> rule list \<Rightarrow> rule list" where
  "interleave (s # ss) (v # vs) = Txt s # v # interleave ss vs"
| "interleave (s # ss) [] = [Txt s]"
| "interleave [] vs = []"

text \<open>\<open>Fi\<close>, the \<open>css\<close> tag.\<close>

definition css_tag :: "string list \<Rightarrow> rule list \<Rightarrow> rule list" where
  "css_tag ss vs =
     (if vs = [] \<and> length ss = 1 then [Txt (hd ss)] else flatten_static (Rules (interleave ss vs)))"

text \<open>
  A template literal as it is written: text, line by line, and interpolations. Its strings and its
  interpolations are what JavaScript passes to the tag.
\<close>

abbreviation quotes :: string where
  "quotes \<equiv> [CHR 0x27, CHR 0x27]"

datatype part = S "string list" | I rule

primrec join_lines :: "string list \<Rightarrow> string" where
  "join_lines [] = []"
| "join_lines (l # ls) = (if ls = [] then l else l @ CHR 0x0A # join_lines ls)"

declare join_lines.simps [simp del]

fun template_strings :: "part list \<Rightarrow> string list" where
  "template_strings [] = [[]]"
| "template_strings (S ls # ps) =
     (case template_strings ps of s # ss \<Rightarrow> (join_lines ls @ s) # ss | [] \<Rightarrow> [join_lines ls])"
| "template_strings (I v # ps) = [] # template_strings ps"

fun template_values :: "part list \<Rightarrow> rule list" where
  "template_values [] = []"
| "template_values (S ls # ps) = template_values ps"
| "template_values (I v # ps) = v # template_values ps"

definition css :: "part list \<Rightarrow> rule list" where
  "css ps = css_tag (template_strings ps) (template_values ps)"

text \<open>\<open>yi\<close>: a style without functions is the same for all props.\<close>

fun is_Fn :: "rule \<Rightarrow> bool" where
  "is_Fn (Fn f) = True"
| "is_Fn _ = False"

definition is_static :: "rule list \<Rightarrow> bool" where
  "is_static rs = list_all (\<lambda>r. \<not> is_Fn r) rs"

text \<open>\<open>keyframes\<close> (\<open>oa\<close>), with the hash that names them as an argument.\<close>

definition keyframes_tag :: "(string \<Rightarrow> string) \<Rightarrow> part list \<Rightarrow> keyframes" where
  "keyframes_tag hash ps =
     (let body = concat (map (\<lambda>r. case r of Txt s \<Rightarrow> s | _ \<Rightarrow> []) (css ps)) in
      Keyframes_Of (hash body) body)"

section \<open>Two phases and one\<close>

lemma js_concat_append:
  "js_concat (rs @ ss) = js_bind (js_concat rs) (\<lambda>xs. js_bind (js_concat ss) (\<lambda>ys. Inr (xs @ ys)))"
  by (induction rs) (auto simp: js_bind_def split: sum.splits)

lemma render_simps [simp]:
  "render [] p = Inr []"
  "render (r # rs) p = js_bind (flatten r p) (\<lambda>xs. js_bind (render rs p) (\<lambda>ys. Inr (xs @ ys)))"
  by (simp_all add: render_def)

lemma render_append:
  "render (rs @ ss) p = js_bind (render rs p) (\<lambda>xs. js_bind (render ss p) (\<lambda>ys. Inr (xs @ ys)))"
  by (simp add: render_def js_concat_append)

lemma flatten_Rules: "flatten (Rules rs) p = render rs p"
  by (simp add: render_def comp_def)

lemma flatten_Fn: "flatten (Fn f) p = js_bind (f p) (\<lambda>r. flatten r p)"
  by (cases "f p") simp_all

declare flatten.simps(5, 6) [simp del]
declare flatten_Rules [simp] flatten_Fn [simp]

lemma value_css_nonempty_aux: "s \<in> set (obj_css kvs) \<Longrightarrow> s \<noteq> []"
  by (induction kvs rule: obj_css.induct) (auto split: jsval.splits if_splits)

lemma js_text_nonempty: "\<not> drops v \<Longrightarrow> js_text v \<noteq> []"
  by (cases v) simp_all

lemma value_css_nonempty: "s \<in> set (value_css v) \<Longrightarrow> s \<noteq> []"
  by (cases v) (auto simp: value_css_nonempty_aux split: if_splits)

lemma render_Txt: "(\<forall>s \<in> set ss. s \<noteq> []) \<Longrightarrow> render (map Txt ss) p = Inr (map Out ss)"
  by (induction ss) simp_all

text \<open>Dropping the empty pieces when the template is evaluated changes nothing when it renders.\<close>

lemma render_flatten_static: "render (flatten_static r) p = flatten r p"
proof (induction r)
  case (Val v)
  then show ?case using value_css_nonempty by (simp add: render_Txt)
next
  case (Rules rs)
  then show ?case by (induction rs) (simp_all add: render_append)
qed (simp_all add: js_bind_return)

lemma render_css_tag: "length ss = Suc (length vs) \<Longrightarrow> render (css_tag ss vs) p = render (interleave ss vs) p"
proof (cases "vs = [] \<and> length ss = 1")
  case True
  then show ?thesis by (auto simp: css_tag_def length_Suc_conv)
next
  case False
  then show ?thesis
    using render_flatten_static [of "Rules (interleave ss vs)" p] by (auto simp: css_tag_def)
qed

subsection \<open>The text of a template\<close>

lemma css_text_Nil [simp]: "css_text [] p = Inr []"
  by (simp add: css_text_def)

lemma css_text_append:
  "css_text (rs @ ss) p = js_bind (css_text rs p) (\<lambda>s. js_bind (css_text ss p) (\<lambda>t. Inr (s @ t)))"
  by (auto simp: css_text_def render_append js_bind_def split: sum.splits)

lemma css_text_Cons:
  "css_text (r # rs) p = js_bind (css_text [r] p) (\<lambda>s. js_bind (css_text rs p) (\<lambda>t. Inr (s @ t)))"
  using css_text_append [of "[r]" rs p] by simp

lemma css_text_single [simp]:
  "css_text [Txt s] p = Inr s"
  "css_text [Component i] p = Inr (''.'' @ i)"
  "css_text [Animation k] p = Inr (kf_name k)"
  "css_text [Rules rs] p = css_text rs p"
  "css_text [Fn f] p = js_bind (f p) (\<lambda>r. css_text [r] p)"
  "css_text [Val v] p = Inr (concat (value_css v))"
  by (auto simp: css_text_def js_bind_def comp_def split: sum.splits)

lemma css_text_Txt [simp]:
  "css_text (Txt s # rs) p = js_bind (css_text rs p) (\<lambda>t. Inr (s @ t))"
  using css_text_Cons [of "Txt s" rs p] by simp

lemma template_strings_length: "length (template_strings ps) = Suc (length (template_values ps))"
  by (induction ps rule: template_strings.induct) (auto split: list.splits)

lemma template_strings_Cons: "\<exists>s ss. template_strings ps = s # ss"
  using template_strings_length [of ps] by (cases "template_strings ps") simp_all

definition part_rule :: "part \<Rightarrow> rule" where
  "part_rule p = (case p of S ls \<Rightarrow> Txt (join_lines ls) | I v \<Rightarrow> v)"

lemma part_rule_simps [simp]:
  "part_rule (S ls) = Txt (join_lines ls)"
  "part_rule (I v) = v"
  by (simp_all add: part_rule_def)

lemma css_text_interleave:
  "css_text (interleave (template_strings ps) (template_values ps)) p = css_text (map part_rule ps) p"
proof (induction ps)
  case Nil
  then show ?case by simp
next
  case (Cons a ps)
  obtain s ss where ss: "template_strings ps = s # ss"
    using template_strings_Cons by blast
  show ?case
  proof (cases a)
    case (S ls)
    have "css_text (interleave ((join_lines ls @ s) # ss) vs) p =
        js_bind (css_text (interleave (s # ss) vs) p) (\<lambda>t. Inr (join_lines ls @ t))" for vs
      by (cases vs) (simp_all add: js_bind_assoc)
    with S ss Cons show ?thesis by simp
  next
    case (I v)
    have "css_text (interleave (template_strings (a # ps)) (template_values (a # ps))) p =
        css_text (v # interleave (s # ss) (template_values ps)) p"
      using I ss by (simp add: js_bind_return)
    also have "\<dots> = css_text (map part_rule (a # ps)) p"
      using I ss Cons by (simp add: css_text_Cons [of v "interleave _ _"] css_text_Cons [of v "map _ _"])
    finally show ?thesis .
  qed
qed

theorem css_text_css: "css_text (css ps) p = css_text (map part_rule ps) p"
  using render_css_tag [OF template_strings_length, of ps p] css_text_interleave [of ps p]
  by (simp add: css_def css_text_def)

text \<open>The text of consecutive rules is a part of the text of the whole.\<close>

lemma css_text_part:
  assumes "css_text rs p = Inr s" and "take (length part) (drop n rs) = part"
  shows "\<exists>u v w. css_text part p = Inr w \<and> s = u @ w @ v"
proof -
  have "rs = take n rs @ part @ drop (length part) (drop n rs)"
    using assms(2) by (metis append_take_drop_id)
  with assms(1) have "css_text (take n rs @ part @ drop (length part) (drop n rs)) p = Inr s" by simp
  then show ?thesis
    unfolding css_text_append by (auto simp: js_bind_Inr_iff)
qed

end
