(* ===== verification/Css_Braces.thy ===== *)
theory Css_Braces
  imports Styled_Rules
begin

text \<open>
  The nesting of braces in the text of a style. The CSS parser of the viewer opens a block at a
  brace and closes it at the matching one, so a text with a stray brace loses the declarations that
  follow it. \<open>scan s d\<close> reads \<open>s\<close> at nesting depth \<open>d\<close> and returns the depth at its end, or
  nothing when a brace closes more than was opened. \<open>renders p d rs e\<close> says that the rules render
  with the props \<open>p\<close> to a text that leads from depth \<open>d\<close> to depth \<open>e\<close>, without an exception.
\<close>

section \<open>Scanning text\<close>

fun scan :: "string \<Rightarrow> nat \<Rightarrow> nat option" where
  "scan [] d = Some d"
| "scan (c # cs) d =
     (if c = CHR ''{'' then scan cs (Suc d)
      else if c = CHR ''}'' then (case d of 0 \<Rightarrow> None | Suc e \<Rightarrow> scan cs e)
      else scan cs d)"

definition balanced :: "string \<Rightarrow> bool" where
  "balanced s \<longleftrightarrow> scan s 0 = Some 0"

definition no_braces :: "string \<Rightarrow> bool" where
  "no_braces s \<longleftrightarrow> (\<forall>c \<in> set s. c \<noteq> CHR ''{'' \<and> c \<noteq> CHR ''}'')"

lemma scan_append: "scan (s @ t) d = (case scan s d of None \<Rightarrow> None | Some e \<Rightarrow> scan t e)"
  by (induction s d rule: scan.induct) (auto split: nat.splits option.splits)

lemma scan_no_braces: "no_braces s \<Longrightarrow> scan s d = Some d"
  by (induction s) (simp_all add: no_braces_def)

lemma scan_add: "scan s d = Some e \<Longrightarrow> scan s (d + k) = Some (e + k)"
  by (induction s d arbitrary: e rule: scan.induct) (auto split: if_splits nat.splits)

lemma balanced_scan: "balanced s \<Longrightarrow> scan s d = Some d"
  using scan_add [of s 0 0 d] by (simp add: balanced_def)

text \<open>The depth counts the braces read.\<close>

lemma scan_count:
  "scan s d = Some e \<Longrightarrow> d + count_list s (CHR ''{'') = e + count_list s (CHR ''}'')"
  by (induction s d arbitrary: e rule: scan.induct) (auto split: if_splits nat.splits)

primrec scan_lines :: "string list \<Rightarrow> nat \<Rightarrow> nat option" where
  "scan_lines [] d = Some d"
| "scan_lines (l # ls) d = (case scan l d of None \<Rightarrow> None | Some e \<Rightarrow> scan_lines ls e)"

lemma scan_join_lines: "scan (join_lines ls) d = scan_lines ls d"
  by (induction ls arbitrary: d) (auto simp: join_lines.simps scan_append split: option.splits)

lemma no_braces_simps [simp]:
  "no_braces []"
  "no_braces (c # s) \<longleftrightarrow> c \<noteq> CHR ''{'' \<and> c \<noteq> CHR ''}'' \<and> no_braces s"
  by (auto simp: no_braces_def)

lemma no_braces_append [simp]: "no_braces (s @ t) \<longleftrightarrow> no_braces s \<and> no_braces t"
  by (auto simp: no_braces_def)

section \<open>Values without braces\<close>

fun leaf :: "jsval \<Rightarrow> bool" where
  "leaf (JStr s) = no_braces s"
| "leaf (JObj kvs) = False"
| "leaf v = True"

lemma number_char_no_brace: "number_char c \<Longrightarrow> c \<noteq> CHR ''{'' \<and> c \<noteq> CHR ''}''"
  by (auto simp: number_char_def is_digit_def)

lemma no_braces_dec_text [simp]: "no_braces (dec_text n)"
  unfolding no_braces_def by (blast dest: dec_text_chars number_char_no_brace)

lemma leaf_text [simp]: "leaf v \<Longrightarrow> no_braces (js_text v)"
  by (cases v) auto

lemma leaf_value_css: "leaf v \<Longrightarrow> no_braces (concat (value_css v))"
  by (cases v) auto

section \<open>Rendering\<close>

definition renders :: "jsval \<Rightarrow> nat \<Rightarrow> rule list \<Rightarrow> nat \<Rightarrow> bool" where
  "renders p d rs e \<longleftrightarrow> (\<exists>s. css_text rs p = Inr s \<and> scan s d = Some e)"

definition neutral :: "jsval \<Rightarrow> rule \<Rightarrow> bool" where
  "neutral p r \<longleftrightarrow> (\<exists>s. css_text [r] p = Inr s \<and> balanced s)"

lemma renders_Nil [simp]: "renders p d [] e \<longleftrightarrow> d = e"
  by (simp add: renders_def)

lemma renders_Txt [simp]:
  "renders p d (Txt s # rs) e \<longleftrightarrow> (case scan s d of None \<Rightarrow> False | Some d' \<Rightarrow> renders p d' rs e)"
  by (auto simp: renders_def js_bind_Inr_iff scan_append split: option.splits)

lemma renders_neutral: "neutral p r \<Longrightarrow> renders p d (r # rs) e \<longleftrightarrow> renders p d rs e"
  unfolding renders_def neutral_def
  by (subst css_text_Cons) (auto simp: js_bind_Inr_iff scan_append balanced_scan)

lemma renders_css: "renders p d (css ps) e \<longleftrightarrow> renders p d (map part_rule ps) e"
  by (simp add: renders_def css_text_css)

lemma neutral_Rules: "neutral p (Rules rs) \<longleftrightarrow> renders p 0 rs 0"
  by (simp add: neutral_def renders_def balanced_def)

lemma neutral_RulesI: "renders p 0 rs 0 \<Longrightarrow> neutral p (Rules rs)"
  by (simp add: neutral_Rules)

lemma neutral_css: "neutral p (Rules (css ps)) \<longleftrightarrow> renders p 0 (map part_rule ps) 0"
  by (simp add: neutral_Rules renders_css)

lemma neutral_Val: "leaf v \<Longrightarrow> neutral p (Val v)"
  using leaf_value_css by (simp add: neutral_def balanced_def scan_no_braces)

lemma neutral_Component: "no_braces i \<Longrightarrow> neutral p (Component i)"
  by (simp add: neutral_def balanced_def scan_no_braces)

lemma neutral_Animation: "no_braces (kf_name k) \<Longrightarrow> neutral p (Animation k)"
  by (simp add: neutral_def balanced_def scan_no_braces)

lemma neutral_Fn: "f p = Inr r \<Longrightarrow> neutral p r \<Longrightarrow> neutral p (Fn f)"
  by (simp add: neutral_def)

text \<open>A style that renders from depth 0 to depth 0 is a balanced text.\<close>

lemma renders_balanced: "renders p 0 rs 0 \<longleftrightarrow> (\<exists>s. css_text rs p = Inr s \<and> balanced s)"
  by (simp add: renders_def balanced_def)

section \<open>Stray braces\<close>

text \<open>The text closes a block that it did not open.\<close>

definition stray :: "jsval \<Rightarrow> nat \<Rightarrow> rule list \<Rightarrow> bool" where
  "stray p d rs \<longleftrightarrow> (\<exists>s. css_text rs p = Inr s \<and> scan s d = None)"

definition computes :: "jsval \<Rightarrow> rule list \<Rightarrow> bool" where
  "computes p rs \<longleftrightarrow> (\<exists>s. css_text rs p = Inr s)"

lemma computes_simps:
  "computes p []"
  "computes p (Txt s # rs) \<longleftrightarrow> computes p rs"
  "neutral p r \<Longrightarrow> computes p (r # rs) \<longleftrightarrow> computes p rs"
  by (simp_all add: computes_def js_bind_Inr_iff)
    (subst css_text_Cons, auto simp: neutral_def js_bind_Inr_iff)

lemma stray_simps:
  "stray p d (Txt s # rs) \<longleftrightarrow>
     (case scan s d of None \<Rightarrow> computes p rs | Some e \<Rightarrow> stray p e rs)"
  "neutral p r \<Longrightarrow> stray p d (r # rs) \<longleftrightarrow> stray p d rs"
  unfolding stray_def computes_def neutral_def
   apply (auto simp: js_bind_Inr_iff scan_append split: option.splits)[1]
  by (subst css_text_Cons) (auto simp: js_bind_Inr_iff scan_append balanced_scan)

lemma stray_css: "stray p d (css ps) \<longleftrightarrow> stray p d (map part_rule ps)"
  by (simp add: stray_def css_text_css)

lemma stray_not_balanced: "stray p 0 rs \<Longrightarrow> \<exists>s. css_text rs p = Inr s \<and> \<not> balanced s"
  by (auto simp: stray_def balanced_def)

end
