(* ===== verification/Style_Helpers.thy ===== *)
theory Style_Helpers
  imports Css_Braces
begin

text \<open>
  The helpers from which the viewer builds its styles: the arrow functions that read the theme or a
  prop, the \<open>media\<close> helper (\<open>ma\<close>), the extension hook (\<open>ya\<close>), and what a style needs from the
  theme to render (\<open>usable\<close>).

  The colour functions of the polished library (\<open>Rr\<close>, \<open>Dr\<close>, \<open>Ur\<close>, \<open>Tr\<close>, \<open>Fr\<close>, \<open>Ir\<close>), which compute on
  floating-point numbers, the hook that the embedding page may install and the ids that
  styled-components generates for its components are the fields of a record \<open>viewer\<close>.
\<close>

named_theorems style_simps \<open>rendering of the parts of a template\<close>

record viewer =
  colour :: "string \<Rightarrow> bool"
  darken :: "jsval \<Rightarrow> jsval \<Rightarrow> jsval js"
  lighten :: "jsval \<Rightarrow> jsval \<Rightarrow> jsval js"
  transparentize :: "jsval \<Rightarrow> jsval \<Rightarrow> jsval js"
  desaturate :: "jsval \<Rightarrow> jsval \<Rightarrow> jsval js"
  readable_colour :: "jsval \<Rightarrow> jsval js"
  luminance :: "jsval \<Rightarrow> jsval js"
  extensions_hook :: "(string \<Rightarrow> jsval \<Rightarrow> jsval js) option"
  class_id :: "string \<Rightarrow> string"

section \<open>Arrow functions\<close>

definition theme_path :: "string list \<Rightarrow> jsval \<Rightarrow> jsval js" where
  "theme_path ks p = js_path (''theme'' # ks) p"

abbreviation arrow :: "(jsval \<Rightarrow> jsval js) \<Rightarrow> rule" where
  "arrow f \<equiv> Fn (\<lambda>p. js_bind (f p) (\<lambda>v. Inr (Val v)))"

text \<open>\<open>e => e.theme.a.b\<close> and \<open>({theme: e}) => e.a.b\<close>\<close>

definition theme_at :: "string list \<Rightarrow> rule" where
  "theme_at ks = arrow (theme_path ks)"

text \<open>\<open>e => c * e.theme.a.b\<close>\<close>

definition path_times :: "int \<Rightarrow> string list \<Rightarrow> jsval \<Rightarrow> jsval js" where
  "path_times c ks p = js_bind (theme_path ks p) (js_times (Dec c 0))"

definition theme_times :: "int \<Rightarrow> string list \<Rightarrow> rule" where
  "theme_times c ks = arrow (path_times c ks)"

text \<open>\<open>({theme: e}) => f(c, e.a.b)\<close> and \<open>({theme: e}) => f(e.c.d, e.a.b)\<close> for a colour function \<open>f\<close>\<close>

definition path_colour ::
  "(jsval \<Rightarrow> jsval \<Rightarrow> jsval js) \<Rightarrow> dec \<Rightarrow> string list \<Rightarrow> jsval \<Rightarrow> jsval js" where
  "path_colour f c ks p = js_bind (theme_path ks p) (f (JNum c))"

definition theme_colour :: "(jsval \<Rightarrow> jsval \<Rightarrow> jsval js) \<Rightarrow> dec \<Rightarrow> string list \<Rightarrow> rule" where
  "theme_colour f c ks = arrow (path_colour f c ks)"

definition theme_colour_by ::
  "(jsval \<Rightarrow> jsval \<Rightarrow> jsval js) \<Rightarrow> string list \<Rightarrow> string list \<Rightarrow> rule" where
  "theme_colour_by f cs ks =
     arrow (\<lambda>p. js_bind (theme_path cs p) (\<lambda>c. js_bind (theme_path ks p) (f c)))"

text \<open>\<open>e => e.theme.a.b ? s : t\<close>\<close>

definition path_if :: "string list \<Rightarrow> string \<Rightarrow> string \<Rightarrow> jsval \<Rightarrow> jsval js" where
  "path_if ks s t p = js_bind (theme_path ks p) (\<lambda>v. Inr (JStr (if truthy_js v then s else t)))"

definition theme_if :: "string list \<Rightarrow> string \<Rightarrow> string \<Rightarrow> rule" where
  "theme_if ks s t = arrow (path_if ks s t)"

text \<open>\<open>e => e.k\<close>, \<open>e => e.k || s\<close>, \<open>e => e.k ? s : t\<close> and \<open>({k: e}) => e && s\<close>\<close>

definition prop_at :: "string \<Rightarrow> rule" where
  "prop_at k = arrow (\<lambda>p. js_get p k)"

definition prop_or :: "string \<Rightarrow> string \<Rightarrow> rule" where
  "prop_or k s = arrow (\<lambda>p. js_bind (js_get p k) (\<lambda>v. js_or v (Inr (JStr s))))"

definition prop_if :: "string \<Rightarrow> string \<Rightarrow> string \<Rightarrow> rule" where
  "prop_if k s t =
     arrow (\<lambda>p. js_bind (js_get p k) (\<lambda>v. Inr (JStr (if truthy_js v then s else t))))"

definition prop_and :: "string \<Rightarrow> string \<Rightarrow> rule" where
  "prop_and k s = arrow (\<lambda>p. js_bind (js_get p k) (\<lambda>v. js_and v (Inr (JStr s))))"

text \<open>\<open>e => s === e.k && t\<close> and \<open>e => !e.k && s\<close>\<close>

definition prop_is :: "string \<Rightarrow> string \<Rightarrow> string \<Rightarrow> rule" where
  "prop_is k s t =
     arrow (\<lambda>p. js_bind (js_get p k) (\<lambda>v. Inr (if v = JStr s then JStr t else JBool False)))"

definition prop_not_and :: "string \<Rightarrow> string \<Rightarrow> rule" where
  "prop_not_and k s =
     arrow (\<lambda>p. js_bind (js_get p k) (\<lambda>v. Inr (if truthy_js v then JBool False else JStr s)))"

text \<open>\<open>e => e.theme.a.b[e.k].c\<close>\<close>

definition theme_index :: "string list \<Rightarrow> string \<Rightarrow> string list \<Rightarrow> rule" where
  "theme_index ks k ls =
     arrow (\<lambda>p. js_bind (theme_path ks p) (\<lambda>v. js_bind (js_get p k) (\<lambda>i. js_path (js_text i # ls) v)))"

text \<open>\<open>e => e.k ? s : e.theme.a.b\<close> and \<open>e => e.k ? e.theme.a.b : s\<close>\<close>

definition prop_else_theme :: "string \<Rightarrow> string \<Rightarrow> string list \<Rightarrow> rule" where
  "prop_else_theme k s ks =
     arrow (\<lambda>p. js_bind (js_get p k) (\<lambda>v. if truthy_js v then Inr (JStr s) else theme_path ks p))"

definition prop_then_theme :: "string \<Rightarrow> string list \<Rightarrow> string \<Rightarrow> rule" where
  "prop_then_theme k ks s =
     arrow (\<lambda>p. js_bind (js_get p k) (\<lambda>v. if truthy_js v then theme_path ks p else Inr (JStr s)))"

text \<open>\<open>({k: e}) => e && R || ""\<close> and \<open>({k: e}) => s === e && R\<close> for rules \<open>R\<close>\<close>

definition prop_rules :: "string \<Rightarrow> rule list \<Rightarrow> rule" where
  "prop_rules k rs =
     Fn (\<lambda>p. js_bind (js_get p k) (\<lambda>v. Inr (if truthy_js v then Rules rs else Val (JStr []))))"

definition prop_is_rules :: "string \<Rightarrow> string \<Rightarrow> rule list \<Rightarrow> rule" where
  "prop_is_rules k s rs =
     Fn (\<lambda>p. js_bind (js_get p k) (\<lambda>v. Inr (if v = JStr s then Rules rs else Val (JBool False))))"

text \<open>
  A template literal inside an arrow function converts each value to a string and yields a string.
\<close>

datatype item = L "string list" | E "jsval \<Rightarrow> jsval js"

fun item_text :: "item \<Rightarrow> jsval \<Rightarrow> string js" where
  "item_text (L ls) p = Inr (join_lines ls)"
| "item_text (E f) p = js_bind (f p) (\<lambda>v. Inr (js_text v))"

definition literal :: "item list \<Rightarrow> jsval \<Rightarrow> jsval js" where
  "literal is p = js_bind (js_concat (map (\<lambda>i. item_text i p) is)) (\<lambda>s. Inr (JStr s))"

text \<open>\<open>e => e.k ? `...` : `...`\<close> and \<open>e => e.k && `...`\<close>\<close>

definition prop_literals :: "string \<Rightarrow> item list \<Rightarrow> item list \<Rightarrow> rule" where
  "prop_literals k a b =
     arrow (\<lambda>p. js_bind (js_get p k) (\<lambda>v. if truthy_js v then literal a p else literal b p))"

definition prop_and_literal :: "string \<Rightarrow> item list \<Rightarrow> rule" where
  "prop_and_literal k a = arrow (\<lambda>p. js_bind (js_get p k) (\<lambda>v. js_and v (literal a p)))"

section \<open>Helpers of the viewer\<close>

text \<open>\<open>ma\<close>: a template inside a media query for a breakpoint of the theme.\<close>

definition media :: "string \<Rightarrow> bool \<Rightarrow> string \<Rightarrow> part list \<Rightarrow> rule list" where
  "media bp print extra ps =
     css
       [S ['''', ''      @media ''], I (Val (JStr (if print then ''print, '' else ''''))),
        S ['' screen and (max-width: ''], I (theme_at [''breakpoints'', bp]), S ['') ''],
        I (Val (JStr extra)), S ['' {'', ''        ''], I (Rules (css ps)),
        S ['';'', ''      }'', ''    '']]"

text \<open>\<open>ya\<close>: what the hook of the theme contributes, if there is one.\<close>

definition extension :: "viewer \<Rightarrow> string \<Rightarrow> rule" where
  "extension V name =
     Fn (\<lambda>p. js_bind (theme_path [''extensionsHook''] p) (\<lambda>_.
       case extensions_hook V of
         None \<Rightarrow> Inr (Val JUndef)
       | Some hook \<Rightarrow> js_bind (hook name p) (\<lambda>v. Inr (Val v))))"

section \<open>What a style reads from the theme\<close>

definition theme_leaves :: "string list list" where
  "theme_leaves =
     [[''breakpoints'', ''small''], [''breakpoints'', ''medium''], [''breakpoints'', ''large''],
      [''colors'', ''primary'', ''contrastText''], [''colors'', ''success'', ''main''],
      [''colors'', ''success'', ''contrastText''], [''colors'', ''warning'', ''contrastText''],
      [''colors'', ''error'', ''main''], [''colors'', ''error'', ''contrastText''],
      [''colors'', ''responses'', ''success'', ''color''],
      [''colors'', ''responses'', ''success'', ''backgroundColor''],
      [''colors'', ''responses'', ''error'', ''color''],
      [''colors'', ''responses'', ''error'', ''backgroundColor''],
      [''colors'', ''responses'', ''redirect'', ''color''],
      [''colors'', ''responses'', ''redirect'', ''backgroundColor''],
      [''colors'', ''responses'', ''info'', ''color''],
      [''colors'', ''responses'', ''info'', ''backgroundColor''],
      [''codeBlock'', ''backgroundColor''], [''colors'', ''border'', ''dark''],
      [''colors'', ''gray'', ''100''], [''colors'', ''gray'', ''50''],
      [''colors'', ''http'', ''basic''], [''colors'', ''http'', ''delete''],
      [''colors'', ''http'', ''get''], [''colors'', ''http'', ''head''],
      [''colors'', ''http'', ''link''], [''colors'', ''http'', ''options''],
      [''colors'', ''http'', ''patch''], [''colors'', ''http'', ''post''],
      [''colors'', ''http'', ''put''], [''colors'', ''primary'', ''light''],
      [''colors'', ''primary'', ''main''],
      [''colors'', ''responses'', ''error'', ''tabTextColor''],
      [''colors'', ''responses'', ''info'', ''tabTextColor''],
      [''colors'', ''responses'', ''redirect'', ''tabTextColor''],
      [''colors'', ''responses'', ''success'', ''tabTextColor''],
      [''colors'', ''text'', ''primary''], [''colors'', ''text'', ''secondary''],
      [''colors'', ''tonalOffset''], [''colors'', ''warning'', ''main''],
      [''fab'', ''backgroundColor''], [''fab'', ''color''], [''logo'', ''gutter''],
      [''logo'', ''maxHeight''], [''logo'', ''maxWidth''], [''rightPanel'', ''backgroundColor''],
      [''rightPanel'', ''servers'', ''overlay'', ''backgroundColor''],
      [''rightPanel'', ''servers'', ''overlay'', ''textColor''],
      [''rightPanel'', ''servers'', ''url'', ''backgroundColor''], [''rightPanel'', ''textColor''],
      [''rightPanel'', ''width''], [''schema'', ''arrow'', ''color''],
      [''schema'', ''arrow'', ''size''], [''schema'', ''defaultDetailsWidth''],
      [''schema'', ''labelsTextSize''], [''schema'', ''linesColor''],
      [''schema'', ''nestedBackground''], [''schema'', ''nestingSpacing''],
      [''schema'', ''requireLabelColor''], [''schema'', ''typeNameColor''],
      [''schema'', ''typeTitleColor''], [''sidebar'', ''arrow'', ''color''],
      [''sidebar'', ''arrow'', ''size''], [''sidebar'', ''backgroundColor''],
      [''sidebar'', ''groupItems'', ''activeBackgroundColor''],
      [''sidebar'', ''groupItems'', ''activeTextColor''],
      [''sidebar'', ''groupItems'', ''textTransform''],
      [''sidebar'', ''level1Items'', ''activeBackgroundColor''],
      [''sidebar'', ''level1Items'', ''activeTextColor''],
      [''sidebar'', ''level1Items'', ''textTransform''], [''sidebar'', ''textColor''],
      [''sidebar'', ''width''], [''spacing'', ''sectionHorizontal''],
      [''spacing'', ''sectionVertical''], [''spacing'', ''unit''],
      [''typography'', ''code'', ''backgroundColor''], [''typography'', ''code'', ''color''],
      [''typography'', ''code'', ''fontFamily''], [''typography'', ''code'', ''fontSize''],
      [''typography'', ''code'', ''fontWeight''], [''typography'', ''code'', ''wrap''],
      [''typography'', ''fontFamily''], [''typography'', ''fontSize''],
      [''typography'', ''fontWeightBold''], [''typography'', ''fontWeightRegular''],
      [''typography'', ''headings'', ''fontFamily''],
      [''typography'', ''headings'', ''fontWeight''],
      [''typography'', ''headings'', ''lineHeight''], [''typography'', ''lineHeight''],
      [''typography'', ''links'', ''color''], [''typography'', ''links'', ''hover''],
      [''typography'', ''links'', ''hoverTextDecoration''],
      [''typography'', ''links'', ''textDecoration''], [''typography'', ''links'', ''visited''],
      [''typography'', ''optimizeSpeed''], [''typography'', ''smoothing'']]"

definition theme_colours :: "string list list" where
  "theme_colours =
     [[''codeBlock'', ''backgroundColor''], [''colors'', ''gray'', ''100''],
      [''colors'', ''primary'', ''light''], [''colors'', ''primary'', ''main''],
      [''colors'', ''text'', ''primary''], [''rightPanel'', ''backgroundColor''],
      [''rightPanel'', ''textColor''], [''schema'', ''typeNameColor''],
      [''sidebar'', ''backgroundColor'']]"

text \<open>
  Every value a style reads is there and contains no brace, the values given to the colour
  functions are colours, \<open>spacing.unit\<close> and \<open>colors.tonalOffset\<close> are numbers and
  \<open>rightPanel.width\<close> is a string.
\<close>

definition themed :: "viewer \<Rightarrow> jsval \<Rightarrow> bool" where
  "themed V p \<longleftrightarrow>
     list_all (\<lambda>ks. \<exists>v. theme_path ks p = Inr v \<and> leaf v) theme_leaves \<and>
     list_all (\<lambda>ks. \<exists>s. theme_path ks p = Inr (JStr s) \<and> colour V s) theme_colours \<and>
     (\<exists>n. theme_path [''spacing'', ''unit''] p = Inr (JNum n)) \<and>
     (\<exists>n. theme_path [''colors'', ''tonalOffset''] p = Inr (JNum n)) \<and>
     (\<exists>s. theme_path [''rightPanel'', ''width''] p = Inr (JStr s))"

text \<open>
  The documented behaviour of the colour functions: an amount and a colour give a colour, written
  without braces. The hook returns a value without braces, and class ids contain none.
\<close>

definition colour_ok :: "viewer \<Rightarrow> (jsval \<Rightarrow> jsval \<Rightarrow> jsval js) \<Rightarrow> bool" where
  "colour_ok V f \<longleftrightarrow>
     (\<forall>n s. colour V s \<longrightarrow> (\<exists>t. f (JNum n) (JStr s) = Inr (JStr t) \<and> colour V t \<and> no_braces t))"

definition viewer_ok :: "viewer \<Rightarrow> bool" where
  "viewer_ok V \<longleftrightarrow>
     colour_ok V (darken V) \<and> colour_ok V (lighten V) \<and> colour_ok V (transparentize V) \<and>
     (\<forall>s. colour V s \<longrightarrow> (\<exists>n. luminance V (JStr s) = Inr (JNum n))) \<and>
     (\<forall>hook name p. extensions_hook V = Some hook \<longrightarrow> (\<exists>v. hook name p = Inr v \<and> leaf v)) \<and>
     (\<forall>c. no_braces (class_id V c))"

lemma theme_leaves_members [simp]:
  "[''colors'', ''primary'', ''contrastText''] \<in> set theme_leaves"
  "[''colors'', ''success'', ''main''] \<in> set theme_leaves"
  "[''colors'', ''success'', ''contrastText''] \<in> set theme_leaves"
  "[''colors'', ''warning'', ''contrastText''] \<in> set theme_leaves"
  "[''colors'', ''error'', ''main''] \<in> set theme_leaves"
  "[''colors'', ''error'', ''contrastText''] \<in> set theme_leaves"
  "[''colors'', ''responses'', ''success'', ''color''] \<in> set theme_leaves"
  "[''colors'', ''responses'', ''success'', ''backgroundColor''] \<in> set theme_leaves"
  "[''colors'', ''responses'', ''error'', ''color''] \<in> set theme_leaves"
  "[''colors'', ''responses'', ''error'', ''backgroundColor''] \<in> set theme_leaves"
  "[''colors'', ''responses'', ''redirect'', ''color''] \<in> set theme_leaves"
  "[''colors'', ''responses'', ''redirect'', ''backgroundColor''] \<in> set theme_leaves"
  "[''colors'', ''responses'', ''info'', ''color''] \<in> set theme_leaves"
  "[''colors'', ''responses'', ''info'', ''backgroundColor''] \<in> set theme_leaves"
  "[''breakpoints'', ''small''] \<in> set theme_leaves"
  "[''breakpoints'', ''medium''] \<in> set theme_leaves"
  "[''breakpoints'', ''large''] \<in> set theme_leaves"
  "[''codeBlock'', ''backgroundColor''] \<in> set theme_leaves"
  "[''colors'', ''border'', ''dark''] \<in> set theme_leaves"
  "[''colors'', ''gray'', ''100''] \<in> set theme_leaves"
  "[''colors'', ''gray'', ''50''] \<in> set theme_leaves"
  "[''colors'', ''http'', ''basic''] \<in> set theme_leaves"
  "[''colors'', ''http'', ''delete''] \<in> set theme_leaves"
  "[''colors'', ''http'', ''get''] \<in> set theme_leaves"
  "[''colors'', ''http'', ''head''] \<in> set theme_leaves"
  "[''colors'', ''http'', ''link''] \<in> set theme_leaves"
  "[''colors'', ''http'', ''options''] \<in> set theme_leaves"
  "[''colors'', ''http'', ''patch''] \<in> set theme_leaves"
  "[''colors'', ''http'', ''post''] \<in> set theme_leaves"
  "[''colors'', ''http'', ''put''] \<in> set theme_leaves"
  "[''colors'', ''primary'', ''light''] \<in> set theme_leaves"
  "[''colors'', ''primary'', ''main''] \<in> set theme_leaves"
  "[''colors'', ''responses'', ''error'', ''tabTextColor''] \<in> set theme_leaves"
  "[''colors'', ''responses'', ''info'', ''tabTextColor''] \<in> set theme_leaves"
  "[''colors'', ''responses'', ''redirect'', ''tabTextColor''] \<in> set theme_leaves"
  "[''colors'', ''responses'', ''success'', ''tabTextColor''] \<in> set theme_leaves"
  "[''colors'', ''text'', ''primary''] \<in> set theme_leaves"
  "[''colors'', ''text'', ''secondary''] \<in> set theme_leaves"
  "[''colors'', ''tonalOffset''] \<in> set theme_leaves"
  "[''colors'', ''warning'', ''main''] \<in> set theme_leaves"
  "[''fab'', ''backgroundColor''] \<in> set theme_leaves"
  "[''fab'', ''color''] \<in> set theme_leaves"
  "[''logo'', ''gutter''] \<in> set theme_leaves"
  "[''logo'', ''maxHeight''] \<in> set theme_leaves"
  "[''logo'', ''maxWidth''] \<in> set theme_leaves"
  "[''rightPanel'', ''backgroundColor''] \<in> set theme_leaves"
  "[''rightPanel'', ''servers'', ''overlay'', ''backgroundColor''] \<in> set theme_leaves"
  "[''rightPanel'', ''servers'', ''overlay'', ''textColor''] \<in> set theme_leaves"
  "[''rightPanel'', ''servers'', ''url'', ''backgroundColor''] \<in> set theme_leaves"
  "[''rightPanel'', ''textColor''] \<in> set theme_leaves"
  "[''rightPanel'', ''width''] \<in> set theme_leaves"
  "[''schema'', ''arrow'', ''color''] \<in> set theme_leaves"
  "[''schema'', ''arrow'', ''size''] \<in> set theme_leaves"
  "[''schema'', ''defaultDetailsWidth''] \<in> set theme_leaves"
  "[''schema'', ''labelsTextSize''] \<in> set theme_leaves"
  "[''schema'', ''linesColor''] \<in> set theme_leaves"
  "[''schema'', ''nestedBackground''] \<in> set theme_leaves"
  "[''schema'', ''nestingSpacing''] \<in> set theme_leaves"
  "[''schema'', ''requireLabelColor''] \<in> set theme_leaves"
  "[''schema'', ''typeNameColor''] \<in> set theme_leaves"
  "[''schema'', ''typeTitleColor''] \<in> set theme_leaves"
  "[''sidebar'', ''arrow'', ''color''] \<in> set theme_leaves"
  "[''sidebar'', ''arrow'', ''size''] \<in> set theme_leaves"
  "[''sidebar'', ''backgroundColor''] \<in> set theme_leaves"
  "[''sidebar'', ''groupItems'', ''activeBackgroundColor''] \<in> set theme_leaves"
  "[''sidebar'', ''groupItems'', ''activeTextColor''] \<in> set theme_leaves"
  "[''sidebar'', ''groupItems'', ''textTransform''] \<in> set theme_leaves"
  "[''sidebar'', ''level1Items'', ''activeBackgroundColor''] \<in> set theme_leaves"
  "[''sidebar'', ''level1Items'', ''activeTextColor''] \<in> set theme_leaves"
  "[''sidebar'', ''level1Items'', ''textTransform''] \<in> set theme_leaves"
  "[''sidebar'', ''textColor''] \<in> set theme_leaves"
  "[''sidebar'', ''width''] \<in> set theme_leaves"
  "[''spacing'', ''sectionHorizontal''] \<in> set theme_leaves"
  "[''spacing'', ''sectionVertical''] \<in> set theme_leaves"
  "[''spacing'', ''unit''] \<in> set theme_leaves"
  "[''typography'', ''code'', ''backgroundColor''] \<in> set theme_leaves"
  "[''typography'', ''code'', ''color''] \<in> set theme_leaves"
  "[''typography'', ''code'', ''fontFamily''] \<in> set theme_leaves"
  "[''typography'', ''code'', ''fontSize''] \<in> set theme_leaves"
  "[''typography'', ''code'', ''fontWeight''] \<in> set theme_leaves"
  "[''typography'', ''code'', ''wrap''] \<in> set theme_leaves"
  "[''typography'', ''fontFamily''] \<in> set theme_leaves"
  "[''typography'', ''fontSize''] \<in> set theme_leaves"
  "[''typography'', ''fontWeightBold''] \<in> set theme_leaves"
  "[''typography'', ''fontWeightRegular''] \<in> set theme_leaves"
  "[''typography'', ''headings'', ''fontFamily''] \<in> set theme_leaves"
  "[''typography'', ''headings'', ''fontWeight''] \<in> set theme_leaves"
  "[''typography'', ''headings'', ''lineHeight''] \<in> set theme_leaves"
  "[''typography'', ''lineHeight''] \<in> set theme_leaves"
  "[''typography'', ''links'', ''color''] \<in> set theme_leaves"
  "[''typography'', ''links'', ''hover''] \<in> set theme_leaves"
  "[''typography'', ''links'', ''hoverTextDecoration''] \<in> set theme_leaves"
  "[''typography'', ''links'', ''textDecoration''] \<in> set theme_leaves"
  "[''typography'', ''links'', ''visited''] \<in> set theme_leaves"
  "[''typography'', ''optimizeSpeed''] \<in> set theme_leaves"
  "[''typography'', ''smoothing''] \<in> set theme_leaves"
  by (simp_all add: theme_leaves_def)

lemma theme_colours_members [simp]:
  "[''codeBlock'', ''backgroundColor''] \<in> set theme_colours"
  "[''colors'', ''gray'', ''100''] \<in> set theme_colours"
  "[''colors'', ''primary'', ''light''] \<in> set theme_colours"
  "[''colors'', ''primary'', ''main''] \<in> set theme_colours"
  "[''colors'', ''text'', ''primary''] \<in> set theme_colours"
  "[''rightPanel'', ''backgroundColor''] \<in> set theme_colours"
  "[''rightPanel'', ''textColor''] \<in> set theme_colours"
  "[''schema'', ''typeNameColor''] \<in> set theme_colours"
  "[''sidebar'', ''backgroundColor''] \<in> set theme_colours"
  by (simp_all add: theme_colours_def)

section \<open>The parts of a template render neutrally\<close>

definition shown :: "jsval \<Rightarrow> bool" where
  "shown v \<longleftrightarrow> balanced (concat (value_css v))"

lemma shown_simps [simp]:
  "leaf v \<Longrightarrow> shown v"
  "shown (JStr s) \<longleftrightarrow> balanced s"
  "shown (JBool b)"
  by (cases v) (simp_all add: shown_def leaf_value_css scan_no_braces balanced_def)

lemma balanced_no_braces [simp]: "no_braces s \<Longrightarrow> balanced s"
  by (simp add: balanced_def scan_no_braces)

lemma neutral_arrow: "f p = Inr v \<Longrightarrow> shown v \<Longrightarrow> neutral p (arrow f)"
  by (simp add: neutral_def shown_def)

lemma neutral_arrow_iff: "neutral p (arrow f) \<longleftrightarrow> (\<exists>v. f p = Inr v \<and> shown v)"
  by (auto simp: neutral_def shown_def js_bind_Inr_iff)

lemma neutral_arrow_leaf: "\<exists>v. f p = Inr v \<and> leaf v \<Longrightarrow> neutral p (arrow f)"
  by (auto simp: neutral_arrow_iff)

lemma neutral_theme_at: "theme_path ks p = Inr v \<Longrightarrow> leaf v \<Longrightarrow> neutral p (theme_at ks)"
  by (auto simp: theme_at_def neutral_arrow_iff)

lemma themed_leaf:
  assumes "themed V p" and "ks \<in> set theme_leaves"
  shows "\<exists>v. theme_path ks p = Inr v \<and> leaf v"
  using assms by (simp add: themed_def list_all_iff)

lemma themed_colour:
  assumes "themed V p" and "ks \<in> set theme_colours"
  shows "\<exists>s. theme_path ks p = Inr (JStr s) \<and> colour V s"
  using assms by (simp add: themed_def list_all_iff)

lemma themed_theme: "themed V p \<Longrightarrow> \<exists>t. js_get p ''theme'' = Inr t \<and> t \<noteq> JUndef \<and> t \<noteq> JNull"
  by (auto simp: themed_def theme_path_def js_bind_Inr_iff)

lemma themed_props: "themed V p \<Longrightarrow> \<exists>v. js_get p k = Inr v"
  by (cases p) (auto simp: themed_def theme_path_def)

lemma neutral_theme_leaf: "themed V p \<Longrightarrow> ks \<in> set theme_leaves \<Longrightarrow> neutral p (theme_at ks)"
  by (blast dest: themed_leaf intro: neutral_theme_at)

lemma neutral_spacing: "themed V p \<Longrightarrow> neutral p (theme_times c [''spacing'', ''unit''])"
  unfolding theme_times_def path_times_def themed_def
  by (elim conjE exE) (rule neutral_arrow, simp, simp)

lemma neutral_colour:
  assumes "themed V p" and "colour_ok V f" and "ks \<in> set theme_colours"
  shows "neutral p (theme_colour f c ks)"
proof -
  obtain s where s: "theme_path ks p = Inr (JStr s)" "colour V s"
    using themed_colour assms by blast
  with assms(2) obtain t where "f (JNum c) (JStr s) = Inr (JStr t)" "no_braces t"
    unfolding colour_ok_def by blast
  with s show ?thesis unfolding theme_colour_def path_colour_def by (auto intro!: neutral_arrow)
qed

lemma neutral_colour_tonal:
  assumes "themed V p" and "colour_ok V f" and "ks \<in> set theme_colours"
  shows "neutral p (theme_colour_by f [''colors'', ''tonalOffset''] ks)"
proof -
  obtain s where s: "theme_path ks p = Inr (JStr s)" "colour V s"
    using themed_colour assms by blast
  obtain n where n: "theme_path [''colors'', ''tonalOffset''] p = Inr (JNum n)"
    using assms(1) by (auto simp: themed_def)
  from assms(2) s obtain t where "f (JNum n) (JStr s) = Inr (JStr t)" "no_braces t"
    unfolding colour_ok_def by blast
  with s n show ?thesis unfolding theme_colour_by_def by (auto intro!: neutral_arrow)
qed

lemma neutral_theme_if:
  "themed V p \<Longrightarrow> ks \<in> set theme_leaves \<Longrightarrow> no_braces s \<Longrightarrow> no_braces t \<Longrightarrow> neutral p (theme_if ks s t)"
  unfolding theme_if_def path_if_def by (drule (1) themed_leaf) (auto intro!: neutral_arrow)

lemma neutral_prop_or:
  assumes "themed V p" and "balanced s" and "\<And>v. js_get p k = Inr v \<Longrightarrow> leaf v"
  shows "neutral p (prop_or k s)"
  using themed_props [OF assms(1), of k] assms(2, 3)
  by (auto simp: prop_or_def neutral_arrow_iff js_or_def)

lemma neutral_prop_at:
  assumes "themed V p" and "\<And>v. js_get p k = Inr v \<Longrightarrow> leaf v"
  shows "neutral p (prop_at k)"
  using themed_props [OF assms(1), of k] assms(2) by (auto simp: prop_at_def neutral_arrow_iff)

lemma neutral_prop_if:
  assumes "themed V p" and "balanced s" and "balanced t"
  shows "neutral p (prop_if k s t)"
  using themed_props [OF assms(1), of k] assms(2, 3)
  by (auto simp: prop_if_def neutral_arrow_iff)

text \<open>A falsy first operand is shown as it is: it is dropped, or it is the text 0 or NaN.\<close>

lemma falsy_leaf: "\<not> truthy_js v \<Longrightarrow> leaf v"
  by (cases v) simp_all

lemma neutral_prop_and:
  assumes "themed V p" and "balanced s"
  shows "neutral p (prop_and k s)"
  using themed_props [OF assms(1), of k] assms(2)
  by (auto simp: prop_and_def neutral_arrow_iff js_and_def falsy_leaf)

lemma neutral_prop_else_theme:
  assumes "themed V p" and "ks \<in> set theme_leaves" and "balanced s"
  shows "neutral p (prop_else_theme k s ks)"
  using themed_props [OF assms(1), of k] themed_leaf [OF assms(1, 2)] assms(3)
  by (auto simp: prop_else_theme_def neutral_arrow_iff)

lemma neutral_prop_then_theme:
  assumes "themed V p" and "ks \<in> set theme_leaves" and "balanced s"
  shows "neutral p (prop_then_theme k ks s)"
  using themed_props [OF assms(1), of k] themed_leaf [OF assms(1, 2)] assms(3)
  by (auto simp: prop_then_theme_def neutral_arrow_iff)

lemma neutral_prop_is:
  assumes "themed V p" and "balanced t"
  shows "neutral p (prop_is k s t)"
  using themed_props [OF assms(1), of k] assms(2) by (auto simp: prop_is_def neutral_arrow_iff)

lemma neutral_prop_not_and:
  assumes "themed V p" and "balanced s"
  shows "neutral p (prop_not_and k s)"
  using themed_props [OF assms(1), of k] assms(2) by (auto simp: prop_not_and_def neutral_arrow_iff)

lemma neutral_prop_rules:
  assumes "themed V p" and "renders p 0 rs 0"
  shows "neutral p (prop_rules k rs)"
proof -
  obtain v where "js_get p k = Inr v" using themed_props [OF assms(1)] by blast
  with assms(2) show ?thesis
    unfolding prop_rules_def
    by (intro neutral_Fn [where r = "if truthy_js v then Rules rs else Val (JStr [])"])
      (simp_all add: neutral_Rules neutral_Val)
qed

lemma neutral_prop_is_rules:
  assumes "themed V p" and "renders p 0 rs 0"
  shows "neutral p (prop_is_rules k s rs)"
proof -
  obtain v where "js_get p k = Inr v" using themed_props [OF assms(1)] by blast
  with assms(2) show ?thesis
    unfolding prop_is_rules_def
    by (intro neutral_Fn [where r = "if v = JStr s then Rules rs else Val (JBool False)"])
      (simp_all add: neutral_Rules neutral_Val)
qed

lemma neutral_media:
  assumes "themed V p" and "[''breakpoints'', bp] \<in> set theme_leaves" and "no_braces extra"
    and "renders p 0 (css ps) 0"
  shows "neutral p (Rules (media bp print extra ps))"
proof -
  have ps: "neutral p (Rules (css ps))" using assms(4) by (simp add: neutral_Rules)
  have extra: "neutral p (Val (JStr extra))" using assms(3) by (simp add: neutral_Val)
  have print: "neutral p (Val (JStr (if print then ''print, '' else [])))" by (simp add: neutral_Val)
  show ?thesis
    unfolding neutral_Rules media_def renders_css list.map part_rule_simps renders_Txt
      renders_neutral [OF ps] renders_neutral [OF extra] renders_neutral [OF print]
      renders_neutral [OF neutral_theme_leaf [OF assms(1, 2)]] scan_join_lines
    by simp
qed

lemma neutral_extension:
  assumes "themed V p" and "viewer_ok V"
  shows "neutral p (extension V name)"
proof -
  obtain t where "js_get p ''theme'' = Inr t" "t \<noteq> JUndef" "t \<noteq> JNull"
    using themed_theme [OF assms(1)] by blast
  then obtain v where v: "theme_path [''extensionsHook''] p = Inr v"
    using js_get_ok [of t "''extensionsHook''"] by (auto simp: theme_path_def)
  show ?thesis
  proof (cases "extensions_hook V")
    case None
    with v show ?thesis unfolding extension_def
      by (intro neutral_Fn [where r = "Val JUndef"]) (simp_all add: neutral_Val)
  next
    case (Some hook)
    then obtain w where w: "hook name p = Inr w" "leaf w"
      using assms(2) unfolding viewer_ok_def by blast
    with v Some show ?thesis unfolding extension_def
      by (intro neutral_Fn [where r = "Val w"]) (simp_all add: neutral_Val)
  qed
qed

text \<open>Literals inside arrow functions.\<close>

lemma js_concat_Cons_Inr: "js_concat (r # rs) = Inr s \<longleftrightarrow> (\<exists>x y. r = Inr x \<and> js_concat rs = Inr y \<and> s = x @ y)"
  by (auto simp: js_bind_Inr_iff)

text \<open>\<open>literal_scan p d is e\<close>: the literal is computed and leads from depth \<open>d\<close> to depth \<open>e\<close>.\<close>

definition literal_scan :: "jsval \<Rightarrow> nat \<Rightarrow> item list \<Rightarrow> nat \<Rightarrow> bool" where
  "literal_scan p d is e \<longleftrightarrow>
     (\<exists>s. js_concat (map (\<lambda>i. item_text i p) is) = Inr s \<and> scan s d = Some e)"

lemma literal_scan_Nil: "literal_scan p d [] e \<longleftrightarrow> d = e"
  by (simp add: literal_scan_def)

lemma literal_scan_L:
  "literal_scan p d (L ls # is) e \<longleftrightarrow>
     (case scan_lines ls d of None \<Rightarrow> False | Some d' \<Rightarrow> literal_scan p d' is e)"
  by (auto simp: literal_scan_def js_bind_Inr_iff scan_append scan_join_lines split: option.splits)

definition shows_text :: "jsval \<Rightarrow> (jsval \<Rightarrow> jsval js) \<Rightarrow> bool" where
  "shows_text p f \<longleftrightarrow> (\<exists>v. f p = Inr v \<and> no_braces (js_text v))"

lemma literal_scan_E:
  "shows_text p f \<Longrightarrow> literal_scan p d (E f # is) e \<longleftrightarrow> literal_scan p d is e"
  by (auto simp: shows_text_def literal_scan_def js_bind_Inr_iff scan_append scan_no_braces
      split: option.splits)

lemma literal_Inr: "literal_scan p 0 is 0 \<Longrightarrow> \<exists>s. literal is p = Inr (JStr s) \<and> balanced s"
  by (auto simp: literal_def literal_scan_def balanced_def js_bind_Inr_iff)

lemma neutral_literal: "literal_scan p 0 is 0 \<Longrightarrow> neutral p (arrow (literal is))"
  by (auto simp: neutral_arrow_iff dest: literal_Inr)

lemma neutral_prop_literals:
  assumes "themed V p" and "literal_scan p 0 a 0" and "literal_scan p 0 b 0"
  shows "neutral p (prop_literals k a b)"
  using themed_props [OF assms(1), of k] literal_Inr [OF assms(2)] literal_Inr [OF assms(3)]
  by (auto simp: prop_literals_def neutral_arrow_iff)

lemma neutral_prop_and_literal:
  assumes "themed V p" and "literal_scan p 0 a 0"
  shows "neutral p (prop_and_literal k a)"
  using themed_props [OF assms(1), of k] literal_Inr [OF assms(2)]
  by (auto simp: prop_and_literal_def neutral_arrow_iff js_and_def falsy_leaf)

lemma shows_path: "themed V p \<Longrightarrow> ks \<in> set theme_leaves \<Longrightarrow> shows_text p (theme_path ks)"
  using themed_leaf by (fastforce simp: shows_text_def)

lemma shows_times: "themed V p \<Longrightarrow> shows_text p (path_times c [''spacing'', ''unit''])"
  by (auto simp: themed_def shows_text_def path_times_def)

lemma shows_if:
  "themed V p \<Longrightarrow> ks \<in> set theme_leaves \<Longrightarrow> no_braces s \<Longrightarrow> no_braces t \<Longrightarrow> shows_text p (path_if ks s t)"
  by (drule (1) themed_leaf) (auto simp: shows_text_def path_if_def)

lemma shows_colour:
  assumes "themed V p" and "colour_ok V f" and "ks \<in> set theme_colours"
  shows "shows_text p (path_colour f c ks)"
proof -
  obtain s where s: "theme_path ks p = Inr (JStr s)" "colour V s"
    using themed_colour assms by blast
  with assms(2) obtain t where "f (JNum c) (JStr s) = Inr (JStr t)" "no_braces t"
    unfolding colour_ok_def by blast
  with s show ?thesis by (simp add: shows_text_def path_colour_def)
qed

text \<open>A literal that closes a block it did not open.\<close>

definition literal_computes :: "jsval \<Rightarrow> item list \<Rightarrow> bool" where
  "literal_computes p is \<longleftrightarrow> (\<exists>s. js_concat (map (\<lambda>i. item_text i p) is) = Inr s)"

definition literal_stray :: "jsval \<Rightarrow> nat \<Rightarrow> item list \<Rightarrow> bool" where
  "literal_stray p d is \<longleftrightarrow>
     (\<exists>s. js_concat (map (\<lambda>i. item_text i p) is) = Inr s \<and> scan s d = None)"

lemma literal_computes_simps:
  "literal_computes p []"
  "literal_computes p (L ls # is) \<longleftrightarrow> literal_computes p is"
  "shows_text p f \<Longrightarrow> literal_computes p (E f # is) \<longleftrightarrow> literal_computes p is"
  by (auto simp: literal_computes_def shows_text_def js_bind_Inr_iff)

lemma literal_stray_simps:
  "literal_stray p d (L ls # is) \<longleftrightarrow>
     (case scan_lines ls d of None \<Rightarrow> literal_computes p is | Some e \<Rightarrow> literal_stray p e is)"
  "shows_text p f \<Longrightarrow> literal_stray p d (E f # is) \<longleftrightarrow> literal_stray p d is"
  by (auto simp: literal_stray_def literal_computes_def shows_text_def js_bind_Inr_iff scan_append
      scan_join_lines scan_no_braces split: option.splits)

lemma stray_literal:
  assumes "literal_stray p d is" and "computes p rs"
  shows "stray p d (arrow (literal is) # rs)"
proof -
  obtain s where "js_concat (map (\<lambda>i. item_text i p) is) = Inr s" "scan s d = None"
    using assms(1) by (auto simp: literal_stray_def)
  moreover then have "s \<noteq> []" by auto
  moreover obtain t where "css_text rs p = Inr t" using assms(2) by (auto simp: computes_def)
  ultimately show ?thesis
    unfolding stray_def by (subst css_text_Cons) (simp add: literal_def scan_append)
qed

lemmas style_stray =
  stray_simps stray_css computes_simps literal_stray_simps literal_computes_simps stray_literal
  neutral_css neutral_Val scan_join_lines

section \<open>Props\<close>

text \<open>Props that are shown as they are contain no braces.\<close>

definition plain_props :: "jsval \<Rightarrow> bool" where
  "plain_props p \<longleftrightarrow>
     list_all (\<lambda>k. \<forall>v. js_get p k = Inr v \<longrightarrow> leaf v) [''color'', ''size'', ''float'', ''width'']"

lemma neutral_plain:
  assumes "themed V p" and "plain_props p"
  shows "neutral p (prop_at ''color'')"
    and "balanced s \<Longrightarrow> neutral p (prop_or ''size'' s)"
    and "balanced s \<Longrightarrow> neutral p (prop_or ''float'' s)"
    and "balanced s \<Longrightarrow> neutral p (prop_or ''width'' s)"
  using assms(2)
  by (simp_all add: plain_props_def neutral_prop_at [OF assms(1)] neutral_prop_or [OF assms(1)])

text \<open>A \<open>type\<close> prop with one of the given values selects an entry of the theme.\<close>

definition typed :: "jsval \<Rightarrow> string list \<Rightarrow> bool" where
  "typed p ts \<longleftrightarrow> (\<exists>t \<in> set ts. js_get p ''type'' = Inr (JStr t))"

lemma neutral_typed:
  assumes "themed V p" and "typed p ts" and "list_all (\<lambda>t. ks @ t # ls \<in> set theme_leaves) ts"
  shows "neutral p (theme_index ks ''type'' ls)"
proof -
  obtain t where t: "t \<in> set ts" "js_get p ''type'' = Inr (JStr t)"
    using assms(2) by (auto simp: typed_def)
  with assms(3) have "ks @ t # ls \<in> set theme_leaves" by (simp add: list_all_iff)
  then obtain v where "theme_path (ks @ t # ls) p = Inr v" "leaf v"
    using themed_leaf [OF assms(1)] by blast
  with t show ?thesis
    by (auto simp: neutral_arrow_iff theme_index_def theme_path_def js_path_append [of "_ # _", simplified]
        js_bind_Inr_iff)
qed

lemmas style_neutral =
  neutral_theme_leaf neutral_spacing neutral_theme_if neutral_prop_if neutral_prop_and
  neutral_prop_is neutral_prop_not_and neutral_prop_else_theme neutral_prop_then_theme
  neutral_prop_rules neutral_prop_is_rules neutral_prop_literals neutral_prop_and_literal
  neutral_media neutral_colour neutral_colour_tonal shows_path shows_times shows_if shows_colour

lemmas style_scan =
  renders_css renders_neutral neutral_css neutral_Val neutral_Component neutral_Animation
  neutral_literal literal_scan_Nil literal_scan_L literal_scan_E balanced_def scan_join_lines

lemma viewer_okD:
  assumes "viewer_ok V"
  shows "colour_ok V (darken V)" and "colour_ok V (lighten V)" and "colour_ok V (transparentize V)"
    and "no_braces (class_id V c)"
  using assms by (simp_all add: viewer_ok_def)

end
