(* ===== verification/Styled_Hash.thy ===== *)
theory Styled_Hash
  imports Main "HOL-Library.Word"
begin

unbundle bit_operations_syntax

text \<open>
  The names of the generated classes: styled-components hashes the id of a component and the text of
  its style (\<open>mi\<close>, \<open>gi\<close>), on the 32-bit integers of JavaScript's bitwise operators, and writes the
  hash with the 52 letters as digits (\<open>hi\<close>), separating every \<open>a\<close> from a following \<open>d\<close> so that no
  class name contains the word that ad blockers look for. Strings are ASCII here, so that a
  character is its UTF-16 code unit.
\<close>

section \<open>The hash\<close>

text \<open>
  \<open>mi(e, t)\<close> reads \<open>t\<close> from its end: \<open>e = 33 * e ^ t.charCodeAt(--n)\<close>. The product of 33 and a 32-bit
  integer is exact, and \<open>^\<close> takes it modulo \<open>2 ^ 32\<close>. Given a number instead of a string, whose
  \<open>length\<close> is undefined, the loop does not run.
\<close>

primrec mi_rev :: "32 word \<Rightarrow> string \<Rightarrow> 32 word" where
  "mi_rev e [] = e"
| "mi_rev e (c # cs) = mi_rev ((33 * e) XOR of_nat (of_char c)) cs"

definition mi :: "32 word \<Rightarrow> string \<Rightarrow> 32 word" where
  "mi e t = mi_rev e (rev t)"

definition mi_number :: "32 word \<Rightarrow> nat \<Rightarrow> 32 word" where
  "mi_number e n = e"

definition gi :: "string \<Rightarrow> 32 word" where
  "gi t = mi 5381 t"

text \<open>\<open>vi\<close>, the hash of the version of the library.\<close>

definition vi :: "32 word" where
  "vi = gi ''5.3.0''"

section \<open>The name of a hash\<close>

definition fi :: "nat \<Rightarrow> char" where
  "fi e = char_of (e + (if e > 25 then 39 else 97))"

text \<open>The loop of \<open>hi\<close>: it runs while \<open>t > 52\<close>, so that the first digit may stand for 52.\<close>

fun letters :: "nat \<Rightarrow> string \<Rightarrow> string" where
  "letters t n = (if t > 52 then letters (t div 52) (fi (t mod 52) # n) else fi (t mod 52) # n)"

declare letters.simps [simp del]

definition is_a :: "char \<Rightarrow> bool" where
  "is_a c \<longleftrightarrow> c = CHR ''a'' \<or> c = CHR ''A''"

definition is_d :: "char \<Rightarrow> bool" where
  "is_d c \<longleftrightarrow> c = CHR ''d'' \<or> c = CHR ''D''"

text \<open>\<open>replace(/(a)(d)/gi, "$1-$2")\<close>\<close>

fun split_ad :: "string \<Rightarrow> string" where
  "split_ad (x # y # s) =
     (if is_a x \<and> is_d y then x # CHR ''-'' # y # split_ad s else x # split_ad (y # s))"
| "split_ad s = s"

definition hi :: "nat \<Rightarrow> string" where
  "hi e = split_ad (letters e [])"

text \<open>\<open>qi\<close>, and the conversion \<open>>>> 0\<close> to an unsigned number before it.\<close>

definition hash_name :: "32 word \<Rightarrow> string" where
  "hash_name w = hi (unat w)"

definition qi :: "string \<Rightarrow> string" where
  "qi t = hash_name (gi t)"

section \<open>Hashing pieces\<close>

lemma mi_rev_append: "mi_rev e (s @ t) = mi_rev (mi_rev e s) t"
  by (induction s arbitrary: e) simp_all

text \<open>Hashing a concatenation is hashing its last piece first.\<close>

lemma mi_append: "mi e (s @ t) = mi (mi e t) s"
  by (simp add: mi_def mi_rev_append)

text \<open>A single step is a bijection of the 32-bit integers, so that a common suffix never merges hashes.\<close>

lemma mult_33_inj: "33 * (x :: 32 word) = 33 * y \<Longrightarrow> x = y"
proof -
  have one: "(1041204193 * 33 :: 32 word) = 1" by simp
  have inverse: "1041204193 * (33 * z) = z" for z :: "32 word"
    using one by (simp only: mult.assoc [symmetric] mult_1)
  assume "33 * x = 33 * y"
  then have "1041204193 * (33 * x) = 1041204193 * (33 * y)" by (rule arg_cong)
  then show "x = y" by (simp only: inverse)
qed

lemma xor_cancel: "x XOR z = y XOR z \<Longrightarrow> x = y" for x y z :: "32 word"
  by (drule arg_cong [where f = "\<lambda>w. w XOR z"]) (simp add: xor.assoc)

lemma mi_inj: "mi e s = mi f s \<Longrightarrow> e = f"
proof -
  have "mi_rev e cs = mi_rev f cs \<Longrightarrow> e = f" for cs
  proof (induction cs arbitrary: e f)
    case (Cons c cs)
    then have "(33 * e) XOR of_nat (of_char c) = (33 * f) XOR of_nat (of_char c)" by simp
    then have "33 * e = 33 * f" by (rule xor_cancel)
    then show ?case by (rule mult_33_inj)
  qed simp
  then show "mi e s = mi f s \<Longrightarrow> e = f" by (simp add: mi_def)
qed

section \<open>The letters of a name\<close>

lemma of_char_fi: "e < 52 \<Longrightarrow> of_char (fi e) = e + (if e > 25 then 39 else 97)"
  by (simp add: fi_def of_char_of)

definition digit_of :: "char \<Rightarrow> nat" where
  "digit_of c = (let n = of_char c in if n < 97 then n - 39 else n - 97)"

lemma digit_of_fi: "e < 52 \<Longrightarrow> digit_of (fi e) = e"
  by (simp add: digit_of_def of_char_fi)

lemma letters_acc: "letters t (acc @ more) = letters t acc @ more"
proof (induction t acc rule: letters.induct)
  case (1 t n)
  then show ?case
    by (cases "t > 52") (simp_all add: letters.simps [of t])
qed

lemma letters_step: "t > 52 \<Longrightarrow> letters t [] = letters (t div 52) [] @ [fi (t mod 52)]"
  using letters_acc [of "t div 52" "[]" "[fi (t mod 52)]"] by (simp add: letters.simps [of t])

lemma letters_last: "t \<le> 52 \<Longrightarrow> letters t [] = [fi (t mod 52)]"
  by (simp add: letters.simps [of t])

lemma letters_nonempty: "letters t [] \<noteq> []"
  by (cases "t > 52") (simp_all add: letters_step letters_last)

text \<open>
  Reading a name back: the first letter \<open>a\<close> stands for 52, the separators are left out.
\<close>

fun value_of :: "string \<Rightarrow> nat" where
  "value_of [] = 0"
| "value_of (c # cs) =
     foldl (\<lambda>v c. 52 * v + digit_of c) (if digit_of c = 0 then 52 else digit_of c) cs"

definition unhash :: "string \<Rightarrow> nat" where
  "unhash s = value_of (filter (\<lambda>c. c \<noteq> CHR ''-'') s)"

lemma value_of_snoc: "s \<noteq> [] \<Longrightarrow> value_of (s @ [c]) = 52 * value_of s + digit_of c"
  by (cases s) simp_all

lemma value_of_letters: "0 < t \<Longrightarrow> value_of (letters t []) = t"
proof (induction t rule: less_induct)
  case (less t)
  show ?case
  proof (cases "t > 52")
    case True
    then have "value_of (letters (t div 52) []) = t div 52"
      using less by simp
    with True show ?thesis
      by (simp add: letters_step value_of_snoc letters_nonempty digit_of_fi)
  next
    case False
    with less.prems show ?thesis
      by (cases "t = 52") (simp_all add: letters_last digit_of_fi)
  qed
qed

lemma fi_letter: "e < 52 \<Longrightarrow> fi e \<noteq> CHR ''-''"
  using of_char_fi [of e] by (auto split: if_splits)

lemma letters_no_dash: "c \<in> set (letters t []) \<Longrightarrow> c \<noteq> CHR ''-''"
proof (induction t rule: less_induct)
  case (less t)
  show ?case
  proof (cases "t > 52")
    case True
    then have "c \<in> set (letters (t div 52) []) \<or> c = fi (t mod 52)"
      using less.prems by (auto simp: letters_step)
    then show ?thesis
      using less.IH [of "t div 52"] True fi_letter [of "t mod 52"] by auto
  next
    case False
    then show ?thesis using less.prems fi_letter [of "t mod 52"] by (auto simp: letters_last)
  qed
qed

lemma filter_split_ad:
  "(\<forall>c \<in> set s. c \<noteq> CHR ''-'') \<Longrightarrow> filter (\<lambda>c. c \<noteq> CHR ''-'') (split_ad s) = s"
  by (induction s rule: split_ad.induct) auto

theorem unhash_hi: "0 < e \<Longrightarrow> unhash (hi e) = e"
  using letters_no_dash by (simp add: unhash_def hi_def filter_split_ad value_of_letters)

text \<open>Since 52 is written as a single letter, 0 and 52 are the only two numbers with one name.\<close>

lemma hi_collision: "hi 0 = hi 52"
  by (simp add: hi_def letters_last)

theorem hi_inj: "hi e = hi f \<Longrightarrow> e = f \<or> {e, f} = {0, 52}"
proof -
  assume eq: "hi e = hi f"
  have zero: "g = 0 \<or> g = 52" if "hi 0 = hi g" for g
  proof (cases "g = 0")
    case False
    have "hi g = hi 52" using that hi_collision by (rule trans [OF sym])
    then have "unhash (hi g) = unhash (hi 52)" by (rule arg_cong)
    with False unhash_hi [of g] unhash_hi [of 52] show ?thesis by simp
  qed simp
  show ?thesis
  proof (cases "e = 0 \<or> f = 0")
    case True
    then show ?thesis
    proof
      assume "e = 0"
      with eq have "f = 0 \<or> f = 52" by (intro zero) simp
      with \<open>e = 0\<close> show ?thesis by blast
    next
      assume "f = 0"
      with eq have "e = 0 \<or> e = 52" by (intro zero) simp
      with \<open>f = 0\<close> show ?thesis by blast
    qed
  next
    case False
    then have "unhash (hi e) = e" and "unhash (hi f) = f" by (simp_all add: unhash_hi)
    moreover from eq have "unhash (hi e) = unhash (hi f)" by (rule arg_cong)
    ultimately show ?thesis by metis
  qed
qed

section \<open>No advertisement\<close>

text \<open>No \<open>a\<close> is followed by a \<open>d\<close>, in any case.\<close>

fun has_ad :: "string \<Rightarrow> bool" where
  "has_ad (x # y # s) \<longleftrightarrow> is_a x \<and> is_d y \<or> has_ad (y # s)"
| "has_ad s \<longleftrightarrow> False"

lemma hd_split_ad: "split_ad (x # s) = x # tl (split_ad (x # s))"
  by (cases "(x # s)" rule: split_ad.cases) auto

lemma has_ad_Cons: "has_ad (x # s) \<longleftrightarrow> s \<noteq> [] \<and> (is_a x \<and> is_d (hd s) \<or> has_ad s)"
  by (cases s) auto

lemma no_ad_split: "\<not> has_ad (split_ad s)"
proof (induction s rule: split_ad.induct)
  case (1 x y s)
  show ?case
  proof (cases "is_a x \<and> is_d y")
    case True
    then have "\<not> is_a y" by (auto simp: is_a_def is_d_def)
    with True 1 show ?thesis by (auto simp: has_ad_Cons is_a_def is_d_def)
  next
    case False
    then have "split_ad (x # y # s) = x # split_ad (y # s)" by auto
    moreover have "hd (split_ad (y # s)) = y" by (subst hd_split_ad) simp
    ultimately show ?thesis using 1(2) False by (auto simp: has_ad_Cons)
  qed
qed simp_all

theorem hi_no_ad: "\<not> has_ad (hi e)"
  by (simp add: hi_def no_ad_split)

definition name_char :: "char \<Rightarrow> bool" where
  "name_char c \<longleftrightarrow>
     (let n = of_char c :: nat in c = CHR ''-'' \<or> (65 \<le> n \<and> n \<le> 90) \<or> (97 \<le> n \<and> n \<le> 122))"

lemma fi_name_char: "e < 52 \<Longrightarrow> name_char (fi e)"
  using of_char_fi [of e] by (auto simp: name_char_def Let_def)

lemma letters_name_char: "c \<in> set (letters t []) \<Longrightarrow> name_char c"
proof (induction t rule: less_induct)
  case (less t)
  show ?case
  proof (cases "t > 52")
    case True
    then have "c \<in> set (letters (t div 52) []) \<or> c = fi (t mod 52)"
      using less.prems by (auto simp: letters_step)
    then show ?thesis
      using less.IH [of "t div 52"] True fi_name_char [of "t mod 52"] by auto
  next
    case False
    then show ?thesis using less.prems fi_name_char [of "t mod 52"] by (auto simp: letters_last)
  qed
qed

lemma set_split_ad: "set (split_ad s) \<subseteq> insert (CHR ''-'') (set s)"
  by (induction s rule: split_ad.induct) auto

theorem hi_chars: "c \<in> set (hi e) \<Longrightarrow> name_char c"
  using set_split_ad [of "letters e []"] letters_name_char
  by (auto simp: hi_def) (auto simp: name_char_def Let_def)

end
