(* ===== verification/Styles_Page.thy ===== *)
theory Styles_Page
  imports Style_Helpers Styled_Hash
begin

text \<open>
  The styles of the page frame: the error box and the spinner (\<open>va\<close> to \<open>ka\<close>), the two panels
  and the sections of the middle panel (\<open>Ou\<close> to \<open>Au\<close>), the headings (\<open>Cu\<close> to \<open>Iu\<close>), the anchor
  links (\<open>Fu\<close>, \<open>zu\<close>), the arrow and the badge (\<open>Bu\<close>, \<open>qu\<close>), each template of the viewer with the
  interpolations as they are written there.
\<close>

section \<open>Error box and spinner\<close>

definition va_css :: "rule list" where
  "va_css =
     css
       [S [[],
           ''  padding: 20px;'',
           ''  color: red;'',
           []]]"

definition wa_css :: keyframes where
  "wa_css =
     keyframes_tag qi
       [S [[],
           ''  0% {'',
           ''    transform: rotate(0deg); }'',
           ''  100% {'',
           ''    transform: rotate(360deg);'',
           ''  }'',
           []]]"

definition xa_css :: "rule list" where
  "xa_css =
     css
       [S [[], ''  animation: 2s ''],
        I (Animation wa_css),
        S ['' linear infinite;'',
           ''  width: 50px;'',
           ''  height: 50px;'',
           ''  content: '' @ quotes @ '';'',
           ''  display: inline-block;'',
           ''  margin-left: -25px;'',
           [],
           ''  path {'',
           ''    fill: ''],
        I (prop_at ''color''),
        S ['';'', ''  }'', []]]"

definition ka_css :: "rule list" where
  "ka_css =
     css
       [S [[],
           ''  font-family: helvetica, sans;'',
           ''  width: 100%;'',
           ''  text-align: center;'',
           ''  font-size: 25px;'',
           ''  margin: 30px 0 20px 0;'',
           ''  color: ''],
        I (prop_at ''color''),
        S ['';'', []]]"

section \<open>Panels\<close>

text \<open>The padding of the narrow layout, computed from the props before the media query is built.\<close>

definition Ou_padding :: "jsval \<Rightarrow> jsval js" where
  "Ou_padding p =
     js_bind (js_get p ''compact'') (\<lambda>e.
       literal
         [E (\<lambda>p. if truthy_js e then Inr (jint 0) else theme_path [''spacing'', ''sectionVertical''] p),
          L [''px ''], E (theme_path [''spacing'', ''sectionHorizontal'']), L [''px'']] p)"

definition Ou_media :: "jsval \<Rightarrow> rule js" where
  "Ou_media p =
     js_bind (Ou_padding p) (\<lambda>v.
       Inr (Rules (media ''medium'' True []
         [S [[], ''    width: 100%;'', ''    padding: ''], I (Val v), S ['';'', ''  '']])))"

definition Ou_css :: "rule list" where
  "Ou_css =
     css
       [S [[], ''  width: calc(100% - ''],
        I (theme_at [''rightPanel'', ''width'']),
        S ['');'', ''  padding: 0 ''],
        I (theme_at [''spacing'', ''sectionHorizontal'']),
        S [''px;'', [], ''  ''],
        I (Fn Ou_media),
        S ['';'', []]]"

definition Su_css :: "rule list" where
  "Su_css =
     css
       [S [[], ''  padding: ''],
        I (theme_at [''spacing'', ''sectionVertical'']),
        S [''px 0;'',
           [],
           ''  &:last-child {'',
           ''    min-height: calc(100vh + 1px);'',
           ''  }'',
           [],
           ''  & > &:last-child {'',
           ''    min-height: initial;'',
           ''  }'',
           [],
           ''  ''],
        I (Rules (media ''medium'' True []
           [S [[], ''    padding: 0;'', ''  '']])),
        S [[], ''  ''],
        I (prop_if ''underlined'' (join_lines
             [[],
              ''    position: relative;'',
              [],
              ''    &:not(:last-of-type):after {'',
              ''      position: absolute;'',
              ''      bottom: 0;'',
              ''      width: 100%;'',
              ''      display: block;'',
              ''      content: '' @ quotes @ '';'',
              ''      border-bottom: 1px solid rgba(0, 0, 0, 0.2);'',
              ''    }'',
              ''  '']) []),
        S [[], []]]"

definition Eu_css :: "rule list" where
  "Eu_css =
     css
       [S [[], ''  width: ''],
        I (theme_at [''rightPanel'', ''width'']),
        S ['';'', ''  color: ''],
        I (theme_at [''rightPanel'', ''textColor'']),
        S ['';'', ''  background-color: ''],
        I (theme_at [''rightPanel'', ''backgroundColor'']),
        S ['';'', ''  padding: 0 ''],
        I (theme_at [''spacing'', ''sectionHorizontal'']),
        S [''px;'', [], ''  ''],
        I (Rules (media ''medium'' True []
           [S [[], ''    width: 100%;'', ''    padding: ''],
            I (arrow (literal
               [E (theme_path [''spacing'', ''sectionVertical'']),
                L [''px ''],
                E (theme_path [''spacing'', ''sectionHorizontal'']),
                L [''px'']])),
            S ['';'', ''  '']])),
        S ['';'', []]]"

definition Pu_css :: "rule list" where
  "Pu_css =
     css
       [S [[], ''  background-color: ''],
        I (theme_at [''rightPanel'', ''backgroundColor'']),
        S ['';'', []]]"

definition Au_css :: "rule list" where
  "Au_css =
     css
       [S [[],
           ''  display: flex;'',
           ''  width: 100%;'',
           ''  padding: 0;'',
           [],
           ''  ''],
        I (Rules (media ''medium'' True []
           [S [[], ''    flex-direction: column;'', ''  '']])),
        S ['';'', []]]"

section \<open>Headings\<close>

definition heading_size :: "nat \<Rightarrow> jsval" where
  "heading_size e =
     (case map_of [(1, ''1.85714em''), (2, ''1.57143em''), (3, ''1.27em'')] e of
        None \<Rightarrow> JUndef
      | Some s \<Rightarrow> JStr s)"

definition Cu_css :: "nat \<Rightarrow> rule list" where
  "Cu_css e =
     css
       [S [[], ''  font-family: ''],
        I (theme_at [''typography'', ''headings'', ''fontFamily'']),
        S ['';'', ''  font-weight: ''],
        I (theme_at [''typography'', ''headings'', ''fontWeight'']),
        S ['';'', ''  font-size: ''],
        I (Val (heading_size e)),
        S ['';'', ''  line-height: ''],
        I (theme_at [''typography'', ''headings'', ''lineHeight'']),
        S ['';'', []]]"

definition Ru_css :: "viewer \<Rightarrow> rule list" where
  "Ru_css V =
     css
       [S [[], ''  ''],
        I (Rules (Cu_css 1)),
        S ['';'', ''  color: ''],
        I (theme_at [''colors'', ''text'', ''primary'']),
        S ['';'', [], ''  ''],
        I (extension V ''H1''),
        S ['';'', []]]"

definition ju_css :: "viewer \<Rightarrow> rule list" where
  "ju_css V =
     css
       [S [[], ''  ''],
        I (Rules (Cu_css 2)),
        S ['';'', ''  color: ''],
        I (theme_at [''colors'', ''text'', ''primary'']),
        S ['';'',
           ''  margin: 0 0 20px;'',
           [],
           ''  ''],
        I (extension V ''H2''),
        S ['';'', []]]"

definition h3_anon_css :: "viewer \<Rightarrow> rule list" where
  "h3_anon_css V =
     css
       [S [[], ''  ''],
        I (Rules (Cu_css 3)),
        S ['';'', ''  color: ''],
        I (theme_at [''colors'', ''text'', ''primary'']),
        S ['';'', [], ''  ''],
        I (extension V ''H3''),
        S ['';'', []]]"

definition Tu_css :: "viewer \<Rightarrow> rule list" where
  "Tu_css V =
     css
       [S [[], ''  color: ''],
        I (theme_at [''rightPanel'', ''textColor'']),
        S ['';'', [], ''  ''],
        I (extension V ''RightPanelHeader''),
        S ['';'', []]]"

definition Iu_css :: "viewer \<Rightarrow> rule list" where
  "Iu_css V =
     css
       [S [[],
           ''  border-bottom: 1px solid rgba(38, 50, 56, 0.3);'',
           ''  margin: 1em 0 1em 0;'',
           ''  color: rgba(38, 50, 56, 0.5);'',
           ''  font-weight: normal;'',
           ''  text-transform: uppercase;'',
           ''  font-size: 0.929em;'',
           ''  line-height: 20px;'',
           [],
           ''  ''],
        I (extension V ''UnderlinedHeader''),
        S ['';'', []]]"

section \<open>Links\<close>

text \<open>The icon of the anchor, an SVG image as a data URL.\<close>

definition anchor_icon :: string where
  "anchor_icon =
     ''data:image/svg+xml;base64,PHN2ZyB4bWxucz0iaHR0cDovL3d3dy53My5vcmcvMjAwMC9zdmciIH'' @
     ''ZlcnNpb249IjEuMSIgeD0iMCIgeT0iMCIgd2lkdGg9IjUxMiIgaGVpZ2h0PSI1MTIiIHZpZXdCb3g9Ij'' @
     ''AgMCA1MTIgNTEyIiBlbmFibGUtYmFja2dyb3VuZD0ibmV3IDAgMCA1MTIgNTEyIiB4bWw6c3BhY2U9In'' @
     ''ByZXNlcnZlIj48cGF0aCBmaWxsPSIjMDEwMTAxIiBkPSJNNDU5LjcgMjMzLjRsLTkwLjUgOTAuNWMtNT'' @
     ''AgNTAtMTMxIDUwLTE4MSAwIC03LjktNy44LTE0LTE2LjctMTkuNC0yNS44bDQyLjEtNDIuMWMyLTIgNC'' @
     ''41LTMuMiA2LjgtNC41IDIuOSA5LjkgOCAxOS4zIDE1LjggMjcuMiAyNSAyNSA2NS42IDI0LjkgOTAuNS'' @
     ''AwbDkwLjUtOTAuNWMyNS0yNSAyNS02NS42IDAtOTAuNSAtMjQuOS0yNS02NS41LTI1LTkwLjUgMGwtMz'' @
     ''IuMiAzMi4yYy0yNi4xLTEwLjItNTQuMi0xMi45LTgxLjYtOC45bDY4LjYtNjguNmM1MC01MCAxMzEtNT'' @
     ''AgMTgxIDBDNTA5LjYgMTAyLjMgNTA5LjYgMTgzLjQgNDU5LjcgMjMzLjR6TTIyMC4zIDM4Mi4ybC0zMi'' @
     ''4yIDMyLjJjLTI1IDI0LjktNjUuNiAyNC45LTkwLjUgMCAtMjUtMjUtMjUtNjUuNiAwLTkwLjVsOTAuNS'' @
     ''05MC41YzI1LTI1IDY1LjUtMjUgOTAuNSAwIDcuOCA3LjggMTIuOSAxNy4yIDE1LjggMjcuMSAyLjQtMS'' @
     ''40IDQuOC0yLjUgNi44LTQuNWw0Mi4xLTQyYy01LjQtOS4yLTExLjYtMTgtMTkuNC0yNS44IC01MC01MC'' @
     ''0xMzEtNTAtMTgxIDBsLTkwLjUgOTAuNWMtNTAgNTAtNTAgMTMxIDAgMTgxIDUwIDUwIDEzMSA1MCAxOD'' @
     ''EgMGw2OC42LTY4LjZDMjc0LjYgMzk1LjEgMjQ2LjQgMzkyLjMgMjIwLjMgMzgyLjJ6Ii8+PC9zdmc+Cg'' @
     ''==''"

definition Fu_css :: "string \<Rightarrow> rule list" where
  "Fu_css e =
     css
       [S [[], ''  ''],
        I (Val (JStr e)),
        S ['' {'',
           ''    cursor: pointer;'',
           ''    margin-left: -20px;'',
           ''    padding: 0;'',
           ''    line-height: 1;'',
           ''    width: 20px;'',
           ''    display: inline-block;'',
           ''    outline: 0;'',
           ''  }'',
           ''  ''],
        I (Val (JStr e)),
        S ['':before {'',
           ''    content: '' @ quotes @ '';'',
           ''    width: 15px;'',
           ''    height: 15px;'',
           ''    background-size: contain;'',
           ''    background-image: url('' @ [CHR 0x27] @ anchor_icon @ [CHR 0x27] @ '');'',
           ''    opacity: 0.5;'',
           ''    visibility: hidden;'',
           ''    display: inline-block;'',
           ''    vertical-align: middle;'',
           ''  }'',
           [],
           ''  h1:hover > ''],
        I (Val (JStr e)),
        S [''::before, h2:hover > ''],
        I (Val (JStr e)),
        S [''::before, ''],
        I (Val (JStr e)),
        S ['':hover::before {'',
           ''    visibility: visible;'',
           ''  }'',
           []]]"

definition zu_css :: "rule list" where
  "zu_css =
     css
       [S [[], ''  ''],
        I (Rules (Fu_css ''&'')),
        S ['';'', []]]"

section \<open>Arrow and badge\<close>

definition Vu :: jsval where
  "Vu =
     JObj
       [(''left'', JStr ''90deg''), (''right'', JStr ''-90deg''), (''up'', JStr ''-180deg''),
        (''down'', JStr ''0'')]"

definition Bu_rotation :: "jsval \<Rightarrow> jsval js" where
  "Bu_rotation p =
     js_bind (js_get p ''direction'') (\<lambda>d.
       js_bind (js_or d (Inr (JStr ''down''))) (\<lambda>k. js_get Vu (js_text k)))"

definition Bu_fill :: "jsval \<Rightarrow> jsval js" where
  "Bu_fill p =
     js_bind (js_get p ''color'') (\<lambda>e.
       js_bind (js_and e (theme_path [''colors'', ''responses'', js_text e] p)) (\<lambda>x.
         js_bind (js_and x (theme_path [''colors'', ''responses'', js_text e, ''color''] p)) (\<lambda>y.
           js_or y (Inr e))))"

definition Bu_css :: "rule list" where
  "Bu_css =
     css
       [S [[], ''  height: ''],
        I (prop_or ''size'' ''18px''),
        S ['';'', ''  width: ''],
        I (prop_or ''size'' ''18px''),
        S ['';'', ''  min-width: ''],
        I (prop_or ''size'' ''18px''),
        S ['';'', ''  vertical-align: middle;'', ''  float: ''],
        I (prop_or ''float'' []),
        S ['';'', ''  transition: transform 0.2s ease-out;'', ''  transform: rotateZ(''],
        I (arrow Bu_rotation),
        S ['');'',
           [],
           ''  polygon {'',
           ''    fill: ''],
        I (arrow Bu_fill),
        S ['';'', ''  }'', []]]"

definition qu_css :: "rule list" where
  "qu_css =
     css
       [S [[],
           ''  display: inline-block;'',
           ''  padding: 2px 8px;'',
           ''  margin: 0;'',
           ''  background-color: ''],
        I (theme_index [''colors''] ''type'' [''main'']),
        S ['';'', ''  color: ''],
        I (theme_index [''colors''] ''type'' [''contrastText'']),
        S ['';'', ''  font-size: ''],
        I (theme_at [''typography'', ''code'', ''fontSize'']),
        S ['';'',
           ''  vertical-align: middle;'',
           ''  line-height: 1.6;'',
           ''  border-radius: 4px;'',
           ''  font-weight: ''],
        I (theme_at [''typography'', ''fontWeightBold'']),
        S ['';'',
           ''  font-size: 12px;'',
           ''  + span[type] {'',
           ''    margin-left: 4px;'',
           ''  }'',
           []]]"

definition Wu_css :: "rule list" where
  "Wu_css =
     css
       [S [[],
           ''  text-decoration: line-through;'',
           ''  color: #707070;'',
           []]]"

definition Hu_css :: "rule list" where
  "Hu_css =
     css
       [S [[],
           ''  text-align: right;'',
           ''  font-size: 0.9em;'',
           ''  font-weight: normal;'',
           ''  color: ''],
        I (theme_at [''colors'', ''text'', ''secondary'']),
        S ['';'', []]]"

section \<open>The styles render to balanced texts\<close>

lemma name_char_no_brace: "name_char c \<Longrightarrow> c \<noteq> CHR ''{'' \<and> c \<noteq> CHR ''}''"
  by (auto simp: name_char_def Let_def)

lemma no_braces_qi: "no_braces (qi s)"
  unfolding no_braces_def qi_def hash_name_def by (blast dest: hi_chars name_char_no_brace)

lemma no_braces_wa: "no_braces (kf_name wa_css)"
  by (simp add: wa_css_def keyframes_tag_def Let_def no_braces_qi)

lemma no_braces_anchor_icon: "no_braces anchor_icon"
  unfolding anchor_icon_def no_braces_append by simp

lemma leaf_heading_size: "leaf (heading_size e)"
  by (simp add: heading_size_def)

lemma va_renders:
  assumes "themed V p" and "viewer_ok V"
  shows "renders p 0 va_css 0"
  by (simp add: va_css_def style_scan style_neutral [OF assms(1)])

lemma Su_renders:
  assumes "themed V p" and "viewer_ok V"
  shows "renders p 0 Su_css 0"
  by (simp add: Su_css_def style_scan style_neutral [OF assms(1)])

lemma Eu_renders:
  assumes "themed V p" and "viewer_ok V"
  shows "renders p 0 Eu_css 0"
  by (simp add: Eu_css_def style_scan style_neutral [OF assms(1)])

lemma Pu_renders:
  assumes "themed V p" and "viewer_ok V"
  shows "renders p 0 Pu_css 0"
  by (simp add: Pu_css_def style_scan style_neutral [OF assms(1)])

lemma Au_renders:
  assumes "themed V p" and "viewer_ok V"
  shows "renders p 0 Au_css 0"
  by (simp add: Au_css_def style_scan style_neutral [OF assms(1)])

lemma Cu_renders:
  assumes "themed V p" and "viewer_ok V"
  shows "renders p 0 (Cu_css e) 0"
  by (simp add: Cu_css_def style_scan style_neutral [OF assms(1)] leaf_heading_size)

lemma Ru_renders:
  assumes "themed V p" and "viewer_ok V"
  shows "renders p 0 (Ru_css V) 0"
  by (simp add: Ru_css_def style_scan style_neutral [OF assms(1)] viewer_okD [OF assms(2)]
      neutral_extension [OF assms(1, 2)] Cu_renders [OF assms(1, 2), THEN neutral_RulesI])

lemma ju_renders:
  assumes "themed V p" and "viewer_ok V"
  shows "renders p 0 (ju_css V) 0"
  by (simp add: ju_css_def style_scan style_neutral [OF assms(1)] viewer_okD [OF assms(2)]
      neutral_extension [OF assms(1, 2)] Cu_renders [OF assms(1, 2), THEN neutral_RulesI])

lemma h3_anon_renders:
  assumes "themed V p" and "viewer_ok V"
  shows "renders p 0 (h3_anon_css V) 0"
  by (simp add: h3_anon_css_def style_scan style_neutral [OF assms(1)] viewer_okD [OF assms(2)]
      neutral_extension [OF assms(1, 2)] Cu_renders [OF assms(1, 2), THEN neutral_RulesI])

lemma Tu_renders:
  assumes "themed V p" and "viewer_ok V"
  shows "renders p 0 (Tu_css V) 0"
  by (simp add: Tu_css_def style_scan style_neutral [OF assms(1)] viewer_okD [OF assms(2)]
      neutral_extension [OF assms(1, 2)])

lemma Iu_renders:
  assumes "themed V p" and "viewer_ok V"
  shows "renders p 0 (Iu_css V) 0"
  by (simp add: Iu_css_def style_scan style_neutral [OF assms(1)] viewer_okD [OF assms(2)]
      neutral_extension [OF assms(1, 2)])

lemma Fu_renders:
  assumes "themed V p" and "viewer_ok V" and "no_braces e"
  shows "renders p 0 (Fu_css e) 0"
  by (simp add: Fu_css_def style_scan style_neutral [OF assms(1)]
      assms(3) scan_append scan_no_braces [OF no_braces_anchor_icon])

lemma zu_renders:
  assumes "themed V p" and "viewer_ok V"
  shows "renders p 0 zu_css 0"
  by (simp add: zu_css_def style_scan style_neutral [OF assms(1)]
      Fu_renders [OF assms(1, 2), THEN neutral_RulesI])

lemma Wu_renders:
  assumes "themed V p" and "viewer_ok V"
  shows "renders p 0 Wu_css 0"
  by (simp add: Wu_css_def style_scan style_neutral [OF assms(1)])

lemma Hu_renders:
  assumes "themed V p" and "viewer_ok V"
  shows "renders p 0 Hu_css 0"
  by (simp add: Hu_css_def style_scan style_neutral [OF assms(1)])

lemma ka_renders:
  assumes "themed V p" and "viewer_ok V" and "plain_props p"
  shows "renders p 0 ka_css 0"
  by (simp add: ka_css_def style_scan neutral_plain [OF assms(1, 3)])

lemma xa_renders:
  assumes "themed V p" and "viewer_ok V" and "plain_props p"
  shows "renders p 0 xa_css 0"
  by (simp add: xa_css_def style_scan neutral_plain [OF assms(1, 3)] no_braces_wa)

lemma neutral_Ou_media:
  assumes "themed V p"
  shows "neutral p (Fn Ou_media)"
proof -
  obtain e where e: "js_get p ''compact'' = Inr e" using themed_props [OF assms] by blast
  have "shows_text p (\<lambda>p. if truthy_js e then Inr (jint 0)
      else theme_path [''spacing'', ''sectionVertical''] p)"
    using shows_path [OF assms, of "[''spacing'', ''sectionVertical'']"]
    by (cases "truthy_js e") (simp_all add: shows_text_def)
  then have "\<exists>s. Ou_padding p = Inr (JStr s) \<and> balanced s"
    using e by (simp add: Ou_padding_def literal_Inr literal_scan_E literal_scan_L literal_scan_Nil
        shows_path [OF assms])
  then obtain s where s: "Ou_padding p = Inr (JStr s)" "balanced s" by blast
  have "neutral p (Val (JStr s))" using s(2) by (cases "s = []") (simp_all add: neutral_def)
  then have "neutral p (Rules (media ''medium'' True []
      [S [[], ''    width: 100%;'', ''    padding: ''], I (Val (JStr s)), S ['';'', ''  '']]))"
    by (simp add: style_scan neutral_media [OF assms])
  with s(1) show ?thesis by (simp add: Ou_media_def neutral_Fn)
qed

lemma Ou_renders:
  assumes "themed V p" and "viewer_ok V"
  shows "renders p 0 Ou_css 0"
  by (simp add: Ou_css_def style_scan style_neutral [OF assms(1)] neutral_Ou_media [OF assms(1)])

lemma neutral_Bu_rotation:
  assumes "themed V p"
  shows "neutral p (arrow Bu_rotation)"
proof -
  obtain d where "js_get p ''direction'' = Inr d" using themed_props [OF assms] by blast
  then show ?thesis
    by (auto simp: neutral_arrow_iff Bu_rotation_def js_or_def Vu_def)
qed

text \<open>The entries of \<open>colors.responses\<close> are objects whose colours contain no brace, or are missing.\<close>

definition response_colours :: "jsval \<Rightarrow> bool" where
  "response_colours p \<longleftrightarrow>
     (\<forall>k. \<exists>v. theme_path [''colors'', ''responses'', k] p = Inr v \<and>
        (\<forall>c. js_get v ''color'' = Inr c \<longrightarrow> leaf c))"

lemma neutral_Bu_fill:
  assumes "themed V p" and "plain_props p" and "response_colours p"
  shows "neutral p (arrow Bu_fill)"
proof -
  obtain e where e: "js_get p ''color'' = Inr e" "leaf e"
    using themed_props [OF assms(1), of "''color''"] assms(2) by (auto simp: plain_props_def)
  obtain x where x: "theme_path [''colors'', ''responses'', js_text e] p = Inr x"
    "\<And>c. js_get x ''color'' = Inr c \<Longrightarrow> leaf c"
    using assms(3) unfolding response_colours_def by blast
  have path: "theme_path [''colors'', ''responses'', js_text e, ''color''] p = js_get x ''color''"
    using x(1) js_path_append [of "[''theme'', ''colors'', ''responses'', js_text e]" "[''color'']" p]
    by (simp add: theme_path_def js_bind_return)
  have "\<exists>c. js_get x ''color'' = Inr c" if "truthy_js x"
    using that by (intro js_get_ok) auto
  with e x path show ?thesis
    by (cases "truthy_js e"; cases "truthy_js x")
      (auto simp: neutral_arrow_iff Bu_fill_def js_and_def js_or_def falsy_leaf)
qed

lemma Bu_renders:
  assumes "themed V p" and "viewer_ok V" and "plain_props p" and "response_colours p"
  shows "renders p 0 Bu_css 0"
  by (simp add: Bu_css_def style_scan neutral_plain [OF assms(1, 3)] neutral_Bu_rotation [OF assms(1)]
      neutral_Bu_fill [OF assms(1, 3, 4)])

lemma qu_renders:
  assumes "themed V p" and "viewer_ok V"
    and "typed p [''primary'', ''success'', ''warning'', ''error'']"
  shows "renders p 0 qu_css 0"
  by (simp add: qu_css_def style_scan style_neutral [OF assms(1)] neutral_typed [OF assms(1, 3)])

end
