(* ===== verification/Styles_Table.thy ===== *)
theory Styles_Table
  imports Styles_Page
begin

text \<open>
  The styles of the property tables: the cells (\<open>Yu\<close> to \<open>Qu\<close>), the bullet before a property name
  (\<open>Xu\<close>), nested schemas (\<open>Ju\<close>) and the table itself (\<open>Zu\<close>), whose selectors name the class of
  \<open>Ju\<close> to colour the nesting levels alternately.
\<close>

definition Yu_css :: "rule list" where
  "Yu_css =
     css
       [S [[], ''  border-left: 1px solid ''],
        I (theme_at [''schema'', ''linesColor'']),
        S ['';'',
           ''  box-sizing: border-box;'',
           ''  position: relative;'',
           ''  padding: 10px 10px 10px 0;'',
           [],
           ''  ''],
        I (Rules (media ''small'' False []
           [S [[],
               ''    display: block;'',
               ''    overflow: hidden;'',
               ''  '']])),
        S [[],
           [],
           ''  tr:first-of-type > &,'',
           ''  tr.last > & {'',
           ''    border-left-width: 0;'',
           ''    background-position: top left;'',
           ''    background-repeat: no-repeat;'',
           ''    background-size: 1px 100%;'',
           ''  }'',
           [],
           ''  tr:first-of-type > & {'',
           ''    background-image: linear-gradient('',
           ''      to bottom,'',
           ''      transparent 0%,'',
           ''      transparent 22px,'',
           ''      ''],
        I (theme_at [''schema'', ''linesColor'']),
        S ['' 22px,'', ''      ''],
        I (theme_at [''schema'', ''linesColor'']),
        S ['' 100%'',
           ''    );'',
           ''  }'',
           [],
           ''  tr.last > & {'',
           ''    background-image: linear-gradient('',
           ''      to bottom,'',
           ''      ''],
        I (theme_at [''schema'', ''linesColor'']),
        S ['' 0%,'', ''      ''],
        I (theme_at [''schema'', ''linesColor'']),
        S ['' 22px,'',
           ''      transparent 22px,'',
           ''      transparent 100%'',
           ''    );'',
           ''  }'',
           [],
           ''  tr.last + tr > & {'',
           ''    border-left-color: transparent;'',
           ''  }'',
           [],
           ''  tr.last:first-child > & {'',
           ''    background: none;'',
           ''    border-left-color: transparent;'',
           ''  }'',
           []]]"

definition Ku_css :: "rule list" where
  "Ku_css =
     css
       [S [[], ''  padding: 0;'', []]]"

definition Gu_style :: "jsval \<Rightarrow> jsval js" where
  "Gu_style p =
     js_bind (js_get p ''kind'') (\<lambda>v.
       let e = (if v = JUndef then JStr [] else v) in
       Inr (JStr (if e \<in> set (map JStr [''field'', ''additionalProperties'', ''patternProperties'']) then []
         else ''font-style: italic'')))"

definition Gu_css :: "viewer \<Rightarrow> rule list" where
  "Gu_css V =
     css
       [S [[],
           ''  vertical-align: top;'',
           ''  line-height: 20px;'',
           ''  white-space: nowrap;'',
           ''  font-size: 13px;'',
           ''  font-family: ''],
        I (theme_at [''typography'', ''code'', ''fontFamily'']),
        S ['';'',
           [],
           ''  &.deprecated {'',
           ''    ''],
        I (Rules Wu_css),
        S ['';'',
           ''  }'',
           [],
           ''  ''],
        I (prop_is_rules ''kind'' ''patternProperties''
           (css [S [[],
                    ''      > span.property-name {'',
                    ''        display: inline-table;'',
                    ''        white-space: break-spaces;'',
                    ''        margin-right: 20px;'',
                    [],
                    ''        ::before,'',
                    ''        ::after {'',
                    ''          content: '/';'',
                    ''          filter: opacity(0.2);'',
                    ''        }'',
                    ''      }'',
                    ''    '']])),
        S [[], [], ''  ''],
        I (arrow Gu_style),
        S ['';'', [], ''  ''],
        I (extension V ''PropertyNameCell''),
        S ['';'', []]]"

definition Qu_css :: "viewer \<Rightarrow> rule list" where
  "Qu_css V =
     css
       [S [[],
           ''  border-bottom: 1px solid #9fb4be;'',
           ''  padding: 10px 0;'',
           ''  width: ''],
        I (theme_at [''schema'', ''defaultDetailsWidth'']),
        S ['';'',
           ''  box-sizing: border-box;'',
           [],
           ''  tr.expanded & {'',
           ''    border-bottom: none;'',
           ''  }'',
           [],
           ''  ''],
        I (Rules (media ''small'' False []
           [S [[],
               ''    padding: 0 20px;'',
               ''    border-bottom: none;'',
               ''    border-left: 1px solid ''],
            I (theme_at [''schema'', ''linesColor'']),
            S ['';'',
               [],
               ''    tr.last > & {'',
               ''      border-left: none;'',
               ''    }'',
               ''  '']])),
        S [[], [], ''  ''],
        I (extension V ''PropertyDetailsCell''),
        S ['';'', []]]"

definition Xu_css :: "rule list" where
  "Xu_css =
     css
       [S [[], ''  color: ''],
        I (theme_at [''schema'', ''linesColor'']),
        S ['';'', ''  font-family: ''],
        I (theme_at [''typography'', ''code'', ''fontFamily'']),
        S ['';'',
           ''  margin-right: 10px;'',
           [],
           ''  &::before {'',
           ''    content: '' @ quotes @ '';'',
           ''    display: inline-block;'',
           ''    vertical-align: middle;'',
           ''    width: 10px;'',
           ''    height: 1px;'',
           ''    background: ''],
        I (theme_at [''schema'', ''linesColor'']),
        S ['';'',
           ''  }'',
           [],
           ''  &::after {'',
           ''    content: '' @ quotes @ '';'',
           ''    display: inline-block;'',
           ''    vertical-align: middle;'',
           ''    width: 1px;'',
           ''    background: ''],
        I (theme_at [''schema'', ''linesColor'']),
        S ['';'',
           ''    height: 7px;'',
           ''  }'',
           []]]"

definition Ju_css :: "rule list" where
  "Ju_css =
     css
       [S [[], ''  padding: ''],
        I (theme_at [''schema'', ''nestingSpacing'']),
        S ['';'', []]]"

definition Zu_css :: "viewer \<Rightarrow> rule list" where
  "Zu_css V =
     css
       [S [[],
           ''  border-collapse: separate;'',
           ''  border-radius: 3px;'',
           ''  font-size: ''],
        I (theme_at [''typography'', ''fontSize'']),
        S ['';'',
           [],
           ''  border-spacing: 0;'',
           ''  width: 100%;'',
           [],
           ''  > tr {'',
           ''    vertical-align: middle;'',
           ''  }'',
           [],
           ''  ''],
        I (Rules (media ''small'' False []
           [S [[],
               ''    display: block;'',
               ''    > tr, > tbody > tr {'',
               ''      display: block;'',
               ''    }'',
               ''  '']])),
        S [[], [], ''  ''],
        I (Rules (media ''small'' False '' and (-ms-high-contrast:none)''
           [S [[],
               ''    td {'',
               ''      float: left;'',
               ''      width: 100%;'',
               ''    }'',
               ''  '']])),
        S [[],
           [],
           ''  &'',
           ''    ''],
        I (Component (class_id V ''Ju'')),
        S ['','', ''    &'', ''    ''],
        I (Component (class_id V ''Ju'')),
        S [[], ''    ''],
        I (Component (class_id V ''Ju'')),
        S [[], ''    ''],
        I (Component (class_id V ''Ju'')),
        S ['','', ''    &'', ''    ''],
        I (Component (class_id V ''Ju'')),
        S [[], ''    ''],
        I (Component (class_id V ''Ju'')),
        S [[], ''    ''],
        I (Component (class_id V ''Ju'')),
        S [[], ''    ''],
        I (Component (class_id V ''Ju'')),
        S [[], ''    ''],
        I (Component (class_id V ''Ju'')),
        S ['' {'', ''    margin: ''],
        I (theme_at [''schema'', ''nestingSpacing'']),
        S ['';'', ''    margin-right: 0;'', ''    background: ''],
        I (theme_at [''schema'', ''nestedBackground'']),
        S ['';'',
           ''  }'',
           [],
           ''  &'',
           ''    ''],
        I (Component (class_id V ''Ju'')),
        S [[], ''    ''],
        I (Component (class_id V ''Ju'')),
        S ['','', ''    &'', ''    ''],
        I (Component (class_id V ''Ju'')),
        S [[], ''    ''],
        I (Component (class_id V ''Ju'')),
        S [[], ''    ''],
        I (Component (class_id V ''Ju'')),
        S [[], ''    ''],
        I (Component (class_id V ''Ju'')),
        S ['','', ''    &'', ''    ''],
        I (Component (class_id V ''Ju'')),
        S [[], ''    ''],
        I (Component (class_id V ''Ju'')),
        S [[], ''    ''],
        I (Component (class_id V ''Ju'')),
        S [[], ''    ''],
        I (Component (class_id V ''Ju'')),
        S [[], ''    ''],
        I (Component (class_id V ''Ju'')),
        S [[], ''    ''],
        I (Component (class_id V ''Ju'')),
        S ['' {'',
           ''    background: #ffffff;'',
           ''  }'',
           []]]"

section \<open>The styles render to balanced texts\<close>

lemma neutral_Gu_style:
  assumes "themed V p"
  shows "neutral p (arrow Gu_style)"
  using themed_props [OF assms, of "''kind''"] by (auto simp: neutral_arrow_iff Gu_style_def Let_def)

lemma Yu_renders:
  assumes "themed V p" and "viewer_ok V"
  shows "renders p 0 Yu_css 0"
  by (simp add: Yu_css_def style_scan style_neutral [OF assms(1)])

lemma Ku_renders:
  assumes "themed V p" and "viewer_ok V"
  shows "renders p 0 Ku_css 0"
  by (simp add: Ku_css_def style_scan style_neutral [OF assms(1)])

lemma Gu_renders:
  assumes "themed V p" and "viewer_ok V"
  shows "renders p 0 (Gu_css V) 0"
  by (simp add: Gu_css_def style_scan style_neutral [OF assms(1)] viewer_okD [OF assms(2)]
      neutral_extension [OF assms(1, 2)] Wu_renders [OF assms(1, 2), THEN neutral_RulesI]
      neutral_Gu_style [OF assms(1)])

lemma Qu_renders:
  assumes "themed V p" and "viewer_ok V"
  shows "renders p 0 (Qu_css V) 0"
  by (simp add: Qu_css_def style_scan style_neutral [OF assms(1)] viewer_okD [OF assms(2)]
      neutral_extension [OF assms(1, 2)])

lemma Xu_renders:
  assumes "themed V p" and "viewer_ok V"
  shows "renders p 0 Xu_css 0"
  by (simp add: Xu_css_def style_scan style_neutral [OF assms(1)])

lemma Ju_renders:
  assumes "themed V p" and "viewer_ok V"
  shows "renders p 0 Ju_css 0"
  by (simp add: Ju_css_def style_scan style_neutral [OF assms(1)])

lemma Zu_renders:
  assumes "themed V p" and "viewer_ok V"
  shows "renders p 0 (Zu_css V) 0"
  by (simp add: Zu_css_def style_scan style_neutral [OF assms(1)] viewer_okD [OF assms(2)]
      neutral_extension [OF assms(1, 2)])

end
