(* ===== verification/Styles_Tabs.thy ===== *)
theory Styles_Tabs
  imports Styles_Page
begin

text \<open>
  The styles of the enumerations and the buttons of alternative schemas (\<open>ep\<close> to \<open>op\<close>), of the tabs
  (\<open>Dp\<close> and its small variant), and of highlighted code with its copy buttons (\<open>Lp\<close> to \<open>zp\<close>).

  The template of \<open>tp\<close> closes a block that it does not open: \<open>tp_stray\<close>.
\<close>

section \<open>Labels and buttons\<close>

definition ep_css :: "rule list" where
  "ep_css =
     css
       [S [[],
           ''  margin: 0 0 3px 0;'',
           ''  display: inline-block;'',
           []]]"

definition tp_css :: "rule list" where
  "tp_css =
     css
       [S [[],
           ''  font-size: 0.9em;'',
           ''  margin-right: 10px;'',
           ''  color: ''],
        I (theme_at [''colors'', ''primary'', ''main'']),
        S ['';'', ''  font-family: ''],
        I (theme_at [''typography'', ''headings'', ''fontFamily'']),
        S ['';'', ''}'', []]]"

definition np_css :: "viewer \<Rightarrow> rule list" where
  "np_css V =
     css
       [S [[],
           ''  display: inline-block;'',
           ''  margin-right: 10px;'',
           ''  margin-bottom: 5px;'',
           ''  font-size: 0.8em;'',
           ''  cursor: pointer;'',
           ''  border: 1px solid ''],
        I (theme_at [''colors'', ''primary'', ''main'']),
        S ['';'',
           ''  padding: 2px 10px;'',
           ''  line-height: 1.5em;'',
           ''  outline: none;'',
           ''  &:focus {'',
           ''    box-shadow: 0 0 0 1px ''],
        I (theme_at [''colors'', ''primary'', ''main'']),
        S ['';'',
           ''  }'',
           [],
           ''  ''],
        I (prop_rules ''deprecated'' Wu_css),
        S ['';'', [], ''  ''],
        I (prop_literals ''active''
           [L [[], ''      color: white;'', ''      background-color: ''],
            E (theme_path [''colors'', ''primary'', ''main'']),
            L ['';'',
               ''      &:focus {'',
               ''        box-shadow: none;'',
               ''        background-color: ''],
            E (path_colour (darken V) (Dec 15 2) [''colors'', ''primary'', ''main'']),
            L ['';'', ''      }'', ''      '']]
           [L [[], ''        color: ''],
            E (theme_path [''colors'', ''primary'', ''main'']),
            L ['';'', ''        background-color: white;'', ''      '']]),
        S [[], []]]"

definition rp_css :: "rule list" where
  "rp_css =
     css
       [S [[], ''  font-size: 0.9em;'', ''  font-family: ''],
        I (theme_at [''typography'', ''code'', ''fontFamily'']),
        S ['';'',
           ''  &::after {'',
           ''    content: ' [';'',
           ''  }'',
           []]]"

definition op_css :: "rule list" where
  "op_css =
     css
       [S [[], ''  font-size: 0.9em;'', ''  font-family: ''],
        I (theme_at [''typography'', ''code'', ''fontFamily'']),
        S ['';'',
           ''  &::after {'',
           ''    content: ']';'',
           ''  }'',
           []]]"

section \<open>Tabs\<close>

definition Dp_css :: "viewer \<Rightarrow> rule list" where
  "Dp_css V =
     css
       [S [[],
           ''  > ul {'',
           ''    list-style: none;'',
           ''    padding: 0;'',
           ''    margin: 0;'',
           ''    margin: 0 -5px;'',
           [],
           ''    > li {'',
           ''      padding: 5px 10px;'',
           ''      display: inline-block;'',
           [],
           ''      background-color: ''],
        I (theme_at [''codeBlock'', ''backgroundColor'']),
        S ['';'',
           ''      border-bottom: 1px solid rgba(0, 0, 0, 0.5);'',
           ''      cursor: pointer;'',
           ''      text-align: center;'',
           ''      outline: none;'',
           ''      color: ''],
        I (theme_colour_by (darken V) [''colors'', ''tonalOffset''] [''rightPanel'', ''textColor'']),
        S ['';'', ''      margin: 0'', ''        ''],
        I (arrow (literal
           [E (theme_path [''spacing'', ''unit'']),
            L [''px ''],
            E (theme_path [''spacing'', ''unit'']),
            L [''px ''],
            E (theme_path [''spacing'', ''unit'']),
            L [''px'']])),
        S ['';'', ''      border: 1px solid ''],
        I (theme_colour (darken V) (Dec 5 2) [''codeBlock'', ''backgroundColor'']),
        S ['';'',
           ''      border-radius: 5px;'',
           ''      min-width: 60px;'',
           ''      font-size: 0.9em;'',
           ''      font-weight: bold;'',
           [],
           ''      &.react-tabs__tab--selected {'',
           ''        color: ''],
        I (theme_at [''colors'', ''text'', ''primary'']),
        S ['';'', ''        background: ''],
        I (theme_at [''rightPanel'', ''textColor'']),
        S ['';'',
           ''        &:focus {'',
           ''          outline: auto;'',
           ''        }'',
           ''      }'',
           [],
           ''      &:only-child {'',
           ''        flex: none;'',
           ''        min-width: 100px;'',
           ''      }'',
           [],
           ''      &.tab-success {'',
           ''        color: ''],
        I (theme_at [''colors'', ''responses'', ''success'', ''tabTextColor'']),
        S ['';'',
           ''      }'',
           [],
           ''      &.tab-redirect {'',
           ''        color: ''],
        I (theme_at [''colors'', ''responses'', ''redirect'', ''tabTextColor'']),
        S ['';'',
           ''      }'',
           [],
           ''      &.tab-info {'',
           ''        color: ''],
        I (theme_at [''colors'', ''responses'', ''info'', ''tabTextColor'']),
        S ['';'',
           ''      }'',
           [],
           ''      &.tab-error {'',
           ''        color: ''],
        I (theme_at [''colors'', ''responses'', ''error'', ''tabTextColor'']),
        S ['';'',
           ''      }'',
           ''    }'',
           ''  }'',
           ''  > .react-tabs__tab-panel {'',
           ''    background: ''],
        I (theme_at [''codeBlock'', ''backgroundColor'']),
        S ['';'',
           ''    & > div,'',
           ''    & > pre {'',
           ''      padding: ''],
        I (theme_times 4 [''spacing'', ''unit'']),
        S [''px;'',
           ''      margin: 0;'',
           ''    }'',
           [],
           ''    & > div > pre {'',
           ''      padding: 0;'',
           ''    }'',
           ''  }'',
           []]]"

definition small_tabs_css :: "viewer \<Rightarrow> rule list" where
  "small_tabs_css V =
     css
       [S [[],
           ''  > ul {'',
           ''    display: block;'',
           ''    > li {'',
           ''      padding: 2px 5px;'',
           ''      min-width: auto;'',
           ''      margin: 0 15px 0 0;'',
           ''      font-size: 13px;'',
           ''      font-weight: normal;'',
           ''      border-bottom: 1px dashed;'',
           ''      color: ''],
        I (theme_colour_by (darken V) [''colors'', ''tonalOffset''] [''rightPanel'', ''textColor'']),
        S ['';'',
           ''      border-radius: 0;'',
           ''      background: none;'',
           [],
           ''      &:last-child {'',
           ''        margin-right: 0;'',
           ''      }'',
           [],
           ''      &.react-tabs__tab--selected {'',
           ''        color: ''],
        I (theme_at [''rightPanel'', ''textColor'']),
        S ['';'',
           ''        background: none;'',
           ''      }'',
           ''    }'',
           ''  }'',
           ''  > .react-tabs__tab-panel {'',
           ''    & > div,'',
           ''    & > pre {'',
           ''      padding: ''],
        I (theme_times 2 [''spacing'', ''unit'']),
        S [''px 0;'',
           ''    }'',
           ''  }'',
           []]]"

section \<open>Highlighted code\<close>

definition Lp_css :: "viewer \<Rightarrow> rule list" where
  "Lp_css V =
     css
       [S [[],
           ''  /**'',
           ''  * Based on prism-dark.css'',
           ''  */'',
           [],
           ''  code[class*='language-'],'',
           ''  pre[class*='language-'] {'',
           ''    /* color: white;'',
           ''    background: none; */'',
           ''    text-shadow: 0 -0.1em 0.2em black;'',
           ''    text-align: left;'',
           ''    white-space: pre;'',
           ''    word-spacing: normal;'',
           ''    word-break: normal;'',
           ''    word-wrap: normal;'',
           ''    line-height: 1.5;'',
           [],
           ''    -moz-tab-size: 4;'',
           ''    -o-tab-size: 4;'',
           ''    tab-size: 4;'',
           [],
           ''    -webkit-hyphens: none;'',
           ''    -moz-hyphens: none;'',
           ''    -ms-hyphens: none;'',
           ''    hyphens: none;'',
           ''  }'',
           [],
           ''  @media print {'',
           ''    code[class*='language-'],'',
           ''    pre[class*='language-'] {'',
           ''      text-shadow: none;'',
           ''    }'',
           ''  }'',
           [],
           ''  /* Code blocks */'',
           ''  pre[class*='language-'] {'',
           ''    padding: 1em;'',
           ''    margin: 0.5em 0;'',
           ''    overflow: auto;'',
           ''  }'',
           [],
           ''  .token.comment,'',
           ''  .token.prolog,'',
           ''  .token.doctype,'',
           ''  .token.cdata {'',
           ''    color: hsl(30, 20%, 50%);'',
           ''  }'',
           [],
           ''  .token.punctuation {'',
           ''    opacity: 0.7;'',
           ''  }'',
           [],
           ''  .namespace {'',
           ''    opacity: 0.7;'',
           ''  }'',
           [],
           ''  .token.property,'',
           ''  .token.tag,'',
           ''  .token.number,'',
           ''  .token.constant,'',
           ''  .token.symbol {'',
           ''    color: #4a8bb3;'',
           ''  }'',
           [],
           ''  .token.boolean {'',
           ''    color: #e64441;'',
           ''  }'',
           [],
           ''  .token.selector,'',
           ''  .token.attr-name,'',
           ''  .token.string,'',
           ''  .token.char,'',
           ''  .token.builtin,'',
           ''  .token.inserted {'',
           ''    color: #a0fbaa;'',
           ''    & + a,'',
           ''    & + a:visited {'',
           ''      color: #4ed2ba;'',
           ''      text-decoration: underline;'',
           ''    }'',
           ''  }'',
           [],
           ''  .token.property.string {'',
           ''    color: white;'',
           ''  }'',
           [],
           ''  .token.operator,'',
           ''  .token.entity,'',
           ''  .token.url,'',
           ''  .token.variable {'',
           ''    color: hsl(40, 90%, 60%);'',
           ''  }'',
           [],
           ''  .token.atrule,'',
           ''  .token.attr-value,'',
           ''  .token.keyword {'',
           ''    color: hsl(350, 40%, 70%);'',
           ''  }'',
           [],
           ''  .token.regex,'',
           ''  .token.important {'',
           ''    color: #e90;'',
           ''  }'',
           [],
           ''  .token.important,'',
           ''  .token.bold {'',
           ''    font-weight: bold;'',
           ''  }'',
           ''  .token.italic {'',
           ''    font-style: italic;'',
           ''  }'',
           [],
           ''  .token.entity {'',
           ''    cursor: help;'',
           ''  }'',
           [],
           ''  .token.deleted {'',
           ''    color: red;'',
           ''  }'',
           [],
           ''  ''],
        I (extension V ''Prism''),
        S ['';'', []]]"

definition Mp_css :: "rule list" where
  "Mp_css =
     css
       [S [[],
           ''  opacity: 0.7;'',
           ''  transition: opacity 0.3s ease;'',
           ''  text-align: right;'',
           ''  &:focus-within {'',
           ''    opacity: 1;'',
           ''  }'',
           ''  > button {'',
           ''    background-color: transparent;'',
           ''    border: 0;'',
           ''    color: inherit;'',
           ''    padding: 2px 10px;'',
           ''    font-family: ''],
        I (theme_at [''typography'', ''fontFamily'']),
        S ['';'', ''    font-size: ''],
        I (theme_at [''typography'', ''fontSize'']),
        S ['';'', ''    line-height: ''],
        I (theme_at [''typography'', ''lineHeight'']),
        S ['';'',
           ''    cursor: pointer;'',
           ''    outline: 0;'',
           [],
           ''    :hover,'',
           ''    :focus {'',
           ''      background: rgba(255, 255, 255, 0.1);'',
           ''    }'',
           ''  }'',
           []]]"

definition Fp_css :: "viewer \<Rightarrow> rule list" where
  "Fp_css V =
     css
       [S [[], ''  &:hover ''],
        I (Component (class_id V ''Mp'')),
        S ['' {'',
           ''    opacity: 1;'',
           ''  }'',
           []]]"

definition zp_css :: "rule list" where
  "zp_css =
     css
       [S [[], ''  font-family: ''],
        I (theme_at [''typography'', ''code'', ''fontFamily'']),
        S ['';'', ''  font-size: ''],
        I (theme_at [''typography'', ''code'', ''fontSize'']),
        S ['';'',
           ''  overflow-x: auto;'',
           ''  margin: 0;'',
           [],
           ''  white-space: ''],
        I (theme_if [''typography'', ''code'', ''wrap''] ''pre-wrap'' ''pre''),
        S ['';'', []]]"

section \<open>The styles render to balanced texts\<close>

lemma ep_renders:
  assumes "themed V p" and "viewer_ok V"
  shows "renders p 0 ep_css 0"
  by (simp add: ep_css_def style_scan style_neutral [OF assms(1)])

lemma np_renders:
  assumes "themed V p" and "viewer_ok V"
  shows "renders p 0 (np_css V) 0"
  by (simp add: np_css_def style_scan style_neutral [OF assms(1)] viewer_okD [OF assms(2)]
      neutral_extension [OF assms(1, 2)] Wu_renders [OF assms(1, 2), THEN neutral_RulesI]
      Wu_renders [OF assms(1, 2)])

lemma rp_renders:
  assumes "themed V p" and "viewer_ok V"
  shows "renders p 0 rp_css 0"
  by (simp add: rp_css_def style_scan style_neutral [OF assms(1)])

lemma op_renders:
  assumes "themed V p" and "viewer_ok V"
  shows "renders p 0 op_css 0"
  by (simp add: op_css_def style_scan style_neutral [OF assms(1)])

lemma Dp_renders:
  assumes "themed V p" and "viewer_ok V"
  shows "renders p 0 (Dp_css V) 0"
  by (simp add: Dp_css_def style_scan style_neutral [OF assms(1)] viewer_okD [OF assms(2)]
      neutral_extension [OF assms(1, 2)])

lemma small_tabs_renders:
  assumes "themed V p" and "viewer_ok V"
  shows "renders p 0 (small_tabs_css V) 0"
  by (simp add: small_tabs_css_def style_scan style_neutral [OF assms(1)]
      viewer_okD [OF assms(2)] neutral_extension [OF assms(1, 2)])

lemma Lp_renders:
  assumes "themed V p" and "viewer_ok V"
  shows "renders p 0 (Lp_css V) 0"
  by (simp add: Lp_css_def style_scan style_neutral [OF assms(1)] viewer_okD [OF assms(2)]
      neutral_extension [OF assms(1, 2)])

lemma Mp_renders:
  assumes "themed V p" and "viewer_ok V"
  shows "renders p 0 Mp_css 0"
  by (simp add: Mp_css_def style_scan style_neutral [OF assms(1)])

lemma Fp_renders:
  assumes "themed V p" and "viewer_ok V"
  shows "renders p 0 (Fp_css V) 0"
  by (simp add: Fp_css_def style_scan style_neutral [OF assms(1)] viewer_okD [OF assms(2)]
      neutral_extension [OF assms(1, 2)])

lemma zp_renders:
  assumes "themed V p" and "viewer_ok V"
  shows "renders p 0 zp_css 0"
  by (simp add: zp_css_def style_scan style_neutral [OF assms(1)])

lemma tp_stray:
  assumes "themed V p"
  shows "stray p 0 tp_css"
  by (simp add: tp_css_def style_stray style_neutral [OF assms])

end
