(* ===== verification/Styles_Markdown.thy ===== *)
theory Styles_Markdown
  imports Styles_Page
begin

text \<open>
  The styles of the drop-down boxes (\<open>Sd\<close> to \<open>jd\<close>), of links and rendered Markdown (\<open>Cf\<close>, \<open>Rf\<close>)
  and of the tooltip (\<open>zf\<close> to \<open>qf\<close>).
\<close>

section \<open>Drop-down boxes\<close>

definition Sd_css :: "rule list" where
  "Sd_css =
     css
       [S [[], ''  position: relative;'', []]]"

definition Ad_css :: "rule list" where
  "Ad_css =
     css
       [S [[],
           ''  position: absolute;'',
           ''  pointer-events: none;'',
           ''  z-index: 1;'',
           ''  top: 50%;'',
           ''  -webkit-transform: translateY(-50%);'',
           ''  -ms-transform: translateY(-50%);'',
           ''  transform: translateY(-50%);'',
           ''  right: 8px;'',
           ''  margin: auto;'',
           ''  text-align: center;'',
           ''  polyline {'',
           ''    color: ''],
        I (prop_is ''variant'' ''dark'' ''white''),
        S ['';'', ''  }'', []]]"

definition Cd_css :: "rule list" where
  "Cd_css =
     css
       [S [[],
           ''  label {'',
           ''    box-sizing: border-box;'',
           ''    min-width: 100px;'',
           ''    outline: none;'',
           ''    display: inline-block;'',
           ''    font-family: ''],
        I (theme_at [''typography'', ''headings'', ''fontFamily'']),
        S ['';'', ''    color: ''],
        I (theme_at [''colors'', ''text'', ''primary'']),
        S ['';'', ''    vertical-align: bottom;'', ''    width: ''],
        I (prop_if ''fullWidth'' ''100%'' ''auto''),
        S ['';'',
           ''    text-transform: none;'',
           ''    padding: 0 22px 0 4px;'',
           [],
           ''    font-size: 0.929em;'',
           ''    line-height: 1.5em;'',
           ''    font-family: inherit;'',
           ''    text-overflow: ellipsis;'',
           ''    overflow: hidden;'',
           ''    white-space: nowrap;'',
           ''  }'',
           ''  .dropdown-select {'',
           ''    position: absolute;'',
           ''    top: 0;'',
           ''    left: 0;'',
           ''    width: 100%;'',
           ''    height: 100%;'',
           ''    opacity: 0;'',
           ''    border: none;'',
           ''    appearance: none;'',
           ''    cursor: pointer;'',
           [],
           ''    color: ''],
        I (theme_at [''colors'', ''text'', ''primary'']),
        S ['';'',
           ''    line-height: inherit;'',
           ''    font-family: inherit;'',
           ''  }'',
           ''  box-sizing: border-box;'',
           ''  min-width: 100px;'',
           ''  outline: none;'',
           ''  display: inline-block;'',
           ''  border-radius: 2px;'',
           ''  border: 1px solid rgba(38, 50, 56, 0.5);'',
           ''  vertical-align: bottom;'',
           ''  padding: 2px 0px 2px 6px;'',
           ''  position: relative;'',
           ''  width: auto;'',
           ''  background: white;'',
           ''  color: #263238;'',
           ''  font-family: ''],
        I (theme_at [''typography'', ''headings'', ''fontFamily'']),
        S ['';'',
           ''  font-size: 0.929em;'',
           ''  line-height: 1.5em;'',
           ''  cursor: pointer;'',
           ''  transition: border 0.25s ease, color 0.25s ease, box-shadow 0.25s ease;'',
           [],
           ''  &:hover,'',
           ''  &:focus-within {'',
           ''    border: 1px solid ''],
        I (theme_at [''colors'', ''primary'', ''main'']),
        S ['';'', ''    color: ''],
        I (theme_at [''colors'', ''primary'', ''main'']),
        S ['';'', ''    box-shadow: 0px 0px 0px 1px ''],
        I (theme_at [''colors'', ''primary'', ''main'']),
        S ['';'', ''  }'', []]]"

definition Rd_css :: "rule list" where
  "Rd_css =
     css
       [S [[],
           ''  margin-left: 10px;'',
           ''  text-transform: none;'',
           ''  font-size: 0.969em;'',
           [],
           ''  font-size: 1em;'',
           ''  border: none;'',
           ''  padding: 0 1.2em 0 0;'',
           ''  background: transparent;'',
           [],
           ''  &:hover,'',
           ''  &:focus-within {'',
           ''    border: none;'',
           ''    box-shadow: none;'',
           ''    label {'',
           ''      color: ''],
        I (theme_at [''colors'', ''primary'', ''main'']),
        S ['';'', ''      text-shadow: 0px 0px 0px ''],
        I (theme_at [''colors'', ''primary'', ''main'']),
        S ['';'',
           ''    }'',
           ''  }'',
           []]]"

definition jd_css :: "rule list" where
  "jd_css =
     css
       [S [[],
           ''  margin-left: 10px;'',
           ''  text-transform: none;'',
           ''  font-size: 0.929em;'',
           ''  color: black;'',
           []]]"

section \<open>Markdown\<close>

definition Cf_css :: "rule list" where
  "Cf_css =
     css
       [S [[], ''  a {'', ''    text-decoration: ''],
        I (theme_at [''typography'', ''links'', ''textDecoration'']),
        S ['';'', ''    color: ''],
        I (theme_at [''typography'', ''links'', ''color'']),
        S ['';'',
           [],
           ''    &:visited {'',
           ''      color: ''],
        I (theme_at [''typography'', ''links'', ''visited'']),
        S ['';'',
           ''    }'',
           [],
           ''    &:hover {'',
           ''      color: ''],
        I (theme_at [''typography'', ''links'', ''hover'']),
        S ['';'', ''      text-decoration: ''],
        I (theme_at [''typography'', ''links'', ''hoverTextDecoration'']),
        S ['';'',
           ''    }'',
           ''  }'',
           []]]"

definition Rf_css :: "viewer \<Rightarrow> rule list" where
  "Rf_css V =
     css
       [S [[], ''  font-family: ''],
        I (theme_at [''typography'', ''fontFamily'']),
        S ['';'', ''  font-weight: ''],
        I (theme_at [''typography'', ''fontWeightRegular'']),
        S ['';'', ''  line-height: ''],
        I (theme_at [''typography'', ''lineHeight'']),
        S ['';'',
           [],
           ''  p {'',
           ''    &:last-child {'',
           ''      margin-bottom: 0;'',
           ''    }'',
           ''  }'',
           [],
           ''  ''],
        I (prop_and ''compact'' (join_lines
             [[],
              ''    p:first-child {'',
              ''      margin-top: 0;'',
              ''    }'',
              ''    p:last-child {'',
              ''      margin-bottom: 0;'',
              ''    }'',
              ''  ''])),
        S [[], [], ''  ''],
        I (prop_and ''inline'' (join_lines
             ['' p {'', ''    display: inline-block;'', ''  }''])),
        S [[],
           [],
           ''  h1 {'',
           ''    ''],
        I (Rules (Cu_css 1)),
        S ['';'', ''    color: ''],
        I (theme_at [''colors'', ''primary'', ''main'']),
        S ['';'',
           ''    margin-top: 0;'',
           ''  }'',
           [],
           ''  h2 {'',
           ''    ''],
        I (Rules (Cu_css 2)),
        S ['';'', ''    color: ''],
        I (theme_at [''colors'', ''text'', ''primary'']),
        S ['';'',
           ''  }'',
           [],
           ''  code {'',
           ''    color: ''],
        I (theme_at [''typography'', ''code'', ''color'']),
        S ['';'', ''    background-color: ''],
        I (theme_at [''typography'', ''code'', ''backgroundColor'']),
        S ['';'', [], ''    font-family: ''],
        I (theme_at [''typography'', ''code'', ''fontFamily'']),
        S ['';'',
           ''    border-radius: 2px;'',
           ''    border: 1px solid rgba(38, 50, 56, 0.1);'',
           ''    padding: 0 ''],
        I (theme_at [''spacing'', ''unit'']),
        S [''px;'', ''    font-size: ''],
        I (theme_at [''typography'', ''code'', ''fontSize'']),
        S ['';'', ''    font-weight: ''],
        I (theme_at [''typography'', ''code'', ''fontWeight'']),
        S ['';'',
           [],
           ''    word-break: break-word;'',
           ''  }'',
           [],
           ''  pre {'',
           ''    font-family: ''],
        I (theme_at [''typography'', ''code'', ''fontFamily'']),
        S ['';'', ''    white-space: ''],
        I (theme_if [''typography'', ''code'', ''wrap''] ''pre-wrap'' ''pre''),
        S ['';'', ''    background-color: ''],
        I (theme_at [''codeBlock'', ''backgroundColor'']),
        S ['';'', ''    color: white;'', ''    padding: ''],
        I (theme_times 4 [''spacing'', ''unit'']),
        S [''px;'',
           ''    overflow-x: auto;'',
           ''    line-height: normal;'',
           ''    border-radius: 0px;'',
           ''    border: 1px solid rgba(38, 50, 56, 0.1);'',
           [],
           ''    code {'',
           ''      background-color: transparent;'',
           ''      color: white;'',
           ''      padding: 0;'',
           [],
           ''      &:before,'',
           ''      &:after {'',
           ''        content: none;'',
           ''      }'',
           ''    }'',
           ''  }'',
           [],
           ''  blockquote {'',
           ''    margin: 0;'',
           ''    margin-bottom: 1em;'',
           ''    padding: 0 15px;'',
           ''    color: #777;'',
           ''    border-left: 4px solid #ddd;'',
           ''  }'',
           [],
           ''  img {'',
           ''    max-width: 100%;'',
           ''    box-sizing: content-box;'',
           ''  }'',
           [],
           ''  ul,'',
           ''  ol {'',
           ''    padding-left: 2em;'',
           ''    margin: 0;'',
           ''    margin-bottom: 1em;'',
           [],
           ''    ul,'',
           ''    ol {'',
           ''      margin-bottom: 0;'',
           ''      margin-top: 0;'',
           ''    }'',
           ''  }'',
           [],
           ''  table {'',
           ''    display: block;'',
           ''    width: 100%;'',
           ''    overflow: auto;'',
           ''    word-break: normal;'',
           ''    word-break: keep-all;'',
           ''    border-collapse: collapse;'',
           ''    border-spacing: 0;'',
           ''    margin-top: 1.5em;'',
           ''    margin-bottom: 1.5em;'',
           ''  }'',
           [],
           ''  table tr {'',
           ''    background-color: #fff;'',
           ''    border-top: 1px solid #ccc;'',
           [],
           ''    &:nth-child(2n) {'',
           ''      background-color: ''],
        I (theme_at [''schema'', ''nestedBackground'']),
        S ['';'',
           ''    }'',
           ''  }'',
           [],
           ''  table th,'',
           ''  table td {'',
           ''    padding: 6px 13px;'',
           ''    border: 1px solid #ddd;'',
           ''  }'',
           [],
           ''  table th {'',
           ''    text-align: left;'',
           ''    font-weight: bold;'',
           ''  }'',
           [],
           ''  ''],
        I (Rules (Fu_css ''.share-link'')),
        S ['';'', [], ''  ''],
        I (Rules Cf_css),
        S [[], [], ''  ''],
        I (extension V ''Markdown''),
        S ['';'', []]]"

section \<open>Tooltip\<close>

definition zf_css :: "rule list" where
  "zf_css =
     css
       [S [[], ''  position: relative;'', []]]"

definition Uf_css :: "rule list" where
  "Uf_css =
     css
       [S [[],
           ''  position: absolute;'',
           ''  min-width: 80px;'',
           ''  max-width: 500px;'',
           ''  background: #fff;'',
           ''  bottom: 100%;'',
           ''  left: 50%;'',
           ''  margin-bottom: 10px;'',
           ''  transform: translateX(-50%);'',
           [],
           ''  border-radius: 4px;'',
           ''  padding: 0.3em 0.6em;'',
           ''  text-align: center;'',
           ''  box-shadow: 0px 0px 5px 0px rgba(204, 204, 204, 1);'',
           []]]"

definition Vf_css :: "rule list" where
  "Vf_css =
     css
       [S [[],
           ''  background: #fff;'',
           ''  color: #000;'',
           ''  display: inline;'',
           ''  font-size: 0.85em;'',
           ''  white-space: nowrap;'',
           []]]"

definition Bf_css :: "rule list" where
  "Bf_css =
     css
       [S [[],
           ''  position: absolute;'',
           ''  width: 0;'',
           ''  height: 0;'',
           ''  bottom: -5px;'',
           ''  left: 50%;'',
           ''  margin-left: -5px;'',
           ''  border-left: solid transparent 5px;'',
           ''  border-right: solid transparent 5px;'',
           ''  border-top: solid #fff 5px;'',
           []]]"

definition qf_css :: "rule list" where
  "qf_css =
     css
       [S [[],
           ''  position: absolute;'',
           ''  width: 100%;'',
           ''  height: 20px;'',
           ''  bottom: -20px;'',
           []]]"

section \<open>The styles render to balanced texts\<close>

lemma Sd_renders:
  assumes "themed V p" and "viewer_ok V"
  shows "renders p 0 Sd_css 0"
  by (simp add: Sd_css_def style_scan style_neutral [OF assms(1)])

lemma Ad_renders:
  assumes "themed V p" and "viewer_ok V"
  shows "renders p 0 Ad_css 0"
  by (simp add: Ad_css_def style_scan style_neutral [OF assms(1)])

lemma Cd_renders:
  assumes "themed V p" and "viewer_ok V"
  shows "renders p 0 Cd_css 0"
  by (simp add: Cd_css_def style_scan style_neutral [OF assms(1)])

lemma Rd_renders:
  assumes "themed V p" and "viewer_ok V"
  shows "renders p 0 Rd_css 0"
  by (simp add: Rd_css_def style_scan style_neutral [OF assms(1)])

lemma jd_renders:
  assumes "themed V p" and "viewer_ok V"
  shows "renders p 0 jd_css 0"
  by (simp add: jd_css_def style_scan style_neutral [OF assms(1)])

lemma Cf_renders:
  assumes "themed V p" and "viewer_ok V"
  shows "renders p 0 Cf_css 0"
  by (simp add: Cf_css_def style_scan style_neutral [OF assms(1)])

lemma Rf_renders:
  assumes "themed V p" and "viewer_ok V"
  shows "renders p 0 (Rf_css V) 0"
  by (simp add: Rf_css_def style_scan style_neutral [OF assms(1)] viewer_okD [OF assms(2)]
      neutral_extension [OF assms(1, 2)] Cf_renders [OF assms(1, 2), THEN neutral_RulesI]
      Cu_renders [OF assms(1, 2), THEN neutral_RulesI]
      Fu_renders [OF assms(1, 2), THEN neutral_RulesI])

lemma zf_renders:
  assumes "themed V p" and "viewer_ok V"
  shows "renders p 0 zf_css 0"
  by (simp add: zf_css_def style_scan style_neutral [OF assms(1)])

lemma Uf_renders:
  assumes "themed V p" and "viewer_ok V"
  shows "renders p 0 Uf_css 0"
  by (simp add: Uf_css_def style_scan style_neutral [OF assms(1)])

lemma Vf_renders:
  assumes "themed V p" and "viewer_ok V"
  shows "renders p 0 Vf_css 0"
  by (simp add: Vf_css_def style_scan style_neutral [OF assms(1)])

lemma Bf_renders:
  assumes "themed V p" and "viewer_ok V"
  shows "renders p 0 Bf_css 0"
  by (simp add: Bf_css_def style_scan style_neutral [OF assms(1)])

lemma qf_renders:
  assumes "themed V p" and "viewer_ok V"
  shows "renders p 0 qf_css 0"
  by (simp add: qf_css_def style_scan style_neutral [OF assms(1)])

end
