(* ===== verification/Styles_Samples.thy ===== *)
theory Styles_Samples
  imports Styles_Markdown
begin

text \<open>
  The styles of request and response samples: the collapsible JSON text (\<open>nh\<close> to \<open>oh\<close>) and the
  selection of media types and examples (\<open>uh\<close> to \<open>gh\<close>).
\<close>

section \<open>JSON\<close>

definition nh_css :: "rule list" where
  "nh_css =
     css
       [S [[],
           ''  .redoc-json code > .collapser {'',
           ''    display: none;'',
           ''    pointer-events: none;'',
           ''  }'',
           [],
           ''  font-family: ''],
        I (theme_at [''typography'', ''code'', ''fontFamily'']),
        S ['';'', ''  font-size: ''],
        I (theme_at [''typography'', ''code'', ''fontSize'']),
        S ['';'', [], ''  white-space: ''],
        I (theme_if [''typography'', ''code'', ''wrap''] ''pre-wrap'' ''pre''),
        S ['';'',
           ''  contain: content;'',
           ''  overflow-x: auto;'',
           [],
           ''  .callback-function {'',
           ''    color: gray;'',
           ''  }'',
           [],
           ''  .collapser:after {'',
           ''    content: '-';'',
           ''    cursor: pointer;'',
           ''  }'',
           [],
           ''  .collapsed > .collapser:after {'',
           ''    content: '+';'',
           ''    cursor: pointer;'',
           ''  }'',
           [],
           ''  .ellipsis:after {'',
           ''    content: ' '' @ [CHR 0xE2, CHR 0x80, CHR 0xA6] @ '' ';'',
           ''  }'',
           [],
           ''  .collapsible {'',
           ''    margin-left: 2em;'',
           ''  }'',
           [],
           ''  .hoverable {'',
           ''    padding-top: 1px;'',
           ''    padding-bottom: 1px;'',
           ''    padding-left: 2px;'',
           ''    padding-right: 2px;'',
           ''    border-radius: 2px;'',
           ''  }'',
           [],
           ''  .hovered {'',
           ''    background-color: rgba(235, 238, 249, 1);'',
           ''  }'',
           [],
           ''  .collapser {'',
           ''    background-color: transparent;'',
           ''    border: 0;'',
           ''    color: #fff;'',
           ''    font-family: ''],
        I (theme_at [''typography'', ''code'', ''fontFamily'']),
        S ['';'', ''    font-size: ''],
        I (theme_at [''typography'', ''code'', ''fontSize'']),
        S ['';'',
           ''    padding-right: 6px;'',
           ''    padding-left: 6px;'',
           ''    padding-top: 0;'',
           ''    padding-bottom: 0;'',
           ''    display: flex;'',
           ''    align-items: center;'',
           ''    justify-content: center;'',
           ''    width: 15px;'',
           ''    height: 15px;'',
           ''    position: absolute;'',
           ''    top: 4px;'',
           ''    left: -1.5em;'',
           ''    cursor: default;'',
           ''    user-select: none;'',
           ''    -webkit-user-select: none;'',
           ''    padding: 2px;'',
           ''    &:focus {'',
           ''      outline-color: #fff;'',
           ''      outline-style: dotted;'',
           ''      outline-width: 1px;'',
           ''    }'',
           ''  }'',
           [],
           ''  ul {'',
           ''    list-style-type: none;'',
           ''    padding: 0px;'',
           ''    margin: 0px 0px 0px 26px;'',
           ''  }'',
           [],
           ''  li {'',
           ''    position: relative;'',
           ''    display: block;'',
           ''  }'',
           [],
           ''  .hoverable {'',
           ''    display: inline-block;'',
           ''  }'',
           [],
           ''  .selected {'',
           ''    outline-style: solid;'',
           ''    outline-width: 1px;'',
           ''    outline-style: dotted;'',
           ''  }'',
           [],
           ''  .collapsed > .collapsible {'',
           ''    display: none;'',
           ''  }'',
           [],
           ''  .ellipsis {'',
           ''    display: none;'',
           ''  }'',
           [],
           ''  .collapsed > .ellipsis {'',
           ''    display: inherit;'',
           ''  }'',
           []]]"

definition rh_css :: "viewer \<Rightarrow> rule list" where
  "rh_css V =
     css
       [S [[], ''  &:hover > ''],
        I (Component (class_id V ''Mp'')),
        S ['' {'',
           ''    opacity: 1;'',
           ''  }'',
           []]]"

definition oh_css :: "rule list" where
  "oh_css =
     css
       [S [[], ''  ''],
        I (Rules nh_css),
        S ['';'', []]]"

section \<open>Media types\<close>

definition uh_css :: "viewer \<Rightarrow> rule list" where
  "uh_css V =
     css
       [S [[], ''  padding: 0.9em;'', ''  background-color: ''],
        I (theme_colour (transparentize V) (Dec 6 1) [''rightPanel'', ''backgroundColor'']),
        S ['';'',
           ''  margin: 0 0 10px 0;'',
           ''  display: block;'',
           ''  font-family: ''],
        I (theme_at [''typography'', ''headings'', ''fontFamily'']),
        S ['';'',
           ''  font-size: 0.929em;'',
           ''  line-height: 1.5em;'',
           []]]"

definition ph_css :: "viewer \<Rightarrow> rule list" where
  "ph_css V =
     css
       [S [[], ''  font-family: ''],
        I (theme_at [''typography'', ''headings'', ''fontFamily'']),
        S ['';'',
           ''  font-size: 12px;'',
           ''  position: absolute;'',
           ''  z-index: 1;'',
           ''  top: -11px;'',
           ''  left: 12px;'',
           ''  font-weight: ''],
        I (theme_at [''typography'', ''fontWeightBold'']),
        S ['';'', ''  color: ''],
        I (theme_colour (transparentize V) (Dec 3 1) [''rightPanel'', ''textColor'']),
        S ['';'', []]]"

definition dh_css :: "rule list" where
  "dh_css =
     css
       [S [[], ''  position: relative;'', []]]"

definition fh_css :: "viewer \<Rightarrow> rule list" where
  "fh_css V =
     css
       [S [[], ''  label {'', ''    color: ''],
        I (theme_at [''rightPanel'', ''textColor'']),
        S ['';'',
           ''    text-overflow: ellipsis;'',
           ''    white-space: nowrap;'',
           ''    overflow: hidden;'',
           ''    font-size: 1em;'',
           ''    text-transform: none;'',
           ''    border: none;'',
           ''  }'',
           ''  margin: 0 0 10px 0;'',
           ''  display: block;'',
           ''  background-color: ''],
        I (theme_colour (transparentize V) (Dec 6 1) [''rightPanel'', ''backgroundColor'']),
        S ['';'',
           ''  border: none;'',
           ''  padding: 0.9em 1.6em 0.9em 0.9em;'',
           ''  box-shadow: none;'',
           ''  &:hover,'',
           ''  &:focus-within {'',
           ''    border: none;'',
           ''    box-shadow: none;'',
           ''    background-color: ''],
        I (theme_colour (transparentize V) (Dec 3 1) [''rightPanel'', ''backgroundColor'']),
        S ['';'', ''  }'', []]]"

definition hh_css :: "rule list" where
  "hh_css =
     css
       [S [[], ''  font-family: ''],
        I (theme_at [''typography'', ''code'', ''fontFamily'']),
        S ['';'',
           ''  font-size: 12px;'',
           ''  color: #ee807f;'',
           []]]"

definition gh_css :: "rule list" where
  "gh_css =
     css
       [S [[], ''  margin-top: 15px;'', []]]"

section \<open>The styles render to balanced texts\<close>

lemma nh_renders:
  assumes "themed V p" and "viewer_ok V"
  shows "renders p 0 nh_css 0"
  by (simp add: nh_css_def style_scan style_neutral [OF assms(1)])

lemma rh_renders:
  assumes "themed V p" and "viewer_ok V"
  shows "renders p 0 (rh_css V) 0"
  by (simp add: rh_css_def style_scan style_neutral [OF assms(1)] viewer_okD [OF assms(2)]
      neutral_extension [OF assms(1, 2)])

lemma oh_renders:
  assumes "themed V p" and "viewer_ok V"
  shows "renders p 0 oh_css 0"
  by (simp add: oh_css_def style_scan style_neutral [OF assms(1)]
      nh_renders [OF assms(1, 2), THEN neutral_RulesI])

lemma uh_renders:
  assumes "themed V p" and "viewer_ok V"
  shows "renders p 0 (uh_css V) 0"
  by (simp add: uh_css_def style_scan style_neutral [OF assms(1)] viewer_okD [OF assms(2)]
      neutral_extension [OF assms(1, 2)])

lemma ph_renders:
  assumes "themed V p" and "viewer_ok V"
  shows "renders p 0 (ph_css V) 0"
  by (simp add: ph_css_def style_scan style_neutral [OF assms(1)] viewer_okD [OF assms(2)]
      neutral_extension [OF assms(1, 2)])

lemma dh_renders:
  assumes "themed V p" and "viewer_ok V"
  shows "renders p 0 dh_css 0"
  by (simp add: dh_css_def style_scan style_neutral [OF assms(1)])

lemma fh_renders:
  assumes "themed V p" and "viewer_ok V"
  shows "renders p 0 (fh_css V) 0"
  by (simp add: fh_css_def style_scan style_neutral [OF assms(1)] viewer_okD [OF assms(2)]
      neutral_extension [OF assms(1, 2)])

lemma hh_renders:
  assumes "themed V p" and "viewer_ok V"
  shows "renders p 0 hh_css 0"
  by (simp add: hh_css_def style_scan style_neutral [OF assms(1)])

lemma gh_renders:
  assumes "themed V p" and "viewer_ok V"
  shows "renders p 0 gh_css 0"
  by (simp add: gh_css_def style_scan style_neutral [OF assms(1)])

end
