(* ===== verification/Styles_Schema.thy ===== *)
theory Styles_Schema
  imports Styles_Markdown
begin

text \<open>
  The styles of the fields of a schema: the name cell with its button (\<open>am\<close>), the types, labels and
  example values of a field (\<open>sm\<close> to \<open>bm\<close>), external documentation, enumerations and extensions
  (\<open>wm\<close> to \<open>jm\<close>), and the schema of the middle panel (\<open>og\<close>, \<open>Dg\<close>).

  The interpolated blocks of \<open>gm\<close> and \<open>vm\<close> end in a brace that nothing opens: \<open>gm_stray\<close>,
  \<open>vm_stray\<close>.
\<close>

section \<open>Fields\<close>

definition am_css :: "viewer \<Rightarrow> rule list" where
  "am_css V =
     css
       [S [[],
           ''  button {'',
           ''    background-color: transparent;'',
           ''    border: 0;'',
           ''    outline: 0;'',
           ''    font-size: 13px;'',
           ''    font-family: ''],
        I (theme_at [''typography'', ''code'', ''fontFamily'']),
        S ['';'',
           ''    cursor: pointer;'',
           ''    padding: 0;'',
           ''    color: ''],
        I (theme_at [''colors'', ''text'', ''primary'']),
        S ['';'', ''    &:focus {'', ''      font-weight: ''],
        I (theme_at [''typography'', ''fontWeightBold'']),
        S ['';'', ''    }'', ''    ''],
        I (prop_is_rules ''kind'' ''patternProperties''
           (css [S [[],
                    ''        display: inline-flex;'',
                    ''        margin-right: 20px;'',
                    [],
                    ''        > span.property-name {'',
                    ''          white-space: break-spaces;'',
                    ''          text-align: left;'',
                    [],
                    ''          ::before,'',
                    ''          ::after {'',
                    ''            content: '/';'',
                    ''            filter: opacity(0.2);'',
                    ''          }'',
                    ''        }'',
                    [],
                    ''        > svg {'',
                    ''          align-self: center;'',
                    ''        }'',
                    ''      '']])),
        S [[], ''  }'', ''  ''],
        I (Component (class_id V ''Bu'')),
        S ['' {'', ''    height: ''],
        I (theme_at [''schema'', ''arrow'', ''size'']),
        S ['';'', ''    width: ''],
        I (theme_at [''schema'', ''arrow'', ''size'']),
        S ['';'', ''    polygon {'', ''      fill: ''],
        I (theme_at [''schema'', ''arrow'', ''color'']),
        S ['';'',
           ''    }'',
           ''  }'',
           []]]"

definition sm_css :: "rule list" where
  "sm_css =
     css
       [S [[], ''  vertical-align: middle;'', ''  font-size: ''],
        I (theme_at [''typography'', ''code'', ''fontSize'']),
        S ['';'', ''  line-height: 20px;'', []]]"

definition lm_css :: "viewer \<Rightarrow> rule list" where
  "lm_css V =
     css
       [S [[], ''  color: ''],
        I (theme_colour (transparentize V) (Dec 1 1) [''schema'', ''typeNameColor'']),
        S ['';'', []]]"

definition cm_css :: "rule list" where
  "cm_css =
     css
       [S [[], ''  color: ''],
        I (theme_at [''schema'', ''typeNameColor'']),
        S ['';'', []]]"

definition um_css :: "rule list" where
  "um_css =
     css
       [S [[], ''  color: ''],
        I (theme_at [''schema'', ''typeTitleColor'']),
        S ['';'', ''  word-break: break-word;'', []]]"

definition dm_css :: "rule list" where
  "dm_css =
     css
       [S [[], ''  color: ''],
        I (theme_at [''schema'', ''requireLabelColor'']),
        S ['';'', ''  font-size: ''],
        I (theme_at [''schema'', ''labelsTextSize'']),
        S ['';'',
           ''  font-weight: normal;'',
           ''  margin-left: 20px;'',
           ''  line-height: 1;'',
           []]]"

definition fm_css :: "rule list" where
  "fm_css =
     css
       [S [[], ''  color: ''],
        I (theme_at [''colors'', ''primary'', ''light'']),
        S ['';'', []]]"

definition hm_css :: "rule list" where
  "hm_css =
     css
       [S [[], ''  color: ''],
        I (theme_at [''colors'', ''warning'', ''main'']),
        S ['';'', ''  font-size: 13px;'', []]]"

definition mm_css :: "rule list" where
  "mm_css =
     css
       [S [[],
           ''  color: #0e7c86;'',
           ''  &::before,'',
           ''  &::after {'',
           ''    font-weight: bold;'',
           ''  }'',
           []]]"

section \<open>Example values\<close>

definition gm_css :: "viewer \<Rightarrow> rule list" where
  "gm_css V =
     css
       [S [[],
           ''  border-radius: 2px;'',
           ''  word-break: break-word;'',
           ''  ''],
        I (arrow (literal
           [L [[], ''    background-color: ''],
            E (path_colour (transparentize V) (Dec 95 2) [''colors'', ''text'', ''primary'']),
            L ['';'', ''    color: ''],
            E (path_colour (transparentize V) (Dec 1 1) [''colors'', ''text'', ''primary'']),
            L ['';'', [], ''    padding: 0 ''],
            E (theme_path [''spacing'', ''unit'']),
            L [''px;'', ''    border: 1px solid ''],
            E (path_colour (transparentize V) (Dec 9 1) [''colors'', ''text'', ''primary'']),
            L ['';'', ''    font-family: ''],
            E (theme_path [''typography'', ''code'', ''fontFamily'']),
            L ['';'', ''}'']])),
        S ['';'',
           ''  & + & {'',
           ''    margin-left: 0;'',
           ''  }'',
           ''  ''],
        I (extension V ''ExampleValue''),
        S ['';'', []]]"

definition ym_css :: "rule list" where
  "ym_css =
     css
       [S [[]]]"

definition vm_css :: "viewer \<Rightarrow> rule list" where
  "vm_css V =
     css
       [S [[], ''  border-radius: 2px;'', ''  ''],
        I (arrow (literal
           [L [[], ''    background-color: ''],
            E (path_colour (transparentize V) (Dec 95 2) [''colors'', ''primary'', ''light'']),
            L ['';'', ''    color: ''],
            E (path_colour (transparentize V) (Dec 1 1) [''colors'', ''primary'', ''main'']),
            L ['';'', [], ''    margin: 0 ''],
            E (theme_path [''spacing'', ''unit'']),
            L [''px;'', ''    padding: 0 ''],
            E (theme_path [''spacing'', ''unit'']),
            L [''px;'', ''    border: 1px solid ''],
            E (path_colour (transparentize V) (Dec 9 1) [''colors'', ''primary'', ''main'']),
            L ['';'', ''}'']])),
        S ['';'',
           ''  & + & {'',
           ''    margin-left: 0;'',
           ''  }'',
           ''  ''],
        I (extension V ''ConstraintItem''),
        S ['';'', []]]"

definition bm_css :: "rule list" where
  "bm_css =
     css
       [S [[],
           ''  background-color: transparent;'',
           ''  border: 0;'',
           ''  color: ''],
        I (theme_at [''colors'', ''text'', ''secondary'']),
        S ['';'', ''  margin-left: ''],
        I (theme_at [''spacing'', ''unit'']),
        S [''px;'',
           ''  border-radius: 2px;'',
           ''  cursor: pointer;'',
           ''  outline-color: ''],
        I (theme_at [''colors'', ''text'', ''secondary'']),
        S ['';'', ''  font-size: 12px;'', []]]"

section \<open>Further rows\<close>

definition wm_css :: "rule list" where
  "wm_css =
     css
       [S [[], ''  ''],
        I (Rules Cf_css),
        S ['';'', ''  ''],
        I (prop_if ''compact'' [] ''margin: 1em 0''),
        S [[], []]]"

definition u_m_css :: "rule list" where
  "u_m_css =
     css
       [S [[], ''  color: ''],
        I (theme_at [''colors'', ''primary'', ''main'']),
        S ['';'',
           ''  vertical-align: middle;'',
           ''  font-size: 13px;'',
           ''  line-height: 20px;'',
           ''  padding: 0 5px;'',
           ''  cursor: pointer;'',
           []]]"

definition Om_css :: "rule list" where
  "Om_css =
     css
       [S [[], ''  margin: 2px 0;'', []]]"

definition Pm_css :: "rule list" where
  "Pm_css =
     css
       [S [[],
           ''  margin-top: 1em;'',
           ''  list-style-position: outside;'',
           []]]"

definition jm_css :: "rule list" where
  "jm_css =
     css
       [S [[],
           ''  margin: 0 5px;'',
           ''  vertical-align: text-top;'',
           []]]"

definition og_css :: "rule list" where
  "og_css =
     css
       [S [[], ''  padding-left: ''],
        I (theme_times 2 [''spacing'', ''unit'']),
        S [''px;'', []]]"

definition Dg_css :: "rule list" where
  "Dg_css =
     css
       [S [[], ''  background: ''],
        I (theme_at [''codeBlock'', ''backgroundColor'']),
        S ['';'',
           ''  & > div,'',
           ''  & > pre {'',
           ''    padding: ''],
        I (theme_times 4 [''spacing'', ''unit'']),
        S [''px;'',
           ''    margin: 0;'',
           ''  }'',
           [],
           ''  & > div > pre {'',
           ''    padding: 0;'',
           ''  }'',
           []]]"

section \<open>The styles render to balanced texts\<close>

lemma am_renders:
  assumes "themed V p" and "viewer_ok V"
  shows "renders p 0 (am_css V) 0"
  by (simp add: am_css_def style_scan style_neutral [OF assms(1)] viewer_okD [OF assms(2)]
      neutral_extension [OF assms(1, 2)])

lemma sm_renders:
  assumes "themed V p" and "viewer_ok V"
  shows "renders p 0 sm_css 0"
  by (simp add: sm_css_def style_scan style_neutral [OF assms(1)])

lemma lm_renders:
  assumes "themed V p" and "viewer_ok V"
  shows "renders p 0 (lm_css V) 0"
  by (simp add: lm_css_def style_scan style_neutral [OF assms(1)] viewer_okD [OF assms(2)]
      neutral_extension [OF assms(1, 2)])

lemma cm_renders:
  assumes "themed V p" and "viewer_ok V"
  shows "renders p 0 cm_css 0"
  by (simp add: cm_css_def style_scan style_neutral [OF assms(1)])

lemma um_renders:
  assumes "themed V p" and "viewer_ok V"
  shows "renders p 0 um_css 0"
  by (simp add: um_css_def style_scan style_neutral [OF assms(1)])

lemma dm_renders:
  assumes "themed V p" and "viewer_ok V"
  shows "renders p 0 dm_css 0"
  by (simp add: dm_css_def style_scan style_neutral [OF assms(1)])

lemma fm_renders:
  assumes "themed V p" and "viewer_ok V"
  shows "renders p 0 fm_css 0"
  by (simp add: fm_css_def style_scan style_neutral [OF assms(1)])

lemma hm_renders:
  assumes "themed V p" and "viewer_ok V"
  shows "renders p 0 hm_css 0"
  by (simp add: hm_css_def style_scan style_neutral [OF assms(1)])

lemma mm_renders:
  assumes "themed V p" and "viewer_ok V"
  shows "renders p 0 mm_css 0"
  by (simp add: mm_css_def style_scan style_neutral [OF assms(1)])

lemma ym_renders:
  assumes "themed V p" and "viewer_ok V"
  shows "renders p 0 ym_css 0"
  by (simp add: ym_css_def style_scan style_neutral [OF assms(1)])

lemma bm_renders:
  assumes "themed V p" and "viewer_ok V"
  shows "renders p 0 bm_css 0"
  by (simp add: bm_css_def style_scan style_neutral [OF assms(1)])

lemma wm_renders:
  assumes "themed V p" and "viewer_ok V"
  shows "renders p 0 wm_css 0"
  by (simp add: wm_css_def style_scan style_neutral [OF assms(1)]
      Cf_renders [OF assms(1, 2), THEN neutral_RulesI])

lemma u_m_renders:
  assumes "themed V p" and "viewer_ok V"
  shows "renders p 0 u_m_css 0"
  by (simp add: u_m_css_def style_scan style_neutral [OF assms(1)])

lemma Om_renders:
  assumes "themed V p" and "viewer_ok V"
  shows "renders p 0 Om_css 0"
  by (simp add: Om_css_def style_scan style_neutral [OF assms(1)])

lemma Pm_renders:
  assumes "themed V p" and "viewer_ok V"
  shows "renders p 0 Pm_css 0"
  by (simp add: Pm_css_def style_scan style_neutral [OF assms(1)])

lemma jm_renders:
  assumes "themed V p" and "viewer_ok V"
  shows "renders p 0 jm_css 0"
  by (simp add: jm_css_def style_scan style_neutral [OF assms(1)])

lemma og_renders:
  assumes "themed V p" and "viewer_ok V"
  shows "renders p 0 og_css 0"
  by (simp add: og_css_def style_scan style_neutral [OF assms(1)])

lemma Dg_renders:
  assumes "themed V p" and "viewer_ok V"
  shows "renders p 0 Dg_css 0"
  by (simp add: Dg_css_def style_scan style_neutral [OF assms(1)])

lemma gm_stray:
  assumes "themed V p" and "viewer_ok V"
  shows "stray p 0 (gm_css V)"
  by (simp add: gm_css_def style_stray style_neutral [OF assms(1)] viewer_okD [OF assms(2)]
      neutral_extension [OF assms])

lemma vm_stray:
  assumes "themed V p" and "viewer_ok V"
  shows "stray p 0 (vm_css V)"
  by (simp add: vm_css_def style_stray style_neutral [OF assms(1)] viewer_okD [OF assms(2)]
      neutral_extension [OF assms])

end
