(* ===== verification/Styles_Security.thy ===== *)
theory Styles_Security
  imports Styles_Markdown
begin

text \<open>
  The styles of the security requirements and definitions (\<open>Lg\<close> to \<open>Gg\<close>) and of the header of the
  document with its logo (\<open>ny\<close> to \<open>uy\<close>).
\<close>

section \<open>Security\<close>

definition schema_box_css :: "rule list" where
  "schema_box_css =
     css
       [S [[], ''  background-color: #e4e7eb;'', []]]"

definition scope_list_css :: "rule list" where
  "scope_list_css =
     css
       [S [[],
           ''  display: inline;'',
           ''  list-style: none;'',
           ''  padding: 0;'',
           [],
           ''  li {'',
           ''    display: inherit;'',
           [],
           ''    &:after {'',
           ''      content: ',';'',
           ''    }'',
           ''    &:last-child:after {'',
           ''      content: none;'',
           ''    }'',
           ''  }'',
           []]]"

definition Lg_css :: "rule list" where
  "Lg_css =
     css
       [S [[], ''  font-size: ''],
        I (theme_at [''typography'', ''code'', ''fontSize'']),
        S ['';'', ''  font-family: ''],
        I (theme_at [''typography'', ''code'', ''fontFamily'']),
        S ['';'',
           ''  margin: 0 3px;'',
           ''  padding: 0.2em;'',
           ''  display: inline-block;'',
           ''  line-height: 1;'',
           [],
           ''  &:after {'',
           ''    content: ',';'',
           ''    font-weight: normal;'',
           ''  }'',
           [],
           ''  &:last-child:after {'',
           ''    content: none;'',
           ''  }'',
           []]]"

definition Mg_css :: "rule list" where
  "Mg_css =
     css
       [S [[],
           ''  &:after {'',
           ''    content: ' and ';'',
           ''    font-weight: normal;'',
           ''  }'',
           [],
           ''  &:last-child:after {'',
           ''    content: none;'',
           ''  }'',
           [],
           ''  ''],
        I (Rules Cf_css),
        S ['';'', []]]"

definition Fg_css :: "rule list" where
  "Fg_css =
     css
       [S [[], ''  ''],
        I (prop_not_and ''expanded'' ''white-space: nowrap;''),
        S [[],
           ''  &:after {'',
           ''    content: ' or ';'',
           ''    ''],
        I (prop_and ''expanded'' (''content: ' or '' @ [CHR 0x5C] @ ''a';'')),
        S [[],
           ''    white-space: pre;'',
           ''  }'',
           [],
           ''  &:last-child:after,'',
           ''  &:only-child:after {'',
           ''    content: none;'',
           ''  }'',
           [],
           ''  ''],
        I (Rules Cf_css),
        S ['';'', []]]"

definition zg_css :: "rule list" where
  "zg_css =
     css
       [S [[],
           ''  flex: 1 1 auto;'',
           ''  cursor: pointer;'',
           []]]"

definition Ug_css :: "rule list" where
  "Ug_css =
     css
       [S [[], ''  width: ''],
        I (theme_at [''schema'', ''defaultDetailsWidth'']),
        S ['';'',
           ''  text-overflow: ellipsis;'',
           ''  border-radius: 4px;'',
           ''  overflow: hidden;'',
           ''  ''],
        I (prop_and_literal ''expanded''
           [L [''background: ''],
            E (theme_path [''colors'', ''gray'', ''100'']),
            L ['';'',
               ''     padding: 8px 9.6px;'',
               ''     margin: 20px 0;'',
               ''     width: 100%;'',
               ''    '']]),
        S ['';'', ''  ''],
        I (Rules (media ''small'' False []
           [S [[], ''    margin-top: 10px;'', ''  '']])),
        S [[], []]]"

definition Vg_css :: "rule list" where
  "Vg_css =
     css
       [S [[],
           ''  display: inline-block;'',
           ''  margin: 0;'',
           []]]"

definition Bg_css :: "rule list" where
  "Bg_css =
     css
       [S [[],
           ''  width: 100%;'',
           ''  display: flex;'',
           ''  margin: 1em 0;'',
           ''  flex-direction: ''],
        I (prop_if ''expanded'' ''column'' ''row''),
        S ['';'', ''  ''],
        I (Rules (media ''small'' False []
           [S [[], ''    flex-direction: column;'', ''  '']])),
        S [[], []]]"

definition qg_css :: "rule list" where
  "qg_css =
     css
       [S [[], ''  margin: 0.5em 0;'', []]]"

definition Wg_css :: "rule list" where
  "Wg_css =
     css
       [S [[], ''  border-bottom: 1px solid ''],
        I (theme_at [''colors'', ''border'', ''dark'']),
        S ['';'',
           ''  margin-bottom: 1.5em;'',
           ''  padding-bottom: 0.7em;'',
           [],
           ''  h5 {'',
           ''    line-height: 1em;'',
           ''    margin: 0 0 0.6em;'',
           ''    font-size: ''],
        I (theme_at [''typography'', ''fontSize'']),
        S ['';'',
           ''  }'',
           [],
           ''  .redoc-markdown p:first-child {'',
           ''    display: inline;'',
           ''  }'',
           []]]"

definition Yg_css :: "rule list" where
  "Yg_css =
     css
       [S [[], ''  overflow-y: hidden;'', []]]"

definition Kg_css :: "rule list" where
  "Kg_css =
     css
       [S [[],
           ''  text-align: center;'',
           ''  line-height: 1.5em;'',
           ''  ''],
        I (prop_and ''dimmed'' (join_lines
             [''background-image: linear-gradient(to bottom, transparent,rgb(255 255 255));'',
              ''     position: relative;'',
              ''     top: -0.5em;'',
              ''     padding-top: 0.5em;'',
              ''     background-position-y: -1em;'',
              ''    ''])),
        S [[], []]]"

definition Gg_css :: "rule list" where
  "Gg_css =
     css
       [S [[], ''  cursor: pointer;'', []]]"

section \<open>Header\<close>

definition ny_css :: "viewer \<Rightarrow> rule list" where
  "ny_css V =
     css
       [S [[],
           ''  margin-top: 0;'',
           ''  margin-bottom: 0.5em;'',
           [],
           ''  ''],
        I (extension V ''ApiHeader''),
        S ['';'', []]]"

definition ry_css :: "viewer \<Rightarrow> rule list" where
  "ry_css V =
     css
       [S [[], ''  border: 1px solid ''],
        I (theme_at [''colors'', ''primary'', ''main'']),
        S ['';'', ''  color: ''],
        I (theme_at [''colors'', ''primary'', ''main'']),
        S ['';'',
           ''  font-weight: normal;'',
           ''  margin-left: 0.5em;'',
           ''  padding: 4px 8px 4px;'',
           ''  display: inline-block;'',
           ''  text-decoration: none;'',
           ''  cursor: pointer;'',
           [],
           ''  ''],
        I (extension V ''DownloadButton''),
        S ['';'', []]]"

definition oy_css :: "rule list" where
  "oy_css =
     css
       [S [[],
           ''  &::before {'',
           ''    content: '|';'',
           ''    display: inline-block;'',
           ''    opacity: 0.5;'',
           ''    width: ''],
        I (Val (jint 15)),
        S [''px;'',
           ''    text-align: center;'',
           ''  }'',
           [],
           ''  &:last-child::after {'',
           ''    display: none;'',
           ''  }'',
           []]]"

definition iy_css :: "rule list" where
  "iy_css =
     css
       [S [[], ''  overflow: hidden;'', []]]"

definition ay_css :: "rule list" where
  "ay_css =
     css
       [S [[],
           ''  display: flex;'',
           ''  flex-wrap: wrap;'',
           ''  // hide separator on new lines: idea from https://stackoverflow.com/a/31732902/1749888'',
           ''  margin-left: -''],
        I (Val (jint 15)),
        S [''px;'', []]]"

definition ly_css :: "rule list" where
  "ly_css =
     css
       [S [[], ''  max-height: ''],
        I (theme_at [''logo'', ''maxHeight'']),
        S ['';'', ''  max-width: ''],
        I (theme_at [''logo'', ''maxWidth'']),
        S ['';'', ''  padding: ''],
        I (theme_at [''logo'', ''gutter'']),
        S ['';'',
           ''  width: 100%;'',
           ''  display: block;'',
           []]]"

definition cy_css :: "rule list" where
  "cy_css =
     css
       [S [[], ''  text-align: center;'', []]]"

definition uy_css :: "rule list" where
  "uy_css =
     css
       [S [[], ''  display: inline-block;'', []]]"

section \<open>The styles render to balanced texts\<close>

lemma schema_box_renders:
  assumes "themed V p" and "viewer_ok V"
  shows "renders p 0 schema_box_css 0"
  by (simp add: schema_box_css_def style_scan style_neutral [OF assms(1)])

lemma scope_list_renders:
  assumes "themed V p" and "viewer_ok V"
  shows "renders p 0 scope_list_css 0"
  by (simp add: scope_list_css_def style_scan style_neutral [OF assms(1)])

lemma Lg_renders:
  assumes "themed V p" and "viewer_ok V"
  shows "renders p 0 Lg_css 0"
  by (simp add: Lg_css_def style_scan style_neutral [OF assms(1)])

lemma Mg_renders:
  assumes "themed V p" and "viewer_ok V"
  shows "renders p 0 Mg_css 0"
  by (simp add: Mg_css_def style_scan style_neutral [OF assms(1)]
      Cf_renders [OF assms(1, 2), THEN neutral_RulesI])

lemma Fg_renders:
  assumes "themed V p" and "viewer_ok V"
  shows "renders p 0 Fg_css 0"
  by (simp add: Fg_css_def style_scan style_neutral [OF assms(1)]
      Cf_renders [OF assms(1, 2), THEN neutral_RulesI])

lemma zg_renders:
  assumes "themed V p" and "viewer_ok V"
  shows "renders p 0 zg_css 0"
  by (simp add: zg_css_def style_scan style_neutral [OF assms(1)])

lemma Ug_renders:
  assumes "themed V p" and "viewer_ok V"
  shows "renders p 0 Ug_css 0"
  by (simp add: Ug_css_def style_scan style_neutral [OF assms(1)])

lemma Vg_renders:
  assumes "themed V p" and "viewer_ok V"
  shows "renders p 0 Vg_css 0"
  by (simp add: Vg_css_def style_scan style_neutral [OF assms(1)])

lemma Bg_renders:
  assumes "themed V p" and "viewer_ok V"
  shows "renders p 0 Bg_css 0"
  by (simp add: Bg_css_def style_scan style_neutral [OF assms(1)])

lemma qg_renders:
  assumes "themed V p" and "viewer_ok V"
  shows "renders p 0 qg_css 0"
  by (simp add: qg_css_def style_scan style_neutral [OF assms(1)])

lemma Wg_renders:
  assumes "themed V p" and "viewer_ok V"
  shows "renders p 0 Wg_css 0"
  by (simp add: Wg_css_def style_scan style_neutral [OF assms(1)])

lemma Yg_renders:
  assumes "themed V p" and "viewer_ok V"
  shows "renders p 0 Yg_css 0"
  by (simp add: Yg_css_def style_scan style_neutral [OF assms(1)])

lemma Kg_renders:
  assumes "themed V p" and "viewer_ok V"
  shows "renders p 0 Kg_css 0"
  by (simp add: Kg_css_def style_scan style_neutral [OF assms(1)])

lemma Gg_renders:
  assumes "themed V p" and "viewer_ok V"
  shows "renders p 0 Gg_css 0"
  by (simp add: Gg_css_def style_scan style_neutral [OF assms(1)])

lemma ny_renders:
  assumes "themed V p" and "viewer_ok V"
  shows "renders p 0 (ny_css V) 0"
  by (simp add: ny_css_def style_scan style_neutral [OF assms(1)] viewer_okD [OF assms(2)]
      neutral_extension [OF assms(1, 2)])

lemma ry_renders:
  assumes "themed V p" and "viewer_ok V"
  shows "renders p 0 (ry_css V) 0"
  by (simp add: ry_css_def style_scan style_neutral [OF assms(1)] viewer_okD [OF assms(2)]
      neutral_extension [OF assms(1, 2)])

lemma oy_renders:
  assumes "themed V p" and "viewer_ok V"
  shows "renders p 0 oy_css 0"
  by (simp add: oy_css_def style_scan style_neutral [OF assms(1)])

lemma iy_renders:
  assumes "themed V p" and "viewer_ok V"
  shows "renders p 0 iy_css 0"
  by (simp add: iy_css_def style_scan style_neutral [OF assms(1)])

lemma ay_renders:
  assumes "themed V p" and "viewer_ok V"
  shows "renders p 0 ay_css 0"
  by (simp add: ay_css_def style_scan style_neutral [OF assms(1)])

lemma ly_renders:
  assumes "themed V p" and "viewer_ok V"
  shows "renders p 0 ly_css 0"
  by (simp add: ly_css_def style_scan style_neutral [OF assms(1)])

lemma cy_renders:
  assumes "themed V p" and "viewer_ok V"
  shows "renders p 0 cy_css 0"
  by (simp add: cy_css_def style_scan style_neutral [OF assms(1)])

lemma uy_renders:
  assumes "themed V p" and "viewer_ok V"
  shows "renders p 0 uy_css 0"
  by (simp add: uy_css_def style_scan style_neutral [OF assms(1)])

end
