(* ===== verification/Styles_Operation.thy ===== *)
theory Styles_Operation
  imports Styles_Markdown
begin

text \<open>
  The styles of an operation: its description (\<open>Ty\<close>), the selection of the text of a server URL
  (\<open>Ny\<close>, \<open>Dy\<close>), the endpoint with its method and servers (\<open>Ly\<close> to \<open>Uy\<close>), the responses
  (\<open>ev\<close> to \<open>rv\<close>), the headings of the callbacks and samples (\<open>dv\<close> to \<open>Zv\<close>) and the arrows of the
  menu button (\<open>jb\<close>).

  The selector for the path in \<open>Ly\<close> is written with a dot before the interpolated component,
  which already renders with a dot: \<open>Ly_selector\<close>.
\<close>

section \<open>Endpoint\<close>

definition Ty_css :: "rule list" where
  "Ty_css =
     css
       [S [[], ''  padding: 10px 25px;'', ''  background-color: ''],
        I (theme_at [''colors'', ''gray'', ''50'']),
        S ['';'',
           ''  margin-bottom: 5px;'',
           ''  margin-top: 5px;'',
           []]]"

definition Ny_css :: "rule list" where
  "Ny_css =
     css
       [S [[],
           ''  cursor: pointer;'',
           ''  position: relative;'',
           ''  margin-bottom: 5px;'',
           []]]"

definition Dy_css :: "rule list" where
  "Dy_css =
     css
       [S [[], ''  font-family: ''],
        I (theme_at [''typography'', ''code'', ''fontFamily'']),
        S ['';'',
           ''  margin-left: 10px;'',
           ''  flex: 1;'',
           ''  overflow-x: hidden;'',
           ''  text-overflow: ellipsis;'',
           []]]"

definition Ly_border :: "jsval \<Rightarrow> jsval js" where
  "Ly_border p =
     js_bind (js_get p ''expanded'') (\<lambda>x.
       js_bind (js_get p ''inverted'') (\<lambda>i.
         if truthy_js x \<and> \<not> truthy_js i then
           literal [L [''border-color: ''], E (theme_path [''colors'', ''border'', ''dark'']), L ['';'']] p
         else Inr (JStr [])))"

definition Ly_css :: "viewer \<Rightarrow> rule list" where
  "Ly_css V =
     css
       [S [[],
           ''  outline: 0;'',
           ''  color: inherit;'',
           ''  width: 100%;'',
           ''  text-align: left;'',
           ''  cursor: pointer;'',
           ''  padding: 10px 30px 10px ''],
        I (prop_if ''inverted'' ''10px'' ''20px''),
        S ['';'', ''  border-radius: ''],
        I (prop_if ''inverted'' ''0'' ''4px 4px 0 0''),
        S ['';'', ''  background-color: ''],
        I (prop_else_theme ''inverted'' ''transparent'' [''codeBlock'', ''backgroundColor'']),
        S ['';'',
           ''  display: flex;'',
           ''  white-space: nowrap;'',
           ''  align-items: center;'',
           ''  border: ''],
        I (prop_if ''inverted'' ''0'' ''1px solid transparent''),
        S ['';'', ''  border-bottom: ''],
        I (prop_if ''inverted'' ''1px solid #ccc'' ''0''),
        S ['';'',
           ''  transition: border-color 0.25s ease;'',
           [],
           ''  ''],
        I (arrow Ly_border),
        S [[], [], ''  .''],
        I (Component (class_id V ''Dy'')),
        S ['' {'', ''    color: ''],
        I (prop_then_theme ''inverted'' [''colors'', ''text'', ''primary''] ''#ffffff''),
        S ['';'',
           ''  }'',
           ''  &:focus {'',
           ''    box-shadow: inset 0 2px 2px rgba(0, 0, 0, 0.45), 0 2px 0 rgba(128, 128, 128, 0.25);'',
           ''  }'',
           []]]"

definition My_background :: "jsval \<Rightarrow> jsval js" where
  "My_background p =
     js_bind (theme_path [''colors'', ''http''] p) (\<lambda>http.
       js_bind (js_get p ''type'') (\<lambda>t.
         js_bind (js_get http (js_text t)) (\<lambda>v. js_or v (Inr (JStr ''#999999'')))))"

definition My_css :: "rule list" where
  "My_css =
     css
       [S [[], ''  font-size: ''],
        I (prop_if ''compact'' ''0.8em'' ''0.929em''),
        S ['';'', ''  line-height: ''],
        I (prop_if ''compact'' ''18px'' ''20px''),
        S ['';'', ''  background-color: ''],
        I (arrow My_background),
        S ['';'', ''  color: #ffffff;'', ''  padding: ''],
        I (prop_if ''compact'' ''2px 8px'' ''3px 10px''),
        S ['';'', ''  text-transform: uppercase;'', ''  font-family: ''],
        I (theme_at [''typography'', ''headings'', ''fontFamily'']),
        S ['';'', ''  margin: 0;'', []]]"

definition Fy_css :: "rule list" where
  "Fy_css =
     css
       [S [[],
           ''  position: absolute;'',
           ''  width: 100%;'',
           ''  z-index: 100;'',
           ''  background: ''],
        I (theme_at [''rightPanel'', ''servers'', ''overlay'', ''backgroundColor'']),
        S ['';'', ''  color: ''],
        I (theme_at [''rightPanel'', ''servers'', ''overlay'', ''textColor'']),
        S ['';'',
           ''  box-sizing: border-box;'',
           ''  box-shadow: 0px 0px 6px rgba(0, 0, 0, 0.33);'',
           ''  overflow: hidden;'',
           ''  border-bottom-left-radius: 4px;'',
           ''  border-bottom-right-radius: 4px;'',
           ''  transition: all 0.25s ease;'',
           ''  visibility: hidden;'',
           ''  ''],
        I (prop_if ''expanded'' ''visibility: visible;'' ''transform: translateY(-50%) scaleY(0);''),
        S [[], []]]"

definition zy_css :: "rule list" where
  "zy_css =
     css
       [S [[], ''  padding: 10px;'', []]]"

definition Uy_css :: "rule list" where
  "Uy_css =
     css
       [S [[],
           ''  padding: 5px;'',
           ''  border: 1px solid #ccc;'',
           ''  background: ''],
        I (theme_at [''rightPanel'', ''servers'', ''url'', ''backgroundColor'']),
        S ['';'', ''  word-break: break-all;'', ''  color: ''],
        I (theme_at [''colors'', ''primary'', ''main'']),
        S ['';'', ''  > span {'', ''    color: ''],
        I (theme_at [''colors'', ''text'', ''primary'']),
        S ['';'', ''  }'', []]]"

section \<open>Responses\<close>

definition ev_css :: "rule list" where
  "ev_css =
     css
       [S [[],
           ''  display: block;'',
           ''  border: 0;'',
           ''  width: 100%;'',
           ''  text-align: left;'',
           ''  padding: 10px;'',
           ''  border-radius: 2px;'',
           ''  margin-bottom: 4px;'',
           ''  line-height: 1.5em;'',
           ''  cursor: pointer;'',
           [],
           ''  color: ''],
        I (theme_index [''colors'', ''responses''] ''type'' [''color'']),
        S ['';'', ''  background-color: ''],
        I (theme_index [''colors'', ''responses''] ''type'' [''backgroundColor'']),
        S ['';'', ''  &:focus {'', ''    outline: auto ''],
        I (theme_index [''colors'', ''responses''] ''type'' [''color'']),
        S ['';'', ''  }'', ''  ''],
        I (prop_if ''empty'' (join_lines
             [[],
              ''cursor: default;'',
              ''&::before {'',
              ''  content: \"'' @ [CHR 0xE2, CHR 0x80, CHR 0x94] @ ''\";'',
              ''  font-weight: bold;'',
              ''  width: 1.5em;'',
              ''  text-align: center;'',
              ''  display: inline-block;'',
              ''  vertical-align: top;'',
              ''}'',
              ''&:focus {'',
              ''  outline: 0;'',
              ''}'',
              []]) []),
        S ['';'', []]]"

definition tv_css :: "rule list" where
  "tv_css =
     css
       [S [[], ''  padding: 10px;'', []]]"

definition nv_css :: "rule list" where
  "nv_css =
     css
       [S [[],
           ''  text-align: left;'',
           ''  margin-top: 1em;'',
           ''  caption-side: top;'',
           []]]"

definition rv_css :: "rule list" where
  "rv_css =
     css
       [S [[], ''  vertical-align: top;'', []]]"

section \<open>Samples and callbacks\<close>

definition dv_css :: "rule list" where
  "dv_css =
     css
       [S [[],
           ''  font-size: 1.3em;'',
           ''  padding: 0.2em 0;'',
           ''  margin: 3em 0 1.1em;'',
           ''  color: ''],
        I (theme_at [''colors'', ''text'', ''primary'']),
        S ['';'', ''  font-weight: normal;'', []]]"

definition wv_css :: "rule list" where
  "wv_css =
     css
       [S [[], ''  margin-bottom: ''],
        I (theme_times 3 [''spacing'', ''unit'']),
        S [''px;'', []]]"

definition u_v_css :: "rule list" where
  "u_v_css =
     css
       [S [[],
           ''  font-size: 1.3em;'',
           ''  padding: 0.2em 0;'',
           ''  margin: 3em 0 1.1em;'',
           ''  color: ''],
        I (theme_at [''colors'', ''text'', ''primary'']),
        S ['';'', ''  font-weight: normal;'', []]]"

definition Iv_css :: "rule list" where
  "Iv_css =
     css
       [S [[], ''  margin-top: 15px;'', []]]"

definition Bv_css :: "rule list" where
  "Bv_css =
     css
       [S [[], ''  background: ''],
        I (theme_at [''codeBlock'', ''backgroundColor'']),
        S ['';'', ''  padding: ''],
        I (theme_times 4 [''spacing'', ''unit'']),
        S [''px;'', []]]"

definition Zv_css :: "rule list" where
  "Zv_css =
     css
       [S [[], ''  margin-bottom: ''],
        I (theme_times 6 [''spacing'', ''unit'']),
        S [''px;'', []]]"

definition jb_css :: "rule list" where
  "jb_css =
     css
       [S [[],
           ''  user-select: none;'',
           ''  width: 20px;'',
           ''  height: 20px;'',
           ''  align-self: center;'',
           ''  display: flex;'',
           ''  flex-direction: column;'',
           ''  color: ''],
        I (theme_at [''colors'', ''primary'', ''main'']),
        S ['';'', []]]"

section \<open>The styles render to balanced texts\<close>

lemma neutral_Ly_border:
  assumes "themed V p"
  shows "neutral p (arrow Ly_border)"
proof -
  have "literal_scan p 0 [L [''border-color: ''], E (theme_path [''colors'', ''border'', ''dark'']), L ['';'']] 0"
    by (simp add: literal_scan_L literal_scan_E literal_scan_Nil shows_path [OF assms])
  then show ?thesis
    using themed_props [OF assms, of "''expanded''"] themed_props [OF assms, of "''inverted''"]
    by (auto simp: neutral_arrow_iff Ly_border_def dest!: literal_Inr)
qed

text \<open>The theme has an object of colours for the HTTP methods, none with a brace.\<close>

definition http_colours :: "jsval \<Rightarrow> bool" where
  "http_colours p \<longleftrightarrow>
     (\<exists>kvs. theme_path [''colors'', ''http''] p = Inr (JObj kvs) \<and> list_all (\<lambda>kv. leaf (snd kv)) kvs)"

lemma neutral_My_background:
  assumes "themed V p" and "http_colours p"
  shows "neutral p (arrow My_background)"
proof -
  obtain kvs t where kvs: "theme_path [''colors'', ''http''] p = Inr (JObj kvs)"
      "list_all (\<lambda>kv. leaf (snd kv)) kvs" and t: "js_get p ''type'' = Inr t"
    using assms(2) themed_props [OF assms(1), of "''type''"] by (auto simp: http_colours_def)
  have "leaf v" if "map_of kvs k = Some v" for k v
    using map_of_SomeD [OF that] kvs(2) by (auto simp: list_all_iff)
  with kvs(1) t show ?thesis
    by (auto simp: neutral_arrow_iff My_background_def js_or_def split: option.splits)
qed

lemma Ty_renders:
  assumes "themed V p" and "viewer_ok V"
  shows "renders p 0 Ty_css 0"
  by (simp add: Ty_css_def style_scan style_neutral [OF assms(1)])

lemma Ny_renders:
  assumes "themed V p" and "viewer_ok V"
  shows "renders p 0 Ny_css 0"
  by (simp add: Ny_css_def style_scan style_neutral [OF assms(1)])

lemma Dy_renders:
  assumes "themed V p" and "viewer_ok V"
  shows "renders p 0 Dy_css 0"
  by (simp add: Dy_css_def style_scan style_neutral [OF assms(1)])

lemma Ly_renders:
  assumes "themed V p" and "viewer_ok V"
  shows "renders p 0 (Ly_css V) 0"
  by (simp add: Ly_css_def style_scan style_neutral [OF assms(1)] viewer_okD [OF assms(2)]
      neutral_extension [OF assms(1, 2)] neutral_Ly_border [OF assms(1)])

lemma My_renders:
  assumes "themed V p" and "viewer_ok V" and "http_colours p"
  shows "renders p 0 My_css 0"
  by (simp add: My_css_def style_scan style_neutral [OF assms(1)]
      neutral_My_background [OF assms(1, 3)])

lemma Fy_renders:
  assumes "themed V p" and "viewer_ok V"
  shows "renders p 0 Fy_css 0"
  by (simp add: Fy_css_def style_scan style_neutral [OF assms(1)])

lemma zy_renders:
  assumes "themed V p" and "viewer_ok V"
  shows "renders p 0 zy_css 0"
  by (simp add: zy_css_def style_scan style_neutral [OF assms(1)])

lemma Uy_renders:
  assumes "themed V p" and "viewer_ok V"
  shows "renders p 0 Uy_css 0"
  by (simp add: Uy_css_def style_scan style_neutral [OF assms(1)])

lemma ev_renders:
  assumes "themed V p" and "viewer_ok V" and "typed p [''success'', ''error'', ''redirect'', ''info'']"
  shows "renders p 0 ev_css 0"
  by (simp add: ev_css_def style_scan style_neutral [OF assms(1)] neutral_typed [OF assms(1, 3)])

lemma tv_renders:
  assumes "themed V p" and "viewer_ok V"
  shows "renders p 0 tv_css 0"
  by (simp add: tv_css_def style_scan style_neutral [OF assms(1)])

lemma nv_renders:
  assumes "themed V p" and "viewer_ok V"
  shows "renders p 0 nv_css 0"
  by (simp add: nv_css_def style_scan style_neutral [OF assms(1)])

lemma rv_renders:
  assumes "themed V p" and "viewer_ok V"
  shows "renders p 0 rv_css 0"
  by (simp add: rv_css_def style_scan style_neutral [OF assms(1)])

lemma dv_renders:
  assumes "themed V p" and "viewer_ok V"
  shows "renders p 0 dv_css 0"
  by (simp add: dv_css_def style_scan style_neutral [OF assms(1)])

lemma wv_renders:
  assumes "themed V p" and "viewer_ok V"
  shows "renders p 0 wv_css 0"
  by (simp add: wv_css_def style_scan style_neutral [OF assms(1)])

lemma u_v_renders:
  assumes "themed V p" and "viewer_ok V"
  shows "renders p 0 u_v_css 0"
  by (simp add: u_v_css_def style_scan style_neutral [OF assms(1)])

lemma Iv_renders:
  assumes "themed V p" and "viewer_ok V"
  shows "renders p 0 Iv_css 0"
  by (simp add: Iv_css_def style_scan style_neutral [OF assms(1)])

lemma Bv_renders:
  assumes "themed V p" and "viewer_ok V"
  shows "renders p 0 Bv_css 0"
  by (simp add: Bv_css_def style_scan style_neutral [OF assms(1)])

lemma Zv_renders:
  assumes "themed V p" and "viewer_ok V"
  shows "renders p 0 Zv_css 0"
  by (simp add: Zv_css_def style_scan style_neutral [OF assms(1)])

lemma jb_renders:
  assumes "themed V p" and "viewer_ok V"
  shows "renders p 0 jb_css 0"
  by (simp add: jb_css_def style_scan style_neutral [OF assms(1)])

text \<open>The selector for the path has two dots, so that it selects nothing.\<close>

lemma Ly_selector:
  assumes "css_text (Ly_css V) p = Inr s"
  shows "\<exists>u v. s = u @ ''..'' @ class_id V ''Dy'' @ v"
proof -
  let ?part = "[Txt (join_lines [[], [], ''  .'']), Component (class_id V ''Dy'')]"
  have part: "css_text ?part p = Inr (join_lines [[], [], ''  .''] @ ''.'' @ class_id V ''Dy'')" by simp
  obtain u v where "s = u @ (join_lines [[], [], ''  .''] @ ''.'' @ class_id V ''Dy'') @ v"
    using css_text_part [OF assms [unfolded Ly_css_def css_text_css], of ?part 12] part by auto
  then have "s = (u @ join_lines [[], [], ''  '']) @ ''..'' @ class_id V ''Dy'' @ v"
    by (simp add: join_lines.simps)
  then show ?thesis by blast
qed

end
