(* ===== verification/Styles_Menu.thy ===== *)
theory Styles_Menu
  imports Styles_Page
begin

text \<open>
  The styles of the side menu: the badge of an operation (\<open>xy\<close>), the lists and items (\<open>_y\<close> to \<open>Ey\<close>),
  whose colours depend on the depth of the item (\<open>ky\<close>, \<open>Sy\<close>), its title and the attribution
  (\<open>Py\<close>, \<open>Ay\<close>), and the callback titles (\<open>$y\<close> to \<open>jy\<close>).
\<close>

section \<open>Operation badge\<close>

definition xy_css :: "rule list" where
  "xy_css =
     css
       [S [[],
           ''  width: 9ex;'',
           ''  display: inline-block;'',
           ''  height: ''],
        I (theme_at [''typography'', ''code'', ''fontSize'']),
        S ['';'', ''  line-height: ''],
        I (theme_at [''typography'', ''code'', ''fontSize'']),
        S ['';'',
           ''  background-color: #333;'',
           ''  border-radius: 3px;'',
           ''  background-repeat: no-repeat;'',
           ''  background-position: 6px 4px;'',
           ''  font-size: 7px;'',
           ''  font-family: Verdana, sans-serif; // web-safe'',
           ''  color: white;'',
           ''  text-transform: uppercase;'',
           ''  text-align: center;'',
           ''  font-weight: bold;'',
           ''  vertical-align: middle;'',
           ''  margin-right: 6px;'',
           ''  margin-top: 2px;'',
           [],
           ''  &.get {'',
           ''    background-color: ''],
        I (theme_at [''colors'', ''http'', ''get'']),
        S ['';'',
           ''  }'',
           [],
           ''  &.post {'',
           ''    background-color: ''],
        I (theme_at [''colors'', ''http'', ''post'']),
        S ['';'',
           ''  }'',
           [],
           ''  &.put {'',
           ''    background-color: ''],
        I (theme_at [''colors'', ''http'', ''put'']),
        S ['';'',
           ''  }'',
           [],
           ''  &.options {'',
           ''    background-color: ''],
        I (theme_at [''colors'', ''http'', ''options'']),
        S ['';'',
           ''  }'',
           [],
           ''  &.patch {'',
           ''    background-color: ''],
        I (theme_at [''colors'', ''http'', ''patch'']),
        S ['';'',
           ''  }'',
           [],
           ''  &.delete {'',
           ''    background-color: ''],
        I (theme_at [''colors'', ''http'', ''delete'']),
        S ['';'',
           ''  }'',
           [],
           ''  &.basic {'',
           ''    background-color: ''],
        I (theme_at [''colors'', ''http'', ''basic'']),
        S ['';'',
           ''  }'',
           [],
           ''  &.link {'',
           ''    background-color: ''],
        I (theme_at [''colors'', ''http'', ''link'']),
        S ['';'',
           ''  }'',
           [],
           ''  &.head {'',
           ''    background-color: ''],
        I (theme_at [''colors'', ''http'', ''head'']),
        S ['';'',
           ''  }'',
           [],
           ''  &.hook {'',
           ''    background-color: ''],
        I (theme_at [''colors'', ''primary'', ''main'']),
        S ['';'', ''  }'', []]]"

section \<open>Items\<close>

definition ky :: "jsval \<Rightarrow> jsval \<Rightarrow> string \<Rightarrow> jsval js" where
  "ky e p n =
     js_bind (js_greater e (Dec 1 0)) (\<lambda>deep.
       if deep then theme_path [''sidebar'', ''level1Items'', n] p
       else if js_is_int e 1 then theme_path [''sidebar'', ''groupItems'', n] p
       else Inr (JStr []))"

definition u_y_css :: "rule list" where
  "u_y_css =
     css
       [S [[],
           ''  margin: 0;'',
           ''  padding: 0;'',
           [],
           ''  & & {'',
           ''    font-size: 0.929em;'',
           ''  }'',
           [],
           ''  ''],
        I (prop_if ''expanded'' [] ''display: none;''),
        S ['';'', []]]"

definition Oy_margin :: "jsval \<Rightarrow> jsval js" where
  "Oy_margin p =
     js_bind (js_get p ''depth'') (\<lambda>e. Inr (JStr (if js_is_int e 0 then ''margin-top: 15px'' else [])))"

definition Oy_css :: "rule list" where
  "Oy_css =
     css
       [S [[],
           ''  list-style: none inside none;'',
           ''  overflow: hidden;'',
           ''  text-overflow: ellipsis;'',
           ''  padding: 0;'',
           ''  ''],
        I (arrow Oy_margin),
        S ['';'', []]]"

definition Sy0_css :: "rule list" where
  "Sy0_css =
     css
       [S [[], ''    opacity: 0.7;'', ''    text-transform: ''],
        I (theme_at [''sidebar'', ''groupItems'', ''textTransform'']),
        S ['';'',
           ''    font-size: 0.8em;'',
           ''    padding-bottom: 0;'',
           ''    cursor: default;'',
           ''  '']]"

definition Sy1_css :: "rule list" where
  "Sy1_css =
     css
       [S [[], ''    font-size: 0.929em;'', ''    text-transform: ''],
        I (theme_at [''sidebar'', ''level1Items'', ''textTransform'']),
        S ['';'', ''  '']]"

definition Ey_hover :: "string \<Rightarrow> jsval \<Rightarrow> jsval js" where
  "Ey_hover n p = js_bind (js_get p ''depth'') (\<lambda>e. ky e p n)"

definition Ey_active :: "string \<Rightarrow> string list \<Rightarrow> jsval \<Rightarrow> jsval js" where
  "Ey_active n ks p =
     js_bind (js_get p ''active'') (\<lambda>a. if truthy_js a then Ey_hover n p else theme_path ks p)"

definition Ey_padding :: "jsval \<Rightarrow> jsval js" where
  "Ey_padding p =
     js_bind (js_get p ''depth'') (\<lambda>e.
       js_bind (js_get p ''type'') (\<lambda>t.
         if t = JStr ''section'' then
           js_bind (js_greater e (Dec 1 0)) (\<lambda>deep.
             if deep then
               js_bind (path_times 8 [''spacing'', ''unit''] p) (\<lambda>n.
                 Inr (JStr (''padding-left: '' @ js_text n @ ''px;'')))
             else Inr (JStr []))
         else Inr (JStr [])))"

definition Ey_depth :: "jsval \<Rightarrow> rule js" where
  "Ey_depth p =
     js_bind (js_get p ''depth'') (\<lambda>e.
       Inr (if js_text e = ''0'' then Rules Sy0_css
            else if js_text e = ''1'' then Rules Sy1_css
            else Val JUndef))"

definition Ey_css :: "viewer \<Rightarrow> rule list" where
  "Ey_css V =
     css
       [S [[], ''  cursor: pointer;'', ''  color: ''],
        I (arrow (Ey_active ''activeTextColor'' [''sidebar'', ''textColor''])),
        S ['';'', ''  margin: 0;'', ''  padding: 12.5px ''],
        I (theme_times 4 [''spacing'', ''unit'']),
        S [''px;'', ''  ''],
        I (arrow Ey_padding),
        S [[],
           ''  display: flex;'',
           ''  justify-content: space-between;'',
           ''  font-family: ''],
        I (theme_at [''typography'', ''headings'', ''fontFamily'']),
        S ['';'', ''  ''],
        I (Fn Ey_depth),
        S ['';'', ''  background-color: ''],
        I (arrow (Ey_active ''activeBackgroundColor'' [''sidebar'', ''backgroundColor''])),
        S ['';'', [], ''  ''],
        I (prop_rules ''deprecated'' Wu_css),
        S ['';'',
           [],
           ''  &:hover {'',
           ''    color: ''],
        I (arrow (Ey_hover ''activeTextColor'')),
        S ['';'', ''    background-color: ''],
        I (arrow (Ey_hover ''activeBackgroundColor'')),
        S ['';'',
           ''  }'',
           [],
           ''  ''],
        I (Component (class_id V ''Bu'')),
        S ['' {'', ''    height: ''],
        I (theme_at [''sidebar'', ''arrow'', ''size'']),
        S ['';'', ''    width: ''],
        I (theme_at [''sidebar'', ''arrow'', ''size'']),
        S ['';'', ''    polygon {'', ''      fill: ''],
        I (theme_at [''sidebar'', ''arrow'', ''color'']),
        S ['';'',
           ''    }'',
           ''  }'',
           []]]"

section \<open>Titles\<close>

definition Py_css :: "rule list" where
  "Py_css =
     css
       [S [[],
           ''  display: inline-block;'',
           ''  vertical-align: middle;'',
           ''  width: ''],
        I (prop_or ''width'' ''auto''),
        S ['';'',
           ''  overflow: hidden;'',
           ''  text-overflow: ellipsis;'',
           []]]"

definition Ay_css :: "viewer \<Rightarrow> rule list" where
  "Ay_css V =
     css
       [S [[], ''  ''],
        I (arrow (literal
           [L [[], ''  font-size: 0.8em;'', ''  margin-top: ''],
            E (path_times 2 [''spacing'', ''unit'']),
            L [''px;'',
               ''  text-align: center;'',
               ''  position: fixed;'',
               ''  width: ''],
            E (theme_path [''sidebar'', ''width'']),
            L ['';'', ''  bottom: 0px;'', ''  background: ''],
            E (theme_path [''sidebar'', ''backgroundColor'']),
            L ['';'',
               '' '',
               ''  a,'',
               ''  a:visited,'',
               ''  a:hover {'',
               ''    color: ''],
            E (theme_path [''sidebar'', ''textColor'']),
            L ['' !important;'', ''    padding: ''],
            E (theme_path [''spacing'', ''unit'']),
            L [''px 0;'', ''    border-top: 1px solid ''],
            E (path_colour (darken V) (Dec 1 1) [''sidebar'', ''backgroundColor'']),
            L ['';'',
               ''    text-decoration: none;'',
               ''    display: flex;'',
               ''    align-items: center;'',
               ''    justify-content: center;'',
               ''  }'',
               []]])),
        S ['';'',
           ''  img {'',
           ''    width: 15px;'',
           ''    margin-right: 5px;'',
           ''  }'',
           [],
           ''  ''],
        I (Rules (media ''small'' False []
           [S [[], ''    width: 100%;'', ''  '']])),
        S ['';'', []]]"

definition d_y_css :: "viewer \<Rightarrow> rule list" where
  "d_y_css V =
     css
       [S [[],
           ''  border: 0;'',
           ''  width: 100%;'',
           ''  text-align: left;'',
           ''  & > * {'',
           ''    vertical-align: middle;'',
           ''  }'',
           [],
           ''  ''],
        I (Component (class_id V ''Bu'')),
        S ['' {'', ''    polygon {'', ''      fill: ''],
        I (theme_colour_by (darken V) [''colors'', ''tonalOffset''] [''colors'', ''gray'', ''100'']),
        S ['';'',
           ''    }'',
           ''  }'',
           []]]"

definition Cy_css :: "rule list" where
  "Cy_css =
     css
       [S [[], ''  text-decoration: ''],
        I (prop_if ''deprecated'' ''line-through'' ''none''),
        S ['';'', ''  margin-right: 8px;'', []]]"

definition Ry_css :: "rule list" where
  "Ry_css =
     css
       [S [[], ''  margin: 0 5px 0 0;'', []]]"

definition jy_css :: "viewer \<Rightarrow> rule list" where
  "jy_css V =
     css
       [S [[],
           ''  padding: 10px;'',
           ''  border-radius: 2px;'',
           ''  margin-bottom: 4px;'',
           ''  line-height: 1.5em;'',
           ''  background-color: ''],
        I (theme_at [''colors'', ''gray'', ''100'']),
        S ['';'', ''  cursor: pointer;'', ''  outline-color: ''],
        I (theme_colour_by (darken V) [''colors'', ''tonalOffset''] [''colors'', ''gray'', ''100'']),
        S ['';'', []]]"

section \<open>The styles render to balanced texts\<close>

lemma neutral_Oy_margin:
  assumes "themed V p"
  shows "neutral p (arrow Oy_margin)"
  using themed_props [OF assms, of "''depth''"] by (auto simp: neutral_arrow_iff Oy_margin_def)

text \<open>The depth of a menu item is a number.\<close>

definition numbered :: "jsval \<Rightarrow> bool" where
  "numbered p \<longleftrightarrow> (\<exists>n. js_get p ''depth'' = Inr (JNum n))"

lemma ky_leaf:
  assumes "themed V p" and "n \<in> set [''activeTextColor'', ''activeBackgroundColor'']"
  shows "\<exists>v. ky (JNum d) p n = Inr v \<and> leaf v"
  using assms(2) themed_leaf [OF assms(1), of "[''sidebar'', ''level1Items'', n]"]
    themed_leaf [OF assms(1), of "[''sidebar'', ''groupItems'', n]"]
  by (cases "dec_less (Dec 1 0) d") (auto simp: ky_def)

lemma Ey_hover_leaf:
  assumes "themed V p" and "numbered p" and "n \<in> set [''activeTextColor'', ''activeBackgroundColor'']"
  shows "\<exists>v. Ey_hover n p = Inr v \<and> leaf v"
  using assms(2) ky_leaf [OF assms(1, 3)] by (auto simp: numbered_def Ey_hover_def)

lemma Ey_active_leaf:
  assumes "themed V p" and "numbered p" and "n \<in> set [''activeTextColor'', ''activeBackgroundColor'']"
    and "ks \<in> set theme_leaves"
  shows "\<exists>v. Ey_active n ks p = Inr v \<and> leaf v"
  using themed_props [OF assms(1), of "''active''"] Ey_hover_leaf [OF assms(1-3)]
    themed_leaf [OF assms(1, 4)]
  by (auto simp: Ey_active_def)

lemma Ey_padding_leaf:
  assumes "themed V p" and "numbered p"
  shows "\<exists>v. Ey_padding p = Inr v \<and> leaf v"
proof -
  obtain d t where d: "js_get p ''depth'' = Inr (JNum d)" and t: "js_get p ''type'' = Inr t"
    using assms(2) themed_props [OF assms(1), of "''type''"] by (auto simp: numbered_def)
  obtain n where "path_times 8 [''spacing'', ''unit''] p = Inr n" "no_braces (js_text n)"
    using shows_times [OF assms(1), of 8] by (auto simp: shows_text_def)
  with d t show ?thesis
    by (cases "dec_less (Dec 1 0) d") (auto simp: Ey_padding_def)
qed

lemma neutral_Ey_depth:
  assumes "themed V p" and "viewer_ok V"
  shows "neutral p (Fn Ey_depth)"
proof -
  obtain e where e: "js_get p ''depth'' = Inr e" using themed_props [OF assms(1)] by blast
  have "renders p 0 Sy0_css 0" "renders p 0 Sy1_css 0"
    by (simp_all add: Sy0_css_def Sy1_css_def style_scan style_neutral [OF assms(1)])
  then have "neutral p (if js_text e = ''0'' then Rules Sy0_css
      else if js_text e = ''1'' then Rules Sy1_css else Val JUndef)"
    by (simp add: neutral_Rules neutral_Val)
  with e show ?thesis by (simp add: Ey_depth_def neutral_Fn)
qed

lemma neutral_Ey:
  assumes "themed V p" and "viewer_ok V" and "numbered p"
  shows "neutral p (arrow (Ey_hover ''activeTextColor''))"
    and "neutral p (arrow (Ey_hover ''activeBackgroundColor''))"
    and "ks \<in> set theme_leaves \<Longrightarrow> neutral p (arrow (Ey_active ''activeTextColor'' ks))"
    and "ks \<in> set theme_leaves \<Longrightarrow> neutral p (arrow (Ey_active ''activeBackgroundColor'' ks))"
    and "neutral p (arrow Ey_padding)"
    and "neutral p (Fn Ey_depth)"
  by (intro neutral_arrow_leaf Ey_hover_leaf [OF assms(1, 3)] Ey_active_leaf [OF assms(1, 3)]
      Ey_padding_leaf [OF assms(1, 3)] neutral_Ey_depth [OF assms(1, 2)]; simp)+

lemma xy_renders:
  assumes "themed V p" and "viewer_ok V"
  shows "renders p 0 xy_css 0"
  by (simp add: xy_css_def style_scan style_neutral [OF assms(1)])

lemma u_y_renders:
  assumes "themed V p" and "viewer_ok V"
  shows "renders p 0 u_y_css 0"
  by (simp add: u_y_css_def style_scan style_neutral [OF assms(1)])

lemma Oy_renders:
  assumes "themed V p" and "viewer_ok V"
  shows "renders p 0 Oy_css 0"
  by (simp add: Oy_css_def style_scan style_neutral [OF assms(1)] neutral_Oy_margin [OF assms(1)])

lemma Sy0_renders:
  assumes "themed V p" and "viewer_ok V"
  shows "renders p 0 Sy0_css 0"
  by (simp add: Sy0_css_def style_scan style_neutral [OF assms(1)])

lemma Sy1_renders:
  assumes "themed V p" and "viewer_ok V"
  shows "renders p 0 Sy1_css 0"
  by (simp add: Sy1_css_def style_scan style_neutral [OF assms(1)])

lemma Ey_renders:
  assumes "themed V p" and "viewer_ok V" and "numbered p"
  shows "renders p 0 (Ey_css V) 0"
  by (simp add: Ey_css_def style_scan style_neutral [OF assms(1)] viewer_okD [OF assms(2)]
      neutral_extension [OF assms(1, 2)] Wu_renders [OF assms(1, 2), THEN neutral_RulesI]
      Wu_renders [OF assms(1, 2)] neutral_Ey [OF assms])

lemma Py_renders:
  assumes "themed V p" and "viewer_ok V" and "plain_props p"
  shows "renders p 0 Py_css 0"
  by (simp add: Py_css_def style_scan style_neutral [OF assms(1)] neutral_plain [OF assms(1, 3)])

lemma Ay_renders:
  assumes "themed V p" and "viewer_ok V"
  shows "renders p 0 (Ay_css V) 0"
  by (simp add: Ay_css_def style_scan style_neutral [OF assms(1)] viewer_okD [OF assms(2)]
      neutral_extension [OF assms(1, 2)])

lemma d_y_renders:
  assumes "themed V p" and "viewer_ok V"
  shows "renders p 0 (d_y_css V) 0"
  by (simp add: d_y_css_def style_scan style_neutral [OF assms(1)] viewer_okD [OF assms(2)]
      neutral_extension [OF assms(1, 2)])

lemma Cy_renders:
  assumes "themed V p" and "viewer_ok V"
  shows "renders p 0 Cy_css 0"
  by (simp add: Cy_css_def style_scan style_neutral [OF assms(1)])

lemma Ry_renders:
  assumes "themed V p" and "viewer_ok V"
  shows "renders p 0 Ry_css 0"
  by (simp add: Ry_css_def style_scan style_neutral [OF assms(1)])

lemma jy_renders:
  assumes "themed V p" and "viewer_ok V"
  shows "renders p 0 (jy_css V) 0"
  by (simp add: jy_css_def style_scan style_neutral [OF assms(1)] viewer_okD [OF assms(2)]
      neutral_extension [OF assms(1, 2)])

end
