(* ===== verification/Styles_Shell.thy ===== *)
theory Styles_Shell
  imports Styles_Menu
begin

text \<open>
  The styles of the frame around the panels: the side bar and the floating button (\<open>Nb\<close>, \<open>Db\<close>), the
  page (\<open>Mb\<close>), the wrapper of the content and the background of the right panel (\<open>Fb\<close>, \<open>zb\<close>), whose
  width is computed from a percentage of the theme, and the search box (\<open>Ub\<close> to \<open>Wb\<close>).

  Three colours of \<open>qb\<close> are followed by a brace that nothing opens: \<open>qb_stray\<close>.
\<close>

section \<open>Side bar\<close>

definition Nb_css :: "rule list" where
  "Nb_css =
     css
       [S [[], ''  width: ''],
        I (theme_at [''sidebar'', ''width'']),
        S ['';'', ''  background-color: ''],
        I (theme_at [''sidebar'', ''backgroundColor'']),
        S ['';'',
           ''  overflow: hidden;'',
           ''  display: flex;'',
           ''  flex-direction: column;'',
           [],
           ''  backface-visibility: hidden;'',
           ''  /* contain: strict; TODO: breaks layout since Chrome 80*/'',
           [],
           ''  height: 100vh;'',
           ''  position: sticky;'',
           ''  position: -webkit-sticky;'',
           ''  top: 0;'',
           [],
           ''  ''],
        I (Rules (media ''small'' False []
           [S [[],
               ''    position: fixed;'',
               ''    z-index: 20;'',
               ''    width: 100%;'',
               ''    background: ''],
            I (theme_at [''sidebar'', ''backgroundColor'']),
            S ['';'', ''    display: ''],
            I (prop_if ''open'' ''flex'' ''none''),
            S ['';'', ''  '']])),
        S ['';'',
           [],
           ''  @media print {'',
           ''    display: none;'',
           ''  }'',
           []]]"

definition Db_css :: "rule list" where
  "Db_css =
     css
       [S [[],
           ''  outline: none;'',
           ''  user-select: none;'',
           ''  background-color: ''],
        I (theme_at [''fab'', ''backgroundColor'']),
        S ['';'', ''  color: ''],
        I (theme_at [''colors'', ''primary'', ''main'']),
        S ['';'',
           ''  display: none;'',
           ''  cursor: pointer;'',
           ''  position: fixed;'',
           ''  right: 20px;'',
           ''  z-index: 100;'',
           ''  border-radius: 50%;'',
           ''  box-shadow: 0 0 20px rgba(0, 0, 0, 0.3);'',
           ''  ''],
        I (Rules (media ''small'' False []
           [S [[], ''    display: flex;'', ''  '']])),
        S ['';'',
           [],
           ''  bottom: 44px;'',
           [],
           ''  width: 60px;'',
           ''  height: 60px;'',
           ''  padding: 0 20px;'',
           ''  svg {'',
           ''    color: ''],
        I (theme_at [''fab'', ''color'']),
        S ['';'',
           ''  }'',
           [],
           ''  @media print {'',
           ''    display: none;'',
           ''  }'',
           []]]"

section \<open>Page\<close>

definition Mb_css :: "rule list" where
  "Mb_css =
     css
       [S [[], ''  ''],
        I (arrow (literal
           [L [[], ''  font-family: ''],
            E (theme_path [''typography'', ''fontFamily'']),
            L ['';'', ''  font-size: ''],
            E (theme_path [''typography'', ''fontSize'']),
            L ['';'', ''  font-weight: ''],
            E (theme_path [''typography'', ''fontWeightRegular'']),
            L ['';'', ''  line-height: ''],
            E (theme_path [''typography'', ''lineHeight'']),
            L ['';'', ''  color: ''],
            E (theme_path [''colors'', ''text'', ''primary'']),
            L ['';'',
               ''  display: flex;'',
               ''  position: relative;'',
               ''  text-align: left;'',
               [],
               ''  -webkit-font-smoothing: ''],
            E (theme_path [''typography'', ''smoothing'']),
            L ['';'', ''  font-smoothing: ''],
            E (theme_path [''typography'', ''smoothing'']),
            L ['';'', ''  ''],
            E (path_if [''typography'', ''optimizeSpeed''] (''text-rendering: optimizeSpeed !important'') []),
            L ['';'',
               [],
               ''  tap-highlight-color: rgba(0, 0, 0, 0);'',
               ''  text-size-adjust: 100%;'',
               [],
               ''  * {'',
               ''    box-sizing: border-box;'',
               ''    -webkit-tap-highlight-color: rgba(255, 255, 255, 0);'',
               ''  }'',
               []]])),
        S ['';'', []]]"

definition Fb_css :: "rule list" where
  "Fb_css =
     css
       [S [[],
           ''  z-index: 1;'',
           ''  position: relative;'',
           ''  overflow: hidden;'',
           ''  width: calc(100% - ''],
        I (theme_at [''sidebar'', ''width'']),
        S ['');'', ''  ''],
        I (Rules (media ''small'' True []
           [S [[], ''    width: 100%;'', ''  '']])),
        S ['';'',
           [],
           ''  contain: layout;'',
           []]]"

text \<open>\<open>parseInt\<close> yields NaN for a width without digits, and the quotient is NaN with it.\<close>

definition percentage :: "string \<Rightarrow> jsval" where
  "percentage s = (case js_parse_int s of None \<Rightarrow> JNaN | Some n \<Rightarrow> JNum (Dec n 2))"

definition zb_width :: "jsval \<Rightarrow> jsval js" where
  "zb_width p =
     js_bind (theme_path [''rightPanel'', ''width''] p) (\<lambda>w.
       js_bind (js_endsWith w ''%'') (\<lambda>percent.
         if percent then
           literal
             [L [''calc((100% - ''], E (theme_path [''sidebar'', ''width'']), L ['') * ''],
              E (\<lambda>p. Inr (percentage (js_text w))), L ['')'']] p
         else Inr w))"

definition zb_css :: "rule list" where
  "zb_css =
     css
       [S [[], ''  background: ''],
        I (theme_at [''rightPanel'', ''backgroundColor'']),
        S ['';'',
           ''  position: absolute;'',
           ''  top: 0;'',
           ''  bottom: 0;'',
           ''  right: 0;'',
           ''  width: ''],
        I (arrow zb_width),
        S ['';'', ''  ''],
        I (Rules (media ''medium'' True []
           [S [[], ''    display: none;'', ''  '']])),
        S ['';'', []]]"

section \<open>Search box\<close>

definition Ub_css :: "rule list" where
  "Ub_css =
     css
       [S [[], ''  padding: 5px 0;'', []]]"

definition Vb_border :: "viewer \<Rightarrow> jsval \<Rightarrow> jsval js" where
  "Vb_border V p =
     js_bind (theme_path [''sidebar'', ''backgroundColor''] p) (\<lambda>c.
       js_bind (luminance V c) (\<lambda>l.
         js_bind (js_greater l (Dec 5 1)) (\<lambda>bright.
           (if bright then darken V else lighten V) (JNum (Dec 1 1)) c)))"

definition Vb_css :: "viewer \<Rightarrow> rule list" where
  "Vb_css V =
     css
       [S [[], ''  width: calc(100% - ''],
        I (theme_times 8 [''spacing'', ''unit'']),
        S [''px);'', ''  box-sizing: border-box;'', ''  margin: 0 ''],
        I (theme_times 4 [''spacing'', ''unit'']),
        S [''px;'', ''  padding: 5px ''],
        I (theme_times 2 [''spacing'', ''unit'']),
        S [''px 5px'', ''    ''],
        I (theme_times 4 [''spacing'', ''unit'']),
        S [''px;'',
           ''  border: 0;'',
           ''  border-bottom: 1px solid'',
           ''    ''],
        I (arrow (Vb_border V)),
        S ['';'', ''  font-family: ''],
        I (theme_at [''typography'', ''fontFamily'']),
        S ['';'',
           ''  font-weight: bold;'',
           ''  font-size: 13px;'',
           ''  color: ''],
        I (theme_at [''sidebar'', ''textColor'']),
        S ['';'',
           ''  background-color: transparent;'',
           ''  outline: none;'',
           []]]"

definition Bb_css :: "rule list" where
  "Bb_css =
     css
       [S [[], ''  position: absolute;'', ''  left: ''],
        I (theme_times 4 [''spacing'', ''unit'']),
        S [''px;'',
           ''  height: 1.8em;'',
           ''  width: 0.9em;'',
           [],
           ''  path {'',
           ''    fill: ''],
        I (theme_at [''sidebar'', ''textColor'']),
        S ['';'', ''  }'', []]]"

definition qb_css :: "viewer \<Rightarrow> rule list" where
  "qb_css V =
     css
       [S [[], ''  padding: ''],
        I (theme_at [''spacing'', ''unit'']),
        S [''px 0;'', ''  background-color: ''],
        I (theme_colour (darken V) (Dec 5 2) [''sidebar'', ''backgroundColor'']),
        S [''};'', ''  color: ''],
        I (theme_at [''sidebar'', ''textColor'']),
        S ['';'',
           ''  min-height: 150px;'',
           ''  max-height: 250px;'',
           ''  border-top: ''],
        I (theme_colour (darken V) (Dec 1 1) [''sidebar'', ''backgroundColor'']),
        S [''};'', ''  border-bottom: ''],
        I (theme_colour (darken V) (Dec 1 1) [''sidebar'', ''backgroundColor'']),
        S [''};'',
           ''  margin-top: 10px;'',
           ''  line-height: 1.4;'',
           ''  font-size: 0.9em;'',
           [],
           ''  li {'',
           ''    background-color: inherit;'',
           ''  }'',
           [],
           ''  ''],
        I (Component (class_id V ''Ey'')),
        S ['' {'',
           ''    padding-top: 6px;'',
           ''    padding-bottom: 6px;'',
           [],
           ''    &:hover,'',
           ''    &.active {'',
           ''      background-color: ''],
        I (theme_colour (darken V) (Dec 1 1) [''sidebar'', ''backgroundColor'']),
        S ['';'',
           ''    }'',
           [],
           ''    > svg {'',
           ''      display: none;'',
           ''    }'',
           ''  }'',
           []]]"

definition Wb_css :: "rule list" where
  "Wb_css =
     css
       [S [[],
           ''  position: absolute;'',
           ''  display: inline-block;'',
           ''  width: ''],
        I (theme_times 2 [''spacing'', ''unit'']),
        S [''px;'', ''  text-align: center;'', ''  right: ''],
        I (theme_times 4 [''spacing'', ''unit'']),
        S [''px;'',
           ''  line-height: 2em;'',
           ''  vertical-align: middle;'',
           ''  margin-right: 2px;'',
           ''  cursor: pointer;'',
           ''  font-style: normal;'',
           ''  color: '#666';'',
           []]]"

section \<open>The styles render to balanced texts\<close>

lemma neutral_zb_width:
  assumes "themed V p"
  shows "neutral p (arrow zb_width)"
proof -
  obtain s where s: "theme_path [''rightPanel'', ''width''] p = Inr (JStr s)" "no_braces s"
    using assms themed_leaf [OF assms, of "[''rightPanel'', ''width'']"] by (auto simp: themed_def)
  have "shows_text p (\<lambda>p. Inr (percentage s))"
    by (simp add: shows_text_def percentage_def split: option.splits)
  then have "literal_scan p 0 [L [''calc((100% - ''], E (theme_path [''sidebar'', ''width'']), L ['') * ''],
      E (\<lambda>p. Inr (percentage s)), L ['')'']] 0"
    by (simp add: literal_scan_L literal_scan_E literal_scan_Nil shows_path [OF assms])
  with s show ?thesis
    by (auto simp: neutral_arrow_iff zb_width_def dest!: literal_Inr)
qed

lemma neutral_Vb_border:
  assumes "themed V p" and "viewer_ok V"
  shows "neutral p (arrow (Vb_border V))"
proof -
  obtain s where s: "theme_path [''sidebar'', ''backgroundColor''] p = Inr (JStr s)" "colour V s"
    using themed_colour [OF assms(1), of "[''sidebar'', ''backgroundColor'']"] by auto
  obtain n where n: "luminance V (JStr s) = Inr (JNum n)"
    using assms(2) s(2) by (auto simp: viewer_ok_def)
  have "\<exists>t. f (JNum c) (JStr s) = Inr (JStr t) \<and> no_braces t" if "colour_ok V f" for f c
    using that s(2) by (auto simp: colour_ok_def)
  with viewer_okD(1, 2) [OF assms(2)] s(1) n show ?thesis
    by (fastforce simp: neutral_arrow_iff Vb_border_def)
qed

lemma Nb_renders:
  assumes "themed V p" and "viewer_ok V"
  shows "renders p 0 Nb_css 0"
  by (simp add: Nb_css_def style_scan style_neutral [OF assms(1)])

lemma Db_renders:
  assumes "themed V p" and "viewer_ok V"
  shows "renders p 0 Db_css 0"
  by (simp add: Db_css_def style_scan style_neutral [OF assms(1)])

lemma Mb_renders:
  assumes "themed V p" and "viewer_ok V"
  shows "renders p 0 Mb_css 0"
  by (simp add: Mb_css_def style_scan style_neutral [OF assms(1)])

lemma Fb_renders:
  assumes "themed V p" and "viewer_ok V"
  shows "renders p 0 Fb_css 0"
  by (simp add: Fb_css_def style_scan style_neutral [OF assms(1)])

lemma zb_renders:
  assumes "themed V p" and "viewer_ok V"
  shows "renders p 0 zb_css 0"
  by (simp add: zb_css_def style_scan style_neutral [OF assms(1)] neutral_zb_width [OF assms(1)])

lemma Ub_renders:
  assumes "themed V p" and "viewer_ok V"
  shows "renders p 0 Ub_css 0"
  by (simp add: Ub_css_def style_scan style_neutral [OF assms(1)])

lemma Vb_renders:
  assumes "themed V p" and "viewer_ok V"
  shows "renders p 0 (Vb_css V) 0"
  by (simp add: Vb_css_def style_scan style_neutral [OF assms(1)] viewer_okD [OF assms(2)]
      neutral_extension [OF assms(1, 2)] neutral_Vb_border [OF assms])

lemma Bb_renders:
  assumes "themed V p" and "viewer_ok V"
  shows "renders p 0 Bb_css 0"
  by (simp add: Bb_css_def style_scan style_neutral [OF assms(1)])

lemma Wb_renders:
  assumes "themed V p" and "viewer_ok V"
  shows "renders p 0 Wb_css 0"
  by (simp add: Wb_css_def style_scan style_neutral [OF assms(1)])

lemma qb_stray:
  assumes "themed V p" and "viewer_ok V"
  shows "stray p 0 (qb_css V)"
  by (simp add: qb_css_def style_stray style_neutral [OF assms(1)] viewer_okD [OF assms(2)]
      neutral_Component)

end
