(* ===== verification/Theme.thy ===== *)
theory Theme
  imports JS_Value "HOL-Library.AList"
begin

text \<open>
  The theme of the documentation viewer: how the theme of the embedding page is merged into the
  default theme (\<open>Zr\<close>), and how the entries that are functions of the theme are replaced by their
  values (the function in the constructor of the options, \<open>xo\<close>). A function may read entries that
  are functions themselves; each call is counted and the thousandth and first throws, which is how
  circular themes are found.

  A function of the theme is a tree of \<open>Read\<close>s: it reads the entry at a path, goes on with its value
  and ends with a result. Objects are \<open>Node\<close>s; an entry whose value is an object that is not given
  entry by entry, or an array, is outside of the model, as is a function that reads a whole object.
\<close>

section \<open>Themes\<close>

datatype theme_fun = Done "jsval js" | Read "string list" "jsval \<Rightarrow> theme_fun"

datatype theme_node = Leaf jsval | Getter theme_fun | Node "(string \<times> theme_node) list"

type_synonym theme = "(string \<times> theme_node) list"

fun truthy_node :: "theme_node \<Rightarrow> bool" where
  "truthy_node (Leaf v) = truthy_js v"
| "truthy_node _ = True"

subsection \<open>Merging\<close>

text \<open>
  \<open>Zr(e, n)\<close>: an object of the second theme is merged into an object of the first one, or into a new
  one where the first has nothing; a truthy entry that is no object is kept. Everything else
  replaces the entry.
\<close>

function merge_theme :: "theme \<Rightarrow> theme \<Rightarrow> theme" where
  "merge_theme e [] = e"
| "merge_theme e ((k, v) # n) =
     merge_theme
       (case v of
          Node kvs \<Rightarrow>
            (case map_of e k of
               None \<Rightarrow> AList.update k (Node (merge_theme [] kvs)) e
             | Some (Node ekvs) \<Rightarrow> AList.update k (Node (merge_theme ekvs kvs)) e
             | Some x \<Rightarrow> if truthy_node x then e else AList.update k (Node (merge_theme [] kvs)) e)
        | _ \<Rightarrow> AList.update k v e)
       n"
  by pat_completeness auto
termination
  by (relation "measure (\<lambda>(e, n). size (Node n))") auto

section \<open>Resolving\<close>

text \<open>What a path leads to: a value, an object, or a function and the rest of the path.\<close>

datatype found = Value "jsval js" | Object theme | Call "string list" theme_fun "string list"

fun follow :: "string list \<Rightarrow> string list \<Rightarrow> theme_node \<Rightarrow> found" where
  "follow pre ks (Leaf v) = Value (js_path ks v)"
| "follow pre ks (Getter f) = Call pre f ks"
| "follow pre [] (Node kvs) = Object kvs"
| "follow pre (k # ks) (Node kvs) =
     (case map_of kvs k of
        None \<Rightarrow> Value (js_path ks JUndef)
      | Some n \<Rightarrow> follow (pre @ [k]) ks n)"

text \<open>The values of functions are remembered under the path joined by dots.\<close>

definition dotted :: "string list \<Rightarrow> string" where
  "dotted = foldl (\<lambda>i a. (if i = [] then [] else i @ ''.'') @ a) []"

record resolver =
  resolved :: "string \<Rightarrow> jsval option"
  calls :: nat

type_synonym 'a resolving = "resolver \<Rightarrow> ('a js \<times> resolver) option"

primrec run_fun :: "(string list \<Rightarrow> jsval resolving) \<Rightarrow> theme_fun \<Rightarrow> jsval resolving" where
  "run_fun g (Done r) = (\<lambda>s. Some (r, s))"
| "run_fun g (Read ks k) =
     (\<lambda>s. case g ks s of
        None \<Rightarrow> None
      | Some (Inl e, s') \<Rightarrow> Some (Inl e, s')
      | Some (Inr v, s') \<Rightarrow> (\<lambda>v. run_fun g (k v)) v s')"

text \<open>The message goes on with the text of the function, which is no part of the model.\<close>

definition circular :: "string list \<Rightarrow> js_error" where
  "circular pre = PlainError (''Theme probably contains circular dependency at '' @ dotted pre)"

definition max_calls :: nat where
  "max_calls = 1000"

text \<open>
  The getter of an entry: a value that is known and truthy is returned, otherwise the call is
  counted and the function is run. \<open>fuel\<close> bounds the nesting of calls; \<open>max_calls + 1\<close> is enough, as
  the counter stops deeper nesting.
\<close>

definition call_getter ::
  "(string list \<Rightarrow> jsval resolving) \<Rightarrow> string list \<Rightarrow> theme_fun \<Rightarrow> jsval resolving" where
  "call_getter g pre f s =
     (let s1 = s\<lparr>calls := calls s + 1\<rparr> in
      if max_calls < calls s1 then Some (Inl (circular pre), s1)
      else
        (case run_fun g f s1 of
           None \<Rightarrow> None
         | Some (Inl e, s2) \<Rightarrow> Some (Inl e, s2)
         | Some (Inr v, s2) \<Rightarrow> Some (Inr v, s2\<lparr>resolved := (resolved s2)(dotted pre \<mapsto> v)\<rparr>)))"

definition read_with ::
  "(string list \<Rightarrow> theme_fun \<Rightarrow> jsval resolving) \<Rightarrow> theme \<Rightarrow> string list \<Rightarrow> jsval resolving" where
  "read_with call th ks s =
     (case follow [] ks (Node th) of
        Value r \<Rightarrow> Some (r, s)
      | Object o' \<Rightarrow> Some (Inl (Outside_Model ''object''), s)
      | Call pre f rest \<Rightarrow>
          (case resolved s (dotted pre) of
             Some v \<Rightarrow>
               if truthy_js v then Some (js_path rest v, s)
               else map_option (\<lambda>(r, s'). (js_bind r (js_path rest), s')) (call pre f s)
           | None \<Rightarrow> map_option (\<lambda>(r, s'). (js_bind r (js_path rest), s')) (call pre f s)))"

primrec read_theme :: "nat \<Rightarrow> theme \<Rightarrow> string list \<Rightarrow> jsval resolving" where
  "read_theme 0 th = read_with (\<lambda>pre f s. None) th"
| "read_theme (Suc fuel) th = read_with (call_getter (read_theme fuel th)) th"

text \<open>
  Before anything is resolved, the objects of the theme are searched for functions; a null entry
  makes \<open>Object.keys\<close> throw.
\<close>

fun scan_theme :: "theme \<Rightarrow> unit js" where
  "scan_theme [] = Inr ()"
| "scan_theme ((k, Leaf v) # kvs) =
     (case v of JNull \<Rightarrow> Inl (TypeError k) | JObj _ \<Rightarrow> Inl (Outside_Model ''object'') | _ \<Rightarrow> scan_theme kvs)"
| "scan_theme ((k, Getter f) # kvs) = scan_theme kvs"
| "scan_theme ((k, Node n) # kvs) = js_bind (scan_theme n) (\<lambda>_. scan_theme kvs)"

text \<open>
  \<open>JSON.parse(JSON.stringify(e))\<close>: every entry is read in order; undefined entries are left out and
  NaN becomes null.
\<close>

fun json_entry :: "string \<Rightarrow> jsval \<Rightarrow> (string \<times> jsval) list" where
  "json_entry k JUndef = []"
| "json_entry k JNaN = [(k, JNull)]"
| "json_entry k v = [(k, v)]"

fun json_theme :: "(string list \<Rightarrow> jsval resolving) \<Rightarrow> string list \<Rightarrow> theme \<Rightarrow> (string \<times> jsval) list resolving" where
  "json_theme g pre [] s = Some (Inr [], s)"
| "json_theme g pre ((k, n) # kvs) s =
     (case (case n of
         Node sub \<Rightarrow> map_option (\<lambda>(r, s'). (js_bind r (\<lambda>o'. Inr [(k, JObj o')]), s')) (json_theme g (pre @ [k]) sub s)
       | _ \<Rightarrow> map_option (\<lambda>(r, s'). (js_bind r (\<lambda>v. Inr (json_entry k v)), s')) (g (pre @ [k]) s)) of
        None \<Rightarrow> None
      | Some (Inl e, s1) \<Rightarrow> Some (Inl e, s1)
      | Some (Inr xs, s1) \<Rightarrow>
          map_option (\<lambda>(r, s'). (js_bind r (\<lambda>ys. Inr (xs @ ys)), s')) (json_theme g pre kvs s1))"

definition start_resolver :: resolver where
  "start_resolver = \<lparr>resolved = (\<lambda>_. None), calls = 0\<rparr>"

definition resolve_theme :: "theme \<Rightarrow> jsval js option" where
  "resolve_theme th =
     (case scan_theme th of
        Inl e \<Rightarrow> Some (Inl e)
      | Inr _ \<Rightarrow>
          map_option (\<lambda>(r, s). js_bind r (\<lambda>kvs. Inr (JObj kvs)))
            (json_theme (read_theme (max_calls + 1) th) [] th start_resolver))"

section \<open>Resolving ends\<close>

text \<open>\<open>reads_end g m\<close>: from at least \<open>m\<close> and at most \<open>max_calls\<close> counted calls, \<open>g\<close> returns.\<close>

definition reads_end :: "nat \<Rightarrow> 'a resolving \<Rightarrow> bool" where
  "reads_end m g \<longleftrightarrow>
     (\<forall>s. m \<le> calls s \<longrightarrow> calls s \<le> max_calls \<longrightarrow>
       (\<exists>r s'. g s = Some (r, s') \<and> (\<forall>v. r = Inr v \<longrightarrow> calls s \<le> calls s' \<and> calls s' \<le> max_calls)))"

lemma reads_endD:
  assumes "reads_end m g" and "m \<le> calls s" and "calls s \<le> max_calls"
  obtains e s' where "g s = Some (Inl e, s')"
  | v s' where "g s = Some (Inr v, s')" and "m \<le> calls s'" and "calls s' \<le> max_calls" and "calls s \<le> calls s'"
proof -
  obtain r s' where "g s = Some (r, s')" "\<forall>v. r = Inr v \<longrightarrow> calls s \<le> calls s' \<and> calls s' \<le> max_calls"
    using assms by (auto simp: reads_end_def)
  with that assms(2) show ?thesis by (cases r) auto
qed

lemma run_fun_ends:
  assumes "\<And>ks. reads_end m (g ks)"
  shows "reads_end m (run_fun g f)"
proof (induction f)
  case (Done r)
  then show ?case by (simp add: reads_end_def)
next
  case (Read ks k)
  show ?case
    unfolding reads_end_def
  proof (intro allI impI)
    fix s :: resolver assume s: "m \<le> calls s" "calls s \<le> max_calls"
    from assms [of ks] s show "\<exists>r s'. run_fun g (Read ks k) s = Some (r, s') \<and>
        (\<forall>v. r = Inr v \<longrightarrow> calls s \<le> calls s' \<and> calls s' \<le> max_calls)"
    proof (cases rule: reads_endD)
      case (2 v s')
      from Read [of "k v", OF rangeI] 2(2, 3) show ?thesis
        by (cases rule: reads_endD) (use 2 in auto)
    qed simp
  qed
qed

lemma call_getter_ends:
  assumes "\<And>ks. reads_end (Suc m) (g ks)"
  shows "reads_end m (call_getter g pre f)"
  unfolding reads_end_def
proof (intro allI impI)
  fix s :: resolver assume s: "m \<le> calls s" "calls s \<le> max_calls"
  let ?s = "s\<lparr>calls := calls s + 1\<rparr>"
  show "\<exists>r s'. call_getter g pre f s = Some (r, s') \<and>
      (\<forall>v. r = Inr v \<longrightarrow> calls s \<le> calls s' \<and> calls s' \<le> max_calls)"
  proof (cases "max_calls < calls ?s")
    case False
    have "reads_end (Suc m) (run_fun g f)" by (rule run_fun_ends) (rule assms)
    moreover have "Suc m \<le> calls ?s" "calls ?s \<le> max_calls" using s False by simp_all
    ultimately show ?thesis
    proof (cases rule: reads_endD)
      case (2 v s')
      then show ?thesis using False by (simp add: call_getter_def)
    qed (use False in \<open>simp add: call_getter_def\<close>)
  qed (simp add: call_getter_def)
qed

lemma read_with_ends:
  assumes "\<And>pre f. reads_end m (call pre f)"
  shows "reads_end m (read_with call th ks)"
  unfolding reads_end_def
proof (intro allI impI)
  fix s :: resolver assume s: "m \<le> calls s" "calls s \<le> max_calls"
  show "\<exists>r s'. read_with call th ks s = Some (r, s') \<and>
      (\<forall>v. r = Inr v \<longrightarrow> calls s \<le> calls s' \<and> calls s' \<le> max_calls)"
  proof (cases "follow [] ks (Node th)")
    case (Call pre f rest)
    from assms [of pre f] s show ?thesis
      by (cases rule: reads_endD)
        (use Call s in \<open>auto simp: read_with_def js_bind_Inr_iff split: option.split\<close>)
  qed (use s in \<open>simp_all add: read_with_def\<close>)
qed

theorem read_theme_ends: "reads_end (max_calls + 1 - fuel) (read_theme fuel th ks)"
proof (induction fuel arbitrary: ks)
  case 0
  then show ?case by (simp add: reads_end_def)
next
  case (Suc fuel)
  show ?case
  proof (cases "fuel \<le> max_calls")
    case True
    then have "max_calls + 1 - fuel = Suc (max_calls + 1 - Suc fuel)" by simp
    with Suc show ?thesis
      by (simp add: read_with_ends call_getter_ends)
  next
    case False
    have "reads_end (Suc 0) (read_theme fuel th ks)" for ks
      using Suc [of ks] False by (simp add: reads_end_def)
    with False show ?thesis by (simp add: read_with_ends call_getter_ends)
  qed
qed

lemma reads_end_map:
  assumes "reads_end m h"
  shows "reads_end m (\<lambda>s. map_option (\<lambda>(r, s'). (js_bind r (\<lambda>v. Inr (F v)), s')) (h s))"
  unfolding reads_end_def
proof (intro allI impI)
  fix s :: resolver assume "m \<le> calls s" "calls s \<le> max_calls"
  with assms show "\<exists>r s'. map_option (\<lambda>(r, s'). (js_bind r (\<lambda>v. Inr (F v)), s')) (h s) = Some (r, s') \<and>
      (\<forall>v. r = Inr v \<longrightarrow> calls s \<le> calls s' \<and> calls s' \<le> max_calls)"
    by (cases rule: reads_endD) auto
qed

lemma json_theme_ends:
  assumes "\<And>ks. reads_end m (g ks)"
  shows "reads_end m (json_theme g pre kvs)"
proof (induction "size (Node kvs)" arbitrary: pre kvs rule: less_induct)
  case less
  show ?case
  proof (cases kvs)
    case Nil
    then show ?thesis by (simp add: reads_end_def)
  next
    case (Cons kn rest)
    obtain k n where kn: "kn = (k, n)" by (cases kn)
    define h where "h = (\<lambda>s. case n of
        Node sub \<Rightarrow> map_option (\<lambda>(r, s'). (js_bind r (\<lambda>o'. Inr [(k, JObj o')]), s')) (json_theme g (pre @ [k]) sub s)
      | _ \<Rightarrow> map_option (\<lambda>(r, s'). (js_bind r (\<lambda>v. Inr (json_entry k v)), s')) (g (pre @ [k]) s))"
    have h: "reads_end m h"
    proof (cases n)
      case (Node sub)
      have "reads_end m (json_theme g (pre @ [k]) sub)"
        by (rule less) (simp add: Cons kn Node)
      from reads_end_map [OF this, of "\<lambda>o'. [(k, JObj o')]"] Node show ?thesis by (simp add: h_def)
    qed (use reads_end_map [OF assms, of "json_entry k"] in \<open>simp_all add: h_def\<close>)
    have rest: "reads_end m (json_theme g pre rest)"
      by (rule less) (simp add: Cons)
    show ?thesis
      unfolding reads_end_def
    proof (intro allI impI)
      fix s :: resolver assume s: "m \<le> calls s" "calls s \<le> max_calls"
      have step: "json_theme g pre kvs s =
          (case h s of
             None \<Rightarrow> None
           | Some (Inl e, s1) \<Rightarrow> Some (Inl e, s1)
           | Some (Inr xs, s1) \<Rightarrow>
               map_option (\<lambda>(r, s'). (js_bind r (\<lambda>ys. Inr (xs @ ys)), s')) (json_theme g pre rest s1))"
        by (simp add: Cons kn h_def)
      from h s show "\<exists>r s'. json_theme g pre kvs s = Some (r, s') \<and>
          (\<forall>v. r = Inr v \<longrightarrow> calls s \<le> calls s' \<and> calls s' \<le> max_calls)"
      proof (cases rule: reads_endD)
        case (2 xs s1)
        from rest 2(2, 3) show ?thesis
          by (cases rule: reads_endD) (use 2 in \<open>auto simp: step\<close>)
      qed (simp add: step)
    qed
  qed
qed

theorem resolve_theme_ends: "\<exists>r. resolve_theme th = Some r"
proof (cases "scan_theme th")
  case (Inr u)
  have "reads_end 0 (read_theme (max_calls + 1) th ks)" for ks
    using read_theme_ends [of "max_calls + 1" th ks] by simp
  then have "reads_end 0 (json_theme (read_theme (max_calls + 1) th) [] th)"
    by (rule json_theme_ends)
  then have "\<exists>r s. json_theme (read_theme (max_calls + 1) th) [] th start_resolver = Some (r, s)"
    by (cases rule: reads_endD [where s = start_resolver]) (simp_all add: start_resolver_def)
  then obtain r s where "json_theme (read_theme (max_calls + 1) th) [] th start_resolver = Some (r, s)"
    by blast
  with Inr show ?thesis by (simp add: resolve_theme_def del: read_theme.simps)
qed (simp add: resolve_theme_def)

section \<open>Circular themes\<close>

theorem cycle_throws:
  assumes "\<And>p. p \<in> C \<Longrightarrow> \<exists>q \<in> C. \<exists>k. follow [] p (Node th) = Call p (Read q k) []"
    and "ks \<in> C" and "\<And>p. p \<in> C \<Longrightarrow> resolved s (dotted p) = None"
    and "calls s \<le> max_calls" and "max_calls + 1 \<le> fuel + calls s"
  shows "\<exists>s' p. p \<in> C \<and> read_theme fuel th ks s = Some (Inl (circular p), s')"
  using assms(2-)
proof (induction fuel arbitrary: ks s)
  case (Suc fuel)
  obtain q k where q: "q \<in> C" "follow [] ks (Node th) = Call ks (Read q k) []"
    using assms(1) Suc.prems(1) by blast
  let ?s = "s\<lparr>calls := calls s + 1\<rparr>"
  show ?case
  proof (cases "max_calls < calls ?s")
    case True
    then show ?thesis using q Suc.prems by (intro exI [of _ ?s] exI [of _ ks]) (simp add: read_with_def call_getter_def)
  next
    case False
    then obtain s' p where "p \<in> C" "read_theme fuel th q ?s = Some (Inl (circular p), s')"
      using Suc.IH [OF q(1), of ?s] Suc.prems by auto
    then show ?thesis using q False Suc.prems
      by (intro exI [of _ s'] exI [of _ p]) (simp add: read_with_def call_getter_def)
  qed
qed simp

end
