(* ===== verification/Theme_Meaning.thy ===== *)
theory Theme_Meaning
  imports Theme
begin

text \<open>
  What the entries of a theme mean, without the cache and the count of calls: the relation
  \<open>denotes\<close>, which every value read satisfies (\<open>read_theme_sound\<close>), and the function
  \<open>plain_read\<close>, which resolving agrees with as long as it evaluates at most \<open>max_calls\<close> functions
  (\<open>resolve_theme_plain\<close>).
\<close>

section \<open>The cache does not change the meaning\<close>

text \<open>
  The plain meaning of an entry: functions are evaluated whenever they are read, nothing is
  remembered and nothing is counted.
\<close>

inductive denotes :: "theme \<Rightarrow> string list \<Rightarrow> jsval \<Rightarrow> bool"
  and fun_denotes :: "theme \<Rightarrow> theme_fun \<Rightarrow> jsval \<Rightarrow> bool" for th where
  plain: "follow [] ks (Node th) = Value (Inr v) \<Longrightarrow> denotes th ks v"
| getter: "follow [] ks (Node th) = Call pre f rest \<Longrightarrow> fun_denotes th f w \<Longrightarrow> js_path rest w = Inr v \<Longrightarrow>
    denotes th ks v"
| ret: "fun_denotes th (Done (Inr v)) v"
| read: "denotes th ks v \<Longrightarrow> fun_denotes th (k v) w \<Longrightarrow> fun_denotes th (Read ks k) w"

inductive_cases denotes_cases: "denotes th ks v"
inductive_cases fun_denotes_cases: "fun_denotes th f v"

text \<open>
  Keys that are not empty and contain no dot: then a dotted path belongs to one path only.
\<close>

definition plain_key :: "string \<Rightarrow> bool" where
  "plain_key k \<longleftrightarrow> k \<noteq> [] \<and> CHR ''.'' \<notin> set k"

fun plain_keys :: "theme_node \<Rightarrow> bool" where
  "plain_keys (Node kvs) = (\<forall>kn \<in> set kvs. plain_key (fst kn) \<and> plain_keys (snd kn))"
| "plain_keys _ = True"

lemma dotted_snoc: "dotted (ks @ [k]) = (if dotted ks = [] then [] else dotted ks @ ''.'') @ k"
  by (simp add: dotted_def)

lemma dotted_Nil_iff: "list_all plain_key ks \<Longrightarrow> dotted ks = [] \<longleftrightarrow> ks = []"
  by (induction ks rule: rev_induct) (auto simp: dotted_snoc plain_key_def, simp add: dotted_def)

lemma last_part_unique:
  assumes "s @ CHR ''.'' # k = t @ CHR ''.'' # l" and "CHR ''.'' \<notin> set k" and "CHR ''.'' \<notin> set l"
  shows "s = t \<and> k = l"
  using assms by (auto simp: append_eq_append_conv2 Cons_eq_append_conv append_eq_Cons_conv)

lemma dotted_inj:
  "list_all plain_key ks \<Longrightarrow> list_all plain_key ls \<Longrightarrow> dotted ks = dotted ls \<Longrightarrow> ks = ls"
proof (induction ks arbitrary: ls rule: rev_induct)
  case Nil
  then show ?case using dotted_Nil_iff [of ls] by (simp add: dotted_def)
next
  case (snoc k ks)
  obtain l ls' where ls: "ls = ls' @ [l]"
    using snoc.prems dotted_Nil_iff [of "ks @ [k]"] dotted_Nil_iff [of ls]
    by (cases ls rule: rev_cases) auto
  have keys: "list_all plain_key ks" "list_all plain_key ls'" "plain_key k" "plain_key l"
    using snoc.prems ls by simp_all
  from snoc.prems(3) have eq:
    "(if ks = [] then [] else dotted ks @ ''.'') @ k = (if ls' = [] then [] else dotted ls' @ ''.'') @ l"
    unfolding ls dotted_snoc by (simp only: dotted_Nil_iff [OF keys(1)] dotted_Nil_iff [OF keys(2)])
  have nodot: "CHR ''.'' \<notin> set k" "CHR ''.'' \<notin> set l" using keys by (simp_all add: plain_key_def)
  show ?case
  proof (cases "ks = []"; cases "ls' = []")
    assume "ks \<noteq> []" "ls' \<noteq> []"
    with eq last_part_unique [OF _ nodot, of "dotted ks" "dotted ls'"] snoc.IH [OF keys(1, 2)] ls
    show ?thesis by simp
  qed (use eq nodot ls in \<open>auto\<close>)
qed

lemma follow_Call:
  "follow pre0 ks n = Call pre f rest \<Longrightarrow> plain_keys n \<Longrightarrow> \<exists>ms. pre = pre0 @ ms \<and>
    follow pre0 ms n = Call pre f [] \<and> list_all plain_key ms"
proof (induction pre0 ks n rule: follow.induct)
  case (2 pre0 g ks)
  then show ?case by (intro exI [of _ "[]"]) simp
next
  case (4 pre0 k ks kvs)
  then obtain n where n: "map_of kvs k = Some n" "follow (pre0 @ [k]) ks n = Call pre f rest"
    by (auto split: option.splits)
  from 4(3) map_of_SomeD [OF n(1)] have plain: "plain_key k" "plain_keys n" by force+
  obtain ms where "pre = (pre0 @ [k]) @ ms" "follow (pre0 @ [k]) ms n = Call pre f []" "list_all plain_key ms"
    using 4(1) n plain by blast
  then show ?case using n plain by (intro exI [of _ "k # ms"]) simp
qed simp_all

lemma follow_prefix:
  assumes "plain_keys (Node th)" and "follow [] ks (Node th) = Call pre f rest"
  shows "follow [] pre (Node th) = Call pre f []" and "list_all plain_key pre"
  using follow_Call [OF assms(2, 1)] by auto

definition cache_ok :: "theme \<Rightarrow> resolver \<Rightarrow> bool" where
  "cache_ok th s \<longleftrightarrow>
     (\<forall>pre f v. follow [] pre (Node th) = Call pre f [] \<longrightarrow> resolved s (dotted pre) = Some v \<longrightarrow>
       fun_denotes th f v)"

lemma cache_okD:
  "cache_ok th s \<Longrightarrow> plain_keys (Node th) \<Longrightarrow> follow [] ks (Node th) = Call pre f rest \<Longrightarrow>
    resolved s (dotted pre) = Some v \<Longrightarrow> fun_denotes th f v"
  unfolding cache_ok_def by (blast dest: follow_prefix(1))

lemma cache_ok_count [simp]: "cache_ok th (s\<lparr>calls := n\<rparr>) \<longleftrightarrow> cache_ok th s"
  by (simp add: cache_ok_def)

lemma cache_ok_start: "cache_ok th start_resolver"
  by (simp add: cache_ok_def start_resolver_def)

lemma cache_ok_update:
  assumes "cache_ok th s" and "plain_keys (Node th)"
    and "follow [] ks (Node th) = Call pre f rest" and "fun_denotes th f v"
  shows "cache_ok th (s\<lparr>resolved := (resolved s)(dotted pre \<mapsto> v)\<rparr>)"
  unfolding cache_ok_def
proof (intro allI impI)
  fix pre' f' v'
  assume call: "follow [] pre' (Node th) = Call pre' f' []"
    and v': "resolved (s\<lparr>resolved := (resolved s)(dotted pre \<mapsto> v)\<rparr>) (dotted pre') = Some v'"
  note here = follow_prefix [OF assms(2, 3)]
  show "fun_denotes th f' v'"
  proof (cases "dotted pre' = dotted pre")
    case True
    then have "pre' = pre" using dotted_inj follow_prefix [OF assms(2) call] here by blast
    with call here v' assms(4) show ?thesis by simp
  next
    case False
    with v' have "resolved s (dotted pre') = Some v'" by simp
    with assms(1) call show ?thesis by (auto simp: cache_ok_def)
  qed
qed

definition sound_read :: "theme \<Rightarrow> (string list \<Rightarrow> jsval resolving) \<Rightarrow> bool" where
  "sound_read th g \<longleftrightarrow>
     (\<forall>ks s v s'. cache_ok th s \<longrightarrow> g ks s = Some (Inr v, s') \<longrightarrow> denotes th ks v \<and> cache_ok th s')"

lemma sound_readD:
  "sound_read th g \<Longrightarrow> cache_ok th s \<Longrightarrow> g ks s = Some (Inr v, s') \<Longrightarrow> denotes th ks v \<and> cache_ok th s'"
  unfolding sound_read_def by blast

lemma run_fun_sound:
  assumes "sound_read th g"
  shows "cache_ok th s \<Longrightarrow> run_fun g f s = Some (Inr v, s') \<Longrightarrow> fun_denotes th f v \<and> cache_ok th s'"
proof (induction f arbitrary: s)
  case (Done r)
  then show ?case by (auto intro: ret)
next
  case (Read ks k)
  then obtain w s1 where w: "g ks s = Some (Inr w, s1)" "run_fun g (k w) s1 = Some (Inr v, s')"
    by (auto split: option.splits sum.splits)
  with assms Read.prems have "denotes th ks w" "cache_ok th s1"
    unfolding sound_read_def by blast+
  with Read.IH [of "k w" s1] w show ?case by (auto intro: read)
qed

lemma call_getter_sound:
  assumes "sound_read th g" and "plain_keys (Node th)" and "follow [] ks (Node th) = Call pre f rest"
    and "cache_ok th s" and "call_getter g pre f s = Some (Inr v, s')"
  shows "fun_denotes th f v \<and> cache_ok th s'"
proof -
  let ?s = "s\<lparr>calls := calls s + 1\<rparr>"
  obtain s2 where s2: "run_fun g f ?s = Some (Inr v, s2)"
    "s' = s2\<lparr>resolved := (resolved s2)(dotted pre \<mapsto> v)\<rparr>"
    using assms(5) by (auto simp: call_getter_def Let_def split: if_splits option.splits sum.splits)
  have "cache_ok th ?s" using assms(4) by simp
  with run_fun_sound [OF assms(1) _ s2(1)] have "fun_denotes th f v" "cache_ok th s2" by blast+
  with s2(2) cache_ok_update [OF _ assms(2, 3)] show ?thesis by simp
qed

lemma read_with_sound:
  assumes plain: "plain_keys (Node th)"
    and call: "\<And>ks pre f rest s v s'. follow [] ks (Node th) = Call pre f rest \<Longrightarrow> cache_ok th s \<Longrightarrow>
      call pre f s = Some (Inr v, s') \<Longrightarrow> fun_denotes th f v \<and> cache_ok th s'"
  shows "sound_read th (read_with call th)"
  unfolding sound_read_def
proof (intro allI impI)
  fix ks v and s s' :: resolver
  assume ok: "cache_ok th s" and run: "read_with call th ks s = Some (Inr v, s')"
  show "denotes th ks v \<and> cache_ok th s'"
  proof (cases "follow [] ks (Node th)")
    case (Value r)
    then show ?thesis using ok run by (auto simp: read_with_def intro: denotes_fun_denotes.plain)
  next
    case (Object n)
    then show ?thesis using run by (simp add: read_with_def)
  next
    case (Call pre f rest)
    show ?thesis
    proof (cases "\<exists>w. resolved s (dotted pre) = Some w \<and> truthy_js w")
      case True
      then obtain w where w: "resolved s (dotted pre) = Some w" "js_path rest w = Inr v" "s' = s"
        using run Call by (auto simp: read_with_def)
      with cache_okD [OF ok plain Call] ok Call show ?thesis by (auto intro: getter)
    next
      case False
      then obtain w where w: "call pre f s = Some (Inr w, s')" "js_path rest w = Inr v"
        using run Call by (auto simp: read_with_def js_bind_Inr_iff split: option.splits)
      from call [OF Call ok w(1)] w(2) Call show ?thesis
        by (auto intro: getter)
    qed
  qed
qed

theorem read_theme_sound:
  assumes "plain_keys (Node th)" shows "sound_read th (read_theme fuel th)"
proof (induction fuel)
  case (Suc fuel)
  from call_getter_sound [OF this assms] show ?case
    unfolding read_theme.simps by (rule read_with_sound [OF assms])
next
  case 0
  show ?case unfolding read_theme.simps by (rule read_with_sound [OF assms]) simp
qed

section \<open>Plain evaluation\<close>

text \<open>
  The reference to compare with: every function is evaluated whenever it is read. The result comes
  with the number of functions evaluated. When that number is at most \<open>max_calls\<close>, resolving the
  theme gives the same value.
\<close>

type_synonym 'a plain = "('a js \<times> nat) option"

definition plain_bind :: "'a plain \<Rightarrow> ('a \<Rightarrow> 'b plain) \<Rightarrow> 'b plain" where
  "plain_bind r f =
     (case r of
        None \<Rightarrow> None
      | Some (Inl e, n) \<Rightarrow> Some (Inl e, n)
      | Some (Inr a, n) \<Rightarrow> map_option (\<lambda>(b, m). (b, n + m)) (f a))"

lemma plain_bind_simps [simp]:
  "plain_bind None f = None"
  "plain_bind (Some (Inl e, n)) f = Some (Inl e, n)"
  "plain_bind (Some (Inr a, n)) f = map_option (\<lambda>(b, m). (b, n + m)) (f a)"
  by (simp_all add: plain_bind_def)

lemma plain_bind_Inr:
  "plain_bind r f = Some (Inr b, n) \<longleftrightarrow>
    (\<exists>a k m. r = Some (Inr a, k) \<and> f a = Some (Inr b, m) \<and> n = k + m)"
  by (auto simp: plain_bind_def split: option.splits sum.splits)

primrec plain_fun :: "(string list \<Rightarrow> jsval plain) \<Rightarrow> theme_fun \<Rightarrow> jsval plain" where
  "plain_fun g (Done r) = Some (r, 0)"
| "plain_fun g (Read ks k) = plain_bind (g ks) (\<lambda>v. plain_fun g (k v))"

definition plain_with ::
  "(theme_fun \<Rightarrow> jsval plain) \<Rightarrow> theme \<Rightarrow> string list \<Rightarrow> jsval plain" where
  "plain_with call th ks =
     (case follow [] ks (Node th) of
        Value r \<Rightarrow> Some (r, 0)
      | Object o' \<Rightarrow> Some (Inl (Outside_Model ''object''), 0)
      | Call pre f rest \<Rightarrow> plain_bind (call f) (\<lambda>w. Some (js_path rest w, 1)))"

primrec plain_read :: "nat \<Rightarrow> theme \<Rightarrow> string list \<Rightarrow> jsval plain" where
  "plain_read 0 th = plain_with (\<lambda>f. None) th"
| "plain_read (Suc fuel) th = plain_with (plain_fun (plain_read fuel th)) th"

fun plain_json :: "(string list \<Rightarrow> jsval plain) \<Rightarrow> string list \<Rightarrow> theme \<Rightarrow> (string \<times> jsval) list plain" where
  "plain_json g pre [] = Some (Inr [], 0)"
| "plain_json g pre ((k, n) # kvs) =
     plain_bind
       (case n of
          Node sub \<Rightarrow> plain_bind (plain_json g (pre @ [k]) sub) (\<lambda>o'. Some (Inr [(k, JObj o')], 0))
        | _ \<Rightarrow> plain_bind (g (pre @ [k])) (\<lambda>v. Some (Inr (json_entry k v), 0)))
       (\<lambda>xs. plain_bind (plain_json g pre kvs) (\<lambda>ys. Some (Inr (xs @ ys), 0)))"

lemma denotes_unique:
  "denotes th ks v \<Longrightarrow> denotes th ks w \<Longrightarrow> v = w"
  "fun_denotes th f v \<Longrightarrow> fun_denotes th f w \<Longrightarrow> v = w"
proof (induction arbitrary: w and w rule: denotes_fun_denotes.inducts)
  case (plain ks v)
  from plain.prems show ?case by (cases rule: denotes_cases) (use plain in auto)
next
  case (getter ks pre f rest u v)
  from getter have call: "follow [] ks (Node th) = Call pre f rest" and path: "js_path rest u = Inr v"
    and same: "\<And>w. fun_denotes th f w \<Longrightarrow> u = w" by blast+
  obtain f' rest' u' pre' where "follow [] ks (Node th) = Call pre' f' rest'"
      "fun_denotes th f' u'" "js_path rest' u' = Inr w"
    using getter.prems call by (auto elim: denotes_cases)
  with call same [of u'] path show ?case by simp
next
  case (ret v)
  from ret.prems show ?case by (cases rule: fun_denotes_cases) auto
next
  case (read ks v k u)
  from read have same: "\<And>x. denotes th ks x \<Longrightarrow> v = x" "\<And>x. fun_denotes th (k v) x \<Longrightarrow> u = x" by blast+
  obtain x where "denotes th ks x" "fun_denotes th (k x) w"
    using read.prems by (blast elim: fun_denotes_cases)
  with same(1) [of x] same(2) [of w] show ?case by simp
qed

text \<open>\<open>as_plain th m r\<close>: from a cache that is right, \<open>m\<close> returns what \<open>r\<close> says.\<close>

definition as_plain :: "theme \<Rightarrow> 'a resolving \<Rightarrow> 'a plain \<Rightarrow> bool" where
  "as_plain th m r \<longleftrightarrow>
     (\<forall>v n s. r = Some (Inr v, n) \<longrightarrow> cache_ok th s \<longrightarrow> calls s + n \<le> max_calls \<longrightarrow>
       (\<exists>s'. m s = Some (Inr v, s') \<and> cache_ok th s' \<and> calls s' \<le> calls s + n))"

lemma as_plainI:
  "(\<And>v n s. r = Some (Inr v, n) \<Longrightarrow> cache_ok th s \<Longrightarrow> calls s + n \<le> max_calls \<Longrightarrow>
      \<exists>s'. m s = Some (Inr v, s') \<and> cache_ok th s' \<and> calls s' \<le> calls s + n) \<Longrightarrow> as_plain th m r"
  by (simp add: as_plain_def)

lemma as_plainD:
  assumes "as_plain th m r" and "r = Some (Inr v, n)" and "cache_ok th s" and "calls s + n \<le> max_calls"
  obtains s' where "m s = Some (Inr v, s')" and "cache_ok th s'" and "calls s' \<le> calls s + n"
  using assms by (auto simp: as_plain_def)

lemma as_plain_bind:
  assumes "as_plain th m r" and "\<And>a. as_plain th (f a) (g a)"
    and "\<And>s. h s = (case m s of None \<Rightarrow> None | Some (Inl e, s') \<Rightarrow> Some (Inl e, s') | Some (Inr a, s') \<Rightarrow> f a s')"
  shows "as_plain th h (plain_bind r g)"
proof (rule as_plainI)
  fix v n and s :: resolver
  assume r: "plain_bind r g = Some (Inr v, n)" and ok: "cache_ok th s" and le: "calls s + n \<le> max_calls"
  then obtain a k l where a: "r = Some (Inr a, k)" "g a = Some (Inr v, l)" "n = k + l"
    by (auto simp: plain_bind_Inr)
  obtain s1 where s1: "m s = Some (Inr a, s1)" "cache_ok th s1" "calls s1 \<le> calls s + k"
    using assms(1) a(1) ok by (rule as_plainD) (use le a(3) in simp)
  obtain s2 where "f a s1 = Some (Inr v, s2)" "cache_ok th s2" "calls s2 \<le> calls s1 + l"
    using assms(2) a(2) s1(2) by (rule as_plainD) (use le a(3) s1(3) in simp)
  with s1 a(3) show "\<exists>s'. h s = Some (Inr v, s') \<and> cache_ok th s' \<and> calls s' \<le> calls s + n"
    by (auto simp: assms(3))
qed

lemma run_fun_as_plain:
  assumes "\<And>ks. as_plain th (g ks) (h ks)"
  shows "as_plain th (run_fun g f) (plain_fun h f)"
proof (induction f)
  case (Done r)
  show ?case by (rule as_plainI) auto
next
  case (Read ks k)
  show ?case
    unfolding plain_fun.simps
    by (rule as_plain_bind [OF assms]) (use Read in \<open>auto split: option.split sum.split\<close>)
qed

text \<open>What is evaluated plainly is the meaning of the entry.\<close>

definition right_read :: "theme \<Rightarrow> (string list \<Rightarrow> jsval plain) \<Rightarrow> bool" where
  "right_read th h \<longleftrightarrow> (\<forall>ks v n. h ks = Some (Inr v, n) \<longrightarrow> denotes th ks v)"

lemma plain_fun_denotes: "right_read th h \<Longrightarrow> plain_fun h f = Some (Inr v, n) \<Longrightarrow> fun_denotes th f v"
proof (induction f arbitrary: n)
  case (Done r)
  then show ?case by (auto intro: ret)
next
  case (Read ks k)
  then obtain w m l where "h ks = Some (Inr w, m)" "plain_fun h (k w) = Some (Inr v, l)"
    by (auto simp: plain_bind_Inr)
  moreover from this(2) have "fun_denotes th (k w) v" using Read by blast
  ultimately show ?case using Read.prems(1) by (auto simp: right_read_def intro: read)
qed

lemma plain_with_denotes:
  assumes "\<And>f v n. call f = Some (Inr v, n) \<Longrightarrow> fun_denotes th f v"
  shows "right_read th (plain_with call th)"
  unfolding right_read_def
proof (intro allI impI)
  fix ks v n assume "plain_with call th ks = Some (Inr v, n)"
  then show "denotes th ks v"
    by (auto simp: plain_with_def plain_bind_Inr split: found.splits
        intro: denotes_fun_denotes.plain getter [OF _ assms])
qed

lemma plain_read_denotes: "right_read th (plain_read fuel th)"
proof (induction fuel)
  case 0
  show ?case unfolding plain_read.simps by (rule plain_with_denotes) simp
next
  case (Suc fuel)
  show ?case unfolding plain_read.simps
    by (rule plain_with_denotes) (rule plain_fun_denotes [OF Suc])
qed

lemma read_with_as_plain:
  assumes plain: "plain_keys (Node th)"
    and right: "\<And>f v n. h f = Some (Inr v, n) \<Longrightarrow> fun_denotes th f v"
    and run: "\<And>pre f. as_plain th (run f) (h f)"
    and call: "\<And>pre f s v s1 n. h f = Some (Inr v, n) \<Longrightarrow> calls s + Suc n \<le> max_calls \<Longrightarrow>
      run f (s\<lparr>calls := calls s + 1\<rparr>) = Some (Inr v, s1) \<Longrightarrow>
      call pre f s = Some (Inr v, s1\<lparr>resolved := (resolved s1)(dotted pre \<mapsto> v)\<rparr>)"
  shows "as_plain th (read_with call th ks) (plain_with h th ks)"
proof (cases "follow [] ks (Node th)")
  case (Value r)
  then show ?thesis by (auto simp: as_plain_def read_with_def plain_with_def)
next
  case (Object n)
  then show ?thesis by (simp add: as_plain_def plain_with_def)
next
  case (Call pre f rest)
  show ?thesis
  proof (rule as_plainI)
    fix v n and s :: resolver
    assume "plain_with h th ks = Some (Inr v, n)"
      and ok: "cache_ok th s" and le: "calls s + n \<le> max_calls"
    then obtain w m where w: "h f = Some (Inr w, m)" "js_path rest w = Inr v" "n = Suc m"
      using Call by (auto simp: plain_with_def plain_bind_Inr)
    note denoted = right [OF w(1)]
    show "\<exists>s'. read_with call th ks s = Some (Inr v, s') \<and> cache_ok th s' \<and> calls s' \<le> calls s + n"
    proof (cases "\<exists>u. resolved s (dotted pre) = Some u \<and> truthy_js u")
      case True
      then obtain u where u: "resolved s (dotted pre) = Some u" "truthy_js u" by blast
      then have "u = w" using cache_okD [OF ok plain Call] denoted by (blast intro: denotes_unique)
      with u w Call ok show ?thesis by (auto simp: read_with_def)
    next
      case False
      obtain s1 where s1: "run f (s\<lparr>calls := calls s + 1\<rparr>) = Some (Inr w, s1)" "cache_ok th s1"
          "calls s1 \<le> calls s + 1 + m"
        using run w(1) by (rule as_plainD [where s = "s\<lparr>calls := calls s + 1\<rparr>"]) (use ok le w(3) in simp_all)
      let ?s2 = "s1\<lparr>resolved := (resolved s1)(dotted pre \<mapsto> w)\<rparr>"
      have "call pre f s = Some (Inr w, ?s2)"
        using w(1) _ s1(1) by (rule call) (use le w(3) in simp)
      moreover have "cache_ok th ?s2" using cache_ok_update [OF s1(2) plain Call denoted] .
      ultimately show ?thesis using False Call w s1(3)
        by (intro exI [of _ ?s2]) (auto simp: read_with_def split: option.split)
    qed
  qed
qed

theorem read_theme_as_plain:
  assumes "plain_keys (Node th)"
  shows "as_plain th (read_theme fuel th ks) (plain_read fuel th ks)"
proof (induction fuel arbitrary: ks)
  case 0
  show ?case
    unfolding read_theme.simps plain_read.simps
    by (rule read_with_as_plain [OF assms, where run = "\<lambda>f s. None"]) (simp_all add: as_plain_def)
next
  case (Suc fuel)
  show ?case
    unfolding read_theme.simps plain_read.simps
  proof (rule read_with_as_plain [OF assms, where run = "run_fun (read_theme fuel th)"])
    show "fun_denotes th f v" if "plain_fun (plain_read fuel th) f = Some (Inr v, n)" for f v n
      using plain_fun_denotes [OF plain_read_denotes that] .
    show "as_plain th (run_fun (read_theme fuel th) f) (plain_fun (plain_read fuel th) f)" for f
      by (rule run_fun_as_plain) (rule Suc)
  qed (auto simp: call_getter_def)
qed

lemma json_theme_as_plain:
  assumes "\<And>ks. as_plain th (g ks) (h ks)"
  shows "as_plain th (json_theme g pre kvs) (plain_json h pre kvs)"
proof (induction "size (Node kvs)" arbitrary: pre kvs rule: less_induct)
  case less
  show ?case
  proof (cases kvs)
    case Nil
    then show ?thesis by (simp add: as_plain_def)
  next
    case (Cons kn rest)
    obtain k n where kn: "kn = (k, n)" by (cases kn)
    define m where "m = (\<lambda>s. case n of
        Node sub \<Rightarrow> map_option (\<lambda>(r, s'). (js_bind r (\<lambda>o'. Inr [(k, JObj o')]), s')) (json_theme g (pre @ [k]) sub s)
      | _ \<Rightarrow> map_option (\<lambda>(r, s'). (js_bind r (\<lambda>v. Inr (json_entry k v)), s')) (g (pre @ [k]) s))"
    define r where "r = (case n of
          Node sub \<Rightarrow> plain_bind (plain_json h (pre @ [k]) sub) (\<lambda>o'. Some (Inr [(k, JObj o')], 0))
        | _ \<Rightarrow> plain_bind (h (pre @ [k])) (\<lambda>v. Some (Inr (json_entry k v), 0)))"
    have pure: "as_plain th (\<lambda>s. Some (Inr x, s)) (Some (Inr x, 0))" for x :: 'b
      by (simp add: as_plain_def)
    have m: "as_plain th m r"
    proof (cases n)
      case (Node sub)
      have "as_plain th (json_theme g (pre @ [k]) sub) (plain_json h (pre @ [k]) sub)"
        by (rule less) (simp add: Cons kn Node)
      with Node show ?thesis unfolding r_def
        by simp (erule as_plain_bind [OF _ pure], auto simp: m_def split: option.split sum.split)
    qed (unfold r_def, simp_all,
        (rule as_plain_bind [OF assms pure], auto simp: m_def split: option.split sum.split)+)
    have rest: "as_plain th (json_theme g pre rest) (plain_json h pre rest)"
      by (rule less) (simp add: Cons)
    have "as_plain th (\<lambda>s. case json_theme g pre rest s of None \<Rightarrow> None
        | Some (Inl e, s') \<Rightarrow> Some (Inl e, s') | Some (Inr ys, s') \<Rightarrow> Some (Inr (xs @ ys), s'))
      (plain_bind (plain_json h pre rest) (\<lambda>ys. Some (Inr (xs @ ys), 0)))" for xs
      by (rule as_plain_bind [OF rest pure]) simp
    note both = as_plain_bind [OF m this]
    have "plain_json h pre kvs =
        plain_bind r (\<lambda>xs. plain_bind (plain_json h pre rest) (\<lambda>ys. Some (Inr (xs @ ys), 0)))"
      by (simp add: Cons kn r_def)
    moreover have "json_theme g pre kvs s =
        (case m s of None \<Rightarrow> None | Some (Inl e, s') \<Rightarrow> Some (Inl e, s')
         | Some (Inr xs, s') \<Rightarrow>
             (case json_theme g pre rest s' of None \<Rightarrow> None
              | Some (Inl e, s') \<Rightarrow> Some (Inl e, s') | Some (Inr ys, s') \<Rightarrow> Some (Inr (xs @ ys), s')))" for s
      by (auto simp: Cons kn m_def split: option.split sum.split prod.split theme_node.split)
    ultimately show ?thesis using both by simp
  qed
qed

theorem resolve_theme_plain:
  assumes "plain_keys (Node th)" and "scan_theme th = Inr u"
    and "plain_json (plain_read (max_calls + 1) th) [] th = Some (Inr kvs, n)" and "n \<le> max_calls"
  shows "resolve_theme th = Some (Inr (JObj kvs))"
proof -
  have "as_plain th (json_theme (read_theme (max_calls + 1) th) [] th)
      (plain_json (plain_read (max_calls + 1) th) [] th)"
    by (rule json_theme_as_plain) (rule read_theme_as_plain [OF assms(1)])
  from this assms(3) cache_ok_start
  obtain s where "json_theme (read_theme (max_calls + 1) th) [] th start_resolver = Some (Inr kvs, s)"
    by (rule as_plainD) (simp add: start_resolver_def assms(4))
  with assms(2) show ?thesis by (simp add: resolve_theme_def)
qed

section \<open>Circular themes have no meaning\<close>

text \<open>What resolves has read every entry, so that every function of the theme has a value.\<close>

lemma json_entry_read:
  assumes "json_theme g pre ((k, n) # kvs) s = Some (Inr xs, s')" and "\<forall>sub. n \<noteq> Node sub"
  obtains v s1 ys where "g (pre @ [k]) s = Some (Inr v, s1)" and "json_theme g pre kvs s1 = Some (Inr ys, s')"
  using assms by (cases n) (auto simp: js_bind_Inr_iff split: option.splits sum.splits)

lemma json_entry_node:
  assumes "json_theme g pre ((k, Node sub) # kvs) s = Some (Inr xs, s')"
  obtains zs s1 ys where "json_theme g (pre @ [k]) sub s = Some (Inr zs, s1)"
    and "json_theme g pre kvs s1 = Some (Inr ys, s')"
  using assms by (auto simp: js_bind_Inr_iff split: option.splits sum.splits)

lemma json_theme_reads:
  assumes "sound_read th g"
  shows "json_theme g pre kvs s = Some (Inr xs, s') \<Longrightarrow> cache_ok th s \<Longrightarrow>
    cache_ok th s' \<and> (\<forall>ms p f. follow pre ms (Node kvs) = Call p f [] \<longrightarrow> (\<exists>v. denotes th p v))"
proof (induction "size (Node kvs)" arbitrary: pre kvs s s' xs rule: less_induct)
  case less
  show ?case
  proof (cases kvs)
    case Nil
    have "follow pre ms (Node []) \<noteq> Call p f []" for ms p f by (cases ms) simp_all
    then show ?thesis using less.prems Nil by simp
  next
    case (Cons kn rest)
    obtain k n where kn: "kn = (k, n)" by (cases kn)
    have "\<exists>s1 ys. cache_ok th s1 \<and> json_theme g pre rest s1 = Some (Inr ys, s') \<and>
      (\<forall>ms p f. follow (pre @ [k]) ms n = Call p f [] \<longrightarrow> (\<exists>v. denotes th p v))"
    proof (cases n)
      case (Node sub)
      from json_entry_node [OF less.prems(1) [unfolded Cons kn Node]] obtain zs s1 ys where
        s1: "json_theme g (pre @ [k]) sub s = Some (Inr zs, s1)" "json_theme g pre rest s1 = Some (Inr ys, s')" .
      have "size (Node sub) < size (Node kvs)" by (simp add: Cons kn Node)
      from less.hyps [OF this s1(1) less.prems(2)] s1(2) Node show ?thesis by blast
    next
      case (Leaf v)
      from json_entry_read [OF less.prems(1) [unfolded Cons kn]] Leaf obtain w s1 ys where
        s1: "g (pre @ [k]) s = Some (Inr w, s1)" "json_theme g pre rest s1 = Some (Inr ys, s')" by blast
      from sound_readD [OF assms less.prems(2) s1(1)] s1(2) Leaf show ?thesis
        by (intro exI [of _ s1] exI [of _ ys]) auto
    next
      case (Getter h)
      from json_entry_read [OF less.prems(1) [unfolded Cons kn]] Getter obtain w s1 ys where
        s1: "g (pre @ [k]) s = Some (Inr w, s1)" "json_theme g pre rest s1 = Some (Inr ys, s')" by blast
      from sound_readD [OF assms less.prems(2) s1(1)] s1(2) Getter show ?thesis
        by (intro exI [of _ s1] exI [of _ ys]) auto
    qed
    then obtain s1 ys where s1: "cache_ok th s1" "json_theme g pre rest s1 = Some (Inr ys, s')"
      and here: "\<And>ms p f. follow (pre @ [k]) ms n = Call p f [] \<Longrightarrow> \<exists>v. denotes th p v" by blast
    have "size (Node rest) < size (Node kvs)" by (simp add: Cons)
    from less.hyps [OF this s1(2, 1)] have ok: "cache_ok th s'"
      and later: "\<And>ms p f. follow pre ms (Node rest) = Call p f [] \<Longrightarrow> \<exists>v. denotes th p v" by blast+
    have "\<exists>v. denotes th p v" if "follow pre ms (Node kvs) = Call p f []" for ms p f
    proof (cases ms)
      case Nil
      then show ?thesis using that by simp
    next
      case (Cons m ms')
      show ?thesis
      proof (cases "m = k")
        case True
        then show ?thesis using that here [of ms' p f] by (simp add: \<open>kvs = kn # rest\<close> kn Cons)
      next
        case False
        then show ?thesis using that later [of ms p f] by (simp add: \<open>kvs = kn # rest\<close> kn Cons)
      qed
    qed
    with ok show ?thesis by blast
  qed
qed

lemma resolved_all_denote:
  assumes "plain_keys (Node th)" and "resolve_theme th = Some (Inr v)" and "follow [] p (Node th) = Call p f []"
  shows "\<exists>w. denotes th p w"
proof -
  obtain xs s where "json_theme (read_theme (max_calls + 1) th) [] th start_resolver = Some (Inr xs, s)"
    using assms(2) by (auto simp: resolve_theme_def js_bind_Inr_iff split: sum.splits)
  from json_theme_reads [OF read_theme_sound [OF assms(1)] this cache_ok_start] assms(3) show ?thesis by blast
qed

text \<open>An entry that is read, directly or not, to compute itself has no value.\<close>

lemma cycle_denotes:
  assumes "\<And>p. p \<in> C \<Longrightarrow> \<exists>q \<in> C. \<exists>k. follow [] p (Node th) = Call p (Read q k) []"
  shows "denotes th ks v \<Longrightarrow> ks \<notin> C" and "fun_denotes th f w \<Longrightarrow> \<forall>q k. f = Read q k \<longrightarrow> q \<notin> C"
proof (induction rule: denotes_fun_denotes.inducts)
  case (plain ks v)
  then show ?case using assms [of ks] by auto
next
  case (getter ks pre f rest w v)
  then show ?case using assms [of ks] by auto
qed auto

theorem circular_theme_fails:
  assumes "plain_keys (Node th)" and "c \<in> C"
    and "\<And>p. p \<in> C \<Longrightarrow> \<exists>q \<in> C. \<exists>k. follow [] p (Node th) = Call p (Read q k) []"
  shows "\<exists>e. resolve_theme th = Some (Inl e)"
proof -
  obtain r where r: "resolve_theme th = Some r" using resolve_theme_ends by blast
  show ?thesis
  proof (cases r)
    case (Inr v)
    obtain q k where "follow [] c (Node th) = Call c (Read q k) []" using assms(2, 3) by blast
    from resolved_all_denote [OF assms(1) r [unfolded Inr] this] obtain w where "denotes th c w" by blast
    from cycle_denotes(1) [OF assms(3) this] assms(2) show ?thesis by simp
  qed (use r in simp)
qed

end
