(* ===== verification/Theme_Default.thy ===== *)
theory Theme_Default
  imports Theme_Meaning Style_Helpers
begin

text \<open>
  The default theme of the viewer (\<open>Vr\<close>) and the theme its styles see when the embedding page gives
  none. Resolving it ends without an exception, and the result is one that every style can be
  rendered with (\<open>themed\<close>), whatever colours the functions of polished compute.
\<close>

section \<open>Functions of the theme\<close>

text \<open>\<open>e => e.a.b\<close>, \<open>({a: e}) => f(c, e.b)\<close> and \<open>({colors: e}) => f(k * e.tonalOffset, e.a.b)\<close>\<close>

definition entry :: "string list \<Rightarrow> theme_node" where
  "entry ks = Getter (Read ks (\<lambda>v. Done (Inr v)))"

definition shaded :: "(jsval \<Rightarrow> jsval \<Rightarrow> jsval js) \<Rightarrow> dec \<Rightarrow> string list \<Rightarrow> theme_node" where
  "shaded f c ks = Getter (Read ks (\<lambda>v. Done (f (JNum c) v)))"

definition toned :: "(jsval \<Rightarrow> jsval \<Rightarrow> jsval js) \<Rightarrow> int \<Rightarrow> string list \<Rightarrow> theme_node" where
  "toned f k ks =
     Getter (Read [''colors'', ''tonalOffset''] (\<lambda>c. Read ks (\<lambda>v. Done
       (if k = 1 then f c v else js_bind (js_times (Dec k 0) c) (\<lambda>d. f d v)))))"

text \<open>\<open>({colors: e}) => Fr(e.a.b)\<close> and \<open>({spacing: e}) => 8 * e.unit\<close>\<close>

definition contrasting :: "viewer \<Rightarrow> string list \<Rightarrow> theme_node" where
  "contrasting V ks = Getter (Read ks (\<lambda>v. Done (readable_colour V v)))"

definition times_8 :: "string list \<Rightarrow> theme_node" where
  "times_8 ks = Getter (Read ks (\<lambda>v. Done (js_times (Dec 8 0) v)))"

definition lines_colour :: "viewer \<Rightarrow> theme_node" where
  "lines_colour V =
     Getter (Read [''colors'', ''tonalOffset''] (\<lambda>c. Read [''colors'', ''tonalOffset''] (\<lambda>d.
       Read [''colors'', ''primary'', ''main''] (\<lambda>v. Done (js_bind (desaturate V d v) (lighten V c))))))"

definition active_text_colour :: theme_node where
  "active_text_colour =
     Getter (Read [''sidebar'', ''textColor''] (\<lambda>t.
       Read (if t \<noteq> JStr ''#333333'' then [''sidebar'', ''textColor''] else [''colors'', ''primary'', ''main''])
         (\<lambda>v. Done (Inr v))))"

section \<open>The default theme\<close>

definition spacing_theme :: "theme" where
  "spacing_theme =
    [(''unit'', Leaf (JNum (Dec 5 0))),
     (''sectionHorizontal'', times_8 [''spacing'', ''unit'']),
     (''sectionVertical'', times_8 [''spacing'', ''unit''])]"

definition breakpoints_theme :: "theme" where
  "breakpoints_theme =
    [(''small'', Leaf (JStr ''50rem'')),
     (''medium'', Leaf (JStr ''75rem'')),
     (''large'', Leaf (JStr ''105rem''))]"

definition colors_theme :: "viewer \<Rightarrow> theme" where
  "colors_theme V =
    [(''tonalOffset'', Leaf (JNum (Dec 2 1))),
     (''primary'', Node [
       (''main'', Leaf (JStr ''#32329f'')),
       (''light'', toned (lighten V) 1 [''colors'', ''primary'', ''main'']),
       (''dark'', toned (darken V) 1 [''colors'', ''primary'', ''main'']),
       (''contrastText'', contrasting V [''colors'', ''primary'', ''main''])]),
     (''success'', Node [
       (''main'', Leaf (JStr ''#1d8127'')),
       (''light'', toned (lighten V) 2 [''colors'', ''success'', ''main'']),
       (''dark'', toned (darken V) 1 [''colors'', ''success'', ''main'']),
       (''contrastText'', contrasting V [''colors'', ''success'', ''main''])]),
     (''warning'', Node [
       (''main'', Leaf (JStr ''#ffa500'')),
       (''light'', toned (lighten V) 1 [''colors'', ''warning'', ''main'']),
       (''dark'', toned (darken V) 1 [''colors'', ''warning'', ''main'']),
       (''contrastText'', Leaf (JStr ''#ffffff''))]),
     (''error'', Node [
       (''main'', Leaf (JStr ''#d41f1c'')),
       (''light'', toned (lighten V) 1 [''colors'', ''error'', ''main'']),
       (''dark'', toned (darken V) 1 [''colors'', ''error'', ''main'']),
       (''contrastText'', contrasting V [''colors'', ''error'', ''main''])]),
     (''gray'', Node [
       (''50'', Leaf (JStr ''#FAFAFA'')),
       (''100'', Leaf (JStr ''#F5F5F5''))]),
     (''text'', Node [
       (''primary'', Leaf (JStr ''#333333'')),
       (''secondary'', toned (lighten V) 1 [''colors'', ''text'', ''primary''])]),
     (''border'', Node [
       (''dark'', Leaf (JStr ''rgba(0,0,0, 0.1)'')),
       (''light'', Leaf (JStr ''#ffffff''))]),
     (''responses'', Node [
       (''success'', Node [
         (''color'', entry [''colors'', ''success'', ''main'']),
         (''backgroundColor'', shaded (transparentize V) (Dec 93 2) [''colors'', ''success'', ''main'']),
         (''tabTextColor'', entry [''colors'', ''responses'', ''success'', ''color''])]),
       (''error'', Node [
         (''color'', entry [''colors'', ''error'', ''main'']),
         (''backgroundColor'', shaded (transparentize V) (Dec 93 2) [''colors'', ''error'', ''main'']),
         (''tabTextColor'', entry [''colors'', ''responses'', ''error'', ''color''])]),
       (''redirect'', Node [
         (''color'', entry [''colors'', ''warning'', ''main'']),
         (''backgroundColor'', shaded (transparentize V) (Dec 9 1) [''colors'', ''responses'', ''redirect'', ''color'']),
         (''tabTextColor'', entry [''colors'', ''responses'', ''redirect'', ''color''])]),
       (''info'', Node [
         (''color'', Leaf (JStr ''#87ceeb'')),
         (''backgroundColor'', shaded (transparentize V) (Dec 9 1) [''colors'', ''responses'', ''info'', ''color'']),
         (''tabTextColor'', entry [''colors'', ''responses'', ''info'', ''color''])])]),
     (''http'', Node [
       (''get'', Leaf (JStr ''#2F8132'')),
       (''post'', Leaf (JStr ''#186FAF'')),
       (''put'', Leaf (JStr ''#95507c'')),
       (''options'', Leaf (JStr ''#947014'')),
       (''patch'', Leaf (JStr ''#bf581d'')),
       (''delete'', Leaf (JStr ''#cc3333'')),
       (''basic'', Leaf (JStr ''#707070'')),
       (''link'', Leaf (JStr ''#07818F'')),
       (''head'', Leaf (JStr ''#A23DAD''))])]"

definition schema_theme :: "viewer \<Rightarrow> theme" where
  "schema_theme V =
    [(''linesColor'', lines_colour V),
     (''defaultDetailsWidth'', Leaf (JStr ''75%'')),
     (''typeNameColor'', entry [''colors'', ''text'', ''secondary'']),
     (''typeTitleColor'', entry [''schema'', ''typeNameColor'']),
     (''requireLabelColor'', entry [''colors'', ''error'', ''main'']),
     (''labelsTextSize'', Leaf (JStr ''0.9em'')),
     (''nestingSpacing'', Leaf (JStr ''1em'')),
     (''nestedBackground'', Leaf (JStr ''#fafafa'')),
     (''arrow'', Node [
       (''size'', Leaf (JStr ''1.1em'')),
       (''color'', entry [''colors'', ''text'', ''secondary''])])]"

definition typography_theme :: "viewer \<Rightarrow> theme" where
  "typography_theme V =
    [(''fontSize'', Leaf (JStr ''14px'')),
     (''lineHeight'', Leaf (JStr ''1.5em'')),
     (''fontWeightRegular'', Leaf (JStr ''400'')),
     (''fontWeightBold'', Leaf (JStr ''600'')),
     (''fontWeightLight'', Leaf (JStr ''300'')),
     (''fontFamily'', Leaf (JStr ''Roboto, sans-serif'')),
     (''smoothing'', Leaf (JStr ''antialiased'')),
     (''optimizeSpeed'', Leaf (JBool True)),
     (''headings'', Node [
       (''fontFamily'', Leaf (JStr ''Montserrat, sans-serif'')),
       (''fontWeight'', Leaf (JStr ''400'')),
       (''lineHeight'', Leaf (JStr ''1.6em''))]),
     (''code'', Node [
       (''fontSize'', Leaf (JStr ''13px'')),
       (''fontFamily'', Leaf (JStr ''Courier, monospace'')),
       (''lineHeight'', entry [''typography'', ''lineHeight'']),
       (''fontWeight'', entry [''typography'', ''fontWeightRegular'']),
       (''color'', Leaf (JStr ''#e53935'')),
       (''backgroundColor'', Leaf (JStr ''rgba(38, 50, 56, 0.05)'')),
       (''wrap'', Leaf (JBool False))]),
     (''links'', Node [
       (''color'', entry [''colors'', ''primary'', ''main'']),
       (''visited'', entry [''typography'', ''links'', ''color'']),
       (''hover'', shaded (lighten V) (Dec 2 1) [''typography'', ''links'', ''color'']),
       (''textDecoration'', Leaf (JStr ''auto'')),
       (''hoverTextDecoration'', Leaf (JStr ''auto''))])]"

definition sidebar_theme :: "viewer \<Rightarrow> theme" where
  "sidebar_theme V =
    [(''width'', Leaf (JStr ''260px'')),
     (''backgroundColor'', Leaf (JStr ''#fafafa'')),
     (''textColor'', Leaf (JStr ''#333333'')),
     (''activeTextColor'', active_text_colour),
     (''groupItems'', Node [
       (''activeBackgroundColor'', shaded (darken V) (Dec 1 1) [''sidebar'', ''backgroundColor'']),
       (''activeTextColor'', entry [''sidebar'', ''activeTextColor'']),
       (''textTransform'', Leaf (JStr ''uppercase''))]),
     (''level1Items'', Node [
       (''activeBackgroundColor'', shaded (darken V) (Dec 5 2) [''sidebar'', ''backgroundColor'']),
       (''activeTextColor'', entry [''sidebar'', ''activeTextColor'']),
       (''textTransform'', Leaf (JStr ''none''))]),
     (''arrow'', Node [
       (''size'', Leaf (JStr ''1.5em'')),
       (''color'', entry [''sidebar'', ''textColor''])])]"

definition logo_theme :: "theme" where
  "logo_theme =
    [(''maxHeight'', entry [''sidebar'', ''width'']),
     (''maxWidth'', entry [''sidebar'', ''width'']),
     (''gutter'', Leaf (JStr ''2px''))]"

definition rightPanel_theme :: "theme" where
  "rightPanel_theme =
    [(''backgroundColor'', Leaf (JStr ''#263238'')),
     (''width'', Leaf (JStr ''40%'')),
     (''textColor'', Leaf (JStr ''#ffffff'')),
     (''servers'', Node [
       (''overlay'', Node [
         (''backgroundColor'', Leaf (JStr ''#fafafa'')),
         (''textColor'', Leaf (JStr ''#263238''))]),
       (''url'', Node [
         (''backgroundColor'', Leaf (JStr ''#fff''))])])]"

definition codeBlock_theme :: "viewer \<Rightarrow> theme" where
  "codeBlock_theme V =
    [(''backgroundColor'', shaded (darken V) (Dec 1 1) [''rightPanel'', ''backgroundColor''])]"

definition fab_theme :: "theme" where
  "fab_theme =
    [(''backgroundColor'', Leaf (JStr ''#f2f2f2'')),
     (''color'', Leaf (JStr ''#0065FB''))]"

definition default_theme :: "viewer \<Rightarrow> theme" where
  "default_theme V =
    [(''spacing'', Node spacing_theme),
     (''breakpoints'', Node breakpoints_theme),
     (''colors'', Node (colors_theme V)),
     (''schema'', Node (schema_theme V)),
     (''typography'', Node (typography_theme V)),
     (''sidebar'', Node (sidebar_theme V)),
     (''logo'', Node logo_theme),
     (''rightPanel'', Node rightPanel_theme),
     (''codeBlock'', Node (codeBlock_theme V)),
     (''fab'', Node fab_theme)]"

text \<open>
  The theme of the viewer: the default theme, copied, with the theme of the embedding page merged
  into it; a hook that the page installs is taken out before and put back afterwards.
\<close>

definition viewer_theme :: "viewer \<Rightarrow> theme \<Rightarrow> theme" where
  "viewer_theme V page =
     merge_theme (merge_theme [] (default_theme V)) (AList.update ''extensionsHook'' (Leaf JUndef) page)"

definition options_theme :: "viewer \<Rightarrow> theme \<Rightarrow> jsval \<Rightarrow> jsval js option" where
  "options_theme V page hook =
     map_option (\<lambda>r. js_bind r (\<lambda>t.
         case t of
           JObj kvs \<Rightarrow> Inr (JObj (AList.update ''extensionsHook'' hook kvs))
         | v \<Rightarrow> Inr v))
       (resolve_theme (viewer_theme V page))"

section \<open>Its values\<close>

text \<open>
  The colours that the functions compute. The colour functions are given hexadecimal colours, which
  they accept.
\<close>

definition shade :: "(jsval \<Rightarrow> jsval \<Rightarrow> jsval js) \<Rightarrow> dec \<Rightarrow> string \<Rightarrow> string" where
  "shade f c s = (case f (JNum c) (JStr s) of Inr (JStr t) \<Rightarrow> t | _ \<Rightarrow> [])"

definition readable :: "viewer \<Rightarrow> string \<Rightarrow> string" where
  "readable V s = (case readable_colour V (JStr s) of Inr (JStr t) \<Rightarrow> t | _ \<Rightarrow> [])"

definition palette_ok :: "viewer \<Rightarrow> bool" where
  "palette_ok V \<longleftrightarrow>
     colour_ok V (desaturate V) \<and>
     (\<forall>s. colour V s \<longrightarrow> (\<exists>t. readable_colour V (JStr s) = Inr (JStr t) \<and> no_braces t)) \<and>
     list_all (colour V) [''#32329f'', ''#1d8127'', ''#ffa500'', ''#d41f1c'', ''#333333'', ''#87ceeb'',
       ''#fafafa'', ''#263238'', ''#F5F5F5'', ''#ffffff'']"

lemma shade_ok:
  assumes "colour_ok V f" and "colour V s"
  shows "f (JNum c) (JStr s) = Inr (JStr (shade f c s))" and "colour V (shade f c s)"
    and "no_braces (shade f c s)"
proof -
  obtain t where "f (JNum c) (JStr s) = Inr (JStr t)" "colour V t" "no_braces t"
    using assms unfolding colour_ok_def by blast
  then show "f (JNum c) (JStr s) = Inr (JStr (shade f c s))" "colour V (shade f c s)"
    "no_braces (shade f c s)" by (simp_all add: shade_def)
qed

lemma readable_ok:
  assumes "palette_ok V" and "colour V s"
  shows "readable_colour V (JStr s) = Inr (JStr (readable V s))" and "no_braces (readable V s)"
proof -
  obtain t where "readable_colour V (JStr s) = Inr (JStr t)" "no_braces t"
    using assms unfolding palette_ok_def by blast
  then show "readable_colour V (JStr s) = Inr (JStr (readable V s))" "no_braces (readable V s)"
    by (simp_all add: readable_def)
qed

definition spacing_values :: "(string \<times> jsval) list" where
  "spacing_values =
    [(''unit'', JNum (Dec 5 0)),
     (''sectionHorizontal'', JNum (Dec 40 0)),
     (''sectionVertical'', JNum (Dec 40 0))]"

definition breakpoints_values :: "(string \<times> jsval) list" where
  "breakpoints_values =
    [(''small'', JStr ''50rem''),
     (''medium'', JStr ''75rem''),
     (''large'', JStr ''105rem'')]"

definition colors_values :: "viewer \<Rightarrow> (string \<times> jsval) list" where
  "colors_values V =
    [(''tonalOffset'', JNum (Dec 2 1)),
     (''primary'', JObj [
       (''main'', JStr ''#32329f''),
       (''light'', JStr (shade (lighten V) (Dec 2 1) ''#32329f'')),
       (''dark'', JStr (shade (darken V) (Dec 2 1) ''#32329f'')),
       (''contrastText'', JStr (readable V ''#32329f''))]),
     (''success'', JObj [
       (''main'', JStr ''#1d8127''),
       (''light'', JStr (shade (lighten V) (Dec 4 1) ''#1d8127'')),
       (''dark'', JStr (shade (darken V) (Dec 2 1) ''#1d8127'')),
       (''contrastText'', JStr (readable V ''#1d8127''))]),
     (''warning'', JObj [
       (''main'', JStr ''#ffa500''),
       (''light'', JStr (shade (lighten V) (Dec 2 1) ''#ffa500'')),
       (''dark'', JStr (shade (darken V) (Dec 2 1) ''#ffa500'')),
       (''contrastText'', JStr ''#ffffff'')]),
     (''error'', JObj [
       (''main'', JStr ''#d41f1c''),
       (''light'', JStr (shade (lighten V) (Dec 2 1) ''#d41f1c'')),
       (''dark'', JStr (shade (darken V) (Dec 2 1) ''#d41f1c'')),
       (''contrastText'', JStr (readable V ''#d41f1c''))]),
     (''gray'', JObj [
       (''50'', JStr ''#FAFAFA''),
       (''100'', JStr ''#F5F5F5'')]),
     (''text'', JObj [
       (''primary'', JStr ''#333333''),
       (''secondary'', JStr (shade (lighten V) (Dec 2 1) ''#333333''))]),
     (''border'', JObj [
       (''dark'', JStr ''rgba(0,0,0, 0.1)''),
       (''light'', JStr ''#ffffff'')]),
     (''responses'', JObj [
       (''success'', JObj [
         (''color'', JStr ''#1d8127''),
         (''backgroundColor'', JStr (shade (transparentize V) (Dec 93 2) ''#1d8127'')),
         (''tabTextColor'', JStr ''#1d8127'')]),
       (''error'', JObj [
         (''color'', JStr ''#d41f1c''),
         (''backgroundColor'', JStr (shade (transparentize V) (Dec 93 2) ''#d41f1c'')),
         (''tabTextColor'', JStr ''#d41f1c'')]),
       (''redirect'', JObj [
         (''color'', JStr ''#ffa500''),
         (''backgroundColor'', JStr (shade (transparentize V) (Dec 9 1) ''#ffa500'')),
         (''tabTextColor'', JStr ''#ffa500'')]),
       (''info'', JObj [
         (''color'', JStr ''#87ceeb''),
         (''backgroundColor'', JStr (shade (transparentize V) (Dec 9 1) ''#87ceeb'')),
         (''tabTextColor'', JStr ''#87ceeb'')])]),
     (''http'', JObj [
       (''get'', JStr ''#2F8132''),
       (''post'', JStr ''#186FAF''),
       (''put'', JStr ''#95507c''),
       (''options'', JStr ''#947014''),
       (''patch'', JStr ''#bf581d''),
       (''delete'', JStr ''#cc3333''),
       (''basic'', JStr ''#707070''),
       (''link'', JStr ''#07818F''),
       (''head'', JStr ''#A23DAD'')])]"

definition schema_values :: "viewer \<Rightarrow> (string \<times> jsval) list" where
  "schema_values V =
    [(''linesColor'', JStr (shade (lighten V) (Dec 2 1) (shade (desaturate V) (Dec 2 1) ''#32329f''))),
     (''defaultDetailsWidth'', JStr ''75%''),
     (''typeNameColor'', JStr (shade (lighten V) (Dec 2 1) ''#333333'')),
     (''typeTitleColor'', JStr (shade (lighten V) (Dec 2 1) ''#333333'')),
     (''requireLabelColor'', JStr ''#d41f1c''),
     (''labelsTextSize'', JStr ''0.9em''),
     (''nestingSpacing'', JStr ''1em''),
     (''nestedBackground'', JStr ''#fafafa''),
     (''arrow'', JObj [
       (''size'', JStr ''1.1em''),
       (''color'', JStr (shade (lighten V) (Dec 2 1) ''#333333''))])]"

definition typography_values :: "viewer \<Rightarrow> (string \<times> jsval) list" where
  "typography_values V =
    [(''fontSize'', JStr ''14px''),
     (''lineHeight'', JStr ''1.5em''),
     (''fontWeightRegular'', JStr ''400''),
     (''fontWeightBold'', JStr ''600''),
     (''fontWeightLight'', JStr ''300''),
     (''fontFamily'', JStr ''Roboto, sans-serif''),
     (''smoothing'', JStr ''antialiased''),
     (''optimizeSpeed'', JBool True),
     (''headings'', JObj [
       (''fontFamily'', JStr ''Montserrat, sans-serif''),
       (''fontWeight'', JStr ''400''),
       (''lineHeight'', JStr ''1.6em'')]),
     (''code'', JObj [
       (''fontSize'', JStr ''13px''),
       (''fontFamily'', JStr ''Courier, monospace''),
       (''lineHeight'', JStr ''1.5em''),
       (''fontWeight'', JStr ''400''),
       (''color'', JStr ''#e53935''),
       (''backgroundColor'', JStr ''rgba(38, 50, 56, 0.05)''),
       (''wrap'', JBool False)]),
     (''links'', JObj [
       (''color'', JStr ''#32329f''),
       (''visited'', JStr ''#32329f''),
       (''hover'', JStr (shade (lighten V) (Dec 2 1) ''#32329f'')),
       (''textDecoration'', JStr ''auto''),
       (''hoverTextDecoration'', JStr ''auto'')])]"

definition sidebar_values :: "viewer \<Rightarrow> (string \<times> jsval) list" where
  "sidebar_values V =
    [(''width'', JStr ''260px''),
     (''backgroundColor'', JStr ''#fafafa''),
     (''textColor'', JStr ''#333333''),
     (''activeTextColor'', JStr ''#32329f''),
     (''groupItems'', JObj [
       (''activeBackgroundColor'', JStr (shade (darken V) (Dec 1 1) ''#fafafa'')),
       (''activeTextColor'', JStr ''#32329f''),
       (''textTransform'', JStr ''uppercase'')]),
     (''level1Items'', JObj [
       (''activeBackgroundColor'', JStr (shade (darken V) (Dec 5 2) ''#fafafa'')),
       (''activeTextColor'', JStr ''#32329f''),
       (''textTransform'', JStr ''none'')]),
     (''arrow'', JObj [
       (''size'', JStr ''1.5em''),
       (''color'', JStr ''#333333'')])]"

definition logo_values :: "(string \<times> jsval) list" where
  "logo_values =
    [(''maxHeight'', JStr ''260px''),
     (''maxWidth'', JStr ''260px''),
     (''gutter'', JStr ''2px'')]"

definition rightPanel_values :: "(string \<times> jsval) list" where
  "rightPanel_values =
    [(''backgroundColor'', JStr ''#263238''),
     (''width'', JStr ''40%''),
     (''textColor'', JStr ''#ffffff''),
     (''servers'', JObj [
       (''overlay'', JObj [
         (''backgroundColor'', JStr ''#fafafa''),
         (''textColor'', JStr ''#263238'')]),
       (''url'', JObj [
         (''backgroundColor'', JStr ''#fff'')])])]"

definition codeBlock_values :: "viewer \<Rightarrow> (string \<times> jsval) list" where
  "codeBlock_values V =
    [(''backgroundColor'', JStr (shade (darken V) (Dec 1 1) ''#263238''))]"

definition fab_values :: "(string \<times> jsval) list" where
  "fab_values =
    [(''backgroundColor'', JStr ''#f2f2f2''),
     (''color'', JStr ''#0065FB'')]"

definition default_values :: "viewer \<Rightarrow> (string \<times> jsval) list" where
  "default_values V =
    [(''spacing'', JObj spacing_values),
     (''breakpoints'', JObj breakpoints_values),
     (''colors'', JObj (colors_values V)),
     (''schema'', JObj (schema_values V)),
     (''typography'', JObj (typography_values V)),
     (''sidebar'', JObj (sidebar_values V)),
     (''logo'', JObj logo_values),
     (''rightPanel'', JObj rightPanel_values),
     (''codeBlock'', JObj (codeBlock_values V)),
     (''fab'', JObj fab_values)]"

lemma palette:
  assumes "viewer_ok V" and "palette_ok V"
  shows "colour_ok V (darken V)" and "colour_ok V (lighten V)" and "colour_ok V (transparentize V)"
    and "colour_ok V (desaturate V)"
    and "colour V ''#32329f''" and "colour V ''#1d8127''" and "colour V ''#ffa500''" and "colour V ''#d41f1c''"
    and "colour V ''#333333''" and "colour V ''#87ceeb''" and "colour V ''#fafafa''" and "colour V ''#263238''"
    and "colour V ''#F5F5F5''" and "colour V ''#ffffff''"
  using assms by (simp_all add: viewer_ok_def palette_ok_def)

lemma palette_shades:
  assumes "viewer_ok V" and "palette_ok V"
  shows "colour V s \<Longrightarrow> darken V (JNum c) (JStr s) = Inr (JStr (shade (darken V) c s))"
    and "colour V s \<Longrightarrow> colour V (shade (darken V) c s)" and "colour V s \<Longrightarrow> no_braces (shade (darken V) c s)"
    and "colour V s \<Longrightarrow> lighten V (JNum c) (JStr s) = Inr (JStr (shade (lighten V) c s))"
    and "colour V s \<Longrightarrow> colour V (shade (lighten V) c s)" and "colour V s \<Longrightarrow> no_braces (shade (lighten V) c s)"
    and "colour V s \<Longrightarrow> transparentize V (JNum c) (JStr s) = Inr (JStr (shade (transparentize V) c s))"
    and "colour V s \<Longrightarrow> colour V (shade (transparentize V) c s)" and "colour V s \<Longrightarrow> no_braces (shade (transparentize V) c s)"
    and "colour V s \<Longrightarrow> desaturate V (JNum c) (JStr s) = Inr (JStr (shade (desaturate V) c s))"
    and "colour V s \<Longrightarrow> colour V (shade (desaturate V) c s)" and "colour V s \<Longrightarrow> no_braces (shade (desaturate V) c s)"
  by (simp_all add: shade_ok [OF palette(1) [OF assms]] shade_ok [OF palette(2) [OF assms]]
      shade_ok [OF palette(3) [OF assms]] shade_ok [OF palette(4) [OF assms]])

section \<open>Evaluating it\<close>

lemma plain_read_unfold:
  "plain_read n th ks =
     (case follow [] ks (Node th) of
        Value r \<Rightarrow> Some (r, 0)
      | Object o' \<Rightarrow> Some (Inl (Outside_Model ''object''), 0)
      | Call pre f rest \<Rightarrow>
          (case n of
             0 \<Rightarrow> None
           | Suc m \<Rightarrow> plain_bind (plain_fun (plain_read m th) f) (\<lambda>w. Some (js_path rest w, 1))))"
  by (cases n) (simp_all add: plain_with_def split: found.split)

text \<open>The theme that is resolved when the page gives none.\<close>

definition bare_theme :: "viewer \<Rightarrow> theme" where
  "bare_theme V = default_theme V @ [(''extensionsHook'', Leaf JUndef)]"

lemma section_default:
  "map_of (bare_theme V) ''spacing'' = Some (Node spacing_theme)"
  "map_of (bare_theme V) ''breakpoints'' = Some (Node breakpoints_theme)"
  "map_of (bare_theme V) ''colors'' = Some (Node (colors_theme V))"
  "map_of (bare_theme V) ''schema'' = Some (Node (schema_theme V))"
  "map_of (bare_theme V) ''typography'' = Some (Node (typography_theme V))"
  "map_of (bare_theme V) ''sidebar'' = Some (Node (sidebar_theme V))"
  "map_of (bare_theme V) ''logo'' = Some (Node logo_theme)"
  "map_of (bare_theme V) ''rightPanel'' = Some (Node rightPanel_theme)"
  "map_of (bare_theme V) ''codeBlock'' = Some (Node (codeBlock_theme V))"
  "map_of (bare_theme V) ''fab'' = Some (Node fab_theme)"
  by (simp_all add: bare_theme_def default_theme_def)

declare plain_read.simps [simp del]

text \<open>The rest of a computation is looked at once its first part has a value.\<close>

lemma plain_bind_cong: "r = r' \<Longrightarrow> plain_bind r f = plain_bind r' f"
  by simp

lemma spacing_leaves:
  shows "plain_read n (bare_theme V) [''spacing'', ''unit''] =
      Some (Inr (JNum (Dec 5 0)), 0)"
  by (simp_all add: plain_read_unfold section_default spacing_theme_def)

lemma breakpoints_leaves:
  shows "plain_read n (bare_theme V) [''breakpoints'', ''small''] =
      Some (Inr (JStr ''50rem''), 0)"
    and "plain_read n (bare_theme V) [''breakpoints'', ''medium''] =
      Some (Inr (JStr ''75rem''), 0)"
    and "plain_read n (bare_theme V) [''breakpoints'', ''large''] =
      Some (Inr (JStr ''105rem''), 0)"
  by (simp_all add: plain_read_unfold section_default breakpoints_theme_def)

lemma colors_leaves:
  shows "plain_read n (bare_theme V) [''colors'', ''tonalOffset''] =
      Some (Inr (JNum (Dec 2 1)), 0)"
    and "plain_read n (bare_theme V) [''colors'', ''primary'', ''main''] =
      Some (Inr (JStr ''#32329f''), 0)"
    and "plain_read n (bare_theme V) [''colors'', ''success'', ''main''] =
      Some (Inr (JStr ''#1d8127''), 0)"
    and "plain_read n (bare_theme V) [''colors'', ''warning'', ''main''] =
      Some (Inr (JStr ''#ffa500''), 0)"
    and "plain_read n (bare_theme V) [''colors'', ''warning'', ''contrastText''] =
      Some (Inr (JStr ''#ffffff''), 0)"
    and "plain_read n (bare_theme V) [''colors'', ''error'', ''main''] =
      Some (Inr (JStr ''#d41f1c''), 0)"
    and "plain_read n (bare_theme V) [''colors'', ''gray'', ''50''] =
      Some (Inr (JStr ''#FAFAFA''), 0)"
    and "plain_read n (bare_theme V) [''colors'', ''gray'', ''100''] =
      Some (Inr (JStr ''#F5F5F5''), 0)"
    and "plain_read n (bare_theme V) [''colors'', ''text'', ''primary''] =
      Some (Inr (JStr ''#333333''), 0)"
    and "plain_read n (bare_theme V) [''colors'', ''border'', ''dark''] =
      Some (Inr (JStr ''rgba(0,0,0, 0.1)''), 0)"
    and "plain_read n (bare_theme V) [''colors'', ''border'', ''light''] =
      Some (Inr (JStr ''#ffffff''), 0)"
    and "plain_read n (bare_theme V) [''colors'', ''responses'', ''info'', ''color''] =
      Some (Inr (JStr ''#87ceeb''), 0)"
    and "plain_read n (bare_theme V) [''colors'', ''http'', ''get''] =
      Some (Inr (JStr ''#2F8132''), 0)"
    and "plain_read n (bare_theme V) [''colors'', ''http'', ''post''] =
      Some (Inr (JStr ''#186FAF''), 0)"
    and "plain_read n (bare_theme V) [''colors'', ''http'', ''put''] =
      Some (Inr (JStr ''#95507c''), 0)"
    and "plain_read n (bare_theme V) [''colors'', ''http'', ''options''] =
      Some (Inr (JStr ''#947014''), 0)"
    and "plain_read n (bare_theme V) [''colors'', ''http'', ''patch''] =
      Some (Inr (JStr ''#bf581d''), 0)"
    and "plain_read n (bare_theme V) [''colors'', ''http'', ''delete''] =
      Some (Inr (JStr ''#cc3333''), 0)"
    and "plain_read n (bare_theme V) [''colors'', ''http'', ''basic''] =
      Some (Inr (JStr ''#707070''), 0)"
    and "plain_read n (bare_theme V) [''colors'', ''http'', ''link''] =
      Some (Inr (JStr ''#07818F''), 0)"
    and "plain_read n (bare_theme V) [''colors'', ''http'', ''head''] =
      Some (Inr (JStr ''#A23DAD''), 0)"
  by (simp_all add: plain_read_unfold section_default colors_theme_def)

lemma schema_leaves:
  shows "plain_read n (bare_theme V) [''schema'', ''defaultDetailsWidth''] =
      Some (Inr (JStr ''75%''), 0)"
    and "plain_read n (bare_theme V) [''schema'', ''labelsTextSize''] =
      Some (Inr (JStr ''0.9em''), 0)"
    and "plain_read n (bare_theme V) [''schema'', ''nestingSpacing''] =
      Some (Inr (JStr ''1em''), 0)"
    and "plain_read n (bare_theme V) [''schema'', ''nestedBackground''] =
      Some (Inr (JStr ''#fafafa''), 0)"
    and "plain_read n (bare_theme V) [''schema'', ''arrow'', ''size''] =
      Some (Inr (JStr ''1.1em''), 0)"
  by (simp_all add: plain_read_unfold section_default schema_theme_def)

lemma typography_leaves:
  shows "plain_read n (bare_theme V) [''typography'', ''fontSize''] =
      Some (Inr (JStr ''14px''), 0)"
    and "plain_read n (bare_theme V) [''typography'', ''lineHeight''] =
      Some (Inr (JStr ''1.5em''), 0)"
    and "plain_read n (bare_theme V) [''typography'', ''fontWeightRegular''] =
      Some (Inr (JStr ''400''), 0)"
    and "plain_read n (bare_theme V) [''typography'', ''fontWeightBold''] =
      Some (Inr (JStr ''600''), 0)"
    and "plain_read n (bare_theme V) [''typography'', ''fontWeightLight''] =
      Some (Inr (JStr ''300''), 0)"
    and "plain_read n (bare_theme V) [''typography'', ''fontFamily''] =
      Some (Inr (JStr ''Roboto, sans-serif''), 0)"
    and "plain_read n (bare_theme V) [''typography'', ''smoothing''] =
      Some (Inr (JStr ''antialiased''), 0)"
    and "plain_read n (bare_theme V) [''typography'', ''optimizeSpeed''] =
      Some (Inr (JBool True), 0)"
    and "plain_read n (bare_theme V) [''typography'', ''headings'', ''fontFamily''] =
      Some (Inr (JStr ''Montserrat, sans-serif''), 0)"
    and "plain_read n (bare_theme V) [''typography'', ''headings'', ''fontWeight''] =
      Some (Inr (JStr ''400''), 0)"
    and "plain_read n (bare_theme V) [''typography'', ''headings'', ''lineHeight''] =
      Some (Inr (JStr ''1.6em''), 0)"
    and "plain_read n (bare_theme V) [''typography'', ''code'', ''fontSize''] =
      Some (Inr (JStr ''13px''), 0)"
    and "plain_read n (bare_theme V) [''typography'', ''code'', ''fontFamily''] =
      Some (Inr (JStr ''Courier, monospace''), 0)"
    and "plain_read n (bare_theme V) [''typography'', ''code'', ''color''] =
      Some (Inr (JStr ''#e53935''), 0)"
    and "plain_read n (bare_theme V) [''typography'', ''code'', ''backgroundColor''] =
      Some (Inr (JStr ''rgba(38, 50, 56, 0.05)''), 0)"
    and "plain_read n (bare_theme V) [''typography'', ''code'', ''wrap''] =
      Some (Inr (JBool False), 0)"
    and "plain_read n (bare_theme V) [''typography'', ''links'', ''textDecoration''] =
      Some (Inr (JStr ''auto''), 0)"
    and "plain_read n (bare_theme V) [''typography'', ''links'', ''hoverTextDecoration''] =
      Some (Inr (JStr ''auto''), 0)"
  by (simp_all add: plain_read_unfold section_default typography_theme_def)

lemma sidebar_leaves:
  shows "plain_read n (bare_theme V) [''sidebar'', ''width''] =
      Some (Inr (JStr ''260px''), 0)"
    and "plain_read n (bare_theme V) [''sidebar'', ''backgroundColor''] =
      Some (Inr (JStr ''#fafafa''), 0)"
    and "plain_read n (bare_theme V) [''sidebar'', ''textColor''] =
      Some (Inr (JStr ''#333333''), 0)"
    and "plain_read n (bare_theme V) [''sidebar'', ''groupItems'', ''textTransform''] =
      Some (Inr (JStr ''uppercase''), 0)"
    and "plain_read n (bare_theme V) [''sidebar'', ''level1Items'', ''textTransform''] =
      Some (Inr (JStr ''none''), 0)"
    and "plain_read n (bare_theme V) [''sidebar'', ''arrow'', ''size''] =
      Some (Inr (JStr ''1.5em''), 0)"
  by (simp_all add: plain_read_unfold section_default sidebar_theme_def)

lemma logo_leaves:
  shows "plain_read n (bare_theme V) [''logo'', ''gutter''] =
      Some (Inr (JStr ''2px''), 0)"
  by (simp_all add: plain_read_unfold section_default logo_theme_def)

lemma rightPanel_leaves:
  shows "plain_read n (bare_theme V) [''rightPanel'', ''backgroundColor''] =
      Some (Inr (JStr ''#263238''), 0)"
    and "plain_read n (bare_theme V) [''rightPanel'', ''width''] =
      Some (Inr (JStr ''40%''), 0)"
    and "plain_read n (bare_theme V) [''rightPanel'', ''textColor''] =
      Some (Inr (JStr ''#ffffff''), 0)"
    and "plain_read n (bare_theme V) [''rightPanel'', ''servers'', ''overlay'', ''backgroundColor''] =
      Some (Inr (JStr ''#fafafa''), 0)"
    and "plain_read n (bare_theme V) [''rightPanel'', ''servers'', ''overlay'', ''textColor''] =
      Some (Inr (JStr ''#263238''), 0)"
    and "plain_read n (bare_theme V) [''rightPanel'', ''servers'', ''url'', ''backgroundColor''] =
      Some (Inr (JStr ''#fff''), 0)"
  by (simp_all add: plain_read_unfold section_default rightPanel_theme_def)

lemma fab_leaves:
  shows "plain_read n (bare_theme V) [''fab'', ''backgroundColor''] =
      Some (Inr (JStr ''#f2f2f2''), 0)"
    and "plain_read n (bare_theme V) [''fab'', ''color''] =
      Some (Inr (JStr ''#0065FB''), 0)"
  by (simp_all add: plain_read_unfold section_default fab_theme_def)

lemma spacing_calls_1:
  assumes "viewer_ok V" and "palette_ok V"
  shows "plain_read (Suc n) (bare_theme V) [''spacing'', ''sectionHorizontal''] =
      Some (Inr (JNum (Dec 40 0)), 1)"
    and "plain_read (Suc n) (bare_theme V) [''spacing'', ''sectionVertical''] =
      Some (Inr (JNum (Dec 40 0)), 1)"
  by (subst plain_read_unfold,
      simp add: section_default spacing_theme_def entry_def shaded_def toned_def contrasting_def times_8_def
        lines_colour_def active_text_colour_def palette [OF assms] palette_shades [OF assms]
        readable_ok [OF assms(2)] spacing_leaves breakpoints_leaves colors_leaves schema_leaves typography_leaves
        sidebar_leaves logo_leaves rightPanel_leaves fab_leaves cong: plain_bind_cong)+

lemma colors_calls_1:
  assumes "viewer_ok V" and "palette_ok V"
  shows "plain_read (Suc n) (bare_theme V) [''colors'', ''primary'', ''light''] =
      Some (Inr (JStr (shade (lighten V) (Dec 2 1) ''#32329f'')), 1)"
    and "plain_read (Suc n) (bare_theme V) [''colors'', ''primary'', ''dark''] =
      Some (Inr (JStr (shade (darken V) (Dec 2 1) ''#32329f'')), 1)"
    and "plain_read (Suc n) (bare_theme V) [''colors'', ''primary'', ''contrastText''] =
      Some (Inr (JStr (readable V ''#32329f'')), 1)"
    and "plain_read (Suc n) (bare_theme V) [''colors'', ''success'', ''light''] =
      Some (Inr (JStr (shade (lighten V) (Dec 4 1) ''#1d8127'')), 1)"
    and "plain_read (Suc n) (bare_theme V) [''colors'', ''success'', ''dark''] =
      Some (Inr (JStr (shade (darken V) (Dec 2 1) ''#1d8127'')), 1)"
    and "plain_read (Suc n) (bare_theme V) [''colors'', ''success'', ''contrastText''] =
      Some (Inr (JStr (readable V ''#1d8127'')), 1)"
    and "plain_read (Suc n) (bare_theme V) [''colors'', ''warning'', ''light''] =
      Some (Inr (JStr (shade (lighten V) (Dec 2 1) ''#ffa500'')), 1)"
    and "plain_read (Suc n) (bare_theme V) [''colors'', ''warning'', ''dark''] =
      Some (Inr (JStr (shade (darken V) (Dec 2 1) ''#ffa500'')), 1)"
    and "plain_read (Suc n) (bare_theme V) [''colors'', ''error'', ''light''] =
      Some (Inr (JStr (shade (lighten V) (Dec 2 1) ''#d41f1c'')), 1)"
    and "plain_read (Suc n) (bare_theme V) [''colors'', ''error'', ''dark''] =
      Some (Inr (JStr (shade (darken V) (Dec 2 1) ''#d41f1c'')), 1)"
    and "plain_read (Suc n) (bare_theme V) [''colors'', ''error'', ''contrastText''] =
      Some (Inr (JStr (readable V ''#d41f1c'')), 1)"
    and "plain_read (Suc n) (bare_theme V) [''colors'', ''text'', ''secondary''] =
      Some (Inr (JStr (shade (lighten V) (Dec 2 1) ''#333333'')), 1)"
    and "plain_read (Suc n) (bare_theme V) [''colors'', ''responses'', ''success'', ''color''] =
      Some (Inr (JStr ''#1d8127''), 1)"
    and "plain_read (Suc n) (bare_theme V) [''colors'', ''responses'', ''success'', ''backgroundColor''] =
      Some (Inr (JStr (shade (transparentize V) (Dec 93 2) ''#1d8127'')), 1)"
    and "plain_read (Suc n) (bare_theme V) [''colors'', ''responses'', ''error'', ''color''] =
      Some (Inr (JStr ''#d41f1c''), 1)"
    and "plain_read (Suc n) (bare_theme V) [''colors'', ''responses'', ''error'', ''backgroundColor''] =
      Some (Inr (JStr (shade (transparentize V) (Dec 93 2) ''#d41f1c'')), 1)"
    and "plain_read (Suc n) (bare_theme V) [''colors'', ''responses'', ''redirect'', ''color''] =
      Some (Inr (JStr ''#ffa500''), 1)"
    and "plain_read (Suc n) (bare_theme V) [''colors'', ''responses'', ''info'', ''backgroundColor''] =
      Some (Inr (JStr (shade (transparentize V) (Dec 9 1) ''#87ceeb'')), 1)"
    and "plain_read (Suc n) (bare_theme V) [''colors'', ''responses'', ''info'', ''tabTextColor''] =
      Some (Inr (JStr ''#87ceeb''), 1)"
  by (subst plain_read_unfold,
      simp add: section_default colors_theme_def entry_def shaded_def toned_def contrasting_def times_8_def
        lines_colour_def active_text_colour_def palette [OF assms] palette_shades [OF assms]
        readable_ok [OF assms(2)] spacing_leaves breakpoints_leaves colors_leaves schema_leaves typography_leaves
        sidebar_leaves logo_leaves rightPanel_leaves fab_leaves cong: plain_bind_cong)+

lemma schema_calls_1:
  assumes "viewer_ok V" and "palette_ok V"
  shows "plain_read (Suc n) (bare_theme V) [''schema'', ''linesColor''] =
      Some (Inr (JStr (shade (lighten V) (Dec 2 1) (shade (desaturate V) (Dec 2 1) ''#32329f''))), 1)"
    and "plain_read (Suc n) (bare_theme V) [''schema'', ''requireLabelColor''] =
      Some (Inr (JStr ''#d41f1c''), 1)"
  by (subst plain_read_unfold,
      simp add: section_default schema_theme_def entry_def shaded_def toned_def contrasting_def times_8_def
        lines_colour_def active_text_colour_def palette [OF assms] palette_shades [OF assms]
        readable_ok [OF assms(2)] spacing_leaves breakpoints_leaves colors_leaves schema_leaves typography_leaves
        sidebar_leaves logo_leaves rightPanel_leaves fab_leaves cong: plain_bind_cong)+

lemma typography_calls_1:
  assumes "viewer_ok V" and "palette_ok V"
  shows "plain_read (Suc n) (bare_theme V) [''typography'', ''code'', ''lineHeight''] =
      Some (Inr (JStr ''1.5em''), 1)"
    and "plain_read (Suc n) (bare_theme V) [''typography'', ''code'', ''fontWeight''] =
      Some (Inr (JStr ''400''), 1)"
    and "plain_read (Suc n) (bare_theme V) [''typography'', ''links'', ''color''] =
      Some (Inr (JStr ''#32329f''), 1)"
  by (subst plain_read_unfold,
      simp add: section_default typography_theme_def entry_def shaded_def toned_def contrasting_def times_8_def
        lines_colour_def active_text_colour_def palette [OF assms] palette_shades [OF assms]
        readable_ok [OF assms(2)] spacing_leaves breakpoints_leaves colors_leaves schema_leaves typography_leaves
        sidebar_leaves logo_leaves rightPanel_leaves fab_leaves cong: plain_bind_cong)+

lemma sidebar_calls_1:
  assumes "viewer_ok V" and "palette_ok V"
  shows "plain_read (Suc n) (bare_theme V) [''sidebar'', ''activeTextColor''] =
      Some (Inr (JStr ''#32329f''), 1)"
    and "plain_read (Suc n) (bare_theme V) [''sidebar'', ''groupItems'', ''activeBackgroundColor''] =
      Some (Inr (JStr (shade (darken V) (Dec 1 1) ''#fafafa'')), 1)"
    and "plain_read (Suc n) (bare_theme V) [''sidebar'', ''level1Items'', ''activeBackgroundColor''] =
      Some (Inr (JStr (shade (darken V) (Dec 5 2) ''#fafafa'')), 1)"
    and "plain_read (Suc n) (bare_theme V) [''sidebar'', ''arrow'', ''color''] =
      Some (Inr (JStr ''#333333''), 1)"
  by (subst plain_read_unfold,
      simp add: section_default sidebar_theme_def entry_def shaded_def toned_def contrasting_def times_8_def
        lines_colour_def active_text_colour_def palette [OF assms] palette_shades [OF assms]
        readable_ok [OF assms(2)] spacing_leaves breakpoints_leaves colors_leaves schema_leaves typography_leaves
        sidebar_leaves logo_leaves rightPanel_leaves fab_leaves cong: plain_bind_cong)+

lemma logo_calls_1:
  assumes "viewer_ok V" and "palette_ok V"
  shows "plain_read (Suc n) (bare_theme V) [''logo'', ''maxHeight''] =
      Some (Inr (JStr ''260px''), 1)"
    and "plain_read (Suc n) (bare_theme V) [''logo'', ''maxWidth''] =
      Some (Inr (JStr ''260px''), 1)"
  by (subst plain_read_unfold,
      simp add: section_default logo_theme_def entry_def shaded_def toned_def contrasting_def times_8_def
        lines_colour_def active_text_colour_def palette [OF assms] palette_shades [OF assms]
        readable_ok [OF assms(2)] spacing_leaves breakpoints_leaves colors_leaves schema_leaves typography_leaves
        sidebar_leaves logo_leaves rightPanel_leaves fab_leaves cong: plain_bind_cong)+

lemma codeBlock_calls_1:
  assumes "viewer_ok V" and "palette_ok V"
  shows "plain_read (Suc n) (bare_theme V) [''codeBlock'', ''backgroundColor''] =
      Some (Inr (JStr (shade (darken V) (Dec 1 1) ''#263238'')), 1)"
  by (subst plain_read_unfold,
      simp add: section_default codeBlock_theme_def entry_def shaded_def toned_def contrasting_def times_8_def
        lines_colour_def active_text_colour_def palette [OF assms] palette_shades [OF assms]
        readable_ok [OF assms(2)] spacing_leaves breakpoints_leaves colors_leaves schema_leaves typography_leaves
        sidebar_leaves logo_leaves rightPanel_leaves fab_leaves cong: plain_bind_cong)+

lemma colors_calls_2:
  assumes "viewer_ok V" and "palette_ok V"
  shows "plain_read (Suc (Suc n)) (bare_theme V) [''colors'', ''responses'', ''success'', ''tabTextColor''] =
      Some (Inr (JStr ''#1d8127''), 2)"
    and "plain_read (Suc (Suc n)) (bare_theme V) [''colors'', ''responses'', ''error'', ''tabTextColor''] =
      Some (Inr (JStr ''#d41f1c''), 2)"
    and "plain_read (Suc (Suc n)) (bare_theme V) [''colors'', ''responses'', ''redirect'', ''backgroundColor''] =
      Some (Inr (JStr (shade (transparentize V) (Dec 9 1) ''#ffa500'')), 2)"
    and "plain_read (Suc (Suc n)) (bare_theme V) [''colors'', ''responses'', ''redirect'', ''tabTextColor''] =
      Some (Inr (JStr ''#ffa500''), 2)"
  by (subst plain_read_unfold,
      simp add: section_default colors_theme_def entry_def shaded_def toned_def contrasting_def times_8_def
        lines_colour_def active_text_colour_def palette [OF assms] palette_shades [OF assms]
        readable_ok [OF assms(2)] spacing_leaves breakpoints_leaves colors_leaves schema_leaves typography_leaves
        sidebar_leaves logo_leaves rightPanel_leaves fab_leaves spacing_calls_1 [OF assms]
        colors_calls_1 [OF assms] schema_calls_1 [OF assms] typography_calls_1 [OF assms]
        sidebar_calls_1 [OF assms] logo_calls_1 [OF assms] codeBlock_calls_1 [OF assms] cong: plain_bind_cong)+

lemma schema_calls_2:
  assumes "viewer_ok V" and "palette_ok V"
  shows "plain_read (Suc (Suc n)) (bare_theme V) [''schema'', ''typeNameColor''] =
      Some (Inr (JStr (shade (lighten V) (Dec 2 1) ''#333333'')), 2)"
    and "plain_read (Suc (Suc n)) (bare_theme V) [''schema'', ''arrow'', ''color''] =
      Some (Inr (JStr (shade (lighten V) (Dec 2 1) ''#333333'')), 2)"
  by (subst plain_read_unfold,
      simp add: section_default schema_theme_def entry_def shaded_def toned_def contrasting_def times_8_def
        lines_colour_def active_text_colour_def palette [OF assms] palette_shades [OF assms]
        readable_ok [OF assms(2)] spacing_leaves breakpoints_leaves colors_leaves schema_leaves typography_leaves
        sidebar_leaves logo_leaves rightPanel_leaves fab_leaves spacing_calls_1 [OF assms]
        colors_calls_1 [OF assms] schema_calls_1 [OF assms] typography_calls_1 [OF assms]
        sidebar_calls_1 [OF assms] logo_calls_1 [OF assms] codeBlock_calls_1 [OF assms] cong: plain_bind_cong)+

lemma typography_calls_2:
  assumes "viewer_ok V" and "palette_ok V"
  shows "plain_read (Suc (Suc n)) (bare_theme V) [''typography'', ''links'', ''visited''] =
      Some (Inr (JStr ''#32329f''), 2)"
    and "plain_read (Suc (Suc n)) (bare_theme V) [''typography'', ''links'', ''hover''] =
      Some (Inr (JStr (shade (lighten V) (Dec 2 1) ''#32329f'')), 2)"
  by (subst plain_read_unfold,
      simp add: section_default typography_theme_def entry_def shaded_def toned_def contrasting_def times_8_def
        lines_colour_def active_text_colour_def palette [OF assms] palette_shades [OF assms]
        readable_ok [OF assms(2)] spacing_leaves breakpoints_leaves colors_leaves schema_leaves typography_leaves
        sidebar_leaves logo_leaves rightPanel_leaves fab_leaves spacing_calls_1 [OF assms]
        colors_calls_1 [OF assms] schema_calls_1 [OF assms] typography_calls_1 [OF assms]
        sidebar_calls_1 [OF assms] logo_calls_1 [OF assms] codeBlock_calls_1 [OF assms] cong: plain_bind_cong)+

lemma sidebar_calls_2:
  assumes "viewer_ok V" and "palette_ok V"
  shows "plain_read (Suc (Suc n)) (bare_theme V) [''sidebar'', ''groupItems'', ''activeTextColor''] =
      Some (Inr (JStr ''#32329f''), 2)"
    and "plain_read (Suc (Suc n)) (bare_theme V) [''sidebar'', ''level1Items'', ''activeTextColor''] =
      Some (Inr (JStr ''#32329f''), 2)"
  by (subst plain_read_unfold,
      simp add: section_default sidebar_theme_def entry_def shaded_def toned_def contrasting_def times_8_def
        lines_colour_def active_text_colour_def palette [OF assms] palette_shades [OF assms]
        readable_ok [OF assms(2)] spacing_leaves breakpoints_leaves colors_leaves schema_leaves typography_leaves
        sidebar_leaves logo_leaves rightPanel_leaves fab_leaves spacing_calls_1 [OF assms]
        colors_calls_1 [OF assms] schema_calls_1 [OF assms] typography_calls_1 [OF assms]
        sidebar_calls_1 [OF assms] logo_calls_1 [OF assms] codeBlock_calls_1 [OF assms] cong: plain_bind_cong)+

lemma schema_calls_3:
  assumes "viewer_ok V" and "palette_ok V"
  shows "plain_read (Suc (Suc (Suc n))) (bare_theme V) [''schema'', ''typeTitleColor''] =
      Some (Inr (JStr (shade (lighten V) (Dec 2 1) ''#333333'')), 3)"
  by (subst plain_read_unfold,
      simp add: section_default schema_theme_def entry_def shaded_def toned_def contrasting_def times_8_def
        lines_colour_def active_text_colour_def palette [OF assms] palette_shades [OF assms]
        readable_ok [OF assms(2)] spacing_leaves breakpoints_leaves colors_leaves schema_leaves typography_leaves
        sidebar_leaves logo_leaves rightPanel_leaves fab_leaves spacing_calls_1 [OF assms]
        colors_calls_1 [OF assms] schema_calls_1 [OF assms] typography_calls_1 [OF assms]
        sidebar_calls_1 [OF assms] logo_calls_1 [OF assms] codeBlock_calls_1 [OF assms]
        colors_calls_2 [OF assms] schema_calls_2 [OF assms] typography_calls_2 [OF assms]
        sidebar_calls_2 [OF assms] cong: plain_bind_cong)+

lemma spacing_json:
  assumes "viewer_ok V" and "palette_ok V"
  shows "plain_json (plain_read (Suc (Suc (Suc n))) (bare_theme V)) [''spacing''] spacing_theme =
    Some (Inr spacing_values, 2)"
  by (simp add: spacing_leaves spacing_calls_1 [OF assms] spacing_theme_def spacing_values_def
      entry_def shaded_def toned_def contrasting_def times_8_def lines_colour_def active_text_colour_def
      cong: plain_bind_cong)

lemma breakpoints_json:
  assumes "viewer_ok V" and "palette_ok V"
  shows "plain_json (plain_read (Suc (Suc (Suc n))) (bare_theme V)) [''breakpoints''] breakpoints_theme =
    Some (Inr breakpoints_values, 0)"
  by (simp add: breakpoints_leaves breakpoints_theme_def breakpoints_values_def
      entry_def shaded_def toned_def contrasting_def times_8_def lines_colour_def active_text_colour_def
      cong: plain_bind_cong)

lemma colors_json:
  assumes "viewer_ok V" and "palette_ok V"
  shows "plain_json (plain_read (Suc (Suc (Suc n))) (bare_theme V)) [''colors''] (colors_theme V) =
    Some (Inr (colors_values V), 27)"
  by (simp add: colors_leaves colors_calls_1 [OF assms] colors_calls_2 [OF assms] colors_theme_def colors_values_def
      entry_def shaded_def toned_def contrasting_def times_8_def lines_colour_def active_text_colour_def
      cong: plain_bind_cong)

lemma schema_json:
  assumes "viewer_ok V" and "palette_ok V"
  shows "plain_json (plain_read (Suc (Suc (Suc n))) (bare_theme V)) [''schema''] (schema_theme V) =
    Some (Inr (schema_values V), 9)"
  by (simp add: schema_leaves schema_calls_1 [OF assms] schema_calls_2 [OF assms] schema_calls_3 [OF assms] schema_theme_def schema_values_def
      entry_def shaded_def toned_def contrasting_def times_8_def lines_colour_def active_text_colour_def
      cong: plain_bind_cong)

lemma typography_json:
  assumes "viewer_ok V" and "palette_ok V"
  shows "plain_json (plain_read (Suc (Suc (Suc n))) (bare_theme V)) [''typography''] (typography_theme V) =
    Some (Inr (typography_values V), 7)"
  by (simp add: typography_leaves typography_calls_1 [OF assms] typography_calls_2 [OF assms] typography_theme_def typography_values_def
      entry_def shaded_def toned_def contrasting_def times_8_def lines_colour_def active_text_colour_def
      cong: plain_bind_cong)

lemma sidebar_json:
  assumes "viewer_ok V" and "palette_ok V"
  shows "plain_json (plain_read (Suc (Suc (Suc n))) (bare_theme V)) [''sidebar''] (sidebar_theme V) =
    Some (Inr (sidebar_values V), 8)"
  by (simp add: sidebar_leaves sidebar_calls_1 [OF assms] sidebar_calls_2 [OF assms] sidebar_theme_def sidebar_values_def
      entry_def shaded_def toned_def contrasting_def times_8_def lines_colour_def active_text_colour_def
      cong: plain_bind_cong)

lemma logo_json:
  assumes "viewer_ok V" and "palette_ok V"
  shows "plain_json (plain_read (Suc (Suc (Suc n))) (bare_theme V)) [''logo''] logo_theme =
    Some (Inr logo_values, 2)"
  by (simp add: logo_leaves logo_calls_1 [OF assms] logo_theme_def logo_values_def
      entry_def shaded_def toned_def contrasting_def times_8_def lines_colour_def active_text_colour_def
      cong: plain_bind_cong)

lemma rightPanel_json:
  assumes "viewer_ok V" and "palette_ok V"
  shows "plain_json (plain_read (Suc (Suc (Suc n))) (bare_theme V)) [''rightPanel''] rightPanel_theme =
    Some (Inr rightPanel_values, 0)"
  by (simp add: rightPanel_leaves rightPanel_theme_def rightPanel_values_def
      entry_def shaded_def toned_def contrasting_def times_8_def lines_colour_def active_text_colour_def
      cong: plain_bind_cong)

lemma codeBlock_json:
  assumes "viewer_ok V" and "palette_ok V"
  shows "plain_json (plain_read (Suc (Suc (Suc n))) (bare_theme V)) [''codeBlock''] (codeBlock_theme V) =
    Some (Inr (codeBlock_values V), 1)"
  by (simp add: codeBlock_calls_1 [OF assms] codeBlock_theme_def codeBlock_values_def
      entry_def shaded_def toned_def contrasting_def times_8_def lines_colour_def active_text_colour_def
      cong: plain_bind_cong)

lemma fab_json:
  assumes "viewer_ok V" and "palette_ok V"
  shows "plain_json (plain_read (Suc (Suc (Suc n))) (bare_theme V)) [''fab''] fab_theme =
    Some (Inr fab_values, 0)"
  by (simp add: fab_leaves fab_theme_def fab_values_def
      entry_def shaded_def toned_def contrasting_def times_8_def lines_colour_def active_text_colour_def
      cong: plain_bind_cong)

lemma bare_json:
  assumes "viewer_ok V" and "palette_ok V"
  shows "plain_json (plain_read (Suc (Suc (Suc fuel))) (bare_theme V)) [] (bare_theme V) =
    Some (Inr (default_values V), 56)"
proof -
  have hook: "plain_read n (bare_theme V) [''extensionsHook''] = Some (Inr JUndef, 0)" for n
    by (simp add: plain_read_unfold bare_theme_def default_theme_def)
  show ?thesis
    by (subst (2) bare_theme_def, subst default_theme_def)
      (simp add: hook spacing_json [OF assms] breakpoints_json [OF assms] colors_json [OF assms] schema_json
      [OF assms] typography_json [OF assms] sidebar_json [OF assms] logo_json [OF assms]
      rightPanel_json [OF assms] codeBlock_json [OF assms] fab_json [OF assms]
        default_values_def cong: plain_bind_cong)
qed

lemma theme_parts:
  "plain_keys (Node (bare_theme V))" "scan_theme (bare_theme V) = Inr ()"
  by (simp_all add: bare_theme_def default_theme_def plain_key_def spacing_theme_def breakpoints_theme_def colors_theme_def schema_theme_def
      typography_theme_def sidebar_theme_def logo_theme_def rightPanel_theme_def
      codeBlock_theme_def fab_theme_def
      entry_def shaded_def toned_def contrasting_def times_8_def lines_colour_def active_text_colour_def)

text \<open>Merging into nothing copies, and merging what is not there yet appends.\<close>

fun distinct_keys :: "theme_node \<Rightarrow> bool" where
  "distinct_keys (Node kvs) \<longleftrightarrow> distinct (map fst kvs) \<and> (\<forall>kn \<in> set kvs. distinct_keys (snd kn))"
| "distinct_keys _ = True"

lemma update_new: "k \<notin> fst ` set e \<Longrightarrow> AList.update k v e = e @ [(k, v)]"
  by (induction e) auto

lemma merge_appends:
  "distinct_keys (Node n) \<Longrightarrow> fst ` set e \<inter> fst ` set n = {} \<Longrightarrow> merge_theme e n = e @ n"
proof (induction e n rule: merge_theme.induct)
  case (2 e k v n)
  then have new: "k \<notin> fst ` set e" and fresh: "map_of e k = None" by (auto simp: map_of_eq_None_iff)
  have "(case v of
          Node kvs \<Rightarrow>
            (case map_of e k of
               None \<Rightarrow> AList.update k (Node (merge_theme [] kvs)) e
             | Some (Node ekvs) \<Rightarrow> AList.update k (Node (merge_theme ekvs kvs)) e
             | Some x \<Rightarrow> if truthy_node x then e else AList.update k (Node (merge_theme [] kvs)) e)
        | _ \<Rightarrow> AList.update k v e) = e @ [(k, v)]"
  proof (cases v)
    case (Node kvs)
    with 2 fresh have "merge_theme [] kvs = kvs" by simp
    with Node fresh new show ?thesis by (simp add: update_new)
  qed (use new in \<open>simp_all add: update_new\<close>)
  moreover have "merge_theme (e @ [(k, v)]) n = (e @ [(k, v)]) @ n"
    using 2 calculation by auto
  ultimately show ?case by simp
qed simp

lemma distinct_default: "distinct_keys (Node (default_theme V))"
  by (simp add: default_theme_def spacing_theme_def breakpoints_theme_def colors_theme_def schema_theme_def
      typography_theme_def sidebar_theme_def logo_theme_def rightPanel_theme_def
      codeBlock_theme_def fab_theme_def
      entry_def shaded_def toned_def contrasting_def times_8_def lines_colour_def active_text_colour_def)

lemma viewer_theme_bare: "viewer_theme V [] = bare_theme V"
proof -
  have "merge_theme [] (default_theme V) = default_theme V"
    using merge_appends [OF distinct_default, of "[]"] by simp
  moreover have "merge_theme (default_theme V) [(''extensionsHook'', Leaf JUndef)] = bare_theme V"
    by (simp add: bare_theme_def default_theme_def)
  ultimately show ?thesis by (simp add: viewer_theme_def)
qed

lemma default_theme_resolves:
  assumes "viewer_ok V" and "palette_ok V"
  shows "options_theme V [] hook = Some (Inr (JObj (default_values V @ [(''extensionsHook'', hook)])))"
proof -
  have fuel: "max_calls + 1 = Suc (Suc (Suc 998))" by (simp add: max_calls_def)
  have "plain_json (plain_read (max_calls + 1) (bare_theme V)) [] (bare_theme V) =
      Some (Inr (default_values V), 56)" unfolding fuel by (rule bare_json [OF assms])
  then have "resolve_theme (bare_theme V) = Some (Inr (JObj (default_values V)))"
    by (rule resolve_theme_plain [OF theme_parts(1) theme_parts(2)]) (simp add: max_calls_def)
  moreover have "AList.update ''extensionsHook'' hook (default_values V) =
      default_values V @ [(''extensionsHook'', hook)]"
    by (simp add: default_values_def)
  ultimately show ?thesis by (simp add: options_theme_def viewer_theme_bare)
qed

definition default_section :: "viewer \<Rightarrow> (string \<times> jsval) list \<Rightarrow> string \<Rightarrow> jsval" where
  "default_section V rest k = (case map_of (default_values V @ rest) k of None \<Rightarrow> JUndef | Some v \<Rightarrow> v)"

lemma value_sections:
  "default_section V rest ''spacing'' = JObj spacing_values"
  "default_section V rest ''breakpoints'' = JObj breakpoints_values"
  "default_section V rest ''colors'' = JObj (colors_values V)"
  "default_section V rest ''schema'' = JObj (schema_values V)"
  "default_section V rest ''typography'' = JObj (typography_values V)"
  "default_section V rest ''sidebar'' = JObj (sidebar_values V)"
  "default_section V rest ''logo'' = JObj logo_values"
  "default_section V rest ''rightPanel'' = JObj rightPanel_values"
  "default_section V rest ''codeBlock'' = JObj (codeBlock_values V)"
  "default_section V rest ''fab'' = JObj fab_values"
  by (simp_all add: default_section_def default_values_def)

lemma default_themed:
  assumes "viewer_ok V" and "palette_ok V"
    and "js_get p ''theme'' = Inr (JObj (default_values V @ rest))"
  shows "themed V p"
proof -
  have path: "theme_path (k # ks) p = js_path ks (default_section V rest k)" for k ks
    using assms(3) by (simp add: theme_path_def default_section_def)
  show ?thesis
    by (simp add: themed_def theme_leaves_def theme_colours_def path value_sections spacing_values_def breakpoints_values_def colors_values_def schema_values_def
      typography_values_def sidebar_values_def logo_values_def rightPanel_values_def
      codeBlock_values_def fab_values_def
        palette [OF assms(1, 2)] palette_shades [OF assms(1, 2)] readable_ok [OF assms(2)])
qed

end
