(* ===== verification/Style_Catalogue.thy ===== *)
theory Style_Catalogue
  imports Styles_Table Styles_Tabs Styles_Samples Styles_Schema Styles_Security Styles_Operation Styles_Shell
    Theme_Default
begin

text \<open>
  The styles of the viewer by the part of the page they belong to. The styles of \<open>viewer_styles\<close> read
  nothing but the theme and truth values of their props; those of \<open>prop_styles\<close> show props as they are
  or use them to select an entry of the theme; \<open>stray_styles\<close> close a block too often. The lemmas
  collect what has been proved of each template, so that the properties of the viewer speak of all of
  its styles, with any theme that has the entries read and with the default theme.
\<close>

section \<open>Styles that need the theme only\<close>

definition page_styles :: "viewer \<Rightarrow> rule list list" where
  "page_styles V =
     [va_css, Su_css, Eu_css, Pu_css, Au_css, Ru_css V, ju_css V, h3_anon_css V, Tu_css V,
      Iu_css V, zu_css, Wu_css, Hu_css, Ou_css]"

lemma page_styles_render:
  assumes "themed V p" and "viewer_ok V"
  shows "list_all (\<lambda>rs. renders p 0 rs 0) (page_styles V)"
  by (simp add: page_styles_def
      va_renders [OF assms] Su_renders [OF assms] Eu_renders [OF assms] Pu_renders [OF assms]
      Au_renders [OF assms] Ru_renders [OF assms] ju_renders [OF assms] h3_anon_renders [OF assms]
      Tu_renders [OF assms] Iu_renders [OF assms] zu_renders [OF assms] Wu_renders [OF assms]
      Hu_renders [OF assms] Ou_renders [OF assms])

definition table_styles :: "viewer \<Rightarrow> rule list list" where
  "table_styles V =
     [Yu_css, Ku_css, Gu_css V, Qu_css V, Xu_css, Ju_css, Zu_css V]"

lemma table_styles_render:
  assumes "themed V p" and "viewer_ok V"
  shows "list_all (\<lambda>rs. renders p 0 rs 0) (table_styles V)"
  by (simp add: table_styles_def
      Yu_renders [OF assms] Ku_renders [OF assms] Gu_renders [OF assms] Qu_renders [OF assms]
      Xu_renders [OF assms] Ju_renders [OF assms] Zu_renders [OF assms])

definition tab_styles :: "viewer \<Rightarrow> rule list list" where
  "tab_styles V =
     [ep_css, np_css V, rp_css, op_css, Dp_css V, small_tabs_css V, Lp_css V, Mp_css, Fp_css V,
      zp_css]"

lemma tab_styles_render:
  assumes "themed V p" and "viewer_ok V"
  shows "list_all (\<lambda>rs. renders p 0 rs 0) (tab_styles V)"
  by (simp add: tab_styles_def
      ep_renders [OF assms] np_renders [OF assms] rp_renders [OF assms] op_renders [OF assms]
      Dp_renders [OF assms] small_tabs_renders [OF assms] Lp_renders [OF assms]
      Mp_renders [OF assms] Fp_renders [OF assms] zp_renders [OF assms])

definition markdown_styles :: "viewer \<Rightarrow> rule list list" where
  "markdown_styles V =
     [Sd_css, Ad_css, Cd_css, Rd_css, jd_css, Cf_css, Rf_css V, zf_css, Uf_css, Vf_css, Bf_css,
      qf_css]"

lemma markdown_styles_render:
  assumes "themed V p" and "viewer_ok V"
  shows "list_all (\<lambda>rs. renders p 0 rs 0) (markdown_styles V)"
  by (simp add: markdown_styles_def
      Sd_renders [OF assms] Ad_renders [OF assms] Cd_renders [OF assms] Rd_renders [OF assms]
      jd_renders [OF assms] Cf_renders [OF assms] Rf_renders [OF assms] zf_renders [OF assms]
      Uf_renders [OF assms] Vf_renders [OF assms] Bf_renders [OF assms] qf_renders [OF assms])

definition sample_styles :: "viewer \<Rightarrow> rule list list" where
  "sample_styles V =
     [nh_css, rh_css V, oh_css, uh_css V, ph_css V, dh_css, fh_css V, hh_css, gh_css]"

lemma sample_styles_render:
  assumes "themed V p" and "viewer_ok V"
  shows "list_all (\<lambda>rs. renders p 0 rs 0) (sample_styles V)"
  by (simp add: sample_styles_def
      nh_renders [OF assms] rh_renders [OF assms] oh_renders [OF assms] uh_renders [OF assms]
      ph_renders [OF assms] dh_renders [OF assms] fh_renders [OF assms] hh_renders [OF assms]
      gh_renders [OF assms])

definition schema_styles :: "viewer \<Rightarrow> rule list list" where
  "schema_styles V =
     [am_css V, sm_css, lm_css V, cm_css, um_css, dm_css, fm_css, hm_css, mm_css, ym_css, bm_css,
      wm_css, u_m_css, Om_css, Pm_css, jm_css, og_css, Dg_css]"

lemma schema_styles_render:
  assumes "themed V p" and "viewer_ok V"
  shows "list_all (\<lambda>rs. renders p 0 rs 0) (schema_styles V)"
  by (simp add: schema_styles_def
      am_renders [OF assms] sm_renders [OF assms] lm_renders [OF assms] cm_renders [OF assms]
      um_renders [OF assms] dm_renders [OF assms] fm_renders [OF assms] hm_renders [OF assms]
      mm_renders [OF assms] ym_renders [OF assms] bm_renders [OF assms] wm_renders [OF assms]
      u_m_renders [OF assms] Om_renders [OF assms] Pm_renders [OF assms] jm_renders [OF assms]
      og_renders [OF assms] Dg_renders [OF assms])

definition security_styles :: "viewer \<Rightarrow> rule list list" where
  "security_styles V =
     [schema_box_css, scope_list_css, Lg_css, Mg_css, Fg_css, zg_css, Ug_css, Vg_css, Bg_css,
      qg_css, Wg_css, Yg_css, Kg_css, Gg_css, ny_css V, ry_css V, oy_css, iy_css, ay_css, ly_css,
      cy_css, uy_css]"

lemma security_styles_render:
  assumes "themed V p" and "viewer_ok V"
  shows "list_all (\<lambda>rs. renders p 0 rs 0) (security_styles V)"
  by (simp add: security_styles_def
      schema_box_renders [OF assms] scope_list_renders [OF assms] Lg_renders [OF assms]
      Mg_renders [OF assms] Fg_renders [OF assms] zg_renders [OF assms] Ug_renders [OF assms]
      Vg_renders [OF assms] Bg_renders [OF assms] qg_renders [OF assms] Wg_renders [OF assms]
      Yg_renders [OF assms] Kg_renders [OF assms] Gg_renders [OF assms] ny_renders [OF assms]
      ry_renders [OF assms] oy_renders [OF assms] iy_renders [OF assms] ay_renders [OF assms]
      ly_renders [OF assms] cy_renders [OF assms] uy_renders [OF assms])

definition menu_styles :: "viewer \<Rightarrow> rule list list" where
  "menu_styles V =
     [xy_css, u_y_css, Oy_css, Sy0_css, Sy1_css, Ay_css V, d_y_css V, Cy_css, Ry_css, jy_css V]"

lemma menu_styles_render:
  assumes "themed V p" and "viewer_ok V"
  shows "list_all (\<lambda>rs. renders p 0 rs 0) (menu_styles V)"
  by (simp add: menu_styles_def
      xy_renders [OF assms] u_y_renders [OF assms] Oy_renders [OF assms] Sy0_renders [OF assms]
      Sy1_renders [OF assms] Ay_renders [OF assms] d_y_renders [OF assms] Cy_renders [OF assms]
      Ry_renders [OF assms] jy_renders [OF assms])

definition operation_styles :: "viewer \<Rightarrow> rule list list" where
  "operation_styles V =
     [Ty_css, Ny_css, Dy_css, Ly_css V, Fy_css, zy_css, Uy_css, tv_css, nv_css, rv_css, dv_css,
      wv_css, u_v_css, Iv_css, Bv_css, Zv_css, jb_css]"

lemma operation_styles_render:
  assumes "themed V p" and "viewer_ok V"
  shows "list_all (\<lambda>rs. renders p 0 rs 0) (operation_styles V)"
  by (simp add: operation_styles_def
      Ty_renders [OF assms] Ny_renders [OF assms] Dy_renders [OF assms] Ly_renders [OF assms]
      Fy_renders [OF assms] zy_renders [OF assms] Uy_renders [OF assms] tv_renders [OF assms]
      nv_renders [OF assms] rv_renders [OF assms] dv_renders [OF assms] wv_renders [OF assms]
      u_v_renders [OF assms] Iv_renders [OF assms] Bv_renders [OF assms] Zv_renders [OF assms]
      jb_renders [OF assms])

definition shell_styles :: "viewer \<Rightarrow> rule list list" where
  "shell_styles V =
     [Nb_css, Db_css, Mb_css, Fb_css, zb_css, Ub_css, Vb_css V, Bb_css, Wb_css]"

lemma shell_styles_render:
  assumes "themed V p" and "viewer_ok V"
  shows "list_all (\<lambda>rs. renders p 0 rs 0) (shell_styles V)"
  by (simp add: shell_styles_def
      Nb_renders [OF assms] Db_renders [OF assms] Mb_renders [OF assms] Fb_renders [OF assms]
      zb_renders [OF assms] Ub_renders [OF assms] Vb_renders [OF assms] Bb_renders [OF assms]
      Wb_renders [OF assms])

definition viewer_styles :: "viewer \<Rightarrow> rule list list" where
  "viewer_styles V =
     page_styles V @ table_styles V @ tab_styles V @ markdown_styles V @ sample_styles V @
     schema_styles V @ security_styles V @ menu_styles V @ operation_styles V @ shell_styles V"

lemma viewer_styles_render:
  assumes "themed V p" and "viewer_ok V"
  shows "list_all (\<lambda>rs. renders p 0 rs 0) (viewer_styles V)"
  unfolding viewer_styles_def list_all_append
  using page_styles_render [OF assms]
    table_styles_render [OF assms]
    tab_styles_render [OF assms]
    markdown_styles_render [OF assms]
    sample_styles_render [OF assms]
    schema_styles_render [OF assms]
    security_styles_render [OF assms]
    menu_styles_render [OF assms]
    operation_styles_render [OF assms]
    shell_styles_render [OF assms]
  by blast

section \<open>Styles that show props\<close>

text \<open>
  What those styles rely on: the props that are shown contain no braces, the depth is a number, the
  type is one for which the theme has colours, and the colours of responses and HTTP methods contain
  no braces.
\<close>

definition props_ok :: "jsval \<Rightarrow> bool" where
  "props_ok p \<longleftrightarrow>
     plain_props p \<and> numbered p \<and> typed p [''success'', ''error''] \<and> response_colours p \<and> http_colours p"

definition prop_styles :: "viewer \<Rightarrow> rule list list" where
  "prop_styles V = [ka_css, xa_css, Bu_css, qu_css, Py_css, Ey_css V, My_css, ev_css]"

lemma typed_mono: "typed p ts \<Longrightarrow> set ts \<subseteq> set us \<Longrightarrow> typed p us"
  by (auto simp: typed_def)

lemma prop_styles_render:
  assumes "themed V p" and "viewer_ok V" and "props_ok p"
  shows "list_all (\<lambda>rs. renders p 0 rs 0) (prop_styles V)"
proof -
  have p: "plain_props p" "numbered p" "response_colours p" "http_colours p"
    using assms(3) by (simp_all add: props_ok_def)
  have "typed p [''success'', ''error'']" using assms(3) by (simp add: props_ok_def)
  then have "typed p [''primary'', ''success'', ''warning'', ''error'']"
    and "typed p [''success'', ''error'', ''redirect'', ''info'']"
    by (rule typed_mono, simp)+
  with p show ?thesis
    by (simp add: prop_styles_def ka_renders [OF assms(1, 2)] xa_renders [OF assms(1, 2)]
        Bu_renders [OF assms(1, 2)] qu_renders [OF assms(1, 2)] Py_renders [OF assms(1, 2)]
        Ey_renders [OF assms(1, 2)] My_renders [OF assms(1, 2)] ev_renders [OF assms(1, 2)])
qed

section \<open>Styles with a stray brace\<close>

definition stray_styles :: "viewer \<Rightarrow> rule list list" where
  "stray_styles V = [tp_css, gm_css V, vm_css V, qb_css V]"

lemma stray_styles_stray:
  assumes "themed V p" and "viewer_ok V"
  shows "list_all (stray p 0) (stray_styles V)"
  by (simp add: stray_styles_def tp_stray [OF assms(1)] gm_stray [OF assms] vm_stray [OF assms]
      qb_stray [OF assms])

section \<open>The default theme\<close>

text \<open>The theme that the viewer computes when the page embeds it without a theme of its own.\<close>

lemma default_props_themed:
  assumes "viewer_ok V" and "palette_ok V"
    and "options_theme V [] hook = Some (Inr t)" and "js_get p ''theme'' = Inr t"
  shows "themed V p"
  using default_themed [OF assms(1, 2)] default_theme_resolves [OF assms(1, 2), of hook] assms(3, 4) by simp

end
