(* ===== verification/Styled_Tag.thy ===== *)
theory Styled_Tag
  imports JS_Value
begin

text \<open>
  The tag that holds the rules of all components (\<open>li\<close>, the tag without a DOM) and the groups of
  rules in it (\<open>Yo\<close>): every component id has a group number, and the rules of group \<open>g\<close> lie behind
  those of all smaller groups, so that an array of group sizes is enough to find them. The abstract
  view is a list of groups; \<open>holds_groups\<close> relates the two and every operation refines the obvious
  operation on that list.
\<close>

section \<open>The tag\<close>

record tag =
  tag_rules :: "string list"
  tag_length :: nat

definition new_tag :: tag where
  "new_tag = \<lparr>tag_rules = [], tag_length = 0\<rparr>"

text \<open>\<open>insertRule\<close> refuses a position behind the end; \<open>deleteRule\<close> removes one rule.\<close>

definition insert_rule :: "nat \<Rightarrow> string \<Rightarrow> tag \<Rightarrow> bool \<times> tag" where
  "insert_rule e t x =
     (if e \<le> tag_length x then
        (True, \<lparr>tag_rules = take e (tag_rules x) @ t # drop e (tag_rules x), tag_length = tag_length x + 1\<rparr>)
      else (False, x))"

definition delete_rule :: "nat \<Rightarrow> tag \<Rightarrow> tag" where
  "delete_rule e x =
     \<lparr>tag_rules = take e (tag_rules x) @ drop (Suc e) (tag_rules x), tag_length = tag_length x - 1\<rparr>"

definition get_rule :: "nat \<Rightarrow> tag \<Rightarrow> string" where
  "get_rule e x = (if e < tag_length x then tag_rules x ! e else [])"

section \<open>Groups\<close>

record group_tag =
  group_sizes :: "nat list"
  group_length :: nat
  group_rules :: tag

definition new_group_tag :: group_tag where
  "new_group_tag = \<lparr>group_sizes = replicate 512 0, group_length = 512, group_rules = new_tag\<rparr>"

definition index_of_group :: "nat \<Rightarrow> group_tag \<Rightarrow> nat" where
  "index_of_group e g = sum_list (take e (group_sizes g))"

text \<open>\<open>o <<= 1\<close> on 32-bit integers.\<close>

definition shl1 :: "int \<Rightarrow> int" where
  "shl1 n = (let m = 2 * n mod 2 ^ 32 in if m < 2 ^ 31 then m else m - 2 ^ 32)"

text \<open>
  The capacity is doubled until group \<open>e\<close> fits: \<open>for (o = r; e >= o;) (o <<= 1) < 0 && Ho(16)\<close>. From
  the capacity 0 the loop would not end.
\<close>

partial_function (option) grow :: "int \<Rightarrow> int \<Rightarrow> int js option" where
  "grow e n =
     (if e < n then Some (Inr n)
      else let m = shl1 n in if m < 0 then Some (Inl (StyledError 16)) else grow e m)"

text \<open>The array is grown when the group is new; then the rules are inserted behind those of the group.\<close>

definition ensure_group :: "nat \<Rightarrow> group_tag \<Rightarrow> group_tag js option" where
  "ensure_group e g =
     (if length (group_sizes g) \<le> e then
        map_option
          (map_sum id (\<lambda>n. g\<lparr>group_sizes := group_sizes g @ replicate (nat n - length (group_sizes g)) 0,
             group_length := nat n\<rparr>))
          (grow (int e) (int (length (group_sizes g))))
      else Some (Inr g))"

primrec insert_each :: "nat \<Rightarrow> string list \<Rightarrow> nat \<Rightarrow> group_tag \<Rightarrow> group_tag" where
  "insert_each e [] a g = g"
| "insert_each e (t # ts) a g =
     (case insert_rule a t (group_rules g) of
        (True, x) \<Rightarrow>
          insert_each e ts (a + 1)
            (g\<lparr>group_sizes := (group_sizes g)[e := group_sizes g ! e + 1], group_rules := x\<rparr>)
      | (False, x) \<Rightarrow> insert_each e ts a g)"

definition insert_rules :: "nat \<Rightarrow> string list \<Rightarrow> group_tag \<Rightarrow> group_tag js option" where
  "insert_rules e ts g =
     map_option (map_sum id (\<lambda>h. insert_each e ts (index_of_group (e + 1) h) h)) (ensure_group e g)"

definition clear_group :: "nat \<Rightarrow> group_tag \<Rightarrow> group_tag" where
  "clear_group e g =
     (if e < group_length g then
        let t = group_sizes g ! e; n = index_of_group e g in
        g\<lparr>group_sizes := (group_sizes g)[e := 0], group_rules := (delete_rule n ^^ t) (group_rules g)\<rparr>
      else g)"

definition sc_mark :: string where
  "sc_mark = ''/*!sc*/'' @ [CHR 0x0A]"

definition get_group :: "nat \<Rightarrow> group_tag \<Rightarrow> string" where
  "get_group e g =
     (if group_length g \<le> e \<or> group_sizes g ! e = 0 then []
      else
        let n = index_of_group e g in
        concat (map (\<lambda>i. get_rule i (group_rules g) @ sc_mark) [n..<n + group_sizes g ! e]))"

section \<open>Growing\<close>

lemma shl1_simps:
  "0 < n \<Longrightarrow> n < 2 ^ 30 \<Longrightarrow> shl1 n = 2 * n"
  "2 ^ 30 \<le> n \<Longrightarrow> n < 2 ^ 31 \<Longrightarrow> shl1 n < 0"
  by (simp_all add: shl1_def Let_def)

lemma grow_cases:
  assumes "0 < n" and "n < 2 ^ 31"
  shows "(\<exists>m. grow e n = Some (Inr m) \<and> e < m \<and> n \<le> m \<and> m < 2 ^ 31 \<and> (m = n \<or> m \<le> 2 * e)) \<or>
    grow e n = Some (Inl (StyledError 16)) \<and> 2 ^ 30 \<le> e"
  using assms
proof (induction "nat (2 ^ 31 - n)" arbitrary: n rule: less_induct)
  case less
  show ?case
  proof (cases "e < n")
    case True
    then show ?thesis using less.prems by (simp add: grow.simps [of e n])
  next
    case False
    show ?thesis
    proof (cases "n < 2 ^ 30")
      case True
      have "grow e n = grow e (2 * n)"
        using False True less.prems by (subst grow.simps) (simp add: shl1_simps Let_def)
      moreover have "nat (2 ^ 31 - 2 * n) < nat (2 ^ 31 - n)" using less.prems True by simp
      ultimately show ?thesis
        using less.hyps [of "2 * n"] less.prems True False by auto
    next
      case big: False
      then have "grow e n = Some (Inl (StyledError 16))"
        using False less.prems by (subst grow.simps) (simp add: shl1_simps Let_def)
      then show ?thesis using big False by simp
    qed
  qed
qed

section \<open>Refinement: the tag is a list of groups\<close>

definition holds_groups :: "group_tag \<Rightarrow> string list list \<Rightarrow> bool" where
  "holds_groups g gs \<longleftrightarrow>
     group_sizes g = map length gs \<and> group_length g = length gs \<and>
     tag_rules (group_rules g) = concat gs \<and> tag_length (group_rules g) = length (concat gs)"

lemma holds_groups_new: "holds_groups new_group_tag (replicate 512 [])"
proof -
  have "concat (replicate n []) = []" for n :: nat by (induction n) simp_all
  then show ?thesis by (simp add: holds_groups_def new_group_tag_def new_tag_def)
qed

lemma concat_update:
  "e < length gs \<Longrightarrow> concat (gs[e := x]) = concat (take e gs) @ x @ concat (drop (Suc e) gs)"
  by (simp add: upd_conv_take_nth_drop)

lemma concat_at:
  "e < length gs \<Longrightarrow> concat gs = concat (take e gs) @ gs ! e @ concat (drop (Suc e) gs)"
  using concat_update [of e gs "gs ! e"] by simp

lemma index_of_group_holds:
  "holds_groups g gs \<Longrightarrow> index_of_group e g = length (concat (take e gs))"
  by (simp add: holds_groups_def index_of_group_def take_map length_concat)

lemma take_Suc_concat:
  "e < length gs \<Longrightarrow> concat (take (Suc e) gs) = concat (take e gs) @ gs ! e"
  by (simp add: take_Suc_conv_app_nth)

lemma insert_each_holds:
  assumes "holds_groups g gs" and "e < length gs"
  shows "holds_groups (insert_each e ts (length (concat (take (Suc e) gs))) g) (gs[e := gs ! e @ ts])"
  using assms
proof (induction ts arbitrary: g gs)
  case (Cons t ts)
  let ?a = "length (concat (take (Suc e) gs))"
  let ?gs = "gs[e := gs ! e @ [t]]"
  let ?g = "g\<lparr>group_sizes := (group_sizes g)[e := group_sizes g ! e + 1],
      group_rules := snd (insert_rule ?a t (group_rules g))\<rparr>"
  have split: "concat gs = concat (take (Suc e) gs) @ concat (drop (Suc e) gs)"
    by (metis append_take_drop_id concat_append)
  then have ok: "insert_rule ?a t (group_rules g) =
      (True, \<lparr>tag_rules = concat (take (Suc e) gs) @ t # concat (drop (Suc e) gs),
        tag_length = length (concat gs) + 1\<rparr>)"
    using Cons.prems by (simp add: insert_rule_def holds_groups_def)
  have "concat ?gs = concat (take (Suc e) gs) @ t # concat (drop (Suc e) gs)"
    using Cons.prems by (simp add: concat_update take_Suc_concat)
  moreover have "length (concat ?gs) = length (concat gs) + 1"
    using calculation split by simp
  ultimately have holds: "holds_groups ?g ?gs"
    using Cons.prems ok by (simp add: holds_groups_def map_update)
  have "length (concat (take (Suc e) ?gs)) = ?a + 1"
    using Cons.prems by (simp add: take_Suc_concat)
  with Cons.IH [OF holds] Cons.prems ok show ?case by (simp add: list_update_overwrite)
qed simp

lemma ensure_group_cases:
  assumes "holds_groups g gs" and "0 < length gs" and "length gs < 2 ^ 31"
  shows "(\<exists>h k. ensure_group e g = Some (Inr h) \<and> holds_groups h (gs @ replicate k []) \<and>
      e < length gs + k \<and> length gs + k < 2 ^ 31) \<or>
    ensure_group e g = Some (Inl (StyledError 16)) \<and> 2 ^ 30 \<le> e"
proof (cases "length gs \<le> e")
  case True
  have grown: "\<exists>h k. ensure_group e g = Some (Inr h) \<and> holds_groups h (gs @ replicate k []) \<and>
      e < length gs + k \<and> length gs + k < 2 ^ 31"
    if m: "grow (int e) (int (length gs)) = Some (Inr m)" "int e < m" "int (length gs) \<le> m" "m < 2 ^ 31" for m
  proof -
    let ?k = "nat m - length gs"
    let ?h = "g\<lparr>group_sizes := group_sizes g @ replicate ?k 0, group_length := nat m\<rparr>"
    have "concat (replicate n []) = []" for n :: nat by (induction n) simp_all
    then have "holds_groups ?h (gs @ replicate ?k [])"
      using assms(1) m by (simp add: holds_groups_def)
    moreover have "ensure_group e g = Some (Inr ?h)"
      using m(1) True assms(1) by (simp add: ensure_group_def holds_groups_def)
    moreover have "length gs + ?k = nat m" using m(3) by simp
    ultimately show ?thesis using m by (intro exI [of _ ?h] exI [of _ ?k]) auto
  qed
  have start: "0 < int (length gs)" "int (length gs) < 2 ^ 31" using assms(2, 3) by simp_all
  from grow_cases [OF start, of "int e"] show ?thesis
  proof
    assume "grow (int e) (int (length gs)) = Some (Inl (StyledError 16)) \<and> 2 ^ 30 \<le> int e"
    then show ?thesis using True assms(1) by (auto simp: ensure_group_def holds_groups_def)
  qed (use grown in blast)
next
  case False
  then show ?thesis
    using assms by (intro disjI1 exI [of _ g] exI [of _ 0]) (auto simp: ensure_group_def holds_groups_def)
qed

theorem insert_rules_cases:
  assumes "holds_groups g gs" and "0 < length gs" and "length gs < 2 ^ 31"
  shows "(\<exists>h k. insert_rules e ts g = Some (Inr h) \<and> e < length gs + k \<and> length gs + k < 2 ^ 31 \<and>
      holds_groups h ((gs @ replicate k [])[e := (gs @ replicate k []) ! e @ ts])) \<or>
    insert_rules e ts g = Some (Inl (StyledError 16)) \<and> 2 ^ 30 \<le> e"
  using ensure_group_cases [OF assms, of e]
proof
  assume "\<exists>h k. ensure_group e g = Some (Inr h) \<and> holds_groups h (gs @ replicate k []) \<and>
      e < length gs + k \<and> length gs + k < 2 ^ 31"
  then obtain h k where h: "ensure_group e g = Some (Inr h)" "holds_groups h (gs @ replicate k [])"
    "e < length gs + k" "length gs + k < 2 ^ 31"
    by blast
  then show ?thesis
    using insert_each_holds [OF h(2), of e ts]
    by (auto simp: insert_rules_def index_of_group_holds simp del: take_append)
qed (simp add: insert_rules_def)

theorem insert_rules_refines:
  assumes "holds_groups g gs" and "0 < length gs" and "length gs < 2 ^ 31" and "e < 2 ^ 30"
  shows "\<exists>h k. insert_rules e ts g = Some (Inr h) \<and> e < length gs + k \<and> length gs + k < 2 ^ 31 \<and>
    holds_groups h ((gs @ replicate k [])[e := (gs @ replicate k []) ! e @ ts])"
  using insert_rules_cases [OF assms(1-3), of e ts] assms(4) by auto

lemma insert_rules_total:
  assumes "holds_groups g gs" and "0 < length gs" and "length gs < 2 ^ 31"
  shows "\<exists>r. insert_rules e ts g = Some r \<and>
    (\<forall>h. r = Inr h \<longrightarrow> (\<exists>hs. holds_groups h hs \<and> 0 < length hs \<and> length hs < 2 ^ 31))"
  using insert_rules_cases [OF assms, of e ts]
proof
  assume "\<exists>h k. insert_rules e ts g = Some (Inr h) \<and> e < length gs + k \<and> length gs + k < 2 ^ 31 \<and>
      holds_groups h ((gs @ replicate k [])[e := (gs @ replicate k []) ! e @ ts])"
  then obtain h k where h: "insert_rules e ts g = Some (Inr h)" "length gs + k < 2 ^ 31"
    "holds_groups h ((gs @ replicate k [])[e := (gs @ replicate k []) ! e @ ts])"
    by blast
  then have "\<exists>hs. holds_groups h hs \<and> 0 < length hs \<and> length hs < 2 ^ 31"
    using assms(2) by (intro exI [of _ "(gs @ replicate k [])[e := (gs @ replicate k []) ! e @ ts]"]) simp
  then show ?thesis using h(1) by simp
qed simp

lemma delete_rules:
  "tag_rules x = xs @ ys @ zs \<Longrightarrow> tag_length x = length (tag_rules x) \<Longrightarrow>
     (delete_rule (length xs) ^^ length ys) x = \<lparr>tag_rules = xs @ zs, tag_length = length xs + length zs\<rparr>"
proof (induction ys arbitrary: x)
  case Nil
  then show ?case by (cases x) simp
next
  case (Cons y ys)
  then show ?case
    by (simp add: funpow_Suc_right delete_rule_def del: funpow.simps)
qed

theorem clear_group_refines:
  assumes "holds_groups g gs"
  shows "holds_groups (clear_group e g) (gs[e := []])"
proof (cases "e < length gs")
  case True
  have "(delete_rule (length (concat (take e gs))) ^^ length (gs ! e)) (group_rules g) =
      \<lparr>tag_rules = concat (take e gs) @ concat (drop (Suc e) gs),
       tag_length = length (concat (take e gs)) + length (concat (drop (Suc e) gs))\<rparr>"
    using assms concat_at [OF True] by (intro delete_rules) (simp_all add: holds_groups_def)
  then show ?thesis
    using assms True index_of_group_holds [OF assms, of e]
    by (simp add: clear_group_def holds_groups_def Let_def concat_update map_update)
next
  case False
  then show ?thesis using assms by (simp add: clear_group_def holds_groups_def list_update_beyond)
qed

lemma get_rules_slice:
  assumes "tag_rules x = xs @ ys @ zs" and "tag_length x = length (tag_rules x)"
  shows "map (\<lambda>i. get_rule i x) [length xs..<length xs + length ys] = ys"
proof (rule nth_equalityI)
  show "length (map (\<lambda>i. get_rule i x) [length xs..<length xs + length ys]) = length ys" by simp
next
  fix i assume "i < length (map (\<lambda>i. get_rule i x) [length xs..<length xs + length ys])"
  then show "map (\<lambda>i. get_rule i x) [length xs..<length xs + length ys] ! i = ys ! i"
    using assms by (simp add: get_rule_def nth_append)
qed

theorem get_group_refines:
  assumes "holds_groups g gs"
  shows "get_group e g = (if e < length gs then concat (map (\<lambda>r. r @ sc_mark) (gs ! e)) else [])"
proof (cases "e < length gs \<and> gs ! e \<noteq> []")
  case True
  let ?n = "length (concat (take e gs))"
  have "concat gs = concat (take e gs) @ gs ! e @ concat (drop (Suc e) gs)"
    using True by (intro concat_at) simp
  with assms have rules:
    "tag_rules (group_rules g) = concat (take e gs) @ gs ! e @ concat (drop (Suc e) gs)"
    unfolding holds_groups_def by (elim conjE) (rule trans)
  have slice: "map (\<lambda>i. get_rule i (group_rules g)) [?n..<?n + length (gs ! e)] = gs ! e"
    by (rule get_rules_slice [OF rules]) (use assms in \<open>simp add: holds_groups_def\<close>)
  have "map (\<lambda>i. get_rule i (group_rules g) @ sc_mark) [?n..<?n + length (gs ! e)] =
      map (\<lambda>r. r @ sc_mark) (map (\<lambda>i. get_rule i (group_rules g)) [?n..<?n + length (gs ! e)])"
    by (simp add: comp_def)
  also have "\<dots> = map (\<lambda>r. r @ sc_mark) (gs ! e)" by (simp only: slice)
  finally show ?thesis
    using True assms index_of_group_holds [OF assms, of e]
    by (simp add: get_group_def holds_groups_def Let_def)
next
  case False
  then show ?thesis using assms by (auto simp: get_group_def holds_groups_def)
qed

end
