(* ===== verification/Styled_Sheet.thy ===== *)
theory Styled_Sheet
  imports Styled_Rules Styled_Hash Styled_Tag "HOL-Library.While_Combinator"
begin

text \<open>
  The style sheet of styled-components (\<open>pi\<close>), the registry of group numbers (\<open>Xo\<close>, \<open>Jo\<close>, \<open>Zo\<close>) and
  the step in which a component puts its style into the sheet and gets its class names back
  (\<open>generateAndInjectStyles\<close> of \<open>bi\<close>, with the keyframes of \<open>Ri\<close>).

  The CSS preprocessor stylis is a parameter: a function from the text of a style and its selector
  to the list of rules, and its hash. A computation returns nothing when it does not end, and
  otherwise a result or an exception together with the sheet it leaves behind.
\<close>

section \<open>State\<close>

record sheet =
  group_ids :: "string \<Rightarrow> nat option"
  group_names :: "nat \<Rightarrow> string option"
  next_group :: nat
  names :: "string \<Rightarrow> string list option"
  static_names :: "string \<Rightarrow> string option"
  tag_of :: group_tag

definition new_sheet :: sheet where
  "new_sheet =
     \<lparr>group_ids = (\<lambda>_. None), group_names = (\<lambda>_. None), next_group = 1, names = (\<lambda>_. None),
      static_names = (\<lambda>_. None), tag_of = new_group_tag\<rparr>"

type_synonym 'a styled = "sheet \<Rightarrow> ('a js \<times> sheet) option"

definition sc_return :: "'a \<Rightarrow> 'a styled" where
  "sc_return a w = Some (Inr a, w)"

definition sc_bind :: "'a styled \<Rightarrow> ('a \<Rightarrow> 'b styled) \<Rightarrow> 'b styled" where
  "sc_bind m f w =
     (case m w of
        None \<Rightarrow> None
      | Some (Inl e, w') \<Rightarrow> Some (Inl e, w')
      | Some (Inr a, w') \<Rightarrow> f a w')"

definition sc_lift :: "'a js \<Rightarrow> 'a styled" where
  "sc_lift r w = Some (r, w)"

section \<open>Group numbers\<close>

text \<open>\<open>for (; Go.has(Qo);) Qo++\<close>\<close>

definition free_group :: "sheet \<Rightarrow> nat option" where
  "free_group w = while_option (\<lambda>q. group_names w q \<noteq> None) Suc (next_group w)"

definition group_id :: "string \<Rightarrow> nat styled" where
  "group_id e w =
     (case group_ids w e of
        Some i \<Rightarrow> Some (Inr i, w)
      | None \<Rightarrow>
          (case free_group w of
             None \<Rightarrow> None
           | Some t \<Rightarrow>
               Some (Inr t, w\<lparr>group_ids := (group_ids w)(e \<mapsto> t), group_names := (group_names w)(t \<mapsto> e),
                 next_group := Suc t\<rparr>)))"

definition set_group_id :: "string \<Rightarrow> nat \<Rightarrow> unit styled" where
  "set_group_id e t w =
     Some (Inr (), w\<lparr>group_ids := (group_ids w)(e \<mapsto> t), group_names := (group_names w)(t \<mapsto> e)\<rparr>)"

section \<open>Names and rules\<close>

definition has_name_for_id :: "string \<Rightarrow> string \<Rightarrow> sheet \<Rightarrow> bool" where
  "has_name_for_id e t w = (case names w e of None \<Rightarrow> False | Some ns \<Rightarrow> t \<in> set ns)"

definition add_name :: "string \<Rightarrow> string \<Rightarrow> sheet \<Rightarrow> sheet" where
  "add_name e t w =
     w\<lparr>names := (names w)(e \<mapsto>
       (case names w e of None \<Rightarrow> [t] | Some ns \<Rightarrow> if t \<in> set ns then ns else ns @ [t]))\<rparr>"

definition register_name :: "string \<Rightarrow> string \<Rightarrow> unit styled" where
  "register_name e t = sc_bind (group_id e) (\<lambda>_ w. Some (Inr (), add_name e t w))"

definition into_group :: "nat \<Rightarrow> string list \<Rightarrow> unit styled" where
  "into_group i rules w =
     (case insert_rules i rules (tag_of w) of
        None \<Rightarrow> None
      | Some (Inl e) \<Rightarrow> Some (Inl e, w)
      | Some (Inr g) \<Rightarrow> Some (Inr (), w\<lparr>tag_of := g\<rparr>))"

definition sheet_insert :: "string \<Rightarrow> string \<Rightarrow> string list \<Rightarrow> unit styled" where
  "sheet_insert e t rules =
     sc_bind (register_name e t) (\<lambda>_. sc_bind (group_id e) (\<lambda>i. into_group i rules))"

definition clear_names :: "string \<Rightarrow> sheet \<Rightarrow> sheet" where
  "clear_names e w = (case names w e of None \<Rightarrow> w | Some _ \<Rightarrow> w\<lparr>names := (names w)(e \<mapsto> [])\<rparr>)"

definition clear_rules :: "string \<Rightarrow> unit styled" where
  "clear_rules e =
     sc_bind (group_id e) (\<lambda>i w. Some (Inr (), clear_names e (w\<lparr>tag_of := clear_group i (tag_of w)\<rparr>)))"

text \<open>The text of the sheet, with the markers from which it is read back on the client.\<close>

definition group_text :: "sheet \<Rightarrow> nat \<Rightarrow> string" where
  "group_text w i =
     (case group_names w i of
        None \<Rightarrow> []
      | Some e \<Rightarrow>
          let s = get_group i (tag_of w) in
          (case names w e of
             None \<Rightarrow> []
           | Some ns \<Rightarrow>
               if s = [] then []
               else s @ ''data-styled.g'' @ digits i @ ''[id='' @ [CHR 0x22] @ e @ [CHR 0x22] @ '']{content:''
                 @ [CHR 0x22] @ concat (map (\<lambda>n. if n = [] then [] else n @ '','') ns) @ [CHR 0x22] @ ''}''
                 @ sc_mark))"

definition sheet_text :: "sheet \<Rightarrow> string" where
  "sheet_text w = concat (map (group_text w) [0..<group_length (tag_of w)])"

section \<open>Components\<close>

datatype component_style = Comp (component_id: string) (comp_rules: "rule list") (base_style: "component_style option")

fun comp_static :: "component_style \<Rightarrow> bool" where
  "comp_static (Comp i rs None) = is_static rs"
| "comp_static (Comp i rs (Some b)) = (comp_static b \<and> is_static rs)"

definition base_hash :: "string \<Rightarrow> 32 word" where
  "base_hash i = mi vi i"

text \<open>The preprocessor: rules for a text and a selector, and the hash of its plugins.\<close>

record stylis =
  process :: "string \<Rightarrow> string \<Rightarrow> string list"
  stylis_hash :: string

text \<open>\<open>Ri\<close>: the id of the keyframes, \<open>inject\<close> and \<open>getName\<close>.\<close>

definition keyframes_id :: "keyframes \<Rightarrow> string" where
  "keyframes_id k = ''sc-keyframes-'' @ kf_name k"

definition inject_keyframes :: "stylis \<Rightarrow> keyframes \<Rightarrow> string styled" where
  "inject_keyframes st k w =
     (let r = kf_name k @ stylis_hash st in
      if has_name_for_id (keyframes_id k) r w then Some (Inr r, w)
      else
        sc_bind (sheet_insert (keyframes_id k) r (process st (kf_rules k) r)) (\<lambda>_. sc_return r) w)"

primrec inject_pieces :: "stylis \<Rightarrow> piece list \<Rightarrow> string styled" where
  "inject_pieces st [] = sc_return []"
| "inject_pieces st (x # xs) =
     sc_bind (case x of Out s \<Rightarrow> sc_return s | Name k \<Rightarrow> inject_keyframes st k) (\<lambda>s.
       sc_bind (inject_pieces st xs) (\<lambda>t. sc_return (s @ t)))"

definition flatten_into :: "stylis \<Rightarrow> rule list \<Rightarrow> jsval \<Rightarrow> string styled" where
  "flatten_into st rs p = sc_bind (sc_lift (render rs p)) (inject_pieces st)"

text \<open>The rules of a dynamic style: text is copied, everything else is flattened and hashed.\<close>

fun dynamic_rules :: "stylis \<Rightarrow> jsval \<Rightarrow> nat \<Rightarrow> rule list \<Rightarrow> 32 word \<Rightarrow> string \<Rightarrow> (32 word \<times> string) styled" where
  "dynamic_rules st p n [] c u = sc_return (c, u)"
| "dynamic_rules st p n (Txt s # rs) c u = dynamic_rules st p (Suc n) rs c (u @ s)"
| "dynamic_rules st p n (r # rs) c u =
     sc_bind (flatten_into st [r] p) (\<lambda>h.
       dynamic_rules st p (Suc n) rs (mi c (h @ digits n)) (u @ h))"

definition insert_once :: "stylis \<Rightarrow> string \<Rightarrow> string \<Rightarrow> string \<Rightarrow> unit styled" where
  "insert_once st i name u w =
     (if has_name_for_id i name w then Some (Inr (), w)
      else sheet_insert i name (process st u (''.'' @ name)) w)"

definition fresh_static :: "stylis \<Rightarrow> string \<Rightarrow> rule list \<Rightarrow> jsval \<Rightarrow> string styled" where
  "fresh_static st i rs p =
     sc_bind (flatten_into st rs p) (\<lambda>u.
       let a = hash_name (mi_number (base_hash i) (length u)) in
       sc_bind (insert_once st i a u) (\<lambda>_ w.
         Some (Inr a, w\<lparr>static_names := (static_names w)(i \<mapsto> a)\<rparr>)))"

definition generate_static :: "stylis \<Rightarrow> string \<Rightarrow> rule list \<Rightarrow> jsval \<Rightarrow> string styled" where
  "generate_static st i rs p w =
     (case static_names w i of
        Some a \<Rightarrow> if has_name_for_id i a w then Some (Inr a, w) else fresh_static st i rs p w
      | None \<Rightarrow> fresh_static st i rs p w)"

definition generate_dynamic :: "stylis \<Rightarrow> string \<Rightarrow> rule list \<Rightarrow> jsval \<Rightarrow> string list styled" where
  "generate_dynamic st i rs p =
     sc_bind (dynamic_rules st p 0 rs (mi (base_hash i) (stylis_hash st)) []) (\<lambda>(c, u).
       if u = [] then sc_return []
       else let m = hash_name c in sc_bind (insert_once st i m u) (\<lambda>_. sc_return [m]))"

definition own_names :: "stylis \<Rightarrow> component_style \<Rightarrow> jsval \<Rightarrow> string list styled" where
  "own_names st cs p =
     (if comp_static cs \<and> stylis_hash st = [] then
        sc_bind (generate_static st (component_id cs) (comp_rules cs) p) (\<lambda>a. sc_return [a])
      else generate_dynamic st (component_id cs) (comp_rules cs) p)"

primrec join_space :: "string list \<Rightarrow> string" where
  "join_space [] = []"
| "join_space (x # xs) = (if xs = [] then x else x @ '' '' @ join_space xs)"

fun generate :: "stylis \<Rightarrow> component_style \<Rightarrow> jsval \<Rightarrow> string styled" where
  "generate st (Comp i rs None) p =
     sc_bind (own_names st (Comp i rs None) p) (\<lambda>ns. sc_return (join_space ns))"
| "generate st (Comp i rs (Some b)) p =
     sc_bind (generate st b p) (\<lambda>s.
       sc_bind (own_names st (Comp i rs (Some b)) p) (\<lambda>ns. sc_return (join_space (s # ns))))"

text \<open>Creating the style of a component registers its id.\<close>

definition new_component ::
  "string \<Rightarrow> rule list \<Rightarrow> component_style option \<Rightarrow> component_style styled" where
  "new_component i rs b = sc_bind (group_id i) (\<lambda>_. sc_return (Comp i rs b))"

section \<open>Invariant\<close>

text \<open>
  Ids and numbers are in bijection, numbers start at 1, the tag is a list of groups, and the name a
  static style is remembered by is the one its id determines.
\<close>

definition sheet_inv :: "sheet \<Rightarrow> bool" where
  "sheet_inv w \<longleftrightarrow>
     finite (dom (group_names w)) \<and>
     (\<forall>e i. group_ids w e = Some i \<longleftrightarrow> group_names w i = Some e) \<and>
     0 < next_group w \<and> (\<forall>i \<in> dom (group_names w). 0 < i) \<and>
     (\<exists>gs. holds_groups (tag_of w) gs \<and> 0 < length gs \<and> length gs < 2 ^ 31) \<and>
     (\<forall>i a. static_names w i = Some a \<longrightarrow> a = hash_name (base_hash i))"

lemma sheet_inv_new: "sheet_inv new_sheet"
  using holds_groups_new by (auto simp: sheet_inv_def new_sheet_def intro!: exI [of _ "replicate 512 []"])

text \<open>What rendering never takes back: registered names, group numbers and remembered static names.\<close>

definition extends :: "sheet \<Rightarrow> sheet \<Rightarrow> bool" where
  "extends w w' \<longleftrightarrow>
     (\<forall>e t. has_name_for_id e t w \<longrightarrow> has_name_for_id e t w') \<and>
     group_ids w \<subseteq>\<^sub>m group_ids w' \<and> static_names w \<subseteq>\<^sub>m static_names w'"

lemma extends_refl [simp]: "extends w w"
  by (simp add: extends_def)

lemma extends_trans: "extends u v \<Longrightarrow> extends v w \<Longrightarrow> extends u w"
  unfolding extends_def by (blast intro: map_le_trans)

text \<open>A computation that ends, keeps the invariant and takes nothing back.\<close>

definition runs :: "'a styled \<Rightarrow> bool" where
  "runs m \<longleftrightarrow> (\<forall>w. sheet_inv w \<longrightarrow> (\<exists>r w'. m w = Some (r, w') \<and> sheet_inv w' \<and> extends w w'))"

lemma runsD: "runs m \<Longrightarrow> sheet_inv w \<Longrightarrow> \<exists>r w'. m w = Some (r, w') \<and> sheet_inv w' \<and> extends w w'"
  by (simp add: runs_def)

lemma runs_result: "runs m \<Longrightarrow> sheet_inv w \<Longrightarrow> m w = Some (r, w') \<Longrightarrow> sheet_inv w' \<and> extends w w'"
  by (fastforce dest: runsD)

lemma runs_return [simp]: "runs (sc_return a)"
  by (simp add: runs_def sc_return_def)

lemma runs_lift [simp]: "runs (sc_lift r)"
  by (simp add: runs_def sc_lift_def)

lemma runs_bind:
  assumes "runs m" and "\<And>a. runs (f a)"
  shows "runs (sc_bind m f)"
  unfolding runs_def
proof (intro allI impI)
  fix w assume "sheet_inv w"
  then obtain r w1 where w1: "m w = Some (r, w1)" "sheet_inv w1" "extends w w1"
    using runsD [OF assms(1)] by blast
  show "\<exists>r w'. sc_bind m f w = Some (r, w') \<and> sheet_inv w' \<and> extends w w'"
  proof (cases r)
    case (Inr a)
    obtain r2 w2 where "f a w1 = Some (r2, w2)" "sheet_inv w2" "extends w1 w2"
      using runsD [OF assms(2) w1(2)] by blast
    with w1 Inr show ?thesis by (auto simp: sc_bind_def dest: extends_trans)
  qed (use w1 in \<open>simp add: sc_bind_def\<close>)
qed

lemma free_group_ex:
  assumes "sheet_inv w"
  shows "\<exists>q. free_group w = Some q \<and> group_names w q = None \<and> 0 < q"
proof -
  have fin: "finite (dom (group_names w))" using assms by (simp add: sheet_inv_def)
  have "\<exists>q. free_group w = Some q"
    unfolding free_group_def
  proof (rule measure_while_option_Some
      [where P = "\<lambda>_. True" and f = "\<lambda>q. card (dom (group_names w) \<inter> {q..})"], safe)
    fix q y assume "group_names w q = Some y"
    then have "dom (group_names w) \<inter> {q..} = insert q (dom (group_names w) \<inter> {Suc q..})"
      using not_less_eq_eq by (auto simp: le_Suc_eq)
    then show "card (dom (group_names w) \<inter> {Suc q..}) < card (dom (group_names w) \<inter> {q..})"
      using fin by simp
  qed
  then obtain q where q: "free_group w = Some q" by blast
  have "group_names w q = None"
    using while_option_stop [OF q [unfolded free_group_def]] by simp
  moreover have "0 < q"
    by (rule while_option_rule [OF _ q [unfolded free_group_def], where P = "\<lambda>q. 0 < q"])
      (use assms in \<open>auto simp: sheet_inv_def\<close>)
  ultimately show ?thesis using q by blast
qed

lemma group_id_runs: "runs (group_id e)"
  unfolding runs_def
proof (intro allI impI)
  fix w assume inv: "sheet_inv w"
  show "\<exists>r w'. group_id e w = Some (r, w') \<and> sheet_inv w' \<and> extends w w'"
  proof (cases "group_ids w e")
    case None
    obtain q where q: "free_group w = Some q" "group_names w q = None" "0 < q"
      using free_group_ex [OF inv] by blast
    let ?w = "w\<lparr>group_ids := (group_ids w)(e \<mapsto> q), group_names := (group_names w)(q \<mapsto> e),
        next_group := Suc q\<rparr>"
    have fresh: "group_names w i \<noteq> Some e" for i
      using inv None unfolding sheet_inv_def by (metis option.distinct(1))
    have "sheet_inv ?w"
      using inv q None fresh by (auto simp: sheet_inv_def)
    moreover have "extends w ?w"
      using None by (auto simp: extends_def has_name_for_id_def map_le_def)
    ultimately show ?thesis using q None by (simp add: group_id_def)
  qed (use inv in \<open>simp add: group_id_def\<close>)
qed

lemma has_add_name: "has_name_for_id d s (add_name e t w) \<longleftrightarrow> has_name_for_id d s w \<or> (d = e \<and> s = t)"
  by (auto simp: has_name_for_id_def add_name_def split: option.splits if_splits)

lemma add_name_runs: "runs (\<lambda>w. Some (Inr a, add_name e t w))"
proof -
  have "sheet_inv (add_name e t w)" if "sheet_inv w" for w
    using that by (simp add: sheet_inv_def add_name_def)
  moreover have "extends w (add_name e t w)" for w
    using has_add_name [of _ _ e t w] by (simp add: extends_def) (simp add: add_name_def)
  ultimately show ?thesis by (simp add: runs_def)
qed

lemma register_name_runs: "runs (register_name e t)"
  unfolding register_name_def by (intro runs_bind group_id_runs add_name_runs)

lemma into_group_runs: "runs (into_group i rules)"
  unfolding runs_def
proof (intro allI impI)
  fix w assume inv: "sheet_inv w"
  then obtain gs where gs: "holds_groups (tag_of w) gs" "0 < length gs" "length gs < 2 ^ 31"
    by (auto simp: sheet_inv_def)
  obtain r where r: "insert_rules i rules (tag_of w) = Some r"
    "\<And>g. r = Inr g \<Longrightarrow> \<exists>gs. holds_groups g gs \<and> 0 < length gs \<and> length gs < 2 ^ 31"
    using insert_rules_total [OF gs] by blast
  show "\<exists>r w'. into_group i rules w = Some (r, w') \<and> sheet_inv w' \<and> extends w w'"
  proof (cases r)
    case (Inr g)
    then have "sheet_inv (w\<lparr>tag_of := g\<rparr>)" using inv r(2) by (simp add: sheet_inv_def)
    moreover have "extends w (w\<lparr>tag_of := g\<rparr>)" by (simp add: extends_def has_name_for_id_def)
    ultimately show ?thesis using r(1) Inr by (simp add: into_group_def)
  qed (use r(1) inv in \<open>simp add: into_group_def\<close>)
qed

lemma sheet_insert_runs: "runs (sheet_insert e t rules)"
  unfolding sheet_insert_def
  by (intro runs_bind register_name_runs group_id_runs into_group_runs)

lemma runs_guard:
  "runs m \<Longrightarrow> (\<And>w. f w = (if c w then Some (Inr a, w) else m w)) \<Longrightarrow> runs f"
  by (simp add: runs_def)

lemma inject_keyframes_runs: "runs (inject_keyframes st k)"
  by (rule runs_guard [OF runs_bind [OF sheet_insert_runs runs_return]])
    (simp add: inject_keyframes_def Let_def)

lemma inject_pieces_runs: "runs (inject_pieces st ps)"
  by (induction ps) (auto intro!: runs_bind inject_keyframes_runs split: piece.splits)

lemma flatten_into_runs: "runs (flatten_into st rs p)"
  unfolding flatten_into_def by (intro runs_bind runs_lift inject_pieces_runs)

lemma dynamic_rules_runs: "runs (dynamic_rules st p n rs c u)"
  by (induction st p n rs c u rule: dynamic_rules.induct) (auto intro!: runs_bind flatten_into_runs)

lemma insert_once_runs: "runs (insert_once st i name u)"
  by (rule runs_guard [OF sheet_insert_runs]) (simp add: insert_once_def)

lemma remember_runs:
  "runs (\<lambda>w. Some (Inr a, w\<lparr>static_names := (static_names w)(i \<mapsto> hash_name (base_hash i))\<rparr>))"
proof -
  have "extends w (w\<lparr>static_names := (static_names w)(i \<mapsto> hash_name (base_hash i))\<rparr>)" if "sheet_inv w" for w
    using that by (auto simp: sheet_inv_def extends_def has_name_for_id_def map_le_def)
  moreover have "sheet_inv (w\<lparr>static_names := (static_names w)(i \<mapsto> hash_name (base_hash i))\<rparr>)"
    if "sheet_inv w" for w
    using that by (simp add: sheet_inv_def)
  ultimately show ?thesis by (simp add: runs_def)
qed

lemma fresh_static_runs: "runs (fresh_static st i rs p)"
  unfolding fresh_static_def Let_def mi_number_def
  by (intro runs_bind flatten_into_runs insert_once_runs remember_runs)

lemma generate_static_runs: "runs (generate_static st i rs p)"
  using fresh_static_runs [of st i rs p] unfolding runs_def generate_static_def
  by (auto split: option.split)

lemma generate_dynamic_runs: "runs (generate_dynamic st i rs p)"
  unfolding generate_dynamic_def
  by (auto intro!: runs_bind dynamic_rules_runs insert_once_runs simp: Let_def)

lemma own_names_runs: "runs (own_names st cs p)"
  unfolding own_names_def by (auto intro!: runs_bind generate_static_runs generate_dynamic_runs)

text \<open>Rendering a style always ends, and leaves a sheet that satisfies the invariant.\<close>

theorem generate_runs: "runs (generate st cs p)"
  by (induction st cs p rule: generate.induct) (auto intro!: runs_bind own_names_runs)

lemma new_component_runs: "runs (new_component i rs b)"
  unfolding new_component_def by (intro runs_bind group_id_runs runs_return)

lemma clear_rules_inv:
  assumes "sheet_inv w" and "clear_rules e w = Some (r, w')"
  shows "sheet_inv w'"
proof -
  obtain q w1 where w1: "group_id e w = Some (q, w1)" "sheet_inv w1"
    using runsD [OF group_id_runs assms(1)] by blast
  show ?thesis
  proof (cases q)
    case (Inr i)
    obtain gs where "holds_groups (tag_of w1) gs" "0 < length gs" "length gs < 2 ^ 31"
      using w1(2) by (auto simp: sheet_inv_def)
    then have "\<exists>gs. holds_groups (clear_group i (tag_of w1)) gs \<and> 0 < length gs \<and> length gs < 2 ^ 31"
      using clear_group_refines [of "tag_of w1" gs i] by (intro exI [of _ "gs[i := []]"]) simp
    moreover have "w' = clear_names e (w1\<lparr>tag_of := clear_group i (tag_of w1)\<rparr>)"
      using assms(2) w1(1) Inr by (simp add: clear_rules_def sc_bind_def)
    ultimately show ?thesis
      using w1(2) by (auto simp: sheet_inv_def clear_names_def split: option.splits)
  qed (use assms(2) w1 in \<open>simp add: clear_rules_def sc_bind_def\<close>)
qed

section \<open>Rendering again changes nothing\<close>

text \<open>
  \<open>settled m a w\<close>: in \<open>w\<close> and in every later sheet, \<open>m\<close> returns \<open>a\<close> and leaves the sheet as it is.
\<close>

definition settled :: "'a styled \<Rightarrow> 'a \<Rightarrow> sheet \<Rightarrow> bool" where
  "settled m a w \<longleftrightarrow> (\<forall>w'. sheet_inv w' \<longrightarrow> extends w w' \<longrightarrow> m w' = Some (Inr a, w'))"

definition settles :: "'a styled \<Rightarrow> bool" where
  "settles m \<longleftrightarrow> runs m \<and> (\<forall>w a w'. sheet_inv w \<longrightarrow> m w = Some (Inr a, w') \<longrightarrow> settled m a w')"

lemma settles_return [simp]: "settles (sc_return a)"
  by (simp add: settles_def settled_def) (simp add: sc_return_def)

lemma settles_lift [simp]: "settles (sc_lift r)"
  by (auto simp: settles_def settled_def) (simp add: sc_lift_def)

lemma settles_bind:
  assumes "settles m" and "\<And>a. settles (f a)"
  shows "settles (sc_bind m f)"
  unfolding settles_def
proof (intro conjI allI impI)
  show "runs (sc_bind m f)" using assms by (intro runs_bind) (simp_all add: settles_def)
  fix w b w2 assume inv: "sheet_inv w" and m: "sc_bind m f w = Some (Inr b, w2)"
  then obtain a w1 where 1: "m w = Some (Inr a, w1)" and 2: "f a w1 = Some (Inr b, w2)"
    by (auto simp: sc_bind_def split: option.splits sum.splits)
  have m: "runs m" and f: "runs (f a)" using assms by (simp_all add: settles_def)
  have inv1: "sheet_inv w1" using runs_result [OF m inv 1] by simp
  have ext: "extends w1 w2" using runs_result [OF f inv1 2] by simp
  have "settled m a w1" "settled (f a) b w2"
    using assms inv inv1 1 2 by (auto simp: settles_def)
  with ext show "settled (sc_bind m f) b w2"
    unfolding settled_def by (auto simp: sc_bind_def dest: extends_trans)
qed

lemma group_id_settles: "settles (group_id e)"
  unfolding settles_def settled_def
proof (intro conjI allI impI)
  show "runs (group_id e)" by (rule group_id_runs)
  fix w a w1 w2 assume "group_id e w = Some (Inr a, w1)" and "extends w1 w2"
  moreover then have "group_ids w1 e = Some a"
    by (auto simp: group_id_def split: option.splits)
  ultimately have "group_ids w2 e = Some a"
    unfolding extends_def map_le_def by (metis domI)
  then show "group_id e w2 = Some (Inr a, w2)" by (simp add: group_id_def)
qed

lemma sheet_insert_has_name:
  assumes "sheet_inv w" and "sheet_insert e t rules w = Some (Inr u, w')"
  shows "has_name_for_id e t w'"
proof -
  obtain w1 where 1: "register_name e t w = Some (Inr (), w1)"
    and 2: "sc_bind (group_id e) (\<lambda>i. into_group i rules) w1 = Some (Inr u, w')"
    using assms(2) by (auto simp: sheet_insert_def sc_bind_def [of "register_name e t"]
        split: option.splits sum.splits)
  have "sheet_inv w1" using runs_result [OF register_name_runs assms(1) 1] by simp
  then have "extends w1 w'"
    using runs_result [OF runs_bind [OF group_id_runs into_group_runs] _ 2] by simp
  moreover have "has_name_for_id e t w1"
    using 1 by (auto simp: register_name_def sc_bind_def has_add_name split: option.splits sum.splits)
  ultimately show ?thesis by (simp add: extends_def)
qed

lemma insert_once_settles: "settles (insert_once st i name u)"
  unfolding settles_def settled_def
proof (intro conjI allI impI)
  show "runs (insert_once st i name u)" by (rule insert_once_runs)
  fix w a w1 w2
  assume "sheet_inv w" "insert_once st i name u w = Some (Inr a, w1)" "extends w1 w2"
  moreover then have "has_name_for_id i name w1"
    by (auto simp: insert_once_def dest: sheet_insert_has_name split: if_splits)
  ultimately show "insert_once st i name u w2 = Some (Inr a, w2)"
    by (simp add: extends_def insert_once_def)
qed

lemma inject_keyframes_settles: "settles (inject_keyframes st k)"
  unfolding settles_def settled_def
proof (intro conjI allI impI)
  show "runs (inject_keyframes st k)" by (rule inject_keyframes_runs)
  let ?r = "kf_name k @ stylis_hash st"
  fix w a w1 w2
  assume inv: "sheet_inv w" and run: "inject_keyframes st k w = Some (Inr a, w1)" and ext: "extends w1 w2"
  have "a = ?r \<and> has_name_for_id (keyframes_id k) ?r w1"
  proof (cases "has_name_for_id (keyframes_id k) ?r w")
    case False
    then obtain u w' where "sheet_insert (keyframes_id k) ?r (process st (kf_rules k) ?r) w = Some (Inr u, w')"
      "w1 = w'" "a = ?r"
      using run by (auto simp: inject_keyframes_def Let_def sc_bind_def sc_return_def
          split: option.splits sum.splits)
    then show ?thesis using sheet_insert_has_name [OF inv] by blast
  qed (use run in \<open>simp add: inject_keyframes_def Let_def\<close>)
  with ext show "inject_keyframes st k w2 = Some (Inr a, w2)"
    by (simp add: extends_def inject_keyframes_def Let_def)
qed

lemma inject_pieces_settles: "settles (inject_pieces st ps)"
  by (induction ps) (auto intro!: settles_bind inject_keyframes_settles split: piece.splits)

lemma flatten_into_settles: "settles (flatten_into st rs p)"
  unfolding flatten_into_def by (intro settles_bind settles_lift inject_pieces_settles)

lemma dynamic_rules_settles: "settles (dynamic_rules st p n rs c u)"
  by (induction st p n rs c u rule: dynamic_rules.induct)
    (auto intro!: settles_bind flatten_into_settles)

lemma fresh_static_result:
  assumes "sheet_inv w" and "fresh_static st i rs p w = Some (Inr a, w')"
  shows "static_names w' i = Some a \<and> has_name_for_id i a w'"
proof -
  obtain u w1 where 1: "flatten_into st rs p w = Some (Inr u, w1)"
    and 2: "sc_bind (insert_once st i (hash_name (base_hash i)) u) (\<lambda>_ w.
      Some (Inr (hash_name (base_hash i)), w\<lparr>static_names := (static_names w)(i \<mapsto> hash_name (base_hash i))\<rparr>)) w1 =
      Some (Inr a, w')"
    using assms(2) by (auto simp: fresh_static_def Let_def mi_number_def sc_bind_def [of "flatten_into st rs p"]
        split: option.splits sum.splits)
  have inv1: "sheet_inv w1" using runs_result [OF flatten_into_runs assms(1) 1] by simp
  obtain w2 where w2: "insert_once st i (hash_name (base_hash i)) u w1 = Some (Inr (), w2)"
    "a = hash_name (base_hash i)" "w' = w2\<lparr>static_names := (static_names w2)(i \<mapsto> a)\<rparr>"
    using 2 by (auto simp: sc_bind_def split: option.splits sum.splits)
  have "has_name_for_id i a w2"
    using w2(1, 2) inv1 by (auto simp: insert_once_def dest: sheet_insert_has_name split: if_splits)
  then show ?thesis using w2(3) by (simp add: has_name_for_id_def)
qed

lemma generate_static_settles: "settles (generate_static st i rs p)"
  unfolding settles_def settled_def
proof (intro conjI allI impI)
  show "runs (generate_static st i rs p)" by (rule generate_static_runs)
  fix w a w1 w2
  assume inv: "sheet_inv w" and run: "generate_static st i rs p w = Some (Inr a, w1)" and ext: "extends w1 w2"
  have known: "static_names w1 i = Some a \<and> has_name_for_id i a w1"
  proof (cases "\<exists>b. static_names w i = Some b \<and> has_name_for_id i b w")
    case True
    then show ?thesis using run by (auto simp: generate_static_def)
  next
    case False
    then have "fresh_static st i rs p w = Some (Inr a, w1)"
      using run by (simp add: generate_static_def split: option.splits if_splits)
    then show ?thesis by (rule fresh_static_result [OF inv])
  qed
  then have "static_names w2 i = Some a"
    using ext unfolding extends_def map_le_def by (metis domI)
  moreover have "has_name_for_id i a w2" using known ext by (simp add: extends_def)
  ultimately have "static_names w2 i = Some a \<and> has_name_for_id i a w2" by blast
  then show "generate_static st i rs p w2 = Some (Inr a, w2)" by (simp add: generate_static_def)
qed

lemma insert_return_settles: "settles (sc_bind (insert_once st i name u) (\<lambda>_. sc_return a))"
  by (rule settles_bind, rule insert_once_settles, rule settles_return)

lemma generate_dynamic_settles: "settles (generate_dynamic st i rs p)"
  unfolding generate_dynamic_def
  by (rule settles_bind [OF dynamic_rules_settles])
    (simp add: Let_def insert_return_settles split: prod.split)

lemma own_names_settles: "settles (own_names st cs p)"
proof (cases "comp_static cs \<and> stylis_hash st = []")
  case True
  show ?thesis
    unfolding own_names_def if_P [OF True]
    by (rule settles_bind, rule generate_static_settles, rule settles_return)
next
  case False
  show ?thesis
    unfolding own_names_def if_not_P [OF False] by (rule generate_dynamic_settles)
qed

lemma generate_settles: "settles (generate st cs p)"
proof (induction st cs p rule: generate.induct)
  case (1 st i rs p)
  show ?case
    unfolding generate.simps by (rule settles_bind, rule own_names_settles, rule settles_return)
next
  case (2 st i rs b p)
  show ?case
    unfolding generate.simps
    by (rule settles_bind, rule 2, rule settles_bind, rule own_names_settles, rule settles_return)
qed

theorem generate_again:
  assumes "sheet_inv w" and "generate st cs p w = Some (Inr s, w')"
  shows "generate st cs p w' = Some (Inr s, w')"
proof -
  have "sheet_inv w'" using runs_result [OF generate_runs assms] by simp
  moreover have "settled (generate st cs p) s w'"
    using generate_settles [of st cs p] assms unfolding settles_def by blast
  ultimately show ?thesis using extends_refl unfolding settled_def by blast
qed

end
