(* ===== verification/Viewer_Properties.thy ===== *)
theory Viewer_Properties
  imports Style_Catalogue Styled_Sheet
begin

text \<open>
  Properties of the viewer's styles, of the style sheet they are inserted into and of the theme they
  read, each with an instance: a viewer whose colour functions return the colour they are given.
\<close>

section \<open>An instance\<close>

definition ex_viewer :: viewer where
  "ex_viewer =
     \<lparr>colour = no_braces, darken = (\<lambda>c v. Inr v), lighten = (\<lambda>c v. Inr v),
      transparentize = (\<lambda>c v. Inr v), desaturate = (\<lambda>c v. Inr v), readable_colour = Inr,
      luminance = (\<lambda>_. Inr (JNum (Dec 3 1))), extensions_hook = None, class_id = (\<lambda>_. ''sc'')\<rparr>"

lemma ex_viewer_ok: "viewer_ok ex_viewer"
  by (simp add: viewer_ok_def colour_ok_def ex_viewer_def)

lemma ex_palette_ok: "palette_ok ex_viewer"
  by (simp add: palette_ok_def colour_ok_def ex_viewer_def)

definition ex_theme :: jsval where
  "ex_theme = JObj (default_values ex_viewer @ [(''extensionsHook'', JUndef)])"

definition ex_props :: jsval where
  "ex_props =
     JObj [(''theme'', ex_theme), (''depth'', JNum (Dec 1 0)), (''type'', JStr ''success'')]"

lemma ex_options_theme: "options_theme ex_viewer [] JUndef = Some (Inr ex_theme)"
  using default_theme_resolves [OF ex_viewer_ok ex_palette_ok] by (simp add: ex_theme_def)

lemma ex_props_theme: "js_get ex_props ''theme'' = Inr ex_theme"
  by (simp add: ex_props_def)

lemma ex_themed: "themed ex_viewer ex_props"
  using default_props_themed [OF ex_viewer_ok ex_palette_ok ex_options_theme ex_props_theme] .

section \<open>Styles\<close>



text \<open>
  Without a theme of the embedding page the theme of the viewer is computed, and it has all the
  entries the styles read: every style that needs only the theme renders to a balanced text with it.
\<close>

theorem default_theme_suffices:
  assumes "viewer_ok V" "palette_ok V"
  shows "\<exists>t. options_theme V [] hook = Some (Inr t) \<and>
    (\<forall>p rs. js_get p ''theme'' = Inr t \<longrightarrow> rs \<in> set (viewer_styles V) \<longrightarrow>
      (\<exists>s. css_text rs p = Inr s \<and> balanced s))"
proof -
  let ?t = "JObj (default_values V @ [(''extensionsHook'', hook)])"
  have resolved: "options_theme V [] hook = Some (Inr ?t)" using assms by (rule default_theme_resolves)
  have "\<exists>s. css_text rs p = Inr s \<and> balanced s"
    if "js_get p ''theme'' = Inr ?t" "rs \<in> set (viewer_styles V)" for p rs
    using viewer_styles_render [OF default_props_themed [OF assms resolved that(1)] assms(1)] that(2)
    by (simp add: list_all_iff renders_balanced)
  with resolved show ?thesis by blast
qed

theorem default_theme_suffices_witness:
  "\<exists>s. css_text va_css ex_props = Inr s \<and> balanced s"
proof -
  have "va_css \<in> set (viewer_styles ex_viewer)" by (simp add: viewer_styles_def page_styles_def)
  then show ?thesis
    using default_theme_suffices [OF ex_viewer_ok ex_palette_ok, of JUndef] ex_props_theme
    by (auto simp: ex_options_theme)
qed

text \<open>
  Four styles close a block that they did not open, with every theme: the text they render to has
  a closing brace without an opening one.
\<close>

theorem stray_braces:
  assumes "themed V p" "viewer_ok V" "rs \<in> set (stray_styles V)"
  shows "\<exists>s. css_text rs p = Inr s \<and> scan s 0 = None \<and> \<not> balanced s"
  using stray_styles_stray [OF assms(1, 2)] assms(3)
  by (auto simp: list_all_iff stray_def balanced_def)

theorem stray_braces_witness:
  "\<exists>s. css_text tp_css ex_props = Inr s \<and> \<not> balanced s"
  using stray_braces [OF ex_themed ex_viewer_ok, of tp_css] by (auto simp: stray_styles_def)

text \<open>
  A tagged template renders to the text that its strings and values, taken one after another,
  render to: leaving out the empty pieces and resolving the static values when the template is
  evaluated changes nothing, errors included.
\<close>

theorem template_text:
  "css_text (css ps) p = css_text (map part_rule ps) p"
  by (rule css_text_css)

section \<open>Class names\<close>

text \<open>
  Two hashes have the same class name only if they are equal, with one exception: 0 and 52 are
  both written as the single letter a.
\<close>

theorem class_names_distinct:
  "hi e = hi f \<longleftrightarrow> e = f \<or> {e, f} = {0, 52}"
  using hi_inj [of e f] hi_collision by (auto simp: doubleton_eq_iff)

text \<open>
  A class name consists of letters and hyphens only, and never contains the letters of "ad" in a
  row, which content blockers look for.
\<close>

theorem class_names_safe:
  "list_all name_char (hi e) \<and> \<not> has_ad (hi e)"
  by (simp add: list_all_iff hi_chars hi_no_ad)

section \<open>The style sheet\<close>

text \<open>
  C32: The tag refines a list of groups of rules: inserting rules for a group number below 2 to the
  power of 30 succeeds, puts them behind the rules of that group, adds empty groups up to it where it
  is new, and changes the text of no other group.
\<close>

theorem rules_inserted:
  assumes "holds_groups g gs" "0 < length gs" "length gs < 2 ^ 31" "e < 2 ^ 30"
  shows "\<exists>h k. insert_rules e ts g = Some (Inr h) \<and> e < length gs + k \<and>
    holds_groups h ((gs @ replicate k [])[e := (gs @ replicate k []) ! e @ ts]) \<and>
    (\<forall>d. d \<noteq> e \<longrightarrow> get_group d h = get_group d g)"
proof -
  obtain h k where h: "insert_rules e ts g = Some (Inr h)" "e < length gs + k"
    and holds: "holds_groups h ((gs @ replicate k [])[e := (gs @ replicate k []) ! e @ ts])"
    using insert_rules_refines [OF assms] by blast
  have "get_group d h = get_group d g" if "d \<noteq> e" for d
    using that by (simp add: get_group_refines [OF holds] get_group_refines [OF assms(1)] nth_append)
  with h holds show ?thesis by blast
qed

theorem rules_inserted_witness:
  "\<exists>h. insert_rules 600 [''a{}''] new_group_tag = Some (Inr h) \<and> get_group 1 h = []"
proof -
  have "(0::nat) < length (replicate 512 ([] :: string list))"
    "length (replicate 512 ([] :: string list)) < 2 ^ 31" "(600::nat) < 2 ^ 30" by simp_all
  from rules_inserted [OF holds_groups_new this] obtain h where
    h: "insert_rules 600 [''a{}''] new_group_tag = Some (Inr h)"
    "\<forall>d. d \<noteq> 600 \<longrightarrow> get_group d h = get_group d new_group_tag" by blast
  have "get_group 1 new_group_tag = []"
    using get_group_refines [OF holds_groups_new, of 1] by simp
  with h(2) have "get_group 1 h = []" by simp
  with h(1) show ?thesis by blast
qed

text \<open>
  Clearing a group empties that group and no other; its text is empty afterwards, and the texts of
  all other groups are as before.
\<close>

theorem group_cleared:
  assumes "holds_groups g gs"
  shows "holds_groups (clear_group e g) (gs[e := []]) \<and> get_group e (clear_group e g) = [] \<and>
    (\<forall>d. d \<noteq> e \<longrightarrow> get_group d (clear_group e g) = get_group d g)"
  using clear_group_refines [OF assms, of e] get_group_refines [OF clear_group_refines [OF assms, of e]]
    get_group_refines [OF assms]
  by simp

theorem group_cleared_witness:
  "get_group 3 (clear_group 3 new_group_tag) = []"
  using group_cleared [OF holds_groups_new, of 3] by simp

text \<open>
  Growing the array of group sizes ends: either with a capacity that holds the group, is at most
  twice the group number when it changed and is below 2 to the power of 31, or with the error 16,
  which happens only for group numbers of at least 2 to the power of 30.
\<close>

theorem capacity_grows:
  assumes "0 < n" "n < 2 ^ 31"
  shows "(\<exists>m. grow e n = Some (Inr m) \<and> e < m \<and> n \<le> m \<and> m < 2 ^ 31 \<and> (m = n \<or> m \<le> 2 * e)) \<or>
    grow e n = Some (Inl (StyledError 16)) \<and> 2 ^ 30 \<le> e"
  using assms by (rule grow_cases)

theorem capacity_grows_witness:
  "\<exists>m. grow 1000 512 = Some (Inr m) \<and> 1000 < m \<and> m \<le> 2000"
  using capacity_grows [of 512 1000] by auto

text \<open>
  Putting the style of a component into the sheet always ends. It keeps the invariant of the
  sheet, also when a value of the style throws, and takes back no class name, group number or static
  name that was there.
\<close>

theorem styles_inserted:
  assumes "sheet_inv w"
  shows "\<exists>r w'. generate st cs p w = Some (r, w') \<and> sheet_inv w' \<and> extends w w'"
  using runsD [OF generate_runs assms] .

definition ex_stylis :: stylis where
  "ex_stylis = \<lparr>process = (\<lambda>css selector. [selector @ ''{'' @ css @ ''}'']), stylis_hash = []\<rparr>"

theorem styles_inserted_witness:
  "\<exists>r w'. generate ex_stylis (Comp ''sc-a'' va_css None) ex_props new_sheet = Some (r, w') \<and> sheet_inv w'"
  using styles_inserted [OF sheet_inv_new] by blast

text \<open>
  C31: Rendering a component again with the same props returns the same class names and leaves the
  sheet as it is: no rule is inserted twice.
\<close>

theorem rendering_again:
  assumes "sheet_inv w" "generate st cs p w = Some (Inr s, w')"
  shows "generate st cs p w' = Some (Inr s, w')"
  using assms by (rule generate_again)

theorem rendering_again_witness:
  "\<exists>s w. generate ex_stylis (Comp ''sc-a'' [Txt ''color: red''] None) JUndef new_sheet = Some (Inr s, w) \<and>
    generate ex_stylis (Comp ''sc-a'' [Txt ''color: red''] None) JUndef w = Some (Inr s, w)"
proof -
  let ?n = "hash_name (base_hash ''sc-a'')"
  have new: "group_ids new_sheet i = None" "names new_sheet i = None" "static_names new_sheet i = None"
    "tag_of new_sheet = new_group_tag" for i by (simp_all add: new_sheet_def)
  have "free_group new_sheet = Some 1"
    by (simp add: free_group_def new_sheet_def while_option_unfold)
  moreover have "(0::nat) < length (replicate 512 ([] :: string list))"
    "length (replicate 512 ([] :: string list)) < 2 ^ 31" "(1::nat) < 2 ^ 30" by simp_all
  from insert_rules_refines [OF holds_groups_new this] obtain h where
    "insert_rules 1 [''.'' @ ?n @ ''{color: red}''] new_group_tag = Some (Inr h)" by blast
  ultimately have "\<exists>w. generate ex_stylis (Comp ''sc-a'' [Txt ''color: red''] None) JUndef new_sheet = Some (Inr ?n, w)"
    by (simp add: own_names_def is_static_def ex_stylis_def generate_static_def fresh_static_def
        flatten_into_def insert_once_def sheet_insert_def register_name_def group_id_def into_group_def
        sc_bind_def sc_return_def sc_lift_def has_name_for_id_def add_name_def mi_number_def Let_def new)
  then obtain w where w: "generate ex_stylis (Comp ''sc-a'' [Txt ''color: red''] None) JUndef new_sheet = Some (Inr ?n, w)"
    by blast
  from rendering_again [OF sheet_inv_new this] w show ?thesis by blast
qed

section \<open>The theme\<close>

text \<open>
  C33: Resolving a theme always ends, with a theme or an exception, however its functions read one
  another: the count of calls stops every circle, and the fuel of the model is never used up.
\<close>

theorem theme_resolution_ends:
  "\<exists>r. resolve_theme th = Some r"
  by (rule resolve_theme_ends)

text \<open>
  A theme in which some functions read one another in a circle is not resolved: an exception is
  thrown, whatever else is in the theme.
\<close>

theorem circular_theme_refused:
  assumes "plain_keys (Node th)" "c \<in> C"
    and "\<And>p. p \<in> C \<Longrightarrow> \<exists>q \<in> C. \<exists>k. follow [] p (Node th) = Call p (Read q k) []"
  shows "\<exists>e. resolve_theme th = Some (Inl e)"
  using assms by (rule circular_theme_fails)

definition ex_circular :: theme where
  "ex_circular =
     [(''a'', Node [(''x'', Getter (Read [''b''] (\<lambda>v. Done (Inr v))))]),
      (''b'', Getter (Read [''a'', ''x''] (\<lambda>v. Done (Inr v))))]"

theorem circular_theme_refused_witness:
  "\<exists>e. resolve_theme ex_circular = Some (Inl e)"
proof (rule circular_theme_refused)
  show "plain_keys (Node ex_circular)" by (simp add: ex_circular_def plain_key_def)
  show "[''b''] \<in> {[''b''], [''a'', ''x'']}" by simp
qed (auto simp: ex_circular_def)

text \<open>
  The cache of the resolver does not show: if evaluating every function whenever it is read, with
  nothing remembered, gives every entry a value in at most as many calls as are allowed, resolving
  the theme gives just those values.
\<close>

theorem theme_cache_invisible:
  assumes "plain_keys (Node th)" "scan_theme th = Inr u"
    and "plain_json (plain_read (max_calls + 1) th) [] th = Some (Inr kvs, n)" "n \<le> max_calls"
  shows "resolve_theme th = Some (Inr (JObj kvs))"
  using assms by (rule resolve_theme_plain)

definition ex_small_theme :: theme where
  "ex_small_theme =
     [(''unit'', Leaf (JNum (Dec 5 0))), (''twice'', Getter (Read [''unit''] (\<lambda>v. Done (js_times (Dec 2 0) v))))]"

theorem theme_cache_invisible_witness:
  "resolve_theme ex_small_theme = Some (Inr (JObj [(''unit'', JNum (Dec 5 0)), (''twice'', JNum (Dec 10 0))]))"
proof (rule theme_cache_invisible)
  show "plain_keys (Node ex_small_theme)" by (simp add: ex_small_theme_def plain_key_def)
  show "scan_theme ex_small_theme = Inr ()" by (simp add: ex_small_theme_def)
  have fuel: "max_calls + 1 = Suc (Suc 999)" by (simp add: max_calls_def)
  have "plain_read (Suc (Suc k)) ex_small_theme [''unit''] = Some (Inr (JNum (Dec 5 0)), 0)"
    "plain_read (Suc (Suc k)) ex_small_theme [''twice''] = Some (Inr (JNum (Dec 10 0)), 1)" for k
    by (simp_all add: ex_small_theme_def plain_read_unfold)
  from this [of 999] show "plain_json (plain_read (max_calls + 1) ex_small_theme) [] ex_small_theme =
      Some (Inr [(''unit'', JNum (Dec 5 0)), (''twice'', JNum (Dec 10 0))], 1)"
    unfolding fuel by (subst (2) ex_small_theme_def) simp
qed (simp add: max_calls_def)

end
