(* ===== verification/Uri.thy ===== *)
theory Uri
  imports Styled_Rules
begin

text \<open>
  \<open>encodeURI\<close> and \<open>decodeURIComponent\<close> on the UTF-8 bytes of a text. Decoding throws if an escape is
  malformed or if the escaped bytes are no valid UTF-8.
\<close>

definition uri_char :: "char \<Rightarrow> bool" where
  "uri_char c \<longleftrightarrow> is_digit c \<or> is_upper c \<or> (97 \<le> (of_char c :: nat) \<and> (of_char c :: nat) \<le> 122) \<or>
     c \<in> set '';,/?:@&=+$-_.!~*()#'' \<or> c = CHR 0x27"

definition hex_digit :: "nat \<Rightarrow> char" where
  "hex_digit n = (if n < 10 then char_of (48 + n) else char_of (55 + n))"

definition encode_char :: "char \<Rightarrow> string" where
  "encode_char c =
     (if uri_char c then [c] else [CHR ''%'', hex_digit (of_char c div 16), hex_digit (of_char c mod 16)])"

definition encodeURI :: "string \<Rightarrow> string" where
  "encodeURI s = concat (map encode_char s)"

definition hex_value :: "char \<Rightarrow> nat option" where
  "hex_value c =
     (let n = (of_char c :: nat) in
      if 48 \<le> n \<and> n \<le> 57 then Some (n - 48)
      else if 65 \<le> n \<and> n \<le> 70 then Some (n - 55)
      else if 97 \<le> n \<and> n \<le> 102 then Some (n - 87)
      else None)"

text \<open>The byte of an escape, without its percent sign.\<close>

fun escaped_byte :: "string \<Rightarrow> (nat \<times> string) option" where
  "escaped_byte (a # b # s) =
     (case (hex_value a, hex_value b) of (Some x, Some y) \<Rightarrow> Some (16 * x + y, s) | _ \<Rightarrow> None)"
| "escaped_byte s = None"

text \<open>\<open>k\<close> further bytes of a character, each one escaped.\<close>

fun continuation :: "nat \<Rightarrow> string \<Rightarrow> (nat list \<times> string) option" where
  "continuation 0 s = Some ([], s)"
| "continuation (Suc k) (c # s) =
     (if c \<noteq> CHR ''%'' then None
      else (case escaped_byte s of
          None \<Rightarrow> None
        | Some (b, r) \<Rightarrow>
            if b < 128 \<or> 191 < b then None
            else map_option (\<lambda>(bs, r'). (b # bs, r')) (continuation k r)))"
| "continuation (Suc k) [] = None"

definition code_point :: "nat \<Rightarrow> nat list \<Rightarrow> nat" where
  "code_point lead bs =
     foldl (\<lambda>n b. n * 64 + b mod 64) (lead mod (case length bs of 0 \<Rightarrow> 128 | Suc 0 \<Rightarrow> 32 | Suc (Suc 0) \<Rightarrow> 16 | _ \<Rightarrow> 8)) bs"

definition further_bytes :: "nat \<Rightarrow> nat option" where
  "further_bytes b =
     (if b < 128 then Some 0 else if b < 192 then None else if b < 224 then Some 1
      else if b < 240 then Some 2 else if b < 248 then Some 3 else None)"

definition valid_code_point :: "nat \<Rightarrow> nat \<Rightarrow> bool" where
  "valid_code_point k n \<longleftrightarrow>
     (k = 0 \<or> k = 1 \<and> 128 \<le> n \<or> k = 2 \<and> 2048 \<le> n \<and> (n < 55296 \<or> 57343 < n) \<or> k = 3 \<and> 65536 \<le> n \<and> n \<le> 1114111)"

lemma escaped_byte_shorter: "escaped_byte s = Some (b, r) \<Longrightarrow> length r < length s"
  by (induction s rule: escaped_byte.induct) (auto split: option.splits)

lemma continuation_shorter: "continuation k s = Some (bs, r) \<Longrightarrow> length r \<le> length s"
  by (induction k s arbitrary: bs r rule: continuation.induct)
    (fastforce split: if_splits option.splits dest: escaped_byte_shorter)+

function decodeURIComponent :: "string \<Rightarrow> string option" where
  "decodeURIComponent [] = Some []"
| "decodeURIComponent (c # s) =
     (if c \<noteq> CHR ''%'' then map_option ((#) c) (decodeURIComponent s)
      else (case escaped_byte s of
          None \<Rightarrow> None
        | Some (b, r) \<Rightarrow>
            (case further_bytes b of
               None \<Rightarrow> None
             | Some k \<Rightarrow>
                 (case continuation k r of
                    None \<Rightarrow> None
                  | Some (bs, r') \<Rightarrow>
                      if valid_code_point k (code_point b bs)
                      then map_option ((@) (map char_of (b # bs))) (decodeURIComponent r')
                      else None))))"
  by pat_completeness auto
termination
  by (relation "measure length") (auto dest!: escaped_byte_shorter continuation_shorter)

section \<open>What was encoded is decoded again\<close>

definition ascii :: "string \<Rightarrow> bool" where
  "ascii s \<longleftrightarrow> (\<forall>c \<in> set s. (of_char c :: nat) < 128)"

lemma hex_value_digit: "n < 16 \<Longrightarrow> hex_value (hex_digit n) = Some n"
  by (auto simp: hex_value_def hex_digit_def Let_def of_char_of)

lemma percent_not_uri_char: "\<not> uri_char CHR ''%''"
  by (simp add: uri_char_def is_digit_def is_upper_def)

lemma decode_char:
  assumes "(of_char c :: nat) < 128"
  shows "decodeURIComponent (encode_char c @ s) = map_option ((#) c) (decodeURIComponent s)"
proof (cases "uri_char c")
  case True
  then have "c \<noteq> CHR ''%''" using percent_not_uri_char by auto
  with True show ?thesis by (simp add: encode_char_def)
next
  case False
  have "escaped_byte (hex_digit (of_char c div 16) # hex_digit (of_char c mod 16) # s) = Some (of_char c, s)"
    using assms by (simp add: hex_value_digit)
  then show ?thesis
    using False assms
    by (simp add: encode_char_def further_bytes_def valid_code_point_def append_Cons [abs_def])
qed

lemma decode_encode: "ascii s \<Longrightarrow> decodeURIComponent (encodeURI s) = Some s"
proof (induction s)
  case (Cons c s)
  then have "(of_char c :: nat) < 128" "ascii s" by (simp_all add: ascii_def)
  then show ?case using Cons.IH decode_char [of c "encodeURI s"] by (simp add: encodeURI_def)
qed (simp add: encodeURI_def)

end
