(* ===== verification/Menu_Store.thy ===== *)
theory Menu_Store
  imports Uri
begin

text \<open>
  The side menu of the viewer (\<open>yf\<close>, with the items \<open>tf\<close> and \<open>_u\<close>): which item is active, which items
  are expanded, and how a click, scrolling and a change of the location's hash move the active item.

  Items are objects that refer to their parent and to their items; they are kept in a list, and an
  object is its position there. What the code asks of the page (whether an item has an element, and
  whether that is above or below the edge of the window) is a parameter. What it tells the history and
  the page to do is recorded in the order of the calls, the last one first.
\<close>

section \<open>Items\<close>

datatype item_type = Group | Tag | Section | Operation

record menu_item =
  mi_id :: string
  mi_type :: item_type
  mi_name :: string
  mi_depth :: int
  mi_parent :: "nat option"
  mi_items :: "nat list"
  mi_active :: bool
  mi_expanded :: bool
  mi_absoluteIdx :: nat

type_synonym items = "menu_item list"

definition set_active :: "bool \<Rightarrow> nat \<Rightarrow> items \<Rightarrow> items" where
  "set_active b i its = its[i := (its ! i)\<lparr>mi_active := b\<rparr>]"

definition set_expanded :: "bool \<Rightarrow> nat \<Rightarrow> items \<Rightarrow> items" where
  "set_expanded b i its = its[i := (its ! i)\<lparr>mi_expanded := b\<rparr>]"

text \<open>\<open>expand\<close>: an operation only expands its parent, any other item its parent and then itself.\<close>

partial_function (option) expand :: "nat \<Rightarrow> items \<Rightarrow> items option" where
  "expand i its =
     Option.bind (case mi_parent (its ! i) of None \<Rightarrow> Some its | Some p \<Rightarrow> expand p its)
       (\<lambda>its'. Some (if mi_type (its ! i) = Operation then its' else set_expanded True i its'))"

text \<open>\<open>collapse\<close>: operations and groups do not collapse.\<close>

definition collapse :: "nat \<Rightarrow> items \<Rightarrow> items" where
  "collapse i its = (if mi_type (its ! i) \<in> {Group, Operation} then its else set_expanded False i its)"

text \<open>\<open>for (; void 0 !== e;) e.collapse(), e = e.parent\<close>\<close>

partial_function (option) collapse_up :: "nat option \<Rightarrow> items \<Rightarrow> items option" where
  "collapse_up e its =
     (case e of None \<Rightarrow> Some its | Some i \<Rightarrow> collapse_up (mi_parent (its ! i)) (collapse i its))"

section \<open>The store\<close>

record menu_store =
  ms_objects :: items
  ms_items :: "nat list"
  ms_flatItems :: "nat list"
  ms_activeItemIdx :: int
  ms_sideBarOpened :: bool
  ms_replaced :: "(string \<times> bool) list"
  ms_scrolled :: "string list"

record page =
  pg_has :: "string \<Rightarrow> bool"
  pg_below :: "string \<Rightarrow> bool"
  pg_above :: "string \<Rightarrow> bool"
  pg_head :: "string list"

definition toggleSidebar :: "menu_store \<Rightarrow> menu_store" where
  "toggleSidebar s = s\<lparr>ms_sideBarOpened := \<not> ms_sideBarOpened s\<rparr>"

definition closeSidebar :: "menu_store \<Rightarrow> menu_store" where
  "closeSidebar s = s\<lparr>ms_sideBarOpened := False\<rparr>"

definition flat_at :: "int \<Rightarrow> menu_store \<Rightarrow> nat option" where
  "flat_at n s =
     (if 0 \<le> n \<and> n < int (length (ms_flatItems s)) then Some (ms_flatItems s ! nat n) else None)"

definition activeItem :: "menu_store \<Rightarrow> nat option" where
  "activeItem s = flat_at (ms_activeItemIdx s) s"

definition item_id :: "menu_store \<Rightarrow> nat \<Rightarrow> string" where
  "item_id s i = mi_id (ms_objects s ! i)"

definition getItemById :: "string \<Rightarrow> menu_store \<Rightarrow> nat option" where
  "getItemById x s = List.find (\<lambda>i. item_id s i = x) (ms_flatItems s)"

text \<open>The elements are found by the id of the item, which the selector escapes (\<open>oo\<close>).\<close>

definition getElementAt :: "page \<Rightarrow> int \<Rightarrow> menu_store \<Rightarrow> string option" where
  "getElementAt pg n s =
     (case flat_at n s of None \<Rightarrow> None | Some i \<Rightarrow> if pg_has pg (item_id s i) then Some (item_id s i) else None)"

definition first_child :: "menu_store \<Rightarrow> nat \<Rightarrow> nat option" where
  "first_child s i =
     (if mi_type (ms_objects s ! i) = Group then (case mi_items (ms_objects s ! i) of [] \<Rightarrow> None | c # _ \<Rightarrow> Some c)
      else Some i)"

definition getElementAtOrFirstChild :: "page \<Rightarrow> int \<Rightarrow> menu_store \<Rightarrow> string option" where
  "getElementAtOrFirstChild pg n s =
     (case Option.bind (flat_at n s) (first_child s) of
        None \<Rightarrow> None
      | Some i \<Rightarrow> if pg_has pg (item_id s i) then Some (item_id s i) else None)"

definition replace_hash :: "string \<Rightarrow> bool \<Rightarrow> menu_store \<Rightarrow> menu_store" where
  "replace_hash x b s = s\<lparr>ms_replaced := (x, b) # ms_replaced s\<rparr>"

definition deactivate :: "nat option \<Rightarrow> menu_store \<Rightarrow> menu_store option" where
  "deactivate e s =
     (case e of
        None \<Rightarrow> Some s
      | Some i \<Rightarrow>
          map_option (\<lambda>its. s\<lparr>ms_objects := its\<rparr>) (collapse_up (Some i) (set_active False i (ms_objects s))))"

definition activate :: "nat option \<Rightarrow> bool \<Rightarrow> bool \<Rightarrow> menu_store \<Rightarrow> menu_store option" where
  "activate e updateLocation rewriteHistory s =
     (if map_option (item_id s) (activeItem s) \<noteq> map_option (item_id s) e \<and>
         (case e of None \<Rightarrow> True | Some i \<Rightarrow> mi_type (ms_objects s ! i) \<noteq> Group)
      then Option.bind (deactivate (activeItem s) s) (\<lambda>s1.
        case e of
          None \<Rightarrow> Some (replace_hash [] rewriteHistory (s1\<lparr>ms_activeItemIdx := -1\<rparr>))
        | Some i \<Rightarrow>
            if mi_depth (ms_objects s1 ! i) \<le> 0 then Some s1
            else
              (let s2 = s1\<lparr>ms_activeItemIdx := int (mi_absoluteIdx (ms_objects s1 ! i))\<rparr>;
                   s3 = (if updateLocation then replace_hash (encodeURI (item_id s2 i)) rewriteHistory s2 else s2)
               in map_option (\<lambda>its. s3\<lparr>ms_objects := its\<rparr>) (expand i (set_active True i (ms_objects s3)))))
      else Some s)"

definition scrollToActive :: "page \<Rightarrow> menu_store \<Rightarrow> menu_store" where
  "scrollToActive pg s =
     (case getElementAt pg (ms_activeItemIdx s) s of
        None \<Rightarrow> s
      | Some x \<Rightarrow> s\<lparr>ms_scrolled := x # ms_scrolled s\<rparr>)"

definition activateAndScroll :: "page \<Rightarrow> nat option \<Rightarrow> bool \<Rightarrow> bool \<Rightarrow> menu_store \<Rightarrow> menu_store option" where
  "activateAndScroll pg e updateLocation rewriteHistory s =
     (let r = (case e of
                 None \<Rightarrow> None
               | Some i \<Rightarrow> (case getItemById (item_id s i) s of None \<Rightarrow> e | Some j \<Rightarrow> Some j)) in
      Option.bind (activate r updateLocation rewriteHistory s) (\<lambda>s1.
        let s2 = scrollToActive pg s1 in
        Some (case r of
            None \<Rightarrow> closeSidebar s2
          | Some i \<Rightarrow> if mi_items (ms_objects s2 ! i) = [] then closeSidebar s2 else s2)))"

text \<open>
  \<open>updateOnScroll\<close>: from the active item on, downwards to the last item whose successor is not below
  the edge, upwards to the first item that is above it.
\<close>

function scroll_idx :: "page \<Rightarrow> menu_store \<Rightarrow> bool \<Rightarrow> int \<Rightarrow> int" where
  "scroll_idx pg s isScrolledDown n =
     (if (n \<noteq> -1 \<or> isScrolledDown) \<and> \<not> (int (length (ms_flatItems s)) - 1 \<le> n \<and> isScrolledDown) \<and> -1 \<le> n then
        (if isScrolledDown then
           (case getElementAtOrFirstChild pg (n + 1) s of
              Some x \<Rightarrow> if pg_below pg x then n else scroll_idx pg s isScrolledDown (n + 1)
            | None \<Rightarrow> scroll_idx pg s isScrolledDown (n + 1))
         else
           (case getElementAt pg n s of
              Some x \<Rightarrow> if pg_above pg x then n else scroll_idx pg s isScrolledDown (n - 1)
            | None \<Rightarrow> scroll_idx pg s isScrolledDown (n - 1)))
      else n)"
  by pat_completeness auto
termination
  by (relation "measure (\<lambda>(pg, s, down, n). nat (if down then int (length (ms_flatItems s)) - n else n + 1))") auto

declare scroll_idx.simps [simp del]

definition updateOnScroll :: "page \<Rightarrow> bool \<Rightarrow> menu_store \<Rightarrow> menu_store option" where
  "updateOnScroll pg isScrolledDown s =
     activate (flat_at (scroll_idx pg s isScrolledDown (ms_activeItemIdx s)) s) True True s"

definition SECURITY_SCHEMES_SECTION_PREFIX :: string where
  "SECURITY_SCHEMES_SECTION_PREFIX = ''section/Authentication/''"

definition starts_with :: "string \<Rightarrow> string \<Rightarrow> bool" where
  "starts_with s t \<longleftrightarrow> take (length t) s = t"

definition updateOnHistory :: "page \<Rightarrow> string \<Rightarrow> menu_store \<Rightarrow> menu_store option" where
  "updateOnHistory pg x s =
     (if x = [] then Some s
      else (case List.find (\<lambda>i. item_id s i = x) (ms_flatItems s) of
          Some i \<Rightarrow> activateAndScroll pg (Some i) False False s
        | None \<Rightarrow>
            Option.bind
              (if starts_with x SECURITY_SCHEMES_SECTION_PREFIX
               then activateAndScroll pg
                 (List.find (\<lambda>i. starts_with SECURITY_SCHEMES_SECTION_PREFIX (item_id s i)) (ms_flatItems s)) False False s
               else Some s)
              (\<lambda>s1. Some (if pg_has pg x then s1\<lparr>ms_scrolled := x # ms_scrolled s1\<rparr> else s1))))"

section \<open>Creation, clicks and restoring\<close>

text \<open>The items of all levels in the order in which the menu shows them.\<close>

partial_function (option) flattenByProp :: "items \<Rightarrow> nat list \<Rightarrow> nat list option" where
  "flattenByProp its e =
     (case e of
        [] \<Rightarrow> Some []
      | i # is \<Rightarrow>
          Option.bind (flattenByProp its (mi_items (its ! i))) (\<lambda>xs.
          Option.bind (flattenByProp its is) (\<lambda>ys. Some (i # xs @ ys))))"

definition number_items :: "nat list \<Rightarrow> items \<Rightarrow> items" where
  "number_items flat its =
     fold (\<lambda>(k, i) its. its[i := (its ! i)\<lparr>mi_absoluteIdx := k\<rparr>]) (List.enumerate 0 flat) its"

definition new_menu :: "items \<Rightarrow> nat list \<Rightarrow> menu_store option" where
  "new_menu its roots =
     map_option (\<lambda>flat. \<lparr>ms_objects = number_items flat its, ms_items = roots, ms_flatItems = flat,
         ms_activeItemIdx = -1, ms_sideBarOpened = False, ms_replaced = [], ms_scrolled = []\<rparr>)
       (flattenByProp its roots)"

text \<open>A click on an item of the side menu (\<open>$b\<close>): the active item is folded or unfolded.\<close>

definition click_item :: "page \<Rightarrow> bool \<Rightarrow> nat \<Rightarrow> menu_store \<Rightarrow> menu_store option" where
  "click_item pg menuToggle i s =
     (let it = ms_objects s ! i in
      if mi_active it \<and> menuToggle then
        (if mi_expanded it then Some (s\<lparr>ms_objects := collapse i (ms_objects s)\<rparr>)
         else map_option (\<lambda>its. s\<lparr>ms_objects := its\<rparr>) (expand i (ms_objects s)))
      else activateAndScroll pg (Some i) True False s)"

text \<open>\<open>fromJS\<close>: the index that a server has stored is set, and the item there is activated.\<close>

definition fromJS :: "int \<Rightarrow> menu_store \<Rightarrow> menu_store option" where
  "fromJS stored s =
     (let s1 = s\<lparr>ms_activeItemIdx := stored\<rparr> in activate (flat_at stored s1) True False s1)"

text \<open>
  \<open>updateMarkOnMenu\<close>: the elements in which search terms are marked, up to five from the active item on;
  if there is none, also the description and the summary, as far as the page has them (\<open>pg_head\<close>).
\<close>

definition marked_elements :: "page \<Rightarrow> int \<Rightarrow> menu_store \<Rightarrow> string list" where
  "marked_elements pg e s =
     (let t = max 0 e; n = min (int (length (ms_flatItems s))) (t + 5) in
      List.map_filter (\<lambda>k. getElementAt pg k s) [t..n - 1] @ (if e = -1 then pg_head pg else []))"

text \<open>What can happen to the store, in any order.\<close>

datatype menu_event = Clicked bool nat | Chosen nat | Scrolled bool | Hash_Changed string | Side_Bar

fun menu_step :: "page \<Rightarrow> menu_event \<Rightarrow> menu_store \<Rightarrow> menu_store option" where
  "menu_step pg (Clicked menuToggle i) s = click_item pg menuToggle i s"
| "menu_step pg (Chosen i) s = activateAndScroll pg (Some i) True False s"
| "menu_step pg (Scrolled isScrolledDown) s = updateOnScroll pg isScrolledDown s"
| "menu_step pg (Hash_Changed x) s = updateOnHistory pg x s"
| "menu_step pg Side_Bar s = Some (toggleSidebar s)"

fun menu_steps :: "(page \<times> menu_event) list \<Rightarrow> menu_store \<Rightarrow> menu_store option" where
  "menu_steps [] s = Some s"
| "menu_steps ((pg, ev) # evs) s = Option.bind (menu_step pg ev s) (menu_steps evs)"

end
