(* ===== verification/Menu_Invariant.thy ===== *)
theory Menu_Invariant
  imports Menu_Store
begin

text \<open>
  What holds of the side menu whatever the reader does: at most one item is active, it is the one at
  the index of the active item, its ancestors are expanded, and no other item is.
\<close>

section \<open>The tree of items\<close>

text \<open>What no operation of the store changes of an item.\<close>

definition strip :: "menu_item \<Rightarrow> menu_item" where
  "strip it = it\<lparr>mi_active := False, mi_expanded := False\<rparr>"

definition same_tree :: "items \<Rightarrow> items \<Rightarrow> bool" where
  "same_tree its' its \<longleftrightarrow> map strip its' = map strip its"

lemma same_tree_refl [simp]: "same_tree its its"
  by (simp add: same_tree_def)

lemma same_tree_trans: "same_tree a b \<Longrightarrow> same_tree b c \<Longrightarrow> same_tree a c"
  by (simp add: same_tree_def)

lemma strip_flags:
  "strip (it\<lparr>mi_active := b\<rparr>) = strip it" "strip (it\<lparr>mi_expanded := b\<rparr>) = strip it"
  by (simp_all add: strip_def)

lemma map_strip_update: "strip x = strip (its ! i) \<Longrightarrow> map strip (its[i := x]) = map strip its"
  by (cases "i < length its") (auto simp: map_update list_update_same_conv list_update_beyond)

lemma same_tree_set [simp]:
  "same_tree (set_active b i its) its" "same_tree (set_expanded b i its) its" "same_tree (collapse i its) its"
  by (auto simp: same_tree_def set_active_def set_expanded_def collapse_def strip_flags intro!: map_strip_update)

lemma same_treeD:
  assumes "same_tree its' its"
  shows "length its' = length its"
    and "i < length its \<Longrightarrow> mi_id (its' ! i) = mi_id (its ! i) \<and> mi_type (its' ! i) = mi_type (its ! i) \<and>
      mi_depth (its' ! i) = mi_depth (its ! i) \<and> mi_parent (its' ! i) = mi_parent (its ! i) \<and>
      mi_items (its' ! i) = mi_items (its ! i) \<and> mi_absoluteIdx (its' ! i) = mi_absoluteIdx (its ! i)"
proof -
  show len: "length its' = length its"
    using assms unfolding same_tree_def by (metis length_map)
  assume "i < length its"
  with assms len have "strip (its' ! i) = strip (its ! i)"
    unfolding same_tree_def by (metis nth_map)
  then show "mi_id (its' ! i) = mi_id (its ! i) \<and> mi_type (its' ! i) = mi_type (its ! i) \<and>
      mi_depth (its' ! i) = mi_depth (its ! i) \<and> mi_parent (its' ! i) = mi_parent (its ! i) \<and>
      mi_items (its' ! i) = mi_items (its ! i) \<and> mi_absoluteIdx (its' ! i) = mi_absoluteIdx (its ! i)"
    by (cases "its' ! i"; cases "its ! i") (simp add: strip_def)
qed

definition parents_before :: "items \<Rightarrow> bool" where
  "parents_before its \<longleftrightarrow> (\<forall>i < length its. \<forall>p. mi_parent (its ! i) = Some p \<longrightarrow> p < i)"

lemma parents_before_same: "same_tree its' its \<Longrightarrow> parents_before its' = parents_before its"
  unfolding parents_before_def by (auto simp: same_treeD)

text \<open>An item and its ancestors.\<close>

function line :: "items \<Rightarrow> nat \<Rightarrow> nat list" where
  "line its i =
     i # (case mi_parent (its ! i) of None \<Rightarrow> [] | Some p \<Rightarrow> if p < i then line its p else [])"
  by pat_completeness auto
termination
  by (relation "measure snd") auto

declare line.simps [simp del]

lemma line_le: "j \<in> set (line its i) \<Longrightarrow> j \<le> i"
proof (induction i arbitrary: j rule: less_induct)
  case (less i)
  then show ?case
    by (subst (asm) (2) line.simps) (fastforce split: option.splits if_splits)
qed

lemma line_self [simp]: "i \<in> set (line its i)"
  by (subst line.simps) simp

lemma line_same:
  assumes "same_tree its' its" and "i < length its"
  shows "line its' i = line its i"
  using assms(2)
proof (induction i rule: less_induct)
  case (less i)
  have "mi_parent (its' ! i) = mi_parent (its ! i)" using same_treeD(2) [OF assms(1) less.prems] by simp
  then show ?case
    using less by (subst (1 2) line.simps) (auto split: option.splits)
qed

lemma line_parent:
  assumes "parents_before its" "i < length its" "mi_parent (its ! i) = Some p"
  shows "line its i = i # line its p" "p < i"
proof -
  show "p < i" using assms unfolding parents_before_def by blast
  then show "line its i = i # line its p" by (subst line.simps) (simp add: assms(3))
qed

text \<open>Setting the flag of some items, as the loops over the ancestors do.\<close>

definition flagged :: "(nat \<Rightarrow> menu_item \<Rightarrow> menu_item) \<Rightarrow> items \<Rightarrow> items \<Rightarrow> bool" where
  "flagged f its' its \<longleftrightarrow> length its' = length its \<and> (\<forall>j < length its. its' ! j = f j (its ! j))"

definition expanding :: "nat set \<Rightarrow> nat \<Rightarrow> menu_item \<Rightarrow> menu_item" where
  "expanding J j it = (if j \<in> J \<and> mi_type it \<noteq> Operation then it\<lparr>mi_expanded := True\<rparr> else it)"

definition collapsing :: "nat set \<Rightarrow> nat \<Rightarrow> menu_item \<Rightarrow> menu_item" where
  "collapsing J j it =
     (if j \<in> J \<and> mi_type it \<notin> {Group, Operation} then it\<lparr>mi_expanded := False\<rparr> else it)"

lemma flagged_same_tree: "flagged f its' its \<Longrightarrow> (\<And>j it. strip (f j it) = strip it) \<Longrightarrow> same_tree its' its"
  unfolding flagged_def same_tree_def by (auto simp: list_eq_iff_nth_eq)

lemma strip_expanding [simp]: "strip (expanding J j it) = strip it" "strip (collapsing J j it) = strip it"
  by (simp_all add: expanding_def collapsing_def strip_flags)

lemma expand_ok:
  assumes "parents_before its" and "i < length its"
  shows "\<exists>its'. expand i its = Some its' \<and> flagged (expanding (set (line its i))) its' its"
  using assms(2)
proof (induction i rule: less_induct)
  case (less i)
  show ?case
  proof (cases "mi_parent (its ! i)")
    case None
    then show ?thesis
      using less.prems
      by (subst expand.simps, subst line.simps)
        (auto simp: flagged_def expanding_def set_expanded_def nth_list_update)
  next
    case (Some p)
    note p = line_parent [OF assms(1) less.prems Some]
    then obtain its1 where its1: "expand p its = Some its1" "flagged (expanding (set (line its p))) its1 its"
      using less by fastforce
    have "i \<notin> set (line its p)" using line_le p(2) by fastforce
    with its1 p less.prems show ?thesis
      by (subst expand.simps)
        (auto simp: Some flagged_def expanding_def set_expanded_def nth_list_update)
  qed
qed

lemma collapse_nth:
  "i < length its \<Longrightarrow> j < length its \<Longrightarrow> collapse i its ! j = collapsing {i} j (its ! j)"
  by (auto simp: collapse_def set_expanded_def collapsing_def nth_list_update)

lemma collapse_up_ok:
  assumes "parents_before its" and "i < length its"
  shows "\<exists>its'. collapse_up (Some i) its = Some its' \<and> flagged (collapsing (set (line its i))) its' its"
  using assms
proof (induction i arbitrary: its rule: less_induct)
  case (less i)
  let ?its = "collapse i its"
  have same: "same_tree ?its its" by simp
  show ?case
  proof (cases "mi_parent (its ! i)")
    case None
    then show ?thesis
      using less.prems same_treeD(1) [OF same]
      by (subst collapse_up.simps, subst line.simps)
        (simp add: collapse_up.simps flagged_def collapse_nth)
  next
    case (Some p)
    note p = line_parent [OF less.prems Some]
    have "parents_before ?its" "p < length ?its"
      using less.prems p(2) parents_before_same [OF same] same_treeD(1) [OF same] by auto
    from less.IH [OF p(2) this] obtain its1 where
      its1: "collapse_up (Some p) ?its = Some its1" "flagged (collapsing (set (line ?its p))) its1 ?its" by blast
    have line: "line ?its p = line its p" using line_same [OF same] p(2) less.prems by simp
    have "i \<notin> set (line its p)" using line_le p(2) by fastforce
    have "flagged (collapsing (set (line its i))) its1 its"
      using its1(2) less.prems(2) same_treeD(1) [OF same] unfolding flagged_def line p(1)
      by (simp add: collapse_nth) (auto simp: collapsing_def)
    with its1(1) show ?thesis by (subst collapse_up.simps) (simp add: Some)
  qed
qed

section \<open>The invariant\<close>

definition wf_menu :: "menu_store \<Rightarrow> bool" where
  "wf_menu s \<longleftrightarrow>
     parents_before (ms_objects s) \<and> set (ms_flatItems s) \<subseteq> {..<length (ms_objects s)} \<and>
     distinct (ms_flatItems s) \<and>
     (\<forall>k < length (ms_flatItems s). mi_absoluteIdx (ms_objects s ! (ms_flatItems s ! k)) = k) \<and>
     (\<forall>i \<in> set (ms_flatItems s). mi_type (ms_objects s ! i) \<noteq> Group \<longrightarrow> 0 < mi_depth (ms_objects s ! i))"

text \<open>
  The flags: \<open>a\<close> is the active item, if there is one. Only the active item itself may be folded, by a
  click on it.
\<close>

definition flags_ok :: "items \<Rightarrow> nat option \<Rightarrow> bool" where
  "flags_ok its a \<longleftrightarrow>
     (\<forall>j < length its.
        (mi_active (its ! j) \<longleftrightarrow> a = Some j) \<and>
        (mi_type (its ! j) = Group \<longrightarrow> mi_expanded (its ! j)) \<and>
        (mi_type (its ! j) \<in> {Tag, Section} \<longrightarrow>
          (mi_expanded (its ! j) \<longrightarrow> (\<exists>i. a = Some i \<and> j \<in> set (line its i))) \<and>
          (\<forall>i. a = Some i \<longrightarrow> j \<in> set (line its i) \<longrightarrow> j \<noteq> i \<longrightarrow> mi_expanded (its ! j))))"

definition menu_inv :: "menu_store \<Rightarrow> bool" where
  "menu_inv s \<longleftrightarrow>
     wf_menu s \<and> -1 \<le> ms_activeItemIdx s \<and> ms_activeItemIdx s < int (length (ms_flatItems s)) \<and>
     (\<forall>i. activeItem s = Some i \<longrightarrow> mi_type (ms_objects s ! i) \<noteq> Group) \<and>
     flags_ok (ms_objects s) (activeItem s)"

lemma item_type_cases: "mi_type it \<in> {Tag, Section} \<longleftrightarrow> mi_type it \<notin> {Group, Operation}"
  by (cases "mi_type it") simp_all

lemma flat_at_mem: "flat_at n s = Some i \<Longrightarrow> i \<in> set (ms_flatItems s)"
  by (auto simp: flat_at_def split: if_splits)

lemma activeItem_mem: "activeItem s = Some i \<Longrightarrow> i \<in> set (ms_flatItems s)"
  unfolding activeItem_def by (rule flat_at_mem)

lemma wf_menu_mem: "wf_menu s \<Longrightarrow> i \<in> set (ms_flatItems s) \<Longrightarrow> i < length (ms_objects s)"
  by (auto simp: wf_menu_def)

lemma wf_menu_same:
  assumes "wf_menu s" "same_tree its (ms_objects s)"
  shows "wf_menu (s\<lparr>ms_objects := its\<rparr>)"
proof -
  have "mi_absoluteIdx (its ! i) = mi_absoluteIdx (ms_objects s ! i)" "mi_type (its ! i) = mi_type (ms_objects s ! i)"
    "mi_depth (its ! i) = mi_depth (ms_objects s ! i)" if "i \<in> set (ms_flatItems s)" for i
    using same_treeD(2) [OF assms(2)] wf_menu_mem [OF assms(1) that] by auto
  then show ?thesis
    using assms(1) same_treeD(1) [OF assms(2)] parents_before_same [OF assms(2)]
    by (auto simp: wf_menu_def)
qed

lemma activeItem_objects [simp]: "activeItem (s\<lparr>ms_objects := its\<rparr>) = activeItem s"
  by (simp add: activeItem_def flat_at_def)

text \<open>The operations that do not touch the items or the index of the active one.\<close>

definition same_menu :: "menu_store \<Rightarrow> menu_store \<Rightarrow> bool" where
  "same_menu s' s \<longleftrightarrow>
     ms_objects s' = ms_objects s \<and> ms_flatItems s' = ms_flatItems s \<and> ms_activeItemIdx s' = ms_activeItemIdx s"

lemma same_menu_inv: "same_menu s' s \<Longrightarrow> menu_inv s' = menu_inv s"
  by (simp add: same_menu_def menu_inv_def wf_menu_def activeItem_def flat_at_def)

lemma same_menu_simps [simp]:
  "same_menu s s" "same_menu (toggleSidebar s) s" "same_menu (closeSidebar s) s" "same_menu (scrollToActive pg s) s"
  "same_menu (replace_hash x b s) s" "same_menu (s\<lparr>ms_scrolled := xs\<rparr>) s"
  by (simp_all add: same_menu_def toggleSidebar_def closeSidebar_def scrollToActive_def replace_hash_def split: option.split)

section \<open>Activation\<close>

lemma set_active_nth:
  "i < length its \<Longrightarrow> j < length its \<Longrightarrow>
    set_active b i its ! j = (if j = i then (its ! j)\<lparr>mi_active := b\<rparr> else its ! j)"
  by (auto simp: set_active_def nth_list_update)

text \<open>After the active item was deactivated nothing is active, and nothing but groups is expanded.\<close>

lemma deactivate_ok:
  assumes "menu_inv s"
  shows "\<exists>its. deactivate (activeItem s) s = Some (s\<lparr>ms_objects := its\<rparr>) \<and> same_tree its (ms_objects s) \<and>
    flags_ok its None"
proof (cases "activeItem s")
  case None
  then show ?thesis using assms by (intro exI [of _ "ms_objects s"]) (simp add: deactivate_def menu_inv_def)
next
  case (Some a)
  let ?o = "ms_objects s" and ?its = "set_active False a (ms_objects s)"
  have wf: "parents_before ?o" "a < length ?o"
    using assms activeItem_mem [OF Some] by (auto simp: menu_inv_def wf_menu_def)
  have same: "same_tree ?its ?o" by simp
  have "parents_before ?its" "a < length ?its"
    using wf parents_before_same [OF same] same_treeD(1) [OF same] by simp_all
  from collapse_up_ok [OF this] obtain its where
    its: "collapse_up (Some a) ?its = Some its" "flagged (collapsing (set (line ?its a))) its ?its" by blast
  have line: "line ?its a = line ?o a" by (rule line_same [OF same wf(2)])
  have flags: "flags_ok ?o (Some a)" using assms Some by (simp add: menu_inv_def)
  have "flags_ok its None"
    unfolding flags_ok_def
  proof (intro allI impI)
    fix j
    assume "j < length its"
    then have j: "j < length ?o" using its(2) by (simp add: flagged_def set_active_def)
    have nth: "its ! j = collapsing (set (line ?o a)) j (?its ! j)"
      using its(2) j unfolding flagged_def line by (simp add: set_active_def)
    show "(mi_active (its ! j) \<longleftrightarrow> None = Some j) \<and> (mi_type (its ! j) = Group \<longrightarrow> mi_expanded (its ! j)) \<and>
      (mi_type (its ! j) \<in> {Tag, Section} \<longrightarrow>
        (mi_expanded (its ! j) \<longrightarrow> (\<exists>i. None = Some i \<and> j \<in> set (line its i))) \<and>
        (\<forall>i. None = Some i \<longrightarrow> j \<in> set (line its i) \<longrightarrow> j \<noteq> i \<longrightarrow> mi_expanded (its ! j)))"
      using flags [unfolded flags_ok_def, rule_format, OF j] j
      unfolding nth set_active_nth [OF wf(2) j] by (auto simp: collapsing_def)
  qed
  moreover have "same_tree its ?o"
    using same_tree_trans [OF flagged_same_tree [OF its(2)] same] by simp
  ultimately show ?thesis using its(1) by (intro exI [of _ its]) (simp add: deactivate_def Some)
qed

text \<open>Then an item that is no group can be made the active one.\<close>

lemma expand_activates:
  assumes "parents_before its" "i < length its" "flags_ok its None" "mi_type (its ! i) \<noteq> Group"
  shows "\<exists>its'. expand i (set_active True i its) = Some its' \<and> same_tree its' its \<and> flags_ok its' (Some i) \<and>
    (mi_type (its ! i) \<noteq> Operation \<longrightarrow> mi_expanded (its' ! i))"
proof -
  let ?its = "set_active True i its"
  have same: "same_tree ?its its" by simp
  have "parents_before ?its" "i < length ?its"
    using assms parents_before_same [OF same] same_treeD(1) [OF same] by simp_all
  from expand_ok [OF this] obtain its' where
    its': "expand i ?its = Some its'" "flagged (expanding (set (line ?its i))) its' ?its" by blast
  have line: "line ?its i = line its i" by (rule line_same [OF same assms(2)])
  have same': "same_tree its' its" using same_tree_trans [OF flagged_same_tree [OF its'(2)] same] by simp
  have nth: "its' ! j = expanding (set (line its i)) j (?its ! j)" if "j < length its" for j
    using its'(2) that unfolding flagged_def line by (simp add: set_active_def)
  have "flags_ok its' (Some i)"
    unfolding flags_ok_def
  proof (intro allI impI)
    fix j
    assume "j < length its'"
    then have j: "j < length its" using same_treeD(1) [OF same'] by simp
    have line': "line its' i = line its i" by (rule line_same [OF same' assms(2)])
    show "(mi_active (its' ! j) \<longleftrightarrow> Some i = Some j) \<and> (mi_type (its' ! j) = Group \<longrightarrow> mi_expanded (its' ! j)) \<and>
      (mi_type (its' ! j) \<in> {Tag, Section} \<longrightarrow>
        (mi_expanded (its' ! j) \<longrightarrow> (\<exists>k. Some i = Some k \<and> j \<in> set (line its' k))) \<and>
        (\<forall>k. Some i = Some k \<longrightarrow> j \<in> set (line its' k) \<longrightarrow> j \<noteq> k \<longrightarrow> mi_expanded (its' ! j)))"
      using assms(3) [unfolded flags_ok_def, rule_format, OF j]
      unfolding nth [OF j] set_active_nth [OF assms(2) j]
      by (auto simp: expanding_def line')
  qed
  moreover have "mi_expanded (its' ! i)" if "mi_type (its ! i) \<noteq> Operation"
    using that unfolding nth [OF assms(2)] set_active_nth [OF assms(2) assms(2)] by (simp add: expanding_def)
  ultimately show ?thesis using its'(1) same' by blast
qed

text \<open>What \<open>activate\<close> returns: the item it was called with is active, or the one with the same id was before.\<close>

definition activated :: "nat option \<Rightarrow> menu_store \<Rightarrow> menu_store \<Rightarrow> bool" where
  "activated e s s' \<longleftrightarrow>
     menu_inv s' \<and> same_tree (ms_objects s') (ms_objects s) \<and> ms_flatItems s' = ms_flatItems s \<and>
     (if map_option (item_id s) (activeItem s) = map_option (item_id s) e \<or>
         (\<exists>i. e = Some i \<and> mi_type (ms_objects s ! i) = Group)
      then same_menu s' s
      else activeItem s' = e \<and>
        (\<forall>i. e = Some i \<longrightarrow> mi_type (ms_objects s ! i) \<noteq> Operation \<longrightarrow> mi_expanded (ms_objects s' ! i)))"

lemma wf_menu_absolute: "wf_menu s \<Longrightarrow> i \<in> set (ms_flatItems s) \<Longrightarrow>
    mi_absoluteIdx (ms_objects s ! i) < length (ms_flatItems s) \<and>
    ms_flatItems s ! mi_absoluteIdx (ms_objects s ! i) = i"
  by (auto simp: wf_menu_def in_set_conv_nth)

lemma activate_ok:
  assumes inv: "menu_inv s" and e: "\<And>i. e = Some i \<Longrightarrow> i \<in> set (ms_flatItems s)"
  shows "\<exists>s'. activate e u r s = Some s' \<and> activated e s s'"
proof (cases "map_option (item_id s) (activeItem s) = map_option (item_id s) e \<or>
    (\<exists>i. e = Some i \<and> mi_type (ms_objects s ! i) = Group)")
  case True
  then have "activate e u r s = Some s" by (auto simp: activate_def)
  with True inv show ?thesis by (simp add: activated_def)
next
  case False
  obtain its where its: "deactivate (activeItem s) s = Some (s\<lparr>ms_objects := its\<rparr>)"
    and same: "same_tree its (ms_objects s)" and flags: "flags_ok its None"
    using deactivate_ok [OF inv] by blast
  have wf: "wf_menu s" using inv by (simp add: menu_inv_def)
  have wf': "wf_menu (s\<lparr>ms_objects := its\<rparr>)" by (rule wf_menu_same [OF wf same])
  have cond: "map_option (item_id s) (activeItem s) \<noteq> map_option (item_id s) e"
    "case e of None \<Rightarrow> True | Some i \<Rightarrow> mi_type (ms_objects s ! i) \<noteq> Group"
    using False by (auto split: option.split)
  show ?thesis
  proof (cases e)
    case None
    let ?s = "replace_hash [] r (s\<lparr>ms_objects := its, ms_activeItemIdx := -1\<rparr>)"
    have run: "activate e u r s = Some ?s" unfolding activate_def using cond its None by simp
    have active: "activeItem ?s = None" by (simp add: activeItem_def flat_at_def replace_hash_def)
    have "wf_menu ?s" using wf' by (simp add: wf_menu_def replace_hash_def)
    then have "menu_inv ?s" using flags active by (simp add: menu_inv_def replace_hash_def)
    then have "activated e s ?s"
      using same active None cond(1) by (auto simp: activated_def replace_hash_def)
    with run show ?thesis by blast
  next
    case (Some i)
    then have i: "i \<in> set (ms_flatItems s)" "i < length (ms_objects s)" "mi_type (ms_objects s ! i) \<noteq> Group"
      using e wf_menu_mem [OF wf] cond(2) by auto
    note at = same_treeD(2) [OF same i(2)]
    have len: "i < length its" using i(2) same_treeD(1) [OF same] by simp
    have depth: "0 < mi_depth (its ! i)" using wf i(1,3) at by (auto simp: wf_menu_def)
    have before: "parents_before its" using wf' by (simp add: wf_menu_def)
    obtain its' where its': "expand i (set_active True i its) = Some its'" "same_tree its' its"
      "flags_ok its' (Some i)" "mi_type (its ! i) \<noteq> Operation \<longrightarrow> mi_expanded (its' ! i)"
      using expand_activates [OF before len flags] at i(3) by auto
    define s2 where "s2 = s\<lparr>ms_objects := its, ms_activeItemIdx := int (mi_absoluteIdx (its ! i))\<rparr>"
    define s3 where "s3 = (if u then replace_hash (encodeURI (item_id s2 i)) r s2 else s2)"
    let ?s = "s3\<lparr>ms_objects := its'\<rparr>"
    have run: "activate e u r s = Some ?s"
      unfolding activate_def using cond its depth its'(1) Some
      by (simp add: s3_def s2_def Let_def replace_hash_def)
    have s: "ms_objects ?s = its'" "ms_flatItems ?s = ms_flatItems s"
      "ms_activeItemIdx ?s = int (mi_absoluteIdx (its ! i))"
      by (simp_all add: s3_def s2_def replace_hash_def)
    have absolute: "mi_absoluteIdx (its ! i) < length (ms_flatItems s)" "ms_flatItems s ! mi_absoluteIdx (its ! i) = i"
      using wf_menu_absolute [OF wf i(1)] at by simp_all
    have active: "activeItem ?s = Some i" using absolute by (simp add: activeItem_def flat_at_def s)
    have same': "same_tree its' (ms_objects s)" using same_tree_trans [OF its'(2) same] .
    have "wf_menu ?s" using wf_menu_same [OF wf same'] by (simp add: wf_menu_def s)
    moreover have "mi_type (its' ! i) \<noteq> Group" using same_treeD(2) [OF same' i(2)] i(3) by simp
    ultimately have "menu_inv ?s" using its'(3) active absolute(1) s by (simp add: menu_inv_def)
    then have "activated e s ?s"
      using same' active Some cond its'(4) at by (auto simp: activated_def s)
    with run show ?thesis by blast
  qed
qed

lemma activated_inv: "activated e s s' \<Longrightarrow> menu_inv s' \<and> ms_flatItems s' = ms_flatItems s"
  by (simp add: activated_def)

text \<open>The item that \<open>getItemById\<close> finds has the id of the one clicked, but may be another one.\<close>

lemma getItemById_mem: "getItemById x s = Some i \<Longrightarrow> i \<in> set (ms_flatItems s) \<and> item_id s i = x"
  by (auto simp: getItemById_def find_Some_iff)

lemma activateAndScroll_ok:
  assumes inv: "menu_inv s" and e: "\<And>i. e = Some i \<Longrightarrow> i \<in> set (ms_flatItems s)"
  shows "\<exists>s' s1. activateAndScroll pg e u r s = Some s' \<and> same_menu s' s1 \<and>
    activated (case e of None \<Rightarrow> None | Some i \<Rightarrow> getItemById (item_id s i) s) s s1"
proof -
  let ?r = "case e of None \<Rightarrow> None | Some i \<Rightarrow> getItemById (item_id s i) s"
  have found: "getItemById (item_id s i) s \<noteq> None" if "e = Some i" for i
    using e [OF that] by (auto simp: getItemById_def find_None_iff)
  have r: "(case e of None \<Rightarrow> None | Some i \<Rightarrow> (case getItemById (item_id s i) s of None \<Rightarrow> e | Some j \<Rightarrow> Some j)) = ?r"
    using found by (auto split: option.split)
  have "i \<in> set (ms_flatItems s)" if "?r = Some i" for i
    using that getItemById_mem by (auto split: option.splits)
  from activate_ok [OF inv this] obtain s1 where s1: "activate ?r u r s = Some s1" "activated ?r s s1" by blast
  define s2 where "s2 = scrollToActive pg s1"
  define s' where "s' = (case ?r of None \<Rightarrow> closeSidebar s2
    | Some i \<Rightarrow> if mi_items (ms_objects s2 ! i) = [] then closeSidebar s2 else s2)"
  have "activateAndScroll pg e u r s = Some s'"
    unfolding activateAndScroll_def Let_def r s1(1) by (simp add: s'_def s2_def split: option.split)
  moreover have "same_menu s' s1"
    by (auto simp: s'_def s2_def same_menu_def closeSidebar_def scrollToActive_def split: option.split)
  ultimately show ?thesis using s1(2) by blast
qed

section \<open>Everything that can happen\<close>

definition event_ok :: "menu_store \<Rightarrow> menu_event \<Rightarrow> bool" where
  "event_ok s ev \<longleftrightarrow>
     (case ev of Clicked _ i \<Rightarrow> i \<in> set (ms_flatItems s) | Chosen i \<Rightarrow> i \<in> set (ms_flatItems s) | _ \<Rightarrow> True)"

text \<open>Folding and unfolding the active item.\<close>

lemma toggle_active_ok:
  assumes "menu_inv s" "i < length (ms_objects s)" "mi_active (ms_objects s ! i)"
  shows "menu_inv (s\<lparr>ms_objects := collapse i (ms_objects s)\<rparr>)"
    and "\<exists>its. expand i (ms_objects s) = Some its \<and> menu_inv (s\<lparr>ms_objects := its\<rparr>)"
proof -
  let ?o = "ms_objects s"
  have wf: "wf_menu s" and before: "parents_before ?o" using assms(1) by (auto simp: menu_inv_def wf_menu_def)
  have active: "activeItem s = Some i" using assms by (auto simp: menu_inv_def flags_ok_def)
  have keep: "menu_inv (s\<lparr>ms_objects := its\<rparr>)"
    if "same_tree its ?o" "flags_ok its (Some i)" for its
  proof -
    have "activeItem (s\<lparr>ms_objects := its\<rparr>) = Some i" using active by simp
    moreover have "mi_type (its ! i) = mi_type (?o ! i)" using same_treeD(2) [OF that(1) assms(2)] by simp
    ultimately show ?thesis using assms(1) that wf_menu_same [OF wf that(1)] active by (simp add: menu_inv_def)
  qed
  have flags: "flags_ok ?o (Some i)" using assms(1) active by (simp add: menu_inv_def)
  have "flags_ok (collapse i ?o) (Some i)"
    unfolding flags_ok_def
  proof (intro allI impI)
    fix j
    assume "j < length (collapse i ?o)"
    then have j: "j < length ?o" by (simp add: same_treeD(1) [OF same_tree_set(3)])
    have line': "line (collapse i ?o) i = line ?o i" by (rule line_same [OF same_tree_set(3) assms(2)])
    show "(mi_active (collapse i ?o ! j) \<longleftrightarrow> Some i = Some j) \<and>
      (mi_type (collapse i ?o ! j) = Group \<longrightarrow> mi_expanded (collapse i ?o ! j)) \<and>
      (mi_type (collapse i ?o ! j) \<in> {Tag, Section} \<longrightarrow>
        (mi_expanded (collapse i ?o ! j) \<longrightarrow> (\<exists>k. Some i = Some k \<and> j \<in> set (line (collapse i ?o) k))) \<and>
        (\<forall>k. Some i = Some k \<longrightarrow> j \<in> set (line (collapse i ?o) k) \<longrightarrow> j \<noteq> k \<longrightarrow> mi_expanded (collapse i ?o ! j)))"
      using flags [unfolded flags_ok_def, rule_format, OF j]
      unfolding collapse_nth [OF assms(2) j] by (auto simp: collapsing_def line')
  qed
  with keep show "menu_inv (s\<lparr>ms_objects := collapse i ?o\<rparr>)" by simp
  obtain its where its: "expand i ?o = Some its" "flagged (expanding (set (line ?o i))) its ?o"
    using expand_ok [OF before assms(2)] by blast
  have same: "same_tree its ?o" using flagged_same_tree [OF its(2)] by simp
  have "flags_ok its (Some i)"
    unfolding flags_ok_def
  proof (intro allI impI)
    fix j
    assume "j < length its"
    then have j: "j < length ?o" by (simp add: same_treeD(1) [OF same])
    have line': "line its i = line ?o i" by (rule line_same [OF same assms(2)])
    have nth: "its ! j = expanding (set (line ?o i)) j (?o ! j)" using its(2) j by (simp add: flagged_def)
    show "(mi_active (its ! j) \<longleftrightarrow> Some i = Some j) \<and> (mi_type (its ! j) = Group \<longrightarrow> mi_expanded (its ! j)) \<and>
      (mi_type (its ! j) \<in> {Tag, Section} \<longrightarrow>
        (mi_expanded (its ! j) \<longrightarrow> (\<exists>k. Some i = Some k \<and> j \<in> set (line its k))) \<and>
        (\<forall>k. Some i = Some k \<longrightarrow> j \<in> set (line its k) \<longrightarrow> j \<noteq> k \<longrightarrow> mi_expanded (its ! j)))"
      using flags [unfolded flags_ok_def, rule_format, OF j]
      unfolding nth
      by (cases "j \<in> set (line ?o i)"; cases "mi_type (?o ! j)"; simp add: expanding_def line')
  qed
  from keep [OF same this] its(1) show "\<exists>its. expand i ?o = Some its \<and> menu_inv (s\<lparr>ms_objects := its\<rparr>)"
    by (intro exI [of _ its] conjI)
qed

lemma menu_step_ok:
  assumes "menu_inv s" "event_ok s ev"
  shows "\<exists>s'. menu_step pg ev s = Some s' \<and> menu_inv s' \<and> ms_flatItems s' = ms_flatItems s"
proof -
  have scroll: "\<exists>s'. activateAndScroll pg e u r s = Some s' \<and> menu_inv s' \<and> ms_flatItems s' = ms_flatItems s"
    if mem: "\<And>i. e = Some i \<Longrightarrow> i \<in> set (ms_flatItems s)" for e u r
  proof -
    obtain s' s1 e' where s': "activateAndScroll pg e u r s = Some s'" "same_menu s' s1" "activated e' s s1"
      using activateAndScroll_ok [OF assms(1) mem] by blast
    from activated_inv [OF s'(3)] have "menu_inv s'" "ms_flatItems s' = ms_flatItems s"
      using same_menu_inv [OF s'(2)] s'(2) by (simp_all add: same_menu_def)
    with s'(1) show ?thesis by blast
  qed
  show ?thesis
  proof (cases ev)
    case (Clicked toggle i)
    then have i: "i \<in> set (ms_flatItems s)" using assms(2) by (simp add: event_ok_def)
    then have "i < length (ms_objects s)" using assms(1) by (auto simp: menu_inv_def dest: wf_menu_mem)
    from toggle_active_ok [OF assms(1) this] scroll [of "Some i" True False] i show ?thesis
      unfolding Clicked menu_step.simps click_item_def Let_def by auto
  next
    case (Chosen i)
    with scroll [of "Some i" True False] assms(2) show ?thesis by (simp add: event_ok_def)
  next
    case (Scrolled down)
    then show ?thesis
      using activate_ok [OF assms(1), of _ True True] activated_inv flat_at_mem
      by (simp add: updateOnScroll_def) blast
  next
    case (Hash_Changed x)
    let ?t = "List.find (\<lambda>i. starts_with SECURITY_SCHEMES_SECTION_PREFIX (item_id s i)) (ms_flatItems s)"
    have mem: "i \<in> set (ms_flatItems s)" if "List.find P (ms_flatItems s) = Some i" for P i
      using that by (auto simp: find_Some_iff)
    have end_ok: "menu_inv (if pg_has pg x then s1\<lparr>ms_scrolled := x # ms_scrolled s1\<rparr> else s1)"
      if "menu_inv s1" for s1
      using that same_menu_inv [OF same_menu_simps(6)] by simp
    show ?thesis
    proof (cases "x = [] \<or> (\<exists>i. List.find (\<lambda>i. item_id s i = x) (ms_flatItems s) = Some i)")
      case True
      then show ?thesis
        using scroll [of "List.find (\<lambda>i. item_id s i = x) (ms_flatItems s)" False False] mem assms(1)
        by (auto simp: Hash_Changed updateOnHistory_def)
    next
      case False
      then have run: "updateOnHistory pg x s =
          Option.bind (if starts_with x SECURITY_SCHEMES_SECTION_PREFIX then activateAndScroll pg ?t False False s
            else Some s)
          (\<lambda>s1. Some (if pg_has pg x then s1\<lparr>ms_scrolled := x # ms_scrolled s1\<rparr> else s1))"
        by (simp add: updateOnHistory_def)
      obtain s1 where "(if starts_with x SECURITY_SCHEMES_SECTION_PREFIX then activateAndScroll pg ?t False False s
          else Some s) = Some s1" "menu_inv s1" "ms_flatItems s1 = ms_flatItems s"
        using scroll [of ?t False False] mem assms(1) by (cases "starts_with x SECURITY_SCHEMES_SECTION_PREFIX") auto
      then show ?thesis unfolding Hash_Changed menu_step.simps run using end_ok by simp
    qed
  next
    case Side_Bar
    then show ?thesis using assms(1) same_menu_inv [OF same_menu_simps(2)] by (simp add: toggleSidebar_def)
  qed
qed

lemma menu_steps_ok:
  assumes "menu_inv s" "\<And>pg ev. (pg, ev) \<in> set evs \<Longrightarrow> event_ok s ev"
  shows "\<exists>s'. menu_steps evs s = Some s' \<and> menu_inv s' \<and> ms_flatItems s' = ms_flatItems s"
  using assms
proof (induction evs arbitrary: s)
  case (Cons pe evs)
  obtain pg ev where pe: "pe = (pg, ev)" by force
  from Cons.prems have "event_ok s ev" by (auto simp: pe)
  from menu_step_ok [OF Cons.prems(1) this] obtain s1 where
    s1: "menu_step pg ev s = Some s1" "menu_inv s1" "ms_flatItems s1 = ms_flatItems s" by blast
  have "event_ok s1 ev'" if "(pg', ev') \<in> set evs" for pg' ev'
    using Cons.prems(2) [of pg' ev'] that s1(3) by (auto simp: event_ok_def split: menu_event.splits)
  from Cons.IH [OF s1(2) this] s1 pe show ?case by auto
qed simp

section \<open>Scrolling\<close>

text \<open>
  Where scrolling stops: downwards, every item that was passed is not below the edge, and the next one
  is below it or there is none; upwards, no item that was left is above the edge.
\<close>

definition visible_below :: "page \<Rightarrow> menu_store \<Rightarrow> int \<Rightarrow> bool" where
  "visible_below pg s n \<longleftrightarrow> (\<exists>x. getElementAtOrFirstChild pg n s = Some x \<and> pg_below pg x)"

definition visible_above :: "page \<Rightarrow> menu_store \<Rightarrow> int \<Rightarrow> bool" where
  "visible_above pg s n \<longleftrightarrow> (\<exists>x. getElementAt pg n s = Some x \<and> pg_above pg x)"

lemma scroll_down_step:
  assumes "-1 \<le> n"
  shows "scroll_idx pg s True n =
    (if int (length (ms_flatItems s)) - 1 \<le> n \<or> visible_below pg s (n + 1) then n else scroll_idx pg s True (n + 1))"
  using assms by (subst scroll_idx.simps) (auto simp: visible_below_def split: option.splits)

lemma scroll_up_step:
  assumes "-1 \<le> n"
  shows "scroll_idx pg s False n = (if n = -1 \<or> visible_above pg s n then n else scroll_idx pg s False (n - 1))"
  using assms by (subst scroll_idx.simps) (auto simp: visible_above_def split: option.splits)

lemma scroll_down:
  assumes "-1 \<le> n" "n < int (length (ms_flatItems s))"
  shows "n \<le> scroll_idx pg s True n \<and> scroll_idx pg s True n < int (length (ms_flatItems s)) \<and>
    (\<forall>k. n < k \<longrightarrow> k \<le> scroll_idx pg s True n \<longrightarrow> \<not> visible_below pg s k) \<and>
    (scroll_idx pg s True n = int (length (ms_flatItems s)) - 1 \<or> visible_below pg s (scroll_idx pg s True n + 1))"
  using assms
proof (induction "nat (int (length (ms_flatItems s)) - n)" arbitrary: n rule: less_induct)
  case less
  let ?len = "int (length (ms_flatItems s))" and ?m = "scroll_idx pg s True (n + 1)"
  show ?case
  proof (cases "?len - 1 \<le> n \<or> visible_below pg s (n + 1)")
    case True
    with less.prems have "scroll_idx pg s True n = n" by (subst scroll_down_step) auto
    with True less.prems show ?thesis by auto
  next
    case False
    then have step: "scroll_idx pg s True n = ?m" using less.prems(1) by (subst scroll_down_step) auto
    have "n + 1 \<le> ?m \<and> ?m < ?len \<and> (\<forall>k. n + 1 < k \<longrightarrow> k \<le> ?m \<longrightarrow> \<not> visible_below pg s k) \<and>
        (?m = ?len - 1 \<or> visible_below pg s (?m + 1))"
      using less.prems False by (intro less.hyps) auto
    moreover have "\<not> visible_below pg s k" if "n < k" "\<not> n + 1 < k" for k
    proof -
      from that have "k = n + 1" by simp
      with False show ?thesis by simp
    qed
    ultimately show ?thesis unfolding step by force
  qed
qed

lemma scroll_up:
  assumes "-1 \<le> n"
  shows "-1 \<le> scroll_idx pg s False n \<and> scroll_idx pg s False n \<le> n \<and>
    (\<forall>k. scroll_idx pg s False n < k \<longrightarrow> k \<le> n \<longrightarrow> \<not> visible_above pg s k) \<and>
    (scroll_idx pg s False n = -1 \<or> visible_above pg s (scroll_idx pg s False n))"
  using assms
proof (induction "nat (n + 1)" arbitrary: n rule: less_induct)
  case less
  let ?m = "scroll_idx pg s False (n - 1)"
  show ?case
  proof (cases "n = -1 \<or> visible_above pg s n")
    case True
    with less.prems have "scroll_idx pg s False n = n" by (subst scroll_up_step) auto
    with True less.prems show ?thesis by auto
  next
    case False
    then have step: "scroll_idx pg s False n = ?m" using less.prems(1) by (subst scroll_up_step) auto
    have "-1 \<le> ?m \<and> ?m \<le> n - 1 \<and> (\<forall>k. ?m < k \<longrightarrow> k \<le> n - 1 \<longrightarrow> \<not> visible_above pg s k) \<and>
        (?m = -1 \<or> visible_above pg s ?m)"
      using less.prems False by (intro less.hyps) auto
    moreover have "\<not> visible_above pg s k" if "k \<le> n" "\<not> k \<le> n - 1" for k
    proof -
      from that have "k = n" by simp
      with False show ?thesis by simp
    qed
    ultimately show ?thesis unfolding step by force
  qed
qed

section \<open>Restoring\<close>

text \<open>
  \<open>fromJS\<close> sets the index before it activates the item there: the ids are equal then, so that nothing
  is activated.
\<close>

lemma fromJS_idle: "fromJS k s = Some (s\<lparr>ms_activeItemIdx := k\<rparr>)"
  by (simp add: fromJS_def Let_def activate_def activeItem_def)

section \<open>A new menu\<close>

text \<open>Items as they are created: nothing is active, and the groups are expanded.\<close>

definition fresh_items :: "items \<Rightarrow> bool" where
  "fresh_items its \<longleftrightarrow>
     parents_before its \<and> (\<forall>it \<in> set its. \<not> mi_active it \<and> (mi_expanded it \<longleftrightarrow> mi_type it = Group) \<and>
       (mi_type it \<noteq> Group \<longrightarrow> 0 < mi_depth it))"

definition set_index :: "nat \<Rightarrow> menu_item \<Rightarrow> menu_item" where
  "set_index k it = it\<lparr>mi_absoluteIdx := k\<rparr>"

lemma number_items_snoc:
  "number_items (flat @ [i]) its = (number_items flat its)[i := set_index (length flat) (number_items flat its ! i)]"
  by (simp add: number_items_def set_index_def enumerate_append_eq)

lemma number_items_length [simp]: "length (number_items flat its) = length its"
  by (induction flat rule: rev_induct) (simp_all add: number_items_snoc, simp add: number_items_def)

lemma number_items_nth:
  assumes "j < length its"
  shows "\<exists>k. number_items flat its ! j = its ! j \<or> number_items flat its ! j = set_index k (its ! j)"
proof (induction flat rule: rev_induct)
  case (snoc i flat)
  then obtain k where "number_items flat its ! j = its ! j \<or> number_items flat its ! j = set_index k (its ! j)" by blast
  then show ?case
    unfolding number_items_snoc
    by (cases "i = j") (use assms in \<open>auto simp: set_index_def\<close>)
qed (simp add: number_items_def)

lemma number_items_index:
  assumes "distinct flat" "set flat \<subseteq> {..<length its}" "k < length flat"
  shows "mi_absoluteIdx (number_items flat its ! (flat ! k)) = k"
  using assms
proof (induction flat rule: rev_induct)
  case (snoc i flat)
  show ?case
  proof (cases "k = length flat")
    case True
    with snoc.prems(2) show ?thesis by (simp add: number_items_snoc set_index_def)
  next
    case False
    then have k: "k < length flat" using snoc.prems(3) by simp
    with snoc.prems(1) have "flat ! k \<noteq> i" by (auto dest: nth_mem)
    with snoc.IH snoc.prems(1,2) k show ?thesis by (simp add: number_items_snoc nth_append)
  qed
qed simp

lemma new_menu_inv:
  assumes "fresh_items its" "flattenByProp its roots = Some flat" "distinct flat" "set flat \<subseteq> {..<length its}"
  shows "\<exists>s. new_menu its roots = Some s \<and> menu_inv s \<and> ms_flatItems s = flat"
proof -
  let ?n = "number_items flat its"
  define s where "s = \<lparr>ms_objects = ?n, ms_items = roots, ms_flatItems = flat,
      ms_activeItemIdx = -1, ms_sideBarOpened = False, ms_replaced = [], ms_scrolled = []\<rparr>"
  have s: "new_menu its roots = Some s" using assms(2) by (simp add: new_menu_def s_def)
  have same: "mi_type (?n ! j) = mi_type (its ! j) \<and> mi_depth (?n ! j) = mi_depth (its ! j) \<and>
      mi_parent (?n ! j) = mi_parent (its ! j) \<and> mi_active (?n ! j) = mi_active (its ! j) \<and>
      mi_expanded (?n ! j) = mi_expanded (its ! j)" if "j < length its" for j
    using number_items_nth [OF that, of flat] by (auto simp: set_index_def)
  have fresh: "\<not> mi_active (its ! j) \<and> (mi_expanded (its ! j) \<longleftrightarrow> mi_type (its ! j) = Group) \<and>
      (mi_type (its ! j) \<noteq> Group \<longrightarrow> 0 < mi_depth (its ! j))" if "j < length its" for j
    using assms(1) that by (simp add: fresh_items_def)
  have "parents_before ?n" using assms(1) same by (auto simp: fresh_items_def parents_before_def)
  moreover have "\<forall>i \<in> set flat. mi_type (?n ! i) \<noteq> Group \<longrightarrow> 0 < mi_depth (?n ! i)"
    using assms(4) same fresh by auto
  ultimately have "wf_menu s"
    using assms(3,4) number_items_index [OF assms(3,4)] by (simp add: wf_menu_def s_def)
  moreover have "activeItem s = None" by (simp add: activeItem_def flat_at_def s_def)
  moreover have "flags_ok ?n None" unfolding flags_ok_def using same fresh by auto
  ultimately have "menu_inv s" by (simp add: menu_inv_def) (simp add: s_def)
  with s show ?thesis by (intro exI [of _ s]) (simp add: s_def)
qed

text \<open>
  A restored item cannot be chosen: it counts as the active one, so that activating it does nothing, and
  none of its flags is ever set.
\<close>

lemma restored_stuck:
  assumes "menu_inv s" "activeItem s = None" "flat_at k s = Some i"
    and "getItemById (item_id s i) s = Some i"
  shows "\<exists>s1 s2. fromJS k s = Some s1 \<and> activeItem s1 = Some i \<and>
    activateAndScroll pg (Some i) u r s1 = Some s2 \<and> ms_objects s2 = ms_objects s \<and>
    (\<forall>j < length (ms_objects s2). \<not> mi_active (ms_objects s2 ! j))"
proof -
  let ?s1 = "s\<lparr>ms_activeItemIdx := k\<rparr>"
  have act: "activeItem ?s1 = Some i" using assms(3) by (auto simp: activeItem_def flat_at_def split: if_splits)
  have "getItemById (item_id ?s1 i) ?s1 = Some i" using assms(4) by (simp add: getItemById_def item_id_def)
  moreover have "activate (Some i) u r ?s1 = Some ?s1" by (simp add: activate_def act)
  ultimately obtain s2 where s2: "activateAndScroll pg (Some i) u r ?s1 = Some s2" "ms_objects s2 = ms_objects s"
    by (auto simp: activateAndScroll_def Let_def scrollToActive_def closeSidebar_def split: option.splits)
  have "\<forall>j < length (ms_objects s). \<not> mi_active (ms_objects s ! j)"
    using assms(1,2) by (auto simp: menu_inv_def flags_ok_def)
  with s2 act fromJS_idle show ?thesis by (intro exI [of _ ?s1] exI [of _ s2]) simp
qed

end
