(* ===== verification/Doc_Value.thy ===== *)
theory Doc_Value
  imports Styled_Rules
begin

text \<open>
  The values of API documents in the viewer: what a JSON or YAML document is parsed to, and the
  objects the viewer makes of its parts. A property may have the value undefined; it is then one of the
  keys of its object all the same.

  As in \<open>JS_Value\<close>, objects have own properties only. Objects are compared by their content here; the
  code of this part compares only strings, numbers and undefined.
\<close>

datatype doc =
    DUndef
  | DNull
  | DBool bool
  | DNum dec
  | DStr string
  | DArr "doc list"
  | DObj "(string \<times> doc) list"

type_synonym props = "(string \<times> doc) list"

section \<open>Access\<close>

fun truthy_doc :: "doc \<Rightarrow> bool" where
  "truthy_doc DUndef = False"
| "truthy_doc DNull = False"
| "truthy_doc (DBool b) = b"
| "truthy_doc (DNum n) = (\<not> dec_is_0 n)"
| "truthy_doc (DStr s) = (s \<noteq> [])"
| "truthy_doc (DArr _) = True"
| "truthy_doc (DObj _) = True"

text \<open>A key of an array is an index if it is a number written without leading zeros.\<close>

definition array_index :: "string \<Rightarrow> nat option" where
  "array_index k =
     (if k \<noteq> [] \<and> list_all is_digit k \<and> digits (nat (digits_value k)) = k then Some (nat (digits_value k)) else None)"

definition field :: "props \<Rightarrow> string \<Rightarrow> doc" where
  "field kvs k = (case map_of kvs k of None \<Rightarrow> DUndef | Some v \<Rightarrow> v)"

fun doc_get :: "doc \<Rightarrow> string \<Rightarrow> doc js" where
  "doc_get DUndef k = Inl (TypeError k)"
| "doc_get DNull k = Inl (TypeError k)"
| "doc_get (DObj kvs) k = Inr (field kvs k)"
| "doc_get (DArr vs) k =
     Inr (if k = ''length'' then DNum (Dec (int (length vs)) 0)
          else (case array_index k of None \<Rightarrow> DUndef | Some i \<Rightarrow> if i < length vs then vs ! i else DUndef))"
| "doc_get (DStr s) k =
     Inr (if k = ''length'' then DNum (Dec (int (length s)) 0)
          else (case array_index k of None \<Rightarrow> DUndef | Some i \<Rightarrow> if i < length s then DStr [s ! i] else DUndef))"
| "doc_get _ k = Inr DUndef"

text \<open>\<open>k in v\<close>\<close>

fun doc_in :: "string \<Rightarrow> doc \<Rightarrow> bool js" where
  "doc_in k (DObj kvs) = Inr (k \<in> set (map fst kvs))"
| "doc_in k (DArr vs) =
     Inr (k = ''length'' \<or> (case array_index k of None \<Rightarrow> False | Some i \<Rightarrow> i < length vs))"
| "doc_in k _ = Inl (TypeError k)"

definition is_undef :: "doc \<Rightarrow> bool" where
  "is_undef v \<longleftrightarrow> v = DUndef"

text \<open>\<open>io\<close>, \<open>eo\<close>, \<open>to\<close> and \<open>ao\<close>\<close>

fun is_array :: "doc \<Rightarrow> bool" where
  "is_array (DArr _) = True"
| "is_array _ = False"

fun is_object :: "doc \<Rightarrow> bool" where
  "is_object (DArr _) = True"
| "is_object (DObj _) = True"
| "is_object _ = False"

definition is_plain_object :: "doc \<Rightarrow> bool" where
  "is_plain_object v \<longleftrightarrow> is_object v \<and> \<not> is_array v"

fun is_boolean :: "doc \<Rightarrow> bool" where
  "is_boolean (DBool _) = True"
| "is_boolean _ = False"

fun typeof :: "doc \<Rightarrow> string" where
  "typeof DUndef = ''undefined''"
| "typeof (DBool _) = ''boolean''"
| "typeof (DNum _) = ''number''"
| "typeof (DStr _) = ''string''"
| "typeof _ = ''object''"

section \<open>Keys\<close>

text \<open>
  The order of own keys: first those that are array indices, in ascending order, then the others in
  the order in which they were added.
\<close>

definition own_keys :: "props \<Rightarrow> string list" where
  "own_keys kvs =
     sort_key (\<lambda>k. the (array_index k)) (filter (\<lambda>k. array_index k \<noteq> None) (map fst kvs)) @
     filter (\<lambda>k. array_index k = None) (map fst kvs)"

lemma set_own_keys [simp]: "set (own_keys kvs) = fst ` set kvs"
  by (auto simp: own_keys_def)

lemma distinct_own_keys: "distinct (map fst kvs) \<Longrightarrow> distinct (own_keys kvs)"
  by (auto simp: own_keys_def)

text \<open>\<open>Object.keys\<close>\<close>

fun object_keys :: "doc \<Rightarrow> string list js" where
  "object_keys DUndef = Inl (TypeError ''keys'')"
| "object_keys DNull = Inl (TypeError ''keys'')"
| "object_keys (DObj kvs) = Inr (own_keys kvs)"
| "object_keys (DArr vs) = Inr (map digits [0..<length vs])"
| "object_keys (DStr s) = Inr (map digits [0..<length s])"
| "object_keys _ = Inr []"

text \<open>\<open>o[k] = v\<close>, \<open>{...a, ...b}\<close> and \<open>const {k1, k2, ...rest} = o\<close>\<close>

primrec put :: "string \<Rightarrow> doc \<Rightarrow> props \<Rightarrow> props" where
  "put k v [] = [(k, v)]"
| "put k v (e # kvs) = (if fst e = k then (k, v) # kvs else e # put k v kvs)"

definition spread :: "props \<Rightarrow> props \<Rightarrow> props" where
  "spread a b = fold (\<lambda>k. put k (field b k)) (own_keys b) a"

definition without :: "string list \<Rightarrow> props \<Rightarrow> props" where
  "without ks kvs = map (\<lambda>k. (k, field kvs k)) (filter (\<lambda>k. k \<notin> set ks) (own_keys kvs))"

lemma map_of_put [simp]: "map_of (put k v kvs) = (map_of kvs)(k \<mapsto> v)"
  by (induction kvs) (auto simp: fun_eq_iff)

lemma field_put [simp]: "field (put k v kvs) l = (if l = k then v else field kvs l)"
  by (simp add: field_def)

lemma keys_put [simp]: "fst ` set (put k v kvs) = insert k (fst ` set kvs)"
  by (induction kvs) auto

lemma distinct_put: "distinct (map fst kvs) \<Longrightarrow> distinct (map fst (put k v kvs))"
proof (induction kvs)
  case (Cons e kvs)
  have "set (map fst (put k v kvs)) = insert k (set (map fst kvs))" by simp
  with Cons show ?case by (auto simp del: keys_put)
qed simp

lemma field_undef: "k \<notin> fst ` set kvs \<Longrightarrow> field kvs k = DUndef"
  by (simp add: field_def map_of_eq_None_iff [THEN iffD2])

lemma field_fold_put:
  "field (fold (\<lambda>k. put k (f k)) ks kvs) l = (if l \<in> set ks then f l else field kvs l)"
  by (induction ks arbitrary: kvs) auto

lemma keys_fold_put: "fst ` set (fold (\<lambda>k. put k (f k)) ks kvs) = set ks \<union> fst ` set kvs"
  by (induction ks arbitrary: kvs) auto

lemma distinct_fold_put: "distinct (map fst kvs) \<Longrightarrow> distinct (map fst (fold (\<lambda>k. put k (f k)) ks kvs))"
  by (induction ks arbitrary: kvs) (simp_all add: distinct_put)

lemma field_spread: "field (spread a b) k = (if k \<in> fst ` set b then field b k else field a k)"
  unfolding spread_def field_fold_put by simp

lemma keys_spread [simp]: "fst ` set (spread a b) = fst ` set a \<union> fst ` set b"
  unfolding spread_def keys_fold_put by auto

lemma distinct_spread: "distinct (map fst a) \<Longrightarrow> distinct (map fst (spread a b))"
  unfolding spread_def by (rule distinct_fold_put)

lemma keys_without [simp]: "fst ` set (without ks kvs) = fst ` set kvs - set ks"
  by (auto simp: without_def image_comp)

lemma field_without: "field (without ks kvs) k = (if k \<in> set ks then DUndef else field kvs k)"
proof -
  have "map_of (map (\<lambda>k. (k, field kvs k)) xs) k = (if k \<in> set xs then Some (field kvs k) else None)" for xs
    by (induction xs) auto
  then show ?thesis
    using field_undef [of k kvs] by (auto simp: without_def field_def)
qed

section \<open>Text\<close>

primrec join :: "string \<Rightarrow> string list \<Rightarrow> string" where
  "join sep [] = []"
| "join sep (s # ss) = (if ss = [] then s else s @ sep @ join sep ss)"

declare join.simps [simp del]

lemma join_Nil [simp]: "join sep [] = []" "join sep [s] = s"
  by (simp_all add: join.simps)

lemma join_Cons [simp]: "ss \<noteq> [] \<Longrightarrow> join sep (s # ss) = s @ sep @ join sep ss"
  by (simp add: join.simps)

fun doc_text :: "doc \<Rightarrow> string" where
  "doc_text DUndef = ''undefined''"
| "doc_text DNull = ''null''"
| "doc_text (DBool b) = (if b then ''true'' else ''false'')"
| "doc_text (DNum n) = dec_text n"
| "doc_text (DStr s) = s"
| "doc_text (DArr vs) = join '','' (map (\<lambda>v. if v = DUndef \<or> v = DNull then [] else doc_text v) vs)"
| "doc_text (DObj _) = ''[object Object]''"

text \<open>\<open>===\<close> on values that are no objects; numbers are equal if they have the same value.\<close>

fun same_prim :: "doc \<Rightarrow> doc \<Rightarrow> bool" where
  "same_prim (DNum (Dec m k)) (DNum (Dec n l)) = (m * 10 ^ l = n * 10 ^ k)"
| "same_prim a b = (a = b \<and> \<not> is_object a)"

end
