(* ===== verification/Json_Pointer.thy ===== *)
theory Json_Pointer
  imports Doc_Value
begin

text \<open>
  JSON pointers: the module 3573 of the bundle (json-pointer) and the class \<open>Da\<close> on top of it, whose
  \<open>parse\<close>, which skips a leading hash, also replaces the one of the module.
\<close>

section \<open>Escaping\<close>

text \<open>\<open>s.replace(/ab/g, r)\<close> for a pattern of two characters\<close>

fun replace2 :: "char \<Rightarrow> char \<Rightarrow> string \<Rightarrow> string \<Rightarrow> string" where
  "replace2 a b r (c # d # s) = (if c = a \<and> d = b then r @ replace2 a b r s else c # replace2 a b r (d # s))"
| "replace2 a b r s = s"

definition replace1 :: "char \<Rightarrow> string \<Rightarrow> string \<Rightarrow> string" where
  "replace1 a r s = concat (map (\<lambda>c. if c = a then r else [c]) s)"

definition escape :: "string \<Rightarrow> string" where
  "escape s = replace1 CHR ''/'' ''~1'' (replace1 CHR ''~'' ''~0'' s)"

definition unescape :: "string \<Rightarrow> string" where
  "unescape s = replace2 CHR ''~'' CHR ''0'' ''~'' (replace2 CHR ''~'' CHR ''1'' ''/'' s)"

section \<open>Parsing and printing\<close>

fun split_at :: "char \<Rightarrow> string \<Rightarrow> string list" where
  "split_at c [] = [[]]"
| "split_at c (d # s) =
     (if d = c then [] # split_at c s
      else (case split_at c s of [] \<Rightarrow> [[d]] | t # ts \<Rightarrow> (d # t) # ts))"

fun pointer_parse :: "string \<Rightarrow> string list js" where
  "pointer_parse [] = Inr []"
| "pointer_parse (c # s) =
     (if c \<noteq> CHR ''/'' then Inl (PlainError (''Invalid JSON pointer: '' @ c # s))
      else Inr (map unescape (split_at CHR ''/'' s)))"

definition compile :: "string list \<Rightarrow> string" where
  "compile ts = (if ts = [] then [] else CHR ''/'' # join ''/'' (map escape ts))"

fun da_parse :: "string \<Rightarrow> string list js" where
  "da_parse (c # s) = pointer_parse (if c = CHR ''#'' then s else c # s)"
| "da_parse [] = pointer_parse []"

text \<open>\<open>n[n.length - t]\<close> is undefined for a pointer with fewer tokens.\<close>

definition base_name :: "string \<Rightarrow> nat \<Rightarrow> string option js" where
  "base_name e t =
     js_bind (da_parse e) (\<lambda>n. Inr (if 0 < t \<and> t \<le> length n then Some (n ! (length n - t)) else None))"

text \<open>\<open>n.slice(0, n.length - t)\<close> counts a negative end from the end of the list.\<close>

definition dir_name :: "string \<Rightarrow> nat \<Rightarrow> string js" where
  "dir_name e t =
     js_bind (da_parse e) (\<lambda>n.
       Inr (compile (take (if t \<le> length n then length n - t else 2 * length n - t) n)))"

definition relative :: "string \<Rightarrow> string \<Rightarrow> string list js" where
  "relative e t = js_bind (da_parse e) (\<lambda>n. js_bind (da_parse t) (\<lambda>m. Inr (drop (length n) m)))"

definition pointer_join :: "string \<Rightarrow> string list \<Rightarrow> string js" where
  "pointer_join e ts = js_bind (da_parse e) (\<lambda>n. Inr (compile (n @ ts)))"

text \<open>\<open>get\<close>: every token must be a key of an object.\<close>

fun get_tokens :: "string list \<Rightarrow> doc \<Rightarrow> doc js" where
  "get_tokens [] e = Inr e"
| "get_tokens (i # ts) e =
     (if typeof e \<noteq> ''object'' then Inl (PlainError (''Invalid reference token: '' @ i))
      else js_bind (doc_in i e) (\<lambda>b.
        if b then js_bind (doc_get e i) (get_tokens ts)
        else Inl (PlainError (''Invalid reference token: '' @ i))))"

definition pointer_get :: "doc \<Rightarrow> string \<Rightarrow> doc js" where
  "pointer_get e p = js_bind (da_parse p) (\<lambda>ts. get_tokens ts e)"

section \<open>What was printed is read back\<close>

lemma replace2_escaped: "unescape (escape s) = s"
proof (induction s)
  case Nil
  then show ?case by (simp add: escape_def unescape_def replace1_def)
next
  case (Cons c s)
  let ?r1 = "replace2 CHR ''~'' CHR ''1'' ''/''" and ?r0 = "replace2 CHR ''~'' CHR ''0'' ''~''"
  have simple: "?r1 (x # t) = x # ?r1 t" if "x \<noteq> CHR ''~''" for x t
    using that by (cases t) simp_all
  have simple0: "?r0 (x # t) = x # ?r0 t" if "x \<noteq> CHR ''~''" for x t
    using that by (cases t) simp_all
  show ?case
    using Cons.IH
    by (cases "c = CHR ''~''"; cases "c = CHR ''/''")
      (simp_all add: escape_def unescape_def replace1_def simple simple0)
qed

lemma escape_no_slash: "CHR ''/'' \<notin> set (escape s)"
  by (auto simp: escape_def replace1_def)

lemma split_at_nonempty [simp]: "split_at c s \<noteq> []"
  by (induction c s rule: split_at.induct) (auto split: list.split)

lemma split_at_none: "c \<notin> set t \<Longrightarrow> split_at c t = [t]"
  by (induction t) auto

lemma split_at_append: "c \<notin> set t \<Longrightarrow> split_at c (t @ c # s) = t # split_at c s"
  by (induction t) auto

lemma split_at_join:
  "ts \<noteq> [] \<Longrightarrow> \<forall>t \<in> set ts. c \<notin> set t \<Longrightarrow> split_at c (join [c] ts) = ts"
  by (induction ts) (auto simp: join.simps split_at_none split_at_append)

lemma parse_compile: "da_parse (compile ts) = Inr ts"
proof (cases ts)
  case (Cons t us)
  have "split_at CHR ''/'' (join ''/'' (map escape ts)) = map escape ts"
    using Cons escape_no_slash by (intro split_at_join) auto
  then show ?thesis
    by (simp add: compile_def Cons comp_def replace2_escaped del: list.map)
qed (simp add: compile_def)

text \<open>A pointer that starts with a slash or a hash and a slash is printed as it was, up to the hash.\<close>

lemma join_split_at: "join [c] (split_at c s) = s"
proof (induction s)
  case (Cons d s)
  obtain t ts where ts: "split_at c s = t # ts" by (cases "split_at c s") auto
  with Cons show ?case by (cases ts) (auto simp: join.simps)
qed simp

lemma base_name_compile: "base_name (compile (ts @ [t])) 1 = Inr (Some t)"
  by (simp add: base_name_def parse_compile)

lemma dir_name_compile: "dir_name (compile (ts @ [t])) 1 = Inr (compile ts)"
  by (simp add: dir_name_def parse_compile)

lemma join_compile: "pointer_join (compile ts) us = Inr (compile (ts @ us))"
  by (simp add: pointer_join_def parse_compile)

lemma relative_compile: "relative (compile ts) (compile (ts @ us)) = Inr us"
  by (simp add: relative_def parse_compile)

lemma get_append: "get_tokens (ts @ us) e = js_bind (get_tokens ts e) (get_tokens us)"
  by (induction ts e rule: get_tokens.induct) (simp_all add: js_bind_assoc js_bind_def split: sum.split)

lemma get_join:
  "js_bind (pointer_join (compile ts) us) (pointer_get e) = js_bind (get_tokens ts e) (get_tokens us)"
  by (simp add: join_compile pointer_get_def parse_compile get_append)

end
