(* ===== verification/Js_Sort.thy ===== *)
theory Js_Sort
  imports Main "HOL-Library.Multiset" "HOL-Library.Sublist"
begin

text \<open>
  \<open>Array.prototype.sort\<close> with a comparison function, which is a stable sort if the function is
  consistent. The locale \<open>comparator\<close> states when it is, and what the result is then.
\<close>

primrec insort_by :: "('a \<Rightarrow> 'a \<Rightarrow> int) \<Rightarrow> 'a \<Rightarrow> 'a list \<Rightarrow> 'a list" where
  "insort_by cmp x [] = [x]"
| "insort_by cmp x (y # ys) = (if cmp x y \<le> 0 then x # y # ys else y # insort_by cmp x ys)"

primrec sort_by :: "('a \<Rightarrow> 'a \<Rightarrow> int) \<Rightarrow> 'a list \<Rightarrow> 'a list" where
  "sort_by cmp [] = []"
| "sort_by cmp (x # xs) = insort_by cmp x (sort_by cmp xs)"

lemma set_insort_by [simp]: "set (insort_by cmp x ys) = insert x (set ys)"
  by (induction ys) auto

lemma set_sort_by [simp]: "set (sort_by cmp xs) = set xs"
  by (induction xs) auto

lemma mset_sort_by [simp]: "mset (sort_by cmp xs) = mset xs"
proof (induction xs)
  case (Cons x xs)
  have "mset (insort_by cmp x ys) = add_mset x (mset ys)" for ys
    by (induction ys) auto
  with Cons show ?case by simp
qed simp

lemma length_sort_by [simp]: "length (sort_by cmp xs) = length xs"
  by (metis mset_sort_by size_mset)

lemma distinct_sort_by [simp]: "distinct (sort_by cmp xs) = distinct xs"
  by (metis mset_eq_imp_distinct_iff mset_sort_by)

locale comparator =
  fixes cmp :: "'a \<Rightarrow> 'a \<Rightarrow> int"
  assumes total: "cmp x y \<le> 0 \<or> cmp y x \<le> 0"
    and trans: "cmp x y \<le> 0 \<Longrightarrow> cmp y z \<le> 0 \<Longrightarrow> cmp x z \<le> 0"
begin

lemma sorted_insort_by:
  "sorted_wrt (\<lambda>x y. cmp x y \<le> 0) ys \<Longrightarrow> sorted_wrt (\<lambda>x y. cmp x y \<le> 0) (insort_by cmp x ys)"
proof (induction ys)
  case (Cons y ys)
  then show ?case using total [of x y] trans [of x y] by auto
qed simp

lemma sorted_sort_by: "sorted_wrt (\<lambda>x y. cmp x y \<le> 0) (sort_by cmp xs)"
  by (induction xs) (auto intro: sorted_insort_by)

text \<open>Stability: elements that compare equal to a given one keep their order.\<close>

definition equal_to :: "'a \<Rightarrow> 'a \<Rightarrow> bool" where
  "equal_to a x \<longleftrightarrow> cmp a x \<le> 0 \<and> cmp x a \<le> 0"

lemma filter_insort_by: "filter (equal_to a) (insort_by cmp x ys) = filter (equal_to a) (x # ys)"
proof (induction ys)
  case (Cons y ys)
  then show ?case
    using trans [of x a y] unfolding equal_to_def by auto
qed simp

lemma stable_sort_by: "filter (equal_to a) (sort_by cmp xs) = filter (equal_to a) xs"
  by (induction xs) (simp_all add: filter_insort_by)

lemma sort_by_sorted: "sorted_wrt (\<lambda>x y. cmp x y \<le> 0) xs \<Longrightarrow> sort_by cmp xs = xs"
proof (induction xs)
  case (Cons x xs)
  then show ?case by (cases xs) auto
qed simp

lemma sort_by_again: "sort_by cmp (sort_by cmp xs) = sort_by cmp xs"
  by (rule sort_by_sorted [OF sorted_sort_by])

end

text \<open>Comparing by a number, and the other way round.\<close>

lemma comparator_diff: "comparator (\<lambda>x y. f x - f y)"
  by unfold_locales auto

lemma comparator_on: "comparator cmp \<Longrightarrow> comparator (\<lambda>x y. cmp (f x) (f y))"
  unfolding comparator_def by blast

lemma comparator_swap: "comparator cmp \<Longrightarrow> comparator (\<lambda>x y. cmp y x)"
  unfolding comparator_def by blast

end
