(* ===== verification/Openapi_Helpers.thy ===== *)
theory Openapi_Helpers
  imports Json_Pointer Js_Sort
begin

text \<open>
  The helpers of the viewer for API documents (line 39 of the bundle): the kinds of response codes, the
  texts of constraints, the order of fields, the names of definitions, the types of schemas.
\<close>

section \<open>Response codes\<close>

text \<open>\<open>/\dxx/i\<close> anywhere in the code.\<close>

definition is_x :: "char \<Rightarrow> bool" where
  "is_x c \<longleftrightarrow> c = CHR ''x'' \<or> c = CHR ''X''"

fun is_range_code :: "string \<Rightarrow> bool" where
  "is_range_code (c # d # e # s) = (is_digit c \<and> is_x d \<and> is_x e \<or> is_range_code (d # e # s))"
| "is_range_code s = False"

datatype response_type = Success | Redirect | Error | Info

definition code_number :: "string \<Rightarrow> int option" where
  "code_number e = map_option (\<lambda>n. if is_range_code e then n * 100 else n) (js_parse_int e)"

text \<open>\<open>Ga\<close>: comparisons with NaN are false, so that a code without a number is a success.\<close>

definition status_type :: "string \<Rightarrow> bool \<Rightarrow> response_type js" where
  "status_type e default_as_error =
     (if e = ''default'' then Inr (if default_as_error then Error else Success)
      else (case code_number e of
          None \<Rightarrow> Inr Success
        | Some n \<Rightarrow>
            if n < 100 \<or> 599 < n then Inl (PlainError ''invalid HTTP code'')
            else Inr (if 300 \<le> n \<and> n < 400 then Redirect else if 400 \<le> n then Error
                      else if n < 200 then Info else Success)))"

text \<open>
  \<open>Jr\<close>: \<open>parseFloat\<close> finds a number at the beginning, and the whole text is a finite number. White
  space around it is skipped. A decimal number is finite if it is less than half a unit in the last
  place above the largest double.
\<close>

definition trimmed :: "string \<Rightarrow> string" where
  "trimmed s = rev (dropWhile js_space (rev (dropWhile js_space s)))"

definition unsigned :: "string \<Rightarrow> string" where
  "unsigned s = (case s of c # t \<Rightarrow> if c = CHR ''-'' \<or> c = CHR ''+'' then t else s | [] \<Rightarrow> [])"

definition decimal :: "string \<Rightarrow> (nat \<times> int) option" where
  "decimal s =
     (let whole = takeWhile is_digit s; r1 = dropWhile is_digit s;
          frac = (case r1 of c # t \<Rightarrow> if c = CHR ''.'' then takeWhile is_digit t else [] | [] \<Rightarrow> []);
          r2 = (case r1 of c # t \<Rightarrow> if c = CHR ''.'' then dropWhile is_digit t else r1 | [] \<Rightarrow> []);
          m = nat (digits_value (whole @ frac)); e0 = - int (length frac) in
      if whole = [] \<and> frac = [] then None
      else (case r2 of
          [] \<Rightarrow> Some (m, e0)
        | c # t \<Rightarrow>
            if (c = CHR ''e'' \<or> c = CHR ''E'') \<and> unsigned t \<noteq> [] \<and> list_all is_digit (unsigned t)
            then Some (m, e0 + (if hd t = CHR ''-'' then - digits_value (unsigned t) else digits_value (unsigned t)))
            else None))"

definition max_double :: nat where
  "max_double = 2 ^ 1024 - 2 ^ 970"

definition finite_double :: "nat \<times> int \<Rightarrow> bool" where
  "finite_double me =
     (case me of (m, e) \<Rightarrow> m = 0 \<or> (if 0 \<le> e then e < 400 \<and> m * 10 ^ nat e < max_double else m < max_double * 10 ^ nat (- e)))"

definition radix_digit :: "nat \<Rightarrow> char \<Rightarrow> nat option" where
  "radix_digit b c =
     (let n = (of_char c :: nat);
          v = (if is_digit c then Some (n - 48) else if 97 \<le> n \<and> n \<le> 102 then Some (n - 87)
               else if 65 \<le> n \<and> n \<le> 70 then Some (n - 55) else None) in
      case v of Some d \<Rightarrow> if d < b then Some d else None | None \<Rightarrow> None)"

definition radix_number :: "nat \<Rightarrow> string \<Rightarrow> bool" where
  "radix_number b s \<longleftrightarrow>
     s \<noteq> [] \<and> list_all (\<lambda>c. radix_digit b c \<noteq> None) s \<and>
     foldl (\<lambda>n c. n * b + the (radix_digit b c)) 0 s < max_double"

definition prefixed_number :: "string \<Rightarrow> bool" where
  "prefixed_number s \<longleftrightarrow>
     (case s of
        z # x # t \<Rightarrow>
          z = CHR ''0'' \<and>
          (x \<in> set ''xX'' \<and> radix_number 16 t \<or> x \<in> set ''oO'' \<and> radix_number 8 t \<or> x \<in> set ''bB'' \<and> radix_number 2 t)
      | _ \<Rightarrow> False)"

definition isNumeric :: "string \<Rightarrow> bool" where
  "isNumeric s \<longleftrightarrow>
     (case decimal (unsigned (trimmed s)) of Some me \<Rightarrow> finite_double me | None \<Rightarrow> prefixed_number (trimmed s))"

definition isStatusCode :: "string \<Rightarrow> bool" where
  "isStatusCode e \<longleftrightarrow> e = ''default'' \<or> isNumeric e \<or> is_range_code e"

text \<open>
  The responses of an operation (\<open>_u.responses\<close>): the keys that are codes, each with its kind. Whether
  there is a success is noted for all keys but the default, before those that are no codes are dropped.
\<close>

fun scan_codes :: "string list \<Rightarrow> bool \<Rightarrow> (string list \<times> bool) js" where
  "scan_codes [] e = Inr ([], e)"
| "scan_codes (t # ts) e =
     (if t = ''default'' then js_bind (scan_codes ts e) (\<lambda>(us, e'). Inr (t # us, e'))
      else js_bind (status_type t False) (\<lambda>ty.
        js_bind (scan_codes ts (e \<or> ty = Success)) (\<lambda>(us, e').
          Inr (if isStatusCode t then t # us else us, e'))))"

primrec type_codes :: "bool \<Rightarrow> string list \<Rightarrow> (string \<times> response_type) list js" where
  "type_codes e [] = Inr []"
| "type_codes e (t # ts) =
     js_bind (status_type t e) (\<lambda>ty. js_bind (type_codes e ts) (\<lambda>us. Inr ((t, ty) # us)))"

definition responses :: "props \<Rightarrow> (string \<times> response_type) list js" where
  "responses rs = js_bind (scan_codes (own_keys rs) False) (\<lambda>(ts, e). type_codes e ts)"

section \<open>Names of definitions and HTTP methods\<close>

definition has_prefix :: "string \<Rightarrow> string \<Rightarrow> bool" where
  "has_prefix p s \<longleftrightarrow> take (length p) s = p"

text \<open>\<open>ss\<close> and \<open>ls\<close>, by the pattern \<open>^#/components/(schemas|pathItems)/([^/]+)$\<close>\<close>

definition after_prefix :: "string \<Rightarrow> string \<Rightarrow> string option" where
  "after_prefix p s =
     (if has_prefix p s \<and> drop (length p) s \<noteq> [] \<and> CHR ''/'' \<notin> set (drop (length p) s)
      then Some (drop (length p) s) else None)"

definition getDefinitionName :: "string \<Rightarrow> string option" where
  "getDefinitionName s =
     (case after_prefix ''#/components/schemas/'' s of
        Some n \<Rightarrow> Some n
      | None \<Rightarrow> after_prefix ''#/components/pathItems/'' s)"

definition isNamedDefinition :: "string \<Rightarrow> bool" where
  "isNamedDefinition s \<longleftrightarrow> getDefinitionName s \<noteq> None"

definition operationNames :: "string list" where
  "operationNames = [''get'', ''post'', ''put'', ''head'', ''patch'', ''delete'', ''options'', ''$ref'']"

definition isOperationName :: "string \<Rightarrow> bool" where
  "isOperationName s \<longleftrightarrow> s \<in> set operationNames"

definition lower_ascii :: "string \<Rightarrow> string" where
  "lower_ascii = map to_lower"

fun mentions :: "string \<Rightarrow> string \<Rightarrow> bool" where
  "mentions p [] = (p = [])"
| "mentions p (c # s) = (has_prefix p (c # s) \<or> mentions p s)"

definition isJsonLike :: "string \<Rightarrow> bool" where
  "isJsonLike s \<longleftrightarrow> mentions ''json'' (lower_ascii s)"

section \<open>Types of schemas\<close>

definition schemaKeywordTypes :: "(string \<times> string) list" where
  "schemaKeywordTypes =
     [(''multipleOf'', ''number''), (''maximum'', ''number''), (''exclusiveMaximum'', ''number''),
      (''minimum'', ''number''), (''exclusiveMinimum'', ''number''), (''maxLength'', ''string''),
      (''minLength'', ''string''), (''pattern'', ''string''), (''contentEncoding'', ''string''),
      (''contentMediaType'', ''string''), (''items'', ''array''), (''maxItems'', ''array''),
      (''minItems'', ''array''), (''uniqueItems'', ''array''), (''maxProperties'', ''object''),
      (''minProperties'', ''object''), (''required'', ''object''), (''additionalProperties'', ''object''),
      (''unevaluatedProperties'', ''object''), (''properties'', ''object''), (''patternProperties'', ''object'')]"

definition detectType :: "props \<Rightarrow> doc" where
  "detectType e =
     (if field e ''type'' \<noteq> DUndef \<and> \<not> is_array (field e ''type'') then field e ''type''
      else (case List.find (\<lambda>(n, t). field e n \<noteq> DUndef) schemaKeywordTypes of
          Some (n, t) \<Rightarrow> DStr t
        | None \<Rightarrow> DStr ''any''))"

fun arr_includes :: "doc \<Rightarrow> string \<Rightarrow> bool" where
  "arr_includes (DArr vs) s = (DStr s \<in> set vs)"
| "arr_includes _ s = False"

text \<open>\<open>hasType\<close>, and the test in \<open>Za\<close>\<close>

definition hasType :: "doc \<Rightarrow> string \<Rightarrow> bool" where
  "hasType t s \<longleftrightarrow> t = DStr s \<or> arr_includes t s"

text \<open>\<open>Za\<close>: nothing is shown below a schema without properties or items of its own.\<close>

definition plain_here :: "props \<Rightarrow> doc \<Rightarrow> bool js" where
  "plain_here e t =
     (if hasType t ''object'' then
        (if field e ''properties'' \<noteq> DUndef then js_bind (object_keys (field e ''properties'')) (\<lambda>ks. Inr (ks = []))
         else Inr (field e ''additionalProperties'' = DUndef \<and> field e ''unevaluatedProperties'' = DUndef \<and>
           field e ''patternProperties'' = DUndef))
      else Inr True)"

lemma size_field: "field kvs k \<noteq> DUndef \<Longrightarrow> size (field kvs k) < size (DObj kvs)"
proof (induction kvs)
  case (Cons e kvs)
  then show ?case by (cases e) (auto simp: field_def split: if_splits)
qed (simp add: field_def)

function isPrimitiveType :: "doc \<Rightarrow> doc \<Rightarrow> bool js" where
  "isPrimitiveType e t =
     (case e of
        DObj kvs \<Rightarrow>
          if truthy_doc (field kvs ''x-circular-ref'') then Inr True
          else if field kvs ''oneOf'' \<noteq> DUndef \<or> field kvs ''anyOf'' \<noteq> DUndef then Inr False
          else if truthy_doc (field kvs ''if'') \<and> (truthy_doc (field kvs ''then'') \<or> truthy_doc (field kvs ''else''))
          then Inr False
          else js_bind (plain_here kvs t) (\<lambda>n.
            if \<not> is_array (field kvs ''items'') \<and> \<not> is_array (field kvs ''prefixItems'') \<and>
              field kvs ''items'' \<noteq> DUndef \<and> \<not> is_boolean (field kvs ''items'') \<and> hasType t ''array''
            then js_bind (doc_get (field kvs ''items'') ''type'') (isPrimitiveType (field kvs ''items''))
            else Inr n)
      | DUndef \<Rightarrow> Inl (TypeError ''x-circular-ref'')
      | DNull \<Rightarrow> Inl (TypeError ''x-circular-ref'')
      | _ \<Rightarrow> Inr True)"
  by pat_completeness auto
termination
  by (relation "measure (\<lambda>(e, t). size e)") (auto dest: size_field)

declare isPrimitiveType.simps [simp del]

section \<open>Texts of constraints\<close>

text \<open>\<open>cs\<close>\<close>

definition humanizeRangeConstraint :: "string \<Rightarrow> doc \<Rightarrow> doc \<Rightarrow> string option" where
  "humanizeRangeConstraint description lo hi =
     (if lo \<noteq> DUndef \<and> hi \<noteq> DUndef then
        Some (if same_prim lo hi then ''= '' @ doc_text lo @ '' '' @ description
              else ''[ '' @ doc_text lo @ '' .. '' @ doc_text hi @ '' ] '' @ description)
      else if hi \<noteq> DUndef then Some (''<= '' @ doc_text hi @ '' '' @ description)
      else if lo \<noteq> DUndef then
        Some (if same_prim lo (DNum (Dec 1 0)) then ''non-empty'' else ''>= '' @ doc_text lo @ '' '' @ description)
      else None)"

text \<open>\<open>/^0\.0*1$/\<close>\<close>

definition decimal_place :: "string \<Rightarrow> bool" where
  "decimal_place s \<longleftrightarrow> has_prefix ''0.'' s \<and> dropWhile (\<lambda>c. c = CHR ''0'') (drop 2 s) = ''1''"

fun humanizeMultipleOfConstraint :: "doc \<Rightarrow> string option js" where
  "humanizeMultipleOfConstraint DUndef = Inr None"
| "humanizeMultipleOfConstraint DNull = Inl (TypeError ''toString'')"
| "humanizeMultipleOfConstraint e =
     (let t = doc_text e in
      Inr (Some (if decimal_place t then ''decimal places <= '' @ digits (length t - 2) else ''multiple of '' @ t)))"

text \<open>
  The bounds of a number: a bound that is exclusive in the style of JSON Schema is a number, in the style
  of OpenAPI 3.0 a flag. \<open>Math.min\<close> and \<open>Math.max\<close> are taken of numbers only.
\<close>

definition dec_min :: "dec \<Rightarrow> dec \<Rightarrow> dec" where
  "dec_min a b = (if dec_less b a then b else a)"

definition dec_max :: "dec \<Rightarrow> dec \<Rightarrow> dec" where
  "dec_max a b = (if dec_less a b then b else a)"

definition bound :: "(dec \<Rightarrow> dec \<Rightarrow> dec) \<Rightarrow> doc \<Rightarrow> doc \<Rightarrow> doc js" where
  "bound pick exclusive plain =
     (case exclusive of
        DNum x \<Rightarrow>
          (case plain of
             DUndef \<Rightarrow> Inr (DNum x)
           | DNull \<Rightarrow> Inr (DNum x)
           | DNum y \<Rightarrow> Inr (DNum (pick x y))
           | _ \<Rightarrow> Inl (Outside_Model ''Math.min''))
      | _ \<Rightarrow> Inr plain)"

fun is_number :: "doc \<Rightarrow> bool" where
  "is_number (DNum _) = True"
| "is_number _ = False"

definition is_exclusive :: "doc \<Rightarrow> bool" where
  "is_exclusive v \<longleftrightarrow> is_number v \<or> truthy_doc v"

definition numeric_range :: "props \<Rightarrow> (doc \<times> bool \<times> doc \<times> bool) js" where
  "numeric_range e =
     js_bind (bound dec_min (field e ''exclusiveMinimum'') (field e ''minimum'')) (\<lambda>r.
     js_bind (bound dec_max (field e ''exclusiveMaximum'') (field e ''maximum'')) (\<lambda>u.
     Inr (r, is_exclusive (field e ''exclusiveMinimum''), u, is_exclusive (field e ''exclusiveMaximum''))))"

definition humanizeNumericRange :: "props \<Rightarrow> string option js" where
  "humanizeNumericRange e =
     js_bind (numeric_range e) (\<lambda>(r, i, u, a).
     Inr (if r \<noteq> DUndef \<and> u \<noteq> DUndef then
            Some ((if i then ''( '' else ''[ '') @ doc_text r @ '' .. '' @ doc_text u @ (if a then '' )'' else '' ]''))
          else if u \<noteq> DUndef then Some ((if a then ''< '' else ''<= '') @ doc_text u)
          else if r \<noteq> DUndef then Some ((if i then ''> '' else ''>= '') @ doc_text r)
          else None))"

definition option_list :: "'a option \<Rightarrow> 'a list" where
  "option_list x = (case x of None \<Rightarrow> [] | Some v \<Rightarrow> [v])"

text \<open>\<open>us\<close>\<close>

definition humanizeConstraints :: "props \<Rightarrow> string list js" where
  "humanizeConstraints e =
     js_bind (humanizeMultipleOfConstraint (field e ''multipleOf'')) (\<lambda>m.
     js_bind (humanizeNumericRange e) (\<lambda>r.
     Inr (option_list (humanizeRangeConstraint ''characters'' (field e ''minLength'') (field e ''maxLength'')) @
          option_list (humanizeRangeConstraint ''items'' (field e ''minItems'') (field e ''maxItems'')) @
          option_list (humanizeRangeConstraint ''properties'' (field e ''minProperties'') (field e ''maxProperties'')) @
          option_list m @ option_list r @ (if truthy_doc (field e ''uniqueItems'') then [''unique''] else []))))"

section \<open>Order\<close>

text \<open>\<open>indexOf\<close>, -1 if it is missing\<close>

fun position_of :: "'a \<Rightarrow> 'a list \<Rightarrow> int" where
  "position_of x [] = -1"
| "position_of x (y # ys) = (if x = y then 0 else let i = position_of x ys in if i < 0 then -1 else i + 1)"

text \<open>\<open>ps\<close>: required fields in the order of the list, other required fields, other fields.\<close>

definition sortByRequired :: "('f \<Rightarrow> bool) \<Rightarrow> ('f \<Rightarrow> string) \<Rightarrow> 'f list \<Rightarrow> string list \<Rightarrow> 'f list" where
  "sortByRequired required name fields order =
     sort_by (\<lambda>e n. position_of (name e) order - position_of (name n) order)
       (filter (\<lambda>e. required e \<and> name e \<in> set order) fields) @
     filter (\<lambda>e. required e \<and> name e \<notin> set order) fields @
     filter (\<lambda>e. \<not> required e) fields"

text \<open>\<open>ds\<close>, and \<open>Cs\<close> with its sign; \<open>locale_compare\<close> is \<open>localeCompare\<close>.\<close>

definition sortByField :: "(string \<Rightarrow> string \<Rightarrow> int) \<Rightarrow> ('f \<Rightarrow> string) \<Rightarrow> 'f list \<Rightarrow> 'f list" where
  "sortByField locale_compare name = sort_by (\<lambda>e n. locale_compare (name e) (name n))"

section \<open>Extensions, parameters, media types and samples\<close>

definition redocExtensions :: "string list" where
  "redocExtensions =
     [''x-circular-ref'', ''x-parentRefs'', ''x-refsStack'', ''x-code-samples'', ''x-codeSamples'',
      ''x-displayName'', ''x-examples'', ''x-ignoredHeaderParameters'', ''x-logo'', ''x-nullable'',
      ''x-servers'', ''x-tagGroups'', ''x-traitTag'', ''x-additionalPropertiesName'', ''x-explicitMappingOnly'']"

datatype show_extensions = All_Extensions | Named "string list"

text \<open>\<open>gs\<close>\<close>

definition extractExtensions :: "props \<Rightarrow> show_extensions \<Rightarrow> props" where
  "extractExtensions e t =
     (let shown = (\<lambda>k. has_prefix ''x-'' k \<and>
            (case t of All_Extensions \<Rightarrow> k \<notin> set redocExtensions | Named ks \<Rightarrow> k \<in> set ks)) in
      fold (\<lambda>k. put k (field e k)) (filter shown (own_keys e)) [])"

text \<open>The parameters of an operation: those of the path, unless the operation has its own.\<close>

definition param_key :: "props \<Rightarrow> string" where
  "param_key p = doc_text (field p ''name'') @ ''_'' @ doc_text (field p ''in'')"

definition mergeParams :: "('p \<Rightarrow> props) \<Rightarrow> 'p list \<Rightarrow> 'p list \<Rightarrow> 'p list" where
  "mergeParams resolve path_params operation_params =
     filter (\<lambda>t. param_key (resolve t) \<notin> set (map (\<lambda>t. param_key (resolve t)) operation_params)) path_params @
     operation_params"

text \<open>\<open>mergeSimilarMediaTypes\<close>\<close>

definition mime_base :: "string \<Rightarrow> string" where
  "mime_base n = trimmed (takeWhile (\<lambda>c. c \<noteq> CHR '';'') n)"

text \<open>The entries are objects (numbers, booleans and null would spread to nothing); the first one of a base is kept.\<close>

definition props_of :: "doc \<Rightarrow> props" where
  "props_of v = (case v of DObj kvs \<Rightarrow> kvs | _ \<Rightarrow> [])"

definition mergeSimilarMediaTypes :: "props \<Rightarrow> props" where
  "mergeSimilarMediaTypes e =
     fold (\<lambda>n t. let r = field e n; b = mime_base n in
             if truthy_doc (field t b) then put b (DObj (spread (spread [] (props_of (field t b))) (props_of r))) t
             else put b r t)
       (own_keys e) []"

text \<open>The sample of the request is inserted at a position given by the options.\<close>

definition slice_end :: "int \<Rightarrow> nat \<Rightarrow> nat" where
  "slice_end i n = (if i < 0 then nat (int n + i) else min (nat i) n)"

definition insert_sample :: "int \<Rightarrow> 'a \<Rightarrow> 'a list \<Rightarrow> 'a list" where
  "insert_sample payload_idx x e =
     (let n = slice_end (min (int (length e)) payload_idx) (length e) in take n e @ [x] @ drop n e)"

end
