(* ===== verification/Openapi_Facts.thy ===== *)
theory Openapi_Facts
  imports Complex_Main Openapi_Helpers
begin

text \<open>
  What the helpers for API documents compute: the kind of every response code, the range of numbers
  that a constraint shows, the order of fields, and which parameters an operation has.
\<close>

section \<open>Response codes\<close>

text \<open>What the scan notes of a key.\<close>

definition success_key :: "string \<Rightarrow> bool" where
  "success_key t \<longleftrightarrow> t \<noteq> ''default'' \<and> status_type t False = Inr Success"

definition readable_key :: "string \<Rightarrow> bool" where
  "readable_key t \<longleftrightarrow> t = ''default'' \<or> (\<exists>ty. status_type t False = Inr ty)"

lemma scan_codes_Cons:
  assumes "readable_key t"
  shows "scan_codes (t # ts) e =
    js_bind (scan_codes ts (e \<or> success_key t)) (\<lambda>(us, e'). Inr (if isStatusCode t then t # us else us, e'))"
proof (cases "t = ''default''")
  case True
  then have "isStatusCode t" "\<not> success_key t" by (simp_all add: isStatusCode_def success_key_def)
  with True show ?thesis by simp
next
  case False
  with assms obtain ty where ty: "status_type t False = Inr ty" by (auto simp: readable_key_def)
  with False have "success_key t \<longleftrightarrow> ty = Success" by (simp add: success_key_def)
  with False ty show ?thesis by simp
qed

lemma scan_codes_unreadable: "\<not> readable_key t \<Longrightarrow> \<exists>x. scan_codes (t # ts) e = Inl x"
  by (cases "status_type t False") (auto simp: readable_key_def)

lemma scan_codes_readable:
  "list_all readable_key ts \<Longrightarrow>
    scan_codes ts e = Inr (filter isStatusCode ts, e \<or> list_ex success_key ts)"
  by (induction ts arbitrary: e) (simp_all add: scan_codes_Cons del: scan_codes.simps(2))

lemma scan_codes_fails: "\<not> list_all readable_key ts \<Longrightarrow> \<exists>x. scan_codes ts e = Inl x"
proof (induction ts arbitrary: e)
  case (Cons t ts)
  show ?case
  proof (cases "readable_key t")
    case True
    with Cons obtain x where "scan_codes ts (e \<or> success_key t) = Inl x" by auto
    with True show ?thesis by (simp add: scan_codes_Cons del: scan_codes.simps(2))
  next
    case False
    then show ?thesis by (rule scan_codes_unreadable)
  qed
qed simp

lemma status_type_default: "t \<noteq> ''default'' \<Longrightarrow> status_type t b = status_type t False"
  by (simp add: status_type_def)

lemma type_codes_ok:
  "type_codes e ts = Inr out \<Longrightarrow> map fst out = ts \<and> (\<forall>(t, ty) \<in> set out. status_type t e = Inr ty)"
  by (induction ts arbitrary: out) (auto simp: js_bind_Inr_iff)

lemma type_codes_total: "list_all readable_key ts \<Longrightarrow> \<exists>r. type_codes e ts = Inr r"
proof (induction ts)
  case (Cons t ts)
  have "\<exists>ty. status_type t e = Inr ty"
    using Cons.prems status_type_default [of t e]
    by (cases "t = ''default''") (simp_all add: readable_key_def status_type_def)
  with Cons show ?case by (auto simp: js_bind_Inr_iff)
qed simp

lemma readable_key_iff:
  "readable_key t \<longleftrightarrow> t = ''default'' \<or> (case code_number t of None \<Rightarrow> True | Some n \<Rightarrow> 100 \<le> n \<and> n \<le> 599)"
  by (cases "t = ''default''"; cases "code_number t") (simp_all add: readable_key_def status_type_def not_less)

text \<open>The responses are shown if and only if no key is a number outside of the range of codes.\<close>

lemma responses_run:
  assumes "\<forall>t \<in> fst ` set rs. readable_key t"
  shows "responses rs = type_codes (\<exists>t \<in> fst ` set rs. success_key t) (filter isStatusCode (own_keys rs))"
proof -
  have "list_all readable_key (own_keys rs)" using assms by (simp add: list_all_iff)
  moreover have "list_ex success_key (own_keys rs) \<longleftrightarrow> (\<exists>t \<in> fst ` set rs. success_key t)" by (simp add: list_ex_iff)
  ultimately show ?thesis by (simp add: responses_def scan_codes_readable)
qed

lemma responses_total: "(\<exists>out. responses rs = Inr out) \<longleftrightarrow> (\<forall>t \<in> fst ` set rs. readable_key t)"
proof
  assume "\<exists>out. responses rs = Inr out"
  then obtain r where "scan_codes (own_keys rs) False = Inr r" by (auto simp: responses_def js_bind_Inr_iff)
  then have "list_all readable_key (own_keys rs)"
    using scan_codes_fails [of "own_keys rs" False] by (cases "list_all readable_key (own_keys rs)") simp_all
  then show "\<forall>t \<in> fst ` set rs. readable_key t" by (simp add: list_all_iff)
next
  assume ok: "\<forall>t \<in> fst ` set rs. readable_key t"
  then have "list_all readable_key (filter isStatusCode (own_keys rs))" unfolding list_all_iff set_filter set_own_keys by blast
  from type_codes_total [OF this] show "\<exists>out. responses rs = Inr out"
    unfolding responses_run [OF ok] .
qed

lemma responses_kinds:
  assumes "responses rs = Inr out"
  shows "map fst out = filter isStatusCode (own_keys rs)"
    and "(t, ty) \<in> set out \<Longrightarrow>
      (if t = ''default'' then ty = (if \<exists>t \<in> fst ` set rs. success_key t then Error else Success)
       else status_type t False = Inr ty)"
proof -
  have "\<forall>t \<in> fst ` set rs. readable_key t" using assms responses_total by blast
  from type_codes_ok [OF assms [unfolded responses_run [OF this]]]
  have out: "map fst out = filter isStatusCode (own_keys rs)"
    "\<And>t ty. (t, ty) \<in> set out \<Longrightarrow> status_type t (\<exists>t \<in> fst ` set rs. success_key t) = Inr ty"
    by auto
  then show "map fst out = filter isStatusCode (own_keys rs)" by simp
  assume "(t, ty) \<in> set out"
  from out(2) [OF this] status_type_default [of t] show
    "if t = ''default'' then ty = (if \<exists>t \<in> fst ` set rs. success_key t then Error else Success)
     else status_type t False = Inr ty"
    by (simp add: status_type_def split: if_splits)
qed

text \<open>A code of three digits is read as its number.\<close>

lemma is_digit_not_space: "is_digit c \<Longrightarrow> c \<notin> {CHR '' '', CHR 0x09, CHR 0x0A, CHR 0x0D, CHR ''-'', CHR ''+''}"
  by (auto simp: is_digit_def)

lemma digits_value_append: "digits_value (s @ [c]) = 10 * digits_value s + (int (of_char c) - 48)"
  by (simp add: digits_value_def)

lemma digits_value_digits: "digits_value (digits n) = int n"
proof (induction n rule: digits.induct)
  case (1 n)
  show ?case
  proof (cases "n < 10")
    case True
    then show ?thesis by (subst digits.simps) (simp add: digits_value_def of_char_of)
  next
    case False
    have "10 * int (n div 10) + int (n mod 10) = int (10 * (n div 10) + n mod 10)"
      unfolding of_nat_add of_nat_mult by simp
    with False 1 show ?thesis
      by (subst digits.simps) (simp add: digits_value_append of_char_of)
  qed
qed

lemma takeWhile_digits: "takeWhile is_digit (digits n @ s) = digits n @ takeWhile is_digit s"
  by (simp add: takeWhile_append2 digits_are_digits)

lemma parse_int_digits:
  assumes "s = [] \<or> \<not> is_digit (hd s)"
  shows "js_parse_int (digits n @ s) = Some (int n)"
proof -
  obtain c cs where cs: "digits n = c # cs" using digits_nonempty by (cases "digits n") auto
  have c: "is_digit c" using digits_are_digits [of c n] cs by simp
  have stop: "takeWhile is_digit s = []" using assms by (cases s) auto
  have "parse_digits (digits n @ s) = Some (int n)"
    by (simp add: parse_digits_def takeWhile_digits stop digits_value_digits)
  then show ?thesis
    using is_digit_not_space [OF c] unfolding js_parse_int_def cs by simp
qed

lemma no_x_no_range: "\<forall>c \<in> set s. \<not> is_x c \<Longrightarrow> \<not> is_range_code s"
  by (induction s rule: is_range_code.induct) auto

lemma digit_not_x: "is_digit c \<Longrightarrow> \<not> is_x c"
  by (auto simp: is_digit_def is_x_def)

definition kind_of :: "nat \<Rightarrow> response_type" where
  "kind_of n = (if n < 200 then Info else if n < 300 then Success else if n < 400 then Redirect else Error)"

lemma digits_not_default: "digits n \<noteq> ''default''"
  using digits_are_digits [of "CHR ''d''" n] by (auto simp: is_digit_def)

lemma status_type_digits:
  "status_type (digits n) b =
    (if 100 \<le> n \<and> n \<le> 599 then Inr (kind_of n) else Inl (PlainError ''invalid HTTP code''))"
proof -
  have "\<not> is_range_code (digits n)"
    by (rule no_x_no_range) (auto dest: digits_are_digits digit_not_x)
  then have "code_number (digits n) = Some (int n)"
    using parse_int_digits [of "[]" n] by (simp add: code_number_def)
  then show ?thesis using digits_not_default [of n] by (auto simp: status_type_def kind_of_def)
qed

lemma status_type_code: "100 \<le> n \<Longrightarrow> n \<le> 599 \<Longrightarrow> status_type (digits n) b = Inr (kind_of n)"
  by (simp add: status_type_digits)

lemma status_type_range:
  assumes "1 \<le> d" "d \<le> 5" "is_x x" "is_x y"
  shows "status_type (digits d @ [x, y]) b = Inr (kind_of (100 * d))"
proof -
  have one: "digits d = [char_of (48 + d)]" using assms by (subst digits.simps) simp
  have digit: "is_digit (char_of (48 + d))" using assms by (intro is_digit_char_of) simp
  have x: "\<not> is_digit x" using assms(3) by (auto simp: is_x_def is_digit_def)
  have "is_range_code (digits d @ [x, y])" using assms digit by (simp add: one)
  moreover have "js_parse_int (digits d @ [x, y]) = Some (int d)" using x by (intro parse_int_digits) simp
  ultimately have "code_number (digits d @ [x, y]) = Some (int (100 * d))" by (simp add: code_number_def)
  moreover have "digits d @ [x, y] \<noteq> ''default''" by (simp add: one)
  ultimately show ?thesis using assms by (auto simp: status_type_def kind_of_def)
qed

section \<open>Ranges of numbers\<close>

lemma ten_pow_pos [simp]: "0 < (10 :: int) ^ k"
  by simp

definition dec_le :: "dec \<Rightarrow> dec \<Rightarrow> bool" where
  "dec_le a b \<longleftrightarrow> \<not> dec_less b a"

text \<open>Comparisons of decimals are those of the rational numbers they stand for.\<close>

definition dec_rat :: "dec \<Rightarrow> rat" where
  "dec_rat n = (case n of Dec m k \<Rightarrow> of_int m / 10 ^ k)"

lemma dec_less_rat: "dec_less a b \<longleftrightarrow> dec_rat a < dec_rat b"
proof (cases a; cases b)
  fix m k n l
  assume ab: "a = Dec m k" "b = Dec n l"
  have "dec_rat a < dec_rat b \<longleftrightarrow> (of_int m :: rat) * 10 ^ l < of_int n * 10 ^ k"
    by (simp add: ab dec_rat_def divide_less_eq field_simps)
  also have "\<dots> \<longleftrightarrow> (of_int (m * 10 ^ l) :: rat) < of_int (n * 10 ^ k)" by simp
  also have "\<dots> \<longleftrightarrow> dec_less a b" unfolding of_int_less_iff by (simp add: ab)
  finally show ?thesis by simp
qed

text \<open>
  The numbers a schema admits: \<open>minimum\<close> and \<open>maximum\<close>, exclusive if there is the flag, and the bounds of
  \<open>exclusiveMinimum\<close> and \<open>exclusiveMaximum\<close> if these are numbers.
\<close>

definition admits :: "props \<Rightarrow> dec \<Rightarrow> bool" where
  "admits e x \<longleftrightarrow>
     (case field e ''minimum'' of
        DNum m \<Rightarrow> (if field e ''exclusiveMinimum'' = DBool True then dec_rat m < dec_rat x else dec_rat m \<le> dec_rat x)
      | _ \<Rightarrow> True) \<and>
     (case field e ''maximum'' of
        DNum m \<Rightarrow> (if field e ''exclusiveMaximum'' = DBool True then dec_rat x < dec_rat m else dec_rat x \<le> dec_rat m)
      | _ \<Rightarrow> True) \<and>
     (case field e ''exclusiveMinimum'' of DNum m \<Rightarrow> dec_rat m < dec_rat x | _ \<Rightarrow> True) \<and>
     (case field e ''exclusiveMaximum'' of DNum m \<Rightarrow> dec_rat x < dec_rat m | _ \<Rightarrow> True)"

text \<open>The numbers in the range that is shown.\<close>

definition in_range :: "doc \<times> bool \<times> doc \<times> bool \<Rightarrow> dec \<Rightarrow> bool" where
  "in_range rg x \<longleftrightarrow>
     (case rg of (r, i, u, a) \<Rightarrow>
       (case r of DNum m \<Rightarrow> if i then dec_rat m < dec_rat x else dec_rat m \<le> dec_rat x | _ \<Rightarrow> True) \<and>
       (case u of DNum m \<Rightarrow> if a then dec_rat x < dec_rat m else dec_rat x \<le> dec_rat m | _ \<Rightarrow> True))"

definition range_fields :: "props \<Rightarrow> bool" where
  "range_fields e \<longleftrightarrow>
     (\<forall>k \<in> {''minimum'', ''maximum''}. field e k = DUndef \<or> is_number (field e k)) \<and>
     (\<forall>k \<in> {''exclusiveMinimum'', ''exclusiveMaximum''}.
        field e k = DUndef \<or> is_number (field e k) \<or> is_boolean (field e k))"

definition both_bounds :: "props \<Rightarrow> bool" where
  "both_bounds e \<longleftrightarrow>
     is_number (field e ''minimum'') \<and> is_number (field e ''exclusiveMinimum'') \<or>
     is_number (field e ''maximum'') \<and> is_number (field e ''exclusiveMaximum'')"

text \<open>One bound: what it is taken to be, and what it admits. \<open>less\<close> is the order or its converse.\<close>

lemma lower_bound:
  assumes "ex = DUndef \<or> is_number ex \<or> is_boolean ex" "pl = DUndef \<or> is_number pl"
  shows "\<exists>r. bound dec_min ex pl = Inr r \<and> (r = DUndef \<or> is_number r) \<and>
    ((case pl of DNum m \<Rightarrow> (if ex = DBool True then dec_rat m < dec_rat x else dec_rat m \<le> dec_rat x) | _ \<Rightarrow> True) \<and>
     (case ex of DNum m \<Rightarrow> dec_rat m < dec_rat x | _ \<Rightarrow> True) \<longrightarrow>
     (case r of DNum m \<Rightarrow> if is_exclusive ex then dec_rat m < dec_rat x else dec_rat m \<le> dec_rat x | _ \<Rightarrow> True)) \<and>
    (\<not> (is_number pl \<and> is_number ex) \<longrightarrow>
     (case r of DNum m \<Rightarrow> if is_exclusive ex then dec_rat m < dec_rat x else dec_rat m \<le> dec_rat x | _ \<Rightarrow> True) \<longrightarrow>
     (case pl of DNum m \<Rightarrow> (if ex = DBool True then dec_rat m < dec_rat x else dec_rat m \<le> dec_rat x) | _ \<Rightarrow> True) \<and>
     (case ex of DNum m \<Rightarrow> dec_rat m < dec_rat x | _ \<Rightarrow> True))"
  using assms
  by (cases ex; cases pl; auto simp: bound_def is_exclusive_def dec_min_def dec_less_rat)

lemma upper_bound:
  assumes "ex = DUndef \<or> is_number ex \<or> is_boolean ex" "pl = DUndef \<or> is_number pl"
  shows "\<exists>r. bound dec_max ex pl = Inr r \<and> (r = DUndef \<or> is_number r) \<and>
    ((case pl of DNum m \<Rightarrow> (if ex = DBool True then dec_rat x < dec_rat m else dec_rat x \<le> dec_rat m) | _ \<Rightarrow> True) \<and>
     (case ex of DNum m \<Rightarrow> dec_rat x < dec_rat m | _ \<Rightarrow> True) \<longrightarrow>
     (case r of DNum m \<Rightarrow> if is_exclusive ex then dec_rat x < dec_rat m else dec_rat x \<le> dec_rat m | _ \<Rightarrow> True)) \<and>
    (\<not> (is_number pl \<and> is_number ex) \<longrightarrow>
     (case r of DNum m \<Rightarrow> if is_exclusive ex then dec_rat x < dec_rat m else dec_rat x \<le> dec_rat m | _ \<Rightarrow> True) \<longrightarrow>
     (case pl of DNum m \<Rightarrow> (if ex = DBool True then dec_rat x < dec_rat m else dec_rat x \<le> dec_rat m) | _ \<Rightarrow> True) \<and>
     (case ex of DNum m \<Rightarrow> dec_rat x < dec_rat m | _ \<Rightarrow> True))"
  using assms
  by (cases ex; cases pl; auto simp: bound_def is_exclusive_def dec_max_def dec_less_rat)

lemma numeric_range_ok:
  assumes "range_fields e"
  shows "\<exists>rg. numeric_range e = Inr rg \<and> (admits e x \<longrightarrow> in_range rg x) \<and>
    (\<not> both_bounds e \<longrightarrow> in_range rg x \<longrightarrow> admits e x)"
proof -
  have f: "field e ''exclusiveMinimum'' = DUndef \<or> is_number (field e ''exclusiveMinimum'') \<or> is_boolean (field e ''exclusiveMinimum'')"
    "field e ''minimum'' = DUndef \<or> is_number (field e ''minimum'')"
    "field e ''exclusiveMaximum'' = DUndef \<or> is_number (field e ''exclusiveMaximum'') \<or> is_boolean (field e ''exclusiveMaximum'')"
    "field e ''maximum'' = DUndef \<or> is_number (field e ''maximum'')"
    using assms unfolding range_fields_def by blast+
  note low = lower_bound [OF f(1,2), of x] and up = upper_bound [OF f(3,4), of x]
  from low obtain r where r: "bound dec_min (field e ''exclusiveMinimum'') (field e ''minimum'') = Inr r" by blast
  from up obtain u where u: "bound dec_max (field e ''exclusiveMaximum'') (field e ''maximum'') = Inr u" by blast
  have rg: "numeric_range e =
      Inr (r, is_exclusive (field e ''exclusiveMinimum''), u, is_exclusive (field e ''exclusiveMaximum''))"
    by (simp add: numeric_range_def r u)
  show ?thesis
    unfolding rg admits_def in_range_def both_bounds_def
    using low [unfolded r] up [unfolded u] by (simp only: sum.inject ex_simps simp_thms prod.case) blast
qed

section \<open>Order of fields\<close>

interpretation by_position: comparator "\<lambda>e n. position_of (name e) order - position_of (name n) order"
  for name :: "'f \<Rightarrow> string" and order
  by (rule comparator_diff)

lemma sortByRequired_mset: "mset (sortByRequired required name fields order) = mset fields"
proof -
  have "mset (filter (\<lambda>e. required e \<and> name e \<in> set order) fields) +
      (mset (filter (\<lambda>e. required e \<and> name e \<notin> set order) fields) + mset (filter (\<lambda>e. \<not> required e) fields)) =
    mset fields"
    by (induction fields) auto
  then show ?thesis by (simp add: sortByRequired_def)
qed

text \<open>The place of a field: in the list, required but not in the list, optional.\<close>

definition field_rank :: "('f \<Rightarrow> bool) \<Rightarrow> ('f \<Rightarrow> string) \<Rightarrow> string list \<Rightarrow> 'f \<Rightarrow> int" where
  "field_rank required name order e =
     (if \<not> required e then int (length order) + 1
      else if name e \<in> set order then position_of (name e) order else int (length order))"

lemma position_of_mem: "x \<in> set xs \<Longrightarrow> 0 \<le> position_of x xs \<and> position_of x xs < int (length xs)"
  by (induction xs) (auto simp: Let_def)

lemma sortByRequired_sorted:
  "sorted_wrt (\<lambda>e n. field_rank required name order e \<le> field_rank required name order n)
    (sortByRequired required name fields order)"
proof -
  let ?in = "filter (\<lambda>e. required e \<and> name e \<in> set order) fields"
  let ?cmp = "\<lambda>e n. position_of (name e) order - position_of (name n) order"
  have "sorted_wrt (\<lambda>e n. field_rank required name order e \<le> field_rank required name order n) (sort_by ?cmp ?in)"
    by (rule sorted_wrt_mono_rel [OF _ by_position.sorted_sort_by]) (auto simp: field_rank_def)
  moreover have "sorted_wrt (\<lambda>e n. field_rank required name order e \<le> field_rank required name order n) (filter P fields)"
    if "\<And>e n. P e \<Longrightarrow> P n \<Longrightarrow> field_rank required name order e \<le> field_rank required name order n" for P
    using that by (induction fields) auto
  ultimately show ?thesis
    unfolding sortByRequired_def sorted_wrt_append
    by (auto simp: field_rank_def dest: position_of_mem)
qed

section \<open>Parameters and samples\<close>

lemma mergeParams_keys:
  assumes "distinct (map (\<lambda>t. param_key (resolve t)) ps)" "distinct (map (\<lambda>t. param_key (resolve t)) os)"
  shows "distinct (map (\<lambda>t. param_key (resolve t)) (mergeParams resolve ps os))"
    and "(\<lambda>t. param_key (resolve t)) ` set (mergeParams resolve ps os) =
      (\<lambda>t. param_key (resolve t)) ` (set ps \<union> set os)"
  using assms by (auto simp: mergeParams_def distinct_map_filter)

lemma insert_sample_split: "\<exists>a b. e = a @ b \<and> insert_sample i x e = a @ x # b"
  by (simp add: insert_sample_def Let_def) (metis append_take_drop_id)

end
