(* ===== verification/Spec_Parser.thy ===== *)
theory Spec_Parser
  imports Openapi_Helpers Uri
begin

text \<open>
  The parser of API documents (\<open>fc\<close>): how references are followed and how the schemas of an \<open>allOf\<close> are
  merged. A computation that never returns is \<open>None\<close>; the merge has a bound on its depth instead, and
  is \<open>None\<close> if that is exceeded.
\<close>

type_synonym 'a run = "'a js option"

definition run_bind :: "'a run \<Rightarrow> ('a \<Rightarrow> 'b run) \<Rightarrow> 'b run" where
  "run_bind m f = (case m of None \<Rightarrow> None | Some (Inl e) \<Rightarrow> Some (Inl e) | Some (Inr a) \<Rightarrow> f a)"

lemma run_bind_simps [simp]:
  "run_bind None f = None" "run_bind (Some (Inl e)) f = Some (Inl e)" "run_bind (Some (Inr a)) f = f a"
  by (simp_all add: run_bind_def)

record spec_parser =
  sp_spec :: doc
  sp_allowMergeRefs :: bool
  sp_ignoreNamedSchemas :: "string list"

section \<open>References\<close>

text \<open>The properties that \<open>for ... in\<close> and a spread see of a value.\<close>

fun own_props :: "doc \<Rightarrow> props" where
  "own_props (DObj kvs) = map (\<lambda>k. (k, field kvs k)) (own_keys kvs)"
| "own_props (DArr vs) = map (\<lambda>i. (digits i, vs ! i)) [0..<length vs]"
| "own_props v = []"

text \<open>\<open>byRef\<close>: what is not found is an empty object.\<close>

definition byRef :: "spec_parser \<Rightarrow> string \<Rightarrow> doc js" where
  "byRef p e =
     (let e1 = (case e of c # _ \<Rightarrow> if c = CHR ''#'' then e else CHR ''#'' # e | [] \<Rightarrow> ''#'') in
      case decodeURIComponent e1 of
        None \<Rightarrow> Inl (PlainError ''URI malformed'')
      | Some e2 \<Rightarrow>
          (case pointer_get (sp_spec p) e2 of
             Inl _ \<Rightarrow> Inr (DObj [])
           | Inr t \<Rightarrow> Inr (if truthy_doc t then t else DObj [])))"

text \<open>\<open>e.k\<close> on a value that is not undefined or null; nothing but an object has the properties asked for.\<close>

definition dot :: "doc \<Rightarrow> string \<Rightarrow> doc" where
  "dot e k = (case e of DObj kvs \<Rightarrow> field kvs k | _ \<Rightarrow> DUndef)"

definition isRef :: "doc \<Rightarrow> bool" where
  "isRef e \<longleftrightarrow> truthy_doc e \<and> dot e ''$ref'' \<noteq> DUndef \<and> dot e ''$ref'' \<noteq> DNull"

text \<open>\<open>pc\<close> and \<open>dc\<close>; a stack of references is a list of strings.\<close>

definition pushRef :: "string list \<Rightarrow> string option \<Rightarrow> string list" where
  "pushRef e t = (case t of None \<Rightarrow> e | Some r \<Rightarrow> if r \<noteq> [] \<and> (e = [] \<or> last e \<noteq> r) then e @ [r] else e)"

definition strings_of :: "doc \<Rightarrow> string list" where
  "strings_of v =
     (case v of DArr vs \<Rightarrow> List.map_filter (\<lambda>v. case v of DStr s \<Rightarrow> Some s | _ \<Rightarrow> None) vs | _ \<Rightarrow> [])"

definition concatRefStacks :: "string list \<Rightarrow> doc \<Rightarrow> string list" where
  "concatRefStacks e t = e @ strings_of t"

definition stack_doc :: "string list \<Rightarrow> doc" where
  "stack_doc rs = DArr (map DStr rs)"

text \<open>\<open>mergeRefs\<close>: what stands beside a reference is added to what it refers to.\<close>

definition annotations :: "string list" where
  "annotations =
     [''description'', ''title'', ''externalDocs'', ''x-refsStack'', ''x-parentRefs'', ''readOnly'', ''writeOnly'']"

definition mergeRefs :: "doc \<Rightarrow> doc \<Rightarrow> bool \<Rightarrow> doc" where
  "mergeRefs r resolved mergeAsAllOf =
     (let rest = without [''$ref''] (own_props r) in
      if rest = [] then resolved
      else if mergeAsAllOf \<and> (\<exists>k \<in> fst ` set rest. k \<notin> set annotations) then
        DObj [(''allOf'', DArr
          [DObj [(''description'', field rest ''description''), (''title'', field rest ''title''),
                 (''readOnly'', field rest ''readOnly''), (''writeOnly'', field rest ''writeOnly'')],
           resolved,
           DObj (without [''description'', ''title'', ''readOnly'', ''writeOnly''] rest)])]
      else DObj (spread (spread [] (own_props resolved)) rest))"

text \<open>\<open>deref\<close>: the reference is not put on the stack before its target is followed.\<close>

partial_function (option) deref ::
    "spec_parser \<Rightarrow> doc \<Rightarrow> string list \<Rightarrow> bool \<Rightarrow> (doc \<times> string list) run" where
  "deref p e stack mergeAsAllOf =
     (let own = dot e ''x-refsStack''; t = concatRefStacks stack own in
      if isRef e then
        (case dot e ''$ref'' of
           DStr ref \<Rightarrow>
             if (case getDefinitionName ref of None \<Rightarrow> False | Some n \<Rightarrow> n \<in> set (sp_ignoreNamedSchemas p)) then
               Some (Inr (DObj [(''type'', DStr ''object''), (''title'', DStr (the (getDefinitionName ref)))], t))
             else
               (case byRef p ref of
                  Inl x \<Rightarrow> Some (Inl x)
                | Inr found \<Rightarrow>
                    Option.bind
                      (if ref \<in> set t then
                         Some (Inr (DObj (put ''x-circular-ref'' (DBool True) (spread [] (own_props found))), t))
                       else if isRef found then deref p found t mergeAsAllOf
                       else Some (Inr (found, t)))
                      (\<lambda>r. case r of
                         Inl x \<Rightarrow> Some (Inl x)
                       | Inr (resolved, _) \<Rightarrow>
                           Some (Inr (if sp_allowMergeRefs p then mergeRefs e resolved mergeAsAllOf else resolved,
                             pushRef t (Some ref)))))
         | _ \<Rightarrow> Some (Inl (TypeError ''match'')))
      else Some (Inr (e, concatRefStacks t own)))"

declare deref.simps [code]

section \<open>Merging\<close>

text \<open>
  \<open>hoistOneOfs\<close>: an alternative among the schemas to be merged becomes an alternative of merged
  schemas; what stands beside the \<open>allOf\<close> is left out.
\<close>

fun first_one_of :: "doc list \<Rightarrow> doc list \<Rightarrow> (doc list \<times> doc list \<times> doc list) option js" where
  "first_one_of before [] = Inr None"
| "first_one_of before (n # after) =
     (if n = DUndef \<or> n = DNull then Inl (TypeError ''oneOf'')
      else (case dot n ''oneOf'' of
          DArr alternatives \<Rightarrow> Inr (Some (before, alternatives, after))
        | _ \<Rightarrow> first_one_of (before @ [n]) after))"

definition hoistOneOfs :: "doc \<Rightarrow> doc js" where
  "hoistOneOfs e =
     (case dot e ''allOf'' of
        DArr t \<Rightarrow>
          js_bind (first_one_of [] t) (\<lambda>r.
            case r of
              None \<Rightarrow> Inr e
            | Some (before, alternatives, after) \<Rightarrow>
                Inr (DObj [(''oneOf'', DArr (map (\<lambda>a. DObj [(''allOf'', DArr (before @ a # after))]) alternatives))]))
      | DNull \<Rightarrow> Inl (TypeError ''length'')
      | _ \<Rightarrow> Inr e)"

fun run_list :: "'a run list \<Rightarrow> 'a list run" where
  "run_list [] = Some (Inr [])"
| "run_list (m # ms) = run_bind m (\<lambda>x. run_bind (run_list ms) (\<lambda>xs. Some (Inr (x # xs))))"

definition or_js :: "doc \<Rightarrow> doc \<Rightarrow> doc" where
  "or_js a b = (if truthy_doc a then a else b)"

definition concat_docs :: "doc \<Rightarrow> doc \<Rightarrow> doc list js" where
  "concat_docs a b =
     (case (a, b) of
        (DArr xs, DArr ys) \<Rightarrow> Inr (xs @ ys)
      | (DStr _, _) \<Rightarrow> Inl (Outside_Model ''string as list'')
      | (_, DStr _) \<Rightarrow> Inl (Outside_Model ''string as list'')
      | _ \<Rightarrow> Inl (TypeError ''iterator''))"

definition merged_keys :: "string list" where
  "merged_keys =
     [''type'', ''enum'', ''properties'', ''items'', ''required'', ''title'', ''description'', ''readOnly'',
      ''writeOnly'', ''oneOf'', ''anyOf'', ''x-circular-ref'']"

text \<open>The object that the schemas are merged into.\<close>

definition receiver :: "props \<Rightarrow> string \<Rightarrow> props" where
  "receiver e pointer =
     (let o0 = put ''title'' (or_js (field e ''title'') (case getDefinitionName pointer of None \<Rightarrow> DUndef | Some n \<Rightarrow> DStr n))
                 (put ''allOf'' DUndef (put ''x-parentRefs'' (DArr []) (spread [] e)));
          o1 = (if field o0 ''properties'' \<noteq> DUndef \<and> typeof (field o0 ''properties'') = ''object''
                then put ''properties'' (DObj (spread [] (own_props (field o0 ''properties'')))) o0 else o0)
      in if field o1 ''items'' \<noteq> DUndef \<and> typeof (field o1 ''items'') = ''object''
         then put ''items'' (DObj (spread [] (own_props (field o1 ''items'')))) o1 else o1)"

text \<open>The types and the values of an enumeration, if both sides have lists of them, are put together.\<close>

definition merge_type :: "doc \<Rightarrow> props \<Rightarrow> props" where
  "merge_type a o0 =
     (if a = DUndef then o0
      else (case (a, field o0 ''type'') of
          (DArr xs, DArr ys) \<Rightarrow> put ''type'' (DArr (xs @ ys)) o0
        | _ \<Rightarrow> put ''type'' a o0))"

definition merge_enum :: "doc \<Rightarrow> props \<Rightarrow> props" where
  "merge_enum s o0 =
     (if s = DUndef then o0
      else (case (s, field o0 ''enum'') of
          (DArr xs, DArr ys) \<Rightarrow> put ''enum'' (DArr (rev (remdups (rev (xs @ ys))))) o0
        | _ \<Rightarrow> put ''enum'' s o0))"

text \<open>The rest of what a schema adds, after its type, values, properties and items.\<close>

definition merge_alternatives :: "props \<Rightarrow> props \<Rightarrow> props" where
  "merge_alternatives e o0 =
     (let o1 = (if field e ''oneOf'' \<noteq> DUndef then put ''oneOf'' (field e ''oneOf'') o0 else o0) in
      if field e ''anyOf'' \<noteq> DUndef then put ''anyOf'' (field e ''anyOf'') o1 else o1)"

definition merge_required :: "props \<Rightarrow> props \<Rightarrow> props js" where
  "merge_required e o0 =
     (if field e ''required'' = DUndef then Inr o0
      else js_bind (concat_docs (or_js (field o0 ''required'') (DArr [])) (field e ''required''))
        (\<lambda>xs. Inr (put ''required'' (DArr xs) o0)))"

definition merge_others :: "props \<Rightarrow> props \<Rightarrow> props" where
  "merge_others e o0 =
     spread
       (put ''x-circular-ref'' (or_js (field o0 ''x-circular-ref'') (field e ''x-circular-ref''))
         (put ''writeOnly'' (if field o0 ''writeOnly'' \<noteq> DUndef then field o0 ''writeOnly'' else field e ''writeOnly'')
           (put ''readOnly'' (if field o0 ''readOnly'' \<noteq> DUndef then field o0 ''readOnly'' else field e ''readOnly'')
             (put ''description'' (or_js (field o0 ''description'') (field e ''description''))
               (put ''title'' (or_js (field o0 ''title'') (field e ''title'')) o0)))))
       (without merged_keys e)"

definition merge_rest :: "props \<Rightarrow> props \<Rightarrow> props js" where
  "merge_rest e o0 = js_bind (merge_required e (merge_alternatives e o0)) (\<lambda>o1. Inr (merge_others e o1))"

text \<open>One schema of the \<open>allOf\<close>, merged: its reference, the stack of references, its properties.\<close>

type_synonym part_schema = "string option \<times> string list \<times> doc"

text \<open>
  \<open>merge\<close> is \<open>mergeAllOf\<close> with a smaller bound. The schemas of the \<open>allOf\<close> are dereferenced and merged
  one after the other; the references among them are noted in \<open>x-parentRefs\<close>.
\<close>

type_synonym merger = "doc \<Rightarrow> string \<Rightarrow> string list \<Rightarrow> doc run"

fun merge_parts ::
    "spec_parser \<Rightarrow> merger \<Rightarrow> string list \<Rightarrow> doc list \<Rightarrow> doc list \<Rightarrow> (doc list \<times> part_schema list) run" where
  "merge_parts p merge stack [] parents = Some (Inr (parents, []))"
| "merge_parts p merge stack (e # es) parents =
     run_bind (deref p e stack True) (\<lambda>(r, i).
       if e = DUndef \<or> e = DNull then Some (Inl (TypeError ''$ref''))
       else
         (let a = (case dot e ''$ref'' of DStr ref \<Rightarrow> if ref = [] then None else Some ref | _ \<Rightarrow> None) in
          run_bind (merge r (case a of None \<Rightarrow> ''undefined'' | Some ref \<Rightarrow> ref) i) (\<lambda>s.
            if truthy_doc (dot s ''x-circular-ref'') \<and> truthy_doc (dot s ''allOf'')
            then merge_parts p merge stack es parents
            else
              run_bind
                (Some (case a of
                   None \<Rightarrow> Inr parents
                 | Some ref \<Rightarrow>
                     js_bind (concat_docs (DArr parents) (or_js (dot s ''x-parentRefs'') (DArr [])))
                       (\<lambda>ps. Inr (ps @ [DStr ref]))))
                (\<lambda>parents'.
                  run_bind (merge_parts p merge stack es parents') (\<lambda>(parents'', parts).
                    Some (Inr (parents'', (a, pushRef i a, s) # parts)))))))"

fun merge_properties ::
    "merger \<Rightarrow> string \<Rightarrow> string list \<Rightarrow> bool \<Rightarrow> props \<Rightarrow> string list \<Rightarrow> props \<Rightarrow> props run" where
  "merge_properties merge pointer stack circular l [] ps = Some (Inr ps)"
| "merge_properties merge pointer stack circular l (k # ks) ps =
     (let i = concatRefStacks stack (dot (field l k) ''x-refsStack'') in
      if truthy_doc (field ps k) then
        (if circular then merge_properties merge pointer stack circular l ks ps
         else
           run_bind (merge (DObj [(''allOf'', DArr [field ps k, field l k]), (''x-refsStack'', stack_doc i)])
               (pointer @ ''/properties/'' @ k) i)
             (\<lambda>n. merge_properties merge pointer stack circular l ks (put k n ps)))
      else
        merge_properties merge pointer stack circular l ks
          (put k (DObj (put ''x-refsStack'' (stack_doc i) (spread [] (own_props (field l k))))) ps))"

definition items_object :: "doc \<Rightarrow> doc" where
  "items_object v = (if is_boolean v then DObj [] else DObj (spread [] (own_props v)))"

definition merge_part :: "merger \<Rightarrow> string \<Rightarrow> part_schema \<Rightarrow> props \<Rightarrow> props run" where
  "merge_part merge pointer part o0 =
     (case part of (_, stack, schema) \<Rightarrow>
       let e = own_props schema; circular = truthy_doc (field e ''x-circular-ref'');
           o1 = merge_enum (field e ''enum'') (merge_type (field e ''type'') o0); l = field e ''properties'' in
       run_bind
         (if l \<noteq> DUndef \<and> typeof l = ''object'' then
            run_bind (merge_properties merge pointer stack circular (own_props l) (map fst (own_props l))
                (own_props (or_js (field o1 ''properties'') (DObj []))))
              (\<lambda>ps. Some (Inr (put ''properties'' (DObj ps) o1)))
          else Some (Inr o1))
         (\<lambda>o2. run_bind
           (if field e ''items'' \<noteq> DUndef \<and> \<not> circular then
              run_bind (merge (DObj [(''allOf'', DArr [items_object (field o2 ''items''), items_object (field e ''items'')])])
                  (pointer @ ''/items'') stack)
                (\<lambda>v. Some (Inr (put ''items'' v o2)))
            else Some (Inr o2))
           (\<lambda>o3. Some (merge_rest e o3))))"

fun merge_all :: "merger \<Rightarrow> string \<Rightarrow> part_schema list \<Rightarrow> props \<Rightarrow> props run" where
  "merge_all merge pointer [] o0 = Some (Inr o0)"
| "merge_all merge pointer (part # parts) o0 =
     run_bind (merge_part merge pointer part o0) (merge_all merge pointer parts)"

definition merge_step :: "spec_parser \<Rightarrow> merger \<Rightarrow> merger" where
  "merge_step p merge e pointer stack =
     (if e = DUndef \<or> e = DNull then Some (Inl (TypeError ''x-circular-ref''))
      else if truthy_doc (dot e ''x-circular-ref'') then Some (Inr e)
      else run_bind (Some (hoistOneOfs e)) (\<lambda>e1.
        case dot e1 ''allOf'' of
          DUndef \<Rightarrow> Some (Inr e1)
        | DArr es \<Rightarrow>
            run_bind (merge_parts p merge stack es []) (\<lambda>(parents, parts).
            run_bind (merge_all merge pointer parts
                (put ''x-parentRefs'' (DArr parents) (receiver (own_props e1) pointer)))
              (\<lambda>o0. Some (Inr (DObj o0))))
        | _ \<Rightarrow> Some (Inl (TypeError ''map''))))"

primrec mergeAllOf :: "nat \<Rightarrow> spec_parser \<Rightarrow> merger" where
  "mergeAllOf 0 p = (\<lambda>e pointer stack. None)"
| "mergeAllOf (Suc fuel) p = merge_step p (mergeAllOf fuel p)"

text \<open>\<open>findDerived\<close>: the schemas that name one of the references in their \<open>allOf\<close>.\<close>

fun names_one_of :: "string list \<Rightarrow> doc list \<Rightarrow> bool js" where
  "names_one_of refs [] = Inr False"
| "names_one_of refs (e # es) =
     (if e = DUndef \<or> e = DNull then Inl (TypeError ''$ref'')
      else if (case dot e ''$ref'' of DStr r \<Rightarrow> r \<in> set refs | _ \<Rightarrow> False) then Inr True
      else names_one_of refs es)"

definition derived_from :: "string list \<Rightarrow> doc \<Rightarrow> bool js" where
  "derived_from refs allOf =
     (case allOf of DUndef \<Rightarrow> Inr False | DArr es \<Rightarrow> names_one_of refs es | _ \<Rightarrow> Inl (TypeError ''find''))"

fun find_derived_in ::
    "spec_parser \<Rightarrow> string list \<Rightarrow> props \<Rightarrow> string list \<Rightarrow> (string \<times> doc) list run" where
  "find_derived_in p refs n [] = Some (Inr [])"
| "find_derived_in p refs n (r # rs) =
     run_bind (deref p (field n r) [] False) (\<lambda>(resolved, _).
       if resolved = DUndef \<or> resolved = DNull then Some (Inl (TypeError ''allOf''))
       else
         run_bind (Some (derived_from refs (dot resolved ''allOf'')))
           (\<lambda>b. run_bind (find_derived_in p refs n rs) (\<lambda>t. Some (Inr (
             if b then
               (''#/components/schemas/'' @ r, DArr [or_js (dot resolved ''x-discriminator-value'') (DStr r)]) # t
             else t)))))"

definition findDerived :: "spec_parser \<Rightarrow> string list \<Rightarrow> (string \<times> doc) list run" where
  "findDerived p refs =
     (let schemas = dot (or_js (dot (sp_spec p) ''components'') (DObj [])) ''schemas'';
          n = own_props (or_js schemas (DObj [])) in
      find_derived_in p refs n (map fst n))"

end
