(* ===== verification/Spec_Facts.thy ===== *)
theory Spec_Facts
  imports Spec_Parser
begin

text \<open>
  What the parser of API documents guarantees: when following a reference returns, what it returns for a
  reference that leads nowhere or back, and what a merged schema has of the schemas it was merged from.
\<close>

section \<open>References\<close>

lemma run_bind_Some_Inr_iff:
  "run_bind m f = Some (Inr b) \<longleftrightarrow> (\<exists>a. m = Some (Inr a) \<and> f a = Some (Inr b))"
  by (cases m) (auto simp: run_bind_def split: sum.split)

lemma deref_plain:
  "\<not> isRef e \<Longrightarrow> deref p e stack b =
    Some (Inr (e, concatRefStacks (concatRefStacks stack (dot e ''x-refsStack'')) (dot e ''x-refsStack'')))"
  by (subst deref.simps) (simp add: Let_def)

definition ignored_name :: "spec_parser \<Rightarrow> string \<Rightarrow> bool" where
  "ignored_name p ref \<longleftrightarrow>
     (case getDefinitionName ref of None \<Rightarrow> False | Some n \<Rightarrow> n \<in> set (sp_ignoreNamedSchemas p))"

text \<open>A reference object and nothing beside the reference.\<close>

definition ref_doc :: "string \<Rightarrow> doc" where
  "ref_doc ref = DObj [(''$ref'', DStr ref)]"

lemma dot_ref_doc [simp]:
  "dot (ref_doc ref) ''$ref'' = DStr ref" "dot (ref_doc ref) ''x-refsStack'' = DUndef" "isRef (ref_doc ref)"
  by (simp_all add: ref_doc_def dot_def isRef_def field_def)

lemma concatRefStacks_undef [simp]: "concatRefStacks e DUndef = e"
  by (simp add: concatRefStacks_def strings_of_def)

lemma deref_ref:
  assumes "\<not> ignored_name p ref" "byRef p ref = Inr found"
  shows "deref p (ref_doc ref) stack b =
    Option.bind
      (if ref \<in> set stack then
         Some (Inr (DObj (put ''x-circular-ref'' (DBool True) (spread [] (own_props found))), stack))
       else if isRef found then deref p found stack b
       else Some (Inr (found, stack)))
      (\<lambda>r. case r of
         Inl x \<Rightarrow> Some (Inl x)
       | Inr (resolved, _) \<Rightarrow>
           Some (Inr (if sp_allowMergeRefs p then mergeRefs (ref_doc ref) resolved b else resolved,
             pushRef stack (Some ref))))"
  using assms by (subst deref.simps) (simp add: Let_def ignored_name_def)

lemma mergeRefs_ref_doc [simp]: "mergeRefs (ref_doc ref) resolved b = resolved"
  by (simp add: mergeRefs_def Let_def ref_doc_def own_keys_def without_def array_index_def is_digit_def field_def)

text \<open>A reference that leads nowhere is an empty object; the check for a failure is never reached.\<close>

lemma deref_dangling:
  assumes "\<not> ignored_name p ref" "ref = CHR ''#'' # rest" "decodeURIComponent ref = Some ref'"
    and "pointer_get (sp_spec p) ref' = Inl x" "ref \<notin> set stack"
  shows "deref p (ref_doc ref) stack b = Some (Inr (DObj [], pushRef stack (Some ref)))"
proof -
  have "byRef p ref = Inr (DObj [])" using assms(2-4)
    by (simp add: byRef_def Let_def del: decodeURIComponent.simps)
  moreover have "\<not> isRef (DObj [])" by (simp add: isRef_def dot_def field_def)
  ultimately show ?thesis using assms(1,5) by (simp add: deref_ref)
qed

text \<open>A reference that is on the stack is marked and not followed.\<close>

lemma deref_circular:
  assumes "\<not> ignored_name p ref" "byRef p ref = Inr found" "ref \<in> set stack"
  shows "\<exists>v. deref p (ref_doc ref) stack b = Some (Inr (v, pushRef stack (Some ref))) \<and>
    dot v ''x-circular-ref'' = DBool True"
  using assms by (auto simp: deref_ref dot_def)

text \<open>
  A set of references each of which leads to another one of the set: following one of them never ends,
  as the references that were followed are not put on the stack before.
\<close>

definition ref_loop :: "spec_parser \<Rightarrow> string set \<Rightarrow> bool" where
  "ref_loop p R \<longleftrightarrow> (\<forall>r \<in> R. \<not> ignored_name p r \<and> (\<exists>r' \<in> R. byRef p r = Inr (ref_doc r')))"

lemma deref_loop_aux:
  assumes "deref p e stack b = Some y"
  shows "\<forall>R ref. ref_loop p R \<longrightarrow> set stack \<inter> R = {} \<longrightarrow> ref \<in> R \<longrightarrow> e \<noteq> ref_doc ref"
proof (rule deref.raw_induct [OF _ assms])
  fix drf :: "spec_parser \<Rightarrow> doc \<Rightarrow> string list \<Rightarrow> bool \<Rightarrow> (doc \<times> string list) run"
  fix p e stack b y
  assume IH: "\<And>p e stack b y. drf p e stack b = Some y \<Longrightarrow>
      \<forall>R ref. ref_loop p R \<longrightarrow> set stack \<inter> R = {} \<longrightarrow> ref \<in> R \<longrightarrow> e \<noteq> ref_doc ref"
    and run: "(let own = dot e ''x-refsStack''; t = concatRefStacks stack own in
      if isRef e then
        (case dot e ''$ref'' of
           DStr ref \<Rightarrow>
             if (case getDefinitionName ref of None \<Rightarrow> False | Some n \<Rightarrow> n \<in> set (sp_ignoreNamedSchemas p)) then
               Some (Inr (DObj [(''type'', DStr ''object''), (''title'', DStr (the (getDefinitionName ref)))], t))
             else
               (case byRef p ref of
                  Inl x \<Rightarrow> Some (Inl x)
                | Inr found \<Rightarrow>
                    Option.bind
                      (if ref \<in> set t then
                         Some (Inr (DObj (put ''x-circular-ref'' (DBool True) (spread [] (own_props found))), t))
                       else if isRef found then drf p found t b
                       else Some (Inr (found, t)))
                      (\<lambda>r. case r of
                         Inl x \<Rightarrow> Some (Inl x)
                       | Inr (resolved, _) \<Rightarrow>
                           Some (Inr (if sp_allowMergeRefs p then mergeRefs e resolved b else resolved,
                             pushRef t (Some ref)))))
         | _ \<Rightarrow> Some (Inl (TypeError ''match'')))
      else Some (Inr (e, concatRefStacks t own))) = Some y"
  show "\<forall>R ref. ref_loop p R \<longrightarrow> set stack \<inter> R = {} \<longrightarrow> ref \<in> R \<longrightarrow> e \<noteq> ref_doc ref"
  proof (intro allI impI notI)
    fix R ref
    assume R: "ref_loop p R" "set stack \<inter> R = {}" "ref \<in> R" and e: "e = ref_doc ref"
    from R(1,3) obtain r' where r': "r' \<in> R" "byRef p ref = Inr (ref_doc r')" and named: "\<not> ignored_name p ref"
      unfolding ref_loop_def by blast
    have "ref \<notin> set stack" using R(2,3) by blast
    with run named r'(2) obtain z where "drf p (ref_doc r') stack b = Some z"
      by (auto simp: e Let_def ignored_name_def bind_eq_Some_conv)
    from IH [OF this] R(1,2) r'(1) show False by blast
  qed
qed

lemma deref_loop:
  assumes "ref_loop p R" "ref \<in> R" "set stack \<inter> R = {}"
  shows "deref p (ref_doc ref) stack b = None"
  using deref_loop_aux [of p "ref_doc ref" stack b] assms by (cases "deref p (ref_doc ref) stack b") blast+

text \<open>Without such a loop it returns: a rank of the references that decreases along them.\<close>

lemma deref_returns:
  assumes "\<And>ref found ref'. byRef p ref = Inr found \<Longrightarrow> isRef found \<Longrightarrow> dot found ''$ref'' = DStr ref' \<Longrightarrow>
      (rank ref' :: nat) < rank ref"
  shows "\<exists>r. deref p e stack b = Some r"
proof -
  have step: "\<exists>r. deref p e stack b = Some r"
    if follow: "\<And>ref found. dot e ''$ref'' = DStr ref \<Longrightarrow> byRef p ref = Inr found \<Longrightarrow> isRef found \<Longrightarrow>
        \<forall>stack. \<exists>r. deref p found stack b = Some r" for e stack
  proof (cases "isRef e")
    case True
    let ?t = "concatRefStacks stack (dot e ''x-refsStack'')"
    show ?thesis
    proof (cases "dot e ''$ref''")
      case (DStr ref)
      show ?thesis
      proof (cases "byRef p ref")
        case (Inr found)
        obtain m where m: "m = (if ref \<in> set ?t then
               Some (Inr (DObj (put ''x-circular-ref'' (DBool True) (spread [] (own_props found))), ?t))
             else if isRef found then deref p found ?t b else Some (Inr (found, ?t)))"
          by simp
        have "\<exists>x. m = Some x" using m follow [OF DStr Inr] by auto
        then show ?thesis
          using True DStr Inr
          by (subst deref.simps) (auto simp: Let_def m [symmetric] split: option.split sum.split)
      qed (use True DStr in \<open>subst deref.simps, simp add: Let_def split: option.split\<close>)
    qed (use True in \<open>subst deref.simps, simp add: Let_def\<close>)+
  qed (simp add: deref_plain)
  have "\<forall>e stack. dot e ''$ref'' = DStr ref \<longrightarrow> (\<exists>r. deref p e stack b = Some r)" for ref
  proof (induction "rank ref" arbitrary: ref rule: less_induct)
    case less
    show ?case
    proof (intro allI impI, rule step, rule allI)
      fix e stack ref1 found stack'
      assume e: "dot e ''$ref'' = DStr ref" "dot e ''$ref'' = DStr ref1" and found: "byRef p ref1 = Inr found" "isRef found"
      show "\<exists>r. deref p found stack' b = Some r"
      proof (cases "dot found ''$ref''")
        case (DStr ref')
        with assms [OF found] e less.hyps show ?thesis by auto
      qed (subst deref.simps, use found in \<open>simp add: Let_def isRef_def\<close>)+
    qed
  qed
  then show ?thesis
  proof (cases "dot e ''$ref''")
    case (DStr ref)
    with \<open>\<And>ref. \<forall>e stack. dot e ''$ref'' = DStr ref \<longrightarrow> (\<exists>r. deref p e stack b = Some r)\<close> show ?thesis by blast
  qed (subst deref.simps, simp add: Let_def)+
qed

text \<open>What a pointer finds is part of the document.\<close>

inductive sub_doc :: "doc \<Rightarrow> doc \<Rightarrow> bool" where
  sub_refl: "sub_doc v v"
| sub_obj: "(k, w) \<in> set kvs \<Longrightarrow> sub_doc v w \<Longrightarrow> sub_doc v (DObj kvs)"
| sub_arr: "w \<in> set vs \<Longrightarrow> sub_doc v w \<Longrightarrow> sub_doc v (DArr vs)"

inductive_simps sub_doc_simps:
  "sub_doc v (DObj kvs)" "sub_doc v (DArr vs)" "sub_doc v (DStr s)" "sub_doc v (DNum n)" "sub_doc v (DBool b)"

lemma isRef_obj: "isRef v \<Longrightarrow> \<exists>kvs. v = DObj kvs"
  by (cases v) (simp_all add: isRef_def dot_def)

lemma doc_get_part:
  assumes "doc_get e i = Inr w" "typeof w = ''object''"
  shows "(\<exists>kvs. e = DObj kvs \<and> w \<in> snd ` set kvs) \<or> (\<exists>vs. e = DArr vs \<and> w \<in> set vs)"
proof (cases e)
  case (DObj kvs)
  with assms have "map_of kvs i = Some w" by (auto simp: field_def split: option.splits)
  then have "w \<in> snd ` set kvs" by (auto dest: map_of_SomeD simp: image_iff intro: bexI [of _ "(i, w)"])
  with DObj show ?thesis by blast
qed (use assms in \<open>auto split: if_splits option.splits\<close>)

lemma get_tokens_sub: "get_tokens ts e = Inr v \<Longrightarrow> isRef v \<Longrightarrow> sub_doc v e"
proof (induction ts e rule: get_tokens.induct)
  case (2 i ts e)
  then obtain w where w: "doc_get e i = Inr w" "get_tokens ts w = Inr v"
    by (auto simp: js_bind_Inr_iff split: if_splits)
  have "typeof w = ''object''"
    using w(2) isRef_obj [OF 2(3)] by (cases ts) (auto split: if_splits)
  from doc_get_part [OF w(1) this] have "sub_doc v w \<Longrightarrow> sub_doc v e"
    by (auto intro: sub_obj sub_arr)
  moreover have "sub_doc v w"
    using 2 w by (auto simp: js_bind_Inr_iff split: if_splits)
  ultimately show ?case by blast
qed (simp add: sub_refl)

lemma byRef_sub: "byRef p ref = Inr found \<Longrightarrow> isRef found \<Longrightarrow> sub_doc found (sp_spec p)"
  using isRef_obj [of found] get_tokens_sub
  by (auto simp: byRef_def pointer_get_def js_bind_Inr_iff Let_def isRef_def dot_def field_def
      split: option.splits sum.splits if_splits)

section \<open>The bound on the depth\<close>

text \<open>A result does not depend on the bound: with a larger one it is the same.\<close>

definition run_le :: "'a run \<Rightarrow> 'a run \<Rightarrow> bool" where
  "run_le m m' \<longleftrightarrow> m = None \<or> m = m'"

lemma run_le_refl [simp]: "run_le m m"
  by (simp add: run_le_def)

lemma run_le_bind:
  assumes "run_le m m'" "\<And>a. run_le (f a) (f' a)"
  shows "run_le (run_bind m f) (run_bind m' f')"
proof (cases m)
  case (Some x)
  with assms(1) have m': "m' = Some x" by (simp add: run_le_def)
  show ?thesis
  proof (cases x)
    case (Inr b)
    with Some m' assms(2) [of b] show ?thesis by simp
  qed (simp add: Some m')
qed (simp add: run_le_def)

definition improves :: "merger \<Rightarrow> merger \<Rightarrow> bool" where
  "improves m' m \<longleftrightarrow> (\<forall>e pointer stack. run_le (m e pointer stack) (m' e pointer stack))"

lemma improvesD: "improves m' m \<Longrightarrow> run_le (m e pointer stack) (m' e pointer stack)"
  by (simp add: improves_def)

lemma merge_parts_mono:
  assumes "improves m' m"
  shows "run_le (merge_parts p m stack es parents) (merge_parts p m' stack es parents)"
proof (induction es arbitrary: parents)
  case (Cons e es)
  show ?case
    unfolding merge_parts.simps Let_def
    by (rule run_le_bind, rule run_le_refl)
      (auto intro!: run_le_bind improvesD [OF assms] Cons.IH split: prod.split)
qed simp

lemma merge_properties_mono:
  assumes "improves m' m"
  shows "run_le (merge_properties m pointer stack circular l ks ps) (merge_properties m' pointer stack circular l ks ps)"
proof (induction ks arbitrary: circular ps)
  case (Cons k ks)
  show ?case
    unfolding merge_properties.simps Let_def
    by (auto intro!: run_le_bind improvesD [OF assms] Cons.IH)
qed simp

lemma merge_part_mono:
  assumes "improves m' m"
  shows "run_le (merge_part m pointer part o0) (merge_part m' pointer part o0)"
  unfolding merge_part_def Let_def
  by (auto intro!: run_le_bind improvesD [OF assms] merge_properties_mono [OF assms] split: prod.split)

lemma merge_all_mono:
  assumes "improves m' m"
  shows "run_le (merge_all m pointer parts o0) (merge_all m' pointer parts o0)"
  by (induction parts arbitrary: o0) (auto intro!: run_le_bind merge_part_mono [OF assms])

lemma merge_step_mono:
  assumes "improves m' m"
  shows "improves (merge_step p m') (merge_step p m)"
  unfolding improves_def merge_step_def
  by (auto intro!: run_le_bind merge_parts_mono [OF assms] merge_all_mono [OF assms] split: doc.split prod.split)

lemma mergeAllOf_improves: "improves (mergeAllOf (Suc fuel) p) (mergeAllOf fuel p)"
proof (induction fuel)
  case 0
  then show ?case by (simp add: improves_def run_le_def)
next
  case (Suc fuel)
  from merge_step_mono [OF this] show ?case by (simp only: mergeAllOf.simps)
qed

lemma mergeAllOf_mono:
  assumes "mergeAllOf n p e pointer stack = Some r" "n \<le> m"
  shows "mergeAllOf m p e pointer stack = Some r"
  using assms(2)
proof (induction m rule: dec_induct)
  case (step m)
  from improvesD [OF mergeAllOf_improves, of m p e pointer stack]
  have "mergeAllOf m p e pointer stack = None \<or>
      mergeAllOf m p e pointer stack = mergeAllOf (Suc m) p e pointer stack"
    unfolding run_le_def .
  with step.IH show ?case by auto
qed (fact assms(1))

section \<open>What a merged schema has\<close>

definition required_of :: "props \<Rightarrow> doc set" where
  "required_of e = (case field e ''required'' of DArr xs \<Rightarrow> set xs | _ \<Rightarrow> {})"

definition properties_of :: "props \<Rightarrow> string set" where
  "properties_of e = fst ` set (own_props (field e ''properties''))"

text \<open>\<open>grows e o o'\<close>: \<open>o'\<close> requires what \<open>o\<close> and \<open>e\<close> require, and has the properties of both.\<close>

definition grows :: "props \<Rightarrow> props \<Rightarrow> props \<Rightarrow> bool" where
  "grows e o0 o1 \<longleftrightarrow>
     required_of o0 \<union> required_of e \<subseteq> required_of o1 \<and> properties_of o0 \<union> properties_of e \<subseteq> properties_of o1"

lemma own_props_field [simp]: "field (own_props (DObj kvs)) k = field kvs k"
proof -
  have "map_of (map (\<lambda>k. (k, field kvs k)) xs) k = (if k \<in> set xs then Some (field kvs k) else None)" for xs
    by (induction xs) auto
  then show ?thesis using field_undef [of k kvs] by (auto simp: field_def)
qed

lemma own_props_keys: "fst ` set (own_props (DObj kvs)) = fst ` set kvs"
  by (auto simp: image_comp)

lemma field_put_other: "k \<noteq> l \<Longrightarrow> field (put k v e) l = field e l"
  by simp

lemma merge_type_enum [simp]:
  "k \<noteq> ''type'' \<Longrightarrow> field (merge_type a o0) k = field o0 k"
  "k \<noteq> ''enum'' \<Longrightarrow> field (merge_enum a o0) k = field o0 k"
  by (auto simp: merge_type_def merge_enum_def split: doc.split)

lemma merge_alternatives_field [simp]:
  "k \<notin> {''oneOf'', ''anyOf''} \<Longrightarrow> field (merge_alternatives e o0) k = field o0 k"
  by (auto simp: merge_alternatives_def Let_def)

lemma merge_others_field [simp]:
  "field (merge_others e o0) ''required'' = field o0 ''required''"
  "field (merge_others e o0) ''properties'' = field o0 ''properties''"
  by (simp_all add: merge_others_def field_spread merged_keys_def)

lemma concat_docs_Inr: "concat_docs a b = Inr xs \<Longrightarrow> \<exists>ys zs. a = DArr ys \<and> b = DArr zs \<and> xs = ys @ zs"
  unfolding concat_docs_def by (cases a; cases b) simp_all

lemma or_js_DArr: "or_js a (DArr []) = DArr ys \<Longrightarrow> a = DArr ys \<or> (ys = [] \<and> \<not> truthy_doc a)"
  by (cases "truthy_doc a") (simp_all add: or_js_def)

lemma merge_required_ok:
  assumes "merge_required e o0 = Inr o1"
  shows "field o1 ''properties'' = field o0 ''properties''" "required_of o0 \<union> required_of e \<subseteq> required_of o1"
proof -
  show "field o1 ''properties'' = field o0 ''properties''"
    using assms by (auto simp: merge_required_def js_bind_Inr_iff split: if_splits)
  show "required_of o0 \<union> required_of e \<subseteq> required_of o1"
  proof (cases "field e ''required'' = DUndef")
    case True
    with assms show ?thesis by (simp add: merge_required_def required_of_def)
  next
    case False
    with assms obtain xs where xs: "concat_docs (or_js (field o0 ''required'') (DArr [])) (field e ''required'') = Inr xs"
      "o1 = put ''required'' (DArr xs) o0"
      by (auto simp: merge_required_def js_bind_Inr_iff)
    from concat_docs_Inr [OF xs(1)] obtain ys zs where
      ys: "or_js (field o0 ''required'') (DArr []) = DArr ys" "field e ''required'' = DArr zs" "xs = ys @ zs" by blast
    have "required_of o0 \<subseteq> set ys"
      using or_js_DArr [OF ys(1)] by (cases "field o0 ''required''") (simp_all add: required_of_def)
    with ys(2,3) show ?thesis by (simp add: required_of_def xs(2) le_supI1)
  qed
qed

lemma merge_rest_grows:
  assumes "merge_rest e o0 = Inr o1"
  shows "field o1 ''properties'' = field o0 ''properties''" "required_of o0 \<union> required_of e \<subseteq> required_of o1"
proof -
  obtain o2 where o2: "merge_required e (merge_alternatives e o0) = Inr o2" "o1 = merge_others e o2"
    using assms by (auto simp: merge_rest_def js_bind_Inr_iff)
  from merge_required_ok [OF o2(1)] show
    "field o1 ''properties'' = field o0 ''properties''" "required_of o0 \<union> required_of e \<subseteq> required_of o1"
    by (simp_all add: o2(2) required_of_def)
qed

definition plain_properties :: "doc \<Rightarrow> bool" where
  "plain_properties schema \<longleftrightarrow>
     field (own_props schema) ''properties'' = DUndef \<or> is_plain_object (field (own_props schema) ''properties'')"

lemma merge_properties_keys:
  "merge_properties merge pointer stack circular l ks ps = Some (Inr ps') \<Longrightarrow>
    fst ` set ps \<union> set ks \<subseteq> fst ` set ps'"
proof (induction ks arbitrary: circular ps)
  case (Cons k ks)
  have put: "fst ` set ps \<union> set (k # ks) \<subseteq> fst ` set ps'"
    if "merge_properties merge pointer stack c l ks (put k v ps) = Some (Inr ps')" for c v
    using Cons.IH [OF that] unfolding keys_put by simp
  show ?case
  proof (cases "truthy_doc (field ps k) \<and> circular")
    case True
    then have "k \<in> fst ` set ps" using field_undef [of k ps] by (cases "k \<in> fst ` set ps") auto
    moreover have "fst ` set ps \<union> set ks \<subseteq> fst ` set ps'"
      using Cons.IH Cons.prems True by (simp add: Let_def)
    ultimately show ?thesis unfolding list.set by blast
  next
    case False
    then obtain v where "merge_properties merge pointer stack circular l ks (put k v ps) = Some (Inr ps')"
      using Cons.prems by (auto simp: Let_def run_bind_Some_Inr_iff split: if_splits)
    then show ?thesis by (rule put)
  qed
qed simp

lemma merge_part_grows:
  assumes "merge_part merge pointer (a, stack, schema) o0 = Some (Inr o1)"
    and "plain_properties schema"
  shows "grows (own_props schema) o0 o1"
proof -
  let ?e = "own_props schema"
  let ?o = "merge_enum (field ?e ''enum'') (merge_type (field ?e ''type'') o0)" and ?l = "field ?e ''properties''"
  let ?circular = "truthy_doc (field ?e ''x-circular-ref'')"
  let ?items = "\<lambda>o2. DObj [(''allOf'', DArr [items_object (field o2 ''items''), items_object (field ?e ''items'')])]"
  have keep: "field ?o ''required'' = field o0 ''required''" "field ?o ''properties'' = field o0 ''properties''"
    by simp_all
  from assms(1) obtain o2 where
    o2: "(if ?l \<noteq> DUndef \<and> typeof ?l = ''object'' then
            run_bind (merge_properties merge pointer stack ?circular (own_props ?l) (map fst (own_props ?l))
                (own_props (or_js (field ?o ''properties'') (DObj []))))
              (\<lambda>ps. Some (Inr (put ''properties'' (DObj ps) ?o)))
          else Some (Inr ?o)) = Some (Inr o2)"
    and rest: "run_bind
           (if field ?e ''items'' \<noteq> DUndef \<and> \<not> ?circular then
              run_bind (merge (?items o2) (pointer @ ''/items'') stack) (\<lambda>v. Some (Inr (put ''items'' v o2)))
            else Some (Inr o2))
           (\<lambda>o3. Some (merge_rest ?e o3)) = Some (Inr o1)"
    unfolding merge_part_def prod.case Let_def run_bind_Some_Inr_iff by blast
  from rest obtain o3 where
    "(if field ?e ''items'' \<noteq> DUndef \<and> \<not> ?circular then
        run_bind (merge (?items o2) (pointer @ ''/items'') stack) (\<lambda>v. Some (Inr (put ''items'' v o2)))
      else Some (Inr o2)) = Some (Inr o3)" and o3': "merge_rest ?e o3 = Inr o1"
    unfolding run_bind_Some_Inr_iff by blast
  then consider "o3 = o2" | v where "o3 = put ''items'' v o2"
    by (auto simp: run_bind_Some_Inr_iff split: if_splits)
  then have o3: "field o3 ''required'' = field o2 ''required'' \<and> field o3 ''properties'' = field o2 ''properties''"
    by cases simp_all
  consider "o2 = ?o" | ps where "o2 = put ''properties'' (DObj ps) ?o"
    using o2 by (auto simp: run_bind_Some_Inr_iff split: if_splits)
  then have req: "field o2 ''required'' = field o0 ''required''" by cases simp_all
  have "properties_of o0 \<union> properties_of ?e \<subseteq> properties_of o2"
  proof (cases "?l = DUndef")
    case True
    with o2 keep show ?thesis by (simp add: properties_of_def)
  next
    case False
    then obtain kvs where l: "?l = DObj kvs" using assms(2) by (cases ?l) (auto simp: plain_properties_def is_plain_object_def)
    with o2 obtain ps where ps: "merge_properties merge pointer stack ?circular (own_props ?l) (map fst (own_props ?l))
        (own_props (or_js (field ?o ''properties'') (DObj []))) = Some (Inr ps)" "o2 = put ''properties'' (DObj ps) ?o"
      by (auto simp: run_bind_Some_Inr_iff)
    have same: "own_props (or_js a (DObj [])) = own_props a" for a
      unfolding or_js_def by (cases a) (auto simp: own_keys_def)
    have "properties_of o2 = fst ` set ps" unfolding properties_of_def ps(2) by (simp add: image_comp)
    moreover have "fst ` set (own_props (field o0 ''properties'')) \<union> fst ` set (own_props ?l) \<subseteq> fst ` set ps"
      using merge_properties_keys [OF ps(1)] unfolding keep(2) same set_map .
    ultimately show ?thesis by (simp only: properties_of_def)
  qed
  with merge_rest_grows [OF o3'] o3 req show ?thesis
    by (simp add: grows_def required_of_def properties_of_def)
qed

lemma merge_all_grows:
  assumes "merge_all merge pointer parts o0 = Some (Inr o1)"
    and "\<forall>part \<in> set parts. plain_properties (snd (snd part))"
  shows "required_of o0 \<subseteq> required_of o1" "properties_of o0 \<subseteq> properties_of o1"
    "\<forall>part \<in> set parts. required_of (own_props (snd (snd part))) \<subseteq> required_of o1 \<and>
       properties_of (own_props (snd (snd part))) \<subseteq> properties_of o1"
proof -
  have "required_of o0 \<subseteq> required_of o1 \<and> properties_of o0 \<subseteq> properties_of o1 \<and>
    (\<forall>part \<in> set parts. required_of (own_props (snd (snd part))) \<subseteq> required_of o1 \<and>
       properties_of (own_props (snd (snd part))) \<subseteq> properties_of o1)"
    using assms
  proof (induction parts arbitrary: o0)
    case (Cons part parts)
    obtain a i s where part: "part = (a, i, s)" by (metis prod.exhaust)
    from Cons.prems(1) obtain o2 where
      o2: "merge_part merge pointer (a, i, s) o0 = Some (Inr o2)" "merge_all merge pointer parts o2 = Some (Inr o1)"
      unfolding merge_all.simps run_bind_Some_Inr_iff part by blast
    have "grows (own_props s) o0 o2"
      using merge_part_grows [OF o2(1)] Cons.prems(2) by (simp add: part)
    then have 1: "required_of o0 \<subseteq> required_of o2" "required_of (own_props s) \<subseteq> required_of o2"
      "properties_of o0 \<subseteq> properties_of o2" "properties_of (own_props s) \<subseteq> properties_of o2"
      unfolding grows_def by blast+
    have "\<forall>part \<in> set parts. plain_properties (snd (snd part))" using Cons.prems(2) by simp
    note 2 = Cons.IH [OF o2(2) this]
    from 1 2 show ?case unfolding part list.set ball_simps fst_conv snd_conv by (meson order_trans)
  qed simp
  then show "required_of o0 \<subseteq> required_of o1" "properties_of o0 \<subseteq> properties_of o1"
    "\<forall>part \<in> set parts. required_of (own_props (snd (snd part))) \<subseteq> required_of o1 \<and>
       properties_of (own_props (snd (snd part))) \<subseteq> properties_of o1" by blast+
qed

text \<open>A schema of its own: no reference, no \<open>allOf\<close> and no alternatives.\<close>

definition plain_part :: "doc \<Rightarrow> bool" where
  "plain_part e \<longleftrightarrow>
     is_plain_object e \<and> dot e ''$ref'' = DUndef \<and> dot e ''allOf'' = DUndef \<and> \<not> is_array (dot e ''oneOf'') \<and>
     plain_properties e"

lemma plain_part_obj: "plain_part e \<Longrightarrow> \<exists>kvs. e = DObj kvs"
  by (cases e) (simp_all add: plain_part_def is_plain_object_def)

lemma merge_plain_part:
  assumes "plain_part e" "mergeAllOf n p e pointer stack = Some r"
  shows "r = Inr e"
proof -
  obtain kvs where e: "e = DObj kvs" using plain_part_obj [OF assms(1)] by blast
  obtain m where n: "n = Suc m" using assms(2) by (cases n) simp_all
  from assms show ?thesis
    by (auto simp: n e merge_step_def hoistOneOfs_def plain_part_def split: if_splits)
qed

lemma merge_plain_parts:
  assumes "\<forall>e \<in> set es. plain_part e"
    and "merge_parts p (mergeAllOf n p) stack es parents = Some (Inr (parents', parts))"
  shows "map (\<lambda>part. snd (snd part)) parts = es"
  using assms
proof (induction es arbitrary: parents parents' parts)
  case (Cons e es)
  have e: "e \<noteq> DUndef" "e \<noteq> DNull" using plain_part_obj [of e] Cons.prems(1) by auto
  have plain: "plain_part e" using Cons.prems(1) by simp
  then have ref: "\<not> isRef e" "dot e ''$ref'' = DUndef" "dot e ''allOf'' = DUndef"
    by (simp_all add: plain_part_def isRef_def)
  define i where "i = concatRefStacks (concatRefStacks stack (dot e ''x-refsStack'')) (dot e ''x-refsStack'')"
  have deref: "deref p e stack True = Some (Inr (e, i))" using deref_plain [OF ref(1)] by (simp add: i_def)
  from Cons.prems(2) obtain s where s: "mergeAllOf n p e ''undefined'' i = Some (Inr s)"
    and rest: "(if truthy_doc (dot s ''x-circular-ref'') \<and> truthy_doc (dot s ''allOf'')
        then merge_parts p (mergeAllOf n p) stack es parents
        else run_bind (merge_parts p (mergeAllOf n p) stack es parents) (\<lambda>(parents'', parts).
          Some (Inr (parents'', (None, pushRef i None, s) # parts)))) = Some (Inr (parents', parts))"
    by (auto simp: deref ref e run_bind_Some_Inr_iff cong: if_cong)
  from merge_plain_part [OF plain s] have s_e: "s = e" by simp
  from rest obtain parts' where parts': "merge_parts p (mergeAllOf n p) stack es parents = Some (Inr (parents', parts'))"
    "parts = (None, pushRef i None, e) # parts'"
    by (auto simp: s_e ref run_bind_Some_Inr_iff)
  from Cons.IH [OF _ parts'(1)] Cons.prems(1) show ?case by (simp add: parts'(2))
qed simp

lemma first_one_of_plain: "\<forall>e \<in> set es. plain_part e \<Longrightarrow> first_one_of before es = Inr None"
proof (induction es arbitrary: before)
  case (Cons e es)
  obtain kvs where "e = DObj kvs" using plain_part_obj Cons.prems by auto
  with Cons show ?case by (auto simp: plain_part_def split: doc.split)
qed simp

lemma mergeAllOf_plain:
  assumes "mergeAllOf n p (DObj kvs) pointer stack = Some (Inr v)"
    and "\<not> truthy_doc (field kvs ''x-circular-ref'')"
    and "field kvs ''allOf'' = DArr es" "\<forall>e \<in> set es. plain_part e"
  shows "\<exists>o1. v = DObj o1 \<and>
    (\<forall>e \<in> set es. required_of (own_props e) \<subseteq> required_of o1 \<and> properties_of (own_props e) \<subseteq> properties_of o1)"
proof -
  obtain m where n: "n = Suc m" using assms(1) by (cases n) simp_all
  have "hoistOneOfs (DObj kvs) = Inr (DObj kvs)"
    by (simp add: hoistOneOfs_def dot_def assms(3) first_one_of_plain [OF assms(4)])
  with assms(1-3) obtain parents parts o1 where
    1: "merge_parts p (mergeAllOf m p) stack es [] = Some (Inr (parents, parts))"
      "merge_all (mergeAllOf m p) pointer parts
        (put ''x-parentRefs'' (DArr parents) (receiver (own_props (DObj kvs)) pointer)) = Some (Inr o1)"
      "v = DObj o1"
    by (auto simp: n merge_step_def dot_def run_bind_Some_Inr_iff)
  from merge_plain_parts [OF assms(4) 1(1)] have es: "set es = (\<lambda>part. snd (snd part)) ` set parts"
    by (simp flip: set_map)
  then have "\<forall>part \<in> set parts. plain_properties (snd (snd part))"
    using assms(4) by (auto simp: plain_part_def)
  from merge_all_grows(3) [OF 1(2) this] show ?thesis by (simp only: 1(3) es) blast
qed

end
