(* ===== verification/Document_Properties.thy ===== *)
theory Document_Properties
  imports Menu_Invariant Openapi_Facts Spec_Facts
begin

text \<open>
  Properties of how the viewer reads API documents and of its side menu, each with an instance.
\<close>

section \<open>The side menu\<close>

text \<open>An instance: a group with a tag that has two operations, and a section.\<close>

definition ex_item :: "string \<Rightarrow> item_type \<Rightarrow> int \<Rightarrow> nat option \<Rightarrow> nat list \<Rightarrow> menu_item" where
  "ex_item x ty d p is =
     \<lparr>mi_id = x, mi_type = ty, mi_name = x, mi_depth = d, mi_parent = p, mi_items = is,
      mi_active = False, mi_expanded = (ty = Group), mi_absoluteIdx = 0\<rparr>"

definition ex_items :: items where
  "ex_items =
     [ex_item ''group/a'' Group 0 None [1], ex_item ''tag/b'' Tag 1 (Some 0) [2, 3],
      ex_item ''operation/c'' Operation 2 (Some 1) [], ex_item ''operation/d'' Operation 2 (Some 1) [],
      ex_item ''section/e'' Section 1 None []]"

lemma ex_flat: "flattenByProp ex_items [0, 4] = Some [0, 1, 2, 3, 4]"
  by (simp add: flattenByProp.simps ex_items_def ex_item_def)

lemma ex_parent_lt: "i < length ex_items \<Longrightarrow> mi_parent (ex_items ! i) = Some p \<Longrightarrow> p < i"
  unfolding ex_items_def by (auto simp: less_Suc_eq ex_item_def)

lemma ex_fresh: "fresh_items ex_items"
  unfolding fresh_items_def parents_before_def
  using ex_parent_lt by (auto simp: ex_items_def ex_item_def)

definition ex_menu :: menu_store where
  "ex_menu = the (new_menu ex_items [0, 4])"

lemma ex_flat_ok: "distinct [0, 1, 2, 3, 4 :: nat]" "set [0, 1, 2, 3, 4] \<subseteq> {..<length ex_items}"
  by (auto simp: ex_items_def)

lemma ex_menu_ok: "new_menu ex_items [0, 4] = Some ex_menu" "menu_inv ex_menu" "ms_flatItems ex_menu = [0, 1, 2, 3, 4]"
  using new_menu_inv [OF ex_fresh ex_flat ex_flat_ok] by (auto simp: ex_menu_def)

lemma ex_menu_eq:
  "ex_menu = \<lparr>ms_objects = number_items [0, 1, 2, 3, 4] ex_items, ms_items = [0, 4], ms_flatItems = [0, 1, 2, 3, 4],
     ms_activeItemIdx = -1, ms_sideBarOpened = False, ms_replaced = [], ms_scrolled = []\<rparr>"
  using ex_menu_ok(1) by (simp add: new_menu_def ex_flat)

lemma ex_menu_ids: "map (item_id ex_menu) [0, 1, 2, 3, 4] =
  [''group/a'', ''tag/b'', ''operation/c'', ''operation/d'', ''section/e'']"
  by (simp add: ex_menu_eq item_id_def ex_items_def ex_item_def number_items_def)

definition ex_page :: page where
  "ex_page = \<lparr>pg_has = (\<lambda>_. True), pg_below = (\<lambda>x. x = ''section/e''), pg_above = (\<lambda>x. x = ''tag/b''),
     pg_head = []\<rparr>"

text \<open>
  C21: Whatever happens to the menu of a document (clicks on its items, choices in the search, scrolling,
  changes of the hash, with the page in any state each time), the store answers it, and afterwards at
  most one item is active and it is the one the index stands for, no group is active, every ancestor of the
  active item is expanded, and no other item but groups is.
\<close>

theorem menu_stays_consistent:
  assumes "fresh_items its" "flattenByProp its roots = Some flat" "distinct flat" "set flat \<subseteq> {..<length its}"
    and "new_menu its roots = Some s" "\<forall>(pg, ev) \<in> set evs. event_ok s ev"
  shows "\<exists>s'. menu_steps evs s = Some s' \<and> menu_inv s' \<and> ms_flatItems s' = flat"
  using new_menu_inv [OF assms(1-4)] menu_steps_ok [of s evs] assms(5,6) by auto

theorem menu_stays_consistent_witness:
  "\<exists>s'. menu_steps [(ex_page, Chosen 2), (ex_page, Scrolled True), (ex_page, Clicked True 1)] ex_menu = Some s' \<and>
    menu_inv s'"
proof -
  have "\<forall>(pg, ev) \<in> set [(ex_page, Chosen 2), (ex_page, Scrolled True), (ex_page, Clicked True 1)].
      event_ok ex_menu ev"
    by (simp add: event_ok_def ex_menu_ok(3))
  from menu_stays_consistent [OF ex_fresh ex_flat ex_flat_ok ex_menu_ok(1) this] show ?thesis by blast
qed

text \<open>
  Scrolling moves the active item to where the window is: downwards over all items that are not
  below its edge, until the next one is or there is none; upwards over all items that are not above
  it, until one is or there is none left.
\<close>

theorem scrolling_follows_window:
  assumes "menu_inv s"
  shows "\<exists>d u. d = scroll_idx pg s True (ms_activeItemIdx s) \<and> u = scroll_idx pg s False (ms_activeItemIdx s) \<and>
    (\<forall>k \<in> {ms_activeItemIdx s <.. d}. \<not> visible_below pg s k) \<and>
    (d = int (length (ms_flatItems s)) - 1 \<or> visible_below pg s (d + 1)) \<and>
    (\<forall>k \<in> {u <.. ms_activeItemIdx s}. \<not> visible_above pg s k) \<and> (u = -1 \<or> visible_above pg s u) \<and>
    -1 \<le> u \<and> u \<le> ms_activeItemIdx s \<and> ms_activeItemIdx s \<le> d \<and> d < int (length (ms_flatItems s))"
  using scroll_down [of "ms_activeItemIdx s" s pg] scroll_up [of "ms_activeItemIdx s" pg s] assms
  by (simp add: menu_inv_def)

lemma ex_visible_below: "0 \<le> k \<Longrightarrow> k < 5 \<Longrightarrow> visible_below ex_page ex_menu k \<longleftrightarrow> k = 4"
proof -
  assume "0 \<le> k" "k < 5"
  then have "k \<in> {0, 1, 2, 3, 4}" by auto
  then show ?thesis
    by (auto simp: visible_below_def getElementAtOrFirstChild_def flat_at_def first_child_def item_id_def
        ex_menu_eq ex_items_def ex_item_def number_items_def ex_page_def)
qed

theorem scrolling_follows_window_witness: "scroll_idx ex_page ex_menu True (-1) = 3"
proof -
  have idx: "ms_activeItemIdx ex_menu = -1" by (simp add: ex_menu_eq)
  obtain d where d: "scroll_idx ex_page ex_menu True (-1) = d" "\<forall>k \<in> {-1 <.. d}. \<not> visible_below ex_page ex_menu k"
    "d = 4 \<or> visible_below ex_page ex_menu (d + 1)" "-1 \<le> d" "d < 5"
    using scrolling_follows_window [OF ex_menu_ok(2), of ex_page] unfolding idx ex_menu_ok(3) by auto
  have "visible_below ex_page ex_menu 4" using ex_visible_below [of 4] by simp
  with d(2) have "d \<noteq> 4" by auto
  with d(3-5) ex_visible_below [of "d + 1"] have "d = 3" by simp
  with d(1) show ?thesis by simp
qed

text \<open>
  C24: A menu that is restored from the index a server has stored shows nothing as active: the index is set
  before the item is activated, which then counts as the active one already. Choosing that item, by a
  click or otherwise, does nothing either.
\<close>

theorem restored_item_never_active:
  assumes "menu_inv s" "activeItem s = None" "flat_at k s = Some i" "getItemById (item_id s i) s = Some i"
  shows "\<exists>s1 s2. fromJS k s = Some s1 \<and> activeItem s1 = Some i \<and>
    activateAndScroll pg (Some i) u r s1 = Some s2 \<and> ms_objects s2 = ms_objects s \<and>
    (\<forall>j < length (ms_objects s2). \<not> mi_active (ms_objects s2 ! j))"
  using restored_stuck [OF assms] .

theorem restored_item_never_active_witness:
  "\<exists>s1 s2. fromJS 2 ex_menu = Some s1 \<and> activeItem s1 = Some 2 \<and>
    activateAndScroll ex_page (Some 2) True False s1 = Some s2 \<and> \<not> mi_active (ms_objects s2 ! 2)"
proof -
  have 1: "activeItem ex_menu = None" "flat_at 2 ex_menu = Some 2" "length (ms_objects ex_menu) = 5"
    by (simp_all add: activeItem_def flat_at_def ex_menu_eq ex_items_def)
  have 2: "getItemById (item_id ex_menu 2) ex_menu = Some 2"
    using ex_menu_ids by (simp add: getItemById_def ex_menu_ok(3))
  obtain s1 s2 where s: "fromJS 2 ex_menu = Some s1" "activeItem s1 = Some 2"
    "activateAndScroll ex_page (Some 2) True False s1 = Some s2" "ms_objects s2 = ms_objects ex_menu"
    "\<forall>j < length (ms_objects s2). \<not> mi_active (ms_objects s2 ! j)"
    using restored_item_never_active [OF ex_menu_ok(2) 1(1,2) 2, of ex_page True False] by blast
  with 1(3) show ?thesis by auto
qed

section \<open>Pointers and references\<close>

text \<open>
  C28: A pointer that was made of tokens, with any characters in them, is read back to these tokens, with
  or without a hash before it, and following a joined pointer is following the one and then the other.
\<close>

theorem pointer_read_back:
  "da_parse (compile ts) = Inr ts \<and> da_parse (CHR ''#'' # compile ts) = Inr ts \<and>
    js_bind (pointer_join (compile ts) us) (pointer_get e) =
      js_bind (pointer_get e (CHR ''#'' # compile ts)) (get_tokens us)"
proof -
  have "da_parse (CHR ''#'' # compile ts) = da_parse (compile ts)" by (simp add: compile_def)
  then show ?thesis using parse_compile get_join by (simp add: pointer_get_def)
qed

text \<open>An instance: the first schema is a reference to the second.\<close>

definition ex_ref :: "string \<Rightarrow> string" where
  "ex_ref n = ''#/components/schemas/'' @ n"

definition ex_parser :: "props \<Rightarrow> spec_parser" where
  "ex_parser schemas =
     \<lparr>sp_spec = DObj [(''components'', DObj [(''schemas'', DObj schemas)])],
      sp_allowMergeRefs = False, sp_ignoreNamedSchemas = []\<rparr>"

definition ex_object :: doc where
  "ex_object = DObj [(''type'', DStr ''object'')]"

definition ex_chain :: spec_parser where
  "ex_chain = ex_parser [(''A'', ref_doc (ex_ref ''B'')), (''B'', ex_object)]"

lemma ex_chain_found: "byRef ex_chain (ex_ref ''B'') = Inr ex_object"
  by (simp add: ex_chain_def) code_simp

text \<open>
  Following a reference ends if the references of the document can be ranked so that what a
  reference leads to, if it is a reference again, has a smaller rank.
\<close>

theorem references_end:
  assumes "\<And>ref found ref'. byRef p ref = Inr found \<Longrightarrow> isRef found \<Longrightarrow> dot found ''$ref'' = DStr ref' \<Longrightarrow>
      (rank ref' :: nat) < rank ref"
  shows "\<exists>r. deref p e stack b = Some r"
  using deref_returns [OF assms] .

lemma ex_chain_refs: "byRef ex_chain ref = Inr found \<Longrightarrow> isRef found \<Longrightarrow> found = ref_doc (ex_ref ''B'')"
  by (drule (1) byRef_sub)
    (auto simp: ex_chain_def ex_parser_def ex_object_def ref_doc_def sub_doc_simps isRef_def dot_def field_def)

theorem references_end_witness: "\<exists>r. deref ex_chain (ref_doc (ex_ref ''A'')) [] False = Some r"
proof (rule references_end [of ex_chain "\<lambda>r. if \<exists>found. byRef ex_chain r = Inr found \<and> isRef found then 1 else 0"])
  fix ref found ref'
  assume found: "byRef ex_chain ref = Inr found" "isRef found" and ref': "dot found ''$ref'' = DStr ref'"
  have "ref' = ex_ref ''B''" using ex_chain_refs [OF found] ref' by simp
  then have "byRef ex_chain ref' = Inr ex_object" by (simp add: ex_chain_found)
  moreover have "\<not> isRef ex_object" by (simp add: isRef_def ex_object_def dot_def field_def)
  ultimately show "(if \<exists>found. byRef ex_chain ref' = Inr found \<and> isRef found then 1 else 0 :: nat)
      < (if \<exists>found. byRef ex_chain ref = Inr found \<and> isRef found then 1 else 0)"
    using found by auto
qed

text \<open>
  C23: References that lead to each other in a circle are followed for ever: a reference is put on the
  stack only after its target was followed, so that the check for circles never finds one of them.
\<close>

theorem reference_circle_never_returns:
  assumes "ref_loop p R" "ref \<in> R" "set stack \<inter> R = {}"
  shows "deref p (ref_doc ref) stack b = None"
  using deref_loop [OF assms] .

definition ex_circle :: spec_parser where
  "ex_circle = ex_parser [(''A'', ref_doc (ex_ref ''B'')), (''B'', ref_doc (ex_ref ''A''))]"

lemma ex_circle_loop: "ref_loop ex_circle {ex_ref ''A'', ex_ref ''B''}"
proof -
  have "byRef ex_circle (ex_ref ''A'') = Inr (ref_doc (ex_ref ''B''))" by code_simp
  moreover have "byRef ex_circle (ex_ref ''B'') = Inr (ref_doc (ex_ref ''A''))" by code_simp
  ultimately show ?thesis
    by (auto simp: ref_loop_def ignored_name_def ex_circle_def ex_parser_def split: option.split)
qed

theorem reference_circle_never_returns_witness: "deref ex_circle (ref_doc (ex_ref ''A'')) [] True = None"
  by (rule reference_circle_never_returns [OF ex_circle_loop]) simp_all










section \<open>Responses and ranges\<close>










text \<open>
  C27: The range shown for a number contains every number that the schema admits, and nothing else unless
  the schema has both an inclusive and an exclusive limit on one side: then the weaker of the two is shown.
\<close>

theorem shown_range_sound:
  assumes "range_fields e"
  shows "\<exists>rg. numeric_range e = Inr rg \<and> (admits e x \<longrightarrow> in_range rg x) \<and>
    (\<not> both_bounds e \<longrightarrow> in_range rg x \<longrightarrow> admits e x)"
  using numeric_range_ok [OF assms] .

definition ex_range :: props where
  "ex_range = [(''minimum'', DNum (Dec 1 0)), (''maximum'', DNum (Dec 5 0)), (''exclusiveMaximum'', DBool True)]"

theorem shown_range_sound_witness:
  "\<exists>rg. numeric_range ex_range = Inr rg \<and> in_range rg (Dec 3 0) \<and> \<not> in_range rg (Dec 5 0)"
proof -
  have "range_fields ex_range" "\<not> both_bounds ex_range"
    by (simp_all add: range_fields_def both_bounds_def ex_range_def field_def)
  with shown_range_sound [of ex_range "Dec 3 0"] shown_range_sound [of ex_range "Dec 5 0"]
  have "\<exists>rg. numeric_range ex_range = Inr rg \<and> (admits ex_range (Dec 3 0) \<longrightarrow> in_range rg (Dec 3 0)) \<and>
      (in_range rg (Dec 5 0) \<longrightarrow> admits ex_range (Dec 5 0))"
    by auto
  moreover have "admits ex_range (Dec 3 0)" "\<not> admits ex_range (Dec 5 0)"
    by (simp_all add: admits_def ex_range_def field_def dec_rat_def)
  ultimately show ?thesis by blast
qed

end
