(* ===== verification/Spec2Isabelle.thy ===== *)
theory Spec2Isabelle
  imports
    Instances Dict_Update Rpc Handler_Base Queue_Properties Config_Properties Kelvin_Properties
    Password_Hook Requests Plugin_Loader
    Api_Properties Viewer_Properties Document_Properties
begin

text \<open>
  A verification library for the UCS@school ID Connector.

  The program. The connector replicates users and school classes of a UCS@school domain to the Kelvin
  APIs of school authorities. A listener on the domain writes one JSON file per changed object. The
  in queue (queues.py, InQueue) preprocesses each file, records the state of the object in a database
  of old data (db.py), and copies the file to the out queues of those school authorities that its
  present and previous schools are mapped to. The task of each out queue (OutQueue) works on its files
  ordered by object type and hands them to the plugins of its school authority, whose dispatchers search
  the object on the target system and create, modify or remove it there. A service (rpc.py) keeps the
  queues and the configuration together and answers the requests of an HTTP API. That API ships a
  documentation page, rendered by a bundled viewer, static/redoc.standalone-2.0.0-rc.75.js.

  Two languages. The service is written in Python, and its theories come first here. The only
  JavaScript of the repository is the bundle, a vendored third-party build of Redoc with
  styled-components 5.3.0; modelled are the theme, the templates of the styles with the machinery that
  renders them and inserts the rules, the side menu, and the code that reads the API document: pointers,
  references, schemas put together, responses and constraints. Theories and components say which of the
  two languages they belong to.

  \<^bold>\<open>Python: which theory models which file\<close> (paths under src/src/)
  \<^item> \<open>Prelude\<close>: exceptions as the datatype \<open>exn\<close>, dynamically typed values \<open>pyval\<close>, dictionaries as
    association lists in insertion order (\<open>pydict\<close>), and the state monad with exceptions
    (\<open>st\<close>: a state is returned with a result \<open>exn + 'a\<close>, so changes made before an exception stay).
  \<^item> \<open>Regex\<close>, \<open>Dn_Regex\<close>: utils.py, constants.py. The patterns for DNs, role strings and URLs as values, with a
    backtracking matcher and round trips. \<open>Dict_Update\<close>: \<open>recursive_dict_update\<close>. \<open>Base64\<close>: the codec used by models.py.
  \<^item> \<open>Models\<close>: models.py. Listener objects as records and one sum type, roles of users, school authorities, secrets.
  \<^item> \<open>Old_Data_DB\<close>: db.py over a cache with the laws of a dictionary (\<open>cache_laws\<close>; locale \<open>entry_type\<close>).
    \<open>Listener_Objects\<close>: listener_objects.py, loading, saving, preprocessing (locale \<open>old_data_handler\<close>).
  \<^item> \<open>Plugins\<close>: plugins.py. \<open>Distribution\<close>: distribution_user.py, distribution_group_kelvin.py,
    distribution_group_base.py and the distribution class of kelvin_partial_group_sync_handlers.py.
  \<^item> \<open>File_Queue\<close>, \<open>In_Queue\<close>, \<open>Out_Queue\<close>: the three classes of queues.py. A directory is a list of entries with
    its trash and its keep directory; one round of each loop is a function, the endless task of an out
    queue a step function \<open>scan_step\<close> with the relation \<open>scan_run\<close> of what it reaches, in which the in
    queue may deliver files between any two steps (locale \<open>queue_loop\<close>).
  \<^item> \<open>Config_Storage\<close>: config_storage.py. \<open>Rpc\<close>: rpc.py and the start of scripts/queue_management.py. The
    record \<open>service\<close> also says whether the in queue shares the list of out queues, since
    \<open>InQueue.__init__\<close> replaces an empty list.
  \<^item> \<open>Handler_Base\<close>: output_plugin_handler_base.py; an abstract class is the record \<open>dispatcher\<close> of its methods,
    and the locale \<open>target\<close> states what they may change. \<open>Kelvin_Connection\<close>, \<open>Kelvin_Classes\<close>,
    \<open>Kelvin_Users\<close>, \<open>Kelvin_Plugin\<close>: kelvin_connection.py, school_classes_kelvin.py with group_handler_base.py,
    users_kelvin.py with user_handler_base.py, and kelvin_handlers.py with
    kelvin_partial_group_sync_handlers.py; each interprets \<open>target\<close> on its dispatcher.
  \<^item> \<open>Ucr\<close>: the settings of utils.py with their cache. \<open>Ldap_Access\<close>: ldap_access.py. \<open>Token_Auth\<close>: token_auth.py
    and the login of http_api.py. \<open>Http_Api\<close>: the other routes of http_api.py, the query of the service, and the
    loop over messages of rpc.py; the record \<open>api\<close> is the service with what the API process caches.
    \<open>Service_Run\<close>: the service of scripts/queue_management.py while it runs, as the relation \<open>service_step\<close> of rounds
    of its queues and messages in any order, and its shutdown.
  \<^item> \<open>Schedulers\<close>: user_scheduler.py, group_scheduler.py, school_scheduler.py with its limit of tasks as the step
    relations \<open>task_step\<close> and \<open>school_step\<close>, and the trash cleaner of scripts/. \<open>Scheduler_Facts\<close>: what all
    interleavings of the tasks have in common (locale \<open>logged_tasks\<close>, for users and for groups).
  \<^item> \<open>Password_Hook\<close>: the hook under static/ for target systems. \<open>Requests\<close>: requests.py.
    \<open>Plugin_Loader\<close>: plugin_loader.py.
  \<^item> \<open>Instances\<close>: concrete parameters for the witnesses. \<open>Queue_Properties\<close>, \<open>Config_Properties\<close>,
    \<open>Kelvin_Properties\<close>, \<open>Api_Properties\<close> and this theory: the properties, each with its witness.

  \<^bold>\<open>JavaScript: which theory models what of the bundle\<close> (line 8 holds the machinery, minified)
  \<^item> \<open>JS_Value\<close>: values, property access, conversion to strings, exceptions. \<open>Styled_Rules\<close>: templates, flattening
    and \<open>css_text\<close>. \<open>Styled_Hash\<close>: the hash of class names on 32-bit words. \<open>Styled_Tag\<close>, \<open>Styled_Sheet\<close>: the groups of
    rules in one style element, their numbers, and the insertion of a component's style.
  \<^item> \<open>Theme\<close>, \<open>Theme_Default\<close>, \<open>Theme_Meaning\<close>: merging themes, replacing the functions in a theme by their
    values, the default theme as a value, and a semantics without cache to compare with.
  \<^item> \<open>Css_Braces\<close>, \<open>Style_Helpers\<close> and \<open>Styles_*\<close>: every template of the viewer with a lemma that it renders
    to a text with matching braces; \<open>Style_Catalogue\<close> lists them, \<open>Viewer_Properties\<close> holds the properties.
  \<^item> \<open>Uri\<close>: coding of URIs. \<open>Menu_Store\<close>: the side menu as a list of items with parents, its clicks, scrolling and
    changes of the hash; \<open>Menu_Invariant\<close>: which items are active and expanded.
  \<^item> \<open>Doc_Value\<close>: the values of an API document, objects as lists of fields in insertion order. \<open>Json_Pointer\<close>: the module
    json-pointer and the class over it. \<open>Js_Sort\<close>: sorting with a comparison that may be no order.
  \<^item> \<open>Openapi_Helpers\<close>, \<open>Openapi_Facts\<close>: response codes, constraints, names, parameters, extensions.
    \<open>Spec_Parser\<close>, \<open>Spec_Facts\<close>: following references with their stack, \<open>allOf\<close>, derived schemas.
    \<open>Document_Properties\<close>: the properties of the menu and the document.

  \<^bold>\<open>What the lemmas show.\<close> Queues: no file is lost or worked on twice, whatever plugins do, and which errors
  end a task. Database: preprocessing refines "remember the last entry of each object". Service: an
  invariant (\<open>service_inv\<close>) kept by all requests. Handlers: the target system changes only by the one
  call that the search asked for; the members a partial synchronisation sends. Merging and storing of
  configurations: path-wise meaning and round trips. API: who gets a token and for how long, that refused
  requests change nothing, that \<open>service_inv\<close> holds in every state the service can reach. Tools: the users of a school are
  written before its groups, and a run ends. Hook: the hashes sent reach the directory. Viewer: styles are
  balanced, rules refine a list of groups, rendering again changes nothing, theme resolution ends, the menu
  stays consistent, merged schemas have all fields and requirements, pointers are read back. Several
  theorems state what the code does where it fails its purpose; their texts say so.

  \<^bold>\<open>Bounds.\<close> The number of calls of theme functions is limited by the code itself (\<open>max_calls\<close>, 1000): the
  resolver has one unit of fuel more, and \<open>theme_resolution_ends\<close> shows that it is never used up. Growing
  the array of group sizes shifts a 32-bit number and is proved to end below \<open>2 ^ 31\<close>. The search for a
  free group number is \<open>while_option\<close>, shown to end as finitely many are taken. Following references is
  \<open>partial_function (option)\<close>: \<open>None\<close> is a run that does not return, for which there is one theorem and a lemma
  that it cannot happen when references can be ranked. Merging \<open>allOf\<close> has a depth as fuel, and more of it
  gives the same result (\<open>mergeAllOf_mono\<close>). The loops of the menu go towards an end of the list. All other
  recursion is structural or over a list of file names read beforehand.

  \<^bold>\<open>Parameters.\<close> Code outside the repository is an argument: pydantic's coercion of fields, ujson, diskcache,
  pluggy's registry, the directory server with ldap3, the JWT library, aiohttp, the Kelvin client,
  \<open>random.shuffle\<close>, the clock, SSL contexts; for the viewer stylis, polished and what the page shows. Messages
  between the API and the service may be answered, lost, or answered too late. What is relied on
  is a named hypothesis (\<open>cache_laws\<close>, \<open>keeps_name\<close>, \<open>finds_by_name\<close>, \<open>jwt_laws\<close>, \<open>directory_works\<close>, \<open>viewer_ok\<close>,
  ...), and \<open>Instances\<close> and the witnesses show that it can hold.

  \<^bold>\<open>Not modelled.\<close> The ZeroMQ socket, signals, the scheduler of jobs, the parsing of command lines and the
  pages of the documentation are glue around libraries; logging has no effect here. The cooperative
  scheduler interleaves tasks at every \<open>await\<close>: rounds of the queues and requests in any order, and
  deliveries between two steps of an out queue, are in the model, interleavings within a round are not.
  Of the bundle, everything else on its long minified lines (React, mobx, stylis, polished, the models of
  operations and schemas that the page is rendered from, Markdown, the search index, the conversion of old
  documents) is library and DOM code.
\<close>

section \<open>Queues\<close>

text \<open>
  C1: The task of an out queue never ends: from a queue whose listener files can all be loaded, every
  state that pinging, rounds of work and deliveries by the in queue (which loads a file before it
  copies it) can reach is a running one, whatever the plugins return or raise, and every listener file
  in it can still be loaded.
\<close>

theorem scan_task_survives:
  assumes "scan_run env hk (pinging, q, w) (ph, q', w')"
    and "wf_queue_dir (oq_dir q)" "loadable env (oq_dir q)"
  shows "(\<forall>e. ph \<noteq> ended e) \<and> loadable env (oq_dir q')"
  using scan_run_healthy [OF assms(1)] assms(2,3) by (simp add: healthy_def)

theorem scan_task_survives_witness:
  "\<exists>q' w'. scan_step ex_env ex_hooks (pinging, ex_out_queue, 0) = (working, q', w') \<and>
    loadable ex_env (oq_dir q')"
proof -
  let ?s = "(pinging, ex_out_queue, 0)"
  have step: "scan_step ex_env ex_hooks ?s = (working, ex_out_queue, 0)"
    by (simp only: scan_step.simps(1) ex_out_queue_sa ex_ping prod.case bool.case)
  have "scan_run ex_env ex_hooks ?s (working, ex_out_queue, 0)"
    using scan_run.step [OF scan_run.refl, of ex_env ex_hooks ?s] unfolding step .
  from scan_task_survives [OF this ex_out_queue_wf ex_out_queue_loadable] step show ?thesis
    by (intro exI [of _ ex_out_queue] exI [of _ 0] conjI) simp_all
qed

text \<open>
  C2: One round of an out queue, when its listener files can be loaded, raises nothing and asks for no
  new ping; afterwards exactly those files are left whose object type comes later in the sort order
  than the first type present. So all users are worked on, and gone, before any group is.
\<close>

theorem scan_round_users_first:
  assumes "wf_queue_dir (oq_dir q)" "loadable env (oq_dir q)"
    and "scan_round env hk (q, w) = (r, q', w')"
  shows "r = Inr False \<and> set (fst (queue_files (oq_dir q'))) =
      {n \<in> set (fst (queue_files (oq_dir q))).
         \<exists>m \<in> set (fst (queue_files (oq_dir q))). order_of env (oq_dir q) m < order_of env (oq_dir q) n}"
  using scan_round_files(1,3) [OF assms] by (auto simp: current_files_def not_le)

theorem scan_round_users_first_witness:
  "set (fst (queue_files (oq_dir (fst (snd (scan_round ex_env ex_hooks (ex_out_queue, 0))))))) = {''1.json''}"
proof -
  obtain r q' w' where sr: "scan_round ex_env ex_hooks (ex_out_queue, 0) = (r, q', w')"
    by (metis prod.exhaust)
  from scan_round_users_first [OF ex_out_queue_wf ex_out_queue_loadable this]
  have "set (fst (queue_files (oq_dir q'))) = {''1.json''}"
    unfolding ex_out_queue_files ex_later_files by (rule conjunct2)
  then show ?thesis unfolding sr by (simp only: fst_conv snd_conv)
qed

end
